(* ===== verification/Prelude.thy ===== *)
theory Prelude
  imports Main "HOL-Library.AList"
begin

text \<open>
  Shared vocabulary of the development: the errors a C++ call can end in, the standard containers
  the server uses (\<^verbatim>\<open>std::unordered_map\<close> and \<^verbatim>\<open>std::unordered_set\<close>) with the laws their
  clients rely on, and generic list lemmas.

  An unordered container is modelled by the list of its elements in iteration order. The C++
  standard leaves that order open; the model appends new elements at the end, and the theorems
  of the development never depend on it (they speak of \<^term>\<open>map_of\<close>, \<^term>\<open>set\<close> and lengths,
  or run both sides of an equation on the same container).
\<close>

named_theorems db_simps \<open>equations that unfold the elementary database steps\<close>
named_theorems wf_intros \<open>preservation of the database invariant\<close>

section \<open>Errors\<close>

text \<open>
  What a call can end in instead of returning: a C++ exception with its message, or undefined
  behaviour (a dangling iterator, a read past the end, signed overflow). Undefined behaviour is a
  value of its own, so that a theorem about a call says whether it can happen.
\<close>

datatype error =
    RuntimeError string
  | InvalidRequest string
  | InvalidArgument string
  | CorruptJournal string
  | WALError string
  | FilesystemError string
  | OutOfRange string
  | LengthError string
  | HasherError string
  | SocketError string
  | StackOverflow
  | UndefinedBehaviour

type_synonym 'a result = "error + 'a"

abbreviation undefined_behaviour :: "'a result" where
  "undefined_behaviour \<equiv> Inl UndefinedBehaviour"

definition bind_result :: "'a result \<Rightarrow> ('a \<Rightarrow> 'b result) \<Rightarrow> 'b result" where
  "bind_result m f = (case m of Inl e \<Rightarrow> Inl e | Inr a \<Rightarrow> f a)"

lemma bind_result_simps [simp]:
  "bind_result (Inl e) f = Inl e"
  "bind_result (Inr a) f = f a"
  by (simp_all add: bind_result_def)

lemma bind_result_Inr_iff:
  "bind_result m f = Inr b \<longleftrightarrow> (\<exists>a. m = Inr a \<and> f a = Inr b)"
  by (cases m) auto

section \<open>Integers of the machine\<close>

text \<open>The range of \<^verbatim>\<open>int64_t\<close>.\<close>

definition int64_ok :: "int \<Rightarrow> bool" where
  "int64_ok i \<longleftrightarrow> - (2 ^ 63) \<le> i \<and> i < 2 ^ 63"

section \<open>Lists\<close>

lemma set_map_filter: "set (List.map_filter f xs) = {y. \<exists>x \<in> set xs. f x = Some y}"
  by (induction xs) (auto simp: map_filter_simps split: option.splits)

lemma map_update_same [simp]: "(map f xs)[i := f (xs ! i)] = map f xs"
  by (metis list_update_id map_update)

section \<open>Unordered maps\<close>

text \<open>\<^verbatim>\<open>m.contains(k)\<close>; \<^verbatim>\<open>m[k] = v\<close> is \<^term>\<open>AList.update k v m\<close>, \<^verbatim>\<open>m.erase(k)\<close> is
  \<^term>\<open>AList.delete k m\<close>, \<^verbatim>\<open>m.at(k)\<close> is read through \<^term>\<open>map_of m k\<close>.\<close>

definition contains :: "('k \<times> 'v) list \<Rightarrow> 'k \<Rightarrow> bool" where
  "contains m k = (map_of m k \<noteq> None)"

lemma contains_iff: "contains m k \<longleftrightarrow> k \<in> fst ` set m"
  by (simp add: contains_def map_of_eq_None_iff)

lemma contains_update [simp]: "contains (AList.update k v m) k' \<longleftrightarrow> k' = k \<or> contains m k'"
  by (auto simp: contains_def update_conv)

lemma contains_delete [simp]: "contains (AList.delete k m) k' \<longleftrightarrow> k' \<noteq> k \<and> contains m k'"
  by (simp add: contains_def delete_conv)

lemma contains_Nil [simp]: "\<not> contains [] k"
  by (simp add: contains_def)

lemma delete_absent: "\<not> contains m k \<Longrightarrow> AList.delete k m = m"
  by (simp add: contains_iff delete_idem)

lemma length_update:
  "length (AList.update k v m) = (if contains m k then length m else Suc (length m))"
  by (induction m) (auto simp: contains_def)

lemma length_delete_present:
  assumes "distinct (map fst m)" and "contains m k"
  shows "Suc (length (AList.delete k m)) = length m"
  using assms
proof (induction m)
  case Nil
  then show ?case by simp
next
  case (Cons p m)
  show ?case
  proof (cases "fst p = k")
    case True
    with Cons.prems have "\<not> contains m k" by (auto simp: contains_iff)
    with True show ?thesis by (simp add: AList.delete_eq [symmetric] delete_absent)
  next
    case False
    with Cons.prems have "contains m k" by (auto simp: contains_iff)
    with Cons False show ?thesis by simp
  qed
qed

lemma update_fresh: "\<not> contains m k \<Longrightarrow> AList.update k v m = m @ [(k, v)]"
  by (induction m) (auto simp: contains_def split: if_splits)

lemma snd_update_subset: "snd ` set (AList.update k v m) \<subseteq> insert v (snd ` set m)"
  by (induction m) auto

lemma keys_delete [simp]: "fst ` set (AList.delete k m) = fst ` set m - {k}"
  by (auto simp: AList.delete_eq)

lemma set_delete_subset: "set (AList.delete k m) \<subseteq> set m"
  by (auto simp: AList.delete_eq)

text \<open>
  The interface of \<^verbatim>\<open>std::unordered_map\<close> as the server's components use it. The loops the
  components run over it (erase every key of a vector, assign every pair of another map) are
  verified here once.
\<close>

locale unordered_map =
  fixes empty_map :: "'m"
    and lookup :: "'m \<Rightarrow> 'k \<Rightarrow> 'v option"
    and assign :: "'k \<Rightarrow> 'v \<Rightarrow> 'm \<Rightarrow> 'm"
    and erase :: "'k \<Rightarrow> 'm \<Rightarrow> 'm"
    and size_of :: "'m \<Rightarrow> nat"
    and invar :: "'m \<Rightarrow> bool"
  assumes lookup_empty: "lookup empty_map k = None"
    and lookup_assign: "lookup (assign k v m) k' = (if k' = k then Some v else lookup m k')"
    and lookup_erase: "lookup (erase k m) k' = (if k' = k then None else lookup m k')"
    and size_assign: "invar m \<Longrightarrow> size_of (assign k v m) =
          (if lookup m k = None then Suc (size_of m) else size_of m)"
    and size_erase: "invar m \<Longrightarrow> lookup m k \<noteq> None \<Longrightarrow> Suc (size_of (erase k m)) = size_of m"
    and erase_missing: "lookup m k = None \<Longrightarrow> erase k m = m"
    and invar_empty: "invar empty_map"
    and invar_assign: "invar m \<Longrightarrow> invar (assign k v m)"
    and invar_erase: "invar m \<Longrightarrow> invar (erase k m)"
begin

lemma fold_erase_lookup:
  "lookup (fold erase ks m) k = (if k \<in> set ks then None else lookup m k)"
  by (induction ks arbitrary: m) (auto simp: lookup_erase)

lemma fold_erase_invar: "invar m \<Longrightarrow> invar (fold erase ks m)"
  by (induction ks arbitrary: m) (auto simp: invar_erase)

lemma fold_erase_size:
  assumes "invar m"
  shows "size_of (fold erase ks m) + card {k \<in> set ks. lookup m k \<noteq> None} = size_of m"
  using assms
proof (induction ks arbitrary: m)
  case Nil
  then show ?case by simp
next
  case (Cons k ks)
  let ?A = "{k' \<in> set ks. lookup (erase k m) k' \<noteq> None}"
  let ?B = "{k' \<in> set (k # ks). lookup m k' \<noteq> None}"
  have IH: "size_of (fold erase ks (erase k m)) + card ?A = size_of (erase k m)"
    using Cons by (simp add: invar_erase)
  show ?case
  proof (cases "lookup m k = None")
    case True
    then have "?B = ?A" by (auto simp: lookup_erase)
    with IH True show ?thesis by (simp add: erase_missing)
  next
    case False
    then have "?B = insert k ?A" and "k \<notin> ?A" by (auto simp: lookup_erase)
    then have "card ?B = Suc (card ?A)" by simp
    with IH False Cons.prems show ?thesis by (simp add: size_erase [symmetric])
  qed
qed

lemma fold_assign_lookup:
  "distinct (map fst kvs) \<Longrightarrow>
    lookup (fold (\<lambda>(k, v). assign k v) kvs m) k =
      (case map_of kvs k of Some v \<Rightarrow> Some v | None \<Rightarrow> lookup m k)"
proof (induction kvs arbitrary: m)
  case Nil
  then show ?case by simp
next
  case (Cons p kvs)
  moreover have "map_of kvs (fst p) = None"
    using Cons.prems by (auto simp: map_of_eq_None_iff)
  ultimately show ?case
    by (cases p) (auto simp: lookup_assign split: option.splits)
qed

end

interpretation alist_map: unordered_map
  "[] :: ('k \<times> 'v) list" map_of AList.update AList.delete length "\<lambda>m. distinct (map fst m)"
proof unfold_locales
  fix m :: "('k \<times> 'v) list" and k k' :: 'k and v :: 'v
  show "map_of [] k = None" by simp
  show "map_of (AList.update k v m) k' = (if k' = k then Some v else map_of m k')"
    by (simp add: update_conv)
  show "map_of (AList.delete k m) k' = (if k' = k then None else map_of m k')"
    by (simp add: delete_conv)
  show "length (AList.update k v m) = (if map_of m k = None then Suc (length m) else length m)"
    by (simp add: length_update contains_def)
  show "distinct (map fst m) \<Longrightarrow> map_of m k \<noteq> None \<Longrightarrow> Suc (length (AList.delete k m)) = length m"
    by (simp add: length_delete_present contains_def)
  show "map_of m k = None \<Longrightarrow> AList.delete k m = m"
    by (simp add: delete_absent contains_def)
  show "distinct (map fst ([] :: ('k \<times> 'v) list))" by simp
  show "distinct (map fst m) \<Longrightarrow> distinct (map fst (AList.update k v m))"
    by (rule distinct_update)
  show "distinct (map fst m) \<Longrightarrow> distinct (map fst (AList.delete k m))"
    by (rule distinct_delete)
qed

section \<open>Unordered sets\<close>

text \<open>\<^verbatim>\<open>s.insert(x)\<close> keeps a set that has \<open>x\<close>; \<^verbatim>\<open>s.erase(x)\<close> removes it; \<^verbatim>\<open>s.merge(t)\<close>
  moves over the elements of \<open>t\<close> that \<open>s\<close> does not have.\<close>

definition uset_insert :: "'a \<Rightarrow> 'a list \<Rightarrow> 'a list" where
  "uset_insert x s = (if x \<in> set s then s else s @ [x])"

definition uset_erase :: "'a \<Rightarrow> 'a list \<Rightarrow> 'a list" where
  "uset_erase x s = filter (\<lambda>y. y \<noteq> x) s"

definition uset_merge :: "'a list \<Rightarrow> 'a list \<Rightarrow> 'a list" where
  "uset_merge s t = fold uset_insert t s"

locale unordered_set =
  fixes elems :: "'s \<Rightarrow> 'a set"
    and insert_elem :: "'a \<Rightarrow> 's \<Rightarrow> 's"
    and erase_elem :: "'a \<Rightarrow> 's \<Rightarrow> 's"
    and size_of :: "'s \<Rightarrow> nat"
    and invar :: "'s \<Rightarrow> bool"
  assumes elems_insert: "elems (insert_elem x s) = insert x (elems s)"
    and elems_erase: "elems (erase_elem x s) = elems s - {x}"
    and finite_elems: "finite (elems s)"
    and size_elems: "invar s \<Longrightarrow> size_of s = card (elems s)"
    and invar_insert: "invar s \<Longrightarrow> invar (insert_elem x s)"
    and invar_erase: "invar s \<Longrightarrow> invar (erase_elem x s)"
begin

lemma fold_insert_elems: "elems (fold insert_elem xs s) = elems s \<union> set xs"
  by (induction xs arbitrary: s) (auto simp: elems_insert)

lemma fold_erase_elems: "elems (fold erase_elem xs s) = elems s - set xs"
  by (induction xs arbitrary: s) (auto simp: elems_erase)

lemma fold_insert_invar: "invar s \<Longrightarrow> invar (fold insert_elem xs s)"
  by (induction xs arbitrary: s) (auto simp: invar_insert)

lemma fold_erase_invar: "invar s \<Longrightarrow> invar (fold erase_elem xs s)"
  by (induction xs arbitrary: s) (auto simp: invar_erase)

lemma fold_insert_added:
  assumes "invar s"
  shows "size_of (fold insert_elem xs s) - size_of s = card (set xs - elems s)"
proof -
  have "card (elems s \<union> (set xs - elems s)) = card (elems s) + card (set xs - elems s)"
    by (rule card_Un_disjoint) (auto simp: finite_elems)
  then show ?thesis
    using assms by (simp add: size_elems fold_insert_invar fold_insert_elems)
qed

lemma fold_erase_removed:
  assumes "invar s"
  shows "size_of s - size_of (fold erase_elem xs s) = card (elems s \<inter> set xs)"
proof -
  have "card (elems s) = card (elems s - set xs) + card (elems s \<inter> set xs)"
    by (metis card_Diff_subset_Int finite_elems finite_Int card_mono Int_lower1 le_add_diff_inverse2)
  then show ?thesis
    using assms by (simp add: size_elems fold_erase_invar fold_erase_elems)
qed

end

interpretation list_set: unordered_set set uset_insert uset_erase length distinct
  by unfold_locales (auto simp: uset_insert_def uset_erase_def distinct_card)

lemma set_uset_merge [simp]: "set (uset_merge s t) = set s \<union> set t"
  by (simp add: uset_merge_def list_set.fold_insert_elems)

lemma distinct_uset_merge [simp]: "distinct s \<Longrightarrow> distinct (uset_merge s t)"
  by (simp add: uset_merge_def list_set.fold_insert_invar)

end
