(* ===== verification/Database_Types.thy ===== *)
theory Database_Types
  imports Prelude "HOL-Library.Word"
begin

text \<open>
  The value and state types of a database (\<^verbatim>\<open>vanity/db/db/types.h\<close>, \<^verbatim>\<open>base_map.h\<close>, and the
  fields of \<^verbatim>\<open>expiry_database.h\<close> and \<^verbatim>\<open>database.h\<close>), with the well-formedness invariant every
  operation keeps.

  A \<^verbatim>\<open>std::string\<close> is a list of bytes (\<^typ>\<open>char\<close>). An \<^verbatim>\<open>int64_t\<close> is an \<^typ>\<open>int\<close> in the
  range \<^const>\<open>int64_ok\<close>. A \<^verbatim>\<open>double\<close> is its 64-bit pattern; the one arithmetic operation the
  databases do on it is a parameter where it is used. A time point is its tick count.
\<close>

type_synonym string_t = string
type_synonym int_t = int
type_synonym float_t = "64 word"
type_synonym list_t = "string_t list"
type_synonym set_t = "string_t list"
type_synonym hash_t = "(string_t \<times> string_t) list"
type_synonym time_t = int
type_synonym key_t = string_t

datatype data_type =
    VStr string_t
  | VInt int_t
  | VFloat float_t
  | VList list_t
  | VSet set_t
  | VHash hash_t

text \<open>\<^verbatim>\<open>std::variant::index()\<close>\<close>

fun data_index :: "data_type \<Rightarrow> nat" where
  "data_index (VStr _) = 0"
| "data_index (VInt _) = 1"
| "data_index (VFloat _) = 2"
| "data_index (VList _) = 3"
| "data_index (VSet _) = 4"
| "data_index (VHash _) = 5"

text \<open>The state of one database object. The class hierarchy shares one \<^verbatim>\<open>BaseDatabase\<close> by virtual
  inheritance, so its fields form one record. \<open>pre_expire_calls\<close> is the sequence of calls made to
  the virtual hook \<^verbatim>\<open>pre_expire\<close>: a plain database ignores them, a locked database turns each
  into a WAL entry.\<close>

record database =
  m_data :: "(key_t \<times> data_type) list"
  m_expiry_times :: "(key_t \<times> time_t) list"
  m_expiry_enabled :: bool
  m_index :: nat
  pre_expire_calls :: "key_t list"

text \<open>\<^verbatim>\<open>Database::Database(index)\<close>: empty maps, expiry enabled.\<close>

definition new_database :: "nat \<Rightarrow> database" where
  "new_database index = \<lparr>m_data = [], m_expiry_times = [], m_expiry_enabled = True,
     m_index = index, pre_expire_calls = []\<rparr>"

section \<open>The invariant\<close>

fun wf_value :: "data_type \<Rightarrow> bool" where
  "wf_value (VInt i) \<longleftrightarrow> int64_ok i"
| "wf_value (VList l) \<longleftrightarrow> l \<noteq> []"
| "wf_value (VSet s) \<longleftrightarrow> distinct s"
| "wf_value (VHash h) \<longleftrightarrow> distinct (map fst h)"
| "wf_value _ \<longleftrightarrow> True"

text \<open>Keys are unique, an expiry time belongs to a stored key, stored containers are well formed;
  in particular a stored list is never empty (the operations delete a key whose list runs empty).\<close>

definition wf_db :: "database \<Rightarrow> bool" where
  "wf_db db \<longleftrightarrow>
     distinct (map fst (m_data db)) \<and>
     distinct (map fst (m_expiry_times db)) \<and>
     fst ` set (m_expiry_times db) \<subseteq> fst ` set (m_data db) \<and>
     (\<forall>v \<in> snd ` set (m_data db). wf_value v)"

lemma wf_db_new [wf_intros, intro!, simp]: "wf_db (new_database i)"
  by (simp add: wf_db_def new_database_def)

lemma wf_db_distinct_data [dest]: "wf_db db \<Longrightarrow> distinct (map fst (m_data db))"
  by (simp add: wf_db_def)

lemma wf_db_value: "wf_db db \<Longrightarrow> map_of (m_data db) k = Some v \<Longrightarrow> wf_value v"
  by (force simp: wf_db_def dest: map_of_SomeD)

text \<open>A stored expiry time has a stored key, read through the maps.\<close>

lemma wf_db_time_key: "wf_db db \<Longrightarrow> map_of (m_data db) k = None \<Longrightarrow> map_of (m_expiry_times db) k = None"
  by (auto simp: wf_db_def map_of_eq_None_iff)

section \<open>Elementary writes\<close>

text \<open>\<^verbatim>\<open>m_data[key] = value\<close>, also used for an update through a reference into the map.\<close>

definition put_data :: "key_t \<Rightarrow> data_type \<Rightarrow> database \<Rightarrow> database" where
  "put_data k v db = db\<lparr>m_data := AList.update k v (m_data db)\<rparr>"

lemma put_data_simps [simp]:
  "m_data (put_data k v db) = AList.update k v (m_data db)"
  "m_expiry_times (put_data k v db) = m_expiry_times db"
  "m_expiry_enabled (put_data k v db) = m_expiry_enabled db"
  "m_index (put_data k v db) = m_index db"
  "pre_expire_calls (put_data k v db) = pre_expire_calls db"
  by (simp_all add: put_data_def)

lemma wf_put_data [wf_intros]: "wf_db db \<Longrightarrow> wf_value v \<Longrightarrow> wf_db (put_data k v db)"
proof -
  assume wf: "wf_db db" and v: "wf_value v"
  have "\<forall>x \<in> snd ` set (AList.update k v (m_data db)). wf_value x"
  proof
    fix x assume "x \<in> snd ` set (AList.update k v (m_data db))"
    then have "x \<in> insert v (snd ` set (m_data db))"
      by (rule subsetD [OF snd_update_subset])
    with wf v show "wf_value x" by (auto simp: wf_db_def)
  qed
  with wf show ?thesis
    by (simp add: wf_db_def distinct_update dom_update subset_insertI2)
qed

end
