(* ===== verification/Serializer.thy ===== *)
theory Serializer
  imports Database_Types
begin

text \<open>
  \<^verbatim>\<open>vanity/utils/serializer.h\<close>: the binary format of the database file and of the write ahead log.
  Bytes are characters. An integer is its object representation, low byte first (the byte order
  of the machine; no theorem depends on it).

  An input stream is \<open>Some rest\<close> while it is good, with the bytes still unread, and \<^const>\<open>None\<close> once
  a read has run past the end of the file. Reading an arithmetic value from a stream that does not
  hold it leaves the local variable uninitialised, so that using it is undefined behaviour; reading
  a string pads it with zero bytes and fails the stream.

  The locale \<open>codec\<close> is the contract between \<open>write\<close> and \<open>read\<close>: what was written is read
  back, and the stream stands behind it.
\<close>

type_synonym istream = "string option"
type_synonym 'a reader = "istream \<Rightarrow> ('a \<times> istream) result"

section \<open>Numbers\<close>

fun le_bytes :: "nat \<Rightarrow> nat \<Rightarrow> string" where
  "le_bytes 0 n = []"
| "le_bytes (Suc w) n = char_of (n mod 256) # le_bytes w (n div 256)"

fun le_nat :: "string \<Rightarrow> nat" where
  "le_nat [] = 0"
| "le_nat (c # cs) = of_char c + 256 * le_nat cs"

text \<open>\<^verbatim>\<open>write\<close> and \<^verbatim>\<open>read\<close> of an unsigned value of \<open>w\<close> bytes.\<close>

definition write_arith :: "nat \<Rightarrow> nat \<Rightarrow> string" where
  "write_arith w n = le_bytes w n"

definition read_arith :: "nat \<Rightarrow> nat reader" where
  "read_arith w s =
     (case s of
        Some bs \<Rightarrow> if w \<le> length bs then Inr (le_nat (take w bs), Some (drop w bs)) else undefined_behaviour
      | None \<Rightarrow> undefined_behaviour)"

definition signed :: "nat \<Rightarrow> nat \<Rightarrow> int" where
  "signed w n = (if n < 2 ^ (8 * w - 1) then int n else int n - 2 ^ (8 * w))"

text \<open>The same for a signed value in two's complement.\<close>

definition write_signed :: "nat \<Rightarrow> int \<Rightarrow> string" where
  "write_signed w i = le_bytes w (nat (i mod 2 ^ (8 * w)))"

definition read_signed :: "nat \<Rightarrow> int reader" where
  "read_signed w s = bind_result (read_arith w s) (\<lambda>(n, s). Inr (signed w n, s))"

definition write_size :: "nat \<Rightarrow> string" where
  "write_size n = write_arith 8 n"

definition write_int :: "int_t \<Rightarrow> string" where
  "write_int = write_signed 8"

definition read_int :: "int_t reader" where
  "read_int = read_signed 8"

text \<open>A \<^verbatim>\<open>double\<close>, by its bit pattern.\<close>

definition write_float :: "float_t \<Rightarrow> string" where
  "write_float x = write_arith 8 (unat x)"

definition read_float :: "float_t reader" where
  "read_float s = bind_result (read_arith 8 s) (\<lambda>(n, s). Inr (word_of_nat n, s))"

text \<open>A time point, by its tick count.\<close>

definition write_time :: "time_t \<Rightarrow> string" where
  "write_time = write_signed 8"

definition read_time :: "time_t reader" where
  "read_time = read_signed 8"

section \<open>Strings and containers\<close>

definition write_string :: "string_t \<Rightarrow> string" where
  "write_string s = write_size (length s) @ s"

text \<open>\<^verbatim>\<open>str.resize(size)\<close> throws for a negative size, which converts to a huge one.\<close>

definition read_string :: "string_t reader" where
  "read_string s =
     bind_result (read_signed 8 s) (\<lambda>(size, s).
       if size < 0 then Inl (RuntimeError ''length_error'')
       else case s of
         None \<Rightarrow> Inr (replicate (nat size) CHR 0x00, None)
       | Some bs \<Rightarrow>
           if nat size \<le> length bs then Inr (take (nat size) bs, Some (drop (nat size) bs))
           else Inr (bs @ replicate (nat size - length bs) CHR 0x00, None))"

text \<open>A loop that reads a number of values in order.\<close>

fun read_n :: "'a reader \<Rightarrow> nat \<Rightarrow> 'a list reader" where
  "read_n rd 0 s = Inr ([], s)"
| "read_n rd (Suc n) s =
     bind_result (rd s) (\<lambda>(x, s). bind_result (read_n rd n s) (\<lambda>(xs, s). Inr (x # xs, s)))"

definition write_pair :: "('a \<Rightarrow> string) \<Rightarrow> ('b \<Rightarrow> string) \<Rightarrow> 'a \<times> 'b \<Rightarrow> string" where
  "write_pair wa wb p = wa (fst p) @ wb (snd p)"

definition read_pair :: "'a reader \<Rightarrow> 'b reader \<Rightarrow> ('a \<times> 'b) reader" where
  "read_pair ra rb s =
     bind_result (ra s) (\<lambda>(a, s). bind_result (rb s) (\<lambda>(b, s). Inr ((a, b), s)))"

definition write_list :: "list_t \<Rightarrow> string" where
  "write_list l = write_size (length l) @ concat (map write_string l)"

text \<open>The loop bound is signed: a negative size reads nothing.\<close>

definition read_list :: "list_t reader" where
  "read_list s = bind_result (read_signed 8 s) (\<lambda>(size, s). read_n read_string (nat size) s)"

definition write_set :: "set_t \<Rightarrow> string" where
  "write_set l = write_size (length l) @ concat (map write_string l)"

definition read_set :: "set_t reader" where
  "read_set s =
     bind_result (read_signed 8 s) (\<lambda>(size, s).
       bind_result (read_n read_string (nat size) s) (\<lambda>(xs, s). Inr (fold uset_insert xs [], s)))"

definition write_hash :: "hash_t \<Rightarrow> string" where
  "write_hash h = write_size (length h) @ concat (map (write_pair write_string write_string) h)"

definition read_hash :: "hash_t reader" where
  "read_hash s =
     bind_result (read_signed 8 s) (\<lambda>(size, s).
       bind_result (read_n (read_pair read_string read_string) (nat size) s)
         (\<lambda>(kvs, s). Inr (fold (\<lambda>(k, v). AList.update k v) kvs [], s)))"

definition write_vector :: "string_t list \<Rightarrow> string" where
  "write_vector v = write_size (length v) @ concat (map write_string v)"

definition read_vector :: "string_t list reader" where
  "read_vector s = bind_result (read_arith 8 s) (\<lambda>(size, s). read_n read_string size s)"

definition write_data :: "data_type \<Rightarrow> string" where
  "write_data value =
     write_signed 1 (int (data_index value)) @
     (case value of
        VStr s \<Rightarrow> write_string s
      | VInt i \<Rightarrow> write_int i
      | VFloat f \<Rightarrow> write_float f
      | VList l \<Rightarrow> write_list l
      | VSet s \<Rightarrow> write_set s
      | VHash h \<Rightarrow> write_hash h)"

definition map_reader :: "('a \<Rightarrow> 'b) \<Rightarrow> 'a reader \<Rightarrow> 'b reader" where
  "map_reader f rd s = bind_result (rd s) (\<lambda>(x, s). Inr (f x, s))"

definition read_data :: "data_type reader" where
  "read_data s =
     bind_result (read_signed 1 s) (\<lambda>(index, s).
       if index = 0 then map_reader VStr read_string s
       else if index = 1 then map_reader VInt read_int s
       else if index = 2 then map_reader VFloat read_float s
       else if index = 3 then map_reader VList read_list s
       else if index = 4 then map_reader VSet read_set s
       else if index = 5 then map_reader VHash read_hash s
       else Inl (RuntimeError ''invalid type''))"

text \<open>\<^verbatim>\<open>write\<close> of an unordered map: its size, then its pairs in iteration order.\<close>

definition write_map :: "('v \<Rightarrow> string) \<Rightarrow> (string_t \<times> 'v) list \<Rightarrow> string" where
  "write_map wv m = write_size (length m) @ concat (map (write_pair write_string wv) m)"

section \<open>The contract of a codec\<close>

locale codec =
  fixes enc :: "'a \<Rightarrow> string"
    and dec :: "'a reader"
    and valid :: "'a \<Rightarrow> bool"
  assumes round_trip: "valid x \<Longrightarrow> dec (Some (enc x @ rest)) = Inr (x, Some rest)"
begin

lemma read_n_round_trip:
  "\<forall>x \<in> set xs. valid x \<Longrightarrow>
     read_n dec (length xs) (Some (concat (map enc xs) @ rest)) = Inr (xs, Some rest)"
  by (induction xs) (simp_all add: round_trip)

lemma map_round_trip:
  "valid x \<Longrightarrow> map_reader f dec (Some (enc x @ rest)) = Inr (f x, Some rest)"
  by (simp add: map_reader_def round_trip)

text \<open>Encodings are uniquely decodable, also when more bytes follow.\<close>

lemma enc_prefix_free:
  assumes "valid x" and "valid y" and "enc x @ r = enc y @ s"
  shows "x = y \<and> r = s"
proof -
  have "Inr (x, Some r) = dec (Some (enc x @ r))" by (rule round_trip [OF assms(1), symmetric])
  also have "\<dots> = Inr (y, Some s)" unfolding assms(3) by (rule round_trip [OF assms(2)])
  finally show ?thesis by simp
qed

end

locale two_codecs = left: codec enc_a dec_a valid_a + right: codec enc_b dec_b valid_b
  for enc_a :: "'a \<Rightarrow> string" and dec_a :: "'a reader" and valid_a :: "'a \<Rightarrow> bool"
    and enc_b :: "'b \<Rightarrow> string" and dec_b :: "'b reader" and valid_b :: "'b \<Rightarrow> bool"

sublocale two_codecs \<subseteq> pair: codec "write_pair enc_a enc_b" "read_pair dec_a dec_b"
    "\<lambda>p. valid_a (fst p) \<and> valid_b (snd p)"
proof unfold_locales
  fix p :: "'a \<times> 'b" and rest
  assume p: "valid_a (fst p) \<and> valid_b (snd p)"
  then have "dec_a (Some (enc_a (fst p) @ (enc_b (snd p) @ rest))) = Inr (fst p, Some (enc_b (snd p) @ rest))"
    and "dec_b (Some (enc_b (snd p) @ rest)) = Inr (snd p, Some rest)"
    by (blast intro: left.round_trip right.round_trip)+
  then show "read_pair dec_a dec_b (Some (write_pair enc_a enc_b p @ rest)) = Inr (p, Some rest)"
    by (simp add: write_pair_def read_pair_def)
qed

section \<open>The codecs of the server\<close>

lemma length_le_bytes [simp]: "length (le_bytes w n) = w"
  by (induction w arbitrary: n) simp_all

lemma le_nat_le_bytes: "n < 256 ^ w \<Longrightarrow> le_nat (le_bytes w n) = n"
proof (induction w arbitrary: n)
  case 0
  then show ?case by simp
next
  case (Suc w)
  then have "n div 256 < 256 ^ w" by (simp add: less_mult_imp_div_less mult.commute)
  with Suc.IH show ?case by (simp add: of_char_of)
qed

interpretation arith: codec "write_arith w" "read_arith w" "\<lambda>n. n < 256 ^ w"
  by unfold_locales (simp add: write_arith_def read_arith_def le_nat_le_bytes)

lemma signed_wrap:
  assumes "0 < w" and "- (2 ^ (8 * w - 1)) \<le> i" and "i < 2 ^ (8 * w - 1)"
  shows "signed w (nat (i mod 2 ^ (8 * w))) = i"
proof -
  have half: "(2 :: int) ^ (8 * w) = 2 * 2 ^ (8 * w - 1)"
    using assms(1) by (simp flip: power_Suc)
  show ?thesis
  proof (cases "0 \<le> i")
    case True
    then have "i mod 2 ^ (8 * w) = i" using assms(3) half by (intro mod_pos_pos_trivial) auto
    moreover have "nat i < 2 ^ (8 * w - 1)" using True assms(3) by (simp add: nat_less_iff)
    ultimately show ?thesis using True by (simp add: signed_def)
  next
    case False
    have "i mod 2 ^ (8 * w) = (i + 2 ^ (8 * w)) mod 2 ^ (8 * w)" by simp
    also have "\<dots> = i + 2 ^ (8 * w)"
      using False assms(2) half by (intro mod_pos_pos_trivial) auto
    finally have "i mod 2 ^ (8 * w) = i + 2 ^ (8 * w)" .
    moreover have "\<not> nat (i + 2 ^ (8 * w)) < 2 ^ (8 * w - 1)"
      using assms(2) half by (simp add: nat_less_iff not_less)
    moreover have "0 \<le> i + 2 ^ (8 * w)" using assms(2) half by (smt (verit) zero_le_power)
    ultimately show ?thesis by (simp add: signed_def)
  qed
qed

lemma signed_read_back:
  assumes "0 < w" and "- (2 ^ (8 * w - 1)) \<le> i" and "i < 2 ^ (8 * w - 1)"
  shows "read_signed w (Some (write_signed w i @ rest)) = Inr (i, Some rest)"
proof -
  have "nat (i mod 2 ^ (8 * w)) < 256 ^ w"
    by (simp add: nat_less_iff power_mult)
  then have "read_arith w (Some (write_signed w i @ rest)) = Inr (nat (i mod 2 ^ (8 * w)), Some rest)"
    using arith.round_trip [of "nat (i mod 2 ^ (8 * w))" w rest]
    by (simp add: write_arith_def write_signed_def)
  then show ?thesis using signed_wrap [OF assms] by (simp add: read_signed_def)
qed

interpretation int64: codec write_int read_int int64_ok
  by unfold_locales (simp add: write_int_def read_int_def int64_ok_def signed_read_back)

interpretation float: codec write_float read_float "\<lambda>_. True"
proof unfold_locales
  fix x :: float_t and rest
  have "unat x < 256 ^ 8" using unsigned_less [where 'a = nat, of x] by simp
  then show "read_float (Some (write_float x @ rest)) = Inr (x, Some rest)"
    by (simp add: write_float_def read_float_def arith.round_trip)
qed

interpretation time: codec write_time read_time int64_ok
  by unfold_locales (simp add: write_time_def read_time_def int64_ok_def signed_read_back)

text \<open>A size is written unsigned and, for the containers, read signed: the two agree below
  \<open>2 ^ 63\<close>, which no object in memory exceeds.\<close>

abbreviation small :: "'a list \<Rightarrow> bool" where
  "small xs \<equiv> length xs < 2 ^ 63"

lemma size_read_signed:
  "n < 2 ^ 63 \<Longrightarrow> read_signed 8 (Some (write_size n @ rest)) = Inr (int n, Some rest)"
  by (simp add: read_signed_def write_size_def arith.round_trip signed_def)

interpretation string: codec write_string read_string small
  by unfold_locales (simp add: write_string_def read_string_def size_read_signed)

definition valid_strings :: "string_t list \<Rightarrow> bool" where
  "valid_strings l \<longleftrightarrow> small l \<and> (\<forall>s \<in> set l. small s)"

definition valid_hash :: "hash_t \<Rightarrow> bool" where
  "valid_hash h \<longleftrightarrow> small h \<and> distinct (map fst h) \<and> (\<forall>(k, v) \<in> set h. small k \<and> small v)"

interpretation list: codec write_list read_list valid_strings
  by unfold_locales
     (simp add: write_list_def read_list_def valid_strings_def size_read_signed string.read_n_round_trip)

interpretation vector: codec write_vector read_vector valid_strings
  by unfold_locales
     (simp add: write_vector_def read_vector_def valid_strings_def write_size_def arith.round_trip
       string.read_n_round_trip)

lemma fold_insert_distinct: "distinct (s @ xs) \<Longrightarrow> fold uset_insert xs s = s @ xs"
  by (induction xs arbitrary: s) (auto simp: uset_insert_def)

interpretation set: codec write_set read_set "\<lambda>s. valid_strings s \<and> distinct s"
  by unfold_locales
     (simp add: write_set_def read_set_def valid_strings_def size_read_signed string.read_n_round_trip
       fold_insert_distinct)

lemma fold_update_distinct:
  "distinct (map fst (m @ kvs)) \<Longrightarrow> fold (\<lambda>(k, v). AList.update k v) kvs m = m @ kvs"
proof (induction kvs arbitrary: m)
  case Nil
  then show ?case by simp
next
  case (Cons p kvs)
  then have "\<not> contains m (fst p)" by (auto simp: contains_iff)
  then have "AList.update (fst p) (snd p) m = m @ [p]" by (simp add: update_fresh)
  with Cons show ?case by (simp add: case_prod_unfold)
qed

interpretation string_pair: two_codecs write_string read_string small write_string read_string small ..

interpretation hash: codec write_hash read_hash valid_hash
proof unfold_locales
  fix h :: hash_t and rest
  assume h: "valid_hash h"
  then have "read_n (read_pair read_string read_string) (length h)
      (Some (concat (map (write_pair write_string write_string) h) @ rest)) = Inr (h, Some rest)"
    by (intro string_pair.pair.read_n_round_trip) (auto simp: valid_hash_def)
  with h show "read_hash (Some (write_hash h @ rest)) = Inr (h, Some rest)"
    by (simp add: write_hash_def read_hash_def valid_hash_def size_read_signed fold_update_distinct)
qed

fun valid_data :: "data_type \<Rightarrow> bool" where
  "valid_data (VStr s) \<longleftrightarrow> small s"
| "valid_data (VInt i) \<longleftrightarrow> int64_ok i"
| "valid_data (VFloat _) \<longleftrightarrow> True"
| "valid_data (VList l) \<longleftrightarrow> valid_strings l"
| "valid_data (VSet s) \<longleftrightarrow> valid_strings s \<and> distinct s"
| "valid_data (VHash h) \<longleftrightarrow> valid_hash h"

lemma index_read_back:
  "n < 6 \<Longrightarrow> read_signed 1 (Some (write_signed 1 (int n) @ rest)) = Inr (int n, Some rest)"
  by (rule signed_read_back) auto

interpretation data: codec write_data read_data valid_data
proof unfold_locales
  fix x rest
  assume v: "valid_data x"
  have "data_index x < 6" by (cases x) simp_all
  then show "read_data (Some (write_data x @ rest)) = Inr (x, Some rest)"
    using v
    by (cases x)
       (simp_all add: write_data_def read_data_def index_read_back [where n = 0, simplified]
         index_read_back [where n = 1, simplified] index_read_back [where n = 2, simplified]
         index_read_back [where n = 3, simplified] index_read_back [where n = 4, simplified]
         index_read_back [where n = 5, simplified]
         string.map_round_trip int64.map_round_trip float.map_round_trip list.map_round_trip
         set.map_round_trip hash.map_round_trip)
qed

interpretation data_pair: two_codecs write_string read_string small write_data read_data valid_data ..

interpretation time_pair: two_codecs write_string read_string small write_time read_time int64_ok ..

end
