(* ===== verification/Db_Operations.thy ===== *)
theory Db_Operations
  imports Serializer
begin

text \<open>
  \<^verbatim>\<open>vanity/db/db/db_operations.h\<close>, \<^verbatim>\<open>vanity/db/wal/wal_entry_t.h\<close> and \<^verbatim>\<open>vanity/db/trn_constants.h\<close>: the
  codes of the database operations, which of them are written to the write ahead log, the kinds of
  log entries, and the reserved transaction ids.
\<close>

section \<open>Operation codes\<close>

datatype (plugins only: size) db_op_t =
    op_begin
  | op_commit
  | op_discard
  | op_reset
  | op_has
  | op_del
  | op_get
  | op_type
  | op_keys
  | op_copy_to
  | op_move_to
  | op_copy_to_db
  | op_move_to_db
  | op_clear_expiry
  | op_set_expiry
  | op_get_expiry
  | op_clear_all_expiry
  | op_str_set
  | op_int_set
  | op_float_set
  | op_incr_int
  | op_incr_float
  | op_str_len
  | op_many_get
  | op_many_set
  | op_list_len
  | op_list_get
  | op_list_set
  | op_list_push_left
  | op_list_push_right
  | op_list_pop_left
  | op_list_pop_right
  | op_list_range
  | op_list_trim
  | op_list_remove
  | op_set_add
  | op_set_all
  | op_set_remove
  | op_set_discard
  | op_set_len
  | op_set_contains
  | op_set_move
  | op_set_union
  | op_set_union_into
  | op_set_union_len
  | op_set_intersection
  | op_set_intersection_into
  | op_set_intersection_len
  | op_set_difference
  | op_set_difference_into
  | op_set_difference_len
  | op_hash_set
  | op_hash_all
  | op_hash_get
  | op_hash_contains
  | op_hash_len
  | op_hash_key_len
  | op_hash_remove
  | op_hash_keys
  | op_hash_values
  | op_hash_update
  | op_hash_many_get

text \<open>The enumerators in order: the value of an enumerator is its position.\<close>

definition db_ops :: "db_op_t list" where
  "db_ops =
     [op_begin, op_commit, op_discard, op_reset, op_has,
      op_del, op_get, op_type, op_keys, op_copy_to,
      op_move_to, op_copy_to_db, op_move_to_db, op_clear_expiry, op_set_expiry,
      op_get_expiry, op_clear_all_expiry, op_str_set, op_int_set, op_float_set,
      op_incr_int, op_incr_float, op_str_len, op_many_get, op_many_set,
      op_list_len, op_list_get, op_list_set, op_list_push_left, op_list_push_right,
      op_list_pop_left, op_list_pop_right, op_list_range, op_list_trim, op_list_remove,
      op_set_add, op_set_all, op_set_remove, op_set_discard, op_set_len,
      op_set_contains, op_set_move, op_set_union, op_set_union_into, op_set_union_len,
      op_set_intersection, op_set_intersection_into, op_set_intersection_len, op_set_difference, op_set_difference_into,
      op_set_difference_len, op_hash_set, op_hash_all, op_hash_get, op_hash_contains,
      op_hash_len, op_hash_key_len, op_hash_remove, op_hash_keys, op_hash_values,
      op_hash_update, op_hash_many_get]"

fun op_index :: "db_op_t list \<Rightarrow> db_op_t \<Rightarrow> nat" where
  "op_index [] op = 0"
| "op_index (x # xs) op = (if x = op then 0 else Suc (op_index xs op))"

definition op_code :: "db_op_t \<Rightarrow> nat" where
  "op_code op = op_index db_ops op"

text \<open>The value read back from a byte; a byte that is no enumerator stays outside the enumeration.\<close>

definition op_of_code :: "nat \<Rightarrow> db_op_t option" where
  "op_of_code n = (if n < length db_ops then Some (db_ops ! n) else None)"

text \<open>The operations that only read are not logged.\<close>

primrec should_wal :: "db_op_t \<Rightarrow> bool" where
  "should_wal op_has = False"
| "should_wal op_get = False"
| "should_wal op_type = False"
| "should_wal op_keys = False"
| "should_wal op_get_expiry = False"
| "should_wal op_str_len = False"
| "should_wal op_many_get = False"
| "should_wal op_list_len = False"
| "should_wal op_list_get = False"
| "should_wal op_list_range = False"
| "should_wal op_set_all = False"
| "should_wal op_set_len = False"
| "should_wal op_set_contains = False"
| "should_wal op_set_union = False"
| "should_wal op_set_union_len = False"
| "should_wal op_set_intersection = False"
| "should_wal op_set_intersection_len = False"
| "should_wal op_set_difference = False"
| "should_wal op_set_difference_len = False"
| "should_wal op_hash_all = False"
| "should_wal op_hash_get = False"
| "should_wal op_hash_contains = False"
| "should_wal op_hash_len = False"
| "should_wal op_hash_key_len = False"
| "should_wal op_hash_keys = False"
| "should_wal op_hash_values = False"
| "should_wal op_hash_many_get = False"
| "should_wal op_begin = True"
| "should_wal op_commit = True"
| "should_wal op_discard = True"
| "should_wal op_reset = True"
| "should_wal op_del = True"
| "should_wal op_copy_to = True"
| "should_wal op_move_to = True"
| "should_wal op_copy_to_db = True"
| "should_wal op_move_to_db = True"
| "should_wal op_set_expiry = True"
| "should_wal op_clear_expiry = True"
| "should_wal op_clear_all_expiry = True"
| "should_wal op_str_set = True"
| "should_wal op_int_set = True"
| "should_wal op_float_set = True"
| "should_wal op_incr_int = True"
| "should_wal op_incr_float = True"
| "should_wal op_many_set = True"
| "should_wal op_list_set = True"
| "should_wal op_list_push_left = True"
| "should_wal op_list_push_right = True"
| "should_wal op_list_pop_left = True"
| "should_wal op_list_pop_right = True"
| "should_wal op_list_trim = True"
| "should_wal op_list_remove = True"
| "should_wal op_set_add = True"
| "should_wal op_set_remove = True"
| "should_wal op_set_discard = True"
| "should_wal op_set_move = True"
| "should_wal op_set_union_into = True"
| "should_wal op_set_intersection_into = True"
| "should_wal op_set_difference_into = True"
| "should_wal op_hash_set = True"
| "should_wal op_hash_remove = True"
| "should_wal op_hash_update = True"

lemma op_index_less: "op \<in> set ops \<Longrightarrow> op_index ops op < length ops \<and> ops ! op_index ops op = op"
  by (induction ops) auto

lemma all_ops: "op \<in> set db_ops"
  by (cases op) (simp_all add: db_ops_def)

lemma op_of_op_code [simp]: "op_of_code (op_code op) = Some op"
  using op_index_less [OF all_ops [of op]] by (simp add: op_of_code_def op_code_def)

lemma op_code_less: "op_code op < 256"
proof -
  have "op_code op < length db_ops" using op_index_less [OF all_ops] by (simp add: op_code_def)
  also have "length db_ops < 256" by (simp add: db_ops_def)
  finally show ?thesis .
qed

section \<open>Log entries and transaction ids\<close>

datatype wal_entry_t = entry_db_op | entry_expire

definition entry_code :: "wal_entry_t \<Rightarrow> nat" where
  "entry_code e = (case e of entry_db_op \<Rightarrow> 0 | entry_expire \<Rightarrow> 1)"

type_synonym trn_id_t = nat

definition NO_TRN_ID :: trn_id_t where "NO_TRN_ID = 0"
definition EXPIRY_TRN_ID :: trn_id_t where "EXPIRY_TRN_ID = 1"
definition FIRST_CLIENT_TRN_ID :: trn_id_t where "FIRST_CLIENT_TRN_ID = 4"

end
