(* ===== verification/Expiry_Database.thy ===== *)
theory Expiry_Database
  imports Database_Types
begin

text \<open>
  \<^verbatim>\<open>vanity/db/db/expiry_database.{h,cpp}\<close>: keys with an expiry time. An expired key is erased
  lazily, by the first operation that touches it, or by a purge. \<open>view now db\<close> is what a client can
  observe at time \<open>now\<close>: for every key that is present and not expired, its value and its expiry
  time. The component's lemmas say how each operation acts on the view; erasing expired keys never
  changes it.

  Every operation takes the clock reading \<open>now\<close> it sees as an argument. The random sample of
  \<^verbatim>\<open>shallow_purge\<close> is a parameter.
\<close>

section \<open>Operations\<close>

definition is_expired :: "time_t \<Rightarrow> database \<Rightarrow> key_t \<Rightarrow> bool" where
  "is_expired now db key =
     (if \<not> m_expiry_enabled db then False
      else case map_of (m_expiry_times db) key of None \<Rightarrow> False | Some t \<Rightarrow> now > t)"

definition clear_expiry :: "key_t \<Rightarrow> database \<Rightarrow> database" where
  "clear_expiry key db = db\<lparr>m_expiry_times := AList.delete key (m_expiry_times db)\<rparr>"

definition do_expire :: "key_t \<Rightarrow> database \<Rightarrow> database" where
  "do_expire key db = clear_expiry key (db\<lparr>m_data := AList.delete key (m_data db)\<rparr>)"

definition pre_expire :: "key_t \<Rightarrow> database \<Rightarrow> database" where
  "pre_expire key db = db\<lparr>pre_expire_calls := pre_expire_calls db @ [key]\<rparr>"

definition expire :: "key_t \<Rightarrow> database \<Rightarrow> database" where
  "expire key db = do_expire key (pre_expire key db)"

definition erase_if_expired :: "time_t \<Rightarrow> key_t \<Rightarrow> database \<Rightarrow> bool \<times> database" where
  "erase_if_expired now key db =
     (if \<not> is_expired now db key then (False, db) else (True, expire key db))"

text \<open>The call \<^verbatim>\<open>erase_if_expired(key);\<close> with its result ignored.\<close>

abbreviation touch :: "time_t \<Rightarrow> key_t \<Rightarrow> database \<Rightarrow> database" where
  "touch now key db \<equiv> snd (erase_if_expired now key db)"

definition set_expiry :: "key_t \<Rightarrow> time_t \<Rightarrow> database \<Rightarrow> database" where
  "set_expiry key t db =
     (if contains (m_data db) key
      then db\<lparr>m_expiry_times := AList.update key t (m_expiry_times db)\<rparr> else db)"

definition get_expiry :: "time_t \<Rightarrow> key_t \<Rightarrow> database \<Rightarrow> time_t option \<times> database" where
  "get_expiry now key db = (let db = touch now key db in (map_of (m_expiry_times db) key, db))"

definition clear_all_expiry :: "database \<Rightarrow> database" where
  "clear_all_expiry db = db\<lparr>m_expiry_times := []\<rparr>"

text \<open>One round of \<^verbatim>\<open>shallow_purge\<close>: erase the expired keys of the sample and count them.\<close>

fun purge_sample :: "time_t \<Rightarrow> key_t list \<Rightarrow> database \<Rightarrow> nat \<times> database" where
  "purge_sample now [] db = (0, db)"
| "purge_sample now (key # keys) db =
     (let (erased, db) = erase_if_expired now key db;
          (n, db) = purge_sample now keys db
      in (if erased then Suc n else n, db))"

lemma purge_sample_shrinks:
  "length (m_expiry_times (snd (purge_sample now keys db))) + fst (purge_sample now keys db)
     \<le> length (m_expiry_times db)"
proof (induction keys arbitrary: db)
  case Nil
  then show ?case by simp
next
  case (Cons k keys)
  have "is_expired now db k \<Longrightarrow> length (AList.delete k (m_expiry_times db)) < length (m_expiry_times db)"
    by (auto simp: is_expired_def AList.delete_eq dest!: map_of_SomeD
        split: if_splits option.splits intro: length_filter_less)
  with Cons [of "expire k db"] Cons [of db] show ?case
    by (auto simp: erase_if_expired_def expire_def do_expire_def clear_expiry_def pre_expire_def
        split: prod.splits)
qed

text \<open>\<^verbatim>\<open>M_MAX_SAMPLE_SIZE\<close> is 100. \<^verbatim>\<open>expired_count / size\<close> divides two \<^verbatim>\<open>size_t\<close>, so it is
  integer division; the quotient is then compared with the \<^verbatim>\<open>double\<close> 0.25. \<open>sample r n ks\<close> stands
  for the keys that \<^verbatim>\<open>std::ranges::sample\<close> draws in round \<open>r\<close>.\<close>

function shallow_purge ::
  "(nat \<Rightarrow> nat \<Rightarrow> key_t list \<Rightarrow> key_t list) \<Rightarrow> time_t \<Rightarrow> nat \<Rightarrow> database \<Rightarrow> database" where
  "shallow_purge sample now r db =
     (if m_expiry_times db = [] then db
      else let size = min 100 (length (m_expiry_times db));
               keys = sample r size (map fst (m_expiry_times db));
               expired_count = fst (purge_sample now keys db);
               db' = snd (purge_sample now keys db)
           in if 4 * (expired_count div size) < 1 then db'
              else shallow_purge sample now (Suc r) db')"
  by pat_completeness auto
termination
proof (relation "measure (\<lambda>(sample, now, r, db). length (m_expiry_times db))", goal_cases)
  case 1
  show ?case by simp
next
  case (2 sample now r db x xa xb xc)
  then have "0 < xb" by (cases xb) auto
  with 2 purge_sample_shrinks [of now xa db] show ?case by auto
qed

declare shallow_purge.simps [simp del]

definition deep_purge :: "time_t \<Rightarrow> database \<Rightarrow> database" where
  "deep_purge now db =
     (let expired_keys = filter (is_expired now db) (map fst (m_expiry_times db))
      in fold expire expired_keys db)"

definition expiry_enabled :: "bool \<Rightarrow> database \<Rightarrow> database" where
  "expiry_enabled enable db = db\<lparr>m_expiry_enabled := enable\<rparr>"

definition force_expire :: "key_t \<Rightarrow> database \<Rightarrow> database" where
  "force_expire key db = do_expire key db"

definition expiry_aware_get :: "time_t \<Rightarrow> key_t \<Rightarrow> database \<Rightarrow> data_type option \<times> database" where
  "expiry_aware_get now key db = (let db = touch now key db in (map_of (m_data db) key, db))"

definition expiry_aware_del :: "key_t \<Rightarrow> database \<Rightarrow> bool \<times> database" where
  "expiry_aware_del key db =
     (let db = clear_expiry key db
      in (contains (m_data db) key, db\<lparr>m_data := AList.delete key (m_data db)\<rparr>))"

lemmas expiry_defs = clear_expiry_def do_expire_def pre_expire_def expire_def
  erase_if_expired_def set_expiry_def clear_all_expiry_def force_expire_def expiry_aware_del_def
  expiry_enabled_def

section \<open>The observable state\<close>

type_synonym view_t = "key_t \<Rightarrow> (data_type \<times> time_t option) option"

definition view :: "time_t \<Rightarrow> database \<Rightarrow> view_t" where
  "view now db key =
     (if is_expired now db key then None
      else map_option (\<lambda>v. (v, map_of (m_expiry_times db) key)) (map_of (m_data db) key))"

lemma is_expired_put_data [simp]: "is_expired now (put_data k v db) = is_expired now db"
  by (simp add: is_expired_def fun_eq_iff)

lemma is_expired_clear_expiry [simp]:
  "is_expired now (clear_expiry k db) k' \<longleftrightarrow> k' \<noteq> k \<and> is_expired now db k'"
  by (simp add: is_expired_def clear_expiry_def delete_conv)

lemma clear_expiry_simps [simp]:
  "m_data (clear_expiry k db) = m_data db"
  "m_expiry_times (clear_expiry k db) = AList.delete k (m_expiry_times db)"
  "m_expiry_enabled (clear_expiry k db) = m_expiry_enabled db"
  "m_index (clear_expiry k db) = m_index db"
  "pre_expire_calls (clear_expiry k db) = pre_expire_calls db"
  by (simp_all add: clear_expiry_def)

lemma expire_simps [simp]:
  "m_data (expire k db) = AList.delete k (m_data db)"
  "m_expiry_times (expire k db) = AList.delete k (m_expiry_times db)"
  "m_expiry_enabled (expire k db) = m_expiry_enabled db"
  "m_index (expire k db) = m_index db"
  "pre_expire_calls (expire k db) = pre_expire_calls db @ [k]"
  by (simp_all add: expiry_defs)

lemma expiry_aware_del_simps [simp]:
  "m_data (snd (expiry_aware_del k db)) = AList.delete k (m_data db)"
  "m_expiry_times (snd (expiry_aware_del k db)) = AList.delete k (m_expiry_times db)"
  "m_expiry_enabled (snd (expiry_aware_del k db)) = m_expiry_enabled db"
  "m_index (snd (expiry_aware_del k db)) = m_index db"
  "pre_expire_calls (snd (expiry_aware_del k db)) = pre_expire_calls db"
  "fst (expiry_aware_del k db) = contains (m_data db) k"
  by (simp_all add: expiry_aware_del_def Let_def)

lemma touch_fields [simp]:
  "m_expiry_enabled (touch now k db) = m_expiry_enabled db"
  "m_index (touch now k db) = m_index db"
  by (simp_all add: erase_if_expired_def)

lemma map_of_data_touch:
  "map_of (m_data (touch now k db)) k' =
     (if k' = k \<and> is_expired now db k then None else map_of (m_data db) k')"
  by (simp add: erase_if_expired_def delete_conv)

lemma map_of_times_touch:
  "map_of (m_expiry_times (touch now k db)) k' =
     (if k' = k \<and> is_expired now db k then None else map_of (m_expiry_times db) k')"
  by (simp add: erase_if_expired_def delete_conv)

lemma is_expired_touch [simp]:
  "is_expired now (touch now k db) k' \<longleftrightarrow> k' \<noteq> k \<and> is_expired now db k'"
  by (auto simp: erase_if_expired_def is_expired_def delete_conv)

lemma view_touch [simp]: "view now (touch now k db) = view now db"
  by (auto simp: view_def fun_eq_iff map_of_data_touch map_of_times_touch)

text \<open>After the touch that every operation starts with, the map holds exactly what is visible.\<close>

lemma lookup_touch: "map_of (m_data (touch now k db)) k = map_option fst (view now db k)"
  by (cases "map_of (m_data db) k") (auto simp: view_def map_of_data_touch)

lemma contains_touch: "contains (m_data (touch now k db)) k \<longleftrightarrow> view now db k \<noteq> None"
  by (simp add: contains_def lookup_touch)

lemma expiry_touch:
  "wf_db db \<Longrightarrow> map_of (m_expiry_times (touch now k db)) k = Option.bind (view now db k) snd"
  by (cases "map_of (m_data db) k") (auto simp: view_def map_of_times_touch wf_db_time_key)

text \<open>After touching several keys, each of them is settled.\<close>

lemma lookup_touch_all:
  "map_of (m_data (fold (touch now) ks db)) k =
     (if k \<in> set ks \<and> is_expired now db k then None else map_of (m_data db) k)"
proof (induction ks arbitrary: db)
  case Nil
  then show ?case by simp
next
  case (Cons k' ks)
  show ?case by (auto simp: Cons map_of_data_touch)
qed

lemma view_touch_all [simp]: "view now (fold (touch now) ks db) = view now db"
  by (induction ks arbitrary: db) simp_all

lemma is_expired_touch_all [simp]:
  "is_expired now (fold (touch now) ks db) k \<longleftrightarrow> k \<notin> set ks \<and> is_expired now db k"
  by (induction ks arbitrary: db) auto

lemma lookup_touch_all_view:
  "k \<in> set ks \<Longrightarrow> map_of (m_data (fold (touch now) ks db)) k = map_option fst (view now db k)"
  by (cases "map_of (m_data db) k") (auto simp: lookup_touch_all view_def)

text \<open>How the elementary writes act on the view.\<close>

lemma view_put_data:
  "\<not> is_expired now db k \<Longrightarrow>
     view now (put_data k v db) = (view now db)(k \<mapsto> (v, map_of (m_expiry_times db) k))"
  by (auto simp: view_def fun_eq_iff update_conv)

lemma view_set_data: "view now (clear_expiry k (put_data k v db)) = (view now db)(k \<mapsto> (v, None))"
  by (auto simp: view_def fun_eq_iff update_conv delete_conv)

lemma view_clear_expiry:
  "view now (clear_expiry k db) = (view now db)(k := map_option (\<lambda>v. (v, None)) (map_of (m_data db) k))"
  by (auto simp: view_def fun_eq_iff delete_conv)

lemma view_del: "view now (snd (expiry_aware_del k db)) = (view now db)(k := None)"
  by (auto simp: view_def fun_eq_iff delete_conv is_expired_def)

lemma view_update_touch:
  assumes "wf_db db"
  shows "view now (put_data k v (touch now k db)) =
           (view now db)(k \<mapsto> (v, Option.bind (view now db k) snd))"
  using assms by (simp add: view_put_data expiry_touch)

lemma del_put_data: "expiry_aware_del k (put_data k v db) = (True, snd (expiry_aware_del k db))"
  by (simp add: expiry_aware_del_def Let_def clear_expiry_def put_data_def delete_update_same)

lemma put_data_put_data [simp]: "put_data k v (put_data k v' db) = put_data k v db"
  by (simp add: put_data_def)

section \<open>The invariant is kept\<close>

lemma wf_delete:
  assumes "wf_db db"
  shows "wf_db (db\<lparr>m_data := AList.delete k (m_data db),
                    m_expiry_times := AList.delete k (m_expiry_times db)\<rparr>)"
proof -
  have "\<forall>v \<in> snd ` set (AList.delete k (m_data db)). wf_value v"
    using assms set_delete_subset [of k "m_data db"] by (force simp: wf_db_def)
  with assms show ?thesis
    by (auto simp: wf_db_def distinct_delete)
qed

lemma wf_clear_expiry [wf_intros]: "wf_db db \<Longrightarrow> wf_db (clear_expiry k db)"
  by (auto simp: wf_db_def distinct_delete)

lemma wf_expire [wf_intros]: "wf_db db \<Longrightarrow> wf_db (expire k db)"
  using wf_delete [of db k] by (simp add: wf_db_def)

lemma wf_force_expire [wf_intros]: "wf_db db \<Longrightarrow> wf_db (force_expire k db)"
  using wf_delete [of db k] by (simp add: wf_db_def force_expire_def do_expire_def clear_expiry_def)

lemma wf_touch [wf_intros]: "wf_db db \<Longrightarrow> wf_db (touch now k db)"
  by (simp add: erase_if_expired_def wf_expire)

lemma wf_touch_all [wf_intros]: "wf_db db \<Longrightarrow> wf_db (fold (touch now) ks db)"
  by (induction ks arbitrary: db) (simp_all add: wf_touch)

lemma wf_expiry_aware_del [wf_intros]: "wf_db db \<Longrightarrow> wf_db (snd (expiry_aware_del k db))"
  using wf_delete [of db k] by (simp add: wf_db_def)

lemma wf_set_expiry [wf_intros]: "wf_db db \<Longrightarrow> wf_db (set_expiry k t db)"
  by (auto simp: set_expiry_def wf_db_def contains_iff distinct_update dom_update)

lemma wf_clear_all_expiry [wf_intros]: "wf_db db \<Longrightarrow> wf_db (clear_all_expiry db)"
  by (simp add: clear_all_expiry_def wf_db_def)

lemma wf_expiry_enabled [wf_intros]: "wf_db db \<Longrightarrow> wf_db (expiry_enabled b db)"
  by (simp add: expiry_enabled_def wf_db_def)

lemma wf_fold_expire [wf_intros]: "wf_db db \<Longrightarrow> wf_db (fold expire ks db)"
  by (induction ks arbitrary: db) (simp_all add: wf_expire)

lemma wf_deep_purge [wf_intros]: "wf_db db \<Longrightarrow> wf_db (deep_purge now db)"
  by (simp add: deep_purge_def wf_fold_expire)

end
