(* ===== verification/Operation_Contract.thy ===== *)
theory Operation_Contract
  imports Expiry_Database
begin

text \<open>
  The contract every database operation is verified against. \<open>db_operation\<close> is the contract of an
  operation that always returns: its result and the view it leaves are a function (\<open>spec\<close>) of the
  view it finds, and it keeps the database invariant. \<open>partial_db_operation\<close> is the contract of an
  operation with inputs on which the C++ code has undefined behaviour: \<open>spec\<close> is \<^const>\<open>None\<close> exactly
  there. \<open>legal\<close> says that the arguments are values of their C++ types (an \<^verbatim>\<open>int64_t\<close> in range, a
  set or map without duplicates).

  What the contract buys is proved once here: whether and when expired keys were physically erased
  can never be observed through an operation, nor through a sequence of operations.
\<close>

section \<open>Purging is invisible\<close>

lemma view_expire_expired: "is_expired now db k \<Longrightarrow> view now (expire k db) = view now db"
  by (auto simp: view_def fun_eq_iff delete_conv is_expired_def)

lemma is_expired_expire: "is_expired now (expire k db) k' \<longleftrightarrow> k' \<noteq> k \<and> is_expired now db k'"
  by (auto simp: is_expired_def delete_conv)

lemma is_expired_fold_expire:
  "is_expired now (fold expire ks db) k \<longleftrightarrow> k \<notin> set ks \<and> is_expired now db k"
  by (induction ks arbitrary: db) (auto simp: is_expired_expire)

lemma view_fold_expire:
  "\<forall>k \<in> set ks. is_expired now db k \<Longrightarrow> distinct ks \<Longrightarrow> view now (fold expire ks db) = view now db"
proof (induction ks arbitrary: db)
  case Nil
  then show ?case by simp
next
  case (Cons k ks)
  have "\<forall>k' \<in> set ks. is_expired now (expire k db) k'"
    using Cons.prems by (auto simp: is_expired_expire)
  with Cons show ?case by (simp add: view_expire_expired)
qed

lemma view_deep_purge: "wf_db db \<Longrightarrow> view now (deep_purge now db) = view now db"
  unfolding deep_purge_def Let_def
  by (rule view_fold_expire) (auto simp: wf_db_def distinct_filter)

lemma is_expired_deep_purge: "\<not> is_expired now (deep_purge now db) k"
proof -
  have "is_expired now db k \<Longrightarrow> k \<in> set (map fst (m_expiry_times db))"
    by (auto simp: is_expired_def dest: map_of_SomeD split: if_splits option.splits intro: rev_image_eqI)
  then show ?thesis
    by (auto simp: deep_purge_def Let_def is_expired_fold_expire)
qed

lemma deep_purge_data:
  "wf_db db \<Longrightarrow> map_of (m_data (deep_purge now db)) k = map_option fst (view now db k)"
proof -
  assume "wf_db db"
  moreover have "map_option fst (view now (deep_purge now db) k) = map_of (m_data (deep_purge now db)) k"
    by (simp add: view_def is_expired_deep_purge option.map_comp comp_def option.map_ident)
  ultimately show ?thesis by (simp add: view_deep_purge)
qed

section \<open>Contracts\<close>

locale partial_db_operation =
  fixes legal :: bool
    and run :: "time_t \<Rightarrow> database \<Rightarrow> ('r \<times> database) result"
    and spec :: "view_t \<Rightarrow> ('r \<times> view_t) option"
  assumes defined: "\<lbrakk>legal; wf_db db; spec (view now db) = Some (r, vw)\<rbrakk> \<Longrightarrow>
            \<exists>db'. run now db = Inr (r, db') \<and> view now db' = vw \<and> wf_db db'"
    and undefined: "\<lbrakk>legal; wf_db db; spec (view now db) = None\<rbrakk> \<Longrightarrow> run now db = undefined_behaviour"
begin

lemma observably_equal:
  assumes "legal" and "wf_db db1" and "wf_db db2" and "view now db1 = view now db2"
  shows "map_sum id (\<lambda>(r, db). (r, view now db)) (run now db1) =
         map_sum id (\<lambda>(r, db). (r, view now db)) (run now db2)"
proof (cases "spec (view now db1)")
  case None
  with undefined [OF assms(1,2), of now] undefined [OF assms(1,3), of now] assms(4)
  show ?thesis by simp
next
  case (Some p)
  obtain r vw where "p = (r, vw)" by (cases p)
  with Some defined [OF assms(1,2), of now r vw] defined [OF assms(1,3), of now r vw] assms(4)
  show ?thesis by auto
qed

lemma returns_wf:
  assumes "legal" and "wf_db db" and "run now db = Inr p"
  shows "wf_db (snd p)"
proof (cases "spec (view now db)")
  case None
  with undefined [OF assms(1,2)] assms(3) show ?thesis by simp
next
  case (Some q)
  with defined [OF assms(1,2), of now "fst q" "snd q"] assms(3) show ?thesis by auto
qed

end

locale db_operation =
  fixes legal :: bool
    and run :: "time_t \<Rightarrow> database \<Rightarrow> 'r \<times> database"
    and spec :: "view_t \<Rightarrow> 'r \<times> view_t"
  assumes refines: "\<lbrakk>legal; wf_db db\<rbrakk> \<Longrightarrow>
            (fst (run now db), view now (snd (run now db))) = spec (view now db)"
    and keeps_wf: "\<lbrakk>legal; wf_db db\<rbrakk> \<Longrightarrow> wf_db (snd (run now db))"
begin

lemma result: "\<lbrakk>legal; wf_db db\<rbrakk> \<Longrightarrow> fst (run now db) = fst (spec (view now db))"
  using refines [of db now] by (metis fst_conv)

lemma view_after: "\<lbrakk>legal; wf_db db\<rbrakk> \<Longrightarrow> view now (snd (run now db)) = snd (spec (view now db))"
  using refines [of db now] by (metis snd_conv)

text \<open>Purging first changes neither the result nor what can be seen afterwards.\<close>

lemma purge_invisible:
  assumes "legal" and "wf_db db"
  shows "fst (run now (deep_purge now db)) = fst (run now db) \<and>
         view now (snd (run now (deep_purge now db))) = view now (snd (run now db))"
  using assms by (simp add: result view_after wf_deep_purge view_deep_purge)

end

sublocale db_operation \<subseteq> partial_db_operation legal "\<lambda>now db. Inr (run now db)" "\<lambda>vw. Some (spec vw)"
proof unfold_locales
  fix db now r vw
  assume "legal" "wf_db db" "Some (spec (view now db)) = Some (r, vw)"
  then have "fst (run now db) = r" "view now (snd (run now db)) = vw" "wf_db (snd (run now db))"
    by (simp_all add: result view_after keeps_wf)
  then show "\<exists>db'. Inr (run now db) = Inr (r, db') \<and> view now db' = vw \<and> wf_db db'"
    by (metis prod.collapse)
qed simp

section \<open>The expiry operations against their contract\<close>

definition get_expiry_spec :: "key_t \<Rightarrow> view_t \<Rightarrow> time_t option \<times> view_t" where
  "get_expiry_spec key vw = (Option.bind (vw key) snd, vw)"

definition expiry_aware_get_spec :: "key_t \<Rightarrow> view_t \<Rightarrow> data_type option \<times> view_t" where
  "expiry_aware_get_spec key vw = (map_option fst (vw key), vw)"

interpretation get_expiry: db_operation True "\<lambda>now. get_expiry now key" "get_expiry_spec key"
  by unfold_locales (simp_all add: get_expiry_def get_expiry_spec_def Let_def expiry_touch wf_touch)

interpretation expiry_aware_get: db_operation True "\<lambda>now. expiry_aware_get now key" "expiry_aware_get_spec key"
  by unfold_locales
     (simp_all add: expiry_aware_get_def expiry_aware_get_spec_def Let_def lookup_touch wf_touch)

end
