(* ===== verification/General_Database.thy ===== *)
theory General_Database
  imports Operation_Contract
begin

text \<open>
  \<^verbatim>\<open>vanity/db/db/general_database.{h,cpp}\<close>: the operations that do not depend on the type of a
  value. The two operations between databases work on the server's array of databases, so that the
  source and the destination can be the same object, as in the code.
\<close>

section \<open>Operations\<close>

definition has :: "time_t \<Rightarrow> key_t \<Rightarrow> database \<Rightarrow> bool \<times> database" where
  "has now key db = (let db = touch now key db in (contains (m_data db) key, db))"

definition get :: "time_t \<Rightarrow> key_t \<Rightarrow> database \<Rightarrow> data_type option \<times> database" where
  "get now key db = expiry_aware_get now key db"

definition reset :: "database \<Rightarrow> unit \<times> database" where
  "reset db = ((), clear_all_expiry (db\<lparr>m_data := []\<rparr>))"

definition del :: "key_t \<Rightarrow> database \<Rightarrow> bool \<times> database" where
  "del key db = expiry_aware_del key db"

definition type_of_key :: "time_t \<Rightarrow> key_t \<Rightarrow> database \<Rightarrow> nat option \<times> database" where
  "type_of_key now key db =
     (let db = touch now key db in (map_option data_index (map_of (m_data db) key), db))"

definition keys :: "time_t \<Rightarrow> database \<Rightarrow> key_t list \<times> database" where
  "keys now db = (let db = deep_purge now db in (map fst (m_data db), db))"

definition copy_to :: "time_t \<Rightarrow> key_t \<Rightarrow> key_t \<Rightarrow> database \<Rightarrow> bool \<times> database" where
  "copy_to now from to db =
     (let db = touch now from db in
      case map_of (m_data db) from of
        None \<Rightarrow> (False, db)
      | Some v \<Rightarrow>
          if from = to then (True, db)
          else (True, clear_expiry to (put_data to v db)))"

definition move_to :: "time_t \<Rightarrow> key_t \<Rightarrow> key_t \<Rightarrow> database \<Rightarrow> bool \<times> database" where
  "move_to now from to db =
     (let db = touch now from db in
      case map_of (m_data db) from of
        None \<Rightarrow> (False, db)
      | Some v \<Rightarrow>
          if from = to then (True, db)
          else
            let db = put_data to v db;
                db = (case map_of (m_expiry_times db) from of
                        None \<Rightarrow> db
                      | Some t \<Rightarrow> db\<lparr>m_expiry_times := AList.update to t (m_expiry_times db)\<rparr>);
                db = snd (del from db)
            in (True, db))"

text \<open>Between two databases of the array; \<open>i = j\<close> is the test \<^verbatim>\<open>this == &to\<close>.\<close>

definition copy_to_db :: "time_t \<Rightarrow> key_t \<Rightarrow> nat \<Rightarrow> nat \<Rightarrow> database list \<Rightarrow> bool \<times> database list" where
  "copy_to_db now from i j dbs =
     (let db = touch now from (dbs ! i);
          dbs = dbs[i := db]
      in case map_of (m_data db) from of
        None \<Rightarrow> (False, dbs)
      | Some v \<Rightarrow>
          if i = j then (True, dbs)
          else (True, dbs[j := clear_expiry from (put_data from v (dbs ! j))]))"

definition move_to_db :: "time_t \<Rightarrow> key_t \<Rightarrow> nat \<Rightarrow> nat \<Rightarrow> database list \<Rightarrow> bool \<times> database list" where
  "move_to_db now from i j dbs =
     (let db = touch now from (dbs ! i);
          dbs = dbs[i := db]
      in case map_of (m_data db) from of
        None \<Rightarrow> (False, dbs)
      | Some v \<Rightarrow>
          if i = j then (True, dbs)
          else
            let to = put_data from v (dbs ! j);
                to = (case map_of (m_expiry_times db) from of
                        None \<Rightarrow> to
                      | Some t \<Rightarrow> to\<lparr>m_expiry_times := AList.update from t (m_expiry_times to)\<rparr>)
            in (True, dbs[j := to, i := snd (del from db)]))"

section \<open>Contracts\<close>

definition has_spec :: "key_t \<Rightarrow> view_t \<Rightarrow> bool \<times> view_t" where
  "has_spec key vw = (vw key \<noteq> None, vw)"

definition reset_spec :: "view_t \<Rightarrow> unit \<times> view_t" where
  "reset_spec vw = ((), Map.empty)"

definition type_spec :: "key_t \<Rightarrow> view_t \<Rightarrow> nat option \<times> view_t" where
  "type_spec key vw = (map_option (data_index \<circ> fst) (vw key), vw)"

definition copy_to_spec :: "key_t \<Rightarrow> key_t \<Rightarrow> view_t \<Rightarrow> bool \<times> view_t" where
  "copy_to_spec from to vw =
     (case vw from of
        None \<Rightarrow> (False, vw)
      | Some (v, _) \<Rightarrow> (True, if from = to then vw else vw(to \<mapsto> (v, None))))"

definition move_to_spec :: "key_t \<Rightarrow> key_t \<Rightarrow> view_t \<Rightarrow> bool \<times> view_t" where
  "move_to_spec from to vw =
     (case vw from of
        None \<Rightarrow> (False, vw)
      | Some p \<Rightarrow> (True, if from = to then vw else vw(to \<mapsto> p, from := None)))"

interpretation has: db_operation True "\<lambda>now. has now key" "has_spec key"
  by unfold_locales (simp_all add: has_def has_spec_def Let_def contains_touch wf_touch)

interpretation get: db_operation True "\<lambda>now. get now key" "expiry_aware_get_spec key"
  unfolding get_def by (rule expiry_aware_get.db_operation_axioms)

interpretation reset: db_operation True "\<lambda>now. reset" reset_spec
  by unfold_locales
     (simp_all add: reset_def reset_spec_def clear_all_expiry_def view_def fun_eq_iff wf_db_def
       is_expired_def)

interpretation type_of_key: db_operation True "\<lambda>now. type_of_key now key" "type_spec key"
  by unfold_locales
     (simp_all add: type_of_key_def type_spec_def Let_def lookup_touch wf_touch option.map_comp)

interpretation copy_to: db_operation True "\<lambda>now. copy_to now from to" "copy_to_spec from to"
proof unfold_locales
  fix db now
  assume wf: "wf_db db"
  show "(fst (copy_to now from to db), view now (snd (copy_to now from to db))) =
        copy_to_spec from to (view now db)"
    by (cases "view now db from")
       (auto simp: copy_to_def copy_to_spec_def Let_def lookup_touch view_set_data)
  show "wf_db (snd (copy_to now from to db))"
    using wf wf_db_value [OF wf_touch [OF wf], where k = "from"]
    by (auto simp: copy_to_def Let_def intro!: wf_intros split: option.splits)
qed

section \<open>Operations without a contract over the view\<close>

text \<open>\<^verbatim>\<open>keys\<close> returns the visible keys, each once, and leaves no expired key behind.\<close>

lemma keys_visible:
  assumes "wf_db db"
  shows "distinct (fst (keys now db))" and "set (fst (keys now db)) = dom (view now db)"
    and "view now (snd (keys now db)) = view now db"
proof -
  have wf: "wf_db (deep_purge now db)" by (rule wf_deep_purge [OF assms])
  then show "distinct (fst (keys now db))" by (auto simp: keys_def Let_def)
  have "set (fst (keys now db)) = dom (map_of (m_data (deep_purge now db)))"
    by (simp add: keys_def Let_def dom_map_of_conv_image_fst)
  also have "\<dots> = dom (view now db)"
    using deep_purge_data [OF assms, of now] by (auto simp: dom_def)
  finally show "set (fst (keys now db)) = dom (view now db)" .
  show "view now (snd (keys now db)) = view now db"
    by (simp add: keys_def Let_def view_deep_purge [OF assms])
qed

lemma view_set_time:
  "\<not> is_expired now (db\<lparr>m_expiry_times := AList.update k t (m_expiry_times db)\<rparr>) k \<Longrightarrow>
     view now (db\<lparr>m_expiry_times := AList.update k t (m_expiry_times db)\<rparr>) =
       (view now db)(k := map_option (\<lambda>v. (v, Some t)) (map_of (m_data db) k))"
  by (auto simp: view_def fun_eq_iff update_conv is_expired_def)

text \<open>\<^verbatim>\<open>move_to\<close> moves the value with its expiry time, unless the source has none and an expiry time
  is stored for the destination: that time stays, even when it has passed.\<close>

lemma move_to_view:
  assumes "wf_db db" and "map_of (m_expiry_times db) from \<noteq> None \<or> map_of (m_expiry_times db) to = None"
  shows "(fst (move_to now from to db), view now (snd (move_to now from to db))) =
           move_to_spec from to (view now db)"
proof (cases "view now db from")
  case None
  then show ?thesis by (simp add: move_to_def move_to_spec_def Let_def lookup_touch)
next
  case (Some p)
  obtain v t where p: "p = (v, t)" by (cases p)
  have alive: "\<not> is_expired now db from" "map_of (m_data db) from = Some v" "map_of (m_expiry_times db) from = t"
    using Some p by (auto simp: view_def split: if_splits option.splits)
  then have touch: "touch now from db = db" by (simp add: erase_if_expired_def)
  show ?thesis
  proof (cases "from = to")
    case True
    with Some p show ?thesis by (simp add: move_to_def move_to_spec_def Let_def lookup_touch)
  next
    case False
    then show ?thesis
    proof (cases t)
      case None
      with alive assms(2) have "\<not> is_expired now db to" and "map_of (m_expiry_times db) to = None"
        by (auto simp: is_expired_def)
      with alive touch False None Some p show ?thesis
        by (simp add: move_to_def move_to_spec_def Let_def del_def view_del view_put_data)
    next
      case (Some u)
      let ?db = "put_data to v db"
      have "\<not> is_expired now (?db\<lparr>m_expiry_times := AList.update to u (m_expiry_times ?db)\<rparr>) to"
        using alive Some by (auto simp: is_expired_def update_conv)
      note view = view_set_time [OF this]
      have "view now ?db k = view now db k" if "k \<noteq> to" for k
        using that by (simp add: view_def update_conv)
      with view alive touch False Some p \<open>view now db from = Some p\<close> show ?thesis
        by (auto simp: move_to_def move_to_spec_def Let_def del_def view_del update_conv fun_eq_iff)
    qed
  qed
qed

lemma wf_del [wf_intros]: "wf_db db \<Longrightarrow> wf_db (snd (del k db))"
  by (simp add: del_def wf_expiry_aware_del)

lemma wf_keys [wf_intros]: "wf_db db \<Longrightarrow> wf_db (snd (keys now db))"
  by (simp add: keys_def Let_def wf_deep_purge)

lemma wf_set_time:
  assumes "wf_db db" and "contains (m_data db) k"
  shows "wf_db (db\<lparr>m_expiry_times := AList.update k t (m_expiry_times db)\<rparr>)"
  using wf_set_expiry [OF assms(1), of k t] assms(2) by (simp add: set_expiry_def)

lemma wf_move_to [wf_intros]: "wf_db db \<Longrightarrow> wf_db (snd (move_to now from to db))"
proof -
  assume "wf_db db"
  then have wf: "wf_db (touch now from db)" by (rule wf_touch)
  then have "wf_db (put_data to v (touch now from db))" if "map_of (m_data (touch now from db)) from = Some v" for v
    using wf_db_value [OF wf that] by (rule wf_put_data)
  with wf show ?thesis
    by (auto simp: move_to_def Let_def
        intro!: wf_del wf_set_time [where db = "put_data _ _ _", simplified] split: option.splits)
qed

text \<open>Between databases.\<close>

lemma wf_copy_to_db:
  assumes "\<forall>db \<in> set dbs. wf_db db" and "i < length dbs" and "j < length dbs"
  shows "\<forall>db \<in> set (snd (copy_to_db now from i j dbs)). wf_db db"
proof -
  have i: "wf_db (touch now from (dbs ! i))" and j: "wf_db (dbs ! j)"
    using assms by (simp_all add: wf_touch)
  show ?thesis
    using assms(1) i j wf_db_value [OF i, of "from"]
    by (auto simp: copy_to_db_def Let_def nth_list_update intro!: wf_intros
        dest!: subsetD [OF set_update_subset_insert] split: option.splits)
qed

lemma wf_move_to_db:
  assumes "\<forall>db \<in> set dbs. wf_db db" and "i < length dbs" and "j < length dbs"
  shows "\<forall>db \<in> set (snd (move_to_db now from i j dbs)). wf_db db"
proof -
  have i: "wf_db (touch now from (dbs ! i))" and j: "wf_db (dbs ! j)"
    using assms by (simp_all add: wf_touch)
  show ?thesis
    using assms(1) i j wf_db_value [OF i, of "from"]
    by (auto simp: move_to_db_def Let_def nth_list_update
        intro!: wf_del wf_put_data wf_set_time [where db = "put_data _ _ _", simplified]
        dest!: subsetD [OF set_update_subset_insert] split: option.splits)
qed

end
