(* ===== verification/Primitive_Database.thy ===== *)
theory Primitive_Database
  imports Operation_Contract
begin

text \<open>
  \<^verbatim>\<open>vanity/db/db/primitive_database.{h,cpp}\<close>: strings, integers and floats. \<open>fadd\<close> stands for the
  addition of two \<^verbatim>\<open>double\<close> values on their bit patterns. The addition \<^verbatim>\<open>val += value\<close> on two
  \<^verbatim>\<open>int64_t\<close> is undefined when the sum leaves the range.
\<close>

section \<open>Operations\<close>

definition str_set :: "key_t \<Rightarrow> string_t \<Rightarrow> database \<Rightarrow> unit \<times> database" where
  "str_set key v db = ((), clear_expiry key (put_data key (VStr v) db))"

definition int_set :: "key_t \<Rightarrow> int_t \<Rightarrow> database \<Rightarrow> unit \<times> database" where
  "int_set key v db = ((), clear_expiry key (put_data key (VInt v) db))"

definition float_set :: "key_t \<Rightarrow> float_t \<Rightarrow> database \<Rightarrow> unit \<times> database" where
  "float_set key v db = ((), clear_expiry key (put_data key (VFloat v) db))"

definition incr_int :: "time_t \<Rightarrow> key_t \<Rightarrow> int_t \<Rightarrow> database \<Rightarrow> (int_t option \<times> database) result" where
  "incr_int now key v db =
     (let db = touch now key db in
      case map_of (m_data db) key of
        Some (VInt i) \<Rightarrow>
          if int64_ok (i + v) then Inr (Some (i + v), put_data key (VInt (i + v)) db)
          else undefined_behaviour
      | Some _ \<Rightarrow> Inr (None, db)
      | None \<Rightarrow> Inr (Some v, put_data key (VInt v) db))"

definition incr_float ::
  "(float_t \<Rightarrow> float_t \<Rightarrow> float_t) \<Rightarrow> time_t \<Rightarrow> key_t \<Rightarrow> float_t \<Rightarrow> database \<Rightarrow> float_t option \<times> database" where
  "incr_float fadd now key v db =
     (let db = touch now key db in
      case map_of (m_data db) key of
        Some (VFloat x) \<Rightarrow> (Some (fadd x v), put_data key (VFloat (fadd x v)) db)
      | Some _ \<Rightarrow> (None, db)
      | None \<Rightarrow> (Some v, put_data key (VFloat v) db))"

definition str_len :: "time_t \<Rightarrow> key_t \<Rightarrow> database \<Rightarrow> int_t option \<times> database" where
  "str_len now key db =
     (let db = touch now key db in
      (case map_of (m_data db) key of Some (VStr s) \<Rightarrow> Some (int (length s)) | _ \<Rightarrow> None, db))"

text \<open>The second loop of \<^verbatim>\<open>many_get\<close>: \<^verbatim>\<open>expiry_aware_get\<close> for every key in turn.\<close>

fun get_each :: "time_t \<Rightarrow> key_t list \<Rightarrow> database \<Rightarrow> data_type option list \<times> database" where
  "get_each now [] db = ([], db)"
| "get_each now (key # keys) db =
     (let (v, db) = expiry_aware_get now key db;
          (vs, db) = get_each now keys db
      in (v # vs, db))"

definition many_get :: "time_t \<Rightarrow> key_t list \<Rightarrow> database \<Rightarrow> data_type option list \<times> database" where
  "many_get now keys db = get_each now keys (fold (touch now) keys db)"

section \<open>Contracts\<close>

definition set_spec :: "key_t \<Rightarrow> data_type \<Rightarrow> view_t \<Rightarrow> unit \<times> view_t" where
  "set_spec key v vw = ((), vw(key \<mapsto> (v, None)))"

definition incr_int_spec :: "key_t \<Rightarrow> int_t \<Rightarrow> view_t \<Rightarrow> (int_t option \<times> view_t) option" where
  "incr_int_spec key v vw =
     (case vw key of
        None \<Rightarrow> Some (Some v, vw(key \<mapsto> (VInt v, None)))
      | Some (VInt i, t) \<Rightarrow>
          if int64_ok (i + v) then Some (Some (i + v), vw(key \<mapsto> (VInt (i + v), t))) else None
      | Some _ \<Rightarrow> Some (None, vw))"

definition incr_float_spec ::
  "(float_t \<Rightarrow> float_t \<Rightarrow> float_t) \<Rightarrow> key_t \<Rightarrow> float_t \<Rightarrow> view_t \<Rightarrow> float_t option \<times> view_t" where
  "incr_float_spec fadd key v vw =
     (case vw key of
        None \<Rightarrow> (Some v, vw(key \<mapsto> (VFloat v, None)))
      | Some (VFloat x, t) \<Rightarrow> (Some (fadd x v), vw(key \<mapsto> (VFloat (fadd x v), t)))
      | Some _ \<Rightarrow> (None, vw))"

definition str_len_spec :: "key_t \<Rightarrow> view_t \<Rightarrow> int_t option \<times> view_t" where
  "str_len_spec key vw = (case vw key of Some (VStr s, _) \<Rightarrow> Some (int (length s)) | _ \<Rightarrow> None, vw)"

definition many_get_spec :: "key_t list \<Rightarrow> view_t \<Rightarrow> data_type option list \<times> view_t" where
  "many_get_spec keys vw = (map (\<lambda>key. map_option fst (vw key)) keys, vw)"

interpretation str_set: db_operation True "\<lambda>now. str_set key v" "set_spec key (VStr v)"
  by unfold_locales (simp_all add: str_set_def set_spec_def view_set_data wf_intros)

interpretation int_set: db_operation "int64_ok v" "\<lambda>now. int_set key v" "set_spec key (VInt v)"
  by unfold_locales (simp_all add: int_set_def set_spec_def view_set_data wf_intros)

interpretation float_set: db_operation True "\<lambda>now. float_set key v" "set_spec key (VFloat v)"
  by unfold_locales (simp_all add: float_set_def set_spec_def view_set_data wf_intros)

interpretation incr_int: partial_db_operation "int64_ok v" "\<lambda>now. incr_int now key v" "incr_int_spec key v"
  by unfold_locales
     (auto simp: incr_int_def incr_int_spec_def Let_def lookup_touch view_update_touch wf_intros
       split: option.splits data_type.splits if_splits)

interpretation incr_float:
  db_operation True "\<lambda>now. incr_float fadd now key v" "incr_float_spec fadd key v"
  by unfold_locales
     (auto simp: incr_float_def incr_float_spec_def Let_def lookup_touch view_update_touch wf_intros
       split: option.splits data_type.splits if_splits)

interpretation str_len: db_operation True "\<lambda>now. str_len now key" "str_len_spec key"
  by unfold_locales
     (auto simp: str_len_def str_len_spec_def Let_def lookup_touch wf_intros
       split: option.splits data_type.splits if_splits)

lemma get_each_refines:
  "wf_db db \<Longrightarrow> fst (get_each now ks db) = map (\<lambda>key. map_option fst (view now db key)) ks \<and>
     view now (snd (get_each now ks db)) = view now db \<and> wf_db (snd (get_each now ks db))"
proof (induction ks arbitrary: db)
  case Nil
  then show ?case by simp
next
  case (Cons k ks)
  from Cons.IH [of "touch now k db"] Cons.prems show ?case
    by (auto simp: expiry_aware_get_def Let_def lookup_touch wf_touch split: prod.splits)
qed

interpretation many_get: db_operation True "\<lambda>now. many_get now ks" "many_get_spec ks"
  by unfold_locales (simp_all add: many_get_def many_get_spec_def get_each_refines wf_touch_all)

end
