(* ===== verification/List_Database.thy ===== *)
theory List_Database
  imports Operation_Contract
begin

text \<open>
  \<^verbatim>\<open>vanity/db/db/list_database.{h,cpp}\<close>: lists of strings. An iterator into a list is its position
  from the front, with the length for \<^verbatim>\<open>end()\<close>; a reverse iterator is its offset from the back,
  with the length for \<^verbatim>\<open>rend()\<close>. Using a range whose begin lies after its end, or comparing with
  an iterator whose element was erased, is undefined behaviour.
\<close>

datatype ListErrorKind = NotList | OutOfRange

section \<open>Positions\<close>

definition iterator_or_end :: "list_t \<Rightarrow> int \<Rightarrow> nat" where
  "iterator_or_end list index =
     (let size = int (length list); idx = index in
      if idx \<ge> size \<or> idx < - size then length list
      else nat (if idx < 0 then idx + size else idx))"

text \<open>The offset of the reverse iterator; \<^verbatim>\<open>base()\<close> is the position just behind its element.\<close>

definition reverse_iterator_or_rend :: "list_t \<Rightarrow> int \<Rightarrow> nat" where
  "reverse_iterator_or_rend list index =
     (let size = int (length list); idx = index in
      if idx \<ge> size \<or> idx < - size then length list
      else nat (if idx < 0 then idx + size else idx))"

definition reverse_base :: "list_t \<Rightarrow> nat \<Rightarrow> nat" where
  "reverse_base list r = length list - r"

definition iterator_pair_inclusive :: "list_t \<Rightarrow> int \<Rightarrow> int \<Rightarrow> nat \<times> nat" where
  "iterator_pair_inclusive list start stop =
     (let it = iterator_or_end list start;
          it = (if it = length list \<and> start < 0 then 0 else it);
          end_it = iterator_or_end list stop;
          end_it = (if end_it = length list \<and> stop < 0 then 0
                    else if end_it \<noteq> length list then Suc end_it else end_it)
      in (it, end_it))"

definition is_invalid_range :: "int \<Rightarrow> int \<Rightarrow> bool" where
  "is_invalid_range start stop \<longleftrightarrow>
     (start > 0 \<and> stop > 0 \<and> start > stop) \<or> (start < 0 \<and> stop < 0 \<and> start > stop)"

definition iterator_or_error :: "time_t \<Rightarrow> key_t \<Rightarrow> int \<Rightarrow> database \<Rightarrow> (ListErrorKind + nat) \<times> database" where
  "iterator_or_error now key index db =
     (let db = touch now key db in
      case map_of (m_data db) key of
        None \<Rightarrow> (Inl OutOfRange, db)
      | Some (VList list) \<Rightarrow>
          (let it = iterator_or_end list index
           in (if it = length list then Inl OutOfRange else Inr it, db))
      | Some _ \<Rightarrow> (Inl NotList, db))"

text \<open>\<^verbatim>\<open>if (list.empty()) expiry_aware_del(key);\<close> after the list was changed in place.\<close>

definition store_list :: "key_t \<Rightarrow> list_t \<Rightarrow> database \<Rightarrow> database" where
  "store_list key list db =
     (let db = put_data key (VList list) db
      in if list = [] then snd (expiry_aware_del key db) else db)"

section \<open>Operations\<close>

definition list_len :: "time_t \<Rightarrow> key_t \<Rightarrow> database \<Rightarrow> (ListErrorKind + nat) \<times> database" where
  "list_len now key db =
     (let db = touch now key db in
      (case map_of (m_data db) key of
         None \<Rightarrow> Inr 0
       | Some (VList list) \<Rightarrow> Inr (length list)
       | Some _ \<Rightarrow> Inl NotList, db))"

text \<open>The iterator found by \<^verbatim>\<open>iterator_or_error\<close> points into the list stored at the key.\<close>

definition list_get :: "time_t \<Rightarrow> key_t \<Rightarrow> int \<Rightarrow> database \<Rightarrow> (ListErrorKind + string_t) \<times> database" where
  "list_get now key index db =
     (let db = touch now key db;
          (it_or_error, db) = iterator_or_error now key index db
      in case (it_or_error, map_of (m_data db) key) of
        (Inl e, _) \<Rightarrow> (Inl e, db)
      | (Inr it, Some (VList list)) \<Rightarrow> (Inr (list ! it), db)
      | (Inr it, _) \<Rightarrow> (Inl NotList, db))"

definition list_set ::
  "time_t \<Rightarrow> key_t \<Rightarrow> int \<Rightarrow> string_t \<Rightarrow> database \<Rightarrow> (ListErrorKind + string_t) \<times> database" where
  "list_set now key index v db =
     (let db = touch now key db;
          (it_or_error, db) = iterator_or_error now key index db
      in case (it_or_error, map_of (m_data db) key) of
        (Inl e, _) \<Rightarrow> (Inl e, db)
      | (Inr it, Some (VList list)) \<Rightarrow> (Inr (list ! it), put_data key (VList (list[it := v])) db)
      | (Inr it, _) \<Rightarrow> (Inl NotList, db))"

definition list_push_left :: "time_t \<Rightarrow> key_t \<Rightarrow> list_t \<Rightarrow> database \<Rightarrow> (ListErrorKind + nat) \<times> database" where
  "list_push_left now key values db =
     (let db = touch now key db in
      if values = [] then (Inr 0, db)
      else
        let db = (if \<not> contains (m_data db) key then put_data key (VList []) db else db) in
        case map_of (m_data db) key of
          Some (VList list) \<Rightarrow>
            let list = rev values @ list in (Inr (length list), put_data key (VList list) db)
        | _ \<Rightarrow> (Inl NotList, db))"

definition list_push_right :: "time_t \<Rightarrow> key_t \<Rightarrow> list_t \<Rightarrow> database \<Rightarrow> (ListErrorKind + nat) \<times> database" where
  "list_push_right now key values db =
     (let db = touch now key db in
      if values = [] then (Inr 0, db)
      else
        let db = (if \<not> contains (m_data db) key then put_data key (VList []) db else db) in
        case map_of (m_data db) key of
          Some (VList list) \<Rightarrow>
            let list = list @ values in (Inr (length list), put_data key (VList list) db)
        | _ \<Rightarrow> (Inl NotList, db))"

definition list_pop_left :: "time_t \<Rightarrow> key_t \<Rightarrow> int \<Rightarrow> database \<Rightarrow> (ListErrorKind + list_t) \<times> database" where
  "list_pop_left now key n db =
     (let db = touch now key db in
      case map_of (m_data db) key of
        None \<Rightarrow> (Inr [], db)
      | Some (VList list) \<Rightarrow>
          let it = iterator_or_end list n in
          if it = length list \<and> n < 0 then (Inr [], db)
          else (Inr (take it list), store_list key (drop it list) db)
      | Some _ \<Rightarrow> (Inl NotList, db))"

definition list_pop_right :: "time_t \<Rightarrow> key_t \<Rightarrow> int \<Rightarrow> database \<Rightarrow> (ListErrorKind + list_t) \<times> database" where
  "list_pop_right now key n db =
     (let db = touch now key db in
      case map_of (m_data db) key of
        None \<Rightarrow> (Inr [], db)
      | Some (VList list) \<Rightarrow>
          let rit = reverse_iterator_or_rend list n in
          if rit = length list \<and> n < 0 then (Inr [], db)
          else
            let base = reverse_base list rit
            in (Inr (drop base list), store_list key (take base list) db)
      | Some _ \<Rightarrow> (Inl NotList, db))"

definition list_range ::
  "time_t \<Rightarrow> key_t \<Rightarrow> int \<Rightarrow> int \<Rightarrow> database \<Rightarrow> ((ListErrorKind + list_t) \<times> database) result" where
  "list_range now key start stop db =
     (let db = touch now key db in
      case map_of (m_data db) key of
        None \<Rightarrow> Inr (Inr [], db)
      | Some (VList list) \<Rightarrow>
          if is_invalid_range start stop then Inr (Inr [], db)
          else
            let (it, end_it) = iterator_pair_inclusive list start stop in
            if it > end_it then undefined_behaviour
            else Inr (Inr (take (end_it - it) (drop it list)), db)
      | Some _ \<Rightarrow> Inr (Inl NotList, db))"

definition list_trim ::
  "time_t \<Rightarrow> key_t \<Rightarrow> int \<Rightarrow> int \<Rightarrow> database \<Rightarrow> ((ListErrorKind + nat) \<times> database) result" where
  "list_trim now key start stop db =
     (let db = touch now key db in
      case map_of (m_data db) key of
        None \<Rightarrow> Inr (Inr 0, db)
      | Some (VList list) \<Rightarrow>
          if is_invalid_range start stop then Inr (Inr 0, db)
          else
            let (it, end_it) = iterator_pair_inclusive list start stop in
            if it > end_it then undefined_behaviour
            else
              let list' = take (end_it - it) (drop it list)
              in Inr (Inr (length list - length list'), store_list key list' db)
      | Some _ \<Rightarrow> Inr (Inl NotList, db))"

text \<open>The forward loop of \<^verbatim>\<open>list_remove\<close>, on the suffix from the iterator, with the number of
  removals still wanted.\<close>

fun remove_forward :: "nat \<Rightarrow> string_t \<Rightarrow> list_t \<Rightarrow> list_t" where
  "remove_forward 0 e xs = xs"
| "remove_forward (Suc n) e [] = []"
| "remove_forward (Suc n) e (x # xs) =
     (if x = e then remove_forward n e xs else x # remove_forward (Suc n) e xs)"

text \<open>The backward loop, on the reversed prefix that the reverse iterator still has in front of it.
  The saved \<^verbatim>\<open>end_it = list.rend()\<close> is based on the first element of the list: once that element
  is erased, the next evaluation of \<^verbatim>\<open>it != end_it\<close> uses an invalid iterator.\<close>

fun remove_backward :: "nat \<Rightarrow> string_t \<Rightarrow> list_t \<Rightarrow> list_t result" where
  "remove_backward 0 e rs = Inr rs"
| "remove_backward (Suc n) e [] = Inr []"
| "remove_backward (Suc n) e (r # rs) =
     (if r = e
      then if rs = [] \<and> n \<noteq> 0 then undefined_behaviour else remove_backward n e rs
      else bind_result (remove_backward (Suc n) e rs) (\<lambda>rs. Inr (r # rs)))"

fun remove_all :: "string_t \<Rightarrow> list_t \<Rightarrow> list_t" where
  "remove_all e [] = []"
| "remove_all e (x # xs) = (if x = e then remove_all e xs else x # remove_all e xs)"

definition remove_elements :: "string_t \<Rightarrow> int \<Rightarrow> list_t \<Rightarrow> list_t result" where
  "remove_elements e count list =
     (if count > 0 then Inr (remove_forward (nat count) e list)
      else if count < 0
      then bind_result (remove_backward (nat (- count)) e (rev list)) (\<lambda>rs. Inr (rev rs))
      else Inr (remove_all e list))"

definition list_remove ::
  "time_t \<Rightarrow> key_t \<Rightarrow> string_t \<Rightarrow> int \<Rightarrow> database \<Rightarrow> ((ListErrorKind + nat) \<times> database) result" where
  "list_remove now key element count db =
     (let db = touch now key db in
      case map_of (m_data db) key of
        None \<Rightarrow> Inr (Inr 0, db)
      | Some (VList list) \<Rightarrow>
          bind_result (remove_elements element count list)
            (\<lambda>list'. Inr (Inr (length list - length list'), store_list key list' db))
      | Some _ \<Rightarrow> Inr (Inl NotList, db))"

section \<open>Contracts\<close>

text \<open>The documented meaning of an index: counted from the back when negative, taken modulo the
  length. A stored list is never empty.\<close>

definition in_range :: "list_t \<Rightarrow> int \<Rightarrow> bool" where
  "in_range l i \<longleftrightarrow> - int (length l) \<le> i \<and> i < int (length l)"

definition pos :: "list_t \<Rightarrow> int \<Rightarrow> nat" where
  "pos l i = nat (i mod int (length l))"

text \<open>The bounds of an inclusive range: the position of the start, clipped to the list, and one past
  the position of the end.\<close>

definition range_from :: "list_t \<Rightarrow> int \<Rightarrow> nat" where
  "range_from l i = (if in_range l i then pos l i else if i < 0 then 0 else length l)"

definition range_to :: "list_t \<Rightarrow> int \<Rightarrow> nat" where
  "range_to l i = (if in_range l i then Suc (pos l i) else if i < 0 then 0 else length l)"

text \<open>The number of elements \<^verbatim>\<open>list_pop_left\<close> and \<^verbatim>\<open>list_pop_right\<close> take for a count \<open>n\<close>.\<close>

definition pop_count :: "list_t \<Rightarrow> int \<Rightarrow> nat" where
  "pop_count l n = (if in_range l n then pos l n else if n < 0 then 0 else length l)"

text \<open>Lifting an operation on a stored list to the view: what happens for a missing key, and what
  for a value that is not a list.\<close>

definition on_list ::
  "(ListErrorKind + 'r) \<Rightarrow> (list_t \<Rightarrow> ((ListErrorKind + 'r) \<times> list_t) option) \<Rightarrow> key_t \<Rightarrow> view_t
     \<Rightarrow> ((ListErrorKind + 'r) \<times> view_t) option" where
  "on_list absent f key vw =
     (case vw key of
        None \<Rightarrow> Some (absent, vw)
      | Some (VList l, t) \<Rightarrow>
          map_option (\<lambda>(r, l'). (r, vw(key := if l' = [] then None else Some (VList l', t)))) (f l)
      | Some _ \<Rightarrow> Some (Inl NotList, vw))"

definition list_len_spec where
  "list_len_spec = on_list (Inr 0) (\<lambda>l. Some (Inr (length l), l))"

definition list_get_spec where
  "list_get_spec index = on_list (Inl OutOfRange)
     (\<lambda>l. Some (if in_range l index then Inr (l ! pos l index) else Inl OutOfRange, l))"

definition list_set_spec where
  "list_set_spec index v = on_list (Inl OutOfRange)
     (\<lambda>l. Some (if in_range l index then (Inr (l ! pos l index), l[pos l index := v])
                else (Inl OutOfRange, l)))"

definition list_pop_left_spec where
  "list_pop_left_spec n = on_list (Inr [])
     (\<lambda>l. Some (Inr (take (pop_count l n) l), drop (pop_count l n) l))"

definition list_pop_right_spec where
  "list_pop_right_spec n = on_list (Inr [])
     (\<lambda>l. Some (Inr (drop (length l - pop_count l n) l), take (length l - pop_count l n) l))"

definition list_push_spec ::
  "(list_t \<Rightarrow> list_t) \<Rightarrow> list_t \<Rightarrow> key_t \<Rightarrow> view_t \<Rightarrow> ((ListErrorKind + nat) \<times> view_t) option" where
  "list_push_spec join vs key vw =
     (if vs = [] then Some (Inr 0, vw)
      else case vw key of
        None \<Rightarrow> Some (Inr (length (join [])), vw(key \<mapsto> (VList (join []), None)))
      | Some (VList l, t) \<Rightarrow> Some (Inr (length (join l)), vw(key \<mapsto> (VList (join l), t)))
      | Some _ \<Rightarrow> Some (Inl NotList, vw))"

text \<open>\<^const>\<open>None\<close>: the range would have to run backwards.\<close>

definition list_range_spec where
  "list_range_spec start stop = on_list (Inr [])
     (\<lambda>l. if is_invalid_range start stop then Some (Inr [], l)
          else if range_from l start > range_to l stop then None
          else Some (Inr (take (range_to l stop - range_from l start) (drop (range_from l start) l)), l))"

definition list_trim_spec where
  "list_trim_spec start stop = on_list (Inr 0)
     (\<lambda>l. if is_invalid_range start stop then Some (Inr 0, l)
          else if range_from l start > range_to l stop then None
          else let l' = take (range_to l stop - range_from l start) (drop (range_from l start) l)
               in Some (Inr (length l - length l'), l'))"

text \<open>Removing \<open>n\<close> occurrences from the left is \<open>n\<close> times \<^const>\<open>remove1\<close>; from the right it is the
  same on the reversed list. \<^const>\<open>None\<close>: the first element is removed and the loop goes on.\<close>

definition removed :: "string_t \<Rightarrow> int \<Rightarrow> list_t \<Rightarrow> list_t option" where
  "removed e count l =
     (if count > 0 then Some ((remove1 e ^^ nat count) l)
      else if count = 0 then Some (removeAll e l)
      else if hd l = e \<and> int (count_list l e) < - count then None
      else Some (rev ((remove1 e ^^ nat (- count)) (rev l))))"

definition list_remove_spec where
  "list_remove_spec e count = on_list (Inr 0)
     (\<lambda>l. map_option (\<lambda>l'. (Inr (length l - length l'), l')) (removed e count l))"

section \<open>The implementation meets the contracts\<close>

lemma pos_eq: "in_range l i \<Longrightarrow> pos l i = nat (if i < 0 then i + int (length l) else i)"
proof -
  assume r: "in_range l i"
  show ?thesis
  proof (cases "i < 0")
    case True
    then have "i mod int (length l) = (i + int (length l)) mod int (length l)" by simp
    also have "\<dots> = i + int (length l)"
      using True r by (intro mod_pos_pos_trivial) (auto simp: in_range_def)
    finally show ?thesis using True by (simp add: pos_def)
  next
    case False
    with r show ?thesis by (simp add: pos_def in_range_def)
  qed
qed

lemma pos_less: "in_range l i \<Longrightarrow> pos l i < length l"
  by (auto simp: pos_eq in_range_def)

lemma pos_not_end [simp]: "in_range l i \<Longrightarrow> pos l i \<noteq> length l"
  using pos_less [of l i] by simp

lemma iterator_or_end_eq: "iterator_or_end l i = (if in_range l i then pos l i else length l)"
  by (auto simp: iterator_or_end_def Let_def pos_eq in_range_def)

lemma iterator_is_end: "iterator_or_end l i = length l \<longleftrightarrow> \<not> in_range l i"
  using pos_less [of l i] by (auto simp: iterator_or_end_eq)

lemma reverse_iterator_eq: "reverse_iterator_or_rend = iterator_or_end"
  by (simp add: fun_eq_iff reverse_iterator_or_rend_def iterator_or_end_def)

lemma iterator_pair_eq: "iterator_pair_inclusive l i j = (range_from l i, range_to l j)"
  using pos_less [of l i] pos_less [of l j]
  by (auto simp: iterator_pair_inclusive_def Let_def iterator_or_end_eq range_from_def range_to_def)

lemma remove_forward_eq: "remove_forward n e l = (remove1 e ^^ n) l"
proof (induction n e l rule: remove_forward.induct)
  case (2 n e)
  show ?case by (induction n) (simp_all add: funpow_swap1)
next
  case (3 n e x xs)
  then show ?case
  proof (cases "x = e")
    case False
    have "(remove1 e ^^ m) (x # ys) = x # (remove1 e ^^ m) ys" for m ys
      using False by (induction m) (simp_all add: funpow_swap1)
    with 3 False show ?thesis by (metis remove_forward.simps(3))
  qed (simp add: funpow_swap1)
qed simp

lemma remove_all_eq: "remove_all e l = removeAll e l"
  by (induction l) auto

lemma remove_backward_eq:
  "remove_backward n e rs =
     (if rs \<noteq> [] \<and> last rs = e \<and> count_list rs e < n then undefined_behaviour
      else Inr (remove_forward n e rs))"
proof (induction n e rs rule: remove_backward.induct)
  case (3 n e r rs)
  show ?case
  proof (cases "r = e")
    case True
    with 3 show ?thesis by (cases rs) auto
  next
    case False
    with 3 show ?thesis by (cases rs) auto
  qed
qed auto

lemma remove_elements_eq:
  assumes "l \<noteq> []"
  shows "remove_elements e count l =
           (case removed e count l of None \<Rightarrow> undefined_behaviour | Some l' \<Rightarrow> Inr l')"
  using assms
  by (auto simp: remove_elements_def removed_def remove_backward_eq remove_forward_eq
      remove_all_eq last_rev count_list_rev zless_nat_eq_int_zless)

lemma view_store_list:
  "wf_db db \<Longrightarrow> view now (store_list k l (touch now k db)) =
     (view now db)(k := if l = [] then None else Some (VList l, Option.bind (view now db k) snd))"
  by (simp add: store_list_def Let_def del_put_data view_del view_update_touch)

lemma wf_store_list [wf_intros]: "wf_db db \<Longrightarrow> wf_db (store_list k l db)"
  by (simp add: store_list_def Let_def del_put_data wf_intros)

lemma lookup_touch_touch [simp]: "touch now k (touch now k db) = touch now k db"
  by (simp add: erase_if_expired_def is_expired_expire)

lemma iterator_or_error_touch:
  "iterator_or_error now key i (touch now key db) =
     (case map_option fst (view now db key) of
        None \<Rightarrow> (Inl OutOfRange, touch now key db)
      | Some (VList l) \<Rightarrow> (if in_range l i then Inr (pos l i) else Inl OutOfRange, touch now key db)
      | Some _ \<Rightarrow> (Inl NotList, touch now key db))"
  by (auto simp: iterator_or_error_def Let_def lookup_touch iterator_is_end iterator_or_end_eq
      split: option.splits data_type.splits)

lemma wf_view_list: "wf_db db \<Longrightarrow> view now db k = Some (VList l, t) \<Longrightarrow> l \<noteq> []"
  using wf_db_value [of db k "VList l"] by (auto simp: view_def split: if_splits)

lemmas list_op_simps = on_list_def Let_def lookup_touch view_store_list view_update_touch
  iterator_or_error_touch iterator_pair_eq wf_intros wf_view_list

interpretation list_len: partial_db_operation True "\<lambda>now db. Inr (list_len now key db)" "list_len_spec key"
  by unfold_locales
     (auto simp: list_len_def list_len_spec_def list_op_simps fun_upd_idem
       split: option.splits data_type.splits prod.splits)

interpretation list_get:
  partial_db_operation True "\<lambda>now db. Inr (list_get now key i db)" "list_get_spec i key"
  by unfold_locales
     (auto simp: list_get_def list_get_spec_def list_op_simps fun_upd_idem
       split: option.splits data_type.splits prod.splits)

interpretation list_set:
  partial_db_operation True "\<lambda>now db. Inr (list_set now key i v db)" "list_set_spec i v key"
  by unfold_locales
     (auto simp: list_set_def list_set_spec_def list_op_simps fun_upd_idem
       split: option.splits data_type.splits prod.splits if_splits)

interpretation list_pop_left:
  partial_db_operation True "\<lambda>now db. Inr (list_pop_left now key n db)" "list_pop_left_spec n key"
  by unfold_locales
     (auto simp: list_pop_left_def list_pop_left_spec_def list_op_simps fun_upd_idem pop_count_def
       iterator_is_end iterator_or_end_eq
       split: option.splits data_type.splits prod.splits if_splits)

interpretation list_pop_right:
  partial_db_operation True "\<lambda>now db. Inr (list_pop_right now key n db)" "list_pop_right_spec n key"
  by unfold_locales
     (auto simp: list_pop_right_def list_pop_right_spec_def list_op_simps fun_upd_idem pop_count_def
       reverse_base_def reverse_iterator_eq iterator_is_end iterator_or_end_eq
       split: option.splits data_type.splits prod.splits if_splits)

interpretation list_range:
  partial_db_operation True "\<lambda>now. list_range now key i j" "list_range_spec i j key"
  by unfold_locales
     (auto simp: list_range_def list_range_spec_def list_op_simps fun_upd_idem
       split: option.splits data_type.splits prod.splits if_splits)

interpretation list_trim:
  partial_db_operation True "\<lambda>now. list_trim now key i j" "list_trim_spec i j key"
  by unfold_locales
     (auto simp: list_trim_def list_trim_spec_def list_op_simps fun_upd_idem
       split: option.splits data_type.splits prod.splits if_splits)

interpretation list_remove:
  partial_db_operation True "\<lambda>now. list_remove now key e count" "list_remove_spec e count key"
  by unfold_locales
     (auto simp: list_remove_def list_remove_spec_def list_op_simps remove_elements_eq
       split: option.splits data_type.splits prod.splits if_splits)

lemmas list_push_simps = list_push_spec_def Let_def lookup_touch contains_touch view_update_touch
  update_conv wf_intros

interpretation list_push_left:
  partial_db_operation True "\<lambda>now db. Inr (list_push_left now key vs db)"
    "list_push_spec (\<lambda>l. rev vs @ l) vs key"
  by unfold_locales
     (auto simp: list_push_left_def list_push_simps
       split: option.splits data_type.splits prod.splits if_splits)

interpretation list_push_right:
  partial_db_operation True "\<lambda>now db. Inr (list_push_right now key vs db)"
    "list_push_spec (\<lambda>l. l @ vs) vs key"
  by unfold_locales
     (auto simp: list_push_right_def list_push_simps
       split: option.splits data_type.splits prod.splits if_splits)

end
