(* ===== verification/Set_Database.thy ===== *)
theory Set_Database
  imports Operation_Contract
begin

text \<open>
  \<^verbatim>\<open>vanity/db/db/set_database.{h,cpp}\<close>: sets of strings. The random generator of \<^verbatim>\<open>set_remove\<close> is a
  parameter \<open>dis\<close>: \<open>dis i n\<close> is the \<open>i\<close>-th draw of the call, taken from \<^verbatim>\<open>uniform_int_distribution(0,
  n - 1)\<close>, so that \<open>dis i n < n\<close>. A reference into a node that \<^verbatim>\<open>expiry_aware_del\<close> has freed is
  undefined behaviour when it is read.
\<close>

section \<open>Operations\<close>

definition set_add :: "time_t \<Rightarrow> key_t \<Rightarrow> set_t \<Rightarrow> database \<Rightarrow> nat option \<times> database" where
  "set_add now key values db =
     (let db = touch now key db in
      if values = [] then (Some 0, db)
      else
        let db = (if \<not> contains (m_data db) key then put_data key (VSet []) db else db) in
        case map_of (m_data db) key of
          Some (VSet st) \<Rightarrow>
            let size = length st; st = uset_merge st values
            in (Some (length st - size), put_data key (VSet st) db)
        | _ \<Rightarrow> (None, db))"

definition set_all :: "time_t \<Rightarrow> key_t \<Rightarrow> database \<Rightarrow> set_t option \<times> database" where
  "set_all now key db =
     (let db = touch now key db in
      case map_of (m_data db) key of
        None \<Rightarrow> (Some [], db)
      | Some (VSet st) \<Rightarrow> (Some st, db)
      | Some _ \<Rightarrow> (None, db))"

text \<open>The loop of \<^verbatim>\<open>set_remove\<close>: \<open>n\<close> more draws, the next one numbered \<open>i\<close>.\<close>

fun remove_draws :: "(nat \<Rightarrow> nat \<Rightarrow> nat) \<Rightarrow> nat \<Rightarrow> nat \<Rightarrow> set_t \<Rightarrow> set_t \<Rightarrow> set_t \<times> set_t" where
  "remove_draws dis i 0 st removed = (st, removed)"
| "remove_draws dis i (Suc n) st removed =
     (let it = dis i (length st)
      in remove_draws dis (Suc i) n (take it st @ drop (Suc it) st) (uset_insert (st ! it) removed))"

definition store_or_del :: "key_t \<Rightarrow> set_t \<Rightarrow> database \<Rightarrow> database" where
  "store_or_del key st db =
     (let db = put_data key (VSet st) db
      in if st = [] then snd (expiry_aware_del key db) else db)"

definition set_remove ::
  "(nat \<Rightarrow> nat \<Rightarrow> nat) \<Rightarrow> time_t \<Rightarrow> key_t \<Rightarrow> nat \<Rightarrow> database \<Rightarrow> set_t option \<times> database" where
  "set_remove dis now key count db =
     (let db = touch now key db in
      case map_of (m_data db) key of
        None \<Rightarrow> (Some [], db)
      | Some (VSet st) \<Rightarrow>
          let count = min count (length st);
              (st, removed) = remove_draws dis 0 count st []
          in (Some removed, store_or_del key st db)
      | Some _ \<Rightarrow> (None, db))"

definition set_discard ::
  "time_t \<Rightarrow> key_t \<Rightarrow> set_t \<Rightarrow> database \<Rightarrow> (nat option \<times> database) result" where
  "set_discard now key values db =
     (let db = touch now key db in
      case map_of (m_data db) key of
        None \<Rightarrow> Inr (Some 0, db)
      | Some (VSet st) \<Rightarrow>
          let size = length st; st = fold uset_erase values st in
          if st = [] then undefined_behaviour
          else Inr (Some (size - length st), put_data key (VSet st) db)
      | Some _ \<Rightarrow> Inr (None, db))"

definition set_len :: "time_t \<Rightarrow> key_t \<Rightarrow> database \<Rightarrow> nat option \<times> database" where
  "set_len now key db =
     (let db = touch now key db in
      case map_of (m_data db) key of
        None \<Rightarrow> (Some 0, db)
      | Some (VSet st) \<Rightarrow> (Some (length st), db)
      | Some _ \<Rightarrow> (None, db))"

definition set_contains :: "time_t \<Rightarrow> key_t \<Rightarrow> string_t \<Rightarrow> database \<Rightarrow> bool option \<times> database" where
  "set_contains now key value db =
     (let db = touch now key db in
      case map_of (m_data db) key of
        None \<Rightarrow> (Some False, db)
      | Some (VSet s) \<Rightarrow> (Some (value \<in> set s), db)
      | Some _ \<Rightarrow> (None, db))"

text \<open>The element leaves the source before it enters the destination, which may be the same set.\<close>

definition set_move ::
  "time_t \<Rightarrow> key_t \<Rightarrow> key_t \<Rightarrow> string_t \<Rightarrow> database \<Rightarrow> bool option \<times> database" where
  "set_move now source dest value db =
     (let db = touch now source db; db = touch now dest db in
      case map_of (m_data db) source of
        None \<Rightarrow> (Some False, db)
      | Some (VSet source_set) \<Rightarrow>
          if value \<notin> set source_set then (Some False, db)
          else
            let db = (if \<not> contains (m_data db) dest then put_data dest (VSet []) db else db) in
            (case map_of (m_data db) dest of
               Some (VSet dest_set) \<Rightarrow>
                 let source_set = uset_erase value source_set;
                     db = put_data source (VSet source_set) db;
                     dest_set = (if source = dest then source_set else dest_set);
                     db = put_data dest (VSet (uset_insert value dest_set)) db;
                     source_set = (if source = dest then uset_insert value dest_set else source_set)
                 in (Some True, if source_set = [] then snd (expiry_aware_del source db) else db)
             | _ \<Rightarrow> (None, db))
      | Some _ \<Rightarrow> (None, db))"

text \<open>The first loop of \<^verbatim>\<open>set_union\<close>: the sets found, or \<^const>\<open>None\<close> for a value of another type.\<close>

fun union_sets :: "(key_t \<Rightarrow> data_type option) \<Rightarrow> key_t list \<Rightarrow> set_t list \<Rightarrow> set_t list option" where
  "union_sets data [] sets = Some sets"
| "union_sets data (key # keys) sets =
     (case data key of
        None \<Rightarrow> union_sets data keys sets
      | Some (VSet st) \<Rightarrow> union_sets data keys (sets @ [st])
      | Some _ \<Rightarrow> None)"

definition merge_all :: "set_t list \<Rightarrow> set_t" where
  "merge_all sets = fold (\<lambda>st result. uset_merge result st) sets []"

definition union_result :: "(key_t \<Rightarrow> data_type option) \<Rightarrow> key_t list \<Rightarrow> set_t option" where
  "union_result data keys =
     (if keys = [] then Some [] else map_option merge_all (union_sets data keys []))"

definition set_union :: "time_t \<Rightarrow> key_t list \<Rightarrow> database \<Rightarrow> set_t option \<times> database" where
  "set_union now keys db =
     (let db = fold (touch now) keys db in (union_result (map_of (m_data db)) keys, db))"

definition set_union_into ::
  "time_t \<Rightarrow> key_t \<Rightarrow> key_t list \<Rightarrow> database \<Rightarrow> nat option \<times> database" where
  "set_union_into now dest keys db =
     (case set_union now keys db of
        (None, db) \<Rightarrow> (None, db)
      | (Some result, db) \<Rightarrow> (Some (length result), clear_expiry dest (put_data dest (VSet result) db)))"

definition set_union_len :: "time_t \<Rightarrow> key_t list \<Rightarrow> database \<Rightarrow> nat option \<times> database" where
  "set_union_len now keys db =
     (case set_union now keys db of (result, db) \<Rightarrow> (map_option length result, db))"

text \<open>The first loop of \<^verbatim>\<open>set_intersection\<close>. \<^const>\<open>Inl\<close> is the value of an early return: the empty
  st for a missing key, \<^verbatim>\<open>nullopt\<close> for a value of another type.\<close>

fun intersection_sets ::
  "(key_t \<Rightarrow> data_type option) \<Rightarrow> key_t list \<Rightarrow> set_t list \<Rightarrow> set_t option
     \<Rightarrow> set_t option + set_t list \<times> set_t option" where
  "intersection_sets data [] sets smallest = Inr (sets, smallest)"
| "intersection_sets data (key # keys) sets smallest =
     (case data key of
        None \<Rightarrow> Inl (Some [])
      | Some (VSet st) \<Rightarrow>
          intersection_sets data keys (sets @ [st])
            (case smallest of
               None \<Rightarrow> Some st
             | Some s \<Rightarrow> if length st < length s then Some st else smallest)
      | Some _ \<Rightarrow> Inl None)"

text \<open>The second loop. Its test \<^verbatim>\<open>&set == &smallest\<close> compares the addresses of two distinct local
  variables and never holds, so every st is searched.\<close>

definition common_elements :: "set_t list \<Rightarrow> set_t \<Rightarrow> set_t" where
  "common_elements sets smallest =
     fold (\<lambda>value result. if list_all (\<lambda>s. value \<in> set s) sets then uset_insert value result else result)
       smallest []"

definition intersection_result :: "(key_t \<Rightarrow> data_type option) \<Rightarrow> key_t list \<Rightarrow> set_t option" where
  "intersection_result data keys =
     (if keys = [] then Some []
      else case intersection_sets data keys [] None of
        Inl r \<Rightarrow> r
      | Inr (sets, None) \<Rightarrow> None
      | Inr (sets, Some smallest) \<Rightarrow> Some (common_elements sets smallest))"

definition set_intersection :: "time_t \<Rightarrow> key_t list \<Rightarrow> database \<Rightarrow> set_t option \<times> database" where
  "set_intersection now keys db =
     (let db = fold (touch now) keys db in (intersection_result (map_of (m_data db)) keys, db))"

definition set_intersection_into ::
  "time_t \<Rightarrow> key_t \<Rightarrow> key_t list \<Rightarrow> database \<Rightarrow> nat option \<times> database" where
  "set_intersection_into now dest keys db =
     (case set_intersection now keys db of
        (None, db) \<Rightarrow> (None, db)
      | (Some result, db) \<Rightarrow> (Some (length result), clear_expiry dest (put_data dest (VSet result) db)))"

definition set_intersection_len :: "time_t \<Rightarrow> key_t list \<Rightarrow> database \<Rightarrow> nat option \<times> database" where
  "set_intersection_len now keys db =
     (case set_intersection now keys db of (result, db) \<Rightarrow> (map_option length result, db))"

definition difference_result :: "(key_t \<Rightarrow> data_type option) \<Rightarrow> key_t \<Rightarrow> key_t \<Rightarrow> set_t option" where
  "difference_result data key1 key2 =
     (case (data key1, data key2) of
        (None, _) \<Rightarrow> Some []
      | (_, None) \<Rightarrow> Some []
      | (Some (VSet set1), Some (VSet set2)) \<Rightarrow>
          Some (fold (\<lambda>value result. if value \<notin> set set2 then uset_insert value result else result) set1 [])
      | _ \<Rightarrow> None)"

definition set_difference :: "time_t \<Rightarrow> key_t \<Rightarrow> key_t \<Rightarrow> database \<Rightarrow> set_t option \<times> database" where
  "set_difference now key1 key2 db =
     (let db = touch now key1 db; db = touch now key2 db
      in (difference_result (map_of (m_data db)) key1 key2, db))"

definition set_difference_into ::
  "time_t \<Rightarrow> key_t \<Rightarrow> key_t \<Rightarrow> key_t \<Rightarrow> database \<Rightarrow> nat option \<times> database" where
  "set_difference_into now dest key1 key2 db =
     (case set_difference now key1 key2 db of
        (None, db) \<Rightarrow> (None, db)
      | (Some result, db) \<Rightarrow> (Some (length result), clear_expiry dest (put_data dest (VSet result) db)))"

definition set_difference_len :: "time_t \<Rightarrow> key_t \<Rightarrow> key_t \<Rightarrow> database \<Rightarrow> nat option \<times> database" where
  "set_difference_len now key1 key2 db =
     (case set_difference now key1 key2 db of (result, db) \<Rightarrow> (map_option length result, db))"

section \<open>Contracts\<close>

text \<open>Lifting an operation on a stored set to the view: the result for a missing key, and
  \<^const>\<open>None\<close> for a value that is not a set. An operation deletes the key whose set it leaves empty.\<close>

definition on_set ::
  "'r \<Rightarrow> (set_t \<Rightarrow> ('r \<times> set_t option) option) \<Rightarrow> key_t \<Rightarrow> view_t \<Rightarrow> ('r option \<times> view_t) option" where
  "on_set absent f key vw =
     (case vw key of
        None \<Rightarrow> Some (Some absent, vw)
      | Some (VSet s, t) \<Rightarrow>
          map_option (\<lambda>(r, s'). (Some r, vw(key := map_option (\<lambda>s. (VSet s, t)) s'))) (f s)
      | Some _ \<Rightarrow> Some (None, vw))"

definition set_add_spec :: "set_t \<Rightarrow> key_t \<Rightarrow> view_t \<Rightarrow> (nat option \<times> view_t) option" where
  "set_add_spec values key vw =
     (if values = [] then Some (Some 0, vw)
      else case vw key of
        None \<Rightarrow> Some (Some (length values), vw(key \<mapsto> (VSet values, None)))
      | Some (VSet s, t) \<Rightarrow>
          Some (Some (card (set values - set s)), vw(key \<mapsto> (VSet (uset_merge s values), t)))
      | Some _ \<Rightarrow> Some (None, vw))"

definition set_all_spec where
  "set_all_spec = on_set [] (\<lambda>s. Some (s, Some s))"

definition set_remove_spec where
  "set_remove_spec dis count = on_set []
     (\<lambda>s. let (s', removed) = remove_draws dis 0 (min count (length s)) s []
          in Some (removed, if s' = [] then None else Some s'))"

text \<open>\<^const>\<open>None\<close>: the call reads the size of the set it has just deleted.\<close>

definition set_discard_spec where
  "set_discard_spec values = on_set 0
     (\<lambda>s. if set s \<subseteq> set values then None
          else Some (card (set s \<inter> set values), Some (filter (\<lambda>v. v \<notin> set values) s)))"

definition set_len_spec where
  "set_len_spec = on_set 0 (\<lambda>s. Some (card (set s), Some s))"

definition set_contains_spec where
  "set_contains_spec value = on_set False (\<lambda>s. Some (value \<in> set s, Some s))"

definition set_move_spec :: "key_t \<Rightarrow> key_t \<Rightarrow> string_t \<Rightarrow> view_t \<Rightarrow> bool option \<times> view_t" where
  "set_move_spec source dest value vw =
     (case vw source of
        None \<Rightarrow> (Some False, vw)
      | Some (VSet s, t) \<Rightarrow>
          if value \<notin> set s then (Some False, vw)
          else if source = dest
          then (Some True, vw(source \<mapsto> (VSet (uset_insert value (uset_erase value s)), t)))
          else
            let rest = uset_erase value s;
                vw' = vw(source := if rest = [] then None else Some (VSet rest, t))
            in (case vw dest of
                  None \<Rightarrow> (Some True, vw'(dest \<mapsto> (VSet [value], None)))
                | Some (VSet d, u) \<Rightarrow> (Some True, vw'(dest \<mapsto> (VSet (uset_insert value d), u)))
                | Some _ \<Rightarrow> (None, vw))
      | Some _ \<Rightarrow> (None, vw))"

text \<open>The operations over several sets, for a result computed from the visible values.\<close>

definition visible :: "view_t \<Rightarrow> key_t \<Rightarrow> data_type option" where
  "visible vw key = map_option fst (vw key)"

definition read_spec :: "((key_t \<Rightarrow> data_type option) \<Rightarrow> set_t option) \<Rightarrow> view_t \<Rightarrow> set_t option \<times> view_t" where
  "read_spec f vw = (f (visible vw), vw)"

definition into_spec ::
  "((key_t \<Rightarrow> data_type option) \<Rightarrow> set_t option) \<Rightarrow> key_t \<Rightarrow> view_t \<Rightarrow> nat option \<times> view_t" where
  "into_spec f dest vw =
     (case f (visible vw) of
        None \<Rightarrow> (None, vw)
      | Some s \<Rightarrow> (Some (card (set s)), vw(dest \<mapsto> (VSet s, None))))"

definition card_spec ::
  "((key_t \<Rightarrow> data_type option) \<Rightarrow> set_t option) \<Rightarrow> view_t \<Rightarrow> nat option \<times> view_t" where
  "card_spec f vw = (map_option (\<lambda>s. card (set s)) (f (visible vw)), vw)"

section \<open>The loops\<close>

lemma fold_uset_erase: "fold uset_erase vs s = filter (\<lambda>x. x \<notin> set vs) s"
  by (induction vs arbitrary: s) (auto simp: uset_erase_def intro: filter_cong)

lemma filter_outside_Nil: "filter (\<lambda>x. x \<notin> A) s = [] \<longleftrightarrow> set s \<subseteq> A"
  by (auto simp: filter_empty_conv)

lemma discarded_count:
  "distinct s \<Longrightarrow> length s - length (filter (\<lambda>x. x \<notin> set vs) s) = card (set s \<inter> set vs)"
  using list_set.fold_erase_removed [of s vs] by (simp add: fold_uset_erase)

lemma uset_merge_empty: "distinct vs \<Longrightarrow> uset_merge [] vs = vs"
proof (induction vs rule: rev_induct)
  case Nil
  then show ?case by (simp add: uset_merge_def)
next
  case (snoc v vs)
  then have "uset_merge [] vs = vs" by simp
  with snoc show ?case by (simp add: uset_merge_def uset_insert_def)
qed

lemma uset_merge_added: "distinct s \<Longrightarrow> length (uset_merge s vs) - length s = card (set vs - set s)"
  unfolding uset_merge_def by (rule list_set.fold_insert_added)

lemma filter_loop:
  "distinct xs \<Longrightarrow> distinct r \<Longrightarrow> set xs \<inter> set r = {} \<Longrightarrow>
     fold (\<lambda>v r. if P v then uset_insert v r else r) xs r = r @ filter P xs"
  by (induction xs arbitrary: r) (auto simp: uset_insert_def)

lemma filter_loop_distinct:
  "distinct r \<Longrightarrow> distinct (fold (\<lambda>v r. if P v then uset_insert v r else r) xs r)"
  by (induction xs arbitrary: r) (auto simp: uset_insert_def)

lemma merge_all_elems: "set (merge_all sets) = \<Union> (set ` set sets)"
proof -
  have "set (fold (\<lambda>s r. uset_merge r s) sets r) = set r \<union> \<Union> (set ` set sets)" for r
    by (induction sets arbitrary: r) auto
  then show ?thesis by (simp add: merge_all_def)
qed

lemma merge_all_distinct [simp]: "distinct (merge_all sets)"
proof -
  have "distinct r \<Longrightarrow> distinct (fold (\<lambda>s r. uset_merge r s) sets r)" for r
    by (induction sets arbitrary: r) auto
  then show ?thesis by (simp add: merge_all_def)
qed

lemma union_result_distinct: "union_result data keys = Some s \<Longrightarrow> distinct s"
  by (auto simp: union_result_def split: if_splits)

lemma common_elements_filter:
  "distinct s \<Longrightarrow> common_elements sets s = filter (\<lambda>v. \<forall>t \<in> set sets. v \<in> set t) s"
  using filter_loop [of s "[]" "\<lambda>v. list_all (\<lambda>t. v \<in> set t) sets"]
  by (simp add: common_elements_def list_all_iff)

text \<open>The set found to be the smallest is one of the sets found.\<close>

lemma intersection_sets_smallest:
  "intersection_sets data keys sets sm = Inr (sets', sm') \<Longrightarrow>
     (case sm of None \<Rightarrow> sets = [] | Some s \<Rightarrow> s \<in> set sets) \<Longrightarrow>
     (case sm' of None \<Rightarrow> sets' = [] | Some s \<Rightarrow> s \<in> set sets')"
proof (induction data keys sets sm rule: intersection_sets.induct)
  case (2 data key keys sets sm)
  show ?case
  proof (cases "data key")
    case None
    with 2 show ?thesis by simp
  next
    case (Some v)
    with 2 show ?thesis
      by (cases v; cases sm) (auto split: if_splits)
  qed
qed simp

lemma intersection_sets_found:
  "intersection_sets data keys sets sm = Inr (sets', sm') \<Longrightarrow>
     sets' = sets @ map (\<lambda>k. case data k of Some (VSet s) \<Rightarrow> s | _ \<Rightarrow> []) keys \<and>
     (\<forall>k \<in> set keys. \<exists>s. data k = Some (VSet s))"
  by (induction data keys sets sm rule: intersection_sets.induct)
     (auto split: option.splits data_type.splits)

lemma intersection_sets_early: "intersection_sets data keys sets sm = Inl (Some s) \<Longrightarrow> s = []"
  by (induction data keys sets sm rule: intersection_sets.induct)
     (auto split: option.splits data_type.splits)

lemma intersection_result_distinct: "intersection_result data keys = Some s \<Longrightarrow> distinct s"
  by (auto simp: intersection_result_def common_elements_def filter_loop_distinct
      dest: intersection_sets_early split: if_splits sum.splits option.splits)

lemma difference_result_distinct: "difference_result data k1 k2 = Some s \<Longrightarrow> distinct s"
  by (auto simp: difference_result_def filter_loop_distinct split: option.splits data_type.splits)

text \<open>What the drawing loop removes and what it leaves.\<close>

lemma remove_draws_partition:
  assumes "\<And>i n. 0 < n \<Longrightarrow> dis i n < n" and "distinct (s @ r)" and "n \<le> length s"
    and "remove_draws dis i n s r = (s', r')"
  shows "distinct (s' @ r') \<and> set s' \<union> set r' = set s \<union> set r \<and> length r' = length r + n"
  using assms(2-)
proof (induction n arbitrary: i s r)
  case 0
  then show ?case by simp
next
  case (Suc n)
  let ?j = "dis i (length s)"
  have j: "?j < length s" using Suc.prems(2) by (intro assms(1)) (cases s, simp_all)
  let ?s = "take ?j s @ drop (Suc ?j) s"
  have split: "s = take ?j s @ s ! ?j # drop (Suc ?j) s" by (rule id_take_nth_drop [OF j])
  then have s: "set s = insert (s ! ?j) (set ?s)" "distinct ?s" "s ! ?j \<notin> set ?s"
    using Suc.prems(1)
    by (metis Un_insert_right list.simps(15) set_append,
        metis distinct_append not_distinct_conv_prefix distinct.simps(2) append_assoc distinct_append disjoint_insert(2) list.simps(15),
        metis distinct_append distinct.simps(2) disjoint_insert(2) list.simps(15) UnE set_append)
  have fresh: "s ! ?j \<notin> set r" using Suc.prems(1) nth_mem [OF j] by auto
  have "distinct (?s @ (r @ [s ! ?j]))" using s fresh Suc.prems(1) by auto
  moreover have "n \<le> length ?s" using Suc.prems(2) j by simp
  moreover have "remove_draws dis (Suc i) n ?s (r @ [s ! ?j]) = (s', r')"
    using Suc.prems(3) fresh by (simp add: uset_insert_def Let_def)
  ultimately have "distinct (s' @ r') \<and> set s' \<union> set r' = set ?s \<union> set (r @ [s ! ?j]) \<and>
      length r' = length (r @ [s ! ?j]) + n"
    by (rule Suc.IH)
  with s(1) show ?case by auto
qed

section \<open>The implementation meets the contracts\<close>

lemma wf_view_set: "wf_db db \<Longrightarrow> view now db k = Some (VSet s, t) \<Longrightarrow> distinct s"
  using wf_db_value [of db k "VSet s"] by (auto simp: view_def split: if_splits)

lemma view_store_or_del:
  "wf_db db \<Longrightarrow> view now (store_or_del k s (touch now k db)) =
     (view now db)(k := if s = [] then None else Some (VSet s, Option.bind (view now db k) snd))"
  by (simp add: store_or_del_def Let_def del_put_data view_del view_update_touch)

lemma wf_store_or_del [wf_intros]: "wf_db db \<Longrightarrow> distinct s \<Longrightarrow> wf_db (store_or_del k s db)"
  by (simp add: store_or_del_def Let_def del_put_data wf_intros)

lemmas set_op_simps = on_set_def Let_def lookup_touch contains_touch view_update_touch view_store_or_del
  wf_intros wf_view_set distinct_card fun_upd_idem

interpretation set_add:
  partial_db_operation "distinct values" "\<lambda>now db. Inr (set_add now key values db)" "set_add_spec values key"
  by unfold_locales
     (auto simp: set_add_def set_add_spec_def set_op_simps update_conv uset_merge_empty uset_merge_added
       split: option.splits data_type.splits prod.splits if_splits)

interpretation set_all: partial_db_operation True "\<lambda>now db. Inr (set_all now key db)" "set_all_spec key"
  by unfold_locales
     (auto simp: set_all_def set_all_spec_def set_op_simps
       split: option.splits data_type.splits prod.splits if_splits)

interpretation set_len: partial_db_operation True "\<lambda>now db. Inr (set_len now key db)" "set_len_spec key"
  by unfold_locales
     (auto simp: set_len_def set_len_spec_def set_op_simps
       split: option.splits data_type.splits prod.splits if_splits)

interpretation set_contains:
  partial_db_operation True "\<lambda>now db. Inr (set_contains now key v db)" "set_contains_spec v key"
  by unfold_locales
     (auto simp: set_contains_def set_contains_spec_def set_op_simps
       split: option.splits data_type.splits prod.splits if_splits)

interpretation set_discard:
  partial_db_operation "distinct values" "\<lambda>now. set_discard now key values" "set_discard_spec values key"
  by unfold_locales
     (auto simp: set_discard_def set_discard_spec_def set_op_simps fold_uset_erase
       filter_outside_Nil discarded_count
       split: option.splits data_type.splits prod.splits if_splits)

interpretation set_remove:
  partial_db_operation "\<forall>i n. 0 < n \<longrightarrow> dis i n < n" "\<lambda>now db. Inr (set_remove dis now key count db)"
    "set_remove_spec dis count key"
proof unfold_locales
  fix db now r vw
  assume dis: "\<forall>i n. 0 < n \<longrightarrow> dis i n < n" and wf: "wf_db db"
    and spec: "set_remove_spec dis count key (view now db) = Some (r, vw)"
  have "distinct (fst (remove_draws dis 0 (min count (length s)) s []))"
    if "view now db key = Some (VSet s, t)" for s t
    using remove_draws_partition [of dis s "[]" "min count (length s)" 0] dis wf_view_set [OF wf that]
    by (cases "remove_draws dis 0 (min count (length s)) s []") auto
  with wf spec show "\<exists>db'. Inr (set_remove dis now key count db) = Inr (r, db') \<and> view now db' = vw \<and> wf_db db'"
    by (fastforce simp: set_remove_def set_remove_spec_def set_op_simps
        split: option.splits data_type.splits prod.splits if_splits)
qed (auto simp: set_remove_spec_def set_op_simps split: option.splits data_type.splits prod.splits)

lemma lookup_touch2:
  "map_of (m_data (touch now k' (touch now k db))) k = map_option fst (view now db k)"
  "map_of (m_data (touch now k' (touch now k db))) k' = map_option fst (view now db k')"
  by (simp_all add: lookup_touch map_of_data_touch) (simp add: view_def is_expired_def)

lemma visible_eq: "visible vw = (\<lambda>key. map_option fst (vw key))"
  by (simp add: visible_def fun_eq_iff)

lemma visible_Some: "visible vw k = Some v \<longleftrightarrow> (\<exists>t. vw k = Some (v, t))"
  by (auto simp: visible_def)

lemma union_sets_cong:
  "(\<And>k. k \<in> set keys \<Longrightarrow> data k = data' k) \<Longrightarrow> union_sets data keys sets = union_sets data' keys sets"
  by (induction keys arbitrary: sets) (auto split: option.splits data_type.splits)

lemma intersection_sets_cong:
  "(\<And>k. k \<in> set keys \<Longrightarrow> data k = data' k) \<Longrightarrow>
     intersection_sets data keys sets sm = intersection_sets data' keys sets sm"
  by (induction keys arbitrary: sets sm) (auto split: option.splits data_type.splits)

lemma union_result_touched:
  "union_result (map_of (m_data (fold (touch now) keys db))) keys = union_result (visible (view now db)) keys"
  unfolding union_result_def
  by (subst union_sets_cong [where data' = "visible (view now db)"])
     (simp_all add: lookup_touch_all_view visible_def)

lemma intersection_result_touched:
  "intersection_result (map_of (m_data (fold (touch now) keys db))) keys =
     intersection_result (visible (view now db)) keys"
  unfolding intersection_result_def
  by (subst intersection_sets_cong [where data' = "visible (view now db)"])
     (simp_all add: lookup_touch_all_view visible_def)

lemma difference_result_touched:
  "difference_result (map_of (m_data (touch now k2 (touch now k1 db)))) k1 k2 =
     difference_result (visible (view now db)) k1 k2"
  by (simp add: difference_result_def lookup_touch2 visible_def)

lemmas many_set_simps = read_spec_def into_spec_def card_spec_def Let_def view_set_data wf_intros
  union_result_touched intersection_result_touched difference_result_touched
  distinct_card union_result_distinct intersection_result_distinct difference_result_distinct

interpretation set_union: db_operation True "\<lambda>now. set_union now keys"
    "read_spec (\<lambda>data. union_result data keys)"
  by unfold_locales (simp_all add: set_union_def many_set_simps)

interpretation set_union_into: db_operation True "\<lambda>now. set_union_into now dest keys"
    "into_spec (\<lambda>data. union_result data keys) dest"
  by unfold_locales (auto simp: set_union_into_def set_union_def many_set_simps split: option.splits)

interpretation set_union_len: db_operation True "\<lambda>now. set_union_len now keys"
    "card_spec (\<lambda>data. union_result data keys)"
  by unfold_locales
     (auto simp: set_union_len_def set_union_def many_set_simps intro!: option.map_cong0 option.map_cong)

interpretation set_intersection: db_operation True "\<lambda>now. set_intersection now keys"
    "read_spec (\<lambda>data. intersection_result data keys)"
  by unfold_locales (simp_all add: set_intersection_def many_set_simps)

interpretation set_intersection_into: db_operation True "\<lambda>now. set_intersection_into now dest keys"
    "into_spec (\<lambda>data. intersection_result data keys) dest"
  by unfold_locales
     (auto simp: set_intersection_into_def set_intersection_def many_set_simps split: option.splits)

interpretation set_intersection_len: db_operation True "\<lambda>now. set_intersection_len now keys"
    "card_spec (\<lambda>data. intersection_result data keys)"
  by unfold_locales
     (auto simp: set_intersection_len_def set_intersection_def many_set_simps intro!: option.map_cong)

interpretation set_difference: db_operation True "\<lambda>now. set_difference now key1 key2"
    "read_spec (\<lambda>data. difference_result data key1 key2)"
  by unfold_locales (simp_all add: set_difference_def many_set_simps)

interpretation set_difference_into: db_operation True "\<lambda>now. set_difference_into now dest key1 key2"
    "into_spec (\<lambda>data. difference_result data key1 key2) dest"
  by unfold_locales
     (auto simp: set_difference_into_def set_difference_def many_set_simps split: option.splits)

interpretation set_difference_len: db_operation True "\<lambda>now. set_difference_len now key1 key2"
    "card_spec (\<lambda>data. difference_result data key1 key2)"
  by unfold_locales
     (auto simp: set_difference_len_def set_difference_def many_set_simps intro!: option.map_cong)

section \<open>Moving an element\<close>

definition value_expiry :: "view_t \<Rightarrow> key_t \<Rightarrow> time_t option" where
  "value_expiry vw k = Option.bind (vw k) snd"

lemma times_touch2:
  assumes "wf_db db"
  shows "map_of (m_expiry_times (touch now k' (touch now k db))) k = value_expiry (view now db) k"
    and "map_of (m_expiry_times (touch now k' (touch now k db))) k' = value_expiry (view now db) k'"
  using expiry_touch [OF assms, of now k] expiry_touch [OF wf_touch [OF assms, of now k], of now k']
  by (auto simp: map_of_times_touch value_expiry_def)

lemma view_move:
  assumes "wf_db db" and "k \<noteq> k'"
  shows "view now (put_data k' w (put_data k v (touch now k' (touch now k db)))) =
           (view now db)(k \<mapsto> (v, value_expiry (view now db) k), k' \<mapsto> (w, value_expiry (view now db) k'))"
  using assms by (simp add: view_put_data times_touch2)

lemma view_move_new:
  assumes "wf_db db" and "k \<noteq> k'"
  shows "view now (put_data k' w (put_data k v (put_data k' u (touch now k' (touch now k db))))) =
           (view now db)(k \<mapsto> (v, value_expiry (view now db) k), k' \<mapsto> (w, value_expiry (view now db) k'))"
  using assms by (simp add: view_put_data times_touch2 fun_eq_iff)

interpretation set_move: db_operation True "\<lambda>now. set_move now source dest v" "set_move_spec source dest v"
proof unfold_locales
  fix db now
  assume wf: "wf_db db"
  show "(fst (set_move now source dest v db), view now (snd (set_move now source dest v db))) =
          set_move_spec source dest v (view now db)"
  proof (cases "view now db source")
    case None
    then show ?thesis by (simp add: set_move_def set_move_spec_def Let_def lookup_touch2)
  next
    case (Some p)
    obtain x t where p: "p = (x, t)" by (cases p)
    show ?thesis
    proof (cases "source = dest")
      case True
      with wf Some p show ?thesis
        by (auto simp: set_move_def set_move_spec_def Let_def lookup_touch2 contains_def view_put_data
            times_touch2 value_expiry_def uset_insert_def split: data_type.splits)
    next
      case False
      with wf Some p show ?thesis
        by (auto simp: set_move_def set_move_spec_def Let_def lookup_touch2 contains_def update_conv
            view_move view_move_new value_expiry_def uset_insert_def view_del fun_upd_twist
            split: data_type.splits option.splits)
    qed
  qed
  show "wf_db (snd (set_move now source dest v db))"
    using wf wf_view_set [OF wf, of now source] wf_view_set [OF wf, of now dest]
    by (auto simp: set_move_def Let_def lookup_touch2 contains_def update_conv list_set.invar_insert
        list_set.invar_erase intro!: wf_intros split: data_type.splits option.splits)
qed

section \<open>The results as sets\<close>

definition set_at :: "(key_t \<Rightarrow> data_type option) \<Rightarrow> key_t \<Rightarrow> set_t option" where
  "set_at data k = (case data k of Some (VSet s) \<Rightarrow> Some s | _ \<Rightarrow> None)"

lemma set_at_Some [simp]: "set_at data k = Some s \<longleftrightarrow> data k = Some (VSet s)"
  by (auto simp: set_at_def split: option.splits data_type.splits)

lemma set_at_simps: "data k = None \<Longrightarrow> set_at data k = None" "data k = Some (VSet s) \<Longrightarrow> set_at data k = Some s"
  by (simp_all add: set_at_def)

lemma union_sets_found:
  "union_sets data keys sets =
     (if \<exists>k \<in> set keys. \<exists>v. data k = Some v \<and> data_index v \<noteq> 4 then None
      else Some (sets @ List.map_filter (set_at data) keys))"
  by (induction data keys sets rule: union_sets.induct)
     (auto simp: map_filter_simps set_at_simps split: option.splits data_type.splits)

lemma union_result_eq:
  "union_result data keys =
     (if \<exists>k \<in> set keys. \<exists>v. data k = Some v \<and> data_index v \<noteq> 4 then None
      else Some (merge_all (List.map_filter (set_at data) keys)))"
  by (auto simp: union_result_def union_sets_found merge_all_def map_filter_simps)

lemma union_elements:
  assumes "union_result data keys = Some s"
  shows "x \<in> set s \<longleftrightarrow> (\<exists>k \<in> set keys. \<exists>t. data k = Some (VSet t) \<and> x \<in> set t)"
proof -
  have "s = merge_all (List.map_filter (set_at data) keys)"
    using assms by (simp add: union_result_eq split: if_splits)
  then show ?thesis by (auto simp: merge_all_elems set_map_filter)
qed

lemma union_result_None:
  "union_result data keys = None \<longleftrightarrow> (\<exists>k \<in> set keys. \<exists>v. data k = Some v \<and> data_index v \<noteq> 4)"
  by (simp add: union_result_eq)

lemma intersection_sets_all:
  "\<forall>k \<in> set keys. \<exists>s. data k = Some (VSet s) \<Longrightarrow> \<exists>r. intersection_sets data keys sets sm = Inr r"
  by (induction data keys sets sm rule: intersection_sets.induct) auto

lemma intersection_elements:
  assumes "keys \<noteq> []" and "\<forall>k \<in> set keys. \<exists>s. data k = Some (VSet s) \<and> distinct s"
  shows "\<exists>s. intersection_result data keys = Some s \<and>
           (\<forall>x. x \<in> set s \<longleftrightarrow> (\<forall>k \<in> set keys. \<forall>t. data k = Some (VSet t) \<longrightarrow> x \<in> set t))"
proof -
  obtain sets sm where r: "intersection_sets data keys [] None = Inr (sets, sm)"
    using intersection_sets_all [of keys data] assms(2) by fastforce
  from intersection_sets_found [OF r] have sets: "sets = map (\<lambda>k. case data k of Some (VSet s) \<Rightarrow> s | _ \<Rightarrow> []) keys"
    by simp
  with intersection_sets_smallest [OF r] assms(1) obtain m where m: "sm = Some m" "m \<in> set sets"
    by (cases sm) auto
  from sets m assms(2) have "distinct m" by auto
  then have "set (common_elements sets m) = {x. \<forall>t \<in> set sets. x \<in> set t}"
    using m by (auto simp: common_elements_filter)
  also have "\<dots> = {x. \<forall>k \<in> set keys. \<forall>t. data k = Some (VSet t) \<longrightarrow> x \<in> set t}"
    using assms(2) by (fastforce simp: sets)
  finally show ?thesis using r m assms(1) by (auto simp: intersection_result_def)
qed

lemma difference_elements:
  assumes "data k1 = Some (VSet s)" and "data k2 = Some (VSet t)" and "distinct s"
  shows "difference_result data k1 k2 = Some (filter (\<lambda>x. x \<notin> set t) s)"
  using assms filter_loop [of s "[]" "\<lambda>x. x \<notin> set t"] by (simp add: difference_result_def)

end
