(* ===== verification/Hash_Database.thy ===== *)
theory Hash_Database
  imports Operation_Contract
begin

text \<open>
  \<^verbatim>\<open>vanity/db/db/hash_database.{h,cpp}\<close>: hashes, maps from strings to strings. Reading the size of
  a hash that \<^verbatim>\<open>expiry_aware_del\<close> has freed, and advancing an iterator whose node was extracted, are
  undefined behaviour.
\<close>

datatype HashError = NotHash | BadKey

section \<open>Operations\<close>

definition hash_set :: "key_t \<Rightarrow> hash_t \<Rightarrow> database \<Rightarrow> unit \<times> database" where
  "hash_set key values db = ((), clear_expiry key (put_data key (VHash values) db))"

definition hash_all :: "time_t \<Rightarrow> key_t \<Rightarrow> database \<Rightarrow> (HashError + hash_t) \<times> database" where
  "hash_all now key db =
     (let db = touch now key db in
      case map_of (m_data db) key of
        None \<Rightarrow> (Inr [], db)
      | Some (VHash hash) \<Rightarrow> (Inr hash, db)
      | Some _ \<Rightarrow> (Inl NotHash, db))"

definition hash_get ::
  "time_t \<Rightarrow> key_t \<Rightarrow> string_t \<Rightarrow> database \<Rightarrow> (HashError + string_t) \<times> database" where
  "hash_get now key hash_key db =
     (let db = touch now key db in
      case map_of (m_data db) key of
        None \<Rightarrow> (Inl BadKey, db)
      | Some (VHash hash) \<Rightarrow>
          (case map_of hash hash_key of None \<Rightarrow> (Inl BadKey, db) | Some s \<Rightarrow> (Inr s, db))
      | Some _ \<Rightarrow> (Inl NotHash, db))"

definition hash_contains ::
  "time_t \<Rightarrow> key_t \<Rightarrow> string_t \<Rightarrow> database \<Rightarrow> (HashError + bool) \<times> database" where
  "hash_contains now key hash_key db =
     (let db = touch now key db in
      case map_of (m_data db) key of
        None \<Rightarrow> (Inr False, db)
      | Some (VHash hash) \<Rightarrow> (Inr (contains hash hash_key), db)
      | Some _ \<Rightarrow> (Inl NotHash, db))"

definition hash_len :: "time_t \<Rightarrow> key_t \<Rightarrow> database \<Rightarrow> (HashError + nat) \<times> database" where
  "hash_len now key db =
     (let db = touch now key db in
      case map_of (m_data db) key of
        None \<Rightarrow> (Inr 0, db)
      | Some (VHash hash) \<Rightarrow> (Inr (length hash), db)
      | Some _ \<Rightarrow> (Inl NotHash, db))"

definition hash_key_len ::
  "time_t \<Rightarrow> key_t \<Rightarrow> string_t \<Rightarrow> database \<Rightarrow> (HashError + nat) \<times> database" where
  "hash_key_len now key hash_key db =
     (let db = touch now key db in
      case map_of (m_data db) key of
        None \<Rightarrow> (Inl BadKey, db)
      | Some (VHash hash) \<Rightarrow>
          (case map_of hash hash_key of None \<Rightarrow> (Inl BadKey, db) | Some s \<Rightarrow> (Inr (length s), db))
      | Some _ \<Rightarrow> (Inl NotHash, db))"

definition hash_remove ::
  "time_t \<Rightarrow> key_t \<Rightarrow> string_t list \<Rightarrow> database \<Rightarrow> ((HashError + nat) \<times> database) result" where
  "hash_remove now key hash_keys db =
     (let db = touch now key db in
      case map_of (m_data db) key of
        None \<Rightarrow> Inr (Inr 0, db)
      | Some (VHash hash) \<Rightarrow>
          let size = length hash; hash = fold AList.delete hash_keys hash in
          if hash = [] then undefined_behaviour
          else Inr (Inr (size - length hash), put_data key (VHash hash) db)
      | Some _ \<Rightarrow> Inr (Inl NotHash, db))"

definition hash_keys :: "time_t \<Rightarrow> key_t \<Rightarrow> database \<Rightarrow> (HashError + string_t list) \<times> database" where
  "hash_keys now key db =
     (let db = touch now key db in
      case map_of (m_data db) key of
        None \<Rightarrow> (Inr [], db)
      | Some (VHash hash) \<Rightarrow> (Inr (map fst hash), db)
      | Some _ \<Rightarrow> (Inl NotHash, db))"

definition hash_values :: "time_t \<Rightarrow> key_t \<Rightarrow> database \<Rightarrow> (HashError + string_t list) \<times> database" where
  "hash_values now key db =
     (let db = touch now key db in
      case map_of (m_data db) key of
        None \<Rightarrow> (Inr [], db)
      | Some (VHash hash) \<Rightarrow> (Inr (map snd hash), db)
      | Some _ \<Rightarrow> (Inl NotHash, db))"

text \<open>The loop of \<^verbatim>\<open>hash_update\<close>. A field the hash lacks is inserted by extracting its node from
  \<^verbatim>\<open>values\<close>, which invalidates the iterator; the loop's \<^verbatim>\<open>++it\<close> then advances it.\<close>

fun update_fields :: "hash_t \<Rightarrow> hash_t \<Rightarrow> hash_t result" where
  "update_fields [] hash = Inr hash"
| "update_fields ((f, v) # values) hash =
     (if contains hash f then update_fields values (AList.update f v hash) else undefined_behaviour)"

text \<open>For a missing key, \<^verbatim>\<open>m_data[key] = {}\<close> stores the first alternative of the variant: the empty
  string.\<close>

definition hash_update ::
  "time_t \<Rightarrow> key_t \<Rightarrow> hash_t \<Rightarrow> database \<Rightarrow> ((HashError + nat) \<times> database) result" where
  "hash_update now key values db =
     (let db = touch now key db;
          db = (if \<not> contains (m_data db) key then put_data key (VStr []) db else db)
      in case map_of (m_data db) key of
        Some (VHash hash) \<Rightarrow>
          bind_result (update_fields values hash)
            (\<lambda>hash'. Inr (Inr (length hash' - length hash), put_data key (VHash hash') db))
      | _ \<Rightarrow> Inr (Inl NotHash, db))"

definition hash_many_get ::
  "time_t \<Rightarrow> key_t \<Rightarrow> string_t list \<Rightarrow> database \<Rightarrow> (HashError + string_t option list) \<times> database" where
  "hash_many_get now key hash_fields db =
     (let db = touch now key db in
      case map_of (m_data db) key of
        None \<Rightarrow> (Inr (replicate (length hash_fields) None), db)
      | Some (VHash hash) \<Rightarrow> (Inr (map (map_of hash) hash_fields), db)
      | Some _ \<Rightarrow> (Inl NotHash, db))"

section \<open>Contracts\<close>

definition hash_read_spec ::
  "(HashError + 'r) \<Rightarrow> (hash_t \<Rightarrow> HashError + 'r) \<Rightarrow> key_t \<Rightarrow> view_t \<Rightarrow> (HashError + 'r) \<times> view_t" where
  "hash_read_spec absent f key vw =
     (case vw key of
        None \<Rightarrow> absent
      | Some (VHash h, _) \<Rightarrow> f h
      | Some _ \<Rightarrow> Inl NotHash, vw)"

definition hash_set_spec :: "hash_t \<Rightarrow> key_t \<Rightarrow> view_t \<Rightarrow> unit \<times> view_t" where
  "hash_set_spec values key vw = ((), vw(key \<mapsto> (VHash values, None)))"

definition hash_all_spec where
  "hash_all_spec = hash_read_spec (Inr []) Inr"

definition hash_get_spec where
  "hash_get_spec f = hash_read_spec (Inl BadKey)
     (\<lambda>h. case map_of h f of None \<Rightarrow> Inl BadKey | Some s \<Rightarrow> Inr s)"

definition hash_contains_spec where
  "hash_contains_spec f = hash_read_spec (Inr False) (\<lambda>h. Inr (f \<in> fst ` set h))"

definition hash_len_spec where
  "hash_len_spec = hash_read_spec (Inr 0) (\<lambda>h. Inr (card (fst ` set h)))"

definition hash_key_len_spec where
  "hash_key_len_spec f = hash_read_spec (Inl BadKey)
     (\<lambda>h. case map_of h f of None \<Rightarrow> Inl BadKey | Some s \<Rightarrow> Inr (length s))"

definition hash_keys_spec where
  "hash_keys_spec = hash_read_spec (Inr []) (\<lambda>h. Inr (map fst h))"

definition hash_values_spec where
  "hash_values_spec = hash_read_spec (Inr []) (\<lambda>h. Inr (map snd h))"

definition hash_many_get_spec where
  "hash_many_get_spec fs = hash_read_spec (Inr (map (\<lambda>_. None) fs)) (\<lambda>h. Inr (map (map_of h) fs))"

text \<open>\<^const>\<open>None\<close>: the call reads the size of the hash it has just deleted.\<close>

definition hash_remove_spec ::
  "string_t list \<Rightarrow> key_t \<Rightarrow> view_t \<Rightarrow> ((HashError + nat) \<times> view_t) option" where
  "hash_remove_spec fs key vw =
     (case vw key of
        None \<Rightarrow> Some (Inr 0, vw)
      | Some (VHash h, t) \<Rightarrow>
          if fst ` set h \<subseteq> set fs then None
          else Some (Inr (card (fst ` set h \<inter> set fs)),
                     vw(key \<mapsto> (VHash (filter (\<lambda>(f, _). f \<notin> set fs) h), t)))
      | Some _ \<Rightarrow> Some (Inl NotHash, vw))"

text \<open>\<^const>\<open>None\<close>: the update has a field the hash lacks. A missing key becomes an empty string.\<close>

definition hash_update_spec :: "hash_t \<Rightarrow> key_t \<Rightarrow> view_t \<Rightarrow> ((HashError + nat) \<times> view_t) option" where
  "hash_update_spec values key vw =
     (case vw key of
        None \<Rightarrow> Some (Inl NotHash, vw(key \<mapsto> (VStr [], None)))
      | Some (VHash h, t) \<Rightarrow>
          if fst ` set values \<subseteq> fst ` set h
          then Some (Inr 0, vw(key \<mapsto> (VHash (map (\<lambda>(f, v). (f, case map_of values f of None \<Rightarrow> v | Some w \<Rightarrow> w)) h), t)))
          else None
      | Some _ \<Rightarrow> Some (Inl NotHash, vw))"

section \<open>The implementation meets the contracts\<close>

lemma wf_view_hash: "wf_db db \<Longrightarrow> view now db k = Some (VHash h, t) \<Longrightarrow> distinct (map fst h)"
  using wf_db_value [of db k "VHash h"] by (auto simp: view_def split: if_splits)

lemma card_fields: "distinct (map fst h) \<Longrightarrow> card (fst ` set h) = length h"
  using distinct_card [of "map fst h"] by simp

lemmas hash_read_simps = hash_read_spec_def Let_def lookup_touch wf_intros

interpretation hash_set:
  db_operation "distinct (map fst values)" "\<lambda>now. hash_set key values" "hash_set_spec values key"
  by unfold_locales (simp_all add: hash_set_def hash_set_spec_def view_set_data wf_intros)

interpretation hash_all: db_operation True "\<lambda>now. hash_all now key" "hash_all_spec key"
  by unfold_locales
     (auto simp: hash_all_def hash_all_spec_def hash_read_simps split: option.splits data_type.splits)

interpretation hash_get: db_operation True "\<lambda>now. hash_get now key f" "hash_get_spec f key"
  by unfold_locales
     (auto simp: hash_get_def hash_get_spec_def hash_read_simps split: option.splits data_type.splits)

interpretation hash_contains: db_operation True "\<lambda>now. hash_contains now key f" "hash_contains_spec f key"
  by unfold_locales
     (auto simp: hash_contains_def hash_contains_spec_def hash_read_simps contains_iff
       split: option.splits data_type.splits)

interpretation hash_len: db_operation True "\<lambda>now. hash_len now key" "hash_len_spec key"
  by unfold_locales
     (auto simp: hash_len_def hash_len_spec_def hash_read_simps card_fields wf_view_hash
       split: option.splits data_type.splits)

interpretation hash_key_len: db_operation True "\<lambda>now. hash_key_len now key f" "hash_key_len_spec f key"
  by unfold_locales
     (auto simp: hash_key_len_def hash_key_len_spec_def hash_read_simps
       split: option.splits data_type.splits)

interpretation hash_keys: db_operation True "\<lambda>now. hash_keys now key" "hash_keys_spec key"
  by unfold_locales
     (auto simp: hash_keys_def hash_keys_spec_def hash_read_simps split: option.splits data_type.splits)

interpretation hash_values: db_operation True "\<lambda>now. hash_values now key" "hash_values_spec key"
  by unfold_locales
     (auto simp: hash_values_def hash_values_spec_def hash_read_simps
       split: option.splits data_type.splits)

interpretation hash_many_get: db_operation True "\<lambda>now. hash_many_get now key fs" "hash_many_get_spec fs key"
  by unfold_locales
     (auto simp: hash_many_get_def hash_many_get_spec_def hash_read_simps map_replicate_const
       split: option.splits data_type.splits)

lemma fold_delete_fields: "fold AList.delete fs h = filter (\<lambda>(f, _). f \<notin> set fs) h"
proof (induction fs arbitrary: h)
  case Nil
  then show ?case by (simp add: case_prod_unfold)
next
  case (Cons f fs)
  have "fold AList.delete (f # fs) h = filter (\<lambda>(g, _). g \<notin> set fs) (AList.delete f h)"
    by (simp add: Cons)
  also have "\<dots> = filter (\<lambda>(g, _). g \<notin> set (f # fs)) h"
    by (auto simp: AList.delete_eq case_prod_unfold intro: filter_cong)
  finally show ?case .
qed

lemma fold_delete_Nil: "fold AList.delete fs h = [] \<longleftrightarrow> fst ` set h \<subseteq> set fs"
  by (auto simp: fold_delete_fields filter_empty_conv)

lemma removed_fields:
  assumes "distinct (map fst h)"
  shows "length h - length (fold AList.delete fs h) = card (fst ` set h \<inter> set fs)"
proof -
  have "{f \<in> set fs. map_of h f \<noteq> None} = fst ` set h \<inter> set fs"
    by (auto simp: map_of_eq_None_iff)
  with alist_map.fold_erase_size [OF assms, of fs] show ?thesis by simp
qed

interpretation hash_remove:
  partial_db_operation True "\<lambda>now. hash_remove now key fs" "hash_remove_spec fs key"
proof -
  note simps = hash_remove_def hash_remove_spec_def Let_def lookup_touch wf_touch view_update_touch
    fold_delete_Nil removed_fields wf_view_hash alist_map.fold_erase_invar wf_put_data
  show "partial_db_operation True (\<lambda>now. hash_remove now key fs) (hash_remove_spec fs key)"
  proof unfold_locales
    fix db now r vw
    assume "wf_db db" "hash_remove_spec fs key (view now db) = Some (r, vw)"
    then show "\<exists>db'. hash_remove now key fs db = Inr (r, db') \<and> view now db' = vw \<and> wf_db db'"
      by (force simp: simps simp flip: fold_delete_fields split: option.splits data_type.splits if_splits)
  next
    fix db now
    assume "wf_db db" "hash_remove_spec fs key (view now db) = None"
    then show "hash_remove now key fs db = undefined_behaviour"
      by (auto simp: simps split: option.splits data_type.splits if_splits prod.splits)
  qed
qed

lemma update_present:
  "contains h f \<Longrightarrow> distinct (map fst h) \<Longrightarrow>
     AList.update f v h = map (\<lambda>(g, w). (g, if g = f then v else w)) h"
proof (induction h)
  case Nil
  then show ?case by simp
next
  case (Cons p h)
  show ?case
  proof (cases "fst p = f")
    case True
    then have "f \<notin> fst ` set h" using Cons.prems by auto
    then have "map (\<lambda>(g, w). (g, if g = f then v else w)) h = h" by (force intro: map_idI)
    with True show ?thesis by (cases p) simp
  next
    case False
    with Cons show ?thesis by (cases p) (auto simp: contains_def)
  qed
qed

definition overwrite :: "hash_t \<Rightarrow> hash_t \<Rightarrow> hash_t" where
  "overwrite values h = map (\<lambda>(f, v). (f, case map_of values f of None \<Rightarrow> v | Some w \<Rightarrow> w)) h"

lemma overwrite_keys [simp]: "map fst (overwrite values h) = map fst h"
  by (simp add: overwrite_def case_prod_unfold)

lemma length_overwrite [simp]: "length (overwrite values h) = length h"
  by (simp add: overwrite_def)

lemma update_fields_eq:
  "distinct (map fst values) \<Longrightarrow> distinct (map fst h) \<Longrightarrow>
     update_fields values h =
       (if fst ` set values \<subseteq> fst ` set h then Inr (overwrite values h) else undefined_behaviour)"
proof (induction "values" arbitrary: h)
  case Nil
  then show ?case by (simp add: overwrite_def case_prod_unfold)
next
  case (Cons p vs)
  obtain f v where p: "p = (f, v)" by (cases p)
  show ?case
  proof (cases "contains h f")
    case False
    with p show ?thesis by (simp add: contains_iff)
  next
    case True
    let ?h = "AList.update f v h"
    have keys: "map fst ?h = map fst h" "fst ` set ?h = fst ` set h"
      using True Cons.prems(2) by (auto simp: update_present case_prod_unfold image_image)
    have "map_of vs f = None"
      using Cons.prems(1) p by (auto simp: map_of_eq_None_iff)
    then have "overwrite vs ?h = overwrite (p # vs) h"
      using True Cons.prems(2) p by (auto simp: overwrite_def update_present)
    moreover have "f \<in> fst ` set h" using True by (simp add: contains_iff)
    ultimately show ?thesis
      using Cons.IH [of ?h] Cons.prems True p by (simp add: keys)
  qed
qed

interpretation hash_update:
  partial_db_operation "distinct (map fst values)" "\<lambda>now. hash_update now key values"
    "hash_update_spec values key"
  by unfold_locales
     (auto simp: hash_update_def hash_update_spec_def Let_def lookup_touch contains_touch update_conv
       view_update_touch update_fields_eq wf_view_hash overwrite_def [symmetric] intro!: wf_intros
       split: option.splits data_type.splits if_splits)

end
