(* ===== verification/Locked_Database.thy ===== *)
theory Locked_Database
  imports Db_Operations General_Database Primitive_Database List_Database Set_Database Hash_Database
begin

text \<open>
  \<^verbatim>\<open>vanity/db/db/locked_database.{h,cpp}\<close> and \<^verbatim>\<open>vanity/db/wal/write_ahead_logger.{h,cpp}\<close>: the
  operations of a database as the server calls them, under the database's mutex, with the write
  ahead log. A call of a method with its arguments is a value of \<open>db_call\<close>, what the method returns
  is a value of \<open>db_reply\<close>, and \<open>run_call\<close> dispatches to the operation of \<^verbatim>\<open>Database\<close> that the method
  calls. Each method runs under its mutex, so a run of the server is a sequence of calls.

  \<open>fadd\<close> and \<open>dis\<close> are the parameters of \<^const>\<open>incr_float\<close> and \<^const>\<open>set_remove\<close>.
\<close>

section \<open>Calls and replies\<close>

text \<open>One constructor per method of the class, with the arguments of the method.\<close>

datatype (plugins only: size) db_call =
    call_begin
  | call_commit
  | call_discard
  | call_reset
  | call_has key_t
  | call_del key_t
  | call_get key_t
  | call_type key_t
  | call_keys
  | call_copy_to key_t key_t
  | call_move_to key_t key_t
  | call_copy_to_db key_t nat
  | call_move_to_db key_t nat
  | call_clear_expiry key_t
  | call_set_expiry key_t time_t
  | call_get_expiry key_t
  | call_clear_all_expiry
  | call_str_set key_t string_t
  | call_int_set key_t int_t
  | call_float_set key_t float_t
  | call_incr_int key_t int_t
  | call_incr_float key_t float_t
  | call_str_len key_t
  | call_many_get "string_t list"
  | call_list_len key_t
  | call_list_get key_t int_t
  | call_list_set key_t int_t string_t
  | call_list_push_left key_t list_t
  | call_list_push_right key_t list_t
  | call_list_pop_left key_t int_t
  | call_list_pop_right key_t int_t
  | call_list_range key_t int_t int_t
  | call_list_trim key_t int_t int_t
  | call_list_remove key_t string_t int_t
  | call_set_add key_t set_t
  | call_set_all key_t
  | call_set_remove key_t nat
  | call_set_discard key_t set_t
  | call_set_len key_t
  | call_set_contains key_t string_t
  | call_set_move key_t key_t string_t
  | call_set_union "string_t list"
  | call_set_union_into key_t "string_t list"
  | call_set_union_len "string_t list"
  | call_set_intersection "string_t list"
  | call_set_intersection_into key_t "string_t list"
  | call_set_intersection_len "string_t list"
  | call_set_difference key_t key_t
  | call_set_difference_into key_t key_t key_t
  | call_set_difference_len key_t key_t
  | call_hash_set key_t hash_t
  | call_hash_all key_t
  | call_hash_get key_t string_t
  | call_hash_contains key_t string_t
  | call_hash_len key_t
  | call_hash_key_len key_t string_t
  | call_hash_remove key_t "string_t list"
  | call_hash_keys key_t
  | call_hash_values key_t
  | call_hash_update key_t hash_t
  | call_hash_many_get key_t "string_t list"

text \<open>The result types of the methods.\<close>

datatype db_reply =
    RUnit
  | RBool bool
  | RData "data_type option"
  | RType "nat option"
  | RKeys "key_t list"
  | RTime "time_t option"
  | RInt "int_t option"
  | RFloat "float_t option"
  | RMany "data_type option list"
  | RListNat "ListErrorKind + nat"
  | RListStr "ListErrorKind + string_t"
  | RList "ListErrorKind + list_t"
  | RNat "nat option"
  | RSet "set_t option"
  | ROptBool "bool option"
  | RHash "HashError + hash_t"
  | RHashStr "HashError + string_t"
  | RHashBool "HashError + bool"
  | RHashNat "HashError + nat"
  | RHashStrs "HashError + string_t list"
  | RHashMany "HashError + string_t option list"

text \<open>The operation code that a method passes to \<^verbatim>\<open>wal_log\<close>, and the arguments it passes with it,
  as the log writes them.\<close>

primrec call_op :: "db_call \<Rightarrow> db_op_t" where
  "call_op call_begin = op_begin"
| "call_op call_commit = op_commit"
| "call_op call_discard = op_discard"
| "call_op call_reset = op_reset"
| "call_op (call_has k) = op_has"
| "call_op (call_del k) = op_del"
| "call_op (call_get k) = op_get"
| "call_op (call_type k) = op_type"
| "call_op call_keys = op_keys"
| "call_op (call_copy_to k k2) = op_copy_to"
| "call_op (call_move_to k k2) = op_move_to"
| "call_op (call_copy_to_db k j) = op_copy_to_db"
| "call_op (call_move_to_db k j) = op_move_to_db"
| "call_op (call_clear_expiry k) = op_clear_expiry"
| "call_op (call_set_expiry k t) = op_set_expiry"
| "call_op (call_get_expiry k) = op_get_expiry"
| "call_op call_clear_all_expiry = op_clear_all_expiry"
| "call_op (call_str_set k v) = op_str_set"
| "call_op (call_int_set k v) = op_int_set"
| "call_op (call_float_set k v) = op_float_set"
| "call_op (call_incr_int k v) = op_incr_int"
| "call_op (call_incr_float k v) = op_incr_float"
| "call_op (call_str_len k) = op_str_len"
| "call_op (call_many_get ks) = op_many_get"
| "call_op (call_list_len k) = op_list_len"
| "call_op (call_list_get k i) = op_list_get"
| "call_op (call_list_set k i v) = op_list_set"
| "call_op (call_list_push_left k vs) = op_list_push_left"
| "call_op (call_list_push_right k vs) = op_list_push_right"
| "call_op (call_list_pop_left k n) = op_list_pop_left"
| "call_op (call_list_pop_right k n) = op_list_pop_right"
| "call_op (call_list_range k i j) = op_list_range"
| "call_op (call_list_trim k i j) = op_list_trim"
| "call_op (call_list_remove k v n) = op_list_remove"
| "call_op (call_set_add k vs) = op_set_add"
| "call_op (call_set_all k) = op_set_all"
| "call_op (call_set_remove k n) = op_set_remove"
| "call_op (call_set_discard k vs) = op_set_discard"
| "call_op (call_set_len k) = op_set_len"
| "call_op (call_set_contains k v) = op_set_contains"
| "call_op (call_set_move k k2 v) = op_set_move"
| "call_op (call_set_union ks) = op_set_union"
| "call_op (call_set_union_into k ks) = op_set_union_into"
| "call_op (call_set_union_len ks) = op_set_union_len"
| "call_op (call_set_intersection ks) = op_set_intersection"
| "call_op (call_set_intersection_into k ks) = op_set_intersection_into"
| "call_op (call_set_intersection_len ks) = op_set_intersection_len"
| "call_op (call_set_difference k k2) = op_set_difference"
| "call_op (call_set_difference_into k k2 k3) = op_set_difference_into"
| "call_op (call_set_difference_len k k2) = op_set_difference_len"
| "call_op (call_hash_set k h) = op_hash_set"
| "call_op (call_hash_all k) = op_hash_all"
| "call_op (call_hash_get k f) = op_hash_get"
| "call_op (call_hash_contains k f) = op_hash_contains"
| "call_op (call_hash_len k) = op_hash_len"
| "call_op (call_hash_key_len k f) = op_hash_key_len"
| "call_op (call_hash_remove k fs) = op_hash_remove"
| "call_op (call_hash_keys k) = op_hash_keys"
| "call_op (call_hash_values k) = op_hash_values"
| "call_op (call_hash_update k h) = op_hash_update"
| "call_op (call_hash_many_get k fs) = op_hash_many_get"

primrec call_args :: "db_call \<Rightarrow> string" where
  "call_args call_begin = []"
| "call_args call_commit = []"
| "call_args call_discard = []"
| "call_args call_reset = []"
| "call_args (call_has k) = write_string k"
| "call_args (call_del k) = write_string k"
| "call_args (call_get k) = write_string k"
| "call_args (call_type k) = write_string k"
| "call_args call_keys = []"
| "call_args (call_copy_to k k2) = write_string k @ write_string k2"
| "call_args (call_move_to k k2) = write_string k @ write_string k2"
| "call_args (call_copy_to_db k j) = write_string k @ write_arith 4 j"
| "call_args (call_move_to_db k j) = write_string k @ write_arith 4 j"
| "call_args (call_clear_expiry k) = write_string k"
| "call_args (call_set_expiry k t) = write_string k @ write_time t"
| "call_args (call_get_expiry k) = write_string k"
| "call_args call_clear_all_expiry = []"
| "call_args (call_str_set k v) = write_string k @ write_string v"
| "call_args (call_int_set k v) = write_string k @ write_int v"
| "call_args (call_float_set k v) = write_string k @ write_float v"
| "call_args (call_incr_int k v) = write_string k @ write_int v"
| "call_args (call_incr_float k v) = write_string k @ write_float v"
| "call_args (call_str_len k) = write_string k"
| "call_args (call_many_get ks) = write_vector ks"
| "call_args (call_list_len k) = write_string k"
| "call_args (call_list_get k i) = write_string k @ write_int i"
| "call_args (call_list_set k i v) = write_string k @ write_int i @ write_string v"
| "call_args (call_list_push_left k vs) = write_string k @ write_list vs"
| "call_args (call_list_push_right k vs) = write_string k @ write_list vs"
| "call_args (call_list_pop_left k n) = write_string k @ write_int n"
| "call_args (call_list_pop_right k n) = write_string k @ write_int n"
| "call_args (call_list_range k i j) = write_string k @ write_int i @ write_int j"
| "call_args (call_list_trim k i j) = write_string k @ write_int i @ write_int j"
| "call_args (call_list_remove k v n) = write_string k @ write_string v @ write_int n"
| "call_args (call_set_add k vs) = write_string k @ write_set vs"
| "call_args (call_set_all k) = write_string k"
| "call_args (call_set_remove k n) = write_string k @ write_size n"
| "call_args (call_set_discard k vs) = write_string k @ write_set vs"
| "call_args (call_set_len k) = write_string k"
| "call_args (call_set_contains k v) = write_string k @ write_string v"
| "call_args (call_set_move k k2 v) = write_string k @ write_string k2 @ write_string v"
| "call_args (call_set_union ks) = write_vector ks"
| "call_args (call_set_union_into k ks) = write_string k @ write_vector ks"
| "call_args (call_set_union_len ks) = write_vector ks"
| "call_args (call_set_intersection ks) = write_vector ks"
| "call_args (call_set_intersection_into k ks) = write_string k @ write_vector ks"
| "call_args (call_set_intersection_len ks) = write_vector ks"
| "call_args (call_set_difference k k2) = write_string k @ write_string k2"
| "call_args (call_set_difference_into k k2 k3) = write_string k @ write_string k2 @ write_string k3"
| "call_args (call_set_difference_len k k2) = write_string k @ write_string k2"
| "call_args (call_hash_set k h) = write_string k @ write_hash h"
| "call_args (call_hash_all k) = write_string k"
| "call_args (call_hash_get k f) = write_string k @ write_string f"
| "call_args (call_hash_contains k f) = write_string k @ write_string f"
| "call_args (call_hash_len k) = write_string k"
| "call_args (call_hash_key_len k f) = write_string k @ write_string f"
| "call_args (call_hash_remove k fs) = write_string k @ write_vector fs"
| "call_args (call_hash_keys k) = write_string k"
| "call_args (call_hash_values k) = write_string k"
| "call_args (call_hash_update k h) = write_string k @ write_hash h"
| "call_args (call_hash_many_get k fs) = write_string k @ write_vector fs"

text \<open>An operation on the \<open>d\<close>-th database of the array.\<close>

definition on_db :: "('r \<Rightarrow> db_reply) \<Rightarrow> (database \<Rightarrow> 'r \<times> database) \<Rightarrow> nat \<Rightarrow> database list \<Rightarrow> db_reply \<times> database list" where
  "on_db reply f d dbs = (case f (dbs ! d) of (r, db) \<Rightarrow> (reply r, dbs[d := db]))"

definition on_db_result ::
  "('r \<Rightarrow> db_reply) \<Rightarrow> (database \<Rightarrow> ('r \<times> database) result) \<Rightarrow> nat \<Rightarrow> database list
     \<Rightarrow> (db_reply \<times> database list) result" where
  "on_db_result reply f d dbs = bind_result (f (dbs ! d)) (\<lambda>(r, db). Inr (reply r, dbs[d := db]))"

primrec run_call ::
  "(float_t \<Rightarrow> float_t \<Rightarrow> float_t) \<Rightarrow> (nat \<Rightarrow> nat \<Rightarrow> nat) \<Rightarrow> time_t \<Rightarrow> nat \<Rightarrow> db_call \<Rightarrow> database list
     \<Rightarrow> (db_reply \<times> database list) result" where
  "run_call fadd dis now d call_begin dbs = Inr (RUnit, dbs)"
| "run_call fadd dis now d call_commit dbs = Inr (RUnit, dbs)"
| "run_call fadd dis now d call_discard dbs = Inr (RUnit, dbs)"
| "run_call fadd dis now d call_reset dbs = Inr (on_db (\<lambda>_. RUnit) (General_Database.reset) d dbs)"
| "run_call fadd dis now d (call_has k) dbs = Inr (on_db RBool (has now k) d dbs)"
| "run_call fadd dis now d (call_del k) dbs = Inr (on_db RBool (General_Database.del k) d dbs)"
| "run_call fadd dis now d (call_get k) dbs = Inr (on_db RData (General_Database.get now k) d dbs)"
| "run_call fadd dis now d (call_type k) dbs = Inr (on_db RType (type_of_key now k) d dbs)"
| "run_call fadd dis now d call_keys dbs = Inr (on_db RKeys (General_Database.keys now) d dbs)"
| "run_call fadd dis now d (call_copy_to k k2) dbs = Inr (on_db RBool (copy_to now k k2) d dbs)"
| "run_call fadd dis now d (call_move_to k k2) dbs = Inr (on_db RBool (move_to now k k2) d dbs)"
| "run_call fadd dis now d (call_copy_to_db k j) dbs = 
     (if j < length dbs then Inr (map_prod RBool id (copy_to_db now k d j dbs)) else undefined_behaviour)"
| "run_call fadd dis now d (call_move_to_db k j) dbs = 
     (if j < length dbs then Inr (map_prod RBool id (move_to_db now k d j dbs)) else undefined_behaviour)"
| "run_call fadd dis now d (call_clear_expiry k) dbs =
     Inr (on_db (\<lambda>_. RUnit) (\<lambda>db. ((), clear_expiry k db)) d dbs)"
| "run_call fadd dis now d (call_set_expiry k t) dbs =
     Inr (on_db (\<lambda>_. RUnit) (\<lambda>db. ((), set_expiry k t db)) d dbs)"
| "run_call fadd dis now d (call_get_expiry k) dbs = Inr (on_db RTime (get_expiry now k) d dbs)"
| "run_call fadd dis now d call_clear_all_expiry dbs =
     Inr (on_db (\<lambda>_. RUnit) (\<lambda>db. ((), clear_all_expiry db)) d dbs)"
| "run_call fadd dis now d (call_str_set k v) dbs = Inr (on_db (\<lambda>_. RUnit) (str_set k v) d dbs)"
| "run_call fadd dis now d (call_int_set k v) dbs = Inr (on_db (\<lambda>_. RUnit) (int_set k v) d dbs)"
| "run_call fadd dis now d (call_float_set k v) dbs = Inr (on_db (\<lambda>_. RUnit) (float_set k v) d dbs)"
| "run_call fadd dis now d (call_incr_int k v) dbs = on_db_result RInt (incr_int now k v) d dbs"
| "run_call fadd dis now d (call_incr_float k v) dbs = Inr (on_db RFloat (incr_float fadd now k v) d dbs)"
| "run_call fadd dis now d (call_str_len k) dbs = Inr (on_db RInt (str_len now k) d dbs)"
| "run_call fadd dis now d (call_many_get ks) dbs = Inr (on_db RMany (many_get now ks) d dbs)"
| "run_call fadd dis now d (call_list_len k) dbs = Inr (on_db RListNat (list_len now k) d dbs)"
| "run_call fadd dis now d (call_list_get k i) dbs = Inr (on_db RListStr (list_get now k i) d dbs)"
| "run_call fadd dis now d (call_list_set k i v) dbs = Inr (on_db RListStr (list_set now k i v) d dbs)"
| "run_call fadd dis now d (call_list_push_left k vs) dbs =
     Inr (on_db RListNat (list_push_left now k vs) d dbs)"
| "run_call fadd dis now d (call_list_push_right k vs) dbs =
     Inr (on_db RListNat (list_push_right now k vs) d dbs)"
| "run_call fadd dis now d (call_list_pop_left k n) dbs = Inr (on_db RList (list_pop_left now k n) d dbs)"
| "run_call fadd dis now d (call_list_pop_right k n) dbs = Inr (on_db RList (list_pop_right now k n) d dbs)"
| "run_call fadd dis now d (call_list_range k i j) dbs = on_db_result RList (list_range now k i j) d dbs"
| "run_call fadd dis now d (call_list_trim k i j) dbs = on_db_result RListNat (list_trim now k i j) d dbs"
| "run_call fadd dis now d (call_list_remove k v n) dbs = on_db_result RListNat (list_remove now k v n) d dbs"
| "run_call fadd dis now d (call_set_add k vs) dbs = Inr (on_db RNat (set_add now k vs) d dbs)"
| "run_call fadd dis now d (call_set_all k) dbs = Inr (on_db RSet (set_all now k) d dbs)"
| "run_call fadd dis now d (call_set_remove k n) dbs = Inr (on_db RSet (set_remove dis now k n) d dbs)"
| "run_call fadd dis now d (call_set_discard k vs) dbs = on_db_result RNat (set_discard now k vs) d dbs"
| "run_call fadd dis now d (call_set_len k) dbs = Inr (on_db RNat (set_len now k) d dbs)"
| "run_call fadd dis now d (call_set_contains k v) dbs = Inr (on_db ROptBool (set_contains now k v) d dbs)"
| "run_call fadd dis now d (call_set_move k k2 v) dbs = Inr (on_db ROptBool (set_move now k k2 v) d dbs)"
| "run_call fadd dis now d (call_set_union ks) dbs = Inr (on_db RSet (set_union now ks) d dbs)"
| "run_call fadd dis now d (call_set_union_into k ks) dbs = Inr (on_db RNat (set_union_into now k ks) d dbs)"
| "run_call fadd dis now d (call_set_union_len ks) dbs = Inr (on_db RNat (set_union_len now ks) d dbs)"
| "run_call fadd dis now d (call_set_intersection ks) dbs = Inr (on_db RSet (set_intersection now ks) d dbs)"
| "run_call fadd dis now d (call_set_intersection_into k ks) dbs =
     Inr (on_db RNat (set_intersection_into now k ks) d dbs)"
| "run_call fadd dis now d (call_set_intersection_len ks) dbs =
     Inr (on_db RNat (set_intersection_len now ks) d dbs)"
| "run_call fadd dis now d (call_set_difference k k2) dbs = Inr (on_db RSet (set_difference now k k2) d dbs)"
| "run_call fadd dis now d (call_set_difference_into k k2 k3) dbs =
     Inr (on_db RNat (set_difference_into now k k2 k3) d dbs)"
| "run_call fadd dis now d (call_set_difference_len k k2) dbs =
     Inr (on_db RNat (set_difference_len now k k2) d dbs)"
| "run_call fadd dis now d (call_hash_set k h) dbs = Inr (on_db (\<lambda>_. RUnit) (hash_set k h) d dbs)"
| "run_call fadd dis now d (call_hash_all k) dbs = Inr (on_db RHash (hash_all now k) d dbs)"
| "run_call fadd dis now d (call_hash_get k f) dbs = Inr (on_db RHashStr (hash_get now k f) d dbs)"
| "run_call fadd dis now d (call_hash_contains k f) dbs = Inr (on_db RHashBool (hash_contains now k f) d dbs)"
| "run_call fadd dis now d (call_hash_len k) dbs = Inr (on_db RHashNat (hash_len now k) d dbs)"
| "run_call fadd dis now d (call_hash_key_len k f) dbs = Inr (on_db RHashNat (hash_key_len now k f) d dbs)"
| "run_call fadd dis now d (call_hash_remove k fs) dbs = on_db_result RHashNat (hash_remove now k fs) d dbs"
| "run_call fadd dis now d (call_hash_keys k) dbs = Inr (on_db RHashStrs (hash_keys now k) d dbs)"
| "run_call fadd dis now d (call_hash_values k) dbs = Inr (on_db RHashStrs (hash_values now k) d dbs)"
| "run_call fadd dis now d (call_hash_update k h) dbs = on_db_result RHashNat (hash_update now k h) d dbs"
| "run_call fadd dis now d (call_hash_many_get k fs) dbs =
     Inr (on_db RHashMany (hash_many_get now k fs) d dbs)"

section \<open>The write ahead log\<close>

text \<open>The server's databases with the logger. The log is the contents of the file the logger has
  open; with no file open nothing is logged.\<close>

record locked_server =
  m_databases :: "database list"
  m_wal_file :: "string option"

definition wal :: "string \<Rightarrow> locked_server \<Rightarrow> locked_server" where
  "wal entry st = st\<lparr>m_wal_file := map_option (\<lambda>w. w @ entry @ [CHR 0x0A]) (m_wal_file st)\<rparr>"

definition wal_db_op :: "nat \<Rightarrow> trn_id_t \<Rightarrow> db_op_t \<Rightarrow> string \<Rightarrow> locked_server \<Rightarrow> locked_server" where
  "wal_db_op db trn_id op args st =
     wal (write_arith 1 (entry_code entry_db_op) @ write_arith 4 db @ write_arith 8 trn_id @
          write_arith 1 (op_code op) @ args) st"

definition wal_expiry :: "nat \<Rightarrow> key_t \<Rightarrow> locked_server \<Rightarrow> locked_server" where
  "wal_expiry db key st =
     wal (write_arith 1 (entry_code entry_expire) @ write_arith 4 db @ write_string key) st"

definition wal_log :: "nat \<Rightarrow> trn_id_t \<Rightarrow> db_op_t \<Rightarrow> string \<Rightarrow> locked_server \<Rightarrow> locked_server" where
  "wal_log d trn_id op args st =
     (if should_wal op then wal_db_op (m_index (m_databases st ! d)) trn_id op args st else st)"

text \<open>The override of \<^verbatim>\<open>pre_expire\<close> logs every expiry at the moment it happens: after the entry of
  the operation that finds the key expired, in the order of the hook calls.\<close>

definition log_expiries :: "nat \<Rightarrow> locked_server \<Rightarrow> locked_server" where
  "log_expiries d st =
     (let db = m_databases st ! d;
          st = fold (wal_expiry (m_index db)) (pre_expire_calls db) st
      in st\<lparr>m_databases := (m_databases st)[d := db\<lparr>pre_expire_calls := []\<rparr>]\<rparr>)"

text \<open>A method of the locked database: log, then run.\<close>

definition locked_call ::
  "(float_t \<Rightarrow> float_t \<Rightarrow> float_t) \<Rightarrow> (nat \<Rightarrow> nat \<Rightarrow> nat) \<Rightarrow> time_t \<Rightarrow> trn_id_t \<Rightarrow> nat \<Rightarrow> db_call \<Rightarrow> locked_server
     \<Rightarrow> (db_reply \<times> locked_server) result" where
  "locked_call fadd dis now trn_id d call st =
     (let st = wal_log d trn_id (call_op call) (call_args call) st in
      bind_result (run_call fadd dis now d call (m_databases st))
        (\<lambda>(r, dbs). Inr (r, log_expiries d (st\<lparr>m_databases := dbs\<rparr>))))"

definition locked_deep_purge :: "time_t \<Rightarrow> nat \<Rightarrow> locked_server \<Rightarrow> locked_server" where
  "locked_deep_purge now d st =
     log_expiries d (st\<lparr>m_databases := (m_databases st)[d := deep_purge now (m_databases st ! d)]\<rparr>)"

definition locked_shallow_purge ::
  "(nat \<Rightarrow> nat \<Rightarrow> key_t list \<Rightarrow> key_t list) \<Rightarrow> time_t \<Rightarrow> nat \<Rightarrow> locked_server \<Rightarrow> locked_server" where
  "locked_shallow_purge sample now d st =
     log_expiries d (st\<lparr>m_databases := (m_databases st)[d := shallow_purge sample now 0 (m_databases st ! d)]\<rparr>)"

section \<open>Redoing a log entry\<close>

text \<open>The operands \<^verbatim>\<open>wal_redo_db_op\<close> reads for an operation code. Codes that are never logged throw.\<close>

primrec read_call :: "db_op_t \<Rightarrow> db_call reader" where
  "read_call op_begin s = Inr (call_begin, s)"
| "read_call op_commit s = Inr (call_commit, s)"
| "read_call op_discard s = Inr (call_discard, s)"
| "read_call op_reset s = Inr (call_reset, s)"
| "read_call op_has s = Inl (RuntimeError ''unexpected db_op_t'')"
| "read_call op_del s = map_reader call_del read_string s"
| "read_call op_get s = Inl (RuntimeError ''unexpected db_op_t'')"
| "read_call op_type s = Inl (RuntimeError ''unexpected db_op_t'')"
| "read_call op_keys s = Inl (RuntimeError ''unexpected db_op_t'')"
| "read_call op_copy_to s =
     map_reader (\<lambda>(k, k2). call_copy_to k k2) (read_pair read_string read_string) s"
| "read_call op_move_to s =
     map_reader (\<lambda>(k, k2). call_move_to k k2) (read_pair read_string read_string) s"
| "read_call op_copy_to_db s =
     map_reader (\<lambda>(k, j). call_copy_to_db k j) (read_pair read_string (read_arith 4)) s"
| "read_call op_move_to_db s =
     map_reader (\<lambda>(k, j). call_move_to_db k j) (read_pair read_string (read_arith 4)) s"
| "read_call op_clear_expiry s = map_reader call_clear_expiry read_string s"
| "read_call op_set_expiry s =
     map_reader (\<lambda>(k, t). call_set_expiry k t) (read_pair read_string read_time) s"
| "read_call op_get_expiry s = Inl (RuntimeError ''unexpected db_op_t'')"
| "read_call op_clear_all_expiry s = Inr (call_clear_all_expiry, s)"
| "read_call op_str_set s =
     map_reader (\<lambda>(k, v). call_str_set k v) (read_pair read_string read_string) s"
| "read_call op_int_set s = map_reader (\<lambda>(k, v). call_int_set k v) (read_pair read_string read_int) s"
| "read_call op_float_set s =
     map_reader (\<lambda>(k, v). call_float_set k v) (read_pair read_string read_float) s"
| "read_call op_incr_int s =
     map_reader (\<lambda>(k, v). call_incr_int k v) (read_pair read_string read_int) s"
| "read_call op_incr_float s =
     map_reader (\<lambda>(k, v). call_incr_float k v) (read_pair read_string read_float) s"
| "read_call op_str_len s = Inl (RuntimeError ''unexpected db_op_t'')"
| "read_call op_many_get s = Inl (RuntimeError ''unexpected db_op_t'')"
| "read_call op_list_len s = Inl (RuntimeError ''unexpected db_op_t'')"
| "read_call op_list_get s = Inl (RuntimeError ''unexpected db_op_t'')"
| "read_call op_list_set s =
     map_reader (\<lambda>(k, i, v). call_list_set k i v) (read_pair read_string (read_pair read_int read_string)) s"
| "read_call op_list_push_left s =
     map_reader (\<lambda>(k, vs). call_list_push_left k vs) (read_pair read_string read_list) s"
| "read_call op_list_push_right s =
     map_reader (\<lambda>(k, vs). call_list_push_right k vs) (read_pair read_string read_list) s"
| "read_call op_list_pop_left s =
     map_reader (\<lambda>(k, n). call_list_pop_left k n) (read_pair read_string read_int) s"
| "read_call op_list_pop_right s =
     map_reader (\<lambda>(k, n). call_list_pop_right k n) (read_pair read_string read_int) s"
| "read_call op_list_range s = Inl (RuntimeError ''unexpected db_op_t'')"
| "read_call op_list_trim s =
     map_reader (\<lambda>(k, i, j). call_list_trim k i j) (read_pair read_string (read_pair read_int read_int)) s"
| "read_call op_list_remove s =
     map_reader (\<lambda>(k, v, n). call_list_remove k v n) (read_pair read_string (read_pair read_string read_int)) s"
| "read_call op_set_add s =
     map_reader (\<lambda>(k, vs). call_set_add k vs) (read_pair read_string read_set) s"
| "read_call op_set_all s = Inl (RuntimeError ''unexpected db_op_t'')"
| "read_call op_set_remove s =
     map_reader (\<lambda>(k, n). call_set_remove k n) (read_pair read_string (read_arith 8)) s"
| "read_call op_set_discard s =
     map_reader (\<lambda>(k, vs). call_set_discard k vs) (read_pair read_string read_set) s"
| "read_call op_set_len s = Inl (RuntimeError ''unexpected db_op_t'')"
| "read_call op_set_contains s = Inl (RuntimeError ''unexpected db_op_t'')"
| "read_call op_set_move s =
     map_reader (\<lambda>(k, k2, v). call_set_move k k2 v) (read_pair read_string (read_pair read_string read_string)) s"
| "read_call op_set_union s = Inl (RuntimeError ''unexpected db_op_t'')"
| "read_call op_set_union_into s =
     map_reader (\<lambda>(k, ks). call_set_union_into k ks) (read_pair read_string read_vector) s"
| "read_call op_set_union_len s = Inl (RuntimeError ''unexpected db_op_t'')"
| "read_call op_set_intersection s = Inl (RuntimeError ''unexpected db_op_t'')"
| "read_call op_set_intersection_into s =
     map_reader (\<lambda>(k, ks). call_set_intersection_into k ks) (read_pair read_string read_vector) s"
| "read_call op_set_intersection_len s = Inl (RuntimeError ''unexpected db_op_t'')"
| "read_call op_set_difference s = Inl (RuntimeError ''unexpected db_op_t'')"
| "read_call op_set_difference_into s =
     map_reader (\<lambda>(k, k2, k3). call_set_difference_into k k2 k3) (read_pair read_string (read_pair read_string read_string)) s"
| "read_call op_set_difference_len s = Inl (RuntimeError ''unexpected db_op_t'')"
| "read_call op_hash_set s =
     map_reader (\<lambda>(k, h). call_hash_set k h) (read_pair read_string read_hash) s"
| "read_call op_hash_all s = Inl (RuntimeError ''unexpected db_op_t'')"
| "read_call op_hash_get s = Inl (RuntimeError ''unexpected db_op_t'')"
| "read_call op_hash_contains s = Inl (RuntimeError ''unexpected db_op_t'')"
| "read_call op_hash_len s = Inl (RuntimeError ''unexpected db_op_t'')"
| "read_call op_hash_key_len s = Inl (RuntimeError ''unexpected db_op_t'')"
| "read_call op_hash_remove s =
     map_reader (\<lambda>(k, fs). call_hash_remove k fs) (read_pair read_string read_vector) s"
| "read_call op_hash_keys s = Inl (RuntimeError ''unexpected db_op_t'')"
| "read_call op_hash_values s = Inl (RuntimeError ''unexpected db_op_t'')"
| "read_call op_hash_update s =
     map_reader (\<lambda>(k, h). call_hash_update k h) (read_pair read_string read_hash) s"
| "read_call op_hash_many_get s = Inl (RuntimeError ''unexpected db_op_t'')"
| "read_call op_many_set s = Inl (RuntimeError ''unknown db_op_t'')"

definition wal_redo_db_op ::
  "(float_t \<Rightarrow> float_t \<Rightarrow> float_t) \<Rightarrow> (nat \<Rightarrow> nat \<Rightarrow> nat) \<Rightarrow> time_t \<Rightarrow> nat \<Rightarrow> db_op_t option \<Rightarrow> database list
     \<Rightarrow> database list reader" where
  "wal_redo_db_op fadd dis now d op dbs s =
     (case op of
        None \<Rightarrow> Inl (RuntimeError ''unknown db_op_t'')
      | Some op \<Rightarrow>
          bind_result (read_call op s) (\<lambda>(call, s).
          bind_result (run_call fadd dis now d call dbs) (\<lambda>(_, dbs). Inr (dbs, s))))"

definition wal_redo_expiry :: "nat \<Rightarrow> key_t \<Rightarrow> database list \<Rightarrow> database list" where
  "wal_redo_expiry d key dbs = dbs[d := force_expire key (dbs ! d)]"

end
