(* ===== verification/Database_File.thy ===== *)
theory Database_File
  imports Serializer Expiry_Database
begin

text \<open>
  \<^verbatim>\<open>vanity/db/db/database.{h,cpp}\<close>: writing a database to a file and reading it back, and the move
  assignment by which a loaded database replaces the contents of a database of the server
  (\<^verbatim>\<open>PersistJournalServer::do_persist\<close> and \<^verbatim>\<open>load_databases\<close>).
\<close>

section \<open>Operations\<close>

definition persist :: "database \<Rightarrow> string" where
  "persist db =
     write_arith 4 (m_index db) @ write_map write_data (m_data db) @ write_map write_time (m_expiry_times db)"

text \<open>\<^verbatim>\<open>m.insert(pair)\<close> keeps the value of a key that is present.\<close>

definition umap_insert :: "'k \<times> 'v \<Rightarrow> ('k \<times> 'v) list \<Rightarrow> ('k \<times> 'v) list" where
  "umap_insert p m = (if contains m (fst p) then m else m @ [p])"

definition from_file :: "database reader" where
  "from_file s =
     bind_result (read_arith 4 s) (\<lambda>(index, s).
     let db = new_database index in
     bind_result (read_arith 8 s) (\<lambda>(size, s).
     bind_result (read_n (read_pair read_string read_data) size s) (\<lambda>(kvs, s).
     let db = db\<lparr>m_data := fold umap_insert kvs (m_data db)\<rparr> in
     bind_result (read_arith 8 s) (\<lambda>(size, s).
     bind_result (read_n (read_pair read_string read_time) size s) (\<lambda>(kts, s).
     Inr (db\<lparr>m_expiry_times := fold umap_insert kts (m_expiry_times db)\<rparr>, s))))))"

text \<open>\<^verbatim>\<open>Database::operator=(Database&&)\<close> moves the fields of \<^verbatim>\<open>BaseDatabase\<close>; the index is not one
  of them.\<close>

definition move_assign :: "database \<Rightarrow> database \<Rightarrow> database" where
  "move_assign db other =
     db\<lparr>m_data := m_data other, m_expiry_times := m_expiry_times other,
       m_expiry_enabled := m_expiry_enabled other\<rparr>"

definition do_persist :: "database list \<Rightarrow> string" where
  "do_persist dbs = concat (map persist dbs)"

fun load_each :: "database list \<Rightarrow> database list reader" where
  "load_each [] s = Inr ([], s)"
| "load_each (db # dbs) s =
     bind_result (from_file s) (\<lambda>(other, s).
     bind_result (load_each dbs s) (\<lambda>(rest, s). Inr (move_assign db other # rest, s)))"

section \<open>Round trips\<close>

text \<open>What fits the file format: an index of 32 bits, sizes below \<open>2 ^ 63\<close>.\<close>

definition fits :: "database \<Rightarrow> bool" where
  "fits db \<longleftrightarrow>
     m_index db < 2 ^ 32 \<and> small (m_data db) \<and> small (m_expiry_times db) \<and>
     (\<forall>(k, v) \<in> set (m_data db). small k \<and> valid_data v) \<and>
     (\<forall>(k, t) \<in> set (m_expiry_times db). small k \<and> int64_ok t)"

text \<open>What a database file keeps of a database: not the expiry switch, which is on after a load,
  and not the hook calls of the running object.\<close>

definition stored :: "database \<Rightarrow> database" where
  "stored db = db\<lparr>m_expiry_enabled := True, pre_expire_calls := []\<rparr>"

lemma fold_umap_insert_distinct: "distinct (map fst (m @ kvs)) \<Longrightarrow> fold umap_insert kvs m = m @ kvs"
  by (induction kvs arbitrary: m) (auto simp: umap_insert_def contains_iff)

lemma from_file_persist:
  assumes "wf_db db" and "fits db"
  shows "from_file (Some (persist db @ rest)) = Inr (stored db, Some rest)"
proof -
  let ?d = "m_data db" and ?t = "m_expiry_times db"
  have data: "read_n (read_pair read_string read_data) (length ?d)
      (Some (concat (map (write_pair write_string write_data) ?d) @ r)) = Inr (?d, Some r)" for r
    using assms(2) by (intro data_pair.pair.read_n_round_trip) (auto simp: fits_def)
  have times: "read_n (read_pair read_string read_time) (length ?t)
      (Some (concat (map (write_pair write_string write_time) ?t) @ r)) = Inr (?t, Some r)" for r
    using assms(2) by (intro time_pair.pair.read_n_round_trip) (auto simp: fits_def)
  have distinct: "distinct (map fst ?d)" "distinct (map fst ?t)"
    using assms(1) by (simp_all add: wf_db_def)
  have sizes: "m_index db < 256 ^ 4" "length ?d < 256 ^ 8" "length ?t < 256 ^ 8"
    using assms(2) by (simp_all add: fits_def)
  show ?thesis
    by (simp add: from_file_def persist_def write_map_def write_size_def sizes [THEN arith.round_trip] data
        times distinct fold_umap_insert_distinct Let_def new_database_def stored_def)
qed

interpretation database_file: codec persist from_file "\<lambda>db. wf_db db \<and> fits db \<and> stored db = db"
  by unfold_locales (simp add: from_file_persist)

lemma load_each_do_persist:
  assumes "length fresh = length dbs" and "\<forall>db \<in> set dbs. wf_db db \<and> fits db"
  shows "load_each fresh (Some (do_persist dbs @ rest)) =
           Inr (map2 (\<lambda>db other. move_assign db (stored other)) fresh dbs, Some rest)"
  using assms
proof (induction fresh dbs rule: list_induct2)
  case Nil
  then show ?case by (simp add: do_persist_def)
next
  case (Cons db fresh other dbs)
  then show ?case by (simp add: do_persist_def from_file_persist)
qed

text \<open>Everything that can be observed survives, except that expiry is switched on again.\<close>

lemma view_move_assign_stored:
  "m_expiry_enabled other \<Longrightarrow> view now (move_assign db (stored other)) = view now other"
  by (simp add: view_def fun_eq_iff is_expired_def move_assign_def stored_def)

lemma wf_move_assign_stored [wf_intros]: "wf_db other \<Longrightarrow> wf_db (move_assign db (stored other))"
  by (simp add: wf_db_def move_assign_def stored_def)

end
