(* ===== verification/Wal_Recovery.thy ===== *)
theory Wal_Recovery
  imports Locked_Database Database_File
begin

text \<open>
  Recovery from the write ahead log (\<^verbatim>\<open>PersistJournalServer::do_recover\<close> and \<^verbatim>\<open>recover\<close> in
  \<^verbatim>\<open>vanity/db/wal/persist_journal_server.cpp\<close>), and the proof that redoing the log of a run of the
  server gives the databases the run ended in.

  The theorem has a side condition that the code needs: no logged operation finds a key that it
  touches expired, and none draws random numbers. The order of the log is the reason for the first:
  the entry of an operation stands before the entries of the expiries it causes.
\<close>

section \<open>The recovery loop\<close>

text \<open>One turn of the loop of \<^verbatim>\<open>do_recover\<close>, after \<^verbatim>\<open>peek\<close> found a byte.\<close>

definition redo_next ::
  "(float_t \<Rightarrow> float_t \<Rightarrow> float_t) \<Rightarrow> (nat \<Rightarrow> nat \<Rightarrow> nat) \<Rightarrow> time_t \<Rightarrow> database list \<Rightarrow> database list reader" where
  "redo_next fadd dis now dbs s =
     bind_result (read_pair (read_arith 1) (read_arith 4) s) (\<lambda>((entry_t, db), s).
     bind_result
       (if entry_t = entry_code entry_db_op then
          bind_result (read_pair (read_arith 8) (read_arith 1) s) (\<lambda>((trn_id, op), s).
            if db < length dbs then wal_redo_db_op fadd dis now db (op_of_code op) dbs s
            else undefined_behaviour)
        else if entry_t = entry_code entry_expire then
          bind_result (read_string s) (\<lambda>(key, s).
            if db < length dbs then Inr (wal_redo_expiry db key dbs, s) else undefined_behaviour)
        else Inl (WALError ''Bad wal_entry_t''))
       (\<lambda>(dbs, s).
         case s of
           Some (c # rest) \<Rightarrow>
             if c = CHR 0x0A then Inr (dbs, Some rest)
             else Inl (WALError ''WAL file is corrupted: no newline after entry'')
         | _ \<Rightarrow> Inl (WALError ''WAL file is corrupted: no newline after entry'')))"

text \<open>The loop. Every turn consumes the five bytes of the entry type and the database index, so a
  number of turns equal to the number of bytes of the file is enough.\<close>

fun do_recover ::
  "(float_t \<Rightarrow> float_t \<Rightarrow> float_t) \<Rightarrow> (nat \<Rightarrow> nat \<Rightarrow> nat) \<Rightarrow> time_t \<Rightarrow> nat \<Rightarrow> database list \<Rightarrow> istream
     \<Rightarrow> database list result" where
  "do_recover fadd dis now turns dbs None = Inr dbs"
| "do_recover fadd dis now turns dbs (Some []) = Inr dbs"
| "do_recover fadd dis now 0 dbs (Some (c # cs)) = Inl (RuntimeError ''turns'')"
| "do_recover fadd dis now (Suc turns) dbs (Some (c # cs)) =
     bind_result (redo_next fadd dis now dbs (Some (c # cs)))
       (\<lambda>(dbs, s). do_recover fadd dis now turns dbs s)"

text \<open>\<^verbatim>\<open>recover\<close>, on the contents of the log file: expiry is off while the log is redone, and the
  logger is closed; then expiry is switched on, and the databases are purged with the logger open.\<close>

definition purge_all :: "time_t \<Rightarrow> locked_server \<Rightarrow> locked_server" where
  "purge_all now st = fold (locked_deep_purge now) [0 ..< length (m_databases st)] st"

definition recover ::
  "(float_t \<Rightarrow> float_t \<Rightarrow> float_t) \<Rightarrow> (nat \<Rightarrow> nat \<Rightarrow> nat) \<Rightarrow> time_t \<Rightarrow> string option \<Rightarrow> database list
     \<Rightarrow> locked_server result" where
  "recover fadd dis now wal_file dbs =
     (case wal_file of
        None \<Rightarrow> Inr \<lparr>m_databases = dbs, m_wal_file = Some []\<rparr>
      | Some w \<Rightarrow>
          bind_result (do_recover fadd dis now (length w) (map (expiry_enabled False) dbs) (Some w))
            (\<lambda>dbs. Inr (purge_all now \<lparr>m_databases = map (expiry_enabled True) dbs, m_wal_file = Some w\<rparr>)))"

section \<open>Frozen databases\<close>

text \<open>The state recovery works on: expiry switched off, no hook calls.\<close>

definition frozen :: "database \<Rightarrow> database" where
  "frozen db = db\<lparr>m_expiry_enabled := False, pre_expire_calls := []\<rparr>"

lemma frozen_fields [simp]:
  "m_data (frozen db) = m_data db"
  "m_expiry_times (frozen db) = m_expiry_times db"
  "m_index (frozen db) = m_index db"
  by (simp_all add: frozen_def)

lemma is_expired_frozen [simp]: "\<not> is_expired now (frozen db) k"
  by (simp add: is_expired_def frozen_def)

lemma erase_quiet [simp]: "\<not> is_expired now db k \<Longrightarrow> erase_if_expired now k db = (False, db)"
  by (simp add: erase_if_expired_def)

lemma frozen_writes [simp]:
  "put_data k v (frozen db) = frozen (put_data k v db)"
  "clear_expiry k (frozen db) = frozen (clear_expiry k db)"
  "expiry_aware_del k (frozen db) = map_prod id frozen (expiry_aware_del k db)"
  "set_expiry k t (frozen db) = frozen (set_expiry k t db)"
  "clear_all_expiry (frozen db) = frozen (clear_all_expiry db)"
  "(frozen db)\<lparr>m_expiry_times := ts\<rparr> = frozen (db\<lparr>m_expiry_times := ts\<rparr>)"
  by (simp_all add: frozen_def put_data_def clear_expiry_def expiry_aware_del_def set_expiry_def
      clear_all_expiry_def Let_def)

lemma trace_writes [simp]:
  "pre_expire_calls (set_expiry k t db) = pre_expire_calls db"
  "m_index (set_expiry k t db) = m_index db"
  "m_expiry_enabled (set_expiry k t db) = m_expiry_enabled db"
  "m_expiry_enabled (clear_all_expiry db) = m_expiry_enabled db"
  "pre_expire_calls (clear_all_expiry db) = pre_expire_calls db"
  "m_index (clear_all_expiry db) = m_index db"
  by (simp_all add: set_expiry_def clear_all_expiry_def)

text \<open>An operation that finds nothing expired does the same on the frozen database, at any time, and
  calls no hook.\<close>

definition stable :: "(database \<Rightarrow> 'r \<times> database) \<Rightarrow> (database \<Rightarrow> 'r \<times> database) \<Rightarrow> database \<Rightarrow> bool" where
  "stable f g db \<longleftrightarrow>
     g (frozen db) = map_prod id frozen (f db) \<and>
     pre_expire_calls (snd (f db)) = pre_expire_calls db \<and> m_index (snd (f db)) = m_index db \<and>
     m_expiry_enabled (snd (f db)) = m_expiry_enabled db"

definition stable_result ::
  "(database \<Rightarrow> ('r \<times> database) result) \<Rightarrow> (database \<Rightarrow> ('r \<times> database) result) \<Rightarrow> database \<Rightarrow> bool" where
  "stable_result f g db \<longleftrightarrow>
     g (frozen db) = map_sum id (map_prod id frozen) (f db) \<and>
     (\<forall>r db'. f db = Inr (r, db') \<longrightarrow>
        pre_expire_calls db' = pre_expire_calls db \<and> m_index db' = m_index db \<and>
        m_expiry_enabled db' = m_expiry_enabled db)"

named_theorems stable_intros \<open>operations that behave alike on a frozen database\<close>

lemma stable_plain [stable_intros]:
  "stable General_Database.reset General_Database.reset db"
  "stable (General_Database.del k) (General_Database.del k) db"
  "stable (\<lambda>db. ((), clear_expiry k db)) (\<lambda>db. ((), clear_expiry k db)) db"
  "stable (\<lambda>db. ((), set_expiry k t db)) (\<lambda>db. ((), set_expiry k t db)) db"
  "stable (\<lambda>db. ((), clear_all_expiry db)) (\<lambda>db. ((), clear_all_expiry db)) db"
  "stable (str_set k s) (str_set k s) db"
  "stable (int_set k i) (int_set k i) db"
  "stable (float_set k x) (float_set k x) db"
  "stable (hash_set k h) (hash_set k h) db"
  by (simp_all add: stable_def General_Database.reset_def General_Database.del_def str_set_def
      int_set_def float_set_def hash_set_def)
     (simp add: frozen_def clear_all_expiry_def)

lemma stable_general [stable_intros]:
  assumes "\<not> is_expired now db k"
  shows "stable (copy_to now k k2) (copy_to now' k k2) db"
    and "stable (move_to now k k2) (move_to now' k k2) db"
  using assms
  by (auto simp: stable_def copy_to_def move_to_def General_Database.del_def Let_def split: option.splits)

lemma stable_primitive [stable_intros]:
  assumes "\<not> is_expired now db k"
  shows "stable_result (incr_int now k i) (incr_int now' k i) db"
    and "stable (incr_float fadd now k x) (incr_float fadd now' k x) db"
  using assms
  by (auto simp: stable_def stable_result_def incr_int_def incr_float_def
      split: option.splits data_type.splits)

lemma frozen_store_list [simp]:
  "store_list k l (frozen db) = frozen (store_list k l db)"
  "pre_expire_calls (store_list k l db) = pre_expire_calls db"
  "m_index (store_list k l db) = m_index db"
  "m_expiry_enabled (store_list k l db) = m_expiry_enabled db"
  by (simp_all add: store_list_def Let_def)

lemma stable_list [stable_intros]:
  assumes "\<not> is_expired now db k"
  shows "stable (list_set now k i v) (list_set now' k i v) db"
    and "stable (list_push_left now k vs) (list_push_left now' k vs) db"
    and "stable (list_push_right now k vs) (list_push_right now' k vs) db"
    and "stable (list_pop_left now k n) (list_pop_left now' k n) db"
    and "stable (list_pop_right now k n) (list_pop_right now' k n) db"
    and "stable_result (list_trim now k i j) (list_trim now' k i j) db"
    and "stable_result (list_remove now k v n) (list_remove now' k v n) db"
  subgoal using assms
    by (auto simp: stable_def list_set_def iterator_or_error_def Let_def split: option.splits data_type.splits)
  subgoal using assms
    by (auto simp: stable_def list_push_left_def Let_def split: option.splits data_type.splits)
  subgoal using assms
    by (auto simp: stable_def list_push_right_def Let_def split: option.splits data_type.splits)
  subgoal using assms
    by (auto simp: stable_def list_pop_left_def Let_def split: option.splits data_type.splits)
  subgoal using assms
    by (auto simp: stable_def list_pop_right_def Let_def split: option.splits data_type.splits)
  subgoal using assms
    by (auto simp: stable_result_def list_trim_def Let_def split: option.splits data_type.splits prod.splits)
  subgoal using assms
    by (auto simp: stable_result_def list_remove_def bind_result_def split: option.splits data_type.splits sum.splits)
  done

lemma stable_set [stable_intros]:
  assumes "\<not> is_expired now db k"
  shows "stable (set_add now k vs) (set_add now' k vs) db"
    and "stable_result (set_discard now k vs) (set_discard now' k vs) db"
    and "\<not> is_expired now db k2 \<Longrightarrow> stable (set_move now k k2 v) (set_move now' k k2 v) db"
    and "\<not> is_expired now db k2 \<Longrightarrow> stable (set_difference_into now k3 k k2) (set_difference_into now' k3 k k2) db"
  subgoal using assms
    by (auto simp: stable_def set_add_def Let_def split: option.splits data_type.splits)
  subgoal using assms
    by (auto simp: stable_result_def set_discard_def Let_def split: option.splits data_type.splits)
  subgoal using assms
    by (auto simp: stable_def set_move_def Let_def split: option.splits data_type.splits)
  subgoal using assms
    by (auto simp: stable_def set_difference_into_def set_difference_def split: option.splits)
  done

lemma fold_touch_quiet:
  "\<forall>k \<in> set ks. \<not> is_expired now db k \<Longrightarrow> fold (touch now) ks db = db"
  by (induction ks) simp_all

lemma stable_many_set [stable_intros]:
  assumes "\<forall>k \<in> set ks. \<not> is_expired now db k"
  shows "stable (set_union_into now k ks) (set_union_into now' k ks) db"
    and "stable (set_intersection_into now k ks) (set_intersection_into now' k ks) db"
  using assms
  by (auto simp: stable_def set_union_into_def set_union_def set_intersection_into_def set_intersection_def
      fold_touch_quiet split: option.splits)

lemma stable_hash [stable_intros]:
  assumes "\<not> is_expired now db k"
  shows "stable_result (hash_remove now k fs) (hash_remove now' k fs) db"
    and "stable_result (hash_update now k h) (hash_update now' k h) db"
  subgoal using assms
    by (auto simp: stable_result_def hash_remove_def Let_def split: option.splits data_type.splits)
  subgoal using assms
    by (auto simp: stable_result_def hash_update_def Let_def bind_result_def
        split: option.splits data_type.splits sum.splits)
  done

section \<open>Calls\<close>

text \<open>The keys a call passes to \<^verbatim>\<open>erase_if_expired\<close> (\<^verbatim>\<open>keys\<close> purges all and is not logged).\<close>

primrec touched :: "db_call \<Rightarrow> key_t list" where
  "touched call_begin = []"
| "touched call_commit = []"
| "touched call_discard = []"
| "touched call_reset = []"
| "touched (call_has k) = [k]"
| "touched (call_del k) = []"
| "touched (call_get k) = [k]"
| "touched (call_type k) = [k]"
| "touched call_keys = []"
| "touched (call_copy_to k k2) = [k]"
| "touched (call_move_to k k2) = [k]"
| "touched (call_copy_to_db k j) = [k]"
| "touched (call_move_to_db k j) = [k]"
| "touched (call_clear_expiry k) = []"
| "touched (call_set_expiry k t) = []"
| "touched (call_get_expiry k) = [k]"
| "touched call_clear_all_expiry = []"
| "touched (call_str_set k v) = []"
| "touched (call_int_set k v) = []"
| "touched (call_float_set k v) = []"
| "touched (call_incr_int k v) = [k]"
| "touched (call_incr_float k v) = [k]"
| "touched (call_str_len k) = [k]"
| "touched (call_many_get ks) = ks"
| "touched (call_list_len k) = [k]"
| "touched (call_list_get k i) = [k]"
| "touched (call_list_set k i v) = [k]"
| "touched (call_list_push_left k vs) = [k]"
| "touched (call_list_push_right k vs) = [k]"
| "touched (call_list_pop_left k n) = [k]"
| "touched (call_list_pop_right k n) = [k]"
| "touched (call_list_range k i j) = [k]"
| "touched (call_list_trim k i j) = [k]"
| "touched (call_list_remove k v n) = [k]"
| "touched (call_set_add k vs) = [k]"
| "touched (call_set_all k) = [k]"
| "touched (call_set_remove k n) = [k]"
| "touched (call_set_discard k vs) = [k]"
| "touched (call_set_len k) = [k]"
| "touched (call_set_contains k v) = [k]"
| "touched (call_set_move k k2 v) = [k, k2]"
| "touched (call_set_union ks) = ks"
| "touched (call_set_union_into k ks) = ks"
| "touched (call_set_union_len ks) = ks"
| "touched (call_set_intersection ks) = ks"
| "touched (call_set_intersection_into k ks) = ks"
| "touched (call_set_intersection_len ks) = ks"
| "touched (call_set_difference k k2) = [k, k2]"
| "touched (call_set_difference_into k k2 k3) = [k2, k3]"
| "touched (call_set_difference_len k k2) = [k, k2]"
| "touched (call_hash_set k h) = []"
| "touched (call_hash_all k) = [k]"
| "touched (call_hash_get k f) = [k]"
| "touched (call_hash_contains k f) = [k]"
| "touched (call_hash_len k) = [k]"
| "touched (call_hash_key_len k f) = [k]"
| "touched (call_hash_remove k fs) = [k]"
| "touched (call_hash_keys k) = [k]"
| "touched (call_hash_values k) = [k]"
| "touched (call_hash_update k h) = [k]"
| "touched (call_hash_many_get k fs) = [k]"

text \<open>Arguments that are values of their C++ types, with sizes below \<open>2 ^ 63\<close>.\<close>

primrec valid_call :: "db_call \<Rightarrow> bool" where
  "valid_call call_begin \<longleftrightarrow> True"
| "valid_call call_commit \<longleftrightarrow> True"
| "valid_call call_discard \<longleftrightarrow> True"
| "valid_call call_reset \<longleftrightarrow> True"
| "valid_call (call_has k) \<longleftrightarrow> small k"
| "valid_call (call_del k) \<longleftrightarrow> small k"
| "valid_call (call_get k) \<longleftrightarrow> small k"
| "valid_call (call_type k) \<longleftrightarrow> small k"
| "valid_call call_keys \<longleftrightarrow> True"
| "valid_call (call_copy_to k k2) \<longleftrightarrow> small k \<and> small k2"
| "valid_call (call_move_to k k2) \<longleftrightarrow> small k \<and> small k2"
| "valid_call (call_copy_to_db k j) \<longleftrightarrow> small k \<and> j < 2 ^ 32"
| "valid_call (call_move_to_db k j) \<longleftrightarrow> small k \<and> j < 2 ^ 32"
| "valid_call (call_clear_expiry k) \<longleftrightarrow> small k"
| "valid_call (call_set_expiry k t) \<longleftrightarrow> small k \<and> int64_ok t"
| "valid_call (call_get_expiry k) \<longleftrightarrow> small k"
| "valid_call call_clear_all_expiry \<longleftrightarrow> True"
| "valid_call (call_str_set k v) \<longleftrightarrow> small k \<and> small v"
| "valid_call (call_int_set k v) \<longleftrightarrow> small k \<and> int64_ok v"
| "valid_call (call_float_set k v) \<longleftrightarrow> small k"
| "valid_call (call_incr_int k v) \<longleftrightarrow> small k \<and> int64_ok v"
| "valid_call (call_incr_float k v) \<longleftrightarrow> small k"
| "valid_call (call_str_len k) \<longleftrightarrow> small k"
| "valid_call (call_many_get ks) \<longleftrightarrow> valid_strings ks"
| "valid_call (call_list_len k) \<longleftrightarrow> small k"
| "valid_call (call_list_get k i) \<longleftrightarrow> small k \<and> int64_ok i"
| "valid_call (call_list_set k i v) \<longleftrightarrow> small k \<and> int64_ok i \<and> small v"
| "valid_call (call_list_push_left k vs) \<longleftrightarrow> small k \<and> valid_strings vs"
| "valid_call (call_list_push_right k vs) \<longleftrightarrow> small k \<and> valid_strings vs"
| "valid_call (call_list_pop_left k n) \<longleftrightarrow> small k \<and> int64_ok n"
| "valid_call (call_list_pop_right k n) \<longleftrightarrow> small k \<and> int64_ok n"
| "valid_call (call_list_range k i j) \<longleftrightarrow> small k \<and> int64_ok i \<and> int64_ok j"
| "valid_call (call_list_trim k i j) \<longleftrightarrow> small k \<and> int64_ok i \<and> int64_ok j"
| "valid_call (call_list_remove k v n) \<longleftrightarrow> small k \<and> small v \<and> int64_ok n"
| "valid_call (call_set_add k vs) \<longleftrightarrow> small k \<and> valid_strings vs \<and> distinct vs"
| "valid_call (call_set_all k) \<longleftrightarrow> small k"
| "valid_call (call_set_remove k n) \<longleftrightarrow> small k \<and> n < 2 ^ 64"
| "valid_call (call_set_discard k vs) \<longleftrightarrow> small k \<and> valid_strings vs \<and> distinct vs"
| "valid_call (call_set_len k) \<longleftrightarrow> small k"
| "valid_call (call_set_contains k v) \<longleftrightarrow> small k \<and> small v"
| "valid_call (call_set_move k k2 v) \<longleftrightarrow> small k \<and> small k2 \<and> small v"
| "valid_call (call_set_union ks) \<longleftrightarrow> valid_strings ks"
| "valid_call (call_set_union_into k ks) \<longleftrightarrow> small k \<and> valid_strings ks"
| "valid_call (call_set_union_len ks) \<longleftrightarrow> valid_strings ks"
| "valid_call (call_set_intersection ks) \<longleftrightarrow> valid_strings ks"
| "valid_call (call_set_intersection_into k ks) \<longleftrightarrow> small k \<and> valid_strings ks"
| "valid_call (call_set_intersection_len ks) \<longleftrightarrow> valid_strings ks"
| "valid_call (call_set_difference k k2) \<longleftrightarrow> small k \<and> small k2"
| "valid_call (call_set_difference_into k k2 k3) \<longleftrightarrow> small k \<and> small k2 \<and> small k3"
| "valid_call (call_set_difference_len k k2) \<longleftrightarrow> small k \<and> small k2"
| "valid_call (call_hash_set k h) \<longleftrightarrow> small k \<and> valid_hash h"
| "valid_call (call_hash_all k) \<longleftrightarrow> small k"
| "valid_call (call_hash_get k f) \<longleftrightarrow> small k \<and> small f"
| "valid_call (call_hash_contains k f) \<longleftrightarrow> small k \<and> small f"
| "valid_call (call_hash_len k) \<longleftrightarrow> small k"
| "valid_call (call_hash_key_len k f) \<longleftrightarrow> small k \<and> small f"
| "valid_call (call_hash_remove k fs) \<longleftrightarrow> small k \<and> valid_strings fs"
| "valid_call (call_hash_keys k) \<longleftrightarrow> small k"
| "valid_call (call_hash_values k) \<longleftrightarrow> small k"
| "valid_call (call_hash_update k h) \<longleftrightarrow> small k \<and> valid_hash h"
| "valid_call (call_hash_many_get k fs) \<longleftrightarrow> small k \<and> valid_strings fs"

definition same_tags :: "database list \<Rightarrow> database list \<Rightarrow> bool" where
  "same_tags dbs dbs' \<longleftrightarrow>
     map pre_expire_calls dbs' = map pre_expire_calls dbs \<and> map m_index dbs' = map m_index dbs \<and>
     map m_expiry_enabled dbs' = map m_expiry_enabled dbs"

lemma same_tags_update:
  assumes "pre_expire_calls db = pre_expire_calls (dbs ! d)" and "m_index db = m_index (dbs ! d)"
    and "m_expiry_enabled db = m_expiry_enabled (dbs ! d)"
  shows "same_tags dbs (dbs[d := db])"
  using assms by (simp add: same_tags_def map_update)

definition stable_call ::
  "(db_reply \<times> database list) result \<Rightarrow> (db_reply \<times> database list) result \<Rightarrow> database list \<Rightarrow> bool" where
  "stable_call x y dbs \<longleftrightarrow>
     y = map_sum id (map_prod id (map frozen)) x \<and>
     (\<forall>r dbs'. x = Inr (r, dbs') \<longrightarrow> same_tags dbs dbs')"

lemma stable_call_total:
  assumes "stable f g (dbs ! d)" and "d < length dbs"
  shows "stable_call (Inr (on_db rp f d dbs)) (Inr (on_db rp g d (map frozen dbs))) dbs"
  using assms
  by (auto simp: stable_call_def stable_def on_db_def map_update intro!: same_tags_update split: prod.splits)

lemma stable_call_partial:
  assumes "stable_result f g (dbs ! d)" and "d < length dbs"
  shows "stable_call (on_db_result rp f d dbs) (on_db_result rp g d (map frozen dbs)) dbs"
  using assms
  by (auto simp: stable_call_def stable_result_def on_db_result_def bind_result_def map_update
      intro!: same_tags_update split: sum.splits prod.splits)

lemma stable_call_nop: "stable_call (Inr (r, dbs)) (Inr (r, map frozen dbs)) dbs"
  by (simp add: stable_call_def same_tags_def)

lemma stable_call_copy_to_db:
  assumes "\<not> is_expired now (dbs ! d) k" and "d < length dbs"
  shows "stable_call (run_call fadd dis now d (call_copy_to_db k j) dbs)
           (run_call fadd dis' now' d (call_copy_to_db k j) (map frozen dbs)) dbs"
  using assms
  by (auto simp: stable_call_def copy_to_db_def Let_def map_update same_tags_def split: option.splits)

lemma stable_call_move_to_db:
  assumes "\<not> is_expired now (dbs ! d) k" and "d < length dbs"
  shows "stable_call (run_call fadd dis now d (call_move_to_db k j) dbs)
           (run_call fadd dis' now' d (call_move_to_db k j) (map frozen dbs)) dbs"
  using assms
  by (auto simp: stable_call_def move_to_db_def General_Database.del_def Let_def map_update same_tags_def
      split: option.splits)

lemma stable_call_logged:
  assumes "d < length dbs" and "should_wal (call_op call)" and "call_op call \<noteq> op_set_remove"
    and "\<forall>k \<in> set (touched call). \<not> is_expired now (dbs ! d) k"
  shows "stable_call (run_call fadd dis now d call dbs) (run_call fadd dis' now' d call (map frozen dbs)) dbs"
proof (cases "call_op call \<in> {op_copy_to_db, op_move_to_db}")
  case True
  with assms show ?thesis
    by (cases call) (simp_all add: stable_call_copy_to_db stable_call_move_to_db del: run_call.simps)
next
  case False
  with assms show ?thesis
    by (cases call) (simp_all add: stable_call_nop stable_call_total stable_call_partial stable_intros)
qed

section \<open>Calls that are not logged only expire keys\<close>

definition purged :: "database \<Rightarrow> database \<Rightarrow> bool" where
  "purged db db' \<longleftrightarrow> (\<exists>ks. db' = fold expire ks db \<and> set ks \<subseteq> fst ` set (m_expiry_times db))"

lemma purged_refl [simp]: "purged db db"
  by (auto simp: purged_def intro: exI [of _ "[]"])

lemma fold_expire_fields [simp]:
  "pre_expire_calls (fold expire ks db) = pre_expire_calls db @ ks"
  "m_index (fold expire ks db) = m_index db"
  "m_expiry_enabled (fold expire ks db) = m_expiry_enabled db"
  by (induction ks arbitrary: db) simp_all

lemma fold_expire_keys: "fst ` set (m_expiry_times (fold expire ks db)) \<subseteq> fst ` set (m_expiry_times db)"
proof (induction ks arbitrary: db)
  case Nil
  then show ?case by simp
next
  case (Cons k ks)
  from Cons [of "expire k db"] show ?case by auto
qed

lemma purged_trans [trans]: "purged a b \<Longrightarrow> purged b c \<Longrightarrow> purged a c"
proof -
  assume "purged a b" and "purged b c"
  then obtain ks ls where "b = fold expire ks a" "set ks \<subseteq> fst ` set (m_expiry_times a)"
    and "c = fold expire ls b" "set ls \<subseteq> fst ` set (m_expiry_times b)"
    by (auto simp: purged_def)
  then have "c = fold expire (ks @ ls) a" "set (ks @ ls) \<subseteq> fst ` set (m_expiry_times a)"
    using fold_expire_keys [of ks a] by auto
  then show ?thesis unfolding purged_def by blast
qed

lemma expired_key: "is_expired now db k \<Longrightarrow> k \<in> fst ` set (m_expiry_times db)"
  by (auto simp: is_expired_def dest: map_of_SomeD split: if_splits option.splits intro: rev_image_eqI)

lemma purged_touch [simp]: "purged db (touch now k db)"
proof (cases "is_expired now db k")
  case True
  then have "touch now k db = fold expire [k] db" by (simp add: erase_if_expired_def)
  with expired_key [OF True] show ?thesis unfolding purged_def by (intro exI [of _ "[k]"]) simp
qed simp

lemma purged_touch_trans: "purged db db' \<Longrightarrow> purged db (touch now k db')"
  by (rule purged_trans [OF _ purged_touch])

lemma purged_fold_touch: "purged db db' \<Longrightarrow> purged db (fold (touch now) ks db')"
  by (induction ks arbitrary: db') (simp_all add: purged_touch_trans)

lemma purged_deep_purge: "purged db (deep_purge now db)"
  unfolding purged_def deep_purge_def Let_def by (rule exI, rule conjI, rule refl) auto

lemma purged_purge_sample: "purged db (snd (purge_sample now ks db))"
proof (induction ks arbitrary: db)
  case Nil
  then show ?case by simp
next
  case (Cons k ks)
  have "purged db (touch now k db)" by simp
  also have "purged \<dots> (snd (purge_sample now ks (touch now k db)))" by (rule Cons)
  finally show ?case by (simp add: Let_def case_prod_unfold)
qed

lemma purged_shallow_purge: "purged db (shallow_purge sample now r db)"
proof (induction sample now r db rule: shallow_purge.induct)
  case (1 sample now r db)
  show ?case
  proof (cases "m_expiry_times db = []")
    case True
    then show ?thesis by (simp add: shallow_purge.simps)
  next
    case False
    let ?ks = "sample r (min 100 (length (m_expiry_times db))) (map fst (m_expiry_times db))"
    let ?p = "purge_sample now ?ks db"
    have round: "purged db (snd ?p)" by (rule purged_purge_sample)
    show ?thesis
    proof (cases "4 * (fst ?p div min 100 (length (m_expiry_times db))) < 1")
      case True
      with False round show ?thesis by (simp add: shallow_purge.simps [of sample now r db] Let_def)
    next
      case again: False
      have "purged (snd ?p) (shallow_purge sample now (Suc r) (snd ?p))"
        using 1 [OF False refl refl refl refl again] .
      from purged_trans [OF round this] False again show ?thesis
        by (simp add: shallow_purge.simps [of sample now r db] Let_def)
    qed
  qed
qed

lemma purged_get_each: "purged db db' \<Longrightarrow> purged db (snd (get_each now ks db'))"
  by (induction ks arbitrary: db')
     (auto simp: expiry_aware_get_def Let_def case_prod_unfold purged_touch_trans)

definition purges :: "nat \<Rightarrow> database list \<Rightarrow> database list \<Rightarrow> bool" where
  "purges d dbs dbs' \<longleftrightarrow> (\<exists>db. purged (dbs ! d) db \<and> dbs' = dbs[d := db])"

lemma purgesI: "purged (dbs ! d) db \<Longrightarrow> purges d dbs (dbs[d := db])"
  by (auto simp: purges_def)

lemmas read_defs = has_def General_Database.get_def expiry_aware_get_def type_of_key_def
  General_Database.keys_def get_expiry_def str_len_def many_get_def list_len_def list_get_def
  iterator_or_error_def list_range_def set_all_def set_len_def set_contains_def set_union_def
  set_union_len_def set_intersection_def set_intersection_len_def set_difference_def
  set_difference_len_def hash_all_def hash_get_def hash_contains_def hash_len_def
  hash_key_len_def hash_keys_def hash_values_def hash_many_get_def

lemma purges_unlogged:
  assumes "\<not> should_wal (call_op call)" and "run_call fadd dis now d call dbs = Inr (r, dbs')"
  shows "purges d dbs dbs'"
proof -
  note purged = purged_touch_trans purged_fold_touch purged_deep_purge purged_get_each
  from assms show ?thesis
  proof (cases call)
    case (call_list_range k i j)
    with assms show ?thesis
      by (auto simp: on_db_result_def list_range_def Let_def bind_result_def intro!: purgesI
          split: sum.splits option.splits data_type.splits if_splits prod.splits)
  next
    case (call_many_get ks)
    have "purged (dbs ! d) (snd (get_each now ks (fold (touch now) ks (dbs ! d))))"
      by (intro purged_get_each purged_fold_touch purged_refl)
    with call_many_get assms show ?thesis
      by (auto simp: on_db_def many_get_def intro!: purgesI split: prod.splits)
  next
    case (call_list_get k i)
    with assms show ?thesis
      by (auto simp: on_db_def list_get_def iterator_or_error_def Let_def intro!: purgesI
          split: option.splits data_type.splits prod.splits sum.splits if_splits)
  qed (auto simp: read_defs Let_def on_db_def purged intro!: purgesI split: option.splits data_type.splits
      prod.splits)
qed

section \<open>The log as a sequence of entries\<close>

datatype log_entry = LCall nat trn_id_t db_call | LExpire nat key_t

fun entry_bytes :: "log_entry \<Rightarrow> string" where
  "entry_bytes (LCall d trn_id call) =
     write_arith 1 (entry_code entry_db_op) @ write_arith 4 d @ write_arith 8 trn_id @
     write_arith 1 (op_code (call_op call)) @ call_args call @ [CHR 0x0A]"
| "entry_bytes (LExpire d key) =
     write_arith 1 (entry_code entry_expire) @ write_arith 4 d @ write_string key @ [CHR 0x0A]"

fun valid_entry :: "nat \<Rightarrow> log_entry \<Rightarrow> bool" where
  "valid_entry n (LCall d trn_id call) \<longleftrightarrow>
     d < n \<and> trn_id < 2 ^ 64 \<and> should_wal (call_op call) \<and> valid_call call"
| "valid_entry n (LExpire d key) \<longleftrightarrow> d < n \<and> small key"

fun redo_entry ::
  "(float_t \<Rightarrow> float_t \<Rightarrow> float_t) \<Rightarrow> (nat \<Rightarrow> nat \<Rightarrow> nat) \<Rightarrow> time_t \<Rightarrow> log_entry \<Rightarrow> database list \<Rightarrow> database list result" where
  "redo_entry fadd dis now (LCall d trn_id call) dbs =
     bind_result (run_call fadd dis now d call dbs) (\<lambda>(_, dbs). Inr dbs)"
| "redo_entry fadd dis now (LExpire d key) dbs = Inr (wal_redo_expiry d key dbs)"

fun redo_entries ::
  "(float_t \<Rightarrow> float_t \<Rightarrow> float_t) \<Rightarrow> (nat \<Rightarrow> nat \<Rightarrow> nat) \<Rightarrow> time_t \<Rightarrow> log_entry list \<Rightarrow> database list \<Rightarrow> database list result" where
  "redo_entries fadd dis now [] dbs = Inr dbs"
| "redo_entries fadd dis now (e # es) dbs =
     bind_result (redo_entry fadd dis now e dbs) (redo_entries fadd dis now es)"

lemma redo_entries_append:
  "redo_entries fadd dis now (es @ fs) dbs =
     bind_result (redo_entries fadd dis now es dbs) (redo_entries fadd dis now fs)"
proof (induction es arbitrary: dbs)
  case (Cons e es)
  show ?case by (cases "redo_entry fadd dis now e dbs") (simp_all add: Cons)
qed simp

lemma arith8_round_trip: "n < 2 ^ 64 \<Longrightarrow> read_arith 8 (Some (write_arith 8 n @ rest)) = Inr (n, Some rest)"
  by (rule arith.round_trip) simp

lemma arith4_round_trip: "n < 2 ^ 32 \<Longrightarrow> read_arith 4 (Some (write_arith 4 n @ rest)) = Inr (n, Some rest)"
  by (rule arith.round_trip) simp

lemma arith1_round_trip: "n < 256 \<Longrightarrow> read_arith (Suc 0) (Some (write_arith (Suc 0) n @ rest)) = Inr (n, Some rest)"
  by (rule arith.round_trip) simp

lemmas round_trips = string.round_trip int64.round_trip float.round_trip time.round_trip
  list.round_trip set.round_trip hash.round_trip vector.round_trip arith8_round_trip arith4_round_trip

text \<open>The operands of a logged call are read back.\<close>

lemma read_call_args:
  assumes "should_wal (call_op call)" and "valid_call call"
  shows "read_call (call_op call) (Some (call_args call @ rest)) = Inr (call, Some rest)"
  using assms by (cases call) (simp_all add: map_reader_def read_pair_def write_size_def round_trips)

lemma entry_code_less: "entry_code e < 256"
  by (cases e) (simp_all add: entry_code_def)

lemma redo_next_entry:
  assumes "valid_entry (length dbs) e" and "length dbs \<le> 2 ^ 32"
  shows "redo_next fadd dis now dbs (Some (entry_bytes e @ rest)) =
           bind_result (redo_entry fadd dis now e dbs) (\<lambda>dbs. Inr (dbs, Some rest))"
proof (cases e)
  case (LCall d trn_id call)
  with assms have d: "d < 2 ^ 32" "d < length dbs" "trn_id < 2 ^ 64"
    and c: "should_wal (call_op call)" "valid_call call"
    by simp_all
  show ?thesis
    using d read_call_args [OF c]
    by (cases "run_call fadd dis now d call dbs")
       (auto simp: LCall redo_next_def read_pair_def arith1_round_trip entry_code_less
         arith4_round_trip arith8_round_trip op_code_less wal_redo_db_op_def split: prod.splits)
next
  case (LExpire d key)
  with assms have d: "d < 2 ^ 32" "d < length dbs" "small key" by simp_all
  then show ?thesis
    by (simp add: LExpire redo_next_def read_pair_def arith1_round_trip entry_code_less
        arith4_round_trip string.round_trip) (simp add: entry_code_def)
qed

lemma length_run_call: "run_call fadd dis now d call dbs = Inr (r, dbs') \<Longrightarrow> length dbs' = length dbs"
  by (cases call)
     (auto simp: on_db_def on_db_result_def bind_result_def copy_to_db_def move_to_db_def Let_def
       split: prod.splits sum.splits if_splits option.splits)

lemma length_redo_entry: "redo_entry fadd dis now e dbs = Inr dbs' \<Longrightarrow> length dbs' = length dbs"
  by (cases e) (auto simp: bind_result_Inr_iff wal_redo_expiry_def dest: length_run_call)

lemma entry_bytes_nonempty: "\<exists>c cs. entry_bytes e = c # cs"
proof -
  have "entry_bytes e \<noteq> []" by (cases e) simp_all
  then show ?thesis by (simp add: neq_Nil_conv)
qed

lemma do_recover_entries:
  assumes "\<forall>e \<in> set es. valid_entry (length dbs) e" and "length dbs \<le> 2 ^ 32" and "length es \<le> turns"
  shows "do_recover fadd dis now turns dbs (Some (concat (map entry_bytes es))) =
           redo_entries fadd dis now es dbs"
  using assms
proof (induction es arbitrary: dbs turns)
  case Nil
  then show ?case by simp
next
  case (Cons e es)
  obtain c cs where bytes: "entry_bytes e = c # cs" using entry_bytes_nonempty by blast
  obtain turns' where turns: "turns = Suc turns'" using Cons.prems(3) by (cases turns) auto
  let ?rest = "concat (map entry_bytes es)"
  have "do_recover fadd dis now turns dbs (Some (entry_bytes e @ ?rest)) =
      bind_result (redo_next fadd dis now dbs (Some (entry_bytes e @ ?rest)))
        (\<lambda>(dbs, s). do_recover fadd dis now turns' dbs s)"
    by (simp add: bytes turns)
  also have "\<dots> = bind_result (redo_entry fadd dis now e dbs)
      (\<lambda>dbs. do_recover fadd dis now turns' dbs (Some ?rest))"
    using Cons.prems by (simp add: redo_next_entry bind_result_def split: sum.splits)
  also have "\<dots> = bind_result (redo_entry fadd dis now e dbs) (redo_entries fadd dis now es)"
    using Cons turns by (cases "redo_entry fadd dis now e dbs") (auto dest: length_redo_entry)
  finally show ?case by simp
qed

lemma length_entries_le: "length es \<le> length (concat (map entry_bytes es))"
proof (induction es)
  case (Cons e es)
  then show ?case using entry_bytes_nonempty [of e] by auto
qed simp

section \<open>Runs of the server\<close>

text \<open>What changes the databases: a client's call, and the purges of the background thread.\<close>

datatype event =
    Call time_t trn_id_t nat db_call
  | DeepPurge time_t nat
  | ShallowPurge time_t "nat \<Rightarrow> nat \<Rightarrow> key_t list \<Rightarrow> key_t list" nat

fun run_event ::
  "(float_t \<Rightarrow> float_t \<Rightarrow> float_t) \<Rightarrow> (nat \<Rightarrow> nat \<Rightarrow> nat) \<Rightarrow> event \<Rightarrow> locked_server \<Rightarrow> locked_server result" where
  "run_event fadd dis (Call now trn_id d call) st =
     bind_result (locked_call fadd dis now trn_id d call st) (\<lambda>(_, st). Inr st)"
| "run_event fadd dis (DeepPurge now d) st = Inr (locked_deep_purge now d st)"
| "run_event fadd dis (ShallowPurge now sample d) st = Inr (locked_shallow_purge sample now d st)"

fun run_events ::
  "(float_t \<Rightarrow> float_t \<Rightarrow> float_t) \<Rightarrow> (nat \<Rightarrow> nat \<Rightarrow> nat) \<Rightarrow> event list \<Rightarrow> locked_server \<Rightarrow> locked_server result" where
  "run_events fadd dis [] st = Inr st"
| "run_events fadd dis (e # es) st =
     bind_result (run_event fadd dis e st) (run_events fadd dis es)"

text \<open>The side condition on an event: the database exists, the arguments are values of their types,
  and a logged call draws no random numbers and finds none of the keys it touches expired.\<close>

fun event_db :: "event \<Rightarrow> nat" where
  "event_db (Call _ _ d _) = d"
| "event_db (DeepPurge _ d) = d"
| "event_db (ShallowPurge _ _ d) = d"

fun calm_call :: "event \<Rightarrow> locked_server \<Rightarrow> bool" where
  "calm_call (Call now trn_id d call) st \<longleftrightarrow>
     trn_id < 2 ^ 64 \<and> valid_call call \<and>
     (should_wal (call_op call) \<longrightarrow>
        call_op call \<noteq> op_set_remove \<and>
        (\<forall>k \<in> set (touched call). \<not> is_expired now (m_databases st ! d) k))"
| "calm_call _ st \<longleftrightarrow> True"

definition calm_event :: "event \<Rightarrow> locked_server \<Rightarrow> bool" where
  "calm_event e st \<longleftrightarrow>
     event_db e < length (m_databases st) \<and>
     (\<forall>k \<in> fst ` set (m_expiry_times (m_databases st ! event_db e)). small k) \<and> calm_call e st"

fun calm ::
  "(float_t \<Rightarrow> float_t \<Rightarrow> float_t) \<Rightarrow> (nat \<Rightarrow> nat \<Rightarrow> nat) \<Rightarrow> event list \<Rightarrow> locked_server \<Rightarrow> bool" where
  "calm fadd dis [] st \<longleftrightarrow> True"
| "calm fadd dis (e # es) st \<longleftrightarrow>
     calm_event e st \<and> (case run_event fadd dis e st of Inl _ \<Rightarrow> True | Inr st' \<Rightarrow> calm fadd dis es st')"

text \<open>The states a run starts and stays in: every database knows its position, expiry is
  enabled, and all hook calls have been logged.\<close>

definition settled :: "database list \<Rightarrow> bool" where
  "settled dbs \<longleftrightarrow>
     map m_index dbs = [0 ..< length dbs] \<and> map pre_expire_calls dbs = map (\<lambda>_. []) dbs \<and>
     map m_expiry_enabled dbs = map (\<lambda>_. True) dbs \<and> length dbs \<le> 2 ^ 32"

lemma settledD:
  assumes "settled dbs" and "d < length dbs"
  shows "m_index (dbs ! d) = d" and "pre_expire_calls (dbs ! d) = []" and "m_expiry_enabled (dbs ! d)"
proof -
  have "map m_index dbs ! d = [0 ..< length dbs] ! d" using assms by (simp only: settled_def)
  then show "m_index (dbs ! d) = d" using assms(2) by simp
  have "map pre_expire_calls dbs ! d = map (\<lambda>_. []) dbs ! d" using assms by (simp only: settled_def)
  then show "pre_expire_calls (dbs ! d) = []" using assms(2) by simp
  have "map m_expiry_enabled dbs ! d = map (\<lambda>_. True) dbs ! d" using assms by (simp only: settled_def)
  then show "m_expiry_enabled (dbs ! d)" using assms(2) by simp
qed

lemma settled_same_tags: "settled dbs \<Longrightarrow> same_tags dbs dbs' \<Longrightarrow> settled dbs'"
proof -
  assume "settled dbs" and tags: "same_tags dbs dbs'"
  moreover from tags have "length dbs' = length dbs"
    unfolding same_tags_def by (blast dest: map_eq_imp_length_eq)
  ultimately show ?thesis by (simp add: settled_def same_tags_def map_replicate_const)
qed

lemma settled_update:
  assumes "settled dbs" and "d < length dbs" and "m_index db = d" and "pre_expire_calls db = []"
    and "m_expiry_enabled db"
  shows "settled (dbs[d := db])"
  using assms settledD [OF assms(1,2)]
  by (intro settled_same_tags [OF assms(1)] same_tags_update) simp_all

lemma fold_wal_expiry:
  "fold (wal_expiry d) ks st =
     st\<lparr>m_wal_file := map_option (\<lambda>w. w @ concat (map (entry_bytes \<circ> LExpire d) ks)) (m_wal_file st)\<rparr>"
  by (induction ks arbitrary: st)
     (simp_all add: wal_expiry_def wal_def option.map_comp comp_def option.map_ident)

lemma log_expiries_purged:
  assumes "settled (m_databases st)" and "d < length (m_databases st)"
    and "db = fold expire ks (m_databases st ! d)"
  shows "log_expiries d (st\<lparr>m_databases := (m_databases st)[d := db]\<rparr>) =
           \<lparr>m_databases = (m_databases st)[d := db\<lparr>pre_expire_calls := []\<rparr>],
            m_wal_file = map_option (\<lambda>w. w @ concat (map (entry_bytes \<circ> LExpire d) ks)) (m_wal_file st)\<rparr>"
  using assms settledD [OF assms(1,2)] by (simp add: log_expiries_def Let_def fold_wal_expiry)

lemma frozen_untraced [simp]: "frozen (db\<lparr>pre_expire_calls := ks\<rparr>) = frozen db"
  by (simp add: frozen_def)

lemma untraced: "pre_expire_calls db = [] \<Longrightarrow> db\<lparr>pre_expire_calls := []\<rparr> = db"
  by (cases db) simp

lemma force_expire_frozen: "force_expire k (frozen db) = frozen (expire k db)"
  by (simp add: expiry_defs frozen_def)

lemma redo_expiries:
  assumes "d < length dbs"
  shows "redo_entries fadd dis now (map (LExpire d) ks) (map frozen dbs) =
           Inr (map frozen (dbs[d := fold expire ks (dbs ! d)]))"
  using assms
proof (induction ks arbitrary: dbs)
  case (Cons k ks)
  have "wal_redo_expiry d k (map frozen dbs) = map frozen (dbs[d := expire k (dbs ! d)])"
    using Cons.prems by (simp add: wal_redo_expiry_def force_expire_frozen map_update)
  with Cons.IH [of "dbs[d := expire k (dbs ! d)]"] Cons.prems show ?case by simp
qed simp

text \<open>One event and the entries it logs: redoing them takes the frozen databases along.\<close>

definition logs ::
  "(float_t \<Rightarrow> float_t \<Rightarrow> float_t) \<Rightarrow> (nat \<Rightarrow> nat \<Rightarrow> nat) \<Rightarrow> time_t \<Rightarrow> log_entry list \<Rightarrow> locked_server \<Rightarrow> locked_server \<Rightarrow> bool" where
  "logs fadd dis now es st st' \<longleftrightarrow>
     m_wal_file st' = map_option (\<lambda>w. w @ concat (map entry_bytes es)) (m_wal_file st) \<and>
     length (m_databases st') = length (m_databases st) \<and>
     (\<forall>e \<in> set es. valid_entry (length (m_databases st)) e) \<and>
     redo_entries fadd dis now es (map frozen (m_databases st)) = Inr (map frozen (m_databases st')) \<and>
     settled (m_databases st')"

lemma logs_trans:
  assumes "logs fadd dis now es st st'" and "logs fadd dis now fs st' st''"
  shows "logs fadd dis now (es @ fs) st st''"
  using assms by (auto simp: logs_def redo_entries_append option.map_comp comp_def)

lemma logs_purged:
  assumes "settled (m_databases st)" and "d < length (m_databases st)"
    and "\<forall>k \<in> fst ` set (m_expiry_times (m_databases st ! d)). small k"
    and "purged (m_databases st ! d) db"
  shows "\<exists>es. logs fadd dis now es st (log_expiries d (st\<lparr>m_databases := (m_databases st)[d := db]\<rparr>))"
proof -
  from assms(4) obtain ks where db: "db = fold expire ks (m_databases st ! d)"
    and ks: "set ks \<subseteq> fst ` set (m_expiry_times (m_databases st ! d))"
    by (auto simp: purged_def)
  note eq = log_expiries_purged [OF assms(1,2) db]
  have "settled ((m_databases st)[d := db\<lparr>pre_expire_calls := []\<rparr>])"
    using settledD [OF assms(1,2)] by (intro settled_update [OF assms(1,2)]) (simp_all add: db)
  then have "logs fadd dis now (map (LExpire d) ks) st
      (log_expiries d (st\<lparr>m_databases := (m_databases st)[d := db]\<rparr>))"
    unfolding logs_def eq using assms(2,3) ks
    by (auto simp: redo_expiries map_update db comp_def)
  then show ?thesis by blast
qed

lemma logs_logged_call:
  assumes "settled (m_databases st)" and "calm_event (Call now trn_id d call) st"
    and "should_wal (call_op call)" and "locked_call fadd dis now trn_id d call st = Inr (r, st')"
  shows "logs fadd dis' now' [LCall d trn_id call] st st'"
proof -
  let ?dbs = "m_databases st" and ?c = "LCall d trn_id call"
  let ?st = "wal_log d trn_id (call_op call) (call_args call) st"
  from assms(2,3) have d: "d < length ?dbs"
    and quiet: "call_op call \<noteq> op_set_remove" "\<forall>k \<in> set (touched call). \<not> is_expired now (?dbs ! d) k"
    and valid: "valid_entry (length ?dbs) ?c"
    by (simp_all add: calm_event_def)
  have st: "?st = st\<lparr>m_wal_file := map_option (\<lambda>w. w @ entry_bytes ?c) (m_wal_file st)\<rparr>"
    using assms(3) settledD [OF assms(1) d] by (simp add: wal_log_def wal_db_op_def wal_def)
  then obtain dbs' where run: "run_call fadd dis now d call ?dbs = Inr (r, dbs')"
    and st': "st' = log_expiries d (?st\<lparr>m_databases := dbs'\<rparr>)"
    using assms(4) by (auto simp: locked_call_def Let_def bind_result_Inr_iff)
  note stable = stable_call_logged [OF d assms(3) quiet, of fadd dis dis' now']
  from stable run have tags: "same_tags ?dbs dbs'" by (simp add: stable_call_def)
  then have settled: "settled dbs'" by (rule settled_same_tags [OF assms(1)])
  have len: "length dbs' = length ?dbs" by (rule length_run_call [OF run])
  have "st' = ?st\<lparr>m_databases := dbs'\<rparr>"
    using st' d len settledD [OF settled, of d]
    by (simp add: log_expiries_def Let_def untraced)
  with st run stable len settled valid show ?thesis
    by (simp add: logs_def stable_call_def)
qed

lemma logs_event:
  assumes "settled (m_databases st)" and "calm_event e st" and "run_event fadd dis e st = Inr st'"
  shows "\<exists>es. logs fadd dis' now' es st st'"
proof (cases e)
  case (Call now trn_id d call)
  with assms(3) obtain r where run: "locked_call fadd dis now trn_id d call st = Inr (r, st')"
    by (auto simp: bind_result_Inr_iff)
  show ?thesis
  proof (cases "should_wal (call_op call)")
    case True
    with logs_logged_call [OF assms(1) _ True run] assms(2) Call show ?thesis by blast
  next
    case False
    with run obtain dbs' where dbs': "run_call fadd dis now d call (m_databases st) = Inr (r, dbs')"
      and st': "st' = log_expiries d (st\<lparr>m_databases := dbs'\<rparr>)"
      by (auto simp: locked_call_def wal_log_def bind_result_Inr_iff)
    from purges_unlogged [OF False dbs'] obtain db
      where "purged (m_databases st ! d) db" "dbs' = (m_databases st)[d := db]"
      by (auto simp: purges_def)
    with assms Call st' show ?thesis
      using logs_purged [OF assms(1), of d db fadd dis' now'] by (auto simp: calm_event_def)
  qed
next
  case (DeepPurge now d)
  with assms show ?thesis
    using logs_purged [OF assms(1), of d _ fadd dis' now', OF _ _ purged_deep_purge]
    by (auto simp: calm_event_def locked_deep_purge_def)
next
  case (ShallowPurge now sample d)
  with assms show ?thesis
    using logs_purged [OF assms(1), of d _ fadd dis' now', OF _ _ purged_shallow_purge]
    by (auto simp: calm_event_def locked_shallow_purge_def)
qed

lemma logs_events:
  assumes "settled (m_databases st)" and "calm fadd dis evs st" and "run_events fadd dis evs st = Inr st'"
  shows "\<exists>es. logs fadd dis' now' es st st'"
  using assms
proof (induction evs arbitrary: st)
  case Nil
  then have "logs fadd dis' now' [] st st'" by (simp add: logs_def option.map_ident)
  then show ?case by blast
next
  case (Cons e evs)
  then obtain st1 where e: "run_event fadd dis e st = Inr st1" and evs: "run_events fadd dis evs st1 = Inr st'"
    by (auto simp: bind_result_Inr_iff)
  with Cons.prems(2) have "calm_event e st" and calm: "calm fadd dis evs st1" by simp_all
  with logs_event [OF Cons.prems(1) _ e] obtain es where es: "logs fadd dis' now' es st st1" by blast
  then have "settled (m_databases st1)" by (simp add: logs_def)
  with Cons.IH [OF _ calm evs] obtain fs where "logs fadd dis' now' fs st1 st'" by blast
  from logs_trans [OF es this] show ?case by blast
qed

text \<open>The log of a run that started with an empty log redoes the run.\<close>

lemma do_recover_run:
  assumes "settled (m_databases st)" and "m_wal_file st = Some []"
    and "calm fadd dis evs st" and "run_events fadd dis evs st = Inr st'"
  shows "\<exists>w. m_wal_file st' = Some w \<and>
           do_recover fadd dis' now' (length w) (map frozen (m_databases st)) (Some w) =
             Inr (map frozen (m_databases st'))"
proof -
  from logs_events [OF assms(1,3,4)] obtain es where es: "logs fadd dis' now' es st st'" by blast
  let ?w = "concat (map entry_bytes es)"
  have "m_wal_file st' = Some ?w" using es assms(2) by (simp add: logs_def)
  moreover have "do_recover fadd dis' now' (length ?w) (map frozen (m_databases st)) (Some ?w) =
      Inr (map frozen (m_databases st'))"
    using es assms(1) length_entries_le [of es]
    by (subst do_recover_entries) (auto simp: logs_def settled_def)
  ultimately show ?thesis by blast
qed

section \<open>Every call keeps the invariant\<close>

definition wf_dbs :: "database list \<Rightarrow> bool" where
  "wf_dbs dbs \<longleftrightarrow> (\<forall>db \<in> set dbs. wf_db db)"

lemma wf_dbs_update: "wf_dbs dbs \<Longrightarrow> wf_db db \<Longrightarrow> wf_dbs (dbs[d := db])"
  by (auto simp: wf_dbs_def dest!: subsetD [OF set_update_subset_insert])

lemma wf_dbs_nth: "wf_dbs dbs \<Longrightarrow> d < length dbs \<Longrightarrow> wf_db (dbs ! d)"
  by (simp add: wf_dbs_def)

definition keeps_wf_dbs :: "(db_reply \<times> database list) result \<Rightarrow> bool" where
  "keeps_wf_dbs x \<longleftrightarrow> (\<forall>r dbs. x = Inr (r, dbs) \<longrightarrow> wf_dbs dbs)"

lemma wf_nop: "wf_dbs dbs \<Longrightarrow> keeps_wf_dbs (Inr (r, dbs))"
  by (simp add: keeps_wf_dbs_def)

lemma wf_on_db: "wf_dbs dbs \<Longrightarrow> wf_db (snd (f (dbs ! d))) \<Longrightarrow> keeps_wf_dbs (Inr (on_db rp f d dbs))"
  by (auto simp: keeps_wf_dbs_def on_db_def wf_dbs_update split: prod.splits)

lemma wf_on_db_result:
  "wf_dbs dbs \<Longrightarrow> (\<And>p. f (dbs ! d) = Inr p \<Longrightarrow> wf_db (snd p)) \<Longrightarrow> keeps_wf_dbs (on_db_result rp f d dbs)"
  by (auto simp: keeps_wf_dbs_def on_db_result_def bind_result_Inr_iff intro!: wf_dbs_update)

lemmas wf_ops_total =
  has.keeps_wf [OF TrueI] get.keeps_wf [OF TrueI] reset.keeps_wf [OF TrueI] type_of_key.keeps_wf [OF TrueI]
  copy_to.keeps_wf [OF TrueI] get_expiry.keeps_wf [OF TrueI]
  str_set.keeps_wf [OF TrueI] int_set.keeps_wf float_set.keeps_wf [OF TrueI]
  incr_float.keeps_wf [OF TrueI] str_len.keeps_wf [OF TrueI] many_get.keeps_wf [OF TrueI]
  list_len.returns_wf [OF TrueI _ refl] list_get.returns_wf [OF TrueI _ refl]
  list_set.returns_wf [OF TrueI _ refl] list_push_left.returns_wf [OF TrueI _ refl]
  list_push_right.returns_wf [OF TrueI _ refl] list_pop_left.returns_wf [OF TrueI _ refl]
  list_pop_right.returns_wf [OF TrueI _ refl]
  set_add.returns_wf [OF _ _ refl] set_all.returns_wf [OF TrueI _ refl]
  set_remove.returns_wf [OF _ _ refl] set_len.returns_wf [OF TrueI _ refl]
  set_contains.returns_wf [OF TrueI _ refl] set_move.keeps_wf [OF TrueI]
  set_union.keeps_wf [OF TrueI] set_union_into.keeps_wf [OF TrueI] set_union_len.keeps_wf [OF TrueI]
  set_intersection.keeps_wf [OF TrueI] set_intersection_into.keeps_wf [OF TrueI]
  set_intersection_len.keeps_wf [OF TrueI]
  set_difference.keeps_wf [OF TrueI] set_difference_into.keeps_wf [OF TrueI]
  set_difference_len.keeps_wf [OF TrueI]
  hash_set.keeps_wf hash_all.keeps_wf [OF TrueI] hash_get.keeps_wf [OF TrueI]
  hash_contains.keeps_wf [OF TrueI] hash_len.keeps_wf [OF TrueI] hash_key_len.keeps_wf [OF TrueI]
  hash_keys.keeps_wf [OF TrueI] hash_values.keeps_wf [OF TrueI] hash_many_get.keeps_wf [OF TrueI]
  wf_del wf_keys wf_move_to wf_clear_expiry wf_set_expiry wf_clear_all_expiry

lemmas wf_ops_partial =
  incr_int.returns_wf list_range.returns_wf [OF TrueI] list_trim.returns_wf [OF TrueI]
  list_remove.returns_wf [OF TrueI] set_discard.returns_wf hash_remove.returns_wf [OF TrueI]
  hash_update.returns_wf

lemma wf_calls_partial:
  assumes "wf_dbs dbs" and "wf_db (dbs ! d)"
  shows "int64_ok v \<Longrightarrow> keeps_wf_dbs (on_db_result RInt (incr_int now k v) d dbs)"
    and "keeps_wf_dbs (on_db_result RList (list_range now k i j) d dbs)"
    and "keeps_wf_dbs (on_db_result RListNat (list_trim now k i j) d dbs)"
    and "keeps_wf_dbs (on_db_result RListNat (list_remove now k s v) d dbs)"
    and "distinct vs \<Longrightarrow> keeps_wf_dbs (on_db_result RNat (set_discard now k vs) d dbs)"
    and "keeps_wf_dbs (on_db_result RHashNat (hash_remove now k fs) d dbs)"
    and "distinct (map fst h) \<Longrightarrow> keeps_wf_dbs (on_db_result RHashNat (hash_update now k h) d dbs)"
  using assms by (auto intro!: wf_on_db_result intro: wf_ops_partial)

lemma wf_run_call:
  assumes "\<forall>i n. 0 < n \<longrightarrow> dis i n < n" and "valid_call call" and "wf_dbs dbs" and "d < length dbs"
    and "run_call fadd dis now d call dbs = Inr (r, dbs')"
  shows "wf_dbs dbs'"
proof -
  note wf = wf_dbs_nth [OF assms(3,4)]
  have db: "wf_dbs (snd (copy_to_db now k d j dbs))" "wf_dbs (snd (move_to_db now k d j dbs))"
    if "j < length dbs" for k j
    using wf_copy_to_db [of dbs d j now k] wf_move_to_db [of dbs d j now k] assms(3,4) that
    by (simp_all add: wf_dbs_def)
  have "keeps_wf_dbs (run_call fadd dis now d call dbs)"
    using assms(1-3) wf
  proof (cases call)
    case (call_copy_to_db k j)
    with db [of j k] show ?thesis
      by (cases "copy_to_db now k d j dbs") (simp add: keeps_wf_dbs_def)
  next
    case (call_move_to_db k j)
    with db [of j k] show ?thesis
      by (cases "move_to_db now k d j dbs") (simp add: keeps_wf_dbs_def)
  qed (simp_all add: valid_hash_def wf_nop wf_on_db wf_ops_total wf_calls_partial)
  with assms(5) show ?thesis by (simp add: keeps_wf_dbs_def)
qed

lemma wf_untraced [simp]: "wf_db (db\<lparr>pre_expire_calls := ks\<rparr>) = wf_db db"
  by (simp add: wf_db_def)

lemma wf_log_expiries: "wf_dbs (m_databases st) \<Longrightarrow> wf_dbs (m_databases (log_expiries d st))"
proof (cases "d < length (m_databases st)")
  case True
  moreover assume "wf_dbs (m_databases st)"
  ultimately show ?thesis
    by (simp add: log_expiries_def Let_def fold_wal_expiry wf_dbs_update wf_dbs_nth)
qed (simp add: log_expiries_def Let_def fold_wal_expiry list_update_beyond)

lemma wf_shallow_purge: "wf_db db \<Longrightarrow> wf_db (shallow_purge sample now r db)"
  using purged_shallow_purge [of db sample now r] by (auto simp: purged_def wf_fold_expire)

lemma wf_event:
  assumes "\<forall>i n. 0 < n \<longrightarrow> dis i n < n" and "wf_dbs (m_databases st)" and "calm_event e st"
    and "run_event fadd dis e st = Inr st'"
  shows "wf_dbs (m_databases st')"
proof (cases e)
  case (Call now trn_id d call)
  have "m_databases (wal_log d trn_id op args st) = m_databases st" for op args
    by (simp add: wal_log_def wal_db_op_def wal_def)
  with assms Call obtain r dbs' where run: "run_call fadd dis now d call (m_databases st) = Inr (r, dbs')"
    and st': "st' = log_expiries d (wal_log d trn_id (call_op call) (call_args call) st\<lparr>m_databases := dbs'\<rparr>)"
    by (auto simp: locked_call_def bind_result_Inr_iff Let_def)
  have "wf_dbs dbs'"
    using wf_run_call [OF assms(1) _ assms(2) _ run] assms(3) Call by (simp add: calm_event_def)
  then show ?thesis unfolding st' by (intro wf_log_expiries) simp
next
  case (DeepPurge now d)
  with assms show ?thesis
    by (auto simp: locked_deep_purge_def calm_event_def
        intro!: wf_log_expiries wf_dbs_update wf_deep_purge wf_dbs_nth)
next
  case (ShallowPurge now sample d)
  with assms show ?thesis
    by (auto simp: locked_shallow_purge_def calm_event_def
        intro!: wf_log_expiries wf_dbs_update wf_shallow_purge wf_dbs_nth)
qed

lemma wf_events:
  assumes "\<forall>i n. 0 < n \<longrightarrow> dis i n < n" and "wf_dbs (m_databases st)" and "calm fadd dis evs st"
    and "run_events fadd dis evs st = Inr st'"
  shows "wf_dbs (m_databases st')"
  using assms(2-)
proof (induction evs arbitrary: st)
  case (Cons e evs)
  then obtain st1 where e: "run_event fadd dis e st = Inr st1" and evs: "run_events fadd dis evs st1 = Inr st'"
    by (auto simp: bind_result_Inr_iff)
  with Cons.prems(2) have "calm_event e st" and "calm fadd dis evs st1" by simp_all
  with Cons.IH [OF _ _ evs] wf_event [OF assms(1) Cons.prems(1) _ e] show ?case by blast
qed simp

section \<open>Restart after a crash\<close>

lemma settled_load:
  assumes "settled dbs"
  shows "map2 (\<lambda>db other. move_assign db (stored other)) (map new_database [0 ..< length dbs]) dbs = dbs"
proof (rule nth_equalityI)
  fix d assume "d < length (map2 (\<lambda>db other. move_assign db (stored other)) (map new_database [0 ..< length dbs]) dbs)"
  then have d: "d < length dbs" by simp
  then show "map2 (\<lambda>db other. move_assign db (stored other)) (map new_database [0 ..< length dbs]) dbs ! d = dbs ! d"
    using settledD [OF assms d]
    by (cases "dbs ! d") (simp add: move_assign_def stored_def new_database_def)
qed simp

lemma settled_frozen: "settled dbs \<Longrightarrow> map (expiry_enabled False) dbs = map frozen dbs"
proof (rule nth_equalityI)
  fix d assume "settled dbs" and "d < length (map (expiry_enabled False) dbs)"
  then show "map (expiry_enabled False) dbs ! d = map frozen dbs ! d"
    using settledD [of dbs d] by (cases "dbs ! d") (simp add: expiry_enabled_def frozen_def)
qed simp

lemma settled_thawed: "settled dbs \<Longrightarrow> map (expiry_enabled True) (map frozen dbs) = dbs"
proof (rule nth_equalityI)
  fix d assume "settled dbs" and "d < length (map (expiry_enabled True) (map frozen dbs))"
  then show "map (expiry_enabled True) (map frozen dbs) ! d = dbs ! d"
    using settledD [of dbs d] by (cases "dbs ! d") (simp add: expiry_enabled_def frozen_def)
qed simp

lemma view_untraced [simp]: "view now (db\<lparr>pre_expire_calls := ks\<rparr>) = view now db"
  by (simp add: view_def fun_eq_iff is_expired_def)

lemma purge_all_views:
  assumes "wf_dbs (m_databases st)"
  shows "wf_dbs (m_databases (purge_all now st)) \<and>
    length (m_databases (purge_all now st)) = length (m_databases st) \<and>
    (\<forall>d < length (m_databases st). view now (m_databases (purge_all now st) ! d) = view now (m_databases st ! d))"
proof -
  have "\<forall>d \<in> set ds. d < length (m_databases st) \<Longrightarrow> wf_dbs (m_databases st) \<Longrightarrow>
      wf_dbs (m_databases (fold (locked_deep_purge now) ds st)) \<and>
      length (m_databases (fold (locked_deep_purge now) ds st)) = length (m_databases st) \<and>
      (\<forall>d < length (m_databases st).
         view now (m_databases (fold (locked_deep_purge now) ds st) ! d) = view now (m_databases st ! d))"
    for ds
  proof (induction ds arbitrary: st)
    case Nil
    then show ?case by simp
  next
    case (Cons i ds)
    let ?st = "locked_deep_purge now i st"
    let ?db = "(deep_purge now (m_databases st ! i))\<lparr>pre_expire_calls := []\<rparr>"
    have st: "m_databases ?st = (m_databases st)[i := ?db]"
      using Cons.prems(1) by (simp add: locked_deep_purge_def log_expiries_def Let_def fold_wal_expiry)
    have wf: "wf_db (m_databases st ! i)" using Cons.prems by (simp add: wf_dbs_nth)
    have "wf_dbs (m_databases ?st)" using Cons.prems wf by (simp add: st wf_dbs_update wf_deep_purge)
    moreover have "view now (m_databases ?st ! d) = view now (m_databases st ! d)"
      if "d < length (m_databases st)" for d
      using that wf by (cases "d = i") (simp_all add: st view_deep_purge)
    ultimately show ?case using Cons.IH [of ?st] Cons.prems(1) st by simp
  qed
  from this [of "[0 ..< length (m_databases st)]"] assms show ?thesis by (simp add: purge_all_def)
qed

lemma recover_run:
  assumes "\<forall>i n. 0 < n \<longrightarrow> dis i n < n"
    and "settled dbs" and "wf_dbs dbs"
    and "calm fadd dis evs \<lparr>m_databases = dbs, m_wal_file = Some []\<rparr>"
    and "run_events fadd dis evs \<lparr>m_databases = dbs, m_wal_file = Some []\<rparr> = Inr st"
  shows "\<exists>st'. recover fadd dis' now (m_wal_file st) dbs = Inr st' \<and>
           length (m_databases st') = length (m_databases st) \<and> wf_dbs (m_databases st') \<and>
           (\<forall>d < length (m_databases st). view now (m_databases st' ! d) = view now (m_databases st ! d))"
proof -
  let ?st = "\<lparr>m_databases = dbs, m_wal_file = Some []\<rparr>"
  obtain w where w: "m_wal_file st = Some w"
    and redo: "do_recover fadd dis' now (length w) (map frozen dbs) (Some w) = Inr (map frozen (m_databases st))"
    using do_recover_run [of ?st fadd dis evs st dis' now] assms by auto
  obtain es where "logs fadd dis' now es ?st st"
    using logs_events [of ?st fadd dis evs st dis' now] assms by auto
  then have "settled (m_databases st)" by (simp add: logs_def)
  then have "recover fadd dis' now (m_wal_file st) dbs =
      Inr (purge_all now \<lparr>m_databases = m_databases st, m_wal_file = Some w\<rparr>)"
    by (simp add: recover_def w settled_frozen [OF assms(2)] redo settled_thawed del: map_map)
  moreover have "wf_dbs (m_databases st)"
    using wf_events [OF assms(1) _ assms(4,5)] assms(3) by simp
  ultimately show ?thesis
    using purge_all_views [of "\<lparr>m_databases = m_databases st, m_wal_file = Some w\<rparr>" now] by auto
qed

section \<open>A counter that has expired\<close>

text \<open>An increment that finds the old value expired stores the increment and logs two entries, first its own and then the expiry. Redone
  on a frozen database, the first changes the old value, or nothing, and the second deletes the key.\<close>

lemma incr_int_expired: "is_expired now db k \<Longrightarrow> incr_int now k n db = Inr (Some n, put_data k (VInt n) (expire k db))"
  by (simp add: incr_int_def erase_if_expired_def expire_def do_expire_def clear_expiry_def Let_def delete_conv')

lemma incr_int_frozen:
  assumes "\<forall>i. map_of (m_data db) k = Some (VInt i) \<longrightarrow> int64_ok (i + n)"
  shows "\<exists>r v. incr_int now k n (frozen db) = Inr (r, put_data k v (frozen db)) \<or> incr_int now k n (frozen db) = Inr (r, frozen db)"
  using assms by (auto simp: incr_int_def Let_def split: option.split data_type.split)

lemma expire_after_put: "frozen (expire k (put_data k v db)) = frozen (expire k db)"
  by (simp add: expiry_defs frozen_def put_data_def delete_update_same)

lemma incr_then_expire_redone:
  assumes "d < length dbs" and "\<forall>i. map_of (m_data (dbs ! d)) k = Some (VInt i) \<longrightarrow> int64_ok (i + n)"
  shows "redo_entries fadd dis now [LCall d trn (call_incr_int k n), LExpire d k] (map frozen dbs) =
    Inr (map frozen (dbs[d := expire k (dbs ! d)]))"
proof -
  from incr_int_frozen [OF assms(2)] consider r v where "incr_int now k n (frozen (dbs ! d)) = Inr (r, put_data k v (frozen (dbs ! d)))"
    | r where "incr_int now k n (frozen (dbs ! d)) = Inr (r, frozen (dbs ! d))" by blast
  then show ?thesis
    using assms(1) by cases (simp_all add: on_db_result_def wal_redo_expiry_def expire_after_put force_expire_frozen map_update)
qed

lemma locked_incr_expired:
  assumes "settled (m_databases st)" and "d < length (m_databases st)" and "is_expired now (m_databases st ! d) k"
  shows "locked_call fadd dis now trn d (call_incr_int k n) st =
    Inr (RInt (Some n), \<lparr>m_databases = (m_databases st)[d := (put_data k (VInt n) (expire k (m_databases st ! d)))\<lparr>pre_expire_calls := []\<rparr>],
      m_wal_file = map_option (\<lambda>w. w @ concat (map entry_bytes [LCall d trn (call_incr_int k n), LExpire d k])) (m_wal_file st)\<rparr>)"
  using assms settledD [OF assms(1,2)]
  by (simp add: locked_call_def wal_log_def wal_db_op_def wal_def wal_expiry_def log_expiries_def Let_def on_db_result_def incr_int_expired
      option.map_comp comp_def)

lemma recover_loses_expired_counter:
  assumes "\<forall>i n. 0 < n \<longrightarrow> dis i n < n" and "settled dbs" and "wf_dbs dbs"
    and "calm fadd dis evs \<lparr>m_databases = dbs, m_wal_file = Some []\<rparr>"
    and "run_events fadd dis evs \<lparr>m_databases = dbs, m_wal_file = Some []\<rparr> = Inr st"
    and "d < length dbs" and "is_expired now (m_databases st ! d) k" and "small k" and "int64_ok n" and "trn < 2 ^ 64"
    and "\<forall>i. map_of (m_data (m_databases st ! d)) k = Some (VInt i) \<longrightarrow> int64_ok (i + n)"
    and "locked_call fadd dis now trn d (call_incr_int k n) st = Inr (r, st1)"
  shows "\<exists>st2. recover fadd dis' now' (m_wal_file st1) dbs = Inr st2 \<and> view now' (m_databases st2 ! d) k = None"
proof -
  let ?st = "\<lparr>m_databases = dbs, m_wal_file = Some []\<rparr>" and ?new = "[LCall d trn (call_incr_int k n), LExpire d k]"
  obtain es where "logs fadd dis' now' es ?st st"
    using logs_events [of ?st fadd dis evs st dis' now'] assms(2,4,5) by auto
  then have es: "m_wal_file st = Some (concat (map entry_bytes es))" "\<forall>e \<in> set es. valid_entry (length dbs) e"
    "redo_entries fadd dis' now' es (map frozen dbs) = Inr (map frozen (m_databases st))" "settled (m_databases st)"
    and len: "length (m_databases st) = length dbs" by (auto simp: logs_def)
  define dbs' where "dbs' = (m_databases st)[d := expire k (m_databases st ! d)]"
  have d: "d < length (m_databases st)" using assms(6) len by simp
  define w where "w = concat (map entry_bytes (es @ ?new))"
  have log: "m_wal_file st1 = Some w" using locked_incr_expired [OF es(4) d assms(7)] assms(12) es(1)
    by (auto simp: w_def simp del: entry_bytes.simps)
  have "do_recover fadd dis' now' (length w) (map frozen dbs) (Some w) = redo_entries fadd dis' now' (es @ ?new) (map frozen dbs)"
    unfolding w_def using es(2) assms(2,6,8-10) length_entries_le [of "es @ ?new"]
    by (intro do_recover_entries) (auto simp: settled_def simp del: entry_bytes.simps)
  also have "\<dots> = Inr (map frozen dbs')"
    using incr_then_expire_redone [OF d assms(11)] by (simp add: redo_entries_append es(3) dbs'_def del: redo_entries.simps)
  finally have redo: "do_recover fadd dis' now' (length w) (map frozen dbs) (Some w) = Inr (map frozen dbs')" .
  define thawed where "thawed = map (expiry_enabled True) (map frozen dbs')"
  have "recover fadd dis' now' (m_wal_file st1) dbs = Inr (purge_all now' \<lparr>m_databases = thawed, m_wal_file = Some w\<rparr>)"
    unfolding log recover_def thawed_def by (simp add: settled_frozen [OF assms(2)] redo del: map_map)
  moreover have "wf_dbs (m_databases st)" using wf_events [OF assms(1) _ assms(4,5)] assms(3) by simp
  then have "wf_dbs dbs'" unfolding dbs'_def by (intro wf_dbs_update wf_expire wf_dbs_nth d)
  then have "wf_dbs thawed" by (simp add: wf_dbs_def thawed_def expiry_enabled_def frozen_def wf_db_def)
  moreover have "view now' (thawed ! d) k = None"
    using d by (simp add: thawed_def dbs'_def expiry_enabled_def view_def expire_def do_expire_def pre_expire_def clear_expiry_def delete_conv')
  ultimately show ?thesis
    using purge_all_views [of "\<lparr>m_databases = thawed, m_wal_file = Some w\<rparr>" now'] d by (auto simp: thawed_def dbs'_def)
qed

end
