(* ===== verification/Observation.thy ===== *)
theory Observation
  imports Wal_Recovery
begin

text \<open>
  What a client can observe through the calls of the locked databases. Two servers whose databases
  have the same views answer a call alike and end with the same views, whatever each of them has or
  has not erased yet: lazy expiry cannot be told from eager expiry. The calls for which the code does
  not keep this up are listed in \<open>sees_expired\<close>: they read or write the stored maps without first
  erasing an expired key.
\<close>

definition sees_expired :: "db_op_t list" where
  "sees_expired = [op_del, op_set_expiry, op_clear_expiry, op_clear_all_expiry, op_move_to, op_move_to_db,
     op_copy_to_db]"

text \<open>The keys are returned in the order of the container, which the view does not have.\<close>

definition observed :: "db_op_t \<Rightarrow> bool" where
  "observed op \<longleftrightarrow> op \<notin> set sees_expired \<and> op \<noteq> op_keys"

definition alike :: "time_t \<Rightarrow> ('r \<times> database) result \<Rightarrow> ('r \<times> database) result \<Rightarrow> bool" where
  "alike now x y \<longleftrightarrow>
     map_sum id (\<lambda>(r, db). (r, view now db)) x = map_sum id (\<lambda>(r, db). (r, view now db)) y"

definition views :: "time_t \<Rightarrow> database list \<Rightarrow> view_t list" where
  "views now dbs = map (view now) dbs"

definition observation ::
  "time_t \<Rightarrow> (db_reply \<times> database list) result \<Rightarrow> error + db_reply \<times> view_t list" where
  "observation now x = map_sum id (map_prod id (views now)) x"

definition same_observation ::
  "time_t \<Rightarrow> (db_reply \<times> database list) result \<Rightarrow> (db_reply \<times> database list) result \<Rightarrow> bool" where
  "same_observation now x y \<longleftrightarrow> observation now x = observation now y"

lemma views_nth: "views now dbs1 = views now dbs2 \<Longrightarrow> d < length dbs1 \<Longrightarrow> view now (dbs1 ! d) = view now (dbs2 ! d)"
  unfolding views_def by (metis length_map nth_map)

lemma observation_total:
  assumes "alike now (Inr (f (dbs1 ! d))) (Inr (f (dbs2 ! d)))" and "views now dbs1 = views now dbs2"
  shows "same_observation now (Inr (on_db rp f d dbs1)) (Inr (on_db rp f d dbs2))"
  using assms by (auto simp: same_observation_def alike_def observation_def on_db_def views_def map_update split: prod.splits)

lemma observation_partial:
  assumes "alike now (f (dbs1 ! d)) (f (dbs2 ! d))" and "views now dbs1 = views now dbs2"
  shows "same_observation now (on_db_result rp f d dbs1) (on_db_result rp f d dbs2)"
  using assms
  by (auto simp: same_observation_def alike_def observation_def on_db_result_def views_def map_update bind_result_def
      split: prod.splits sum.splits)

lemma observation_nop: "views now dbs1 = views now dbs2 \<Longrightarrow> same_observation now (Inr (r, dbs1)) (Inr (r, dbs2))"
  by (simp add: same_observation_def observation_def)

text \<open>Every operation with a contract over the view qualifies.\<close>

lemmas alike_total = has.observably_equal [OF TrueI, folded alike_def] get.observably_equal [OF TrueI, folded alike_def]
  reset.observably_equal [OF TrueI, folded alike_def] type_of_key.observably_equal [OF TrueI, folded alike_def]
  copy_to.observably_equal [OF TrueI, folded alike_def] get_expiry.observably_equal [OF TrueI, folded alike_def]
  str_set.observably_equal [OF TrueI, folded alike_def] int_set.observably_equal [folded alike_def]
  float_set.observably_equal [OF TrueI, folded alike_def] incr_float.observably_equal [OF TrueI, folded alike_def]
  str_len.observably_equal [OF TrueI, folded alike_def] many_get.observably_equal [OF TrueI, folded alike_def]
  list_len.observably_equal [OF TrueI, folded alike_def] list_get.observably_equal [OF TrueI, folded alike_def]
  list_set.observably_equal [OF TrueI, folded alike_def] list_push_left.observably_equal [OF TrueI, folded alike_def]
  list_push_right.observably_equal [OF TrueI, folded alike_def] list_pop_left.observably_equal [OF TrueI, folded alike_def]
  list_pop_right.observably_equal [OF TrueI, folded alike_def]
  set_add.observably_equal [folded alike_def] set_all.observably_equal [OF TrueI, folded alike_def]
  set_remove.observably_equal [folded alike_def] set_len.observably_equal [OF TrueI, folded alike_def]
  set_contains.observably_equal [OF TrueI, folded alike_def] set_move.observably_equal [OF TrueI, folded alike_def]
  set_union.observably_equal [OF TrueI, folded alike_def] set_union_into.observably_equal [OF TrueI, folded alike_def]
  set_union_len.observably_equal [OF TrueI, folded alike_def]
  set_intersection.observably_equal [OF TrueI, folded alike_def]
  set_intersection_into.observably_equal [OF TrueI, folded alike_def]
  set_intersection_len.observably_equal [OF TrueI, folded alike_def]
  set_difference.observably_equal [OF TrueI, folded alike_def]
  set_difference_into.observably_equal [OF TrueI, folded alike_def]
  set_difference_len.observably_equal [OF TrueI, folded alike_def]
  hash_set.observably_equal [folded alike_def] hash_all.observably_equal [OF TrueI, folded alike_def]
  hash_get.observably_equal [OF TrueI, folded alike_def] hash_contains.observably_equal [OF TrueI, folded alike_def]
  hash_len.observably_equal [OF TrueI, folded alike_def] hash_key_len.observably_equal [OF TrueI, folded alike_def]
  hash_keys.observably_equal [OF TrueI, folded alike_def] hash_values.observably_equal [OF TrueI, folded alike_def]
  hash_many_get.observably_equal [OF TrueI, folded alike_def]

lemmas alike_partial = incr_int.observably_equal [folded alike_def] list_range.observably_equal [OF TrueI, folded alike_def]
  list_trim.observably_equal [OF TrueI, folded alike_def] list_remove.observably_equal [OF TrueI, folded alike_def]
  set_discard.observably_equal [folded alike_def] hash_remove.observably_equal [OF TrueI, folded alike_def]
  hash_update.observably_equal [folded alike_def]

lemma run_call_observation:
  assumes "\<forall>i n. 0 < n \<longrightarrow> dis i n < n" and "valid_call call" and "observed (call_op call)"
    and "wf_dbs dbs1" and "wf_dbs dbs2" and "views now dbs1 = views now dbs2"
    and "d < length dbs1" and "d < length dbs2"
  shows "observation now (run_call fadd dis now d call dbs1) = observation now (run_call fadd dis now d call dbs2)"
proof -
  have wf: "wf_db (dbs1 ! d)" "wf_db (dbs2 ! d)" using assms by (simp_all add: wf_dbs_nth)
  have vw: "view now (dbs1 ! d) = view now (dbs2 ! d)" by (rule views_nth [OF assms(6,7)])
  have "same_observation now (run_call fadd dis now d call dbs1) (run_call fadd dis now d call dbs2)"
    using assms(1-3) wf vw assms(6)
    by (cases call)
       (simp_all add: observed_def sees_expired_def valid_hash_def observation_nop observation_total
         observation_partial alike_total alike_partial)
  then show ?thesis by (simp add: same_observation_def)
qed

text \<open>Calls that are not logged leave every view as it is.\<close>

definition view_kept :: "time_t \<Rightarrow> nat \<Rightarrow> database list \<Rightarrow> database list \<Rightarrow> bool" where
  "view_kept now d dbs dbs' \<longleftrightarrow> (\<exists>db. view now db = view now (dbs ! d) \<and> dbs' = dbs[d := db])"

lemma view_keptI: "view now db = view now (dbs ! d) \<Longrightarrow> view_kept now d dbs (dbs[d := db])"
  by (auto simp: view_kept_def)

lemma views_view_kept: "view_kept now d dbs dbs' \<Longrightarrow> views now dbs' = views now dbs"
  by (auto simp: view_kept_def views_def map_update)

lemma unlogged_views:
  assumes "\<not> should_wal (call_op call)" and "wf_dbs dbs" and "d < length dbs"
    and "run_call fadd dis now d call dbs = Inr (r, dbs')"
  shows "views now dbs' = views now dbs"
proof (rule views_view_kept [of now d])
  have wf: "wf_db (dbs ! d)" by (rule wf_dbs_nth [OF assms(2,3)])
  from assms show "view_kept now d dbs dbs'"
  proof (cases call)
    case (call_list_range k i j)
    with assms show ?thesis
      by (auto simp: on_db_result_def list_range_def Let_def bind_result_def intro!: view_keptI
          split: sum.splits option.splits data_type.splits if_splits prod.splits)
  next
    case (call_many_get ks)
    with assms get_each_refines [OF wf_touch_all [OF wf], of now ks now ks] show ?thesis
      by (auto simp: on_db_def many_get_def intro!: view_keptI split: prod.splits)
  next
    case (call_list_get k i)
    with assms show ?thesis
      by (auto simp: on_db_def list_get_def iterator_or_error_def Let_def intro!: view_keptI
          split: option.splits data_type.splits prod.splits sum.splits if_splits)
  qed (auto simp: read_defs Let_def on_db_def view_deep_purge [OF wf] intro!: view_keptI
      split: option.splits data_type.splits prod.splits)
qed

end
