(* ===== verification/Journal.thy ===== *)
theory Journal
  imports Serializer
begin

text \<open>
  \<^verbatim>\<open>vanity/db/wal/journal.{h,cpp}\<close>: the journal of a persist operation. The class templates
  \<^verbatim>\<open>JournalMaker<state>\<close> are a state machine whose methods append one record each; here it is a step
  relation on the state and the contents of the journal file. \<^verbatim>\<open>RecoveredJournal\<close> parses the file
  after a crash; every journal the state machine can leave behind is parsed to the state it was left
  in.
\<close>

section \<open>States and records\<close>

datatype JournalState =
    EMPTY_JOURNAL
  | DB_FILE_NO_EXIST
  | DB_FILE_EXIST
  | MOVING_EXISTING_DB_FILE
  | MOVED_EXISTING_DB_FILE
  | MOVED_NEW_DB_FILE

definition journal_states :: "JournalState list" where
  "journal_states = [EMPTY_JOURNAL, DB_FILE_NO_EXIST, DB_FILE_EXIST, MOVING_EXISTING_DB_FILE,
     MOVED_EXISTING_DB_FILE, MOVED_NEW_DB_FILE]"

fun state_code :: "JournalState \<Rightarrow> nat" where
  "state_code EMPTY_JOURNAL = 0"
| "state_code DB_FILE_NO_EXIST = 1"
| "state_code DB_FILE_EXIST = 2"
| "state_code MOVING_EXISTING_DB_FILE = 3"
| "state_code MOVED_EXISTING_DB_FILE = 4"
| "state_code MOVED_NEW_DB_FILE = 5"

text \<open>\<^verbatim>\<open>Journal::journal\<close>, with and without a path: the enumerator as a four byte integer. The file
  paths of the server are absolute, so \<^verbatim>\<open>absolute(path).string()\<close> is the path.\<close>

definition journal :: "JournalState \<Rightarrow> string \<Rightarrow> string" where
  "journal state file = file @ write_arith 4 (state_code state)"

definition journal_path :: "JournalState \<Rightarrow> string \<Rightarrow> string \<Rightarrow> string" where
  "journal_path state existing_db_file file =
     file @ write_arith 4 (state_code state) @ write_string existing_db_file"

section \<open>The order of the records\<close>

text \<open>\<open>journal_maker state file path\<close>: a \<^verbatim>\<open>JournalMaker<state>\<close> can exist with these contents of the
  journal file; \<open>path\<close> is the path of the \<^verbatim>\<open>MOVING_EXISTING_DB_FILE\<close> record.\<close>

inductive journal_maker :: "JournalState \<Rightarrow> string \<Rightarrow> string option \<Rightarrow> bool" where
  new_journal_maker: "journal_maker EMPTY_JOURNAL [] None"
| db_file_no_exist: "journal_maker EMPTY_JOURNAL file p \<Longrightarrow>
    journal_maker DB_FILE_NO_EXIST (journal DB_FILE_NO_EXIST file) p"
| db_file_exist: "journal_maker EMPTY_JOURNAL file p \<Longrightarrow>
    journal_maker DB_FILE_EXIST (journal DB_FILE_EXIST file) p"
| moving_existing_db_file: "journal_maker DB_FILE_EXIST file p \<Longrightarrow> small old \<Longrightarrow>
    journal_maker MOVING_EXISTING_DB_FILE (journal_path MOVING_EXISTING_DB_FILE old file) (Some old)"
| moved_existing_db_file: "journal_maker MOVING_EXISTING_DB_FILE file p \<Longrightarrow>
    journal_maker MOVED_EXISTING_DB_FILE (journal MOVED_EXISTING_DB_FILE file) p"
| moved_new_db_file: "journal_maker MOVED_EXISTING_DB_FILE file p \<Longrightarrow>
    journal_maker MOVED_NEW_DB_FILE (journal MOVED_NEW_DB_FILE file) p"

inductive_cases empty_makerE: "journal_maker EMPTY_JOURNAL file p"
inductive_cases exist_makerE: "journal_maker DB_FILE_EXIST file p"
inductive_cases moving_makerE: "journal_maker MOVING_EXISTING_DB_FILE file p"
inductive_cases moved_makerE: "journal_maker MOVED_EXISTING_DB_FILE file p"

section \<open>Reading a journal\<close>

text \<open>\<^verbatim>\<open>in.peek() == eof\<close>\<close>

definition at_eof :: "istream \<Rightarrow> bool" where
  "at_eof s \<longleftrightarrow> s = None \<or> s = Some []"

text \<open>\<^verbatim>\<open>read<JournalState>\<close>; \<^const>\<open>None\<close> is a value that is no enumerator.\<close>

definition read_state :: "JournalState option reader" where
  "read_state s =
     bind_result (read_arith 4 s) (\<lambda>(n, s).
       Inr (if n < length journal_states then Some (journal_states ! n) else None, s))"

definition corrupt :: "string \<Rightarrow> 'a result" where
  "corrupt msg = Inl (CorruptJournal (''Journal is corrupted: '' @ msg))"

text \<open>The constructor of \<^verbatim>\<open>RecoveredJournal\<close>, on the contents of the journal file (\<^const>\<open>None\<close> when it
  does not exist); the result is \<^verbatim>\<open>m_state\<close> and \<^verbatim>\<open>m_moving_existing_db_file\<close>.\<close>

definition recovered_journal :: "string option \<Rightarrow> (JournalState \<times> string option) result" where
  "recovered_journal file =
     (case file of
        None \<Rightarrow> Inr (EMPTY_JOURNAL, None)
      | Some bytes \<Rightarrow>
        let s = Some bytes in
        if at_eof s then Inr (EMPTY_JOURNAL, None)
        else bind_result (read_state s) (\<lambda>(m_state, s).
        if m_state = Some DB_FILE_NO_EXIST then
          if at_eof s then Inr (DB_FILE_NO_EXIST, None)
          else corrupt ''extra data after DB_FILE_NO_EXIST''
        else if m_state \<noteq> Some DB_FILE_EXIST then
          corrupt ''expected DB_FILE_EXIST or DB_FILE_NO_EXIST''
        else if at_eof s then Inr (DB_FILE_EXIST, None)
        else bind_result (read_state s) (\<lambda>(m_state, s).
        if m_state \<noteq> Some MOVING_EXISTING_DB_FILE then corrupt ''expected MOVING_EXISTING_DB_FILE''
        else bind_result (read_string s) (\<lambda>(path, s).
        if at_eof s then Inr (MOVING_EXISTING_DB_FILE, Some path)
        else bind_result (read_state s) (\<lambda>(m_state, s).
        if m_state \<noteq> Some MOVED_EXISTING_DB_FILE then corrupt ''expected MOVED_EXISTING_DB_FILE''
        else if at_eof s then Inr (MOVED_EXISTING_DB_FILE, Some path)
        else bind_result (read_state s) (\<lambda>(m_state, s).
        if m_state \<noteq> Some MOVED_NEW_DB_FILE then corrupt ''expected MOVED_NEW_DB_FILE''
        else if \<not> at_eof s then corrupt ''extra data after MOVED_NEW_DB_FILE''
        else Inr (MOVED_NEW_DB_FILE, Some path)))))))"

section \<open>Journals are read back\<close>

lemma state_code_less: "state_code st < 256 ^ 4"
  by (cases st) simp_all

lemma read_state_code: "read_state (Some (write_arith 4 (state_code st) @ rest)) = Inr (Some st, Some rest)"
proof -
  have "state_code st < length journal_states" "journal_states ! state_code st = st"
    by (cases st; simp add: journal_states_def)+
  then show ?thesis by (simp add: read_state_def arith.round_trip [OF state_code_less])
qed

lemma read_state_code_last: "read_state (Some (write_arith 4 (state_code st))) = Inr (Some st, Some [])"
  using read_state_code [of st "[]"] by simp

lemma read_string_last: "small p \<Longrightarrow> read_string (Some (write_string p)) = Inr (p, Some [])"
  using string.round_trip [of p "[]"] by simp

lemma write_arith_nonempty: "0 < w \<Longrightarrow> write_arith w n \<noteq> []"
  by (cases w) (simp_all add: write_arith_def)

lemma at_eof_simps [simp]:
  "at_eof (Some [])"
  "\<not> at_eof (Some (write_arith 4 n @ rest))"
  "\<not> at_eof (Some (write_arith 4 n))"
  by (simp_all add: at_eof_def write_arith_nonempty)

lemmas journal_read_simps = recovered_journal_def journal_def journal_path_def Let_def read_state_code
  read_state_code_last string.round_trip read_string_last

text \<open>The contents of a journal in every state.\<close>

lemma journal_maker_contents:
  assumes "journal_maker st file p"
  shows "case st of
      EMPTY_JOURNAL \<Rightarrow> file = [] \<and> p = None
    | DB_FILE_NO_EXIST \<Rightarrow> file = journal DB_FILE_NO_EXIST [] \<and> p = None
    | DB_FILE_EXIST \<Rightarrow> file = journal DB_FILE_EXIST [] \<and> p = None
    | MOVING_EXISTING_DB_FILE \<Rightarrow> \<exists>old. p = Some old \<and> small old \<and>
        file = journal_path MOVING_EXISTING_DB_FILE old (journal DB_FILE_EXIST [])
    | MOVED_EXISTING_DB_FILE \<Rightarrow> \<exists>old. p = Some old \<and> small old \<and>
        file = journal MOVED_EXISTING_DB_FILE
          (journal_path MOVING_EXISTING_DB_FILE old (journal DB_FILE_EXIST []))
    | MOVED_NEW_DB_FILE \<Rightarrow> \<exists>old. p = Some old \<and> small old \<and>
        file = journal MOVED_NEW_DB_FILE (journal MOVED_EXISTING_DB_FILE
          (journal_path MOVING_EXISTING_DB_FILE old (journal DB_FILE_EXIST [])))"
  using assms by induction auto

lemma recovered_journal_maker:
  assumes "journal_maker st file p"
  shows "recovered_journal (Some file) = Inr (st, p)"
  using journal_maker_contents [OF assms]
  by (cases st) (auto simp: journal_read_simps simp del: state_code.simps)

end
