(* ===== verification/Persist_Journal.thy ===== *)
theory Persist_Journal
  imports Journal
begin

text \<open>
  \<^verbatim>\<open>vanity/db/wal/journalist.{h,cpp}\<close> and the file handling of \<^verbatim>\<open>persist_journal_server.{h,cpp}\<close>: how a
  persist operation replaces the database file and drops the log, and what the server does with the
  files when it starts.

  The file system is a map from paths to contents. A persist operation is the sequence of its file
  system steps; a crash may come after any of them. Each step is taken as atomic: a flush hands one
  record to the system, and \<^verbatim>\<open>rename\<close> and \<^verbatim>\<open>remove\<close> are single calls. Writing the temporary
  database file is two steps, an incomplete file with arbitrary contents and then the complete one.
\<close>

section \<open>The file system\<close>

type_synonym path = string
type_synonym fs = "path \<Rightarrow> string option"

definition file_exists :: "fs \<Rightarrow> path \<Rightarrow> bool" where
  "file_exists fs p \<longleftrightarrow> fs p \<noteq> None"

text \<open>\<^verbatim>\<open>std::filesystem::rename\<close> replaces the target; it throws when the source does not exist.\<close>

definition rename_file :: "path \<Rightarrow> path \<Rightarrow> fs \<Rightarrow> fs result" where
  "rename_file p q fs =
     (case fs p of
        None \<Rightarrow> Inl (FilesystemError ''cannot rename: No such file or directory'')
      | Some c \<Rightarrow> if p = q then Inr fs else Inr (fs(q \<mapsto> c, p := None)))"

text \<open>\<^verbatim>\<open>std::filesystem::remove\<close> returns false for a missing file.\<close>

definition remove_file :: "path \<Rightarrow> fs \<Rightarrow> fs result" where
  "remove_file p fs = Inr (fs(p := None))"

definition write_file :: "path \<Rightarrow> string \<Rightarrow> fs \<Rightarrow> fs result" where
  "write_file p c fs = Inr (fs(p \<mapsto> c))"

definition append_file :: "path \<Rightarrow> (string \<Rightarrow> string) \<Rightarrow> fs \<Rightarrow> fs result" where
  "append_file p f fs = Inr (fs(p \<mapsto> f (case fs p of None \<Rightarrow> [] | Some c \<Rightarrow> c)))"

text \<open>The files of a server.\<close>

record files =
  db_file :: path
  wal_path :: path
  journal_file :: path

text \<open>\<^verbatim>\<open>file.parent_path() / (prefix + file.filename())\<close>\<close>

definition parent_prefix :: "path \<Rightarrow> path" where
  "parent_prefix p = rev (dropWhile (\<lambda>c. c \<noteq> CHR ''/'') (rev p))"

definition filename :: "path \<Rightarrow> path" where
  "filename p = rev (takeWhile (\<lambda>c. c \<noteq> CHR ''/'') (rev p))"

definition with_name_prefix :: "path \<Rightarrow> string \<Rightarrow> path" where
  "with_name_prefix p prefix = parent_prefix p @ prefix @ filename p"

definition make_temp_db_file :: "path \<Rightarrow> path" where
  "make_temp_db_file p = with_name_prefix p ''tmp.''"

definition make_old_db_file :: "path \<Rightarrow> path" where
  "make_old_db_file p = with_name_prefix p ''old.''"

abbreviation tmp_file :: "files \<Rightarrow> path" where
  "tmp_file F \<equiv> make_temp_db_file (db_file F)"

abbreviation old_file :: "files \<Rightarrow> path" where
  "old_file F \<equiv> make_old_db_file (db_file F)"

section \<open>Persisting\<close>

type_synonym fs_step = "fs \<Rightarrow> fs result"

definition journal_db_file_no_exist :: "files \<Rightarrow> fs_step list" where
  "journal_db_file_no_exist F =
     [append_file (journal_file F) (journal DB_FILE_NO_EXIST),
      rename_file (tmp_file F) (db_file F),
      remove_file (wal_path F),
      remove_file (journal_file F)]"

definition journal_db_file_exist :: "files \<Rightarrow> fs_step list" where
  "journal_db_file_exist F =
     [append_file (journal_file F) (journal DB_FILE_EXIST),
      append_file (journal_file F) (journal_path MOVING_EXISTING_DB_FILE (old_file F)),
      rename_file (db_file F) (old_file F),
      append_file (journal_file F) (journal MOVED_EXISTING_DB_FILE),
      rename_file (tmp_file F) (db_file F),
      append_file (journal_file F) (journal MOVED_NEW_DB_FILE),
      remove_file (wal_path F),
      remove_file (journal_file F),
      remove_file (old_file F)]"

text \<open>\<^verbatim>\<open>persist_with_wal\<close>: the constructor of the journalist truncates the journal, the databases are
  written to the temporary file, and the journalist switches the files; the test for the database
  file is made when the switch begins.\<close>

definition persist_with_wal :: "files \<Rightarrow> string \<Rightarrow> string \<Rightarrow> fs \<Rightarrow> fs_step list" where
  "persist_with_wal F partial snapshot fs =
     [write_file (journal_file F) [],
      write_file (tmp_file F) partial,
      write_file (tmp_file F) snapshot] @
     (if file_exists fs (db_file F) then journal_db_file_exist F else journal_db_file_no_exist F)"

fun run_steps :: "fs_step list \<Rightarrow> fs \<Rightarrow> fs result" where
  "run_steps [] fs = Inr fs"
| "run_steps (s # ss) fs = bind_result (s fs) (run_steps ss)"

section \<open>Starting\<close>

text \<open>\<^verbatim>\<open>pre_database_load\<close>, with all three files configured.\<close>

definition pre_database_load :: "files \<Rightarrow> fs \<Rightarrow> fs result" where
  "pre_database_load F fs =
     bind_result (recovered_journal (fs (journal_file F))) (\<lambda>(state, existing_db_file).
       case state of
         EMPTY_JOURNAL \<Rightarrow> Inr fs
       | DB_FILE_NO_EXIST \<Rightarrow>
           if file_exists fs (db_file F) then remove_file (wal_path F) fs else Inr fs
       | DB_FILE_EXIST \<Rightarrow> Inr fs
       | MOVING_EXISTING_DB_FILE \<Rightarrow>
           (case existing_db_file of
              None \<Rightarrow> undefined_behaviour
            | Some old \<Rightarrow>
                if file_exists fs old \<and> file_exists fs (db_file F)
                then Inl (WALError ''Journal violation: both old and current db files exist'')
                else if file_exists fs (db_file F) then Inr fs
                else if \<not> file_exists fs old
                then Inl (WALError ''Journal violation: none of old or current db files exist'')
                else rename_file old (db_file F) fs)
       | MOVED_EXISTING_DB_FILE \<Rightarrow>
           (case existing_db_file of
              None \<Rightarrow> undefined_behaviour
            | Some old \<Rightarrow> rename_file old (db_file F) fs)
       | MOVED_NEW_DB_FILE \<Rightarrow> remove_file (wal_path F) fs)"

section \<open>A crash while persisting\<close>

text \<open>The file names differ from each other, and the paths are short enough for a journal record.\<close>

definition distinct_files :: "files \<Rightarrow> bool" where
  "distinct_files F \<longleftrightarrow>
     distinct [db_file F, wal_path F, journal_file F, tmp_file F, old_file F] \<and> small (old_file F)"

text \<open>The files from which the state of the databases is rebuilt.\<close>

definition db_and_wal :: "files \<Rightarrow> fs \<Rightarrow> string option \<times> string option" where
  "db_and_wal F fs = (fs (db_file F), fs (wal_path F))"

lemma parent_filename: "parent_prefix p @ filename p = p"
proof -
  have "rev (rev p) = p" by simp
  then show ?thesis
    unfolding parent_prefix_def filename_def by (metis rev_append takeWhile_dropWhile_id)
qed

text \<open>The temporary and the old file are never the database file itself, nor each other.\<close>

lemma prefixed_files_distinct:
  "make_temp_db_file p \<noteq> p" "make_old_db_file p \<noteq> p" "make_temp_db_file p \<noteq> make_old_db_file p"
proof -
  have len: "length (with_name_prefix p s) = length p + length s" for s
    using arg_cong [OF parent_filename [of p], of length] by (simp add: with_name_prefix_def)
  show "make_temp_db_file p \<noteq> p" "make_old_db_file p \<noteq> p"
    using len [of "''tmp.''"] len [of "''old.''"]
    by (auto simp: make_temp_db_file_def make_old_db_file_def)
  show "make_temp_db_file p \<noteq> make_old_db_file p"
    by (simp add: make_temp_db_file_def make_old_db_file_def with_name_prefix_def)
qed

text \<open>The journals a persist operation leaves behind, read back.\<close>

abbreviation moving_journal :: "path \<Rightarrow> string" where
  "moving_journal old \<equiv> journal_path MOVING_EXISTING_DB_FILE old (journal DB_FILE_EXIST [])"

lemma recovered_journals:
  "recovered_journal None = Inr (EMPTY_JOURNAL, None)"
  "recovered_journal (Some []) = Inr (EMPTY_JOURNAL, None)"
  "recovered_journal (Some (journal DB_FILE_NO_EXIST [])) = Inr (DB_FILE_NO_EXIST, None)"
  "recovered_journal (Some (journal DB_FILE_EXIST [])) = Inr (DB_FILE_EXIST, None)"
  "small old \<Longrightarrow> recovered_journal (Some (moving_journal old)) = Inr (MOVING_EXISTING_DB_FILE, Some old)"
  "small old \<Longrightarrow> recovered_journal (Some (journal MOVED_EXISTING_DB_FILE (moving_journal old))) =
     Inr (MOVED_EXISTING_DB_FILE, Some old)"
  "small old \<Longrightarrow> recovered_journal (Some (journal MOVED_NEW_DB_FILE (journal MOVED_EXISTING_DB_FILE (moving_journal old)))) =
     Inr (MOVED_NEW_DB_FILE, Some old)"
  by (simp add: recovered_journal_def) (blast intro: recovered_journal_maker journal_maker.intros)+

lemma distinct_filesD:
  assumes "distinct_files F"
  shows "db_file F \<noteq> wal_path F" "wal_path F \<noteq> db_file F" "db_file F \<noteq> journal_file F" "journal_file F \<noteq> db_file F"
    "wal_path F \<noteq> journal_file F" "journal_file F \<noteq> wal_path F"
    "tmp_file F \<noteq> wal_path F" "wal_path F \<noteq> tmp_file F" "tmp_file F \<noteq> journal_file F" "journal_file F \<noteq> tmp_file F"
    "old_file F \<noteq> wal_path F" "wal_path F \<noteq> old_file F" "old_file F \<noteq> journal_file F" "journal_file F \<noteq> old_file F"
    "tmp_file F \<noteq> db_file F" "db_file F \<noteq> tmp_file F" "old_file F \<noteq> db_file F" "db_file F \<noteq> old_file F"
    "tmp_file F \<noteq> old_file F" "old_file F \<noteq> tmp_file F" "small (old_file F)"
  using assms by (auto simp: distinct_files_def)

lemmas step_simps = write_file_def append_file_def rename_file_def remove_file_def file_exists_def

text \<open>What a start makes of the files that a crash has left.\<close>

definition recovers_to :: "files \<Rightarrow> fs result \<Rightarrow> (string option \<times> string option) set \<Rightarrow> bool" where
  "recovers_to F r S \<longleftrightarrow>
     (case bind_result r (pre_database_load F) of Inl _ \<Rightarrow> False | Inr fs \<Rightarrow> db_and_wal F fs \<in> S)"

lemma crash_prefix_no_exist:
  assumes "distinct_files F" and "fs (journal_file F) = None" and "fs (db_file F) = None" and "k \<le> 7"
  shows "recovers_to F (run_steps (take k (persist_with_wal F partial snapshot fs)) fs)
           {db_and_wal F fs, (Some snapshot, None)}"
proof -
  have "k \<in> {0, 1, 2, 3, 4, 5, 6, 7}" using assms(4) by auto
  then show ?thesis
    using assms(2,3) distinct_filesD [OF assms(1)]
    by (elim insertE emptyE)
       (simp_all add: recovers_to_def persist_with_wal_def journal_db_file_no_exist_def step_simps
         pre_database_load_def db_and_wal_def recovered_journals)
qed

lemma crash_prefix_exist:
  assumes "distinct_files F" and "fs (journal_file F) = None" and "fs (old_file F) = None"
    and "fs (db_file F) = Some db" and "k \<le> 12"
  shows "recovers_to F (run_steps (take k (persist_with_wal F partial snapshot fs)) fs)
           {db_and_wal F fs, (Some snapshot, None)}"
proof -
  have "k \<in> {0, 1, 2, 3, 4, 5, 6, 7, 8, 9, 10, 11, 12}" using assms(5) by (simp, presburger)
  then show ?thesis
    using assms(2,3,4) distinct_filesD [OF assms(1)]
    by (elim insertE emptyE)
       (simp_all add: recovers_to_def persist_with_wal_def journal_db_file_exist_def step_simps
         pre_database_load_def db_and_wal_def recovered_journals)
qed

end
