(* ===== verification/Framing.thy ===== *)
theory Framing
  imports Prelude
begin

text \<open>
  How messages travel: \<^verbatim>\<open>Sendable::extract_data\<close> (\<^verbatim>\<open>vanity/response/sendable.cpp\<close>) puts the length in
  front of a message, \<^verbatim>\<open>SocketWriter\<close> (\<^verbatim>\<open>vanity/socket/socket_writer.cpp\<close>) sends the bytes over a
  socket that may take any part of them or none, \<^verbatim>\<open>SocketReader\<close> (\<^verbatim>\<open>socket_reader.cpp\<close>) collects
  messages from a socket that may deliver any part of them. The sockets are non-blocking.
\<close>

section \<open>Frames\<close>

text \<open>\<^verbatim>\<open>htonl\<close> and \<^verbatim>\<open>ntohl\<close> on the four bytes in memory.\<close>

definition byte :: "nat \<Rightarrow> char" where
  "byte n = char_of (n mod 256)"

definition htonl :: "nat \<Rightarrow> string" where
  "htonl n = [byte (n div 2 ^ 24), byte (n div 2 ^ 16), byte (n div 2 ^ 8), byte n]"

definition ntohl :: "string \<Rightarrow> nat" where
  "ntohl s = foldl (\<lambda>n c. 256 * n + of_char c) 0 s"

record sendable =
  m_data :: string

definition M_LENGTH_SIZE :: nat where
  "M_LENGTH_SIZE = 4"

definition new_sendable :: sendable where
  "new_sendable = \<lparr>m_data = replicate M_LENGTH_SIZE (CHR 0x00)\<rparr>"

definition sendable_append :: "string \<Rightarrow> sendable \<Rightarrow> sendable" where
  "sendable_append s x = x\<lparr>m_data := m_data x @ s\<rparr>"

definition sendable_body :: "sendable \<Rightarrow> string" where
  "sendable_body x = drop M_LENGTH_SIZE (m_data x)"

text \<open>\<^verbatim>\<open>htonl\<close> takes the low 32 bits of the size.\<close>

definition extract_data :: "sendable \<Rightarrow> string" where
  "extract_data x = htonl ((length (m_data x) - M_LENGTH_SIZE) mod 2 ^ 32) @ drop M_LENGTH_SIZE (m_data x)"

text \<open>The bytes of a message on the wire.\<close>

definition frame :: "string \<Rightarrow> string" where
  "frame body = htonl (length body) @ body"

lemma extract_data_frame:
  "length body < 2 ^ 32 \<Longrightarrow> extract_data (sendable_append body new_sendable) = frame body"
  by (simp add: extract_data_def sendable_append_def new_sendable_def frame_def M_LENGTH_SIZE_def)

lemma of_char_byte: "of_char (byte n) = n mod 256"
  by (simp add: byte_def of_char_of)

lemma ntohl_htonl:
  assumes "n < 2 ^ 32"
  shows "ntohl (htonl n) = n"
proof -
  define a b c where "a = n div 256" and "b = a div 256" and "c = b div 256"
  have div: "n div 2 ^ 8 = a" "n div 2 ^ 16 = b" "n div 2 ^ 24 = c"
    by (simp_all add: a_def b_def c_def flip: div_mult2_eq)
  have "n = 256 * a + n mod 256" "a = 256 * b + a mod 256" "b = 256 * c + b mod 256"
    by (simp_all add: a_def b_def c_def)
  moreover have "c mod 256 = c"
    using assms by (simp add: a_def b_def c_def flip: div_mult2_eq)
  ultimately have "256 * (256 * (256 * (c mod 256) + b mod 256) + a mod 256) + n mod 256 = n"
    by presburger
  then show ?thesis
    by (simp only: ntohl_def htonl_def of_char_byte div list.map foldl_Cons foldl_Nil mult_0_right add_0)
qed

lemma length_htonl [simp]: "length (htonl n) = 4"
  by (simp add: htonl_def)

section \<open>Writing\<close>

text \<open>The state of a \<^verbatim>\<open>SocketWriter\<close>, with the bytes the socket has taken so far and whether the writer
  is registered with the write manager.\<close>

record socket_writer =
  m_message :: string
  m_index :: nat
  sent :: string
  registered :: bool

definition new_writer :: socket_writer where
  "new_writer = \<lparr>m_message = [], m_index = 0, sent = [], registered = False\<rparr>"

text \<open>What \<^verbatim>\<open>::write\<close> answers: it takes at most that many bytes, or it fails, with \<^verbatim>\<open>EAGAIN\<close> or otherwise.\<close>

datatype write_answer = Takes nat | Write_Again | Write_Error

text \<open>\<^verbatim>\<open>do_write\<close>: true when the message is not finished. \<^verbatim>\<open>EAGAIN\<close> is caught, any other error is thrown on.\<close>

definition do_write :: "write_answer \<Rightarrow> socket_writer \<Rightarrow> bool result \<times> socket_writer" where
  "do_write ans w =
     (case ans of
        Write_Again \<Rightarrow> (Inr True, w)
      | Write_Error \<Rightarrow> (Inl (SocketError ''Could not write to the socket''), w)
      | Takes n \<Rightarrow>
          let bytes = take n (drop (m_index w) (m_message w));
              w' = w\<lparr>m_index := m_index w + length bytes, sent := sent w @ bytes\<rparr>
          in (Inr (m_index w' \<noteq> length (m_message w')), w'))"

text \<open>\<^verbatim>\<open>try_write_all\<close>: after a write that finishes the message the loop ends, since the message is
  cleared.\<close>

definition try_write_all :: "write_answer \<Rightarrow> socket_writer \<Rightarrow> unit result \<times> socket_writer" where
  "try_write_all ans w =
     (if m_index w < length (m_message w) then
        case do_write ans w of
          (Inl e, w) \<Rightarrow> (Inl e, w)
        | (Inr unfinished, w) \<Rightarrow> (Inr (), if unfinished then w else w\<lparr>m_index := 0, m_message := []\<rparr>)
      else (Inr (), w))"

definition writer_write :: "write_answer \<Rightarrow> string \<Rightarrow> socket_writer \<Rightarrow> unit result \<times> socket_writer" where
  "writer_write ans response w =
     (let was_empty = (m_message w = []);
          w = w\<lparr>m_message := (if was_empty then response else m_message w @ response)\<rparr>
      in case try_write_all ans w of
           (Inl e, w) \<Rightarrow> (Inl e, w)
         | (Inr _, w) \<Rightarrow> (Inr (), if was_empty \<and> m_message w \<noteq> [] then w\<lparr>registered := True\<rparr> else w))"

definition writer_ready :: "write_answer \<Rightarrow> socket_writer \<Rightarrow> unit result \<times> socket_writer" where
  "writer_ready ans w =
     (case try_write_all ans w of
        (Inl e, w) \<Rightarrow> (Inl e, w)
      | (Inr _, w) \<Rightarrow> (Inr (), if m_message w = [] then w\<lparr>registered := False\<rparr> else w))"

text \<open>The writer is used by \<^verbatim>\<open>write\<close> from the handlers and by \<^verbatim>\<open>ready\<close> from the event loop, in any
  order, with any answers of the socket, until one of them throws.\<close>

datatype writer_event = Write write_answer string | Ready write_answer

fun writer_step :: "writer_event \<Rightarrow> socket_writer \<Rightarrow> unit result \<times> socket_writer" where
  "writer_step (Write ans r) w = writer_write ans r w"
| "writer_step (Ready ans) w = writer_ready ans w"

fun writer_steps :: "writer_event list \<Rightarrow> socket_writer \<Rightarrow> unit result \<times> socket_writer" where
  "writer_steps [] w = (Inr (), w)"
| "writer_steps (e # es) w = (case writer_step e w of (Inl err, w) \<Rightarrow> (Inl err, w) | (Inr _, w) \<Rightarrow> writer_steps es w)"

fun written :: "writer_event list \<Rightarrow> string" where
  "written [] = []"
| "written (Write _ r # es) = r @ written es"
| "written (Ready _ # es) = written es"

text \<open>The invariant: an empty message has index 0, a message that is not empty has bytes left and a
  registered writer.\<close>

definition writer_inv :: "socket_writer \<Rightarrow> bool" where
  "writer_inv w \<longleftrightarrow> (if m_message w = [] then m_index w = 0 else m_index w < length (m_message w) \<and> registered w)"

definition pending :: "socket_writer \<Rightarrow> string" where
  "pending w = drop (m_index w) (m_message w)"

lemma take_drop_split: "take n (drop i xs) @ drop (i + n) xs = drop i xs"
  by (metis add.commute append_take_drop_id drop_drop)

lemma try_write_all_keeps:
  assumes "try_write_all ans w = (r, w')" and "m_index w < length (m_message w) \<or> m_message w = [] \<and> m_index w = 0"
  shows "sent w' @ pending w' = sent w @ pending w" and "registered w' = registered w"
    and "m_index w' < length (m_message w') \<or> m_message w' = [] \<and> m_index w' = 0"
  using assms by (auto simp: try_write_all_def do_write_def pending_def Let_def take_drop_split split: write_answer.splits if_splits)

lemma writer_inv_new: "writer_inv new_writer" "sent new_writer @ pending new_writer = []"
  by (simp_all add: writer_inv_def new_writer_def pending_def)

text \<open>The writer with the new response behind what is left of the old ones.\<close>

definition with_response :: "string \<Rightarrow> socket_writer \<Rightarrow> socket_writer" where
  "with_response r w = w\<lparr>m_message := (if m_message w = [] then r else m_message w @ r)\<rparr>"

lemma with_response_keeps:
  assumes "writer_inv w"
  shows "m_index (with_response r w) < length (m_message (with_response r w)) \<or>
      m_message (with_response r w) = [] \<and> m_index (with_response r w) = 0"
    and "sent (with_response r w) @ pending (with_response r w) = (sent w @ pending w) @ r"
    and "m_message w \<noteq> [] \<longrightarrow> registered (with_response r w)"
  using assms by (auto simp: with_response_def writer_inv_def pending_def split: if_splits)

text \<open>Whatever the socket answers, the bytes that are sent and those that wait are the responses, in order; and as long as no write fails
  the writer is registered while bytes wait.\<close>

lemma writer_step_keeps:
  assumes "writer_step e w = (r, w')" and "writer_inv w"
  shows "sent w' @ pending w' = (sent w @ pending w) @ written [e]" and "r = Inr () \<Longrightarrow> writer_inv w'"
proof -
  have "sent w' @ pending w' = (sent w @ pending w) @ written [e] \<and> (r = Inr () \<longrightarrow> writer_inv w')"
  proof (cases e)
    case (Write ans rs)
    obtain q w1 where t: "try_write_all ans (with_response rs w) = (q, w1)" by fastforce
    note before = with_response_keeps [OF assms(2), of rs]
    note after = try_write_all_keeps [OF t before(1)]
    from assms(1) Write t have "(r, w') = (case q of Inl e \<Rightarrow> (Inl e, w1)
        | Inr _ \<Rightarrow> (Inr (), if m_message w = [] \<and> m_message w1 \<noteq> [] then w1\<lparr>registered := True\<rparr> else w1))"
      by (simp add: writer_write_def with_response_def Let_def split: sum.splits)
    with after before Write show ?thesis by (auto simp: writer_inv_def pending_def split: sum.splits if_splits)
  next
    case (Ready ans)
    obtain q w1 where t: "try_write_all ans w = (q, w1)" by fastforce
    have ready: "m_index w < length (m_message w) \<or> m_message w = [] \<and> m_index w = 0"
      using assms(2) by (auto simp: writer_inv_def split: if_splits)
    note after = try_write_all_keeps [OF t ready]
    have "m_message w = [] \<longrightarrow> m_message w1 = []" using t by (auto simp: try_write_all_def)
    with assms Ready t after show ?thesis by (auto simp: writer_ready_def writer_inv_def pending_def split: sum.splits if_splits)
  qed
  then show "sent w' @ pending w' = (sent w @ pending w) @ written [e]" "r = Inr () \<Longrightarrow> writer_inv w'" by auto
qed

lemma writer_run:
  assumes "writer_steps es w = (r, w')" and "writer_inv w"
  shows "\<exists>handled rest. es = handled @ rest \<and> sent w' @ pending w' = (sent w @ pending w) @ written handled \<and>
    (r = Inr () \<longrightarrow> rest = [] \<and> writer_inv w')"
  using assms
proof (induction es arbitrary: w)
  case (Cons e es)
  obtain q w1 where e: "writer_step e w = (q, w1)" by fastforce
  note step = writer_step_keeps [OF e Cons.prems(2)]
  show ?case
  proof (cases q)
    case (Inl err)
    with Cons.prems(1) e step(1) have "e # es = [e] @ es \<and> sent w' @ pending w' = (sent w @ pending w) @ written [e] \<and> r \<noteq> Inr ()" by auto
    then show ?thesis by blast
  next
    case (Inr u)
    then have "writer_steps es w1 = (r, w')" "writer_inv w1" using Cons.prems(1) e step(2) by auto
    from Cons.IH [OF this] obtain handled rest where "es = handled @ rest" "sent w' @ pending w' = (sent w1 @ pending w1) @ written handled"
      "r = Inr () \<longrightarrow> rest = [] \<and> writer_inv w'" by blast
    moreover have "written (e # handled) = written [e] @ written handled" by (cases e) simp_all
    ultimately have "e # es = (e # handled) @ rest \<and> sent w' @ pending w' = (sent w @ pending w) @ written (e # handled) \<and>
        (r = Inr () \<longrightarrow> rest = [] \<and> writer_inv w')" using step(1) by simp
    then show ?thesis by blast
  qed
qed simp

section \<open>Reading\<close>

text \<open>The receiving side of a socket: the bytes that arrive over its life, how many have been read, how
  many a read at a position finds, and whether the other side has closed it behind them.\<close>

record socket =
  stream :: string
  spos :: nat
  avail :: "nat \<Rightarrow> nat"
  closed :: bool

text \<open>\<^verbatim>\<open>Socket::read\<close>: what there is, up to \<open>n\<close> bytes; zero bytes at the end of a closed connection;
  otherwise \<^verbatim>\<open>EAGAIN\<close>.\<close>

definition socket_read :: "nat \<Rightarrow> socket \<Rightarrow> string result \<times> socket" where
  "socket_read n s =
     (let bytes = take (min n (avail s (spos s))) (drop (spos s) (stream s)) in
      if n = 0 \<or> bytes \<noteq> [] \<or> closed s \<and> spos s \<ge> length (stream s)
      then (Inr bytes, s\<lparr>spos := spos s + length bytes\<rparr>)
      else (Inl (SocketError ''Could not read from the socket''), s))"

record socket_reader =
  rd_message :: string
  m_message_left :: nat

definition new_reader :: socket_reader where
  "new_reader = \<lparr>rd_message = [], m_message_left = 0\<rparr>"

definition resize :: "nat \<Rightarrow> string \<Rightarrow> string" where
  "resize n s = take n s @ replicate (n - length s) (CHR 0x00)"

text \<open>The first part of \<^verbatim>\<open>SocketReader::read\<close>: the size of the next message. A read that finds less than
  four bytes leaves the others zero. The result is false when the connection is closed. There is memory for the message.\<close>

definition read_size :: "socket_reader \<Rightarrow> socket \<Rightarrow> bool result \<times> socket_reader \<times> socket" where
  "read_size r s =
     (if m_message_left r \<noteq> 0 then (Inr True, r, s)
      else
        case socket_read 4 s of
          (Inl e, s) \<Rightarrow> (Inl e, r, s)
        | (Inr bytes, s) \<Rightarrow>
            if bytes = [] then (Inr False, r, s)
            else
              let size = ntohl (resize 4 bytes)
              in (Inr True, \<lparr>rd_message = resize size (rd_message r), m_message_left = size\<rparr>, s))"

text \<open>The second part: as much of the message as there is; the callback gets a complete message.\<close>

definition read_message :: "socket_reader \<Rightarrow> socket \<Rightarrow> (bool \<times> string option) result \<times> socket_reader \<times> socket" where
  "read_message r s =
     (case socket_read (m_message_left r) s of
        (Inl e, s) \<Rightarrow> (Inl e, r, s)
      | (Inr bytes, s) \<Rightarrow>
          if bytes = [] then (Inr (False, None), r, s)
          else
            let i = length (rd_message r) - m_message_left r;
                msg = take i (rd_message r) @ bytes @ drop (i + length bytes) (rd_message r);
                left = m_message_left r - length bytes
            in if left = 0 then (Inr (True, Some msg), \<lparr>rd_message = [], m_message_left = 0\<rparr>, s)
               else (Inr (True, None), \<lparr>rd_message = msg, m_message_left = left\<rparr>, s))"

definition reader_read :: "socket_reader \<Rightarrow> socket \<Rightarrow> (bool \<times> string option) result \<times> socket_reader \<times> socket" where
  "reader_read r s =
     (case read_size r s of
        (Inl e, r, s) \<Rightarrow> (Inl e, r, s)
      | (Inr False, r, s) \<Rightarrow> (Inr (False, None), r, s)
      | (Inr True, r, s) \<Rightarrow> read_message r s)"

text \<open>The event loop calls \<^verbatim>\<open>read\<close> as long as the connection is open; the messages delivered by a
  number of calls.\<close>

primrec run_reader :: "nat \<Rightarrow> socket_reader \<Rightarrow> socket \<Rightarrow> string list \<times> socket_reader \<times> socket" where
  "run_reader 0 r s = ([], r, s)"
| "run_reader (Suc n) r s =
     (case reader_read r s of
        (Inr (True, msg), r, s) \<Rightarrow>
          let (msgs, r, s) = run_reader n r s
          in ((case msg of Some m \<Rightarrow> m # msgs | None \<Rightarrow> msgs), r, s)
      | (_, r, s) \<Rightarrow> ([], r, s))"

text \<open>Between two messages, and within the body of one.\<close>

definition between :: "string list \<Rightarrow> socket_reader \<Rightarrow> socket \<Rightarrow> bool" where
  "between ms r s \<longleftrightarrow> r = new_reader \<and> drop (spos s) (stream s) = concat (map frame ms)"

definition within :: "nat \<Rightarrow> string \<Rightarrow> string list \<Rightarrow> socket_reader \<Rightarrow> socket \<Rightarrow> bool" where
  "within k m ms r s \<longleftrightarrow>
     k < length m \<and>
     r = \<lparr>rd_message = take k m @ replicate (length m - k) (CHR 0x00), m_message_left = length m - k\<rparr> \<and>
     drop (spos s) (stream s) = drop k m @ concat (map frame ms)"

lemma socket_read_some:
  assumes "drop (spos s) (stream s) = bs" and "bs \<noteq> []" and "0 < avail s (spos s)" and "0 < n"
  shows "\<exists>j. 0 < j \<and> j \<le> n \<and> j \<le> length bs \<and> (min n (length bs) \<le> avail s (spos s) \<longrightarrow> j = min n (length bs)) \<and>
    socket_read n s = (Inr (take j bs), s\<lparr>spos := spos s + j\<rparr>)"
proof (intro exI conjI)
  let ?j = "min (min n (avail s (spos s))) (length bs)"
  show "0 < ?j" "?j \<le> n" "?j \<le> length bs" "min n (length bs) \<le> avail s (spos s) \<longrightarrow> ?j = min n (length bs)"
    using assms by auto
  have "take (min n (avail s (spos s))) bs = take ?j bs" by (simp add: min_def)
  moreover from this have "take ?j bs \<noteq> []" "length (take ?j bs) = ?j" using assms by (simp_all add: min_def)
  ultimately show "socket_read n s = (Inr (take ?j bs), s\<lparr>spos := spos s + ?j\<rparr>)"
    using assms(1) by (simp add: socket_read_def Let_def)
qed

lemma read_message_within:
  assumes "within k m ms r s" and "0 < avail s (spos s)"
  shows "\<exists>j. 0 < j \<and> k + j \<le> length m \<and>
    (if k + j = length m
     then read_message r s = (Inr (True, Some m), new_reader, s\<lparr>spos := spos s + j\<rparr>) \<and>
          between ms new_reader (s\<lparr>spos := spos s + j\<rparr>)
     else \<exists>r'. read_message r s = (Inr (True, None), r', s\<lparr>spos := spos s + j\<rparr>) \<and>
          within (k + j) m ms r' (s\<lparr>spos := spos s + j\<rparr>))"
proof -
  let ?bs = "drop k m @ concat (map frame ms)"
  from assms(1) have w: "k < length m" "drop (spos s) (stream s) = ?bs"
    "r = \<lparr>rd_message = take k m @ replicate (length m - k) (CHR 0x00), m_message_left = length m - k\<rparr>"
    by (simp_all add: within_def)
  obtain j where j: "0 < j" "j \<le> length m - k"
    "socket_read (length m - k) s = (Inr (take j ?bs), s\<lparr>spos := spos s + j\<rparr>)"
    using socket_read_some [OF w(2) _ assms(2), of "length m - k"] w(1)
    by (metis append_is_Nil_conv drop_eq_Nil not_le zero_less_diff)
  have tk: "take j ?bs = take j (drop k m)" using j(2) by simp
  have ne: "take j (drop k m) \<noteq> []" and len: "length (take j (drop k m)) = j" using j w(1) by auto
  have rest: "drop (spos s + j) (stream s) = drop (k + j) m @ concat (map frame ms)"
    using arg_cong [OF w(2), of "drop j"] j(2) by (simp add: add.commute)
  have msg: "take k m @ take j (drop k m) @ xs = take (k + j) m @ xs" for xs by (simp add: take_add)
  show ?thesis
  proof (intro exI [of _ j] conjI)
    show "0 < j" "k + j \<le> length m" using j w(1) by auto
    show "if k + j = length m
       then read_message r s = (Inr (True, Some m), new_reader, s\<lparr>spos := spos s + j\<rparr>) \<and>
            between ms new_reader (s\<lparr>spos := spos s + j\<rparr>)
       else \<exists>r'. read_message r s = (Inr (True, None), r', s\<lparr>spos := spos s + j\<rparr>) \<and>
            within (k + j) m ms r' (s\<lparr>spos := spos s + j\<rparr>)"
      using j w(1) rest msg ne len
      by (auto simp: read_message_def w(3) tk between_def within_def new_reader_def Let_def)
  qed
qed

lemma length_frame: "length (frame m) = 4 + length m"
  by (simp add: frame_def)

lemma resize_Nil [simp]: "resize n [] = replicate n (CHR 0x00)"
  by (simp add: resize_def)

lemma read_size_between:
  assumes "between (m # ms) r s" and "4 \<le> avail s (spos s)" and "m \<noteq> []" and "length m < 2 ^ 32"
  shows "\<exists>r'. read_size r s = (Inr True, r', s\<lparr>spos := spos s + 4\<rparr>) \<and> within 0 m ms r' (s\<lparr>spos := spos s + 4\<rparr>)"
proof -
  let ?bs = "frame m @ concat (map frame ms)"
  from assms(1) have b: "r = new_reader" "drop (spos s) (stream s) = ?bs" by (simp_all add: between_def)
  have "?bs \<noteq> []" "4 \<le> length ?bs" by (auto simp: frame_def htonl_def)
  then obtain j where "j = 4" "socket_read 4 s = (Inr (take j ?bs), s\<lparr>spos := spos s + j\<rparr>)"
    using socket_read_some [OF b(2), of 4] assms(2) by auto
  moreover have "take 4 ?bs = htonl (length m)" by (simp add: frame_def)
  moreover have "resize 4 (htonl (length m)) = htonl (length m)" by (simp add: resize_def)
  moreover have "drop (spos s + 4) (stream s) = m @ concat (map frame ms)"
    using arg_cong [OF b(2), of "drop 4"] by (simp add: frame_def add.commute)
  moreover have "htonl (length m) \<noteq> []" by (simp add: htonl_def)
  ultimately show ?thesis
    using assms(3,4) b(1)
    by (simp add: read_size_def new_reader_def ntohl_htonl within_def Let_def)
qed

lemma reader_read_within:
  "within k m ms r s \<Longrightarrow> reader_read r s = read_message r s"
  by (simp add: reader_read_def read_size_def within_def)

text \<open>One call of \<^verbatim>\<open>read\<close>, from between two messages or from within one, while there are bytes to come.\<close>

lemma within_rest: "within k m ms r s \<Longrightarrow> spos s < length (stream s)"
  by (auto simp: within_def dest: arg_cong [where f = length])

lemma run_reader_within:
  assumes "within k m ms r s" and "\<forall>p < length (stream s). 0 < avail s p"
  shows "\<exists>n s'. n \<le> length m - k \<and> stream s' = stream s \<and> avail s' = avail s \<and>
    spos s' = spos s + (length m - k) \<and> between ms new_reader s' \<and>
    (\<forall>i. run_reader (n + i) r s = (let (msgs, r', s'') = run_reader i new_reader s' in (m # msgs, r', s'')))"
  using assms
proof (induction "length m - k" arbitrary: k r s rule: less_induct)
  case less
  have "0 < avail s (spos s)" using less.prems within_rest by blast
  from read_message_within [OF less.prems(1) this] obtain j where j: "0 < j" "k + j \<le> length m"
    "if k + j = length m
     then read_message r s = (Inr (True, Some m), new_reader, s\<lparr>spos := spos s + j\<rparr>) \<and>
          between ms new_reader (s\<lparr>spos := spos s + j\<rparr>)
     else \<exists>r'. read_message r s = (Inr (True, None), r', s\<lparr>spos := spos s + j\<rparr>) \<and>
          within (k + j) m ms r' (s\<lparr>spos := spos s + j\<rparr>)" by blast
  let ?s = "s\<lparr>spos := spos s + j\<rparr>"
  show ?case
  proof (cases "k + j = length m")
    case True
    then show ?thesis
      using j less.prems(1)
      by (intro exI [of _ 1] exI [of _ ?s]) (auto simp: reader_read_within split: prod.splits)
  next
    case False
    then obtain r' where r': "read_message r s = (Inr (True, None), r', ?s)" "within (k + j) m ms r' ?s"
      using j(3) by auto
    have "length m - (k + j) < length m - k" using j False by linarith
    from less.hyps [OF this r'(2)] less.prems(2) obtain n s' where n: "n \<le> length m - (k + j)"
      "stream s' = stream s" "avail s' = avail s" "spos s' = spos ?s + (length m - (k + j))" "between ms new_reader s'"
      "\<forall>i. run_reader (n + i) r' ?s = (let (msgs, r', s'') = run_reader i new_reader s' in (m # msgs, r', s''))"
      by auto
    have "run_reader (Suc n + i) r s = (let (msgs, r', s'') = run_reader i new_reader s' in (m # msgs, r', s''))" for i
      using n(6) r'(1) less.prems(1) by (auto simp: reader_read_within Let_def split: prod.splits)
    then show ?thesis
      using n j False by (intro exI [of _ "Suc n"] exI [of _ s']) auto
  qed
qed

text \<open>All messages of a stream, if every read finds something and a read of a length finds it whole.\<close>

lemma run_reader_between:
  assumes "between ms r s" and "\<forall>m \<in> set ms. m \<noteq> [] \<and> length m < 2 ^ 32"
    and "\<forall>p < length (stream s). 0 < avail s p"
    and "\<forall>i < length ms. 4 \<le> avail s (spos s + length (concat (map frame (take i ms))))"
  shows "\<exists>n s'. n \<le> length (concat (map frame ms)) \<and> run_reader n r s = (ms, new_reader, s') \<and>
    stream s' = stream s \<and> spos s' = spos s + length (concat (map frame ms))"
  using assms
proof (induction ms arbitrary: r s)
  case Nil
  then show ?case by (intro exI [of _ 0] exI [of _ s]) (simp add: between_def)
next
  case (Cons m ms)
  let ?s = "s\<lparr>spos := spos s + 4\<rparr>"
  have "4 \<le> avail s (spos s)" using Cons.prems(4) by (auto dest: spec [of _ 0])
  then obtain r' where r': "read_size r s = (Inr True, r', ?s)" "within 0 m ms r' ?s"
    using read_size_between [OF Cons.prems(1)] Cons.prems(2) by auto
  have shift: "run_reader (Suc n) r s = run_reader (Suc n) r' ?s" for n
    using r' by (simp add: reader_read_within) (simp add: reader_read_def)
  obtain n s' where n: "n \<le> length m" "stream s' = stream s" "avail s' = avail s"
    "spos s' = spos s + 4 + length m" "between ms new_reader s'"
    "\<forall>i. run_reader (n + i) r' ?s = (let (msgs, r', s'') = run_reader i new_reader s' in (m # msgs, r', s''))"
    using run_reader_within [OF r'(2)] Cons.prems(3) by auto
  then have "n \<noteq> 0" by (cases n) (auto dest: spec [of _ 0])
  have "4 \<le> avail s' (spos s' + length (concat (map frame (take i ms))))" if "i < length ms" for i
    using spec [OF Cons.prems(4), of "Suc i"] that n(3,4) by (simp add: length_frame add.assoc)
  then obtain n' s'' where n': "n' \<le> length (concat (map frame ms))" "run_reader n' new_reader s' = (ms, new_reader, s'')"
    "stream s'' = stream s'" "spos s'' = spos s' + length (concat (map frame ms))"
    using Cons.IH [OF n(5)] Cons.prems(2,3) n(2,3) by auto
  have "run_reader (n + n') r s = (m # ms, new_reader, s'')"
    using shift [of "n - 1 + n'"] n(6) n'(2) \<open>n \<noteq> 0\<close> by (auto dest: spec [of _ n'])
  then show ?case
    using n n' by (intro exI [of _ "n + n'"] exI [of _ s'']) (auto simp: length_frame)
qed

text \<open>A connection on which an empty message arrives is taken for closed.\<close>

lemma empty_message_closes:
  assumes "between ([] # ms) r s" and "4 \<le> avail s (spos s)"
  shows "fst (reader_read r s) = Inr (False, None)"
proof -
  let ?bs = "frame [] @ concat (map frame ms)"
  from assms(1) have b: "r = new_reader" "drop (spos s) (stream s) = ?bs" by (simp_all add: between_def)
  have "?bs \<noteq> []" "4 \<le> length ?bs" by (auto simp: frame_def htonl_def)
  then obtain j where "j = 4" "socket_read 4 s = (Inr (take j ?bs), s\<lparr>spos := spos s + j\<rparr>)"
    using socket_read_some [OF b(2), of 4] assms(2) by auto
  then have "socket_read 4 s = (Inr (htonl 0), s\<lparr>spos := spos s + 4\<rparr>)" by (simp add: frame_def)
  moreover have "resize 4 (htonl 0) = htonl 0" "ntohl (htonl 0) = 0" "htonl 0 \<noteq> []"
    by (simp_all add: resize_def ntohl_htonl) (simp add: htonl_def)
  ultimately show ?thesis
    by (simp add: reader_read_def read_size_def b(1) new_reader_def read_message_def socket_read_def resize_def Let_def)
qed

end
