(* ===== verification/Operations.thy ===== *)
theory Operations
  imports Prelude "HOL-Library.Sublist"
begin

text \<open>
  \<^verbatim>\<open>vanity/client/operations.h\<close>: the operations a client can ask for, the words for them in a request,
  and which of them each level of authentication permits. The enumerations have no other value, so
  the \<^verbatim>\<open>default\<close> branches of the switches, which throw, are never taken. \<^verbatim>\<open>TYPE\<close> is a word of the
  logic and is written \<open>TYPE_OF\<close>.
\<close>

section \<open>Operations and their words\<close>

datatype (plugins only: size) operation_t =
    EXIT
  | TERMINATE
  | PING
  | PIPE
  | BIND
  | UNBIND
  | ADD_USER
  | EDIT_USER
  | DEL_USER
  | AUTH
  | CHANGE_PASSWORD
  | AUTH_LEVEL
  | USERNAME
  | SWITCH_DB
  | PERSIST
  | TRANSACT_BEGIN
  | TRANSACT_COMMIT
  | TRANSACT_DISCARD
  | PUBLISH
  | SUBSCRIBE
  | SUBSCRIBED
  | UNSUBSCRIBE
  | UNSUBSCRIBE_ALL
  | DEL
  | TYPE_OF
  | EXISTS
  | RESET
  | KEYS
  | COPY_TO
  | MOVE_TO
  | COPY_TO_DB
  | MOVE_TO_DB
  | SET_EXPIRY
  | GET_EXPIRY
  | CLEAR_EXPIRY
  | GET
  | STR_SET
  | INT_SET
  | FLOAT_SET
  | INCR_INT
  | INCR_FLOAT
  | STR_LEN
  | MANY_GET
  | LIST_LEN
  | LIST_GET
  | LIST_SET
  | LIST_PUSH_LEFT
  | LIST_PUSH_RIGHT
  | LIST_POP_LEFT
  | LIST_POP_RIGHT
  | LIST_RANGE
  | LIST_TRIM
  | LIST_REMOVE
  | SET_ADD
  | SET_ALL
  | SET_REMOVE
  | SET_DISCARD
  | SET_LEN
  | SET_CONTAINS
  | SET_MOVE
  | SET_UNION
  | SET_UNION_INTO
  | SET_UNION_LEN
  | SET_INTERSECT
  | SET_INTERSECT_INTO
  | SET_INTERSECT_LEN
  | SET_DIFF
  | SET_DIFF_INTO
  | SET_DIFF_LEN
  | HASH_SET
  | HASH_ALL
  | HASH_GET
  | HASH_CONTAINS
  | HASH_LEN
  | HASH_KEY_LEN
  | HASH_REMOVE
  | HASH_KEYS
  | HASH_VALUES
  | HASH_UPDATE
  | HASH_MANY_GET
  | CLUSTER_JOIN
  | CLUSTER_KEY
  | CLUSTER_ID
  | CLUSTER_LEAVE
  | CLUSTER_NEW
  | PEERS
  | PEER_IDS
  | PEER_AUTH

definition OPERATION_T_STRINGS :: "(operation_t \<times> string) list" where
  "OPERATION_T_STRINGS = [
     (EXIT, ''EXIT''),
     (TERMINATE, ''TERMINATE''),
     (PING, ''PING''),
     (PIPE, ''PIPE''),
     (BIND, ''BIND''),
     (UNBIND, ''UNBIND''),
     (AUTH_LEVEL, ''AUTH_LEVEL''),
     (AUTH, ''AUTH''),
     (ADD_USER, ''ADD_USER''),
     (EDIT_USER, ''EDIT_USER''),
     (DEL_USER, ''DEL_USER''),
     (CHANGE_PASSWORD, ''CHANGE_PASSWORD''),
     (USERNAME, ''USERNAME''),
     (SWITCH_DB, ''SWITCH_DB''),
     (PERSIST, ''PERSIST''),
     (TRANSACT_BEGIN, ''TRANSACT_BEGIN''),
     (TRANSACT_COMMIT, ''TRANSACT_COMMIT''),
     (TRANSACT_DISCARD, ''TRANSACT_DISCARD''),
     (PUBLISH, ''PUBLISH''),
     (SUBSCRIBED, ''SUBSCRIBED''),
     (SUBSCRIBE, ''SUBSCRIBE''),
     (UNSUBSCRIBE_ALL, ''UNSUBSCRIBE_ALL''),
     (UNSUBSCRIBE, ''UNSUBSCRIBE''),
     (DEL, ''DEL''),
     (TYPE_OF, ''TYPE''),
     (EXISTS, ''EXISTS''),
     (RESET, ''RESET''),
     (KEYS, ''KEYS''),
     (COPY_TO_DB, ''COPY_TO_DB''),
     (MOVE_TO_DB, ''MOVE_TO_DB''),
     (COPY_TO, ''COPY_TO''),
     (MOVE_TO, ''MOVE_TO''),
     (SET_EXPIRY, ''SET_EXPIRY''),
     (GET_EXPIRY, ''GET_EXPIRY''),
     (CLEAR_EXPIRY, ''CLEAR_EXPIRY''),
     (GET, ''GET''),
     (STR_SET, ''STR_SET''),
     (INT_SET, ''INT_SET''),
     (FLOAT_SET, ''FLOAT_SET''),
     (INCR_INT, ''INCR_INT''),
     (INCR_FLOAT, ''INCR_FLOAT''),
     (STR_LEN, ''STR_LEN''),
     (MANY_GET, ''MANY_GET''),
     (LIST_LEN, ''LIST_LEN''),
     (LIST_GET, ''LIST_GET''),
     (LIST_SET, ''LIST_SET''),
     (LIST_PUSH_LEFT, ''LIST_PUSH_LEFT''),
     (LIST_PUSH_RIGHT, ''LIST_PUSH_RIGHT''),
     (LIST_POP_LEFT, ''LIST_POP_LEFT''),
     (LIST_POP_RIGHT, ''LIST_POP_RIGHT''),
     (LIST_RANGE, ''LIST_RANGE''),
     (LIST_TRIM, ''LIST_TRIM''),
     (LIST_REMOVE, ''LIST_REMOVE''),
     (SET_ADD, ''SET_ADD''),
     (SET_ALL, ''SET_ALL''),
     (SET_REMOVE, ''SET_REMOVE''),
     (SET_DISCARD, ''SET_DISCARD''),
     (SET_LEN, ''SET_LEN''),
     (SET_CONTAINS, ''SET_CONTAINS''),
     (SET_MOVE, ''SET_MOVE''),
     (SET_UNION_INTO, ''SET_UNION_INTO''),
     (SET_UNION_LEN, ''SET_UNION_LEN''),
     (SET_UNION, ''SET_UNION''),
     (SET_INTERSECT_INTO, ''SET_INTERSECT_INTO''),
     (SET_INTERSECT_LEN, ''SET_INTERSECT_LEN''),
     (SET_INTERSECT, ''SET_INTERSECT''),
     (SET_DIFF_INTO, ''SET_DIFF_INTO''),
     (SET_DIFF_LEN, ''SET_DIFF_LEN''),
     (SET_DIFF, ''SET_DIFF''),
     (HASH_SET, ''HASH_SET''),
     (HASH_ALL, ''HASH_ALL''),
     (HASH_GET, ''HASH_GET''),
     (HASH_CONTAINS, ''HASH_CONTAINS''),
     (HASH_LEN, ''HASH_LEN''),
     (HASH_KEY_LEN, ''HASH_KEY_LEN''),
     (HASH_REMOVE, ''HASH_REMOVE''),
     (HASH_KEYS, ''HASH_KEYS''),
     (HASH_VALUES, ''HASH_VALUES''),
     (HASH_UPDATE, ''HASH_UPDATE''),
     (HASH_MANY_GET, ''HASH_MANY_GET''),
     (CLUSTER_JOIN, ''CLUSTER_JOIN''),
     (CLUSTER_KEY, ''CLUSTER_KEY''),
     (CLUSTER_ID, ''CLUSTER_ID''),
     (CLUSTER_LEAVE, ''CLUSTER_LEAVE''),
     (CLUSTER_NEW, ''CLUSTER_NEW''),
     (PEERS, ''PEERS''),
     (PEER_IDS, ''PEER_IDS''),
     (PEER_AUTH, ''PEER_AUTH'')]"

section \<open>Permissions\<close>

text \<open>\<^verbatim>\<open>client_auth\<close> of \<^verbatim>\<open>vanity/client/session_info.h\<close>.\<close>

datatype client_auth = UNKNOWN | USER | PEER | ADMIN

definition CLIENT_AUTH_STRINGS :: "(client_auth \<times> string) list" where
  "CLIENT_AUTH_STRINGS = [(UNKNOWN, ''UNKNOWN''), (USER, ''USER''), (ADMIN, ''ADMIN''), (PEER, ''PEER'')]"

primrec unknown_is_permitted :: "operation_t \<Rightarrow> bool" where
  "unknown_is_permitted PING = True"
| "unknown_is_permitted EXIT = True"
| "unknown_is_permitted AUTH = True"
| "unknown_is_permitted AUTH_LEVEL = True"
| "unknown_is_permitted PEER_AUTH = True"
| "unknown_is_permitted TERMINATE = False"
| "unknown_is_permitted PIPE = False"
| "unknown_is_permitted BIND = False"
| "unknown_is_permitted UNBIND = False"
| "unknown_is_permitted ADD_USER = False"
| "unknown_is_permitted EDIT_USER = False"
| "unknown_is_permitted DEL_USER = False"
| "unknown_is_permitted CHANGE_PASSWORD = False"
| "unknown_is_permitted USERNAME = False"
| "unknown_is_permitted SWITCH_DB = False"
| "unknown_is_permitted PERSIST = False"
| "unknown_is_permitted TRANSACT_BEGIN = False"
| "unknown_is_permitted TRANSACT_COMMIT = False"
| "unknown_is_permitted TRANSACT_DISCARD = False"
| "unknown_is_permitted PUBLISH = False"
| "unknown_is_permitted SUBSCRIBE = False"
| "unknown_is_permitted SUBSCRIBED = False"
| "unknown_is_permitted UNSUBSCRIBE = False"
| "unknown_is_permitted UNSUBSCRIBE_ALL = False"
| "unknown_is_permitted DEL = False"
| "unknown_is_permitted TYPE_OF = False"
| "unknown_is_permitted EXISTS = False"
| "unknown_is_permitted RESET = False"
| "unknown_is_permitted KEYS = False"
| "unknown_is_permitted COPY_TO = False"
| "unknown_is_permitted MOVE_TO = False"
| "unknown_is_permitted COPY_TO_DB = False"
| "unknown_is_permitted MOVE_TO_DB = False"
| "unknown_is_permitted SET_EXPIRY = False"
| "unknown_is_permitted GET_EXPIRY = False"
| "unknown_is_permitted CLEAR_EXPIRY = False"
| "unknown_is_permitted GET = False"
| "unknown_is_permitted STR_SET = False"
| "unknown_is_permitted INT_SET = False"
| "unknown_is_permitted FLOAT_SET = False"
| "unknown_is_permitted INCR_INT = False"
| "unknown_is_permitted INCR_FLOAT = False"
| "unknown_is_permitted STR_LEN = False"
| "unknown_is_permitted MANY_GET = False"
| "unknown_is_permitted LIST_LEN = False"
| "unknown_is_permitted LIST_GET = False"
| "unknown_is_permitted LIST_SET = False"
| "unknown_is_permitted LIST_PUSH_LEFT = False"
| "unknown_is_permitted LIST_PUSH_RIGHT = False"
| "unknown_is_permitted LIST_POP_LEFT = False"
| "unknown_is_permitted LIST_POP_RIGHT = False"
| "unknown_is_permitted LIST_RANGE = False"
| "unknown_is_permitted LIST_TRIM = False"
| "unknown_is_permitted LIST_REMOVE = False"
| "unknown_is_permitted SET_ADD = False"
| "unknown_is_permitted SET_ALL = False"
| "unknown_is_permitted SET_REMOVE = False"
| "unknown_is_permitted SET_DISCARD = False"
| "unknown_is_permitted SET_LEN = False"
| "unknown_is_permitted SET_CONTAINS = False"
| "unknown_is_permitted SET_MOVE = False"
| "unknown_is_permitted SET_UNION = False"
| "unknown_is_permitted SET_UNION_INTO = False"
| "unknown_is_permitted SET_UNION_LEN = False"
| "unknown_is_permitted SET_INTERSECT = False"
| "unknown_is_permitted SET_INTERSECT_INTO = False"
| "unknown_is_permitted SET_INTERSECT_LEN = False"
| "unknown_is_permitted SET_DIFF = False"
| "unknown_is_permitted SET_DIFF_INTO = False"
| "unknown_is_permitted SET_DIFF_LEN = False"
| "unknown_is_permitted HASH_SET = False"
| "unknown_is_permitted HASH_ALL = False"
| "unknown_is_permitted HASH_GET = False"
| "unknown_is_permitted HASH_CONTAINS = False"
| "unknown_is_permitted HASH_LEN = False"
| "unknown_is_permitted HASH_KEY_LEN = False"
| "unknown_is_permitted HASH_REMOVE = False"
| "unknown_is_permitted HASH_KEYS = False"
| "unknown_is_permitted HASH_VALUES = False"
| "unknown_is_permitted HASH_UPDATE = False"
| "unknown_is_permitted HASH_MANY_GET = False"
| "unknown_is_permitted CLUSTER_JOIN = False"
| "unknown_is_permitted CLUSTER_KEY = False"
| "unknown_is_permitted CLUSTER_ID = False"
| "unknown_is_permitted CLUSTER_LEAVE = False"
| "unknown_is_permitted CLUSTER_NEW = False"
| "unknown_is_permitted PEERS = False"
| "unknown_is_permitted PEER_IDS = False"

primrec user_is_permitted :: "operation_t \<Rightarrow> bool" where
  "user_is_permitted EXIT = True"
| "user_is_permitted PING = True"
| "user_is_permitted PIPE = True"
| "user_is_permitted CHANGE_PASSWORD = True"
| "user_is_permitted AUTH_LEVEL = True"
| "user_is_permitted USERNAME = True"
| "user_is_permitted SWITCH_DB = True"
| "user_is_permitted PERSIST = True"
| "user_is_permitted TRANSACT_BEGIN = True"
| "user_is_permitted TRANSACT_COMMIT = True"
| "user_is_permitted TRANSACT_DISCARD = True"
| "user_is_permitted PUBLISH = True"
| "user_is_permitted SUBSCRIBE = True"
| "user_is_permitted SUBSCRIBED = True"
| "user_is_permitted UNSUBSCRIBE = True"
| "user_is_permitted UNSUBSCRIBE_ALL = True"
| "user_is_permitted DEL = True"
| "user_is_permitted TYPE_OF = True"
| "user_is_permitted EXISTS = True"
| "user_is_permitted KEYS = True"
| "user_is_permitted COPY_TO = True"
| "user_is_permitted MOVE_TO = True"
| "user_is_permitted COPY_TO_DB = True"
| "user_is_permitted MOVE_TO_DB = True"
| "user_is_permitted SET_EXPIRY = True"
| "user_is_permitted GET_EXPIRY = True"
| "user_is_permitted CLEAR_EXPIRY = True"
| "user_is_permitted GET = True"
| "user_is_permitted STR_SET = True"
| "user_is_permitted INT_SET = True"
| "user_is_permitted FLOAT_SET = True"
| "user_is_permitted INCR_INT = True"
| "user_is_permitted INCR_FLOAT = True"
| "user_is_permitted STR_LEN = True"
| "user_is_permitted MANY_GET = True"
| "user_is_permitted LIST_LEN = True"
| "user_is_permitted LIST_GET = True"
| "user_is_permitted LIST_SET = True"
| "user_is_permitted LIST_PUSH_LEFT = True"
| "user_is_permitted LIST_PUSH_RIGHT = True"
| "user_is_permitted LIST_POP_LEFT = True"
| "user_is_permitted LIST_POP_RIGHT = True"
| "user_is_permitted LIST_RANGE = True"
| "user_is_permitted LIST_TRIM = True"
| "user_is_permitted LIST_REMOVE = True"
| "user_is_permitted SET_ADD = True"
| "user_is_permitted SET_ALL = True"
| "user_is_permitted SET_REMOVE = True"
| "user_is_permitted SET_DISCARD = True"
| "user_is_permitted SET_LEN = True"
| "user_is_permitted SET_CONTAINS = True"
| "user_is_permitted SET_MOVE = True"
| "user_is_permitted SET_UNION = True"
| "user_is_permitted SET_UNION_INTO = True"
| "user_is_permitted SET_UNION_LEN = True"
| "user_is_permitted SET_INTERSECT = True"
| "user_is_permitted SET_INTERSECT_INTO = True"
| "user_is_permitted SET_INTERSECT_LEN = True"
| "user_is_permitted SET_DIFF = True"
| "user_is_permitted SET_DIFF_INTO = True"
| "user_is_permitted SET_DIFF_LEN = True"
| "user_is_permitted HASH_SET = True"
| "user_is_permitted HASH_ALL = True"
| "user_is_permitted HASH_GET = True"
| "user_is_permitted HASH_CONTAINS = True"
| "user_is_permitted HASH_LEN = True"
| "user_is_permitted HASH_KEY_LEN = True"
| "user_is_permitted HASH_REMOVE = True"
| "user_is_permitted HASH_KEYS = True"
| "user_is_permitted HASH_VALUES = True"
| "user_is_permitted HASH_UPDATE = True"
| "user_is_permitted HASH_MANY_GET = True"
| "user_is_permitted TERMINATE = False"
| "user_is_permitted BIND = False"
| "user_is_permitted UNBIND = False"
| "user_is_permitted RESET = False"
| "user_is_permitted AUTH = False"
| "user_is_permitted ADD_USER = False"
| "user_is_permitted EDIT_USER = False"
| "user_is_permitted DEL_USER = False"
| "user_is_permitted CLUSTER_JOIN = False"
| "user_is_permitted CLUSTER_KEY = False"
| "user_is_permitted CLUSTER_ID = False"
| "user_is_permitted CLUSTER_LEAVE = False"
| "user_is_permitted CLUSTER_NEW = False"
| "user_is_permitted PEERS = False"
| "user_is_permitted PEER_IDS = False"
| "user_is_permitted PEER_AUTH = False"

primrec peer_is_permitted :: "operation_t \<Rightarrow> bool" where
  "peer_is_permitted EXIT = True"
| "peer_is_permitted PING = True"
| "peer_is_permitted TERMINATE = True"
| "peer_is_permitted PIPE = True"
| "peer_is_permitted SWITCH_DB = True"
| "peer_is_permitted PERSIST = True"
| "peer_is_permitted DEL = True"
| "peer_is_permitted TYPE_OF = True"
| "peer_is_permitted EXISTS = True"
| "peer_is_permitted RESET = True"
| "peer_is_permitted KEYS = True"
| "peer_is_permitted COPY_TO = True"
| "peer_is_permitted MOVE_TO = True"
| "peer_is_permitted COPY_TO_DB = True"
| "peer_is_permitted MOVE_TO_DB = True"
| "peer_is_permitted SET_EXPIRY = True"
| "peer_is_permitted GET_EXPIRY = True"
| "peer_is_permitted CLEAR_EXPIRY = True"
| "peer_is_permitted GET = True"
| "peer_is_permitted STR_SET = True"
| "peer_is_permitted INT_SET = True"
| "peer_is_permitted FLOAT_SET = True"
| "peer_is_permitted INCR_INT = True"
| "peer_is_permitted INCR_FLOAT = True"
| "peer_is_permitted STR_LEN = True"
| "peer_is_permitted MANY_GET = True"
| "peer_is_permitted LIST_LEN = True"
| "peer_is_permitted LIST_GET = True"
| "peer_is_permitted LIST_SET = True"
| "peer_is_permitted LIST_PUSH_LEFT = True"
| "peer_is_permitted LIST_PUSH_RIGHT = True"
| "peer_is_permitted LIST_POP_LEFT = True"
| "peer_is_permitted LIST_POP_RIGHT = True"
| "peer_is_permitted LIST_RANGE = True"
| "peer_is_permitted LIST_TRIM = True"
| "peer_is_permitted LIST_REMOVE = True"
| "peer_is_permitted SET_ADD = True"
| "peer_is_permitted SET_ALL = True"
| "peer_is_permitted SET_REMOVE = True"
| "peer_is_permitted SET_DISCARD = True"
| "peer_is_permitted SET_LEN = True"
| "peer_is_permitted SET_CONTAINS = True"
| "peer_is_permitted SET_MOVE = True"
| "peer_is_permitted SET_UNION = True"
| "peer_is_permitted SET_UNION_INTO = True"
| "peer_is_permitted SET_UNION_LEN = True"
| "peer_is_permitted SET_INTERSECT = True"
| "peer_is_permitted SET_INTERSECT_INTO = True"
| "peer_is_permitted SET_INTERSECT_LEN = True"
| "peer_is_permitted SET_DIFF = True"
| "peer_is_permitted SET_DIFF_INTO = True"
| "peer_is_permitted SET_DIFF_LEN = True"
| "peer_is_permitted HASH_SET = True"
| "peer_is_permitted HASH_ALL = True"
| "peer_is_permitted HASH_GET = True"
| "peer_is_permitted HASH_CONTAINS = True"
| "peer_is_permitted HASH_LEN = True"
| "peer_is_permitted HASH_KEY_LEN = True"
| "peer_is_permitted HASH_REMOVE = True"
| "peer_is_permitted HASH_KEYS = True"
| "peer_is_permitted HASH_VALUES = True"
| "peer_is_permitted HASH_UPDATE = True"
| "peer_is_permitted HASH_MANY_GET = True"
| "peer_is_permitted PEERS = True"
| "peer_is_permitted PEER_IDS = True"
| "peer_is_permitted BIND = False"
| "peer_is_permitted UNBIND = False"
| "peer_is_permitted AUTH = False"
| "peer_is_permitted CHANGE_PASSWORD = False"
| "peer_is_permitted ADD_USER = False"
| "peer_is_permitted EDIT_USER = False"
| "peer_is_permitted DEL_USER = False"
| "peer_is_permitted AUTH_LEVEL = False"
| "peer_is_permitted USERNAME = False"
| "peer_is_permitted TRANSACT_BEGIN = False"
| "peer_is_permitted TRANSACT_COMMIT = False"
| "peer_is_permitted TRANSACT_DISCARD = False"
| "peer_is_permitted PUBLISH = False"
| "peer_is_permitted SUBSCRIBE = False"
| "peer_is_permitted SUBSCRIBED = False"
| "peer_is_permitted UNSUBSCRIBE = False"
| "peer_is_permitted UNSUBSCRIBE_ALL = False"
| "peer_is_permitted CLUSTER_JOIN = False"
| "peer_is_permitted CLUSTER_KEY = False"
| "peer_is_permitted CLUSTER_ID = False"
| "peer_is_permitted CLUSTER_LEAVE = False"
| "peer_is_permitted CLUSTER_NEW = False"
| "peer_is_permitted PEER_AUTH = False"

primrec admin_is_permitted :: "operation_t \<Rightarrow> bool" where
  "admin_is_permitted EXIT = True"
| "admin_is_permitted PING = True"
| "admin_is_permitted TERMINATE = True"
| "admin_is_permitted PIPE = True"
| "admin_is_permitted BIND = True"
| "admin_is_permitted UNBIND = True"
| "admin_is_permitted ADD_USER = True"
| "admin_is_permitted EDIT_USER = True"
| "admin_is_permitted DEL_USER = True"
| "admin_is_permitted CHANGE_PASSWORD = True"
| "admin_is_permitted AUTH_LEVEL = True"
| "admin_is_permitted USERNAME = True"
| "admin_is_permitted SWITCH_DB = True"
| "admin_is_permitted PERSIST = True"
| "admin_is_permitted TRANSACT_BEGIN = True"
| "admin_is_permitted TRANSACT_COMMIT = True"
| "admin_is_permitted TRANSACT_DISCARD = True"
| "admin_is_permitted PUBLISH = True"
| "admin_is_permitted SUBSCRIBE = True"
| "admin_is_permitted SUBSCRIBED = True"
| "admin_is_permitted UNSUBSCRIBE = True"
| "admin_is_permitted UNSUBSCRIBE_ALL = True"
| "admin_is_permitted DEL = True"
| "admin_is_permitted TYPE_OF = True"
| "admin_is_permitted RESET = True"
| "admin_is_permitted EXISTS = True"
| "admin_is_permitted KEYS = True"
| "admin_is_permitted COPY_TO = True"
| "admin_is_permitted MOVE_TO = True"
| "admin_is_permitted COPY_TO_DB = True"
| "admin_is_permitted MOVE_TO_DB = True"
| "admin_is_permitted SET_EXPIRY = True"
| "admin_is_permitted GET_EXPIRY = True"
| "admin_is_permitted CLEAR_EXPIRY = True"
| "admin_is_permitted GET = True"
| "admin_is_permitted STR_SET = True"
| "admin_is_permitted INT_SET = True"
| "admin_is_permitted FLOAT_SET = True"
| "admin_is_permitted INCR_INT = True"
| "admin_is_permitted INCR_FLOAT = True"
| "admin_is_permitted STR_LEN = True"
| "admin_is_permitted MANY_GET = True"
| "admin_is_permitted LIST_LEN = True"
| "admin_is_permitted LIST_GET = True"
| "admin_is_permitted LIST_SET = True"
| "admin_is_permitted LIST_PUSH_LEFT = True"
| "admin_is_permitted LIST_PUSH_RIGHT = True"
| "admin_is_permitted LIST_POP_LEFT = True"
| "admin_is_permitted LIST_POP_RIGHT = True"
| "admin_is_permitted LIST_RANGE = True"
| "admin_is_permitted LIST_TRIM = True"
| "admin_is_permitted LIST_REMOVE = True"
| "admin_is_permitted SET_ADD = True"
| "admin_is_permitted SET_ALL = True"
| "admin_is_permitted SET_REMOVE = True"
| "admin_is_permitted SET_DISCARD = True"
| "admin_is_permitted SET_LEN = True"
| "admin_is_permitted SET_CONTAINS = True"
| "admin_is_permitted SET_MOVE = True"
| "admin_is_permitted SET_UNION = True"
| "admin_is_permitted SET_UNION_INTO = True"
| "admin_is_permitted SET_UNION_LEN = True"
| "admin_is_permitted SET_INTERSECT = True"
| "admin_is_permitted SET_INTERSECT_INTO = True"
| "admin_is_permitted SET_INTERSECT_LEN = True"
| "admin_is_permitted SET_DIFF = True"
| "admin_is_permitted SET_DIFF_INTO = True"
| "admin_is_permitted SET_DIFF_LEN = True"
| "admin_is_permitted HASH_SET = True"
| "admin_is_permitted HASH_ALL = True"
| "admin_is_permitted HASH_GET = True"
| "admin_is_permitted HASH_CONTAINS = True"
| "admin_is_permitted HASH_LEN = True"
| "admin_is_permitted HASH_KEY_LEN = True"
| "admin_is_permitted HASH_REMOVE = True"
| "admin_is_permitted HASH_KEYS = True"
| "admin_is_permitted HASH_VALUES = True"
| "admin_is_permitted HASH_UPDATE = True"
| "admin_is_permitted HASH_MANY_GET = True"
| "admin_is_permitted CLUSTER_JOIN = True"
| "admin_is_permitted CLUSTER_KEY = True"
| "admin_is_permitted CLUSTER_ID = True"
| "admin_is_permitted CLUSTER_LEAVE = True"
| "admin_is_permitted CLUSTER_NEW = True"
| "admin_is_permitted PEERS = True"
| "admin_is_permitted PEER_IDS = True"
| "admin_is_permitted AUTH = False"
| "admin_is_permitted PEER_AUTH = False"

fun is_permitted :: "operation_t \<Rightarrow> client_auth \<Rightarrow> bool" where
  "is_permitted op UNKNOWN = unknown_is_permitted op"
| "is_permitted op USER = user_is_permitted op"
| "is_permitted op PEER = peer_is_permitted op"
| "is_permitted op ADMIN = admin_is_permitted op"

end
