(* ===== verification/Decimal.thy ===== *)
theory Decimal
  imports Prelude
begin

text \<open>
  Integers in decimal: \<^verbatim>\<open>strtoll\<close> and \<^verbatim>\<open>strtoull\<close> of the C library, in base 10, as the helpers
  \<^verbatim>\<open>stoa\<close>, \<^verbatim>\<open>stoll\<close> and \<^verbatim>\<open>stoull\<close> of \<^verbatim>\<open>vanity/request/extractable.cpp\<close> call them, and \<^verbatim>\<open>std::to_string\<close>,
  with which responses and peer messages write integers. What is written is read back.
\<close>

section \<open>Reading\<close>

text \<open>A conversion: nothing to convert, a value out of range, or a value and the number of bytes that
  were consumed.\<close>

datatype 'a conversion = No_Conversion | Out_Of_Range | Converted 'a nat

text \<open>\<^verbatim>\<open>isspace\<close> in the C locale.\<close>

definition is_space :: "char \<Rightarrow> bool" where
  "is_space c \<longleftrightarrow> c \<in> {CHR '' '', CHR 0x09, CHR 0x0A, CHR 0x0B, CHR 0x0C, CHR 0x0D}"

definition is_digit :: "char \<Rightarrow> bool" where
  "is_digit c \<longleftrightarrow> 48 \<le> (of_char c :: nat) \<and> (of_char c :: nat) \<le> 57"

definition digit_value :: "char \<Rightarrow> nat" where
  "digit_value c = of_char c - 48"

definition digits_value :: "string \<Rightarrow> nat" where
  "digits_value ds = foldl (\<lambda>n c. 10 * n + digit_value c) 0 ds"

text \<open>The subject sequence of \<^verbatim>\<open>strtoll\<close> and \<^verbatim>\<open>strtoull\<close> in base 10: white space, an optional sign,
  digits. The result is the sign, the digits, and the number of bytes before the digits.\<close>

definition sign_split :: "string \<Rightarrow> bool \<times> nat \<times> string" where
  "sign_split s =
     (case s of
        c # s' \<Rightarrow> if c = CHR ''-'' then (True, 1, s') else if c = CHR ''+'' then (False, 1, s') else (False, 0, s)
      | [] \<Rightarrow> (False, 0, []))"

definition subject_sequence :: "string \<Rightarrow> bool \<times> string \<times> nat" where
  "subject_sequence s =
     (let spaces = length (takeWhile is_space s);
          (neg, signs, rest) = sign_split (drop spaces s)
      in (neg, takeWhile is_digit rest, spaces + signs))"

definition strtoull :: "string \<Rightarrow> nat conversion" where
  "strtoull s =
     (let (neg, ds, skipped) = subject_sequence s in
      if ds = [] then No_Conversion
      else if digits_value ds \<ge> 2 ^ 64 then Out_Of_Range
      else Converted (if neg then (2 ^ 64 - digits_value ds) mod 2 ^ 64 else digits_value ds)
             (skipped + length ds))"

definition strtoll :: "string \<Rightarrow> int conversion" where
  "strtoll s =
     (let (neg, ds, skipped) = subject_sequence s;
          v = if neg then - int (digits_value ds) else int (digits_value ds)
      in if ds = [] then No_Conversion
         else if \<not> int64_ok v then Out_Of_Range
         else Converted v (skipped + length ds))"

text \<open>\<^verbatim>\<open>stoa\<close>: the exceptions of the \<^verbatim>\<open>sto*\<close> functions.\<close>

definition stoa :: "(string \<Rightarrow> 'a conversion) \<Rightarrow> string \<Rightarrow> string \<Rightarrow> ('a \<times> nat) result" where
  "stoa func name s =
     (case func s of
        No_Conversion \<Rightarrow> Inl (InvalidArgument name)
      | Out_Of_Range \<Rightarrow> Inl (OutOfRange name)
      | Converted a n \<Rightarrow> Inr (a, n))"

definition stoll :: "string \<Rightarrow> (int \<times> nat) result" where
  "stoll = stoa strtoll ''stoll''"

definition stoull :: "string \<Rightarrow> (nat \<times> nat) result" where
  "stoull = stoa strtoull ''stoull''"

section \<open>Writing\<close>

definition digit :: "nat \<Rightarrow> char" where
  "digit n = char_of (48 + n)"

fun to_string :: "nat \<Rightarrow> string" where
  "to_string n = (if n < 10 then [digit n] else to_string (n div 10) @ [digit (n mod 10)])"

declare to_string.simps [simp del]

definition int_to_string :: "int \<Rightarrow> string" where
  "int_to_string i = (if i < 0 then CHR ''-'' # to_string (nat (- i)) else to_string (nat i))"

section \<open>What is written is read back\<close>

lemma digit_less: "n < 10 \<Longrightarrow> is_digit (digit n) \<and> digit_value (digit n) = n"
  by (simp add: is_digit_def digit_def digit_value_def of_char_of)

lemma to_string_digits: "\<forall>c \<in> set (to_string n). is_digit c"
proof (induction n rule: to_string.induct)
  case (1 n)
  then show ?case
    by (subst to_string.simps) (auto simp: digit_less)
qed

lemma to_string_nonempty [simp]: "to_string n \<noteq> []"
  by (subst to_string.simps) simp

lemma digits_value_snoc: "digits_value (ds @ [c]) = 10 * digits_value ds + digit_value c"
  by (simp add: digits_value_def)

lemma digits_value_to_string [simp]: "digits_value (to_string n) = n"
proof (induction n rule: to_string.induct)
  case (1 n)
  show ?case
  proof (cases "n < 10")
    case True
    then show ?thesis by (subst to_string.simps) (simp add: digits_value_def digit_less)
  next
    case False
    with 1 show ?thesis by (subst to_string.simps) (simp add: digits_value_snoc digit_less)
  qed
qed

text \<open>What may follow a number in the text: anything but another digit.\<close>

definition no_digit :: "string \<Rightarrow> bool" where
  "no_digit s \<longleftrightarrow> (case s of [] \<Rightarrow> True | c # _ \<Rightarrow> \<not> is_digit c)"

lemma takeWhile_to_string: "no_digit rest \<Longrightarrow> takeWhile is_digit (to_string n @ rest) = to_string n"
  using to_string_digits [of n] by (cases rest) (auto simp: no_digit_def takeWhile_append2)

lemma digit_no_space: "is_digit c \<Longrightarrow> \<not> is_space c \<and> c \<noteq> CHR ''-'' \<and> c \<noteq> CHR ''+'' \<and> c \<noteq> CHR 0x00"
  by (auto simp: is_digit_def is_space_def)

lemma to_string_Cons: "\<exists>c cs. to_string n = c # cs \<and> is_digit c"
  using to_string_digits [of n] to_string_nonempty [of n] by (cases "to_string n") auto

lemma subject_sequence_to_string:
  assumes "no_digit rest"
  shows "subject_sequence (to_string n @ rest) = (False, to_string n, 0)"
    and "subject_sequence (CHR ''-'' # to_string n @ rest) = (True, to_string n, 1)"
proof -
  obtain c cs where "to_string n = c # cs" "is_digit c" using to_string_Cons by blast
  then show "subject_sequence (to_string n @ rest) = (False, to_string n, 0)"
    using takeWhile_to_string [OF assms, of n] digit_no_space [of c]
    by (simp add: subject_sequence_def sign_split_def)
  show "subject_sequence (CHR ''-'' # to_string n @ rest) = (True, to_string n, 1)"
    using takeWhile_to_string [OF assms, of n]
    by (simp add: subject_sequence_def sign_split_def is_space_def)
qed

lemma strtoull_to_string:
  "n < 2 ^ 64 \<Longrightarrow> no_digit rest \<Longrightarrow> strtoull (to_string n @ rest) = Converted n (length (to_string n))"
  by (simp add: strtoull_def subject_sequence_to_string)

lemma strtoll_to_string:
  assumes "int64_ok i" and "no_digit rest"
  shows "strtoll (int_to_string i @ rest) = Converted i (length (int_to_string i))"
  using assms by (simp add: strtoll_def int_to_string_def subject_sequence_to_string)

text \<open>Negative lengths are accepted: \<^verbatim>\<open>strtoull\<close> negates them modulo \<open>2 ^ 64\<close>.\<close>

lemma strtoull_negative:
  "0 < n \<Longrightarrow> n < 2 ^ 64 \<Longrightarrow> no_digit rest \<Longrightarrow>
   strtoull (CHR ''-'' # to_string n @ rest) = Converted (2 ^ 64 - n) (Suc (length (to_string n)))"
  by (simp add: strtoull_def subject_sequence_to_string)

text \<open>A conversion consumes no more than the text has.\<close>

lemma sign_split_length: "sign_split s = (neg, g, r) \<Longrightarrow> g + length r = length s"
  by (auto simp: sign_split_def split: list.splits if_splits)

lemma subject_sequence_length:
  "subject_sequence s = (neg, ds, skipped) \<Longrightarrow> ds \<noteq> [] \<Longrightarrow> skipped + length ds \<le> length s"
proof -
  assume a: "subject_sequence s = (neg, ds, skipped)" "ds \<noteq> []"
  let ?k = "length (takeWhile is_space s)"
  obtain n g r where g: "sign_split (drop ?k s) = (n, g, r)" by (metis prod_cases3)
  have "g + length r = length (drop ?k s)"
    by (rule sign_split_length [OF g])
  moreover have "?k \<le> length s" by (rule length_takeWhile_le)
  moreover have "length ds \<le> length r" "skipped = ?k + g"
    using a(1) g by (auto simp: subject_sequence_def Let_def length_takeWhile_le)
  ultimately show ?thesis by simp
qed

lemma strtoull_length: "strtoull s = Converted v n \<Longrightarrow> n \<le> length s \<and> v < 2 ^ 64"
  by (auto simp: strtoull_def dest: subject_sequence_length split: prod.splits if_splits)

lemma strtoll_length: "strtoll s = Converted v n \<Longrightarrow> n \<le> length s \<and> int64_ok v"
  by (auto simp: strtoll_def Let_def dest: subject_sequence_length split: prod.splits if_splits)

end
