(* ===== verification/Extractable.thy ===== *)
theory Extractable
  imports Operations Decimal Database_Types
begin

text \<open>
  \<^verbatim>\<open>vanity/request/extractable.{h,cpp}\<close> and \<^verbatim>\<open>object_t.h\<close>: the parser for requests and peer messages. An
  \<^verbatim>\<open>Extractable\<close> is a string and a position in it; its methods read one object at the position and
  advance it, or throw. A throw leaves the position where the parser stopped, and the server goes on
  from there with the next request of a pipe, so a failed extraction has a position too.

  Positions and lengths are of type \<^verbatim>\<open>size_t\<close>: their sum is taken modulo \<open>2 ^ 64\<close>. The C library's
  \<^verbatim>\<open>strtod\<close> and whether the memory for an array can be reserved are parameters.
\<close>

section \<open>Extraction\<close>

record extractable =
  m_msg :: string
  m_pos :: nat

type_synonym 'a extraction = "extractable \<Rightarrow> 'a result \<times> extractable"

definition return_e :: "'a \<Rightarrow> 'a extraction" where
  "return_e a x = (Inr a, x)"

definition throw_e :: "error \<Rightarrow> 'a extraction" where
  "throw_e e x = (Inl e, x)"

definition bind_e :: "'a extraction \<Rightarrow> ('a \<Rightarrow> 'b extraction) \<Rightarrow> 'b extraction" where
  "bind_e m f x = (case m x of (Inl e, x) \<Rightarrow> (Inl e, x) | (Inr a, x) \<Rightarrow> f a x)"

lemma bind_e_run:
  "m x = (Inr a, y) \<Longrightarrow> bind_e m f x = f a y"
  "m x = (Inl e, y) \<Longrightarrow> bind_e m f x = (Inl e, y)"
  by (simp_all add: bind_e_def)

definition map_e :: "('a \<Rightarrow> 'b) \<Rightarrow> 'a extraction \<Rightarrow> 'b extraction" where
  "map_e f m = bind_e m (\<lambda>a. return_e (f a))"

definition pair_e :: "'a extraction \<Rightarrow> 'b extraction \<Rightarrow> ('a \<times> 'b) extraction" where
  "pair_e m n = bind_e m (\<lambda>a. bind_e n (\<lambda>b. return_e (a, b)))"

text \<open>What the parser takes from its surroundings: the conversion of the C library for doubles, with
  the number of bytes it consumes, and whether \<^verbatim>\<open>reserve\<close> finds the memory for that many strings.\<close>

record platform =
  strtod :: "string \<Rightarrow> float_t conversion"
  can_reserve :: "nat \<Rightarrow> bool"

section \<open>Steps of the parser\<close>

definition SIZE_MAX_1 :: nat where
  "SIZE_MAX_1 = 2 ^ 64"

text \<open>\<^verbatim>\<open>m_msg[m_pos]\<close>: the terminating zero at the end, undefined behind it.\<close>

definition current :: "char extraction" where
  "current x =
     (if m_pos x < length (m_msg x) then Inr (m_msg x ! m_pos x)
      else if m_pos x = length (m_msg x) then Inr (CHR 0x00)
      else undefined_behaviour, x)"

definition at_end :: "extractable \<Rightarrow> bool" where
  "at_end x \<longleftrightarrow> m_pos x \<ge> length (m_msg x)"

definition advance :: "nat \<Rightarrow> unit extraction" where
  "advance n x = (Inr (), x\<lparr>m_pos := (m_pos x + n) mod SIZE_MAX_1\<rparr>)"

text \<open>\<^verbatim>\<open>std::string::compare(pos, n, str) == 0\<close> throws for a position behind the end.\<close>

definition compare_str :: "string \<Rightarrow> bool extraction" where
  "compare_str str x =
     (if m_pos x > length (m_msg x) then Inl (OutOfRange ''basic_string::compare'')
      else Inr (take (length str) (drop (m_pos x) (m_msg x)) = str), x)"

definition has_up_to :: "nat \<Rightarrow> extractable \<Rightarrow> bool" where
  "has_up_to n x \<longleftrightarrow> (m_pos x + n) mod SIZE_MAX_1 \<le> length (m_msg x)"

definition expect :: "char \<Rightarrow> string \<Rightarrow> unit extraction" where
  "expect c err = bind_e current (\<lambda>d. if d \<noteq> c then throw_e (InvalidRequest err) else advance 1)"

definition skip_whitespace :: "unit extraction" where
  "skip_whitespace x =
     (Inr (), x\<lparr>m_pos := m_pos x + length (takeWhile is_space (drop (m_pos x) (m_msg x)))\<rparr>)"

definition ensure_end :: "unit extraction" where
  "ensure_end = bind_e skip_whitespace (\<lambda>_ x.
     if \<not> at_end x then (Inl (InvalidRequest ''unexpected character at end of message''), x) else (Inr (), x))"

definition ensure_end_if :: "bool \<Rightarrow> unit extraction" where
  "ensure_end_if condition = (if condition then ensure_end else return_e ())"

definition ensure_not_end :: "unit extraction" where
  "ensure_not_end = bind_e skip_whitespace (\<lambda>_ x.
     if at_end x then (Inl (InvalidRequest ''unexpected end of message''), x) else (Inr (), x))"

text \<open>The C string at the current position ends with the first zero byte, at the latest with the
  terminating zero of the string; its address may be taken up to there.\<close>

definition c_string :: "extractable \<Rightarrow> string" where
  "c_string x = takeWhile (\<lambda>c. c \<noteq> CHR 0x00) (drop (m_pos x) (m_msg x))"

text \<open>The numeric readers: convert at the current position and advance by what was consumed.\<close>

definition convert_here :: "(string \<Rightarrow> ('a \<times> nat) result) \<Rightarrow> string \<Rightarrow> string \<Rightarrow> 'a extraction" where
  "convert_here convert out_of_range invalid x =
     (case convert (c_string x) of
        Inl (OutOfRange _) \<Rightarrow> (Inl (InvalidRequest out_of_range), x)
      | Inl (InvalidArgument _) \<Rightarrow> (Inl (InvalidRequest invalid), x)
      | Inl e \<Rightarrow> (Inl e, x)
      | Inr (a, count) \<Rightarrow> (Inr a, snd (advance count x)))"

definition get_number :: "(string \<Rightarrow> ('a \<times> nat) result) \<Rightarrow> string \<Rightarrow> string \<Rightarrow> 'a extraction" where
  "get_number convert out_of_range invalid = bind_e current (\<lambda>_. convert_here convert out_of_range invalid)"

section \<open>Objects\<close>

definition get_len :: "nat extraction" where
  "get_len =
     bind_e ensure_not_end (\<lambda>_.
     bind_e (expect CHR ''('' ''expected length specifier'') (\<lambda>_.
     bind_e (get_number stoull ''length out of range'' ''invalid length'') (\<lambda>len.
     bind_e (expect CHR '')'' ''expected length specifier'') (\<lambda>_.
     return_e len))))"

definition get_int :: "int extraction" where
  "get_int = bind_e ensure_not_end (\<lambda>_.
     get_number stoll ''integer out of range'' ''invalid integer'')"

definition stod :: "platform \<Rightarrow> string \<Rightarrow> (float_t \<times> nat) result" where
  "stod pf = stoa (strtod pf) ''stod''"

definition get_float :: "platform \<Rightarrow> float_t extraction" where
  "get_float pf = bind_e ensure_not_end (\<lambda>_.
     get_number (stod pf) ''float out of range'' ''invalid float'')"

text \<open>\<^verbatim>\<open>substr(m_pos, len)\<close> stops at the end of the string.\<close>

definition get_str :: "string extraction" where
  "get_str = bind_e get_len (\<lambda>len x.
     if \<not> has_up_to len x then (Inl (InvalidRequest ''string too short''), x)
     else if m_pos x > length (m_msg x) then (Inl (OutOfRange ''basic_string::substr''), x)
     else bind_e (advance len) (\<lambda>_. return_e (take len (drop (m_pos x) (m_msg x)))) x)"

text \<open>The loops that read a given number of strings.\<close>

primrec get_strs :: "nat \<Rightarrow> string list extraction" where
  "get_strs 0 = return_e []"
| "get_strs (Suc n) = bind_e get_str (\<lambda>s. bind_e (get_strs n) (\<lambda>ss. return_e (s # ss)))"

primrec get_str_pairs :: "nat \<Rightarrow> (string \<times> string) list extraction" where
  "get_str_pairs 0 = return_e []"
| "get_str_pairs (Suc n) =
     bind_e get_str (\<lambda>key. bind_e get_str (\<lambda>val.
     bind_e (get_str_pairs n) (\<lambda>kvs. return_e ((key, val) # kvs))))"

definition get_arr :: "platform \<Rightarrow> string list extraction" where
  "get_arr pf =
     bind_e get_len (\<lambda>len.
     bind_e (expect CHR ''['' ''array not opened with bracket'') (\<lambda>_.
     bind_e (if can_reserve pf len then return_e () else throw_e (LengthError ''vector::reserve'')) (\<lambda>_.
     bind_e (get_strs len) (\<lambda>arr.
     bind_e (expect CHR '']'' ''array not closed with bracket'') (\<lambda>_.
     return_e arr)))))"

definition get_list :: "list_t extraction" where
  "get_list =
     bind_e get_len (\<lambda>len.
     bind_e (expect CHR ''['' ''list not opened with bracket'') (\<lambda>_.
     bind_e (get_strs len) (\<lambda>l.
     bind_e (expect CHR '']'' ''list not closed with bracket'') (\<lambda>_.
     return_e l))))"

text \<open>\<^verbatim>\<open>emplace\<close> keeps the element that is present.\<close>

definition get_set :: "set_t extraction" where
  "get_set =
     bind_e get_len (\<lambda>len.
     bind_e (expect (CHR 0x7B) ''set not opened with '{' bracket'') (\<lambda>_.
     bind_e (get_strs len) (\<lambda>ss.
     bind_e (expect (CHR 0x7D) ''set not closed with '}' bracket'') (\<lambda>_.
     return_e (fold uset_insert ss [])))))"

definition emplace_pair :: "string \<times> string \<Rightarrow> hash_t \<Rightarrow> hash_t" where
  "emplace_pair p m = (if contains m (fst p) then m else m @ [p])"

definition get_hash :: "hash_t extraction" where
  "get_hash =
     bind_e get_len (\<lambda>len.
     bind_e (expect (CHR 0x7B) ''hash not opened with '{' bracket'') (\<lambda>_.
     bind_e (get_str_pairs len) (\<lambda>kvs.
     bind_e (expect (CHR 0x7D) ''hash not closed with '}' bracket'') (\<lambda>_.
     return_e (fold emplace_pair kvs [])))))"

definition get_bool :: "bool extraction" where
  "get_bool =
     bind_e ensure_not_end (\<lambda>_.
     bind_e (compare_str ''true'') (\<lambda>t.
     if t then bind_e (advance 4) (\<lambda>_. return_e True)
     else bind_e (compare_str ''false'') (\<lambda>f.
       if f then bind_e (advance 5) (\<lambda>_. return_e False)
       else throw_e (InvalidRequest ''invalid boolean''))))"

text \<open>\<^verbatim>\<open>peek_from_list\<close> and \<^verbatim>\<open>get_from_list\<close>: the first word of the list that the message has at its
  position.\<close>

primrec find_word :: "('a \<times> string) list \<Rightarrow> string \<Rightarrow> ('a \<times> string) extraction" where
  "find_word [] err = throw_e (InvalidRequest err)"
| "find_word (p # ps) err = bind_e (compare_str (snd p)) (\<lambda>b. if b then return_e p else find_word ps err)"

definition peek_from_list :: "('a \<times> string) list \<Rightarrow> string \<Rightarrow> 'a extraction" where
  "peek_from_list words err = bind_e skip_whitespace (\<lambda>_. map_e fst (find_word words err))"

definition get_from_list :: "('a \<times> string) list \<Rightarrow> string \<Rightarrow> 'a extraction" where
  "get_from_list words err = bind_e skip_whitespace (\<lambda>_.
     bind_e (find_word words err) (\<lambda>(v, str). bind_e (advance (length str)) (\<lambda>_. return_e v)))"

definition get_client_auth :: "client_auth extraction" where
  "get_client_auth = get_from_list CLIENT_AUTH_STRINGS ''invalid auth level''"

text \<open>\<^verbatim>\<open>get_exact<Args...>(end)\<close>: the objects, and the end of the message if it has to be there.\<close>

definition get_exact :: "'a extraction \<Rightarrow> bool \<Rightarrow> 'a extraction" where
  "get_exact m end_here = bind_e m (\<lambda>a. bind_e (ensure_end_if end_here) (\<lambda>_. return_e a))"

section \<open>The parser stays inside the message\<close>

definition in_bounds :: "extractable \<Rightarrow> bool" where
  "in_bounds x \<longleftrightarrow> m_pos x \<le> length (m_msg x) \<and> length (m_msg x) < SIZE_MAX_1"

text \<open>The exceptions a parser may throw. All others, and undefined behaviour, would need a position
  behind the end of the message.\<close>

fun parse_error :: "error \<Rightarrow> bool" where
  "parse_error (InvalidRequest _) = True"
| "parse_error (LengthError _) = True"
| "parse_error _ = False"

definition safe :: "'a extraction \<Rightarrow> bool" where
  "safe m \<longleftrightarrow> (\<forall>x. in_bounds x \<longrightarrow>
     in_bounds (snd (m x)) \<and> m_msg (snd (m x)) = m_msg x \<and> (\<forall>e. fst (m x) = Inl e \<longrightarrow> parse_error e))"

named_theorems safe_intros \<open>extractions that stay inside the message\<close>

lemma safeI:
  assumes "\<And>x. in_bounds x \<Longrightarrow>
    in_bounds (snd (m x)) \<and> m_msg (snd (m x)) = m_msg x \<and> (\<forall>e. fst (m x) = Inl e \<longrightarrow> parse_error e)"
  shows "safe m"
  using assms by (simp add: safe_def)

lemma safe_return [safe_intros]: "safe (return_e a)"
  by (simp add: safe_def return_e_def)

lemma safe_throw [safe_intros]: "parse_error e \<Longrightarrow> safe (throw_e e)"
  by (simp add: safe_def throw_e_def)

lemma safe_bind [safe_intros]:
  assumes "safe m" and "\<And>a. safe (f a)"
  shows "safe (bind_e m f)"
proof (rule safeI)
  fix x
  assume x: "in_bounds x"
  obtain r y where m: "m x = (r, y)" by fastforce
  with x assms(1) have y: "in_bounds y" "m_msg y = m_msg x" "\<forall>e. r = Inl e \<longrightarrow> parse_error e"
    by (auto simp: safe_def)
  show "in_bounds (snd (bind_e m f x)) \<and> m_msg (snd (bind_e m f x)) = m_msg x \<and>
      (\<forall>e. fst (bind_e m f x) = Inl e \<longrightarrow> parse_error e)"
    using y assms(2) m by (cases r) (auto simp: bind_e_def safe_def)
qed

lemma safe_map [safe_intros]: "safe m \<Longrightarrow> safe (map_e f m)"
  by (simp add: map_e_def safe_intros)

lemma safe_pair [safe_intros]: "safe m \<Longrightarrow> safe n \<Longrightarrow> safe (pair_e m n)"
  by (simp add: pair_e_def safe_intros)

lemma safe_if [safe_intros]: "safe m \<Longrightarrow> safe n \<Longrightarrow> safe (if b then m else n)"
  by simp

lemma safe_current [safe_intros]: "safe current"
  by (auto simp: safe_def current_def in_bounds_def)

lemma safe_skip_whitespace [safe_intros]: "safe skip_whitespace"
proof (rule safeI)
  fix x :: extractable
  have "length (takeWhile is_space (drop (m_pos x) (m_msg x))) \<le> length (m_msg x) - m_pos x"
    using length_takeWhile_le [of is_space "drop (m_pos x) (m_msg x)"] by simp
  then show "in_bounds x \<Longrightarrow> in_bounds (snd (skip_whitespace x)) \<and> m_msg (snd (skip_whitespace x)) = m_msg x \<and>
      (\<forall>e. fst (skip_whitespace x) = Inl e \<longrightarrow> parse_error e)"
    by (auto simp: skip_whitespace_def in_bounds_def)
qed

lemma safe_expect [safe_intros]: "c \<noteq> CHR 0x00 \<Longrightarrow> safe (expect c err)"
  by (auto simp: safe_def expect_def bind_e_def current_def throw_e_def advance_def in_bounds_def)

lemma safe_ensure [safe_intros]: "safe ensure_end" "safe ensure_not_end" "safe (ensure_end_if b)"
proof -
  show "safe ensure_end" "safe ensure_not_end"
    unfolding ensure_end_def ensure_not_end_def
    by (rule safe_bind [OF safe_skip_whitespace], simp add: safe_def)+
  then show "safe (ensure_end_if b)" by (simp add: ensure_end_if_def safe_return)
qed

text \<open>A conversion is sound when it consumes no more than there is.\<close>

definition sound_conversion :: "(string \<Rightarrow> ('a \<times> nat) result) \<Rightarrow> bool" where
  "sound_conversion convert \<longleftrightarrow>
     (\<forall>s. case convert s of
            Inl (OutOfRange _) \<Rightarrow> True | Inl (InvalidArgument _) \<Rightarrow> True | Inl _ \<Rightarrow> False
          | Inr (a, n) \<Rightarrow> n \<le> length s)"

definition sound_platform :: "platform \<Rightarrow> bool" where
  "sound_platform pf \<longleftrightarrow> (\<forall>s v n. strtod pf s = Converted v n \<longrightarrow> n \<le> length s)"

lemma sound_conversions:
  "sound_conversion stoull" "sound_conversion stoll" "sound_platform pf \<Longrightarrow> sound_conversion (stod pf)"
  by (auto simp: sound_conversion_def sound_platform_def stoull_def stoll_def stod_def stoa_def
      dest: strtoull_length strtoll_length split: conversion.splits)

lemma length_c_string: "length (c_string x) \<le> length (m_msg x) - m_pos x"
  using length_takeWhile_le [of "\<lambda>c. c \<noteq> CHR 0x00" "drop (m_pos x) (m_msg x)"] by (simp add: c_string_def)

lemma safe_get_number [safe_intros]:
  assumes "sound_conversion convert"
  shows "safe (get_number convert out_of_range invalid)"
  unfolding get_number_def
proof (rule safe_bind [OF safe_current], rule safeI)
  fix x
  assume x: "in_bounds x"
  have "case convert (c_string x) of
      Inl (OutOfRange _) \<Rightarrow> True | Inl (InvalidArgument _) \<Rightarrow> True | Inl _ \<Rightarrow> False
    | Inr (a, n) \<Rightarrow> n \<le> length (c_string x)"
    using assms by (simp add: sound_conversion_def)
  then show "in_bounds (snd (convert_here convert out_of_range invalid x)) \<and>
      m_msg (snd (convert_here convert out_of_range invalid x)) = m_msg x \<and>
      (\<forall>e. fst (convert_here convert out_of_range invalid x) = Inl e \<longrightarrow> parse_error e)"
    using x length_c_string [of x]
    by (auto simp: convert_here_def advance_def in_bounds_def split: sum.splits error.splits)
qed

text \<open>Every object.\<close>

lemma safe_get_len [safe_intros]: "safe get_len"
  unfolding get_len_def by (intro safe_intros sound_conversions) simp_all

lemma safe_get_int [safe_intros]: "safe get_int"
  unfolding get_int_def by (intro safe_intros sound_conversions)

lemma safe_get_float [safe_intros]: "sound_platform pf \<Longrightarrow> safe (get_float pf)"
  unfolding get_float_def by (intro safe_intros sound_conversions)

lemma safe_get_str [safe_intros]: "safe get_str"
  unfolding get_str_def
  by (rule safe_bind [OF safe_get_len])
     (auto simp: safe_def in_bounds_def has_up_to_def bind_e_def advance_def return_e_def)

lemma safe_get_strs [safe_intros]: "safe (get_strs n)"
  by (induction n) (simp_all add: safe_intros)

lemma safe_get_str_pairs [safe_intros]: "safe (get_str_pairs n)"
  by (induction n) (simp_all add: safe_intros)

lemma safe_get_containers [safe_intros]: "safe (get_arr pf)" "safe get_list" "safe get_set" "safe get_hash"
  unfolding get_arr_def get_list_def get_set_def get_hash_def
  by (intro safe_intros parse_error.simps [THEN iffD2] TrueI; simp)+

lemma find_word_result:
  "m_pos x \<le> length (m_msg x) \<Longrightarrow>
   case find_word words err x of
     (Inl e, y) \<Rightarrow> y = x \<and> e = InvalidRequest err \<and>
       (\<forall>p \<in> set words. take (length (snd p)) (drop (m_pos x) (m_msg x)) \<noteq> snd p)
   | (Inr p, y) \<Rightarrow> y = x \<and> p \<in> set words \<and> take (length (snd p)) (drop (m_pos x) (m_msg x)) = snd p"
  by (induction words) (auto simp: throw_e_def bind_e_def compare_str_def return_e_def split: prod.splits sum.splits)

lemma safe_find_word [safe_intros]: "safe (find_word words err)"
proof (rule safeI)
  fix x
  assume "in_bounds x"
  with find_word_result [where x = x and words = words and err = err]
  show "in_bounds (snd (find_word words err x)) \<and> m_msg (snd (find_word words err x)) = m_msg x \<and>
      (\<forall>e. fst (find_word words err x) = Inl e \<longrightarrow> parse_error e)"
    by (auto simp: in_bounds_def split: prod.splits sum.splits)
qed

text \<open>Advancing over a word that the message has at its position.\<close>

lemma in_bounds_advance:
  assumes "in_bounds x" and "take (length w) (drop (m_pos x) (m_msg x)) = w"
  shows "in_bounds (snd (advance (length w) x))"
proof -
  have "length w \<le> length (m_msg x) - m_pos x"
    using arg_cong [OF assms(2), of length] by (simp add: min_def split: if_splits)
  moreover have "(m_pos x + length w) mod SIZE_MAX_1 \<le> m_pos x + length w" by simp
  ultimately have "(m_pos x + length w) mod SIZE_MAX_1 \<le> length (m_msg x)"
    using assms(1) unfolding in_bounds_def by linarith
  then show ?thesis using assms(1) by (simp add: in_bounds_def advance_def)
qed

lemma safe_get_from_list [safe_intros]: "safe (get_from_list words err)"
  unfolding get_from_list_def
proof (rule safe_bind [OF safe_skip_whitespace], rule safeI)
  fix x :: extractable and err
  let ?m = "bind_e (find_word words err) (\<lambda>(v, str). bind_e (advance (length str)) (\<lambda>_. return_e v))"
  assume x: "in_bounds x"
  then show "in_bounds (snd (?m x)) \<and> m_msg (snd (?m x)) = m_msg x \<and> (\<forall>e. fst (?m x) = Inl e \<longrightarrow> parse_error e)"
    using find_word_result [where x = x and words = words and err = err] in_bounds_advance [OF x]
    by (auto simp: in_bounds_def bind_e_def advance_def return_e_def split: prod.splits sum.splits)
qed

lemma safe_peek_from_list [safe_intros]: "safe (peek_from_list words err)"
  unfolding peek_from_list_def by (intro safe_intros)

lemma safe_get_client_auth [safe_intros]: "safe get_client_auth"
  unfolding get_client_auth_def by (intro safe_intros)

lemma safe_word:
  assumes "\<And>x. in_bounds x \<Longrightarrow> take (length w) (drop (m_pos x) (m_msg x)) \<noteq> w \<Longrightarrow>
      in_bounds (snd (n x)) \<and> m_msg (snd (n x)) = m_msg x \<and> (\<forall>e. fst (n x) = Inl e \<longrightarrow> parse_error e)"
  shows "safe (bind_e (compare_str w) (\<lambda>b. if b then bind_e (advance (length w)) (\<lambda>_. return_e a) else n))"
proof (rule safeI)
  fix x :: extractable
  assume x: "in_bounds x"
  let ?m = "bind_e (compare_str w) (\<lambda>b. if b then bind_e (advance (length w)) (\<lambda>_. return_e a) else n)"
  show "in_bounds (snd (?m x)) \<and> m_msg (snd (?m x)) = m_msg x \<and> (\<forall>e. fst (?m x) = Inl e \<longrightarrow> parse_error e)"
    using x assms [OF x] in_bounds_advance [OF x, of w]
    by (auto simp: bind_e_def compare_str_def in_bounds_def return_e_def advance_def)
qed

lemma safe_get_bool [safe_intros]: "safe get_bool"
proof -
  have "safe (bind_e (compare_str ''false'') (\<lambda>b. if b then bind_e (advance (length ''false'')) (\<lambda>_. return_e False)
      else throw_e (InvalidRequest ''invalid boolean'')))"
    by (rule safe_word) (simp add: throw_e_def)
  then have t: "safe (bind_e (compare_str ''true'') (\<lambda>b. if b then bind_e (advance (length ''true'')) (\<lambda>_. return_e True)
      else bind_e (compare_str ''false'') (\<lambda>b. if b then bind_e (advance (length ''false'')) (\<lambda>_. return_e False)
        else throw_e (InvalidRequest ''invalid boolean''))))"
    by (intro safe_word) (simp add: safe_def)
  have eq: "length ''true'' = 4" "length ''false'' = 5" by simp_all
  show ?thesis
    unfolding get_bool_def by (rule safe_bind [OF safe_ensure(2) t [unfolded eq]])
qed

lemma safe_get_exact [safe_intros]: "safe m \<Longrightarrow> safe (get_exact m b)"
  unfolding get_exact_def by (intro safe_intros)

section \<open>What is written is read back\<close>

text \<open>A message read up to \<open>pre\<close>, with \<open>rest\<close> still to be read.\<close>

definition at :: "string \<Rightarrow> string \<Rightarrow> extractable" where
  "at pre rest = \<lparr>m_msg = pre @ rest, m_pos = length pre\<rparr>"

definition spaces :: "string \<Rightarrow> bool" where
  "spaces ws \<longleftrightarrow> (\<forall>c \<in> set ws. is_space c)"

definition fits_size :: "string \<Rightarrow> bool" where
  "fits_size s \<longleftrightarrow> length s < SIZE_MAX_1"

lemma spaces_simps [simp]: "spaces []" "spaces (c # ws) \<longleftrightarrow> is_space c \<and> spaces ws"
  by (simp_all add: spaces_def)

lemma space_is_space [simp]: "is_space CHR '' ''"
  by (simp add: is_space_def)

text \<open>
  The contract between a reader and a writer: what the writer writes is read as the value that was
  written, whatever stands before it, after white space, and whatever admissible text comes after it.
  A reader that does not see where its text ends (a decimal number) restricts what may follow.
\<close>

locale wire_format =
  fixes read :: "'a extraction" and show_it :: "'a \<Rightarrow> string" and valid :: "'a \<Rightarrow> bool"
    and may_follow :: "string \<Rightarrow> bool"
  assumes reads: "valid a \<Longrightarrow> may_follow rest \<Longrightarrow> spaces ws \<Longrightarrow> fits_size (pre @ ws @ show_it a @ rest) \<Longrightarrow>
    read (at pre (ws @ show_it a @ rest)) = (Inr a, at (pre @ ws @ show_it a) rest)"
begin

lemma reads_bind:
  assumes "valid a" and "may_follow rest" and "spaces ws" and "fits_size (pre @ ws @ show_it a @ rest)"
  shows "bind_e read f (at pre (ws @ show_it a @ rest)) = f a (at (pre @ ws @ show_it a) rest)"
  using reads [OF assms] by (rule bind_e_run)

lemma reads_map:
  assumes "valid a" and "may_follow rest" and "spaces ws" and "fits_size (pre @ ws @ show_it a @ rest)"
  shows "map_e f read (at pre (ws @ show_it a @ rest)) = (Inr (f a), at (pre @ ws @ show_it a) rest)"
  by (simp add: map_e_def reads_bind [OF assms] return_e_def)

text \<open>The last object of a message, with white space behind it.\<close>

lemma reads_exact:
  assumes "valid a" and "may_follow ws'" and "spaces ws" and "fits_size (pre @ ws @ show_it a @ ws')"
    and "spaces ws'"
  shows "get_exact read True (at pre (ws @ show_it a @ ws')) = (Inr a, at (pre @ ws @ show_it a @ ws') [])"
proof -
  have "takeWhile is_space ws' = ws'" using assms(5) takeWhile_eq_all_conv spaces_def by blast
  then have "ensure_end_if True (at (pre @ ws @ show_it a) ws') = (Inr (), at (pre @ ws @ show_it a @ ws') [])"
    by (simp add: ensure_end_if_def ensure_end_def bind_e_def skip_whitespace_def at_def at_end_def
        del: takeWhile_eq_all_conv)
  then show ?thesis
    by (simp add: get_exact_def reads_bind [OF assms(1-4)] bind_e_run return_e_def)
qed

lemma reads_not_exact:
  assumes "valid a" and "may_follow rest" and "spaces ws" and "fits_size (pre @ ws @ show_it a @ rest)"
  shows "get_exact read False (at pre (ws @ show_it a @ rest)) = (Inr a, at (pre @ ws @ show_it a) rest)"
  by (simp add: get_exact_def reads_bind [OF assms] ensure_end_if_def bind_e_run return_e_def)

text \<open>Two readings of the same text agree, so the text determines the value.\<close>

lemma show_injective:
  assumes "valid a" and "valid b" and "may_follow []" and "fits_size (show_it a)" and "show_it a = show_it b"
  shows "a = b"
proof -
  have "read (at [] ([] @ show_it a @ [])) = (Inr a, at ([] @ [] @ show_it a) [])"
    by (rule reads) (use assms in simp_all)
  moreover have "read (at [] ([] @ show_it b @ [])) = (Inr b, at ([] @ [] @ show_it b) [])"
    by (rule reads) (use assms in simp_all)
  ultimately show ?thesis using assms(5) by simp
qed

end

text \<open>One object after the other, with a space between them.\<close>

definition show_pair :: "('a \<Rightarrow> string) \<Rightarrow> ('b \<Rightarrow> string) \<Rightarrow> 'a \<times> 'b \<Rightarrow> string" where
  "show_pair show1 show2 p = show1 (fst p) @ '' '' @ show2 (snd p)"

lemma wire_pair:
  assumes "wire_format read1 show1 valid1 follow1" and "wire_format read2 show2 valid2 follow2"
    and "\<And>s. follow1 (CHR '' '' # s)"
  shows "wire_format (pair_e read1 read2) (show_pair show1 show2) (\<lambda>p. valid1 (fst p) \<and> valid2 (snd p)) follow2"
proof
  fix p and rest ws pre
  assume v: "valid1 (fst p) \<and> valid2 (snd p)" and rest: "follow2 rest" and ws: "spaces ws"
    and fits: "fits_size (pre @ ws @ show_pair show1 show2 p @ rest)"
  let ?rest = "'' '' @ show2 (snd p) @ rest"
  have "read1 (at pre (ws @ show1 (fst p) @ ?rest)) = (Inr (fst p), at (pre @ ws @ show1 (fst p)) ?rest)"
    by (rule wire_format.reads [OF assms(1)]) (use v ws fits assms(3) in \<open>simp_all add: show_pair_def\<close>)
  moreover have "read2 (at (pre @ ws @ show1 (fst p)) ('' '' @ show2 (snd p) @ rest)) =
      (Inr (snd p), at ((pre @ ws @ show1 (fst p)) @ '' '' @ show2 (snd p)) rest)"
    by (rule wire_format.reads [OF assms(2)]) (use v rest fits in \<open>simp_all add: show_pair_def\<close>)
  ultimately show "pair_e read1 read2 (at pre (ws @ show_pair show1 show2 p @ rest)) =
      (Inr p, at (pre @ ws @ show_pair show1 show2 p) rest)"
    by (simp add: pair_e_def bind_e_run return_e_def show_pair_def)
qed

section \<open>The formats of the objects\<close>

text \<open>Steps of the parser on a message that is at a known text.\<close>

lemma takeWhile_spaces: "spaces ws \<Longrightarrow> \<not> is_space c \<Longrightarrow> takeWhile is_space (ws @ c # r) = ws"
  by (induction ws) auto

lemma skip_spaces: "spaces ws \<Longrightarrow> \<not> is_space c \<Longrightarrow> skip_whitespace (at pre (ws @ c # r)) = (Inr (), at (pre @ ws) (c # r))"
  by (simp add: skip_whitespace_def at_def takeWhile_spaces)

lemma ensure_not_end_at:
  "spaces ws \<Longrightarrow> \<not> is_space c \<Longrightarrow> ensure_not_end (at pre (ws @ c # r)) = (Inr (), at (pre @ ws) (c # r))"
  by (simp add: ensure_not_end_def bind_e_run skip_spaces) (simp add: at_def at_end_def)

lemma expect_at: "fits_size (pre @ c # r) \<Longrightarrow> expect c err (at pre (c # r)) = (Inr (), at (pre @ [c]) r)"
  by (simp add: expect_def bind_e_def current_def advance_def at_def fits_size_def)

lemma advance_at: "fits_size (pre @ s @ r) \<Longrightarrow> advance (length s) (at pre (s @ r)) = (Inr (), at (pre @ s) r)"
  by (simp add: advance_def at_def fits_size_def)

lemma c_string_at:
  "\<forall>c \<in> set s. c \<noteq> CHR 0x00 \<Longrightarrow> c_string (at pre (s @ r)) = s @ takeWhile (\<lambda>c. c \<noteq> CHR 0x00) r"
  by (simp add: c_string_def at_def takeWhile_append2)

lemma no_digit_takeWhile: "no_digit r \<Longrightarrow> no_digit (takeWhile P r)"
  by (cases r) (simp_all add: no_digit_def)

lemma current_at: "\<exists>a. current (at pre r) = (Inr a, at pre r)"
  by (cases r) (simp_all add: current_def at_def)

lemma get_number_at:
  assumes "\<forall>c \<in> set s. c \<noteq> CHR 0x00"
    and "convert (s @ takeWhile (\<lambda>c. c \<noteq> CHR 0x00) r) = Inr (a, length s)" and "fits_size (pre @ s @ r)"
  shows "get_number convert oor bad (at pre (s @ r)) = (Inr a, at (pre @ s) r)"
proof -
  obtain d where "current (at pre (s @ r)) = (Inr d, at pre (s @ r))" using current_at by blast
  then show ?thesis
    using assms(2) by (simp add: get_number_def bind_e_run convert_here_def c_string_at [OF assms(1)] advance_at [OF assms(3)])
qed

lemma to_string_no_zero: "\<forall>c \<in> set (to_string n). c \<noteq> CHR 0x00"
  using to_string_digits [of n] digit_no_space by blast

definition show_len :: "nat \<Rightarrow> string" where
  "show_len n = ''('' @ to_string n @ '')''"

interpretation len: wire_format get_len show_len "\<lambda>n. n < 2 ^ 64" "\<lambda>_. True"
proof
  fix n :: nat and rest ws pre
  assume n: "n < 2 ^ 64" and ws: "spaces ws" and fits: "fits_size (pre @ ws @ show_len n @ rest)"
  have nodigit: "no_digit (takeWhile (\<lambda>c. c \<noteq> CHR 0x00) ('')'' @ rest))"
    by (simp add: no_digit_def is_digit_def)
  have "get_number stoull oor bad (at (pre @ ws @ ''('') (to_string n @ '')'' @ rest)) =
      (Inr n, at ((pre @ ws @ ''('') @ to_string n) ('')'' @ rest))" for oor bad
    by (rule get_number_at [OF to_string_no_zero])
       (use strtoull_to_string [OF n nodigit] fits in \<open>simp_all add: stoull_def stoa_def show_len_def\<close>)
  moreover have "ensure_not_end (at pre (ws @ CHR ''('' # to_string n @ CHR '')'' # rest)) =
      (Inr (), at (pre @ ws) (CHR ''('' # to_string n @ CHR '')'' # rest))"
    by (rule ensure_not_end_at [OF ws]) (simp add: is_space_def)
  ultimately show "get_len (at pre (ws @ show_len n @ rest)) = (Inr n, at (pre @ ws @ show_len n) rest)"
    using fits by (simp add: get_len_def show_len_def bind_e_run expect_at return_e_def)
qed

definition show_str :: "string \<Rightarrow> string" where
  "show_str s = show_len (length s) @ s"

lemma fits_size_length: "fits_size (pre @ s @ r) \<Longrightarrow> length s < 2 ^ 64"
  by (simp add: fits_size_def SIZE_MAX_1_def)

interpretation str: wire_format get_str show_str "\<lambda>_. True" "\<lambda>_. True"
proof
  fix s rest ws pre :: string
  assume ws: "spaces ws" and fits: "fits_size (pre @ ws @ show_str s @ rest)"
  let ?pre = "pre @ ws @ show_len (length s)"
  have "fits_size (?pre @ s @ rest)" using fits by (simp add: show_str_def)
  then have "length s < 2 ^ 64" "has_up_to (length s) (at ?pre (s @ rest))"
    "advance (length s) (at ?pre (s @ rest)) = (Inr (), at (?pre @ s) rest)"
    by (rule fits_size_length, simp add: fits_size_def has_up_to_def at_def, rule advance_at)
  moreover have "get_len (at pre (ws @ show_len (length s) @ s @ rest)) = (Inr (length s), at ?pre (s @ rest))"
    by (rule len.reads) (use calculation(1) ws fits in \<open>simp_all add: show_str_def\<close>)
  ultimately show "get_str (at pre (ws @ show_str s @ rest)) = (Inr s, at (pre @ ws @ show_str s) rest)"
    by (simp add: get_str_def bind_e_run return_e_def show_str_def) (simp add: at_def)
qed

interpretation int: wire_format get_int int_to_string int64_ok no_digit
proof
  fix i :: int and rest ws pre
  assume i: "int64_ok i" and rest: "no_digit rest" and ws: "spaces ws"
    and fits: "fits_size (pre @ ws @ int_to_string i @ rest)"
  obtain c r where cr: "int_to_string i = c # r" "\<not> is_space c"
    using to_string_Cons digit_no_space
    by (cases "i < 0") (auto simp: int_to_string_def is_space_def, metis)
  have "\<forall>c \<in> set (int_to_string i). c \<noteq> CHR 0x00"
    using to_string_no_zero by (auto simp: int_to_string_def)
  then have "get_number stoll oor bad (at (pre @ ws) (int_to_string i @ rest)) =
      (Inr i, at ((pre @ ws) @ int_to_string i) rest)" for oor bad
    by (rule get_number_at)
       (use strtoll_to_string [OF i no_digit_takeWhile [OF rest]] fits in \<open>simp_all add: stoll_def stoa_def\<close>)
  moreover have "ensure_not_end (at pre (ws @ int_to_string i @ rest)) =
      (Inr (), at (pre @ ws) (int_to_string i @ rest))"
    using ensure_not_end_at [OF ws cr(2), of pre "r @ rest"] by (simp add: cr(1))
  ultimately show "get_int (at pre (ws @ int_to_string i @ rest)) = (Inr i, at (pre @ ws @ int_to_string i) rest)"
    by (simp add: get_int_def bind_e_run)
qed

text \<open>Strings one after the other, in the containers.\<close>

lemma get_strs_at:
  "fits_size (pre @ concat (map show_str ss) @ rest) \<Longrightarrow>
   get_strs (length ss) (at pre (concat (map show_str ss) @ rest)) = (Inr ss, at (pre @ concat (map show_str ss)) rest)"
proof (induction ss arbitrary: pre)
  case Nil
  then show ?case by (simp add: return_e_def)
next
  case (Cons s ss)
  have "get_str (at pre ([] @ show_str s @ concat (map show_str ss) @ rest)) =
      (Inr s, at (pre @ [] @ show_str s) (concat (map show_str ss) @ rest))"
    by (rule str.reads) (use Cons.prems in simp_all)
  moreover have "get_strs (length ss) (at (pre @ show_str s) (concat (map show_str ss) @ rest)) =
      (Inr ss, at ((pre @ show_str s) @ concat (map show_str ss)) rest)"
    by (rule Cons.IH) (use Cons.prems in simp)
  ultimately show ?case by (simp add: bind_e_run return_e_def)
qed

abbreviation show_str_pair :: "string \<times> string \<Rightarrow> string" where
  "show_str_pair p \<equiv> show_str (fst p) @ show_str (snd p)"

lemma get_str_pairs_at:
  "fits_size (pre @ concat (map show_str_pair ps) @ rest) \<Longrightarrow>
   get_str_pairs (length ps) (at pre (concat (map show_str_pair ps) @ rest)) =
     (Inr ps, at (pre @ concat (map show_str_pair ps)) rest)"
proof (induction ps arbitrary: pre)
  case Nil
  then show ?case by (simp add: return_e_def)
next
  case (Cons p ps)
  have "get_str (at pre ([] @ show_str (fst p) @ show_str (snd p) @ concat (map show_str_pair ps) @ rest)) =
      (Inr (fst p), at (pre @ [] @ show_str (fst p)) (show_str (snd p) @ concat (map show_str_pair ps) @ rest))"
    by (rule str.reads) (use Cons.prems in simp_all)
  moreover have "get_str (at (pre @ show_str (fst p)) ([] @ show_str (snd p) @ concat (map show_str_pair ps) @ rest)) =
      (Inr (snd p), at ((pre @ show_str (fst p)) @ [] @ show_str (snd p)) (concat (map show_str_pair ps) @ rest))"
    by (rule str.reads) (use Cons.prems in simp_all)
  moreover have "get_str_pairs (length ps) (at (pre @ show_str_pair p) (concat (map show_str_pair ps) @ rest)) =
      (Inr ps, at ((pre @ show_str_pair p) @ concat (map show_str_pair ps)) rest)"
    by (rule Cons.IH) (use Cons.prems in simp)
  ultimately show ?case by (simp add: bind_e_run return_e_def)
qed

text \<open>A container: its length, a bracket, its elements, a bracket.\<close>

definition show_seq :: "char \<Rightarrow> char \<Rightarrow> ('a \<Rightarrow> string) \<Rightarrow> 'a list \<Rightarrow> string" where
  "show_seq opening closing show_elem l = show_len (length l) @ [opening] @ concat (map show_elem l) @ [closing]"

definition show_list :: "list_t \<Rightarrow> string" where
  "show_list = show_seq CHR ''['' CHR '']'' show_str"

definition show_set :: "set_t \<Rightarrow> string" where
  "show_set = show_seq (CHR 0x7B) (CHR 0x7D) show_str"

definition show_hash :: "hash_t \<Rightarrow> string" where
  "show_hash = show_seq (CHR 0x7B) (CHR 0x7D) show_str_pair"

lemma show_str_nonempty: "0 < length (show_str s)"
  by (simp add: show_str_def show_len_def)

lemma length_concat_show: "length l \<le> length (concat (map show_str l))" "length ps \<le> length (concat (map show_str_pair ps))"
proof -
  show "length l \<le> length (concat (map show_str l))"
  proof (induction l)
    case (Cons s l)
    then show ?case using show_str_nonempty [of s] by (simp only: list.map concat.simps length_append list.size)
  qed simp
  show "length ps \<le> length (concat (map show_str_pair ps))"
  proof (induction ps)
    case (Cons p ps)
    then show ?case using show_str_nonempty [of "fst p"] by (simp only: list.map concat.simps length_append list.size)
  qed simp
qed

text \<open>The head of a container, up to its first element.\<close>

lemma seq_head:
  assumes "spaces ws" and "fits_size (pre @ ws @ show_seq op cl show_elem l @ rest)"
    and "length l \<le> length (concat (map show_elem l))"
  shows "get_len (at pre (ws @ show_seq op cl show_elem l @ rest)) =
           (Inr (length l), at (pre @ ws @ show_len (length l)) (op # concat (map show_elem l) @ [cl] @ rest))"
    and "expect op err (at (pre @ ws @ show_len (length l)) (op # concat (map show_elem l) @ [cl] @ rest)) =
           (Inr (), at (pre @ ws @ show_len (length l) @ [op]) (concat (map show_elem l) @ [cl] @ rest))"
    and "expect cl err (at (pre @ ws @ show_len (length l) @ [op] @ concat (map show_elem l)) (cl # rest)) =
           (Inr (), at (pre @ ws @ show_seq op cl show_elem l) rest)"
proof -
  have "length l < 2 ^ 64" using assms(2,3) by (simp add: fits_size_def SIZE_MAX_1_def show_seq_def)
  then have "get_len (at pre (ws @ show_len (length l) @ (op # concat (map show_elem l) @ [cl] @ rest))) =
      (Inr (length l), at (pre @ ws @ show_len (length l)) (op # concat (map show_elem l) @ [cl] @ rest))"
    by (rule len.reads) (use assms in \<open>simp_all add: show_seq_def\<close>)
  then show "get_len (at pre (ws @ show_seq op cl show_elem l @ rest)) =
      (Inr (length l), at (pre @ ws @ show_len (length l)) (op # concat (map show_elem l) @ [cl] @ rest))"
    by (simp add: show_seq_def)
  show "expect op err (at (pre @ ws @ show_len (length l)) (op # concat (map show_elem l) @ [cl] @ rest)) =
      (Inr (), at (pre @ ws @ show_len (length l) @ [op]) (concat (map show_elem l) @ [cl] @ rest))"
    using assms(2) expect_at [of "pre @ ws @ show_len (length l)" op] by (simp add: show_seq_def)
  show "expect cl err (at (pre @ ws @ show_len (length l) @ [op] @ concat (map show_elem l)) (cl # rest)) =
      (Inr (), at (pre @ ws @ show_seq op cl show_elem l) rest)"
    using assms(2) expect_at [of "pre @ ws @ show_len (length l) @ [op] @ concat (map show_elem l)" cl]
    by (simp add: show_seq_def)
qed

interpretation list: wire_format get_list show_list "\<lambda>_. True" "\<lambda>_. True"
proof
  fix l :: "string list" and rest ws pre
  assume ws: "spaces ws" and "fits_size (pre @ ws @ show_list l @ rest)"
  then have fits: "fits_size (pre @ ws @ show_seq CHR ''['' CHR '']'' show_str l @ rest)" by (simp add: show_list_def)
  note head = seq_head [OF ws fits length_concat_show(1)]
  have "get_strs (length l) (at (pre @ ws @ show_len (length l) @ ''['') (concat (map show_str l) @ '']'' @ rest)) =
      (Inr l, at ((pre @ ws @ show_len (length l) @ ''['') @ concat (map show_str l)) ('']'' @ rest))"
    by (rule get_strs_at) (use fits in \<open>simp add: show_seq_def\<close>)
  with head show "get_list (at pre (ws @ show_list l @ rest)) = (Inr l, at (pre @ ws @ show_list l) rest)"
    by (simp add: get_list_def show_list_def bind_e_run return_e_def)
qed

text \<open>An array needs its memory.\<close>

interpretation arr: wire_format "get_arr pf" show_list "\<lambda>l. can_reserve pf (length l)" "\<lambda>_. True" for pf
proof
  fix l :: "string list" and rest ws pre
  assume mem: "can_reserve pf (length l)" and ws: "spaces ws" and "fits_size (pre @ ws @ show_list l @ rest)"
  then have fits: "fits_size (pre @ ws @ show_seq CHR ''['' CHR '']'' show_str l @ rest)" by (simp add: show_list_def)
  note head = seq_head [OF ws fits length_concat_show(1)]
  have "get_strs (length l) (at (pre @ ws @ show_len (length l) @ ''['') (concat (map show_str l) @ '']'' @ rest)) =
      (Inr l, at ((pre @ ws @ show_len (length l) @ ''['') @ concat (map show_str l)) ('']'' @ rest))"
    by (rule get_strs_at) (use fits in \<open>simp add: show_seq_def\<close>)
  with head mem show "get_arr pf (at pre (ws @ show_list l @ rest)) = (Inr l, at (pre @ ws @ show_list l) rest)"
    by (simp add: get_arr_def show_list_def bind_e_run return_e_def)
qed

lemma fold_uset_insert_distinct: "distinct (acc @ ss) \<Longrightarrow> fold uset_insert ss acc = acc @ ss"
  by (induction ss arbitrary: acc) (auto simp: uset_insert_def)

lemma fold_emplace_distinct: "distinct (map fst (acc @ ps)) \<Longrightarrow> fold emplace_pair ps acc = acc @ ps"
proof (induction ps arbitrary: acc)
  case (Cons p ps)
  then have "\<not> contains acc (fst p)" by (auto simp: contains_iff)
  with Cons show ?case by (simp add: emplace_pair_def)
qed simp

interpretation uset: wire_format get_set show_set distinct "\<lambda>_. True"
proof
  fix l :: "string list" and rest ws pre
  assume d: "distinct l" and ws: "spaces ws" and "fits_size (pre @ ws @ show_set l @ rest)"
  then have fits: "fits_size (pre @ ws @ show_seq (CHR 0x7B) (CHR 0x7D) show_str l @ rest)" by (simp add: show_set_def)
  note head = seq_head [OF ws fits length_concat_show(1)]
  have "get_strs (length l) (at (pre @ ws @ show_len (length l) @ [CHR 0x7B]) (concat (map show_str l) @ [CHR 0x7D] @ rest)) =
      (Inr l, at ((pre @ ws @ show_len (length l) @ [CHR 0x7B]) @ concat (map show_str l)) ([CHR 0x7D] @ rest))"
    by (rule get_strs_at) (use fits in \<open>simp add: show_seq_def\<close>)
  with head fold_uset_insert_distinct [of "[]" l] d
  show "get_set (at pre (ws @ show_set l @ rest)) = (Inr l, at (pre @ ws @ show_set l) rest)"
    by (simp add: get_set_def show_set_def bind_e_run return_e_def)
qed

interpretation hash: wire_format get_hash show_hash "\<lambda>h. distinct (map fst h)" "\<lambda>_. True"
proof
  fix l :: hash_t and rest ws pre
  assume d: "distinct (map fst l)" and ws: "spaces ws" and "fits_size (pre @ ws @ show_hash l @ rest)"
  then have fits: "fits_size (pre @ ws @ show_seq (CHR 0x7B) (CHR 0x7D) show_str_pair l @ rest)" by (simp add: show_hash_def)
  note head = seq_head [OF ws fits length_concat_show(2)]
  have "get_str_pairs (length l) (at (pre @ ws @ show_len (length l) @ [CHR 0x7B]) (concat (map show_str_pair l) @ [CHR 0x7D] @ rest)) =
      (Inr l, at ((pre @ ws @ show_len (length l) @ [CHR 0x7B]) @ concat (map show_str_pair l)) ([CHR 0x7D] @ rest))"
    by (rule get_str_pairs_at) (use fits in \<open>simp add: show_seq_def\<close>)
  with head fold_emplace_distinct [of "[]" l] d
  show "get_hash (at pre (ws @ show_hash l @ rest)) = (Inr l, at (pre @ ws @ show_hash l) rest)"
    by (simp add: get_hash_def show_hash_def bind_e_run return_e_def)
qed

section \<open>Lists of words\<close>

text \<open>\<^verbatim>\<open>get_from_list\<close> takes the first word that matches, so a word must not stand behind one of its own
  prefixes. Then every word is read back, provided that it does not run on.\<close>

definition is_word_char :: "char \<Rightarrow> bool" where
  "is_word_char c \<longleftrightarrow> c = CHR ''_'' \<or> (65 \<le> (of_char c :: nat) \<and> (of_char c :: nat) \<le> 90)"

definition no_word_char :: "string \<Rightarrow> bool" where
  "no_word_char s \<longleftrightarrow> (case s of [] \<Rightarrow> True | c # _ \<Rightarrow> \<not> is_word_char c)"

definition is_word :: "string \<Rightarrow> bool" where
  "is_word w \<longleftrightarrow> w \<noteq> [] \<and> list_all is_word_char w"

definition unshadowed :: "string list \<Rightarrow> bool" where
  "unshadowed ws \<longleftrightarrow> sorted_wrt (\<lambda>v w. \<not> prefix v w) ws"

lemma prefix_of_word:
  assumes "prefix v (w @ rest)" and "list_all is_word_char v" and "no_word_char rest"
  shows "prefix v w"
proof (rule ccontr)
  assume "\<not> prefix v w"
  with assms(1) obtain u where "v = w @ u" "u \<noteq> []" "prefix u rest"
    by (auto simp: prefix_append)
  with assms(2,3) show False by (cases u; cases rest) (auto simp: no_word_char_def)
qed

lemma compare_str_at: "compare_str w (at pre r) = (Inr (prefix w r), at pre r)"
  by (auto simp: compare_str_def at_def prefix_def) (metis append_take_drop_id)

lemma find_word_at:
  assumes "(v, w) \<in> set words" and "unshadowed (map snd words)" and "\<forall>p \<in> set words. list_all is_word_char (snd p)"
    and "no_word_char rest" and "distinct (map fst words)"
  shows "find_word words err (at pre (w @ rest)) = (Inr (v, w), at pre (w @ rest))"
  using assms(1-3,5)
proof (induction words)
  case (Cons p ps)
  show ?case
  proof (cases "p = (v, w)")
    case False
    with Cons.prems have "(v, w) \<in> set ps" by auto
    then have "\<not> prefix (snd p) w" using Cons.prems(2) by (force simp: unshadowed_def)
    then have "\<not> prefix (snd p) (w @ rest)" using prefix_of_word [of "snd p" w rest] assms(4) Cons.prems(3) by (meson list.set_intros(1))
    moreover have "find_word ps err (at pre (w @ rest)) = (Inr (v, w), at pre (w @ rest))"
      using \<open>(v, w) \<in> set ps\<close> Cons by (simp add: unshadowed_def)
    ultimately show ?thesis by (simp add: bind_e_run compare_str_at)
  qed (simp add: bind_e_run compare_str_at return_e_def)
qed simp

locale word_list =
  fixes words :: "('a \<times> string) list"
  assumes distinct_values: "distinct (map fst words)"
    and are_words: "\<forall>w \<in> set (map snd words). is_word w"
    and order: "unshadowed (map snd words)"
begin

definition word_of :: "'a \<Rightarrow> string" where
  "word_of v = the (map_of words v)"

lemma word_of_listed: "v \<in> fst ` set words \<Longrightarrow> (v, word_of v) \<in> set words"
  using distinct_values by (auto simp: word_of_def)

lemma word_of_Cons:
  assumes "v \<in> fst ` set words"
  obtains c r where "word_of v = c # r" "\<not> is_space c"
proof -
  have "is_word (word_of v)" using word_of_listed [OF assms] are_words by force
  then obtain c r where "word_of v = c # r" "is_word_char c" by (cases "word_of v") (auto simp: is_word_def)
  moreover from this have "\<not> is_space c" by (auto simp: is_word_char_def is_space_def)
  ultimately show ?thesis using that by blast
qed

lemma finds:
  assumes "v \<in> fst ` set words" and "no_word_char rest" and "spaces ws"
  shows "bind_e skip_whitespace (\<lambda>_. find_word words err) (at pre (ws @ word_of v @ rest)) =
           (Inr (v, word_of v), at (pre @ ws) (word_of v @ rest))"
proof -
  obtain c r where cr: "word_of v = c # r" "\<not> is_space c" using word_of_Cons [OF assms(1)] by blast
  have "skip_whitespace (at pre (ws @ word_of v @ rest)) = (Inr (), at (pre @ ws) (word_of v @ rest))"
    using skip_spaces [OF assms(3) cr(2), of pre "r @ rest"] by (simp add: cr(1))
  moreover have "find_word words err (at (pre @ ws) (word_of v @ rest)) =
      (Inr (v, word_of v), at (pre @ ws) (word_of v @ rest))"
    by (rule find_word_at) (use word_of_listed [OF assms(1)] order are_words assms(2) distinct_values in \<open>auto simp: is_word_def\<close>)
  ultimately show ?thesis by (simp add: bind_e_run)
qed

lemma peeks:
  assumes "v \<in> fst ` set words" and "no_word_char rest" and "spaces ws"
  shows "peek_from_list words err (at pre (ws @ word_of v @ rest)) = (Inr v, at (pre @ ws) (word_of v @ rest))"
proof -
  obtain y where "skip_whitespace (at pre (ws @ word_of v @ rest)) = (Inr (), y)"
    by (simp add: skip_whitespace_def)
  with finds [OF assms, of err pre] show ?thesis
    by (simp add: peek_from_list_def bind_e_run map_e_def return_e_def)
qed

sublocale word: wire_format "get_from_list words err" word_of "\<lambda>v. v \<in> fst ` set words" no_word_char for err
proof
  fix v rest ws pre
  assume v: "v \<in> fst ` set words" and rest: "no_word_char rest" and ws: "spaces ws"
    and fits: "fits_size (pre @ ws @ word_of v @ rest)"
  obtain y where "skip_whitespace (at pre (ws @ word_of v @ rest)) = (Inr (), y)"
    by (simp add: skip_whitespace_def)
  with finds [OF v rest ws, of err pre] advance_at [of "pre @ ws" "word_of v" rest] fits
  show "get_from_list words err (at pre (ws @ word_of v @ rest)) = (Inr v, at (pre @ ws @ word_of v) rest)"
    by (simp add: get_from_list_def bind_e_run return_e_def)
qed

end

interpretation client_auth: word_list CLIENT_AUTH_STRINGS
  by unfold_locales (simp_all add: CLIENT_AUTH_STRINGS_def is_word_def is_word_char_def unshadowed_def)

interpretation auth_level: wire_format get_client_auth client_auth.word_of "\<lambda>_. True" no_word_char
proof
  fix a :: client_auth and rest ws pre
  assume "no_word_char rest" and "spaces ws" and "fits_size (pre @ ws @ client_auth.word_of a @ rest)"
  then show "get_client_auth (at pre (ws @ client_auth.word_of a @ rest)) = (Inr a, at (pre @ ws @ client_auth.word_of a) rest)"
    using client_auth.word.reads by (cases a) (simp_all add: get_client_auth_def CLIENT_AUTH_STRINGS_def)
qed

text \<open>Doubles: what a writer for doubles has to promise, together with \<^verbatim>\<open>strtod\<close>.\<close>

definition float_format :: "platform \<Rightarrow> (float_t \<Rightarrow> string) \<Rightarrow> bool" where
  "float_format pf ftoa \<longleftrightarrow>
     (\<forall>f. (\<exists>c s. ftoa f = c # s \<and> \<not> is_space c) \<and> CHR 0x00 \<notin> set (ftoa f) \<and>
          (\<forall>rest. (rest = [] \<or> is_space (hd rest)) \<longrightarrow> strtod pf (ftoa f @ rest) = Converted f (length (ftoa f))))"

definition separated :: "string \<Rightarrow> bool" where
  "separated rest \<longleftrightarrow> rest = [] \<or> is_space (hd rest)"

lemma float_wire:
  assumes "float_format pf ftoa"
  shows "wire_format (get_float pf) ftoa (\<lambda>_. True) separated"
proof
  fix f rest ws pre
  assume rest: "separated rest" and ws: "spaces ws" and fits: "fits_size (pre @ ws @ ftoa f @ rest)"
  obtain c r where cr: "ftoa f = c # r" "\<not> is_space c" using assms unfolding float_format_def by blast
  have "separated (takeWhile (\<lambda>c. c \<noteq> CHR 0x00) rest)"
    using rest by (cases rest) (auto simp: separated_def is_space_def)
  with assms have "strtod pf (ftoa f @ takeWhile (\<lambda>c. c \<noteq> CHR 0x00) rest) = Converted f (length (ftoa f))"
    unfolding float_format_def separated_def by blast
  then have "get_number (stod pf) oor bad (at (pre @ ws) (ftoa f @ rest)) = (Inr f, at ((pre @ ws) @ ftoa f) rest)" for oor bad
    by (intro get_number_at) (use assms fits in \<open>auto simp: stod_def stoa_def float_format_def\<close>)
  moreover have "ensure_not_end (at pre (ws @ ftoa f @ rest)) = (Inr (), at (pre @ ws) (ftoa f @ rest))"
    using ensure_not_end_at [OF ws cr(2), of pre "r @ rest"] by (simp add: cr(1))
  ultimately show "get_float pf (at pre (ws @ ftoa f @ rest)) = (Inr f, at (pre @ ws @ ftoa f) rest)"
    by (simp add: get_float_def bind_e_run)
qed

lemma separated_follow: "separated rest \<Longrightarrow> no_digit rest \<and> no_word_char rest"
  using digit_no_space
  by (cases rest) (auto simp: separated_def no_digit_def no_word_char_def is_word_char_def is_space_def)

lemma spaces_separated: "spaces ws \<Longrightarrow> separated ws"
  by (cases ws) (simp_all add: separated_def)

end
