(* ===== verification/Request.thy ===== *)
theory Request
  imports Extractable
begin

text \<open>
  \<^verbatim>\<open>vanity/request/request.{h,cpp}\<close>, \<^verbatim>\<open>request_tracker.h\<close>, and the extraction of arguments in
  \<^verbatim>\<open>request_handler.cpp\<close>. \<^verbatim>\<open>RequestHandler\<close> is an interface with one virtual method per operation; a
  call of a method is a value of \<open>request\<close>, grouped by the server class that implements it, and
  \<open>read_request\<close> is what the branch of \<^verbatim>\<open>dispatch\<close> for an operation extracts before the call. A
  request in the documented format is read back as the call it stands for.
\<close>

section \<open>Requests\<close>

definition get_operation :: "operation_t extraction" where
  "get_operation = get_from_list OPERATION_T_STRINGS ''invalid operation''"

definition peek_operation :: "operation_t extraction" where
  "peek_operation = peek_from_list OPERATION_T_STRINGS ''invalid operation''"

text \<open>\<^verbatim>\<open>object_t.h\<close>; the code notes that the word for an object type is never read at present.\<close>

datatype object_t = OBJ_STR | OBJ_INT | OBJ_FLOAT | OBJ_ARR | OBJ_LIST | OBJ_SET | OBJ_HASH | OBJ_BOOL | OBJ_CLIENT_AUTH

definition OBJECT_T_STRINGS :: "(object_t \<times> string) list" where
  "OBJECT_T_STRINGS = [(OBJ_STR, ''STR''), (OBJ_INT, ''INT''), (OBJ_FLOAT, ''FLOAT''), (OBJ_ARR, ''ARR''),
     (OBJ_LIST, ''LIST''), (OBJ_SET, ''SET''), (OBJ_HASH, ''HASH''), (OBJ_BOOL, ''BOOL''),
     (OBJ_CLIENT_AUTH, ''CLIENT_AUTH'')]"

definition get_object_t :: "object_t extraction" where
  "get_object_t = get_from_list OBJECT_T_STRINGS ''invalid object type''"

definition format_request :: "extractable \<Rightarrow> string" where
  "format_request x = m_msg x @ '' at '' @ to_string (m_pos x)"

definition index :: "extractable \<Rightarrow> nat" where
  "index x = m_pos x"

definition view_request :: "extractable \<Rightarrow> nat \<Rightarrow> nat \<Rightarrow> string result" where
  "view_request x start stop =
     (if start > stop then Inl (OutOfRange ''start index greater than end index'')
      else if stop > length (m_msg x) then Inl (OutOfRange ''end index out of range'')
      else Inr (take (stop - start) (drop start (m_msg x))))"

text \<open>\<^verbatim>\<open>RequestTracker\<close>: the text that was read since the tracker was made.\<close>

definition tracker_view :: "nat \<Rightarrow> extractable \<Rightarrow> string result" where
  "tracker_view start x = view_request x start (index x)"

section \<open>The calls of the handler\<close>

datatype server_request =
    request_exit
  | request_terminate
  | request_ping
  | request_bind string int
  | request_unbind string int
  | request_persist

datatype auth_request =
    request_add_user string string
  | request_edit_user string client_auth
  | request_del_user string
  | request_auth string string
  | request_change_password string
  | request_auth_level
  | request_username

datatype transact_request =
    request_transact_begin
  | request_transact_commit
  | request_transact_discard

datatype pubsub_request =
    request_publish string string
  | request_subscribe string
  | request_subscribed
  | request_unsubscribe string
  | request_unsubscribe_all

datatype general_request =
    request_switch_db int
  | request_del string
  | request_type string
  | request_exists string
  | request_reset
  | request_keys
  | request_copy_to string string
  | request_move_to string string
  | request_copy_to_db string int
  | request_move_to_db string int
  | request_get string

datatype expiry_request =
    request_set_expiry string float_t
  | request_get_expiry string
  | request_clear_expiry string

datatype primitive_request =
    request_str_set string string
  | request_int_set string int
  | request_float_set string float_t
  | request_incr_int string int
  | request_incr_float string float_t
  | request_str_len string
  | request_many_get "string list"

datatype list_request =
    request_list_len string
  | request_list_get string int
  | request_list_set string int string
  | request_list_push_left string list_t
  | request_list_push_right string list_t
  | request_list_pop_left string int
  | request_list_pop_right string int
  | request_list_range string int int
  | request_list_trim string int int
  | request_list_remove string string int

datatype set_request =
    request_set_add string set_t
  | request_set_all string
  | request_set_remove string int
  | request_set_discard string set_t
  | request_set_len string
  | request_set_contains string string
  | request_set_move string string string
  | request_set_union "string list"
  | request_set_union_into string "string list"
  | request_set_union_len "string list"
  | request_set_intersection "string list"
  | request_set_intersection_into string "string list"
  | request_set_intersection_len "string list"
  | request_set_difference string string
  | request_set_difference_into string string string
  | request_set_difference_len string string

datatype hash_request =
    request_hash_set string hash_t
  | request_hash_all string
  | request_hash_get string string
  | request_hash_contains string string
  | request_hash_len string
  | request_hash_key_len string string
  | request_hash_remove string "string list"
  | request_hash_keys string
  | request_hash_values string
  | request_hash_update string hash_t
  | request_hash_many_get string "string list"

datatype cluster_request =
    request_cluster_join string string string int
  | request_cluster_key
  | request_cluster_id
  | request_cluster_leave
  | request_cluster_new string string
  | request_peers
  | request_peer_ids
  | request_peer_auth int string string string

datatype request =
    request_pipe
  | Server_Request server_request
  | Auth_Request auth_request
  | Transact_Request transact_request
  | Pubsub_Request pubsub_request
  | General_Request general_request
  | Expiry_Request expiry_request
  | Primitive_Request primitive_request
  | List_Request list_request
  | Set_Request set_request
  | Hash_Request hash_request
  | Cluster_Request cluster_request

section \<open>Extraction of the arguments\<close>

text \<open>The branches of \<^verbatim>\<open>dispatch\<close>. The handler of a pipe reads the message itself, and the end is
  checked after it.\<close>

primrec read_request :: "platform \<Rightarrow> operation_t \<Rightarrow> bool \<Rightarrow> request extraction" where
  "read_request pf TERMINATE end_here =
     map_e (\<lambda>_. Server_Request request_terminate) (get_exact (return_e ()) True)"
| "read_request pf EXIT end_here =
     map_e (\<lambda>_. Server_Request request_exit) (get_exact (return_e ()) True)"
| "read_request pf PING end_here =
     map_e (\<lambda>_. Server_Request request_ping) (get_exact (return_e ()) end_here)"
| "read_request pf PIPE end_here = return_e request_pipe"
| "read_request pf BIND end_here =
     map_e (\<lambda>(a, b). Server_Request (request_bind a b)) (get_exact (pair_e get_str get_int) end_here)"
| "read_request pf UNBIND end_here =
     map_e (\<lambda>(a, b). Server_Request (request_unbind a b)) (get_exact (pair_e get_str get_int) end_here)"
| "read_request pf ADD_USER end_here =
     map_e (\<lambda>(a, b). Auth_Request (request_add_user a b)) (get_exact (pair_e get_str get_str) end_here)"
| "read_request pf EDIT_USER end_here =
     map_e (\<lambda>(a, b). Auth_Request (request_edit_user a b)) (get_exact (pair_e get_str get_client_auth) end_here)"
| "read_request pf DEL_USER end_here =
     map_e (\<lambda>a. Auth_Request (request_del_user a)) (get_exact (get_str) end_here)"
| "read_request pf AUTH end_here =
     map_e (\<lambda>(a, b). Auth_Request (request_auth a b)) (get_exact (pair_e get_str get_str) end_here)"
| "read_request pf CHANGE_PASSWORD end_here =
     map_e (\<lambda>a. Auth_Request (request_change_password a)) (get_exact (get_str) end_here)"
| "read_request pf AUTH_LEVEL end_here =
     map_e (\<lambda>_. Auth_Request request_auth_level) (get_exact (return_e ()) end_here)"
| "read_request pf USERNAME end_here =
     map_e (\<lambda>_. Auth_Request request_username) (get_exact (return_e ()) end_here)"
| "read_request pf SWITCH_DB end_here =
     map_e (\<lambda>a. General_Request (request_switch_db a)) (get_exact (get_int) end_here)"
| "read_request pf PERSIST end_here =
     map_e (\<lambda>_. Server_Request request_persist) (get_exact (return_e ()) end_here)"
| "read_request pf TRANSACT_BEGIN end_here =
     map_e (\<lambda>_. Transact_Request request_transact_begin) (get_exact (return_e ()) end_here)"
| "read_request pf TRANSACT_COMMIT end_here =
     map_e (\<lambda>_. Transact_Request request_transact_commit) (get_exact (return_e ()) end_here)"
| "read_request pf TRANSACT_DISCARD end_here =
     map_e (\<lambda>_. Transact_Request request_transact_discard) (get_exact (return_e ()) end_here)"
| "read_request pf PUBLISH end_here =
     map_e (\<lambda>(a, b). Pubsub_Request (request_publish a b)) (get_exact (pair_e get_str get_str) end_here)"
| "read_request pf SUBSCRIBE end_here =
     map_e (\<lambda>a. Pubsub_Request (request_subscribe a)) (get_exact (get_str) end_here)"
| "read_request pf SUBSCRIBED end_here =
     map_e (\<lambda>_. Pubsub_Request request_subscribed) (get_exact (return_e ()) end_here)"
| "read_request pf UNSUBSCRIBE end_here =
     map_e (\<lambda>a. Pubsub_Request (request_unsubscribe a)) (get_exact (get_str) end_here)"
| "read_request pf UNSUBSCRIBE_ALL end_here =
     map_e (\<lambda>_. Pubsub_Request request_unsubscribe_all) (get_exact (return_e ()) end_here)"
| "read_request pf DEL end_here =
     map_e (\<lambda>a. General_Request (request_del a)) (get_exact (get_str) end_here)"
| "read_request pf TYPE_OF end_here =
     map_e (\<lambda>a. General_Request (request_type a)) (get_exact (get_str) end_here)"
| "read_request pf EXISTS end_here =
     map_e (\<lambda>a. General_Request (request_exists a)) (get_exact (get_str) end_here)"
| "read_request pf RESET end_here =
     map_e (\<lambda>_. General_Request request_reset) (get_exact (return_e ()) end_here)"
| "read_request pf KEYS end_here =
     map_e (\<lambda>_. General_Request request_keys) (get_exact (return_e ()) end_here)"
| "read_request pf COPY_TO end_here =
     map_e (\<lambda>(a, b). General_Request (request_copy_to a b)) (get_exact (pair_e get_str get_str) end_here)"
| "read_request pf MOVE_TO end_here =
     map_e (\<lambda>(a, b). General_Request (request_move_to a b)) (get_exact (pair_e get_str get_str) end_here)"
| "read_request pf COPY_TO_DB end_here =
     map_e (\<lambda>(a, b). General_Request (request_copy_to_db a b)) (get_exact (pair_e get_str get_int) end_here)"
| "read_request pf MOVE_TO_DB end_here =
     map_e (\<lambda>(a, b). General_Request (request_move_to_db a b)) (get_exact (pair_e get_str get_int) end_here)"
| "read_request pf SET_EXPIRY end_here =
     map_e (\<lambda>(a, b). Expiry_Request (request_set_expiry a b)) (get_exact (pair_e get_str (get_float pf)) end_here)"
| "read_request pf GET_EXPIRY end_here =
     map_e (\<lambda>a. Expiry_Request (request_get_expiry a)) (get_exact (get_str) end_here)"
| "read_request pf CLEAR_EXPIRY end_here =
     map_e (\<lambda>a. Expiry_Request (request_clear_expiry a)) (get_exact (get_str) end_here)"
| "read_request pf GET end_here =
     map_e (\<lambda>a. General_Request (request_get a)) (get_exact (get_str) end_here)"
| "read_request pf STR_SET end_here =
     map_e (\<lambda>(a, b). Primitive_Request (request_str_set a b)) (get_exact (pair_e get_str get_str) end_here)"
| "read_request pf INT_SET end_here =
     map_e (\<lambda>(a, b). Primitive_Request (request_int_set a b)) (get_exact (pair_e get_str get_int) end_here)"
| "read_request pf FLOAT_SET end_here =
     map_e (\<lambda>(a, b). Primitive_Request (request_float_set a b)) (get_exact (pair_e get_str (get_float pf)) end_here)"
| "read_request pf INCR_INT end_here =
     map_e (\<lambda>(a, b). Primitive_Request (request_incr_int a b)) (get_exact (pair_e get_str get_int) end_here)"
| "read_request pf INCR_FLOAT end_here =
     map_e (\<lambda>(a, b). Primitive_Request (request_incr_float a b)) (get_exact (pair_e get_str (get_float pf)) end_here)"
| "read_request pf STR_LEN end_here =
     map_e (\<lambda>a. Primitive_Request (request_str_len a)) (get_exact (get_str) end_here)"
| "read_request pf MANY_GET end_here =
     map_e (\<lambda>a. Primitive_Request (request_many_get a)) (get_exact ((get_arr pf)) end_here)"
| "read_request pf LIST_LEN end_here =
     map_e (\<lambda>a. List_Request (request_list_len a)) (get_exact (get_str) end_here)"
| "read_request pf LIST_GET end_here =
     map_e (\<lambda>(a, b). List_Request (request_list_get a b)) (get_exact (pair_e get_str get_int) end_here)"
| "read_request pf LIST_SET end_here =
     map_e (\<lambda>(a, b, c). List_Request (request_list_set a b c)) (get_exact (pair_e get_str (pair_e get_int get_str)) end_here)"
| "read_request pf LIST_PUSH_LEFT end_here =
     map_e (\<lambda>(a, b). List_Request (request_list_push_left a b)) (get_exact (pair_e get_str get_list) end_here)"
| "read_request pf LIST_PUSH_RIGHT end_here =
     map_e (\<lambda>(a, b). List_Request (request_list_push_right a b)) (get_exact (pair_e get_str get_list) end_here)"
| "read_request pf LIST_POP_LEFT end_here =
     map_e (\<lambda>(a, b). List_Request (request_list_pop_left a b)) (get_exact (pair_e get_str get_int) end_here)"
| "read_request pf LIST_POP_RIGHT end_here =
     map_e (\<lambda>(a, b). List_Request (request_list_pop_right a b)) (get_exact (pair_e get_str get_int) end_here)"
| "read_request pf LIST_RANGE end_here =
     map_e (\<lambda>(a, b, c). List_Request (request_list_range a b c)) (get_exact (pair_e get_str (pair_e get_int get_int)) end_here)"
| "read_request pf LIST_TRIM end_here =
     map_e (\<lambda>(a, b, c). List_Request (request_list_trim a b c)) (get_exact (pair_e get_str (pair_e get_int get_int)) end_here)"
| "read_request pf LIST_REMOVE end_here =
     map_e (\<lambda>(a, b, c). List_Request (request_list_remove a b c)) (get_exact (pair_e get_str (pair_e get_str get_int)) end_here)"
| "read_request pf SET_ADD end_here =
     map_e (\<lambda>(a, b). Set_Request (request_set_add a b)) (get_exact (pair_e get_str get_set) end_here)"
| "read_request pf SET_ALL end_here =
     map_e (\<lambda>a. Set_Request (request_set_all a)) (get_exact (get_str) end_here)"
| "read_request pf SET_REMOVE end_here =
     map_e (\<lambda>(a, b). Set_Request (request_set_remove a b)) (get_exact (pair_e get_str get_int) end_here)"
| "read_request pf SET_DISCARD end_here =
     map_e (\<lambda>(a, b). Set_Request (request_set_discard a b)) (get_exact (pair_e get_str get_set) end_here)"
| "read_request pf SET_LEN end_here =
     map_e (\<lambda>a. Set_Request (request_set_len a)) (get_exact (get_str) end_here)"
| "read_request pf SET_CONTAINS end_here =
     map_e (\<lambda>(a, b). Set_Request (request_set_contains a b)) (get_exact (pair_e get_str get_str) end_here)"
| "read_request pf SET_MOVE end_here =
     map_e (\<lambda>(a, b, c). Set_Request (request_set_move a b c)) (get_exact (pair_e get_str (pair_e get_str get_str)) end_here)"
| "read_request pf SET_UNION end_here =
     map_e (\<lambda>a. Set_Request (request_set_union a)) (get_exact ((get_arr pf)) end_here)"
| "read_request pf SET_UNION_INTO end_here =
     map_e (\<lambda>(a, b). Set_Request (request_set_union_into a b)) (get_exact (pair_e get_str (get_arr pf)) end_here)"
| "read_request pf SET_UNION_LEN end_here =
     map_e (\<lambda>a. Set_Request (request_set_union_len a)) (get_exact ((get_arr pf)) end_here)"
| "read_request pf SET_INTERSECT end_here =
     map_e (\<lambda>a. Set_Request (request_set_intersection a)) (get_exact ((get_arr pf)) end_here)"
| "read_request pf SET_INTERSECT_INTO end_here =
     map_e (\<lambda>(a, b). Set_Request (request_set_intersection_into a b)) (get_exact (pair_e get_str (get_arr pf)) end_here)"
| "read_request pf SET_INTERSECT_LEN end_here =
     map_e (\<lambda>a. Set_Request (request_set_intersection_len a)) (get_exact ((get_arr pf)) end_here)"
| "read_request pf SET_DIFF end_here =
     map_e (\<lambda>(a, b). Set_Request (request_set_difference a b)) (get_exact (pair_e get_str get_str) end_here)"
| "read_request pf SET_DIFF_INTO end_here =
     map_e (\<lambda>(a, b, c). Set_Request (request_set_difference_into a b c)) (get_exact (pair_e get_str (pair_e get_str get_str)) end_here)"
| "read_request pf SET_DIFF_LEN end_here =
     map_e (\<lambda>(a, b). Set_Request (request_set_difference_len a b)) (get_exact (pair_e get_str get_str) end_here)"
| "read_request pf HASH_SET end_here =
     map_e (\<lambda>(a, b). Hash_Request (request_hash_set a b)) (get_exact (pair_e get_str get_hash) end_here)"
| "read_request pf HASH_ALL end_here =
     map_e (\<lambda>a. Hash_Request (request_hash_all a)) (get_exact (get_str) end_here)"
| "read_request pf HASH_GET end_here =
     map_e (\<lambda>(a, b). Hash_Request (request_hash_get a b)) (get_exact (pair_e get_str get_str) end_here)"
| "read_request pf HASH_CONTAINS end_here =
     map_e (\<lambda>(a, b). Hash_Request (request_hash_contains a b)) (get_exact (pair_e get_str get_str) end_here)"
| "read_request pf HASH_LEN end_here =
     map_e (\<lambda>a. Hash_Request (request_hash_len a)) (get_exact (get_str) end_here)"
| "read_request pf HASH_KEY_LEN end_here =
     map_e (\<lambda>(a, b). Hash_Request (request_hash_key_len a b)) (get_exact (pair_e get_str get_str) end_here)"
| "read_request pf HASH_REMOVE end_here =
     map_e (\<lambda>(a, b). Hash_Request (request_hash_remove a b)) (get_exact (pair_e get_str (get_arr pf)) end_here)"
| "read_request pf HASH_KEYS end_here =
     map_e (\<lambda>a. Hash_Request (request_hash_keys a)) (get_exact (get_str) end_here)"
| "read_request pf HASH_VALUES end_here =
     map_e (\<lambda>a. Hash_Request (request_hash_values a)) (get_exact (get_str) end_here)"
| "read_request pf HASH_UPDATE end_here =
     map_e (\<lambda>(a, b). Hash_Request (request_hash_update a b)) (get_exact (pair_e get_str get_hash) end_here)"
| "read_request pf HASH_MANY_GET end_here =
     map_e (\<lambda>(a, b). Hash_Request (request_hash_many_get a b)) (get_exact (pair_e get_str (get_arr pf)) end_here)"
| "read_request pf CLUSTER_JOIN end_here =
     map_e (\<lambda>(a, b, c, d). Cluster_Request (request_cluster_join a b c d)) (get_exact (pair_e get_str (pair_e get_str (pair_e get_str get_int))) end_here)"
| "read_request pf CLUSTER_KEY end_here =
     map_e (\<lambda>_. Cluster_Request request_cluster_key) (get_exact (return_e ()) end_here)"
| "read_request pf CLUSTER_ID end_here =
     map_e (\<lambda>_. Cluster_Request request_cluster_id) (get_exact (return_e ()) end_here)"
| "read_request pf CLUSTER_LEAVE end_here =
     map_e (\<lambda>_. Cluster_Request request_cluster_leave) (get_exact (return_e ()) end_here)"
| "read_request pf CLUSTER_NEW end_here =
     map_e (\<lambda>(a, b). Cluster_Request (request_cluster_new a b)) (get_exact (pair_e get_str get_str) end_here)"
| "read_request pf PEERS end_here =
     map_e (\<lambda>_. Cluster_Request request_peers) (get_exact (return_e ()) end_here)"
| "read_request pf PEER_IDS end_here =
     map_e (\<lambda>_. Cluster_Request request_peer_ids) (get_exact (return_e ()) end_here)"
| "read_request pf PEER_AUTH end_here =
     map_e (\<lambda>(a, b, c, d). Cluster_Request (request_peer_auth a b c d)) (get_exact (pair_e get_int (pair_e get_str (pair_e get_str get_str))) end_here)"

text \<open>The branches of \<^verbatim>\<open>dry_dispatch\<close>.\<close>

primrec dry_read :: "platform \<Rightarrow> operation_t \<Rightarrow> bool \<Rightarrow> unit extraction" where
  "dry_read pf TERMINATE end_here = get_exact (return_e ()) True"
| "dry_read pf EXIT end_here = get_exact (return_e ()) True"
| "dry_read pf PING end_here = get_exact (return_e ()) end_here"
| "dry_read pf PIPE end_here = get_exact (return_e ()) end_here"
| "dry_read pf BIND end_here = map_e (\<lambda>_. ()) (get_exact (pair_e get_str get_int) end_here)"
| "dry_read pf UNBIND end_here = map_e (\<lambda>_. ()) (get_exact (pair_e get_str get_int) end_here)"
| "dry_read pf AUTH end_here = map_e (\<lambda>_. ()) (get_exact (pair_e get_str get_str) end_here)"
| "dry_read pf ADD_USER end_here = map_e (\<lambda>_. ()) (get_exact (pair_e get_str get_str) end_here)"
| "dry_read pf EDIT_USER end_here = map_e (\<lambda>_. ()) (get_exact (pair_e get_str get_client_auth) end_here)"
| "dry_read pf DEL_USER end_here = map_e (\<lambda>_. ()) (get_exact (get_str) end_here)"
| "dry_read pf CHANGE_PASSWORD end_here = map_e (\<lambda>_. ()) (get_exact (get_str) end_here)"
| "dry_read pf AUTH_LEVEL end_here = get_exact (return_e ()) end_here"
| "dry_read pf USERNAME end_here = get_exact (return_e ()) end_here"
| "dry_read pf SWITCH_DB end_here = map_e (\<lambda>_. ()) (get_exact (get_int) end_here)"
| "dry_read pf PERSIST end_here = get_exact (return_e ()) end_here"
| "dry_read pf TRANSACT_BEGIN end_here = get_exact (return_e ()) end_here"
| "dry_read pf TRANSACT_COMMIT end_here = get_exact (return_e ()) end_here"
| "dry_read pf TRANSACT_DISCARD end_here = get_exact (return_e ()) end_here"
| "dry_read pf PUBLISH end_here = map_e (\<lambda>_. ()) (get_exact (pair_e get_str get_str) end_here)"
| "dry_read pf SUBSCRIBE end_here = map_e (\<lambda>_. ()) (get_exact (get_str) end_here)"
| "dry_read pf SUBSCRIBED end_here = get_exact (return_e ()) end_here"
| "dry_read pf UNSUBSCRIBE end_here = map_e (\<lambda>_. ()) (get_exact (get_str) end_here)"
| "dry_read pf UNSUBSCRIBE_ALL end_here = get_exact (return_e ()) end_here"
| "dry_read pf DEL end_here = map_e (\<lambda>_. ()) (get_exact (get_str) end_here)"
| "dry_read pf TYPE_OF end_here = map_e (\<lambda>_. ()) (get_exact (get_str) end_here)"
| "dry_read pf EXISTS end_here = map_e (\<lambda>_. ()) (get_exact (get_str) end_here)"
| "dry_read pf RESET end_here = get_exact (return_e ()) end_here"
| "dry_read pf KEYS end_here = get_exact (return_e ()) end_here"
| "dry_read pf COPY_TO end_here = map_e (\<lambda>_. ()) (get_exact (pair_e get_str get_str) end_here)"
| "dry_read pf MOVE_TO end_here = map_e (\<lambda>_. ()) (get_exact (pair_e get_str get_str) end_here)"
| "dry_read pf COPY_TO_DB end_here = map_e (\<lambda>_. ()) (get_exact (pair_e get_str get_int) end_here)"
| "dry_read pf MOVE_TO_DB end_here = map_e (\<lambda>_. ()) (get_exact (pair_e get_str get_int) end_here)"
| "dry_read pf SET_EXPIRY end_here = map_e (\<lambda>_. ()) (get_exact (pair_e get_str (get_float pf)) end_here)"
| "dry_read pf GET_EXPIRY end_here = map_e (\<lambda>_. ()) (get_exact (get_str) end_here)"
| "dry_read pf CLEAR_EXPIRY end_here = map_e (\<lambda>_. ()) (get_exact (get_str) end_here)"
| "dry_read pf GET end_here = map_e (\<lambda>_. ()) (get_exact (get_str) end_here)"
| "dry_read pf STR_SET end_here = map_e (\<lambda>_. ()) (get_exact (pair_e get_str get_str) end_here)"
| "dry_read pf INT_SET end_here = map_e (\<lambda>_. ()) (get_exact (pair_e get_str get_int) end_here)"
| "dry_read pf FLOAT_SET end_here = map_e (\<lambda>_. ()) (get_exact (pair_e get_str (get_float pf)) end_here)"
| "dry_read pf INCR_INT end_here = map_e (\<lambda>_. ()) (get_exact (pair_e get_str get_int) end_here)"
| "dry_read pf INCR_FLOAT end_here = map_e (\<lambda>_. ()) (get_exact (pair_e get_str (get_float pf)) end_here)"
| "dry_read pf STR_LEN end_here = map_e (\<lambda>_. ()) (get_exact (get_str) end_here)"
| "dry_read pf MANY_GET end_here = map_e (\<lambda>_. ()) (get_exact ((get_arr pf)) end_here)"
| "dry_read pf LIST_LEN end_here = map_e (\<lambda>_. ()) (get_exact (get_str) end_here)"
| "dry_read pf LIST_GET end_here = map_e (\<lambda>_. ()) (get_exact (pair_e get_str get_int) end_here)"
| "dry_read pf LIST_SET end_here = map_e (\<lambda>_. ()) (get_exact (pair_e get_str (pair_e get_int get_str)) end_here)"
| "dry_read pf LIST_PUSH_LEFT end_here = map_e (\<lambda>_. ()) (get_exact (pair_e get_str get_list) end_here)"
| "dry_read pf LIST_PUSH_RIGHT end_here = map_e (\<lambda>_. ()) (get_exact (pair_e get_str get_list) end_here)"
| "dry_read pf LIST_POP_LEFT end_here = map_e (\<lambda>_. ()) (get_exact (pair_e get_str get_int) end_here)"
| "dry_read pf LIST_POP_RIGHT end_here = map_e (\<lambda>_. ()) (get_exact (pair_e get_str get_int) end_here)"
| "dry_read pf LIST_RANGE end_here = map_e (\<lambda>_. ()) (get_exact (pair_e get_str (pair_e get_int get_int)) end_here)"
| "dry_read pf LIST_TRIM end_here = map_e (\<lambda>_. ()) (get_exact (pair_e get_str (pair_e get_int get_int)) end_here)"
| "dry_read pf LIST_REMOVE end_here = map_e (\<lambda>_. ()) (get_exact (pair_e get_str (pair_e get_str get_int)) end_here)"
| "dry_read pf SET_ADD end_here = map_e (\<lambda>_. ()) (get_exact (pair_e get_str get_set) end_here)"
| "dry_read pf SET_ALL end_here = map_e (\<lambda>_. ()) (get_exact (get_str) end_here)"
| "dry_read pf SET_REMOVE end_here = map_e (\<lambda>_. ()) (get_exact (pair_e get_str get_int) end_here)"
| "dry_read pf SET_DISCARD end_here = map_e (\<lambda>_. ()) (get_exact (pair_e get_str get_set) end_here)"
| "dry_read pf SET_LEN end_here = map_e (\<lambda>_. ()) (get_exact (get_str) end_here)"
| "dry_read pf SET_CONTAINS end_here = map_e (\<lambda>_. ()) (get_exact (pair_e get_str get_str) end_here)"
| "dry_read pf SET_MOVE end_here = map_e (\<lambda>_. ()) (get_exact (pair_e get_str (pair_e get_str get_str)) end_here)"
| "dry_read pf SET_UNION end_here = map_e (\<lambda>_. ()) (get_exact ((get_arr pf)) end_here)"
| "dry_read pf SET_UNION_INTO end_here = map_e (\<lambda>_. ()) (get_exact (pair_e get_str (get_arr pf)) end_here)"
| "dry_read pf SET_UNION_LEN end_here = map_e (\<lambda>_. ()) (get_exact ((get_arr pf)) end_here)"
| "dry_read pf SET_INTERSECT end_here = map_e (\<lambda>_. ()) (get_exact ((get_arr pf)) end_here)"
| "dry_read pf SET_INTERSECT_INTO end_here = map_e (\<lambda>_. ()) (get_exact (pair_e get_str (get_arr pf)) end_here)"
| "dry_read pf SET_INTERSECT_LEN end_here = map_e (\<lambda>_. ()) (get_exact ((get_arr pf)) end_here)"
| "dry_read pf SET_DIFF end_here = map_e (\<lambda>_. ()) (get_exact (pair_e get_str get_str) end_here)"
| "dry_read pf SET_DIFF_INTO end_here = map_e (\<lambda>_. ()) (get_exact (pair_e get_str (pair_e get_str get_str)) end_here)"
| "dry_read pf SET_DIFF_LEN end_here = map_e (\<lambda>_. ()) (get_exact (pair_e get_str get_str) end_here)"
| "dry_read pf HASH_SET end_here = map_e (\<lambda>_. ()) (get_exact (pair_e get_str get_hash) end_here)"
| "dry_read pf HASH_ALL end_here = map_e (\<lambda>_. ()) (get_exact (get_str) end_here)"
| "dry_read pf HASH_GET end_here = map_e (\<lambda>_. ()) (get_exact (pair_e get_str get_str) end_here)"
| "dry_read pf HASH_CONTAINS end_here = map_e (\<lambda>_. ()) (get_exact (pair_e get_str get_str) end_here)"
| "dry_read pf HASH_LEN end_here = map_e (\<lambda>_. ()) (get_exact (get_str) end_here)"
| "dry_read pf HASH_KEY_LEN end_here = map_e (\<lambda>_. ()) (get_exact (pair_e get_str get_str) end_here)"
| "dry_read pf HASH_REMOVE end_here = map_e (\<lambda>_. ()) (get_exact (pair_e get_str (get_arr pf)) end_here)"
| "dry_read pf HASH_KEYS end_here = map_e (\<lambda>_. ()) (get_exact (get_str) end_here)"
| "dry_read pf HASH_VALUES end_here = map_e (\<lambda>_. ()) (get_exact (get_str) end_here)"
| "dry_read pf HASH_UPDATE end_here = map_e (\<lambda>_. ()) (get_exact (pair_e get_str get_hash) end_here)"
| "dry_read pf HASH_MANY_GET end_here = map_e (\<lambda>_. ()) (get_exact (pair_e get_str (get_arr pf)) end_here)"
| "dry_read pf CLUSTER_JOIN end_here = map_e (\<lambda>_. ()) (get_exact (pair_e get_str (pair_e get_str get_int)) end_here)"
| "dry_read pf CLUSTER_KEY end_here = get_exact (return_e ()) end_here"
| "dry_read pf CLUSTER_ID end_here = get_exact (return_e ()) end_here"
| "dry_read pf CLUSTER_LEAVE end_here = get_exact (return_e ()) end_here"
| "dry_read pf CLUSTER_NEW end_here = map_e (\<lambda>_. ()) (get_exact (get_str) end_here)"
| "dry_read pf PEERS end_here = get_exact (return_e ()) end_here"
| "dry_read pf PEER_IDS end_here = get_exact (return_e ()) end_here"
| "dry_read pf PEER_AUTH end_here = map_e (\<lambda>_. ()) (get_exact (pair_e get_int (pair_e get_str get_str)) end_here)"

definition dry_dispatch :: "platform \<Rightarrow> bool \<Rightarrow> unit extraction" where
  "dry_dispatch pf end_here = bind_e get_operation (\<lambda>op. dry_read pf op end_here)"

section \<open>The words for the operations\<close>

lemma operation_distinct: "distinct (map fst OPERATION_T_STRINGS)"
  by (simp add: OPERATION_T_STRINGS_def)

lemma operation_words: "\<forall>w \<in> set (map snd OPERATION_T_STRINGS). is_word w"
  by (simp add: OPERATION_T_STRINGS_def is_word_def is_word_char_def)

lemma operation_unshadowed: "unshadowed (map snd OPERATION_T_STRINGS)"
  unfolding unshadowed_def OPERATION_T_STRINGS_def list.map snd_conv by code_simp

interpretation operation: word_list OPERATION_T_STRINGS
  by unfold_locales (rule operation_distinct operation_words operation_unshadowed)+

lemma operations_in_order: "map fst OPERATION_T_STRINGS = [
     EXIT, TERMINATE, PING, PIPE, BIND, UNBIND, AUTH_LEVEL, AUTH, ADD_USER, EDIT_USER, DEL_USER,
     CHANGE_PASSWORD, USERNAME, SWITCH_DB, PERSIST, TRANSACT_BEGIN, TRANSACT_COMMIT,
     TRANSACT_DISCARD, PUBLISH, SUBSCRIBED, SUBSCRIBE, UNSUBSCRIBE_ALL, UNSUBSCRIBE, DEL,
     TYPE_OF, EXISTS, RESET, KEYS, COPY_TO_DB, MOVE_TO_DB, COPY_TO, MOVE_TO, SET_EXPIRY,
     GET_EXPIRY, CLEAR_EXPIRY, GET, STR_SET, INT_SET, FLOAT_SET, INCR_INT, INCR_FLOAT, STR_LEN,
     MANY_GET, LIST_LEN, LIST_GET, LIST_SET, LIST_PUSH_LEFT, LIST_PUSH_RIGHT, LIST_POP_LEFT,
     LIST_POP_RIGHT, LIST_RANGE, LIST_TRIM, LIST_REMOVE, SET_ADD, SET_ALL, SET_REMOVE,
     SET_DISCARD, SET_LEN, SET_CONTAINS, SET_MOVE, SET_UNION_INTO, SET_UNION_LEN, SET_UNION,
     SET_INTERSECT_INTO, SET_INTERSECT_LEN, SET_INTERSECT, SET_DIFF_INTO, SET_DIFF_LEN, SET_DIFF,
     HASH_SET, HASH_ALL, HASH_GET, HASH_CONTAINS, HASH_LEN, HASH_KEY_LEN, HASH_REMOVE, HASH_KEYS,
     HASH_VALUES, HASH_UPDATE, HASH_MANY_GET, CLUSTER_JOIN, CLUSTER_KEY, CLUSTER_ID,
     CLUSTER_LEAVE, CLUSTER_NEW, PEERS, PEER_IDS, PEER_AUTH]"
  by (simp add: OPERATION_T_STRINGS_def)

lemma operation_listed: "op \<in> fst ` set OPERATION_T_STRINGS"
proof -
  have "op \<in> set (map fst OPERATION_T_STRINGS)"
    unfolding operations_in_order by (cases op) simp_all
  then show ?thesis by simp
qed

interpretation object: word_list OBJECT_T_STRINGS
  by unfold_locales (simp_all add: OBJECT_T_STRINGS_def is_word_def is_word_char_def unshadowed_def)

section \<open>The documented format\<close>

text \<open>The operation of a request, and the text of its arguments: each object after a space.\<close>

primrec server_request_op :: "server_request \<Rightarrow> operation_t" where
  "server_request_op request_exit = EXIT"
| "server_request_op request_terminate = TERMINATE"
| "server_request_op request_ping = PING"
| "server_request_op (request_bind a b) = BIND"
| "server_request_op (request_unbind a b) = UNBIND"
| "server_request_op request_persist = PERSIST"

primrec auth_request_op :: "auth_request \<Rightarrow> operation_t" where
  "auth_request_op (request_add_user a b) = ADD_USER"
| "auth_request_op (request_edit_user a b) = EDIT_USER"
| "auth_request_op (request_del_user a) = DEL_USER"
| "auth_request_op (request_auth a b) = AUTH"
| "auth_request_op (request_change_password a) = CHANGE_PASSWORD"
| "auth_request_op request_auth_level = AUTH_LEVEL"
| "auth_request_op request_username = USERNAME"

primrec transact_request_op :: "transact_request \<Rightarrow> operation_t" where
  "transact_request_op request_transact_begin = TRANSACT_BEGIN"
| "transact_request_op request_transact_commit = TRANSACT_COMMIT"
| "transact_request_op request_transact_discard = TRANSACT_DISCARD"

primrec pubsub_request_op :: "pubsub_request \<Rightarrow> operation_t" where
  "pubsub_request_op (request_publish a b) = PUBLISH"
| "pubsub_request_op (request_subscribe a) = SUBSCRIBE"
| "pubsub_request_op request_subscribed = SUBSCRIBED"
| "pubsub_request_op (request_unsubscribe a) = UNSUBSCRIBE"
| "pubsub_request_op request_unsubscribe_all = UNSUBSCRIBE_ALL"

primrec general_request_op :: "general_request \<Rightarrow> operation_t" where
  "general_request_op (request_switch_db a) = SWITCH_DB"
| "general_request_op (request_del a) = DEL"
| "general_request_op (request_type a) = TYPE_OF"
| "general_request_op (request_exists a) = EXISTS"
| "general_request_op request_reset = RESET"
| "general_request_op request_keys = KEYS"
| "general_request_op (request_copy_to a b) = COPY_TO"
| "general_request_op (request_move_to a b) = MOVE_TO"
| "general_request_op (request_copy_to_db a b) = COPY_TO_DB"
| "general_request_op (request_move_to_db a b) = MOVE_TO_DB"
| "general_request_op (request_get a) = GET"

primrec expiry_request_op :: "expiry_request \<Rightarrow> operation_t" where
  "expiry_request_op (request_set_expiry a b) = SET_EXPIRY"
| "expiry_request_op (request_get_expiry a) = GET_EXPIRY"
| "expiry_request_op (request_clear_expiry a) = CLEAR_EXPIRY"

primrec primitive_request_op :: "primitive_request \<Rightarrow> operation_t" where
  "primitive_request_op (request_str_set a b) = STR_SET"
| "primitive_request_op (request_int_set a b) = INT_SET"
| "primitive_request_op (request_float_set a b) = FLOAT_SET"
| "primitive_request_op (request_incr_int a b) = INCR_INT"
| "primitive_request_op (request_incr_float a b) = INCR_FLOAT"
| "primitive_request_op (request_str_len a) = STR_LEN"
| "primitive_request_op (request_many_get a) = MANY_GET"

primrec list_request_op :: "list_request \<Rightarrow> operation_t" where
  "list_request_op (request_list_len a) = LIST_LEN"
| "list_request_op (request_list_get a b) = LIST_GET"
| "list_request_op (request_list_set a b c) = LIST_SET"
| "list_request_op (request_list_push_left a b) = LIST_PUSH_LEFT"
| "list_request_op (request_list_push_right a b) = LIST_PUSH_RIGHT"
| "list_request_op (request_list_pop_left a b) = LIST_POP_LEFT"
| "list_request_op (request_list_pop_right a b) = LIST_POP_RIGHT"
| "list_request_op (request_list_range a b c) = LIST_RANGE"
| "list_request_op (request_list_trim a b c) = LIST_TRIM"
| "list_request_op (request_list_remove a b c) = LIST_REMOVE"

primrec set_request_op :: "set_request \<Rightarrow> operation_t" where
  "set_request_op (request_set_add a b) = SET_ADD"
| "set_request_op (request_set_all a) = SET_ALL"
| "set_request_op (request_set_remove a b) = SET_REMOVE"
| "set_request_op (request_set_discard a b) = SET_DISCARD"
| "set_request_op (request_set_len a) = SET_LEN"
| "set_request_op (request_set_contains a b) = SET_CONTAINS"
| "set_request_op (request_set_move a b c) = SET_MOVE"
| "set_request_op (request_set_union a) = SET_UNION"
| "set_request_op (request_set_union_into a b) = SET_UNION_INTO"
| "set_request_op (request_set_union_len a) = SET_UNION_LEN"
| "set_request_op (request_set_intersection a) = SET_INTERSECT"
| "set_request_op (request_set_intersection_into a b) = SET_INTERSECT_INTO"
| "set_request_op (request_set_intersection_len a) = SET_INTERSECT_LEN"
| "set_request_op (request_set_difference a b) = SET_DIFF"
| "set_request_op (request_set_difference_into a b c) = SET_DIFF_INTO"
| "set_request_op (request_set_difference_len a b) = SET_DIFF_LEN"

primrec hash_request_op :: "hash_request \<Rightarrow> operation_t" where
  "hash_request_op (request_hash_set a b) = HASH_SET"
| "hash_request_op (request_hash_all a) = HASH_ALL"
| "hash_request_op (request_hash_get a b) = HASH_GET"
| "hash_request_op (request_hash_contains a b) = HASH_CONTAINS"
| "hash_request_op (request_hash_len a) = HASH_LEN"
| "hash_request_op (request_hash_key_len a b) = HASH_KEY_LEN"
| "hash_request_op (request_hash_remove a b) = HASH_REMOVE"
| "hash_request_op (request_hash_keys a) = HASH_KEYS"
| "hash_request_op (request_hash_values a) = HASH_VALUES"
| "hash_request_op (request_hash_update a b) = HASH_UPDATE"
| "hash_request_op (request_hash_many_get a b) = HASH_MANY_GET"

primrec cluster_request_op :: "cluster_request \<Rightarrow> operation_t" where
  "cluster_request_op (request_cluster_join a b c d) = CLUSTER_JOIN"
| "cluster_request_op request_cluster_key = CLUSTER_KEY"
| "cluster_request_op request_cluster_id = CLUSTER_ID"
| "cluster_request_op request_cluster_leave = CLUSTER_LEAVE"
| "cluster_request_op (request_cluster_new a b) = CLUSTER_NEW"
| "cluster_request_op request_peers = PEERS"
| "cluster_request_op request_peer_ids = PEER_IDS"
| "cluster_request_op (request_peer_auth a b c d) = PEER_AUTH"

primrec request_op :: "request \<Rightarrow> operation_t" where
  "request_op request_pipe = PIPE"
| "request_op (Server_Request r) = server_request_op r"
| "request_op (Auth_Request r) = auth_request_op r"
| "request_op (Transact_Request r) = transact_request_op r"
| "request_op (Pubsub_Request r) = pubsub_request_op r"
| "request_op (General_Request r) = general_request_op r"
| "request_op (Expiry_Request r) = expiry_request_op r"
| "request_op (Primitive_Request r) = primitive_request_op r"
| "request_op (List_Request r) = list_request_op r"
| "request_op (Set_Request r) = set_request_op r"
| "request_op (Hash_Request r) = hash_request_op r"
| "request_op (Cluster_Request r) = cluster_request_op r"

primrec server_request_args :: "(float_t \<Rightarrow> string) \<Rightarrow> server_request \<Rightarrow> string" where
  "server_request_args ftoa request_exit = []"
| "server_request_args ftoa request_terminate = []"
| "server_request_args ftoa request_ping = []"
| "server_request_args ftoa (request_bind a b) = '' '' @ show_str a @ '' '' @ int_to_string b"
| "server_request_args ftoa (request_unbind a b) = '' '' @ show_str a @ '' '' @ int_to_string b"
| "server_request_args ftoa request_persist = []"

primrec auth_request_args :: "(float_t \<Rightarrow> string) \<Rightarrow> auth_request \<Rightarrow> string" where
  "auth_request_args ftoa (request_add_user a b) = '' '' @ show_str a @ '' '' @ show_str b"
| "auth_request_args ftoa (request_edit_user a b) = '' '' @ show_str a @ '' '' @ client_auth.word_of b"
| "auth_request_args ftoa (request_del_user a) = '' '' @ show_str a"
| "auth_request_args ftoa (request_auth a b) = '' '' @ show_str a @ '' '' @ show_str b"
| "auth_request_args ftoa (request_change_password a) = '' '' @ show_str a"
| "auth_request_args ftoa request_auth_level = []"
| "auth_request_args ftoa request_username = []"

primrec transact_request_args :: "(float_t \<Rightarrow> string) \<Rightarrow> transact_request \<Rightarrow> string" where
  "transact_request_args ftoa request_transact_begin = []"
| "transact_request_args ftoa request_transact_commit = []"
| "transact_request_args ftoa request_transact_discard = []"

primrec pubsub_request_args :: "(float_t \<Rightarrow> string) \<Rightarrow> pubsub_request \<Rightarrow> string" where
  "pubsub_request_args ftoa (request_publish a b) = '' '' @ show_str a @ '' '' @ show_str b"
| "pubsub_request_args ftoa (request_subscribe a) = '' '' @ show_str a"
| "pubsub_request_args ftoa request_subscribed = []"
| "pubsub_request_args ftoa (request_unsubscribe a) = '' '' @ show_str a"
| "pubsub_request_args ftoa request_unsubscribe_all = []"

primrec general_request_args :: "(float_t \<Rightarrow> string) \<Rightarrow> general_request \<Rightarrow> string" where
  "general_request_args ftoa (request_switch_db a) = '' '' @ int_to_string a"
| "general_request_args ftoa (request_del a) = '' '' @ show_str a"
| "general_request_args ftoa (request_type a) = '' '' @ show_str a"
| "general_request_args ftoa (request_exists a) = '' '' @ show_str a"
| "general_request_args ftoa request_reset = []"
| "general_request_args ftoa request_keys = []"
| "general_request_args ftoa (request_copy_to a b) = '' '' @ show_str a @ '' '' @ show_str b"
| "general_request_args ftoa (request_move_to a b) = '' '' @ show_str a @ '' '' @ show_str b"
| "general_request_args ftoa (request_copy_to_db a b) = '' '' @ show_str a @ '' '' @ int_to_string b"
| "general_request_args ftoa (request_move_to_db a b) = '' '' @ show_str a @ '' '' @ int_to_string b"
| "general_request_args ftoa (request_get a) = '' '' @ show_str a"

primrec expiry_request_args :: "(float_t \<Rightarrow> string) \<Rightarrow> expiry_request \<Rightarrow> string" where
  "expiry_request_args ftoa (request_set_expiry a b) = '' '' @ show_str a @ '' '' @ ftoa b"
| "expiry_request_args ftoa (request_get_expiry a) = '' '' @ show_str a"
| "expiry_request_args ftoa (request_clear_expiry a) = '' '' @ show_str a"

primrec primitive_request_args :: "(float_t \<Rightarrow> string) \<Rightarrow> primitive_request \<Rightarrow> string" where
  "primitive_request_args ftoa (request_str_set a b) = '' '' @ show_str a @ '' '' @ show_str b"
| "primitive_request_args ftoa (request_int_set a b) = '' '' @ show_str a @ '' '' @ int_to_string b"
| "primitive_request_args ftoa (request_float_set a b) = '' '' @ show_str a @ '' '' @ ftoa b"
| "primitive_request_args ftoa (request_incr_int a b) = '' '' @ show_str a @ '' '' @ int_to_string b"
| "primitive_request_args ftoa (request_incr_float a b) = '' '' @ show_str a @ '' '' @ ftoa b"
| "primitive_request_args ftoa (request_str_len a) = '' '' @ show_str a"
| "primitive_request_args ftoa (request_many_get a) = '' '' @ show_list a"

primrec list_request_args :: "(float_t \<Rightarrow> string) \<Rightarrow> list_request \<Rightarrow> string" where
  "list_request_args ftoa (request_list_len a) = '' '' @ show_str a"
| "list_request_args ftoa (request_list_get a b) = '' '' @ show_str a @ '' '' @ int_to_string b"
| "list_request_args ftoa (request_list_set a b c) = '' '' @ show_str a @ '' '' @ int_to_string b @ '' '' @ show_str c"
| "list_request_args ftoa (request_list_push_left a b) = '' '' @ show_str a @ '' '' @ show_list b"
| "list_request_args ftoa (request_list_push_right a b) = '' '' @ show_str a @ '' '' @ show_list b"
| "list_request_args ftoa (request_list_pop_left a b) = '' '' @ show_str a @ '' '' @ int_to_string b"
| "list_request_args ftoa (request_list_pop_right a b) = '' '' @ show_str a @ '' '' @ int_to_string b"
| "list_request_args ftoa (request_list_range a b c) = '' '' @ show_str a @ '' '' @ int_to_string b @ '' '' @ int_to_string c"
| "list_request_args ftoa (request_list_trim a b c) = '' '' @ show_str a @ '' '' @ int_to_string b @ '' '' @ int_to_string c"
| "list_request_args ftoa (request_list_remove a b c) = '' '' @ show_str a @ '' '' @ show_str b @ '' '' @ int_to_string c"

primrec set_request_args :: "(float_t \<Rightarrow> string) \<Rightarrow> set_request \<Rightarrow> string" where
  "set_request_args ftoa (request_set_add a b) = '' '' @ show_str a @ '' '' @ show_set b"
| "set_request_args ftoa (request_set_all a) = '' '' @ show_str a"
| "set_request_args ftoa (request_set_remove a b) = '' '' @ show_str a @ '' '' @ int_to_string b"
| "set_request_args ftoa (request_set_discard a b) = '' '' @ show_str a @ '' '' @ show_set b"
| "set_request_args ftoa (request_set_len a) = '' '' @ show_str a"
| "set_request_args ftoa (request_set_contains a b) = '' '' @ show_str a @ '' '' @ show_str b"
| "set_request_args ftoa (request_set_move a b c) = '' '' @ show_str a @ '' '' @ show_str b @ '' '' @ show_str c"
| "set_request_args ftoa (request_set_union a) = '' '' @ show_list a"
| "set_request_args ftoa (request_set_union_into a b) = '' '' @ show_str a @ '' '' @ show_list b"
| "set_request_args ftoa (request_set_union_len a) = '' '' @ show_list a"
| "set_request_args ftoa (request_set_intersection a) = '' '' @ show_list a"
| "set_request_args ftoa (request_set_intersection_into a b) = '' '' @ show_str a @ '' '' @ show_list b"
| "set_request_args ftoa (request_set_intersection_len a) = '' '' @ show_list a"
| "set_request_args ftoa (request_set_difference a b) = '' '' @ show_str a @ '' '' @ show_str b"
| "set_request_args ftoa (request_set_difference_into a b c) = '' '' @ show_str a @ '' '' @ show_str b @ '' '' @ show_str c"
| "set_request_args ftoa (request_set_difference_len a b) = '' '' @ show_str a @ '' '' @ show_str b"

primrec hash_request_args :: "(float_t \<Rightarrow> string) \<Rightarrow> hash_request \<Rightarrow> string" where
  "hash_request_args ftoa (request_hash_set a b) = '' '' @ show_str a @ '' '' @ show_hash b"
| "hash_request_args ftoa (request_hash_all a) = '' '' @ show_str a"
| "hash_request_args ftoa (request_hash_get a b) = '' '' @ show_str a @ '' '' @ show_str b"
| "hash_request_args ftoa (request_hash_contains a b) = '' '' @ show_str a @ '' '' @ show_str b"
| "hash_request_args ftoa (request_hash_len a) = '' '' @ show_str a"
| "hash_request_args ftoa (request_hash_key_len a b) = '' '' @ show_str a @ '' '' @ show_str b"
| "hash_request_args ftoa (request_hash_remove a b) = '' '' @ show_str a @ '' '' @ show_list b"
| "hash_request_args ftoa (request_hash_keys a) = '' '' @ show_str a"
| "hash_request_args ftoa (request_hash_values a) = '' '' @ show_str a"
| "hash_request_args ftoa (request_hash_update a b) = '' '' @ show_str a @ '' '' @ show_hash b"
| "hash_request_args ftoa (request_hash_many_get a b) = '' '' @ show_str a @ '' '' @ show_list b"

primrec cluster_request_args :: "(float_t \<Rightarrow> string) \<Rightarrow> cluster_request \<Rightarrow> string" where
  "cluster_request_args ftoa (request_cluster_join a b c d) = '' '' @ show_str a @ '' '' @ show_str b @ '' '' @ show_str c @ '' '' @ int_to_string d"
| "cluster_request_args ftoa request_cluster_key = []"
| "cluster_request_args ftoa request_cluster_id = []"
| "cluster_request_args ftoa request_cluster_leave = []"
| "cluster_request_args ftoa (request_cluster_new a b) = '' '' @ show_str a @ '' '' @ show_str b"
| "cluster_request_args ftoa request_peers = []"
| "cluster_request_args ftoa request_peer_ids = []"
| "cluster_request_args ftoa (request_peer_auth a b c d) = '' '' @ int_to_string a @ '' '' @ show_str b @ '' '' @ show_str c @ '' '' @ show_str d"

primrec request_args :: "(float_t \<Rightarrow> string) \<Rightarrow> request \<Rightarrow> string" where
  "request_args ftoa request_pipe = []"
| "request_args ftoa (Server_Request r) = server_request_args ftoa r"
| "request_args ftoa (Auth_Request r) = auth_request_args ftoa r"
| "request_args ftoa (Transact_Request r) = transact_request_args ftoa r"
| "request_args ftoa (Pubsub_Request r) = pubsub_request_args ftoa r"
| "request_args ftoa (General_Request r) = general_request_args ftoa r"
| "request_args ftoa (Expiry_Request r) = expiry_request_args ftoa r"
| "request_args ftoa (Primitive_Request r) = primitive_request_args ftoa r"
| "request_args ftoa (List_Request r) = list_request_args ftoa r"
| "request_args ftoa (Set_Request r) = set_request_args ftoa r"
| "request_args ftoa (Hash_Request r) = hash_request_args ftoa r"
| "request_args ftoa (Cluster_Request r) = cluster_request_args ftoa r"

definition show_request :: "(float_t \<Rightarrow> string) \<Rightarrow> request \<Rightarrow> string" where
  "show_request ftoa r = operation.word_of (request_op r) @ request_args ftoa r"

text \<open>The arguments that can be written: integers of 64 bits, sets and hashes without duplicates,
  arrays that fit into memory.\<close>

primrec valid_server_request :: "platform \<Rightarrow> server_request \<Rightarrow> bool" where
  "valid_server_request pf request_exit \<longleftrightarrow> True"
| "valid_server_request pf request_terminate \<longleftrightarrow> True"
| "valid_server_request pf request_ping \<longleftrightarrow> True"
| "valid_server_request pf (request_bind a b) \<longleftrightarrow> int64_ok b"
| "valid_server_request pf (request_unbind a b) \<longleftrightarrow> int64_ok b"
| "valid_server_request pf request_persist \<longleftrightarrow> True"

primrec valid_auth_request :: "platform \<Rightarrow> auth_request \<Rightarrow> bool" where
  "valid_auth_request pf (request_add_user a b) \<longleftrightarrow> True"
| "valid_auth_request pf (request_edit_user a b) \<longleftrightarrow> True"
| "valid_auth_request pf (request_del_user a) \<longleftrightarrow> True"
| "valid_auth_request pf (request_auth a b) \<longleftrightarrow> True"
| "valid_auth_request pf (request_change_password a) \<longleftrightarrow> True"
| "valid_auth_request pf request_auth_level \<longleftrightarrow> True"
| "valid_auth_request pf request_username \<longleftrightarrow> True"

primrec valid_transact_request :: "platform \<Rightarrow> transact_request \<Rightarrow> bool" where
  "valid_transact_request pf request_transact_begin \<longleftrightarrow> True"
| "valid_transact_request pf request_transact_commit \<longleftrightarrow> True"
| "valid_transact_request pf request_transact_discard \<longleftrightarrow> True"

primrec valid_pubsub_request :: "platform \<Rightarrow> pubsub_request \<Rightarrow> bool" where
  "valid_pubsub_request pf (request_publish a b) \<longleftrightarrow> True"
| "valid_pubsub_request pf (request_subscribe a) \<longleftrightarrow> True"
| "valid_pubsub_request pf request_subscribed \<longleftrightarrow> True"
| "valid_pubsub_request pf (request_unsubscribe a) \<longleftrightarrow> True"
| "valid_pubsub_request pf request_unsubscribe_all \<longleftrightarrow> True"

primrec valid_general_request :: "platform \<Rightarrow> general_request \<Rightarrow> bool" where
  "valid_general_request pf (request_switch_db a) \<longleftrightarrow> int64_ok a"
| "valid_general_request pf (request_del a) \<longleftrightarrow> True"
| "valid_general_request pf (request_type a) \<longleftrightarrow> True"
| "valid_general_request pf (request_exists a) \<longleftrightarrow> True"
| "valid_general_request pf request_reset \<longleftrightarrow> True"
| "valid_general_request pf request_keys \<longleftrightarrow> True"
| "valid_general_request pf (request_copy_to a b) \<longleftrightarrow> True"
| "valid_general_request pf (request_move_to a b) \<longleftrightarrow> True"
| "valid_general_request pf (request_copy_to_db a b) \<longleftrightarrow> int64_ok b"
| "valid_general_request pf (request_move_to_db a b) \<longleftrightarrow> int64_ok b"
| "valid_general_request pf (request_get a) \<longleftrightarrow> True"

primrec valid_expiry_request :: "platform \<Rightarrow> expiry_request \<Rightarrow> bool" where
  "valid_expiry_request pf (request_set_expiry a b) \<longleftrightarrow> True"
| "valid_expiry_request pf (request_get_expiry a) \<longleftrightarrow> True"
| "valid_expiry_request pf (request_clear_expiry a) \<longleftrightarrow> True"

primrec valid_primitive_request :: "platform \<Rightarrow> primitive_request \<Rightarrow> bool" where
  "valid_primitive_request pf (request_str_set a b) \<longleftrightarrow> True"
| "valid_primitive_request pf (request_int_set a b) \<longleftrightarrow> int64_ok b"
| "valid_primitive_request pf (request_float_set a b) \<longleftrightarrow> True"
| "valid_primitive_request pf (request_incr_int a b) \<longleftrightarrow> int64_ok b"
| "valid_primitive_request pf (request_incr_float a b) \<longleftrightarrow> True"
| "valid_primitive_request pf (request_str_len a) \<longleftrightarrow> True"
| "valid_primitive_request pf (request_many_get a) \<longleftrightarrow> can_reserve pf (length a)"

primrec valid_list_request :: "platform \<Rightarrow> list_request \<Rightarrow> bool" where
  "valid_list_request pf (request_list_len a) \<longleftrightarrow> True"
| "valid_list_request pf (request_list_get a b) \<longleftrightarrow> int64_ok b"
| "valid_list_request pf (request_list_set a b c) \<longleftrightarrow> int64_ok b"
| "valid_list_request pf (request_list_push_left a b) \<longleftrightarrow> True"
| "valid_list_request pf (request_list_push_right a b) \<longleftrightarrow> True"
| "valid_list_request pf (request_list_pop_left a b) \<longleftrightarrow> int64_ok b"
| "valid_list_request pf (request_list_pop_right a b) \<longleftrightarrow> int64_ok b"
| "valid_list_request pf (request_list_range a b c) \<longleftrightarrow> int64_ok b \<and> int64_ok c"
| "valid_list_request pf (request_list_trim a b c) \<longleftrightarrow> int64_ok b \<and> int64_ok c"
| "valid_list_request pf (request_list_remove a b c) \<longleftrightarrow> int64_ok c"

primrec valid_set_request :: "platform \<Rightarrow> set_request \<Rightarrow> bool" where
  "valid_set_request pf (request_set_add a b) \<longleftrightarrow> distinct b"
| "valid_set_request pf (request_set_all a) \<longleftrightarrow> True"
| "valid_set_request pf (request_set_remove a b) \<longleftrightarrow> int64_ok b"
| "valid_set_request pf (request_set_discard a b) \<longleftrightarrow> distinct b"
| "valid_set_request pf (request_set_len a) \<longleftrightarrow> True"
| "valid_set_request pf (request_set_contains a b) \<longleftrightarrow> True"
| "valid_set_request pf (request_set_move a b c) \<longleftrightarrow> True"
| "valid_set_request pf (request_set_union a) \<longleftrightarrow> can_reserve pf (length a)"
| "valid_set_request pf (request_set_union_into a b) \<longleftrightarrow> can_reserve pf (length b)"
| "valid_set_request pf (request_set_union_len a) \<longleftrightarrow> can_reserve pf (length a)"
| "valid_set_request pf (request_set_intersection a) \<longleftrightarrow> can_reserve pf (length a)"
| "valid_set_request pf (request_set_intersection_into a b) \<longleftrightarrow> can_reserve pf (length b)"
| "valid_set_request pf (request_set_intersection_len a) \<longleftrightarrow> can_reserve pf (length a)"
| "valid_set_request pf (request_set_difference a b) \<longleftrightarrow> True"
| "valid_set_request pf (request_set_difference_into a b c) \<longleftrightarrow> True"
| "valid_set_request pf (request_set_difference_len a b) \<longleftrightarrow> True"

primrec valid_hash_request :: "platform \<Rightarrow> hash_request \<Rightarrow> bool" where
  "valid_hash_request pf (request_hash_set a b) \<longleftrightarrow> distinct (map fst b)"
| "valid_hash_request pf (request_hash_all a) \<longleftrightarrow> True"
| "valid_hash_request pf (request_hash_get a b) \<longleftrightarrow> True"
| "valid_hash_request pf (request_hash_contains a b) \<longleftrightarrow> True"
| "valid_hash_request pf (request_hash_len a) \<longleftrightarrow> True"
| "valid_hash_request pf (request_hash_key_len a b) \<longleftrightarrow> True"
| "valid_hash_request pf (request_hash_remove a b) \<longleftrightarrow> can_reserve pf (length b)"
| "valid_hash_request pf (request_hash_keys a) \<longleftrightarrow> True"
| "valid_hash_request pf (request_hash_values a) \<longleftrightarrow> True"
| "valid_hash_request pf (request_hash_update a b) \<longleftrightarrow> distinct (map fst b)"
| "valid_hash_request pf (request_hash_many_get a b) \<longleftrightarrow> can_reserve pf (length b)"

primrec valid_cluster_request :: "platform \<Rightarrow> cluster_request \<Rightarrow> bool" where
  "valid_cluster_request pf (request_cluster_join a b c d) \<longleftrightarrow> int64_ok d"
| "valid_cluster_request pf request_cluster_key \<longleftrightarrow> True"
| "valid_cluster_request pf request_cluster_id \<longleftrightarrow> True"
| "valid_cluster_request pf request_cluster_leave \<longleftrightarrow> True"
| "valid_cluster_request pf (request_cluster_new a b) \<longleftrightarrow> True"
| "valid_cluster_request pf request_peers \<longleftrightarrow> True"
| "valid_cluster_request pf request_peer_ids \<longleftrightarrow> True"
| "valid_cluster_request pf (request_peer_auth a b c d) \<longleftrightarrow> int64_ok a"

primrec valid_request :: "platform \<Rightarrow> request \<Rightarrow> bool" where
  "valid_request pf request_pipe \<longleftrightarrow> False"
| "valid_request pf (Server_Request r) \<longleftrightarrow> valid_server_request pf r"
| "valid_request pf (Auth_Request r) \<longleftrightarrow> valid_auth_request pf r"
| "valid_request pf (Transact_Request r) \<longleftrightarrow> valid_transact_request pf r"
| "valid_request pf (Pubsub_Request r) \<longleftrightarrow> valid_pubsub_request pf r"
| "valid_request pf (General_Request r) \<longleftrightarrow> valid_general_request pf r"
| "valid_request pf (Expiry_Request r) \<longleftrightarrow> valid_expiry_request pf r"
| "valid_request pf (Primitive_Request r) \<longleftrightarrow> valid_primitive_request pf r"
| "valid_request pf (List_Request r) \<longleftrightarrow> valid_list_request pf r"
| "valid_request pf (Set_Request r) \<longleftrightarrow> valid_set_request pf r"
| "valid_request pf (Hash_Request r) \<longleftrightarrow> valid_hash_request pf r"
| "valid_request pf (Cluster_Request r) \<longleftrightarrow> valid_cluster_request pf r"

section \<open>Requests are read back\<close>

text \<open>The formats of the argument lists that occur.\<close>

lemmas str_str_wire = wire_pair [OF str.wire_format_axioms str.wire_format_axioms]
  and str_int_wire = wire_pair [OF str.wire_format_axioms int.wire_format_axioms]
  and str_list_wire = wire_pair [OF str.wire_format_axioms list.wire_format_axioms]
  and str_arr_wire = wire_pair [OF str.wire_format_axioms arr.wire_format_axioms]
  and str_set_wire = wire_pair [OF str.wire_format_axioms uset.wire_format_axioms]
  and str_hash_wire = wire_pair [OF str.wire_format_axioms hash.wire_format_axioms]
  and str_auth_wire = wire_pair [OF str.wire_format_axioms auth_level.wire_format_axioms]
  and str_float_wire = wire_pair [OF str.wire_format_axioms float_wire]

lemma no_digit_space: "no_digit (CHR '' '' # s)"
  by (simp add: no_digit_def is_digit_def)

lemmas int_str_wire = wire_pair [OF int.wire_format_axioms str.wire_format_axioms no_digit_space]
  and int_int_wire = wire_pair [OF int.wire_format_axioms int.wire_format_axioms no_digit_space]

lemmas str_int_str_wire = wire_pair [OF str.wire_format_axioms int_str_wire]
  and str_int_int_wire = wire_pair [OF str.wire_format_axioms int_int_wire]
  and str_str_int_wire = wire_pair [OF str.wire_format_axioms str_int_wire]
  and str_str_str_wire = wire_pair [OF str.wire_format_axioms str_str_wire]

lemmas str_str_str_int_wire = wire_pair [OF str.wire_format_axioms str_str_int_wire]
  and int_str_str_str_wire = wire_pair [OF int.wire_format_axioms str_str_str_wire no_digit_space]

text \<open>The same laws as equations, for arguments written after one space.\<close>

lemmas read_one = str.reads [where ws = "'' ''", simplified] int.reads [where ws = "'' ''", simplified]
  arr.reads [where ws = "'' ''", simplified]

lemmas read_two = wire_format.reads [OF str_str_wire, where a = "(a, b)" and ws = "'' ''" for a b, simplified show_pair_def, simplified]
  wire_format.reads [OF str_int_wire, where a = "(a, b)" and ws = "'' ''" for a b, simplified show_pair_def, simplified]
  wire_format.reads [OF str_list_wire, where a = "(a, b)" and ws = "'' ''" for a b, simplified show_pair_def, simplified]
  wire_format.reads [OF str_arr_wire, where a = "(a, b)" and ws = "'' ''" for a b, simplified show_pair_def, simplified]
  wire_format.reads [OF str_set_wire, where a = "(a, b)" and ws = "'' ''" for a b, simplified show_pair_def, simplified]
  wire_format.reads [OF str_hash_wire, where a = "(a, b)" and ws = "'' ''" for a b, simplified show_pair_def, simplified]
  wire_format.reads [OF str_auth_wire, where a = "(a, b)" and ws = "'' ''" for a b, simplified show_pair_def, simplified]
  wire_format.reads [OF str_float_wire, where a = "(a, b)" and ws = "'' ''" for a b, simplified show_pair_def, simplified]

lemmas read_more =
  wire_format.reads [OF str_int_str_wire, where a = "(a, b, c)" and ws = "'' ''" for a b c, simplified show_pair_def, simplified]
  wire_format.reads [OF str_int_int_wire, where a = "(a, b, c)" and ws = "'' ''" for a b c, simplified show_pair_def, simplified]
  wire_format.reads [OF str_str_int_wire, where a = "(a, b, c)" and ws = "'' ''" for a b c, simplified show_pair_def, simplified]
  wire_format.reads [OF str_str_str_wire, where a = "(a, b, c)" and ws = "'' ''" for a b c, simplified show_pair_def, simplified]
  wire_format.reads [OF str_str_str_int_wire, where a = "(a, b, c, d)" and ws = "'' ''" for a b c d, simplified show_pair_def, simplified]
  wire_format.reads [OF int_str_str_str_wire, where a = "(a, b, c, d)" and ws = "'' ''" for a b c d, simplified show_pair_def, simplified]

text \<open>The end of a request.\<close>

lemma ensure_end_at: "spaces rest \<Longrightarrow> ensure_end (at pre rest) = (Inr (), at (pre @ rest) [])"
proof -
  assume "spaces rest"
  then have "takeWhile is_space rest = rest" by (simp add: spaces_def)
  then show ?thesis
    by (simp add: ensure_end_def bind_e_def skip_whitespace_def at_def at_end_def del: takeWhile_eq_all_conv)
qed

text \<open>Two requests are always the last of their message.\<close>

definition last_request :: "request \<Rightarrow> bool" where
  "last_request r \<longleftrightarrow> r = Server_Request request_exit \<or> r = Server_Request request_terminate"

definition ends_here :: "bool \<Rightarrow> request \<Rightarrow> bool" where
  "ends_here end_here r \<longleftrightarrow> end_here \<or> last_request r"

lemmas read_request_simps = map_e_def get_exact_def bind_e_def return_e_def ensure_end_if_def ensure_end_at
  separated_follow read_one read_two read_more ends_here_def last_request_def

lemma read_request_args:
  assumes "valid_request pf r" and "float_format pf ftoa" and "separated rest" and "ends_here e r \<longrightarrow> spaces rest"
    and "fits_size (pre @ request_args ftoa r @ rest)"
  shows "read_request pf (request_op r) e (at pre (request_args ftoa r @ rest)) =
    (Inr r, if ends_here e r then at (pre @ request_args ftoa r @ rest) [] else at (pre @ request_args ftoa r) rest)"
proof (cases r)
  case request_pipe
  then show ?thesis using assms(1) by simp
next
  case (Server_Request x)
  then show ?thesis using assms by (cases x) (simp_all add: read_request_simps)
next
  case (Auth_Request x)
  then show ?thesis using assms by (cases x) (simp_all add: read_request_simps)
next
  case (Transact_Request x)
  then show ?thesis using assms by (cases x) (simp_all add: read_request_simps)
next
  case (Pubsub_Request x)
  then show ?thesis using assms by (cases x) (simp_all add: read_request_simps)
next
  case (General_Request x)
  then show ?thesis using assms by (cases x) (simp_all add: read_request_simps)
next
  case (Expiry_Request x)
  then show ?thesis using assms by (cases x) (simp_all add: read_request_simps)
next
  case (Primitive_Request x)
  then show ?thesis using assms by (cases x) (simp_all add: read_request_simps)
next
  case (List_Request x)
  then show ?thesis using assms by (cases x) (simp_all add: read_request_simps)
next
  case (Set_Request x)
  then show ?thesis using assms by (cases x) (simp_all add: read_request_simps)
next
  case (Hash_Request x)
  then show ?thesis using assms by (cases x) (simp_all add: read_request_simps)
next
  case (Cluster_Request x)
  then show ?thesis using assms by (cases x) (simp_all add: read_request_simps)
qed

lemma request_args_separated: "separated rest \<Longrightarrow> separated (request_args ftoa r @ rest)"
proof (cases r)
  case request_pipe
  then show "separated rest \<Longrightarrow> ?thesis" by simp
next
  case (Server_Request x)
  then show "separated rest \<Longrightarrow> ?thesis" by (cases x) (simp_all add: separated_def)
next
  case (Auth_Request x)
  then show "separated rest \<Longrightarrow> ?thesis" by (cases x) (simp_all add: separated_def)
next
  case (Transact_Request x)
  then show "separated rest \<Longrightarrow> ?thesis" by (cases x) (simp_all add: separated_def)
next
  case (Pubsub_Request x)
  then show "separated rest \<Longrightarrow> ?thesis" by (cases x) (simp_all add: separated_def)
next
  case (General_Request x)
  then show "separated rest \<Longrightarrow> ?thesis" by (cases x) (simp_all add: separated_def)
next
  case (Expiry_Request x)
  then show "separated rest \<Longrightarrow> ?thesis" by (cases x) (simp_all add: separated_def)
next
  case (Primitive_Request x)
  then show "separated rest \<Longrightarrow> ?thesis" by (cases x) (simp_all add: separated_def)
next
  case (List_Request x)
  then show "separated rest \<Longrightarrow> ?thesis" by (cases x) (simp_all add: separated_def)
next
  case (Set_Request x)
  then show "separated rest \<Longrightarrow> ?thesis" by (cases x) (simp_all add: separated_def)
next
  case (Hash_Request x)
  then show "separated rest \<Longrightarrow> ?thesis" by (cases x) (simp_all add: separated_def)
next
  case (Cluster_Request x)
  then show "separated rest \<Longrightarrow> ?thesis" by (cases x) (simp_all add: separated_def)
qed

text \<open>The operation is read, or only looked at.\<close>

lemma operation_at:
  assumes "separated rest" and "spaces ws" and "fits_size (pre @ ws @ operation.word_of op @ rest)"
  shows "get_operation (at pre (ws @ operation.word_of op @ rest)) = (Inr op, at (pre @ ws @ operation.word_of op) rest)"
    and "peek_operation (at pre (ws @ operation.word_of op @ rest)) = (Inr op, at (pre @ ws) (operation.word_of op @ rest))"
  using operation.word.reads [OF operation_listed] operation.peeks [OF operation_listed] separated_follow [OF assms(1)] assms
  by (simp_all add: get_operation_def peek_operation_def)

text \<open>A request in the documented format, after white space, as \<^verbatim>\<open>dispatch\<close> reads it.\<close>

lemma show_request_read:
  assumes "valid_request pf r" and "float_format pf ftoa" and "separated rest" and "ends_here e r \<longrightarrow> spaces rest"
    and "spaces ws" and "fits_size (pre @ ws @ show_request ftoa r @ rest)"
  shows "bind_e get_operation (\<lambda>op. read_request pf op e) (at pre (ws @ show_request ftoa r @ rest)) =
    (Inr r, if ends_here e r then at (pre @ ws @ show_request ftoa r @ rest) [] else at (pre @ ws @ show_request ftoa r) rest)"
proof -
  let ?pre = "pre @ ws @ operation.word_of (request_op r)"
  have "get_operation (at pre (ws @ operation.word_of (request_op r) @ request_args ftoa r @ rest)) =
      (Inr (request_op r), at ?pre (request_args ftoa r @ rest))"
    by (rule operation_at(1)) (use assms request_args_separated in \<open>simp_all add: show_request_def\<close>)
  moreover have "read_request pf (request_op r) e (at ?pre (request_args ftoa r @ rest)) =
      (Inr r, if ends_here e r then at (?pre @ request_args ftoa r @ rest) [] else at (?pre @ request_args ftoa r) rest)"
    by (rule read_request_args) (use assms in \<open>simp_all add: show_request_def\<close>)
  ultimately show ?thesis by (simp add: bind_e_run show_request_def)
qed

text \<open>Extraction stays inside the message for every operation.\<close>

lemma safe_read_request [safe_intros]: "sound_platform pf \<Longrightarrow> safe (read_request pf op e)"
  by (cases op) (simp_all add: safe_intros)

lemma safe_dry_dispatch [safe_intros]: "sound_platform pf \<Longrightarrow> safe (dry_dispatch pf e)"
proof -
  assume "sound_platform pf"
  then have "safe (dry_read pf op e)" for op by (cases op) (simp_all add: safe_intros)
  then show ?thesis by (simp add: dry_dispatch_def get_operation_def safe_intros)
qed

text \<open>\<^verbatim>\<open>dry_dispatch\<close> skips what \<^verbatim>\<open>dispatch\<close> reads, but for four operations.\<close>

lemma map_e_map_e: "map_e f (map_e g m) = map_e (f \<circ> g) m"
  by (rule ext) (simp add: map_e_def bind_e_def return_e_def split: prod.splits sum.splits)

lemma map_e_unit: "map_e (\<lambda>_. ()) m = m"
  by (rule ext) (simp add: map_e_def bind_e_def return_e_def split: prod.splits sum.splits)

lemma dry_read_skips:
  assumes "op \<notin> {PIPE, CLUSTER_JOIN, CLUSTER_NEW, PEER_AUTH}"
  shows "dry_read pf op e = map_e (\<lambda>_. ()) (read_request pf op e)"
  using assms by (cases op) (simp_all add: map_e_map_e comp_def case_prod_unfold map_e_unit)

end
