(* ===== verification/Response.thy ===== *)
theory Response
  imports Extractable
begin

text \<open>
  \<^verbatim>\<open>vanity/response\<close>: how responses and peer messages are composed. A \<^verbatim>\<open>Response\<close> is the text that
  was added to it; the four bytes of the length that precede it on the wire are the subject of
  \<open>Framing\<close>. Each overload of \<^verbatim>\<open>serialize\<close> is a function of its own. The text of a
  double (\<^verbatim>\<open>std::to_string(double)\<close>) is a parameter.
\<close>

type_synonym response = string

section \<open>Responses\<close>

datatype Status = ok_status | null_status | pong_status | denied_status | error_status | bad_type_status
  | bad_request_status | internal_error_status | async_status

text \<open>\<^verbatim>\<open>Response::operator<<(Status)\<close> with the words of \<^verbatim>\<open>status_value\<close>.\<close>

fun status_text :: "Status \<Rightarrow> string" where
  "status_text ok_status = ''OK''"
| "status_text error_status = ''ERROR''"
| "status_text null_status = ''NULL''"
| "status_text pong_status = ''PONG''"
| "status_text denied_status = ''DENIED''"
| "status_text internal_error_status = ''INTERNAL_ERROR''"
| "status_text bad_type_status = ''BAD_TYPE''"
| "status_text bad_request_status = ''BAD_REQUEST''"
| "status_text async_status = ''ASYNC''"

text \<open>\<^verbatim>\<open>type_to_string\<close>.\<close>

datatype value_type = bool_type | int_type | float_type | str_type | null_type | arr_type | tuple_type
  | list_type | set_type | hash_type | auth_type | err_type | publish_type

fun type_to_string :: "value_type \<Rightarrow> string" where
  "type_to_string bool_type = '':BOOL''"
| "type_to_string int_type = '':INT''"
| "type_to_string float_type = '':FLOAT''"
| "type_to_string str_type = '':STR''"
| "type_to_string null_type = '':NULL''"
| "type_to_string arr_type = '':ARR''"
| "type_to_string tuple_type = '':TUPLE''"
| "type_to_string list_type = '':LIST''"
| "type_to_string set_type = '':SET''"
| "type_to_string hash_type = '':HASH''"
| "type_to_string auth_type = '':AUTH_LEVEL''"
| "type_to_string err_type = '':ERR''"
| "type_to_string publish_type = '':PUBLISH ''"

definition serialize_type :: "value_type \<Rightarrow> response \<Rightarrow> response" where
  "serialize_type t r = r @ type_to_string t"

definition serialize_length :: "nat \<Rightarrow> response \<Rightarrow> response" where
  "serialize_length n r = r @ ''('' @ to_string n @ '')''"

definition serialize_string_body :: "string \<Rightarrow> response \<Rightarrow> response" where
  "serialize_string_body s r = serialize_length (length s) r @ s"

definition serialize_bool :: "bool \<Rightarrow> response \<Rightarrow> response" where
  "serialize_bool b r = serialize_type bool_type r @ (if b then ''true'' else ''false'')"

definition serialize_str :: "string \<Rightarrow> response \<Rightarrow> response" where
  "serialize_str s r = serialize_string_body s (serialize_type str_type r)"

definition serialize_int :: "int \<Rightarrow> response \<Rightarrow> response" where
  "serialize_int i r = serialize_type int_type r @ int_to_string i"

text \<open>\<^verbatim>\<open>int64_t(data)\<close> of a \<^verbatim>\<open>size_t\<close>.\<close>

definition size_to_int64 :: "nat \<Rightarrow> int" where
  "size_to_int64 n = (if n < 2 ^ 63 then int n else int n - 2 ^ 64)"

definition serialize_size :: "nat \<Rightarrow> response \<Rightarrow> response" where
  "serialize_size n r = serialize_int (size_to_int64 n) r"

definition serialize_float :: "(float_t \<Rightarrow> string) \<Rightarrow> float_t \<Rightarrow> response \<Rightarrow> response" where
  "serialize_float ftoa f r = serialize_type float_type r @ ftoa f"

definition serialize_list :: "list_t \<Rightarrow> response \<Rightarrow> response" where
  "serialize_list l r =
     fold serialize_string_body l (serialize_length (length l) (serialize_type list_type r) @ ''['') @ '']''"

definition serialize_set :: "set_t \<Rightarrow> response \<Rightarrow> response" where
  "serialize_set s r =
     fold serialize_string_body s (serialize_length (length s) (serialize_type set_type r) @ [CHR 0x7B]) @ [CHR 0x7D]"

definition serialize_pair :: "string \<times> string \<Rightarrow> response \<Rightarrow> response" where
  "serialize_pair p r = serialize_string_body (snd p) (serialize_string_body (fst p) r)"

definition serialize_hash :: "hash_t \<Rightarrow> response \<Rightarrow> response" where
  "serialize_hash h r =
     fold serialize_pair h
       (serialize_length (length h) (serialize_type hash_type r) @ [CHR 0x7B]) @ [CHR 0x7D]"

text \<open>\<^verbatim>\<open>serialize(const primary_serialize_type&)\<close>, by the index of the variant.\<close>

fun serialize_data :: "(float_t \<Rightarrow> string) \<Rightarrow> data_type \<Rightarrow> response \<Rightarrow> response" where
  "serialize_data ftoa (VStr s) r = serialize_str s r"
| "serialize_data ftoa (VInt i) r = serialize_int i r"
| "serialize_data ftoa (VFloat f) r = serialize_float ftoa f r"
| "serialize_data ftoa (VList l) r = serialize_list l r"
| "serialize_data ftoa (VSet s) r = serialize_set s r"
| "serialize_data ftoa (VHash h) r = serialize_hash h r"

fun auth_text :: "client_auth \<Rightarrow> string" where
  "auth_text USER = ''USER''"
| "auth_text ADMIN = ''ADMIN''"
| "auth_text UNKNOWN = ''UNKNOWN''"
| "auth_text PEER = ''PEER''"

definition serialize_auth :: "client_auth \<Rightarrow> response \<Rightarrow> response" where
  "serialize_auth a r = serialize_type auth_type r @ auth_text a"

definition serialize_error :: "string \<Rightarrow> response \<Rightarrow> response" where
  "serialize_error err r = serialize_string_body err (serialize_type err_type r)"

definition serialize_option :: "('a \<Rightarrow> response \<Rightarrow> response) \<Rightarrow> 'a option \<Rightarrow> response \<Rightarrow> response" where
  "serialize_option f v r = (case v of Some a \<Rightarrow> f a r | None \<Rightarrow> serialize_type null_type r)"

definition serialize_arr :: "string list \<Rightarrow> response \<Rightarrow> response" where
  "serialize_arr l r =
     fold serialize_string_body l (serialize_length (length l) (serialize_type arr_type r) @ ''['') @ '']''"

definition serialize_tuple :: "('a \<Rightarrow> response \<Rightarrow> response) \<Rightarrow> 'a list \<Rightarrow> response \<Rightarrow> response" where
  "serialize_tuple f l r = fold f l (serialize_length (length l) (serialize_type tuple_type r) @ ''('') @ '')''"

section \<open>Shortcuts\<close>

text \<open>\<^verbatim>\<open>response_server.h\<close>; \<open>ser\<close> is the overload of \<^verbatim>\<open>serialize\<close> for the type of the data.\<close>

definition empty_response :: "Status \<Rightarrow> response" where
  "empty_response st = status_text st"

definition value_response :: "Status \<Rightarrow> ('a \<Rightarrow> response \<Rightarrow> response) \<Rightarrow> 'a \<Rightarrow> response" where
  "value_response st ser a = ser a (empty_response st)"

definition error_response :: "Status \<Rightarrow> string \<Rightarrow> response" where
  "error_response st body = serialize_error body (empty_response st)"

definition ok_value :: "('a \<Rightarrow> response \<Rightarrow> response) \<Rightarrow> 'a \<Rightarrow> response" where
  "ok_value = value_response ok_status"

definition ok :: response where
  "ok = empty_response ok_status"

definition null :: response where
  "null = empty_response null_status"

definition pong :: response where
  "pong = empty_response pong_status"

definition denied :: response where
  "denied = empty_response denied_status"

definition error :: "string \<Rightarrow> response" where
  "error = error_response error_status"

definition bad_type :: "string \<Rightarrow> response" where
  "bad_type = error_response bad_type_status"

definition bad_request :: "string \<Rightarrow> response" where
  "bad_request = error_response bad_request_status"

definition internal_error :: "string \<Rightarrow> response" where
  "internal_error = error_response internal_error_status"

definition async :: "('a \<Rightarrow> response \<Rightarrow> response) \<Rightarrow> 'a \<Rightarrow> response" where
  "async = value_response async_status"

text \<open>\<^verbatim>\<open>AggregateResponse\<close>. It appends a body as a C string, so only up to its first zero byte.\<close>

definition aggregate_response :: "nat \<Rightarrow> response" where
  "aggregate_response n = serialize_length n (status_text ok_status @ '':AGG'')"

definition aggregate_append :: "response \<Rightarrow> response \<Rightarrow> response" where
  "aggregate_append body r = r @ takeWhile (\<lambda>c. c \<noteq> CHR 0x00) body"

section \<open>Serialized values are read back\<close>

lemma serialize_length_show: "serialize_length n r = r @ show_len n"
  by (simp add: serialize_length_def show_len_def)

lemma serialize_string_body_show: "serialize_string_body s r = r @ show_str s"
  by (simp add: serialize_string_body_def serialize_length_show show_str_def)

lemma fold_serialize_string_body: "fold serialize_string_body l r = r @ concat (map show_str l)"
  by (induction l arbitrary: r) (simp_all add: serialize_string_body_show)

lemma fold_serialize_pairs:
  "fold serialize_pair h r = r @ concat (map show_str_pair h)"
  by (induction h arbitrary: r) (simp_all add: serialize_pair_def serialize_string_body_show)

text \<open>A response is written in the format in which requests are read: type, then value.\<close>

lemma serialize_show:
  "serialize_str s r = r @ '':STR'' @ show_str s"
  "serialize_int i r = r @ '':INT'' @ int_to_string i"
  "serialize_list l r = r @ '':LIST'' @ show_list l"
  "serialize_set v r = r @ '':SET'' @ show_set v"
  "serialize_hash h r = r @ '':HASH'' @ show_hash h"
  "serialize_arr l r = r @ '':ARR'' @ show_list l"
  by (simp_all add: serialize_str_def serialize_int_def serialize_list_def serialize_set_def serialize_hash_def
      serialize_arr_def serialize_type_def serialize_string_body_show serialize_length_show
      fold_serialize_string_body fold_serialize_pairs show_list_def show_set_def show_hash_def show_seq_def)

text \<open>The response to a read determines the value that was read.\<close>

lemma serialize_float_show: "serialize_float ftoa f r = r @ '':FLOAT'' @ ftoa f"
  by (simp add: serialize_float_def serialize_type_def)

lemma fits_append: "fits_size (a @ b) \<Longrightarrow> fits_size b"
  by (simp add: fits_size_def)

lemma serialize_data_injective:
  assumes "wf_value v" and "wf_value w" and "inj ftoa" and "fits_size (serialize_data ftoa v r)"
    and "serialize_data ftoa v r = serialize_data ftoa w r"
  shows "v = w"
proof -
  have fits: "fits_size (drop (length r) (serialize_data ftoa v r))"
    using assms(4) fits_append [of "take (length r) (serialize_data ftoa v r)"] by simp
  have nil: "no_digit []" by (simp add: no_digit_def)
  show ?thesis
    using assms(1,2,5) fits str.show_injective int.show_injective [OF _ _ nil] list.show_injective
      uset.show_injective hash.show_injective injD [OF assms(3)]
    by (cases v; cases w) (auto simp: serialize_show serialize_float_show fits_size_def)
qed

end
