(* ===== verification/Request_Server.thy ===== *)
theory Request_Server
  imports Request Response
begin

text \<open>
  \<^verbatim>\<open>vanity/request/request_server.cpp\<close>, the two functions \<^verbatim>\<open>dispatch\<close> and \<^verbatim>\<open>dry_dispatch\<close> of
  \<^verbatim>\<open>request_handler.cpp\<close>, \<^verbatim>\<open>vanity/pipe_server.cpp\<close> and \<^verbatim>\<open>vanity/client/aggregating_client.h\<close>: from a message
  to the calls of the handlers and the responses.

  The handlers are virtual methods, so they are an argument here: a handler takes the number of pipes
  it runs in, the request and the state, and gives its result, the responses it sends to the client,
  and the new state. \<open>auth_of\<close> is the level of authentication of the client. A pipe
  handles its requests with a proxy client that collects their responses; pipes may be nested, and the
  calls nest with them, so the number of nested pipes the stack has room for is an argument, and
  running out of it is a crash.
\<close>

section \<open>Actions\<close>

type_synonym 's handler = "nat \<Rightarrow> request \<Rightarrow> 's \<Rightarrow> unit result \<times> response list \<times> 's"

type_synonym ('a, 's) action = "extractable \<times> 's \<Rightarrow> 'a result \<times> response list \<times> extractable \<times> 's"

definition return_a :: "'a \<Rightarrow> ('a, 's) action" where
  "return_a a st = (Inr a, [], st)"

definition bind_a :: "('a, 's) action \<Rightarrow> ('a \<Rightarrow> ('b, 's) action) \<Rightarrow> ('b, 's) action" where
  "bind_a m f st =
     (case m st of
        (Inl e, out, st) \<Rightarrow> (Inl e, out, st)
      | (Inr a, out, st) \<Rightarrow> (case f a st of (r, out', st) \<Rightarrow> (r, out @ out', st)))"

definition extract_a :: "'a extraction \<Rightarrow> ('a, 's) action" where
  "extract_a m st = (case m (fst st) of (r, x) \<Rightarrow> (r, [], x, snd st))"

definition send_a :: "response \<Rightarrow> (unit, 's) action" where
  "send_a r st = (Inr (), [r], st)"

definition call_a :: "'s handler \<Rightarrow> nat \<Rightarrow> request \<Rightarrow> (unit, 's) action" where
  "call_a h depth req st = (case h depth req (snd st) of (r, out, s) \<Rightarrow> (r, out, fst st, s))"

text \<open>\<^verbatim>\<open>e.what()\<close>\<close>

fun what :: "error \<Rightarrow> string" where
  "what (InvalidRequest m) = ''InvalidRequest: '' @ m"
| "what (HasherError m) = ''HashError: '' @ m"
| "what (CorruptJournal m) = ''CorruptJournal: '' @ m"
| "what (WALError m) = ''WALError: '' @ m"
| "what (SocketError m) = ''SocketError: '' @ m"
| "what (RuntimeError m) = m"
| "what (InvalidArgument m) = m"
| "what (FilesystemError m) = m"
| "what (OutOfRange m) = m"
| "what (LengthError m) = m"
| "what UndefinedBehaviour = []"
| "what StackOverflow = []"

text \<open>What no handler catches.\<close>

definition is_crash :: "error \<Rightarrow> bool" where
  "is_crash e \<longleftrightarrow> e = UndefinedBehaviour \<or> e = StackOverflow"

section \<open>Handling requests\<close>

definition dispatch :: "platform \<Rightarrow> 's handler \<Rightarrow> (unit, 's) action \<Rightarrow> nat \<Rightarrow> bool \<Rightarrow> (unit, 's) action" where
  "dispatch pf h pipe depth end_here =
     bind_a (extract_a get_operation) (\<lambda>op.
     bind_a (extract_a (read_request pf op end_here)) (\<lambda>req.
     if req = request_pipe then bind_a pipe (\<lambda>_. extract_a (get_exact (return_e ()) end_here))
     else call_a h depth req))"

definition refuse_with_response :: "platform \<Rightarrow> response \<Rightarrow> bool \<Rightarrow> (bool, 's) action" where
  "refuse_with_response pf resp end_here =
     bind_a (if \<not> end_here then extract_a (dry_dispatch pf end_here) else return_a ()) (\<lambda>_.
     bind_a (send_a resp) (\<lambda>_. return_a False))"

definition dispatch_or_refuse ::
  "platform \<Rightarrow> 's handler \<Rightarrow> ('s \<Rightarrow> client_auth) \<Rightarrow> (unit, 's) action \<Rightarrow> nat \<Rightarrow> bool \<Rightarrow> (bool, 's) action" where
  "dispatch_or_refuse pf h auth_of pipe depth end_here =
     bind_a (extract_a peek_operation) (\<lambda>op st.
     if \<not> is_permitted op (auth_of (snd st)) then refuse_with_response pf denied end_here st
     else bind_a (dispatch pf h pipe depth end_here) (\<lambda>_. return_a True) st)"

text \<open>The handlers of exceptions in \<^verbatim>\<open>do_handle_single\<close>: first for \<^verbatim>\<open>InvalidRequest\<close>, then for all others.\<close>

definition is_invalid_request :: "error \<Rightarrow> bool" where
  "is_invalid_request e \<longleftrightarrow> (case e of InvalidRequest _ \<Rightarrow> True | _ \<Rightarrow> False)"

definition do_handle_single ::
  "platform \<Rightarrow> 's handler \<Rightarrow> ('s \<Rightarrow> client_auth) \<Rightarrow> (unit, 's) action \<Rightarrow> nat \<Rightarrow> bool \<Rightarrow> (bool, 's) action" where
  "do_handle_single pf h auth_of pipe depth end_here st =
     (case dispatch_or_refuse pf h auth_of pipe depth end_here st of
        (Inr b, out, st) \<Rightarrow> (Inr b, out, st)
      | (Inl e, out, st) \<Rightarrow>
          if is_crash e then (Inl e, out, st)
          else if is_invalid_request e then (Inr False, out @ [bad_request (what e)], st)
          else (Inr True, out @ [internal_error (what e)], st))"

primrec repeat_a :: "nat \<Rightarrow> (bool, 's) action \<Rightarrow> (unit, 's) action" where
  "repeat_a 0 m = return_a ()"
| "repeat_a (Suc n) m = bind_a m (\<lambda>_. repeat_a n m)"

definition do_handle ::
  "platform \<Rightarrow> 's handler \<Rightarrow> ('s \<Rightarrow> client_auth) \<Rightarrow> (unit, 's) action \<Rightarrow> nat \<Rightarrow> nat \<Rightarrow> (unit, 's) action" where
  "do_handle pf h auth_of pipe depth len =
     (if len = 0 then return_a ()
      else bind_a (repeat_a (len - 1) (do_handle_single pf h auth_of pipe depth False)) (\<lambda>_.
           bind_a (do_handle_single pf h auth_of pipe depth True) (\<lambda>_. return_a ())))"

text \<open>\<^verbatim>\<open>PipedClient\<close>: responses go into the aggregate, which is written to the client at the end.\<close>

definition aggregating :: "nat \<Rightarrow> (unit, 's) action \<Rightarrow> (unit, 's) action" where
  "aggregating len m st =
     (case m st of
        (Inl e, out, st) \<Rightarrow> (Inl e, [], st)
      | (Inr _, out, st) \<Rightarrow> (Inr (), [fold aggregate_append out (aggregate_response len)], st))"

text \<open>\<^verbatim>\<open>PipeServer::request_pipe\<close>, in a pipe of the given depth, with room for some more on the stack.\<close>

primrec pipe_requests ::
  "platform \<Rightarrow> 's handler \<Rightarrow> ('s \<Rightarrow> client_auth) \<Rightarrow> nat \<Rightarrow> nat \<Rightarrow> (unit, 's) action" where
  "pipe_requests pf h auth_of 0 = (\<lambda>depth st. (Inl StackOverflow, [], st))"
| "pipe_requests pf h auth_of (Suc stack) = (\<lambda>depth.
     bind_a (extract_a get_len) (\<lambda>len.
     aggregating len (do_handle pf h auth_of (pipe_requests pf h auth_of stack (Suc depth)) (Suc depth) len)))"

definition handle_user ::
  "platform \<Rightarrow> 's handler \<Rightarrow> ('s \<Rightarrow> client_auth) \<Rightarrow> nat \<Rightarrow> string \<Rightarrow> 's \<Rightarrow> unit result \<times> response list \<times> 's" where
  "handle_user pf h auth_of stack msg s =
     (case do_handle pf h auth_of (pipe_requests pf h auth_of stack 0) 0 1 (\<lparr>m_msg = msg, m_pos = 0\<rparr>, s) of
        (r, out, x, s) \<Rightarrow> (r, out, s))"

section \<open>Laws of actions\<close>

lemma bind_a_run:
  "m st = (Inr a, out, st') \<Longrightarrow> bind_a m f st = (case f a st' of (r, out', st'') \<Rightarrow> (r, out @ out', st''))"
  "m st = (Inl e, out, st') \<Longrightarrow> bind_a m f st = (Inl e, out, st')"
  by (simp_all add: bind_a_def)

lemma extract_a_run: "m x = (r, y) \<Longrightarrow> extract_a m (x, s) = (r, [], y, s)"
  by (simp add: extract_a_def)

lemma do_handle_one:
  "do_handle pf h auth_of pipe depth 1 st =
     (case do_handle_single pf h auth_of pipe depth True st of
        (Inl e, out, st) \<Rightarrow> (Inl e, out, st) | (Inr _, out, st) \<Rightarrow> (Inr (), out, st))"
  by (simp add: do_handle_def bind_a_def return_a_def split: prod.splits sum.splits)

section \<open>A request reaches its handler, or is refused\<close>

lemma dispatch_request:
  assumes "valid_request pf r" and "float_format pf ftoa" and "separated rest" and "ends_here e r \<longrightarrow> spaces rest"
    and "spaces ws" and "fits_size (pre @ ws @ show_request ftoa r @ rest)"
  shows "dispatch pf h pipe depth e (at pre (ws @ show_request ftoa r @ rest), s) =
    (case h depth r s of (res, out, s') \<Rightarrow>
       (res, out, if ends_here e r then at (pre @ ws @ show_request ftoa r @ rest) []
                  else at (pre @ ws @ show_request ftoa r) rest, s'))"
proof -
  have r: "r \<noteq> request_pipe" using assms(1) by auto
  obtain op x where op: "get_operation (at pre (ws @ show_request ftoa r @ rest)) = (Inr op, x)"
    "read_request pf op e x = (Inr r, if ends_here e r then at (pre @ ws @ show_request ftoa r @ rest) []
                  else at (pre @ ws @ show_request ftoa r) rest)"
    using show_request_read [OF assms] by (auto simp: bind_e_def split: prod.splits sum.splits)
  then show ?thesis
    using r by (simp add: dispatch_def bind_a_run extract_a_run call_a_def split: prod.splits)
qed

lemma peek_show_request:
  assumes "separated rest" and "spaces ws" and "fits_size (pre @ ws @ show_request ftoa r @ rest)"
  shows "peek_operation (at pre (ws @ show_request ftoa r @ rest)) =
    (Inr (request_op r), at (pre @ ws) (show_request ftoa r @ rest))"
  using operation_at(2) [OF request_args_separated [OF assms(1)] assms(2), of pre "request_op r" ftoa r] assms(3)
  by (simp add: show_request_def)

text \<open>A permitted request is executed by its handler.\<close>

lemma handle_single_permitted:
  assumes "valid_request pf r" and "float_format pf ftoa" and "separated rest" and "ends_here e r \<longrightarrow> spaces rest"
    and "spaces ws" and "fits_size (pre @ ws @ show_request ftoa r @ rest)"
    and "is_permitted (request_op r) (auth_of s)" and "h depth r s = (Inr (), out, s')"
  shows "do_handle_single pf h auth_of pipe depth e (at pre (ws @ show_request ftoa r @ rest), s) =
    (Inr True, out, if ends_here e r then at (pre @ ws @ show_request ftoa r @ rest) []
                    else at (pre @ ws @ show_request ftoa r) rest, s')"
proof -
  have fits: "fits_size ((pre @ ws) @ [] @ show_request ftoa r @ rest)" using assms(6) by simp
  show ?thesis
    using peek_show_request [OF assms(3,5,6)] dispatch_request [OF assms(1-4) _ fits, of h pipe depth s] assms(7,8)
    by (simp add: do_handle_single_def dispatch_or_refuse_def bind_a_run extract_a_run return_a_def)
qed

text \<open>Whatever the message says: while the operation it starts with is not permitted, the state does
  not change.\<close>

lemma refuse_unchanged:
  "snd (snd (snd (refuse_with_response pf resp e st))) = snd st"
  by (simp add: refuse_with_response_def bind_a_def extract_a_def send_a_def return_a_def
      split: prod.splits sum.splits)

lemma handle_single_unpermitted:
  assumes "\<forall>op. fst (peek_operation (fst st)) = Inr op \<longrightarrow> \<not> is_permitted op (auth_of (snd st))"
  shows "snd (snd (snd (do_handle_single pf h auth_of pipe depth e st))) = snd st"
proof (cases "peek_operation (fst st)")
  case (Pair r x)
  show ?thesis
  proof (cases r)
    case (Inl e')
    with Pair have "dispatch_or_refuse pf h auth_of pipe depth e st = (Inl e', [], x, snd st)"
      by (simp add: dispatch_or_refuse_def bind_a_def extract_a_def)
    then show ?thesis by (simp add: do_handle_single_def)
  next
    case (Inr op)
    with Pair assms have "dispatch_or_refuse pf h auth_of pipe depth e st = refuse_with_response pf denied e (x, snd st)"
      by (simp add: dispatch_or_refuse_def bind_a_def extract_a_def split: prod.splits)
    with refuse_unchanged [of pf denied e "(x, snd st)"] show ?thesis
      by (auto simp: do_handle_single_def split: prod.splits sum.splits)
  qed
qed

section \<open>Pipes\<close>

text \<open>The requests of a pipe run one after the other, each with permission, and none of them throws.\<close>

primrec pipe_ok :: "'s handler \<Rightarrow> ('s \<Rightarrow> client_auth) \<Rightarrow> nat \<Rightarrow> request list \<Rightarrow> 's \<Rightarrow> bool" where
  "pipe_ok h auth_of depth [] s \<longleftrightarrow> True"
| "pipe_ok h auth_of depth (r # rs) s \<longleftrightarrow>
     is_permitted (request_op r) (auth_of s) \<and> fst (h depth r s) = Inr () \<and>
     pipe_ok h auth_of depth rs (snd (snd (h depth r s)))"

primrec pipe_run :: "'s handler \<Rightarrow> nat \<Rightarrow> request list \<Rightarrow> 's \<Rightarrow> response list \<times> 's" where
  "pipe_run h depth [] s = ([], s)"
| "pipe_run h depth (r # rs) s =
     (case h depth r s of (_, out, s) \<Rightarrow> case pipe_run h depth rs s of (outs, s) \<Rightarrow> (out @ outs, s))"

definition piped :: "(float_t \<Rightarrow> string) \<Rightarrow> request list \<Rightarrow> string" where
  "piped ftoa rs = concat (map (\<lambda>r. '' '' @ show_request ftoa r) rs)"

lemma piped_simps [simp]: "piped ftoa [] = []" "piped ftoa (r # rs) = CHR '' '' # show_request ftoa r @ piped ftoa rs"
  by (simp_all add: piped_def)

lemma piped_append [simp]: "piped ftoa (rs @ rs') = piped ftoa rs @ piped ftoa rs'"
  by (simp add: piped_def)

lemma piped_separated: "separated rest \<Longrightarrow> separated (piped ftoa rs @ rest)"
  by (cases rs) (simp_all add: separated_def)

lemma repeat_piped:
  assumes "\<forall>r \<in> set rs. valid_request pf r \<and> \<not> last_request r" and "float_format pf ftoa" and "separated rest"
    and "fits_size (pre @ piped ftoa rs @ rest)" and "pipe_ok h auth_of depth rs s"
  shows "repeat_a (length rs) (do_handle_single pf h auth_of pipe depth False) (at pre (piped ftoa rs @ rest), s) =
    (case pipe_run h depth rs s of (out, s') \<Rightarrow> (Inr (), out, at (pre @ piped ftoa rs) rest, s'))"
  using assms
proof (induction rs arbitrary: pre s)
  case Nil
  then show ?case by (simp add: return_a_def)
next
  case (Cons r rs)
  obtain out s1 where h: "h depth r s = (Inr (), out, s1)" using Cons.prems(5) by (cases "h depth r s") auto
  have "do_handle_single pf h auth_of pipe depth False (at pre ('' '' @ show_request ftoa r @ piped ftoa rs @ rest), s) =
      (Inr True, out, if ends_here False r then at (pre @ '' '' @ show_request ftoa r @ piped ftoa rs @ rest) []
        else at (pre @ '' '' @ show_request ftoa r) (piped ftoa rs @ rest), s1)"
    by (rule handle_single_permitted) (use Cons.prems h piped_separated in \<open>auto simp: ends_here_def\<close>)
  moreover have "\<not> ends_here False r" using Cons.prems(1) by (simp add: ends_here_def)
  moreover have "repeat_a (length rs) (do_handle_single pf h auth_of pipe depth False)
      (at (pre @ CHR '' '' # show_request ftoa r) (piped ftoa rs @ rest), s1) =
      (case pipe_run h depth rs s1 of (out, s') \<Rightarrow> (Inr (), out, at ((pre @ CHR '' '' # show_request ftoa r) @ piped ftoa rs) rest, s'))"
    by (rule Cons.IH) (use Cons.prems h in auto)
  ultimately show ?case
    by (simp add: bind_a_run h split: prod.splits)
qed

text \<open>Append the last request, which has to end the message.\<close>

lemma pipe_run_append: "pipe_run h depth (rs @ [r]) s =
    (case pipe_run h depth rs s of (out, s1) \<Rightarrow> case h depth r s1 of (_, out', s2) \<Rightarrow> (out @ out', s2))"
  by (induction rs arbitrary: s) (simp_all split: prod.splits)

lemma pipe_ok_append: "pipe_ok h auth_of depth (rs @ [r]) s \<longleftrightarrow>
    pipe_ok h auth_of depth rs s \<and> pipe_ok h auth_of depth [r] (snd (pipe_run h depth rs s))"
  by (induction rs arbitrary: s) (auto split: prod.splits)

lemma do_handle_piped:
  assumes "\<forall>r \<in> set rs. valid_request pf r \<and> \<not> last_request r" and "float_format pf ftoa" and "spaces ws"
    and "fits_size (pre @ piped ftoa rs @ ws)" and "pipe_ok h auth_of depth rs s"
  shows "do_handle pf h auth_of pipe depth (length rs) (at pre (piped ftoa rs @ ws), s) =
    (case pipe_run h depth rs s of (out, s') \<Rightarrow>
       (Inr (), out, if rs = [] then at pre ws else at (pre @ piped ftoa rs @ ws) [], s'))"
proof (cases rs rule: rev_cases)
  case Nil
  then show ?thesis by (simp add: do_handle_def return_a_def)
next
  case (snoc rs' r)
  note sep = spaces_separated [OF assms(3)]
  have p: "piped ftoa rs = piped ftoa rs' @ '' '' @ show_request ftoa r" by (simp add: snoc piped_def)
  obtain out s1 where run: "pipe_run h depth rs' s = (out, s1)" by fastforce
  have ok: "pipe_ok h auth_of depth rs' s" "is_permitted (request_op r) (auth_of s1)" "fst (h depth r s1) = Inr ()"
    using assms(5) run by (simp_all add: snoc pipe_ok_append)
  obtain out' s2 where h: "h depth r s1 = (Inr (), out', s2)" using ok(3) by (cases "h depth r s1") auto
  let ?rest = "'' '' @ show_request ftoa r @ ws"
  have "repeat_a (length rs') (do_handle_single pf h auth_of pipe depth False) (at pre (piped ftoa rs' @ ?rest), s) =
      (case pipe_run h depth rs' s of (out, s') \<Rightarrow> (Inr (), out, at (pre @ piped ftoa rs') ?rest, s'))"
    by (rule repeat_piped) (use assms ok(1) snoc in \<open>auto simp: separated_def p\<close>)
  moreover have "do_handle_single pf h auth_of pipe depth True (at (pre @ piped ftoa rs') ?rest, s1) =
      (Inr True, out', if ends_here True r then at ((pre @ piped ftoa rs') @ ?rest) []
        else at ((pre @ piped ftoa rs') @ '' '' @ show_request ftoa r) ws, s2)"
    by (rule handle_single_permitted) (use assms snoc h ok(2) sep in \<open>auto simp: p\<close>)
  ultimately show ?thesis
    using h run snoc by (simp add: do_handle_def bind_a_run p pipe_run_append ends_here_def return_a_def)
qed

text \<open>A pipe as the only request of a message.\<close>

definition show_pipe :: "(float_t \<Rightarrow> string) \<Rightarrow> request list \<Rightarrow> string" where
  "show_pipe ftoa rs = operation.word_of PIPE @ '' '' @ show_len (length rs) @ piped ftoa rs"

lemma fits_size_drop: "fits_size (a @ b @ c) \<Longrightarrow> length b < 2 ^ 64"
  by (simp add: fits_size_def SIZE_MAX_1_def)

lemma length_piped: "length rs \<le> length (piped ftoa rs)"
  by (induction rs) simp_all

lemma handle_user_pipe:
  assumes "\<forall>r \<in> set rs. valid_request pf r \<and> \<not> last_request r" and "float_format pf ftoa" and "spaces ws"
    and "fits_size (show_pipe ftoa rs @ ws)" and "is_permitted PIPE (auth_of s)" and "pipe_ok h auth_of 1 rs s"
    and "pipe_run h 1 rs s = (outs, s')"
  shows "handle_user pf h auth_of (Suc stack) (show_pipe ftoa rs @ ws) s =
    (Inr (), [fold aggregate_append outs (aggregate_response (length rs))], s')"
proof -
  let ?w = "operation.word_of PIPE" and ?pipe = "pipe_requests pf h auth_of (Suc stack) 0"
  let ?args = "'' '' @ show_len (length rs) @ piped ftoa rs @ ws"
  have sep: "separated ?args" by (simp add: separated_def)
  have fits: "fits_size ([] @ [] @ ?w @ ?args)" using assms(4) by (simp add: show_pipe_def)
  note op = operation_at [OF sep _ fits, simplified]
  have "length rs < 2 ^ 64" using assms(4) length_piped [of rs ftoa] by (simp add: fits_size_def SIZE_MAX_1_def show_pipe_def)
  then have "get_len (at ?w ('' '' @ show_len (length rs) @ (piped ftoa rs @ ws))) =
      (Inr (length rs), at (?w @ '' '' @ show_len (length rs)) (piped ftoa rs @ ws))"
    by (rule len.reads) (use fits in simp_all)
  moreover have "do_handle pf h auth_of p 1 (length rs) (at (?w @ '' '' @ show_len (length rs)) (piped ftoa rs @ ws), s) =
      (case pipe_run h 1 rs s of (out, s') \<Rightarrow> (Inr (), out, if rs = [] then at (?w @ '' '' @ show_len (length rs)) ws
        else at ((?w @ '' '' @ show_len (length rs)) @ piped ftoa rs @ ws) [], s'))" for p
    by (rule do_handle_piped) (use assms fits in \<open>simp_all add: show_pipe_def\<close>)
  ultimately have pipe: "?pipe (at ?w (CHR '' '' # show_len (length rs) @ piped ftoa rs @ ws), s) =
      (Inr (), [fold aggregate_append outs (aggregate_response (length rs))],
       if rs = [] then at (?w @ '' '' @ show_len (length rs)) ws
       else at ((?w @ '' '' @ show_len (length rs)) @ piped ftoa rs @ ws) [], s')"
    using assms(7) by (simp add: bind_a_run extract_a_run aggregating_def)
  have e: "get_exact (return_e ()) True (at pre rest) = (Inr (), at (pre @ rest) [])" if "spaces rest" for pre rest
    using ensure_end_at [OF that] by (simp add: get_exact_def bind_e_def return_e_def ensure_end_if_def)
  have "do_handle_single pf h auth_of ?pipe 0 True (at [] (?w @ CHR '' '' # show_len (length rs) @ piped ftoa rs @ ws), s) =
      (Inr True, [fold aggregate_append outs (aggregate_response (length rs))],
       at (?w @ CHR '' '' # show_len (length rs) @ piped ftoa rs @ ws) [], s')"
    using op pipe e [OF assms(3)] e [of "[]"] assms(5)
    by (cases "rs = []")
       (simp_all add: do_handle_single_def dispatch_or_refuse_def dispatch_def bind_a_run extract_a_run return_a_def
         return_e_def del: pipe_requests.simps)
  then show ?thesis
    by (simp add: handle_user_def do_handle_one [simplified] at_def show_pipe_def del: pipe_requests.simps)
qed

section \<open>A pipe that calls itself\<close>

text \<open>A length is read with \<^verbatim>\<open>strtoull\<close>, which takes a sign, and the test \<^verbatim>\<open>m_pos + n <= size\<close> wraps around: a
  string of length \<open>-17\<close> is accepted, and moves the position 17 bytes back. Here it moves from the
  end to the start of the message, so that the second request of the pipe is the pipe itself.\<close>

definition loop_message :: string where
  "loop_message = ''PIPE (2)GET (-17)''"

lemmas eval_parser = get_len_def get_str_def bind_e_def ensure_not_end_def skip_whitespace_def at_end_def
  is_space_def expect_def current_def throw_e_def advance_def return_e_def get_number_def convert_here_def c_string_def
  stoull_def stoa_def strtoull_def subject_sequence_def sign_split_def is_digit_def digits_value_def digit_value_def
  has_up_to_def SIZE_MAX_1_def

lemma loop_length: "get_len \<lparr>m_msg = loop_message, m_pos = 4\<rparr> = (Inr 2, \<lparr>m_msg = loop_message, m_pos = 8\<rparr>)"
  by (simp add: loop_message_def eval_parser)

lemma loop_string: "get_str \<lparr>m_msg = loop_message, m_pos = 11\<rparr> = (Inr [], \<lparr>m_msg = loop_message, m_pos = 0\<rparr>)"
  by (simp add: loop_message_def eval_parser)

lemma loop_words: "operation.word_of PIPE = ''PIPE''" "operation.word_of GET = ''GET''"
  unfolding operation.word_of_def by (simp_all add: OPERATION_T_STRINGS_def)

lemma loop_positions:
  "\<lparr>m_msg = loop_message, m_pos = 0\<rparr> = at [] (operation.word_of PIPE @ '' (2)GET (-17)'')"
  "\<lparr>m_msg = loop_message, m_pos = 4\<rparr> = at (operation.word_of PIPE) '' (2)GET (-17)''"
  "\<lparr>m_msg = loop_message, m_pos = 8\<rparr> = at ''PIPE (2)'' (operation.word_of GET @ '' (-17)'')"
  "\<lparr>m_msg = loop_message, m_pos = 11\<rparr> = at (''PIPE (2)'' @ operation.word_of GET) '' (-17)''"
  by (simp_all add: at_def loop_message_def loop_words)

lemma loop_operations:
  "peek_operation \<lparr>m_msg = loop_message, m_pos = 0\<rparr> = (Inr PIPE, \<lparr>m_msg = loop_message, m_pos = 0\<rparr>)"
  "get_operation \<lparr>m_msg = loop_message, m_pos = 0\<rparr> = (Inr PIPE, \<lparr>m_msg = loop_message, m_pos = 4\<rparr>)"
  "peek_operation \<lparr>m_msg = loop_message, m_pos = 8\<rparr> = (Inr GET, \<lparr>m_msg = loop_message, m_pos = 8\<rparr>)"
  "get_operation \<lparr>m_msg = loop_message, m_pos = 8\<rparr> = (Inr GET, \<lparr>m_msg = loop_message, m_pos = 11\<rparr>)"
proof -
  have sep: "separated '' (2)GET (-17)''" "separated '' (-17)''" by (simp_all add: separated_def)
  have fits: "fits_size ([] @ [] @ operation.word_of PIPE @ '' (2)GET (-17)'')"
    "fits_size (''PIPE (2)'' @ [] @ operation.word_of GET @ '' (-17)'')"
    by (simp_all add: fits_size_def SIZE_MAX_1_def loop_words)
  note pipe = operation_at [OF sep(1) _ fits(1)] and get = operation_at [OF sep(2) _ fits(2)]
  show "peek_operation \<lparr>m_msg = loop_message, m_pos = 0\<rparr> = (Inr PIPE, \<lparr>m_msg = loop_message, m_pos = 0\<rparr>)"
    "get_operation \<lparr>m_msg = loop_message, m_pos = 0\<rparr> = (Inr PIPE, \<lparr>m_msg = loop_message, m_pos = 4\<rparr>)"
    "peek_operation \<lparr>m_msg = loop_message, m_pos = 8\<rparr> = (Inr GET, \<lparr>m_msg = loop_message, m_pos = 8\<rparr>)"
    "get_operation \<lparr>m_msg = loop_message, m_pos = 8\<rparr> = (Inr GET, \<lparr>m_msg = loop_message, m_pos = 11\<rparr>)"
    unfolding loop_positions using pipe get by simp_all
qed

text \<open>A handler of the request \<^verbatim>\<open>GET\<close> that neither crashes nor takes the permission away, in the states of a server.\<close>

definition serves_get :: "'s handler \<Rightarrow> ('s \<Rightarrow> client_auth) \<Rightarrow> ('s \<Rightarrow> bool) \<Rightarrow> bool" where
  "serves_get h auth_of J \<longleftrightarrow>
     (\<forall>depth key s. J s \<and> auth_of s \<noteq> UNKNOWN \<longrightarrow>
        J (snd (snd (h depth (General_Request (request_get key)) s))) \<and>
        auth_of (snd (snd (h depth (General_Request (request_get key)) s))) = auth_of s \<and>
        (\<forall>e. fst (h depth (General_Request (request_get key)) s) = Inl e \<longrightarrow> \<not> is_crash e))"

lemma loop_permitted: "a \<noteq> UNKNOWN \<Longrightarrow> is_permitted GET a \<and> is_permitted PIPE a"
  by (cases a) simp_all

lemma loop_get:
  assumes "serves_get h auth_of J" and "auth_of s \<noteq> UNKNOWN" and "J s"
  shows "\<exists>b out s'. do_handle_single pf h auth_of pipe depth False (\<lparr>m_msg = loop_message, m_pos = 8\<rparr>, s) =
    (Inr b, out, \<lparr>m_msg = loop_message, m_pos = 0\<rparr>, s') \<and> auth_of s' = auth_of s \<and> J s'"
proof -
  obtain r out s' where h: "h depth (General_Request (request_get [])) s = (r, out, s')" by (metis prod_cases3)
  have "J s' \<and> auth_of s' = auth_of s \<and> (\<forall>e. r = Inl e \<longrightarrow> \<not> is_crash e)"
    using assms h unfolding serves_get_def by (metis fst_conv snd_conv)
  moreover have "read_request pf GET False \<lparr>m_msg = loop_message, m_pos = 11\<rparr> =
      (Inr (General_Request (request_get [])), \<lparr>m_msg = loop_message, m_pos = 0\<rparr>)"
    using loop_string by (simp add: map_e_def get_exact_def bind_e_def return_e_def ensure_end_if_def)
  ultimately show ?thesis
    using loop_permitted [OF assms(2)] loop_operations h
    by (cases r)
       (auto simp: do_handle_single_def dispatch_or_refuse_def dispatch_def bind_a_run extract_a_run call_a_def
         return_a_def)
qed

lemma loop_pipe:
  assumes "serves_get h auth_of J" and "auth_of s \<noteq> UNKNOWN" and "J s"
  shows "\<exists>out st. pipe_requests pf h auth_of stack depth (\<lparr>m_msg = loop_message, m_pos = 4\<rparr>, s) = (Inl StackOverflow, out, st)"
  using assms(2,3)
proof (induction stack arbitrary: depth s)
  case (Suc stack)
  let ?pipe = "pipe_requests pf h auth_of stack (Suc depth)"
  obtain b out s' where g: "do_handle_single pf h auth_of ?pipe (Suc depth) False (\<lparr>m_msg = loop_message, m_pos = 8\<rparr>, s) =
      (Inr b, out, \<lparr>m_msg = loop_message, m_pos = 0\<rparr>, s')" "auth_of s' = auth_of s" "J s'"
    using loop_get [OF assms(1) Suc.prems] by metis
  obtain out' st where p: "?pipe (\<lparr>m_msg = loop_message, m_pos = 4\<rparr>, s') = (Inl StackOverflow, out', st)"
    using Suc.IH [of s'] Suc.prems g(2,3) by metis
  have "do_handle_single pf h auth_of ?pipe (Suc depth) True (\<lparr>m_msg = loop_message, m_pos = 0\<rparr>, s') =
      (Inl StackOverflow, out', st)"
    using p loop_permitted [of "auth_of s'"] Suc.prems g(2) loop_operations
    by (simp add: do_handle_single_def dispatch_or_refuse_def dispatch_def bind_a_run extract_a_run return_e_def is_crash_def)
  then show ?case
    using g by (simp add: bind_a_run extract_a_run loop_length aggregating_def do_handle_def return_a_def numeral_2_eq_2)
qed simp

lemma loop_crashes:
  assumes "serves_get h auth_of J" and "auth_of s \<noteq> UNKNOWN" and "J s"
  shows "fst (handle_user pf h auth_of stack loop_message s) = Inl StackOverflow"
proof -
  obtain out st where p: "pipe_requests pf h auth_of stack 0 (\<lparr>m_msg = loop_message, m_pos = 4\<rparr>, s) = (Inl StackOverflow, out, st)"
    using loop_pipe [OF assms] by blast
  have "do_handle_single pf h auth_of (pipe_requests pf h auth_of stack 0) 0 True (\<lparr>m_msg = loop_message, m_pos = 0\<rparr>, s) =
      (Inl StackOverflow, out, st)"
    using p loop_permitted [OF assms(2)] loop_operations
    by (simp add: do_handle_single_def dispatch_or_refuse_def dispatch_def bind_a_run extract_a_run return_e_def is_crash_def)
  then show ?thesis by (simp add: handle_user_def do_handle_one [simplified] split: prod.splits)
qed

section \<open>Any message at all\<close>

text \<open>Parsing never leaves the message: undefined behaviour can only come from a handler.\<close>

definition defined_action :: "('a, 's) action \<Rightarrow> bool" where
  "defined_action m \<longleftrightarrow> (\<forall>st. in_bounds (fst st) \<longrightarrow>
     (case m st of (r, out, x, s) \<Rightarrow> in_bounds x \<and> r \<noteq> undefined_behaviour))"

named_theorems defined_intros \<open>actions without undefined behaviour of their own\<close>

lemma defined_actionD:
  assumes "defined_action m" and "in_bounds (fst st)" and "m st = (r, out, x, s)"
  shows "in_bounds x \<and> r \<noteq> undefined_behaviour"
proof -
  have "case m st of (r, out, x, s) \<Rightarrow> in_bounds x \<and> r \<noteq> undefined_behaviour"
    using assms(1) [unfolded defined_action_def, rule_format, of st] assms(2) by simp
  with assms(3) show ?thesis by simp
qed

lemma defined_actionI:
  "(\<And>st r out x s. in_bounds (fst st) \<Longrightarrow> m st = (r, out, x, s) \<Longrightarrow> in_bounds x \<and> r \<noteq> undefined_behaviour) \<Longrightarrow>
    defined_action m"
  unfolding defined_action_def by (intro allI impI) (auto split: prod.split)

lemma defined_return [defined_intros]: "defined_action (return_a a)"
  by (simp add: defined_action_def return_a_def)

lemma defined_send [defined_intros]: "defined_action (send_a r)"
  by (simp add: defined_action_def send_a_def)

lemma defined_bind [defined_intros]:
  assumes "defined_action m" and "\<And>a. defined_action (f a)"
  shows "defined_action (bind_a m f)"
proof (rule defined_actionI)
  fix st r out x s assume b: "in_bounds (fst st)" and run: "bind_a m f st = (r, out, x, s)"
  obtain r1 out1 x1 s1 where m: "m st = (r1, out1, x1, s1)" by (cases "m st") auto
  note m' = defined_actionD [OF assms(1) b m]
  show "in_bounds x \<and> r \<noteq> undefined_behaviour"
  proof (cases r1)
    case (Inl e)
    with run m m' show ?thesis by (auto simp: bind_a_def)
  next
    case (Inr a)
    obtain r2 out2 x2 s2 where "f a (x1, s1) = (r2, out2, x2, s2)" by (cases "f a (x1, s1)") auto
    with defined_actionD [OF assms(2) _ this] run m m' Inr show ?thesis by (simp add: bind_a_def)
  qed
qed

lemma defined_extract [defined_intros]: "safe m \<Longrightarrow> defined_action (extract_a m)"
  unfolding defined_action_def extract_a_def safe_def by (fastforce split: prod.splits)

lemma defined_if [defined_intros]: "defined_action m \<Longrightarrow> defined_action n \<Longrightarrow> defined_action (if b then m else n)"
  by simp

lemma defined_by_state: "(\<And>s. defined_action (m s)) \<Longrightarrow> defined_action (\<lambda>st. m (snd st) st)"
  by (simp add: defined_action_def)

lemma defined_by_result:
  fixes m :: "('a, 's) action" and n :: "('b, 's) action"
  assumes "defined_action m"
    and "\<And>st r out x s. m st = (r, out, x, s) \<Longrightarrow> r \<noteq> undefined_behaviour \<Longrightarrow>
      \<exists>r' out'. n st = (r', out', x, s) \<and> r' \<noteq> undefined_behaviour"
  shows "defined_action n"
  unfolding defined_action_def
proof (intro allI impI)
  fix st :: "extractable \<times> 's" assume b: "in_bounds (fst st)"
  obtain r out x s where m: "m st = (r, out, x, s)" by (cases "m st") auto
  have "in_bounds x" "r \<noteq> undefined_behaviour" using defined_actionD [OF assms(1) b m] by simp_all
  with assms(2) [OF m] show "case n st of (r, out, x, s) \<Rightarrow> in_bounds x \<and> r \<noteq> undefined_behaviour" by auto
qed

lemma defined_aggregating [defined_intros]: "defined_action m \<Longrightarrow> defined_action (aggregating len m)"
proof (erule defined_by_result)
  fix st r out x s assume "m st = (r, out, x, s)" and "r \<noteq> undefined_behaviour"
  then show "\<exists>r' out'. aggregating len m st = (r', out', x, s) \<and> r' \<noteq> undefined_behaviour"
    by (cases r) (simp_all add: aggregating_def)
qed

lemma safe_operations [safe_intros]: "safe get_operation" "safe peek_operation"
  by (simp_all add: get_operation_def peek_operation_def safe_intros)

lemma defined_call [defined_intros]:
  "\<forall>d r s. fst (h d r s) \<noteq> undefined_behaviour \<Longrightarrow> defined_action (call_a h depth req)"
  unfolding defined_action_def call_a_def by (auto split: prod.splits) (metis fst_conv)

lemma defined_dispatch [defined_intros]:
  assumes "sound_platform pf" and "\<forall>d r s. fst (h d r s) \<noteq> undefined_behaviour" and "defined_action pipe"
  shows "defined_action (dispatch pf h pipe depth e)"
  unfolding dispatch_def by (intro defined_intros safe_intros assms)

lemma defined_refuse [defined_intros]: "sound_platform pf \<Longrightarrow> defined_action (refuse_with_response pf resp e)"
  unfolding refuse_with_response_def by (intro defined_intros safe_intros)

lemma defined_single [defined_intros]:
  assumes "sound_platform pf" and "\<forall>d r s. fst (h d r s) \<noteq> undefined_behaviour" and "defined_action pipe"
  shows "defined_action (do_handle_single pf h auth_of pipe depth e)"
proof -
  have "defined_action (dispatch_or_refuse pf h auth_of pipe depth e)"
    unfolding dispatch_or_refuse_def
    by (intro defined_bind defined_extract safe_intros
        defined_by_state [where m = "\<lambda>s. if \<not> is_permitted op (auth_of s) then refuse_with_response pf denied e
          else bind_a (dispatch pf h pipe depth e) (\<lambda>_. return_a True)" for op, simplified if_distribR])
       (intro defined_intros assms)
  then show ?thesis
  proof (rule defined_by_result)
    fix st r out x s assume "dispatch_or_refuse pf h auth_of pipe depth e st = (r, out, x, s)" and "r \<noteq> undefined_behaviour"
    then show "\<exists>r' out'. do_handle_single pf h auth_of pipe depth e st = (r', out', x, s) \<and> r' \<noteq> undefined_behaviour"
      by (cases r) (simp_all add: do_handle_single_def)
  qed
qed

lemma defined_repeat [defined_intros]: "defined_action m \<Longrightarrow> defined_action (repeat_a n m)"
  by (induction n) (simp_all add: defined_intros)

lemma defined_do_handle [defined_intros]:
  assumes "sound_platform pf" and "\<forall>d r s. fst (h d r s) \<noteq> undefined_behaviour" and "defined_action pipe"
  shows "defined_action (do_handle pf h auth_of pipe depth len)"
  unfolding do_handle_def by (intro defined_intros assms)

lemma defined_pipe:
  assumes "sound_platform pf" and "\<forall>d r s. fst (h d r s) \<noteq> undefined_behaviour"
  shows "defined_action (pipe_requests pf h auth_of stack depth)"
proof (induction stack arbitrary: depth)
  case 0
  then show ?case by (simp add: defined_action_def)
next
  case (Suc stack)
  then show ?case unfolding pipe_requests.simps by (intro defined_intros safe_intros assms)
qed

lemma handle_user_defined:
  assumes "sound_platform pf" and "\<forall>d r s. fst (h d r s) \<noteq> undefined_behaviour" and "fits_size msg"
  shows "fst (handle_user pf h auth_of stack msg s) \<noteq> undefined_behaviour"
proof -
  have "in_bounds \<lparr>m_msg = msg, m_pos = 0\<rparr>" using assms(3) by (simp add: in_bounds_def fits_size_def)
  have act: "defined_action (do_handle pf h auth_of (pipe_requests pf h auth_of stack 0) 0 1)"
    by (intro defined_do_handle defined_pipe assms)
  obtain r out x s' where run: "do_handle pf h auth_of (pipe_requests pf h auth_of stack 0) 0 1
      (\<lparr>m_msg = msg, m_pos = 0\<rparr>, s) = (r, out, x, s')"
    by (metis prod_cases4)
  from \<open>in_bounds _\<close> have "r \<noteq> undefined_behaviour" using defined_actionD [OF act _ run] by simp
  with run show ?thesis by (simp add: handle_user_def)
qed

end
