(* ===== verification/Request_Effects.thy ===== *)
theory Request_Effects
  imports Request_Server
begin

text \<open>
  What a message can do to the server, whatever it contains: its bytes reach the state only through calls of
  the handlers with permission (\<open>permitted_handler\<close>); a client that may not use pipes makes at most one such call; and
  it is always answered, unless the last thing it did was to leave (\<open>answering_handler\<close>).
\<close>

section \<open>The operation of a request\<close>

lemma map_e_result: "map_e f m x = (Inr b, y) \<Longrightarrow> \<exists>a. b = f a"
  by (auto simp: map_e_def bind_e_def return_e_def split: prod.splits sum.splits)

lemma read_request_op:
  "read_request pf op e x = (Inr req, y) \<Longrightarrow> (if req = request_pipe then op = PIPE else request_op req = op)"
  by (cases op) (auto simp: return_e_def dest!: map_e_result split: prod.splits)

lemma find_word_stays: "find_word words err x = (r, y) \<Longrightarrow> y = x"
  by (induction words) (auto simp: throw_e_def bind_e_def compare_str_def return_e_def split: if_splits)

lemma takeWhile_dropWhile_Nil: "takeWhile P (dropWhile P xs) = []"
  by (induction xs) simp_all

lemma skip_twice: "skip_whitespace x = (Inr (), y) \<Longrightarrow> skip_whitespace y = (Inr (), y)"
proof -
  let ?r = "drop (m_pos x) (m_msg x)"
  have "drop (m_pos x + length (takeWhile is_space ?r)) (m_msg x) = dropWhile is_space ?r"
    by (simp add: dropWhile_eq_drop add.commute)
  then show "skip_whitespace x = (Inr (), y) \<Longrightarrow> ?thesis"
    by (auto simp: skip_whitespace_def takeWhile_dropWhile_Nil)
qed

text \<open>After a peek, the operation that was seen is the one that is read.\<close>

lemma get_after_peek:
  assumes "peek_operation x = (Inr op, y)"
  shows "\<exists>z. get_operation y = (Inr op, z)"
proof -
  obtain y' where y': "skip_whitespace x = (Inr (), y')" by (simp add: skip_whitespace_def)
  then obtain w where "find_word OPERATION_T_STRINGS ''invalid operation'' y' = (Inr (op, w), y)"
    using assms by (auto simp: peek_operation_def peek_from_list_def bind_e_def map_e_def return_e_def
        split: prod.splits sum.splits)
  moreover from this have "y = y'" by (rule find_word_stays)
  ultimately show ?thesis
    using skip_twice [OF y'] by (simp add: get_operation_def get_from_list_def bind_e_run advance_def return_e_def)
qed

text \<open>The same position is read whether or not it was peeked at first.\<close>

lemma get_despite_peek:
  assumes "peek_operation x = (Inr op, y)"
  shows "get_operation x = get_operation y"
proof -
  obtain y' where y': "skip_whitespace x = (Inr (), y')" by (simp add: skip_whitespace_def)
  then obtain w where "find_word OPERATION_T_STRINGS ''invalid operation'' y' = (Inr (op, w), y)"
    using assms by (auto simp: peek_operation_def peek_from_list_def bind_e_def map_e_def return_e_def
        split: prod.splits sum.splits)
  then have "y = y'" by (rule find_word_stays)
  then show ?thesis
    using skip_twice [OF y'] y' by (simp add: get_operation_def get_from_list_def bind_e_run)
qed

text \<open>The request that a message without a pipe consists of: the word of the operation, and its arguments to the end of the text.\<close>

definition message_request :: "platform \<Rightarrow> string \<Rightarrow> request result" where
  "message_request pf msg = fst (bind_e get_operation (\<lambda>op. read_request pf op True) \<lparr>m_msg = msg, m_pos = 0\<rparr>)"

text \<open>The three ends of a dispatch.\<close>

lemma dispatch_cases:
  assumes "peek_operation x0 = (Inr op, x)" and "dispatch pf h pipe depth e (x, s) = (r, out, y, s')"
  obtains (unread) err where "s' = s" "out = []" "r = Inl err"
  | (pipe) z r1 y1 where "op = PIPE" "pipe (z, s) = (r1, out, y1, s')" "r1 = Inr () \<longrightarrow> r = fst (get_exact (return_e ()) e y1)"
      "\<And>err. r1 = Inl err \<Longrightarrow> r = Inl err"
  | (call) req where "req \<noteq> request_pipe" "request_op req = op" "h depth req s = (r, out, s')"
      "fst (bind_e get_operation (\<lambda>op. read_request pf op e) x) = Inr req"
proof -
  obtain z where z: "get_operation x = (Inr op, z)" using get_after_peek [OF assms(1)] by blast
  obtain q w where q: "read_request pf op e z = (q, w)" by (cases "read_request pf op e z")
  show ?thesis
  proof (cases q)
    case (Inl err)
    with z q assms(2) show ?thesis by (intro unread) (auto simp: dispatch_def bind_a_run extract_a_run)
  next
    case (Inr req)
    note op = read_request_op [OF q [unfolded Inr]]
    show ?thesis
    proof (cases "req = request_pipe")
      case True
      obtain r1 out1 y1 s1 where p: "pipe (w, s) = (r1, out1, y1, s1)" by (cases "pipe (w, s)") auto
      have "dispatch pf h pipe depth e (x, s) =
          bind_a pipe (\<lambda>_. extract_a (get_exact (return_e ()) e)) (w, s)"
        using z q Inr True by (simp add: dispatch_def bind_a_run extract_a_run split: prod.splits)
      with assms(2) have run: "bind_a pipe (\<lambda>_. extract_a (get_exact (return_e ()) e)) (w, s) = (r, out, y, s')" by simp
      show ?thesis
      proof (cases r1)
        case (Inl err)
        with run p have "r1 = r" "out1 = out" "s1 = s'" by (simp_all add: bind_a_run)
        with p op True Inl show ?thesis by (intro pipe [of w r1 y1]) auto
      next
        case (Inr u)
        with run p op True show ?thesis
          by (intro pipe [of w r1 y1]) (simp_all add: bind_a_run extract_a_def split: prod.splits)
      qed
    next
      case False
      have "dispatch pf h pipe depth e (x, s) = call_a h depth req (w, s)"
        using z q Inr False by (simp add: dispatch_def bind_a_run extract_a_run split: prod.splits)
      moreover have "fst (bind_e get_operation (\<lambda>op. read_request pf op e) x) = Inr req" using z q Inr by (simp add: bind_e_run)
      ultimately show ?thesis using assms(2) op False by (intro call [of req]) (auto simp: call_a_def split: prod.splits)
    qed
  qed
qed

section \<open>Effects go through handlers with permission\<close>

definition related :: "('s \<Rightarrow> 's \<Rightarrow> bool) \<Rightarrow> ('a, 's) action \<Rightarrow> bool" where
  "related R m \<longleftrightarrow> (\<forall>st r out y s'. m st = (r, out, y, s') \<longrightarrow> R (snd st) s')"

lemma relatedI: "(\<And>x s r out y s'. m (x, s) = (r, out, y, s') \<Longrightarrow> R s s') \<Longrightarrow> related R m"
  by (auto simp: related_def)

lemma relatedD: "related R m \<Longrightarrow> m (x, s) = (r, out, y, s') \<Longrightarrow> R s s'"
  by (force simp: related_def)

locale permitted_handler =
  fixes h :: "'s handler" and auth_of :: "'s \<Rightarrow> client_auth" and R :: "'s \<Rightarrow> 's \<Rightarrow> bool"
  assumes R_refl: "R s s" and R_trans: "R s s1 \<Longrightarrow> R s1 s2 \<Longrightarrow> R s s2"
    and h_step: "is_permitted (request_op req) (auth_of s) \<Longrightarrow> req \<noteq> request_pipe \<Longrightarrow> h depth req s = (r, out, s') \<Longrightarrow> R s s'"
begin

lemma related_pure: "related R (return_a a)" "related R (send_a resp)" "related R (extract_a m)"
  by (auto simp: related_def return_a_def send_a_def extract_a_def R_refl split: prod.splits)

lemma related_bind:
  assumes "related R m" and "\<And>a. related R (f a)"
  shows "related R (bind_a m f)"
proof (rule relatedI)
  fix x s r out y s' assume run: "bind_a m f (x, s) = (r, out, y, s')"
  obtain r1 out1 y1 s1 where m: "m (x, s) = (r1, out1, y1, s1)" by (cases "m (x, s)") auto
  note s1 = relatedD [OF assms(1) m]
  show "R s s'"
  proof (cases r1)
    case (Inl err)
    with run m s1 show ?thesis by (simp add: bind_a_run)
  next
    case (Inr a)
    obtain r2 out2 y2 s2 where f: "f a (y1, s1) = (r2, out2, y2, s2)" by (cases "f a (y1, s1)") auto
    with run m Inr R_trans [OF s1 relatedD [OF assms(2) f]] show ?thesis by (simp add: bind_a_run)
  qed
qed

lemma single_related:
  assumes "related R pipe"
  shows "related R (do_handle_single pf h auth_of pipe depth e)"
proof (rule relatedI)
  fix x s r out y s' assume run: "do_handle_single pf h auth_of pipe depth e (x, s) = (r, out, y, s')"
  show "R s s'"
  proof (cases "\<exists>op z. peek_operation x = (Inr op, z) \<and> is_permitted op (auth_of s)")
    case False
    then have "\<forall>op. fst (peek_operation x) = Inr op \<longrightarrow> \<not> is_permitted op (auth_of s)"
      by (cases "peek_operation x") auto
    with handle_single_unpermitted [of "(x, s)" auth_of pf h pipe depth e] run show ?thesis by (simp add: R_refl)
  next
    case True
    then obtain op z where op: "peek_operation x = (Inr op, z)" "is_permitted op (auth_of s)" by blast
    obtain r1 out1 y1 s1 where d: "dispatch pf h pipe depth e (z, s) = (r1, out1, y1, s1)"
      by (cases "dispatch pf h pipe depth e (z, s)") auto
    have "R s s1" using op(1) d
    proof (cases rule: dispatch_cases)
      case unread
      then show ?thesis by (simp add: R_refl)
    next
      case (pipe z' r1 y1)
      then show ?thesis using relatedD [OF assms] by blast
    next
      case (call req)
      with op(2) show ?thesis by (intro h_step [of req s depth r1 out1 s1]) simp_all
    qed
    moreover have "s1 = s'"
      using run op d
      by (cases r1) (auto simp: do_handle_single_def dispatch_or_refuse_def bind_a_run extract_a_run return_a_def split: if_splits)
    ultimately show ?thesis by simp
  qed
qed

lemma do_handle_related:
  assumes "related R pipe"
  shows "related R (do_handle pf h auth_of pipe depth len)"
proof -
  have "related R (repeat_a n (do_handle_single pf h auth_of pipe depth False))" for n
    by (induction n) (simp_all add: related_pure related_bind single_related assms)
  then show ?thesis
    by (simp add: do_handle_def related_pure related_bind single_related assms)
qed

lemma pipe_related: "related R (pipe_requests pf h auth_of stack depth)"
proof (induction stack arbitrary: depth)
  case 0
  then show ?case by (simp add: related_def R_refl)
next
  case (Suc stack)
  have "related R (aggregating len m)" if "related R m" for len and m :: "(unit, 's) action"
  proof (rule relatedI)
    fix x s r out y s' assume run: "aggregating len m (x, s) = (r, out, y, s')"
    obtain r1 out1 y1 s1 where m: "m (x, s) = (r1, out1, y1, s1)" by (cases "m (x, s)") auto
    with run have "s' = s1" by (cases r1) (simp_all add: aggregating_def)
    with relatedD [OF that m] show "R s s'" by simp
  qed
  with Suc show ?case by (simp add: related_bind related_pure do_handle_related)
qed

lemma handle_user_related:
  assumes "handle_user pf h auth_of stack msg s = (r, out, s')"
  shows "R s s'"
proof -
  obtain x where "do_handle pf h auth_of (pipe_requests pf h auth_of stack 0) 0 1 (\<lparr>m_msg = msg, m_pos = 0\<rparr>, s) = (r, out, x, s')"
    using assms by (auto simp: handle_user_def split: prod.splits)
  then show ?thesis by (rule relatedD [OF do_handle_related [OF pipe_related]])
qed

end

text \<open>A client that may not use pipes makes at most one call per message.\<close>

lemma handle_user_one_call:
  assumes "handle_user pf h auth_of stack msg s = (r, out, s')" and "\<not> is_permitted PIPE (auth_of s)"
  obtains (none) "s' = s"
  | (call) req r' out' where "is_permitted (request_op req) (auth_of s)" "req \<noteq> request_pipe" "h 0 req s = (r', out', s')"
      "message_request pf msg = Inr req"
proof -
  let ?pipe = "pipe_requests pf h auth_of stack 0" and ?x = "\<lparr>m_msg = msg, m_pos = 0\<rparr>"
  obtain q out1 y s1 where d: "do_handle_single pf h auth_of ?pipe 0 True (?x, s) = (q, out1, y, s1)"
    by (cases "do_handle_single pf h auth_of ?pipe 0 True (?x, s)") auto
  then have s1: "s1 = s'" using assms(1) by (cases q) (simp_all add: handle_user_def do_handle_one [simplified])
  show ?thesis
  proof (cases "\<exists>op z. peek_operation ?x = (Inr op, z) \<and> is_permitted op (auth_of s)")
    case False
    then have "\<forall>op. fst (peek_operation ?x) = Inr op \<longrightarrow> \<not> is_permitted op (auth_of s)"
      by (cases "peek_operation ?x") auto
    with handle_single_unpermitted [of "(?x, s)" auth_of pf h ?pipe 0 True] d s1 show ?thesis by (intro none) simp
  next
    case True
    then obtain op z where op: "peek_operation ?x = (Inr op, z)" "is_permitted op (auth_of s)" by blast
    obtain r2 out2 y2 s2 where p: "dispatch pf h ?pipe 0 True (z, s) = (r2, out2, y2, s2)"
      by (cases "dispatch pf h ?pipe 0 True (z, s)") auto
    have s2: "s2 = s'"
      using d op p s1
      by (cases r2) (auto simp: do_handle_single_def dispatch_or_refuse_def bind_a_run extract_a_run return_a_def split: if_splits)
    from op(1) p show ?thesis
    proof (cases rule: dispatch_cases)
      case unread
      with s2 show ?thesis by (intro none) simp
    next
      case (pipe z')
      with op(2) assms(2) show ?thesis by simp
    next
      case (call req)
      moreover have "message_request pf msg = Inr req"
        using call(4) get_despite_peek [OF op(1)] by (simp add: message_request_def bind_e_def)
      ultimately show ?thesis using op(2) s2 by (intro that(2) [of req r2 out2]) simp_all
    qed
  qed
qed

section \<open>Every message is answered\<close>

text \<open>A handler may leave the client without a response only when the connection ends, or when the answer comes later:
  a request to join a cluster is answered when the peer has replied.\<close>

locale answering_handler =
  fixes h :: "'s handler"
  assumes answers: "h depth req s = (Inr (), out, s') \<Longrightarrow> req \<noteq> request_pipe \<Longrightarrow>
      out \<noteq> [] \<or> depth = 0 \<and> last_request req \<or> request_op req = CLUSTER_JOIN"
begin

lemma handle_user_answers:
  assumes "handle_user pf h auth_of stack msg s = (Inr (), out, s')"
  shows "out \<noteq> [] \<or> (\<exists>op. fst (peek_operation \<lparr>m_msg = msg, m_pos = 0\<rparr>) = Inr op \<and> (op = EXIT \<or> op = TERMINATE \<or> op = CLUSTER_JOIN))"
proof -
  let ?pipe = "pipe_requests pf h auth_of stack 0" and ?x = "\<lparr>m_msg = msg, m_pos = 0\<rparr>"
  obtain q y where d: "do_handle_single pf h auth_of ?pipe 0 True (?x, s) = (Inr q, out, y, s')"
    using assms by (auto simp: handle_user_def do_handle_one [simplified] split: prod.splits sum.splits)
  obtain pk z where pk: "peek_operation ?x = (pk, z)" by (cases "peek_operation ?x")
  show ?thesis
  proof (cases pk)
    case (Inl err)
    with pk d show ?thesis
      by (auto simp: do_handle_single_def dispatch_or_refuse_def bind_a_run extract_a_run split: if_splits)
  next
    case (Inr op)
    show ?thesis
    proof (cases "is_permitted op (auth_of s)")
      case False
      with pk Inr d show ?thesis
        by (auto simp: do_handle_single_def dispatch_or_refuse_def bind_a_def extract_a_def refuse_with_response_def
            return_a_def send_a_def split: if_splits)
    next
      case True
      obtain r2 out2 y2 s2 where p: "dispatch pf h ?pipe 0 True (z, s) = (r2, out2, y2, s2)"
        by (cases "dispatch pf h ?pipe 0 True (z, s)") auto
      show ?thesis
      proof (cases r2)
        case (Inl err)
        with d pk Inr True p show ?thesis
          by (auto simp: do_handle_single_def dispatch_or_refuse_def bind_a_run extract_a_run split: if_splits)
      next
        case (Inr u)
        then have out: "out = out2"
          using d pk \<open>pk = Inr op\<close> True p
          by (simp add: do_handle_single_def dispatch_or_refuse_def bind_a_run extract_a_run return_a_def)
        from pk [unfolded \<open>pk = Inr op\<close>] p show ?thesis
        proof (cases rule: dispatch_cases)
          case (pipe z' r3)
          then have "r3 = Inr ()" using Inr by (cases r3) auto
          with pipe(2) have "out2 \<noteq> []"
            by (cases stack)
               (auto simp: bind_a_def extract_a_def aggregating_def split: prod.splits sum.splits)
          with out show ?thesis by simp
        next
          case (call req)
          with answers [of 0 req s out2 s2] Inr out pk \<open>pk = Inr op\<close> show ?thesis by (auto simp: last_request_def)
        qed (simp add: Inr)
      qed
    qed
  qed
qed

end

end
