(* ===== verification/Session.thy ===== *)
theory Session
  imports Operations Db_Operations
begin

text \<open>
  \<^verbatim>\<open>vanity/client/session_info.h\<close> and \<^verbatim>\<open>vanity/session_server.{h,cpp}\<close>: what the server keeps about a
  client. A method that returns a reference is a reader here; where the code assigns through the
  reference there is a writer beside it. The time of the last pulse of a peer is left to the
  cluster components.
\<close>

section \<open>Sessions\<close>

record user_data_t =
  channels :: "string list"
  username :: string
  used_database :: nat
  trn_id :: trn_id_t

definition new_user_data :: user_data_t where
  "new_user_data = \<lparr>channels = [], username = [], used_database = 0, trn_id = NO_TRN_ID\<rparr>"

record peer_data_t =
  addr :: string
  peer_id :: "string option"
  behaviour_score :: nat
  last_pulse :: int

text \<open>The constructor takes the current time as the time of the last pulse.\<close>

definition new_peer_data :: "int \<Rightarrow> string \<Rightarrow> string option \<Rightarrow> peer_data_t" where
  "new_peer_data now a i = \<lparr>addr = a, peer_id = i, behaviour_score = 0, last_pulse = now\<rparr>"

datatype session_data_t = No_Data | User_Data user_data_t | Peer_Data peer_data_t

record session_info =
  session_data :: session_data_t
  auth :: client_auth

definition new_session :: session_info where
  "new_session = \<lparr>session_data = No_Data, auth = UNKNOWN\<rparr>"

section \<open>The session server\<close>

definition session_auth :: "session_info \<Rightarrow> client_auth" where
  "session_auth s = auth s"

definition session_set_auth :: "client_auth \<Rightarrow> session_info \<Rightarrow> session_info result" where
  "session_set_auth a s =
     (case a of
        PEER \<Rightarrow> Inl (RuntimeError ''address required to set auth to PEER'')
      | UNKNOWN \<Rightarrow> Inl (RuntimeError ''cannot set auth to UNKNOWN'')
      | _ \<Rightarrow> Inr (s\<lparr>auth := a, session_data := User_Data new_user_data\<rparr>))"

definition session_set_auth_peer :: "int \<Rightarrow> client_auth \<Rightarrow> string \<Rightarrow> string option \<Rightarrow> session_info \<Rightarrow> session_info result" where
  "session_set_auth_peer now a ad i s =
     (if a \<noteq> PEER then Inl (RuntimeError ''can only set to PEER with an address'')
      else Inr (s\<lparr>auth := a, session_data := Peer_Data (new_peer_data now ad i)\<rparr>))"

definition session_is_peer :: "session_info \<Rightarrow> bool" where
  "session_is_peer s \<longleftrightarrow> session_auth s = PEER"

definition session_is_user :: "session_info \<Rightarrow> bool" where
  "session_is_user s \<longleftrightarrow> session_auth s = USER \<or> session_auth s = ADMIN"

definition session_user_data :: "session_info \<Rightarrow> user_data_t result" where
  "session_user_data s =
     (case session_data s of User_Data u \<Rightarrow> Inr u | _ \<Rightarrow> Inl (RuntimeError ''client is not a user''))"

definition session_db :: "session_info \<Rightarrow> nat result" where
  "session_db s = bind_result (session_user_data s) (\<lambda>u. Inr (used_database u))"

definition session_username :: "session_info \<Rightarrow> string result" where
  "session_username s = bind_result (session_user_data s) (\<lambda>u. Inr (username u))"

definition session_channels :: "session_info \<Rightarrow> string list result" where
  "session_channels s = bind_result (session_user_data s) (\<lambda>u. Inr (channels u))"

definition session_trn_id :: "session_info \<Rightarrow> trn_id_t result" where
  "session_trn_id s = bind_result (session_user_data s) (\<lambda>u. Inr (trn_id u))"

definition session_peer_data :: "session_info \<Rightarrow> peer_data_t result" where
  "session_peer_data s =
     (case session_data s of Peer_Data p \<Rightarrow> Inr p | _ \<Rightarrow> Inl (RuntimeError ''client is not a peer''))"

definition session_addr :: "session_info \<Rightarrow> string result" where
  "session_addr s = bind_result (session_peer_data s) (\<lambda>p. Inr (addr p))"

definition session_id :: "session_info \<Rightarrow> string option result" where
  "session_id s = bind_result (session_peer_data s) (\<lambda>p. Inr (peer_id p))"

text \<open>Assignment through the reference to the user data.\<close>

definition update_user_data :: "(user_data_t \<Rightarrow> user_data_t) \<Rightarrow> session_info \<Rightarrow> session_info result" where
  "update_user_data f s = bind_result (session_user_data s) (\<lambda>u. Inr (s\<lparr>session_data := User_Data (f u)\<rparr>))"

section \<open>The invariant\<close>

text \<open>The kind of data a session has follows from its level of authentication.\<close>

definition wf_session :: "session_info \<Rightarrow> bool" where
  "wf_session s \<longleftrightarrow>
     (case session_data s of
        No_Data \<Rightarrow> auth s = UNKNOWN
      | User_Data _ \<Rightarrow> auth s = USER \<or> auth s = ADMIN
      | Peer_Data _ \<Rightarrow> auth s = PEER)"

lemma wf_new_session: "wf_session new_session"
  by (simp add: wf_session_def new_session_def)

lemma wf_session_set_auth: "session_set_auth a s = Inr s' \<Longrightarrow> wf_session s'"
  by (auto simp: session_set_auth_def wf_session_def split: client_auth.splits)

lemma wf_session_set_auth_peer: "session_set_auth_peer now a ad i s = Inr s' \<Longrightarrow> wf_session s'"
  by (auto simp: session_set_auth_peer_def wf_session_def split: if_splits)

lemma wf_update_user_data: "wf_session s \<Longrightarrow> update_user_data f s = Inr s' \<Longrightarrow> wf_session s' \<and> auth s' = auth s"
  by (auto simp: update_user_data_def session_user_data_def wf_session_def bind_result_Inr_iff
      split: session_data_t.splits)

lemma session_user_data_user: "wf_session s \<Longrightarrow> session_is_user s \<longleftrightarrow> (\<exists>u. session_data s = User_Data u)"
  by (auto simp: wf_session_def session_is_user_def session_auth_def split: session_data_t.splits)

lemma session_user_data_ok:
  assumes "wf_session s" and "session_is_user s"
  obtains u where "session_user_data s = Inr u" "session_data s = User_Data u"
  using assms session_user_data_user [OF assms(1)] by (auto simp: session_user_data_def)

end
