(* ===== verification/Handlers.thy ===== *)
theory Handlers
  imports Session Response Request
begin

text \<open>
  How the methods \<^verbatim>\<open>request_*\<close> of the servers are modelled. A method works on the session of its
  client and on the state of its server, may throw, and ends with \<^verbatim>\<open>send(client, ...)\<close>: it is an
  operation on the session and the state that gives the response it sends. What was changed before an
  exception stays changed.

  Two contracts: an invariant of the sessions and the state that a server's methods keep (\<open>keeper\<close>), and
  the same for any sequence of requests.
\<close>

section \<open>Operations on a session and a state\<close>

type_synonym ('a, 'st) op = "session_info \<times> 'st \<Rightarrow> 'a result \<times> session_info \<times> 'st"

definition return_o :: "'a \<Rightarrow> ('a, 'st) op" where
  "return_o a x = (Inr a, x)"

definition throw_o :: "error \<Rightarrow> ('a, 'st) op" where
  "throw_o e x = (Inl e, x)"

definition bind_o :: "('a, 'st) op \<Rightarrow> ('a \<Rightarrow> ('b, 'st) op) \<Rightarrow> ('b, 'st) op" where
  "bind_o m f x = (case m x of (Inl e, x) \<Rightarrow> (Inl e, x) | (Inr a, x) \<Rightarrow> f a x)"

text \<open>Read the session; assign to it; read the state; change it.\<close>

definition session_o :: "(session_info \<Rightarrow> 'a result) \<Rightarrow> ('a, 'st) op" where
  "session_o f x = (f (fst x), x)"

definition assign_o :: "(session_info \<Rightarrow> session_info result) \<Rightarrow> (unit, 'st) op" where
  "assign_o f x = (case f (fst x) of Inl e \<Rightarrow> (Inl e, x) | Inr s \<Rightarrow> (Inr (), s, snd x))"

definition read_o :: "('st \<Rightarrow> 'a) \<Rightarrow> ('a, 'st) op" where
  "read_o f x = (Inr (f (snd x)), x)"

definition change_o :: "('st \<Rightarrow> 'st) \<Rightarrow> (unit, 'st) op" where
  "change_o f x = (Inr (), fst x, f (snd x))"

definition result_o :: "'a result \<Rightarrow> ('a, 'st) op" where
  "result_o r x = (r, x)"

text \<open>The same operation as a part of a larger server.\<close>

definition lift_o :: "('big \<Rightarrow> 'st) \<Rightarrow> ('st \<Rightarrow> 'big \<Rightarrow> 'big) \<Rightarrow> ('a, 'st) op \<Rightarrow> ('a, 'big) op" where
  "lift_o part put m x = (case m (fst x, part (snd x)) of (r, s, st) \<Rightarrow> (r, s, put st (snd x)))"

named_theorems op_simps \<open>the elementary operations\<close>

declare return_o_def [op_simps] throw_o_def [op_simps] session_o_def [op_simps] assign_o_def [op_simps]
  read_o_def [op_simps] change_o_def [op_simps] result_o_def [op_simps]

lemma bind_o_return [simp]: "bind_o (return_o a) f = f a" "bind_o (throw_o e) f = throw_o e"
  by (simp_all add: bind_o_def return_o_def throw_o_def fun_eq_iff)

lemma bind_o_run:
  "m x = (Inr a, y) \<Longrightarrow> bind_o m f x = f a y"
  "m x = (Inl e, y) \<Longrightarrow> bind_o m f x = (Inl e, y)"
  by (simp_all add: bind_o_def)

lemma bind_o_steps [simp]:
  "bind_o (session_o g) f x = (case g (fst x) of Inl e \<Rightarrow> (Inl e, x) | Inr a \<Rightarrow> f a x)"
  "bind_o (assign_o h) k x = (case h (fst x) of Inl e \<Rightarrow> (Inl e, x) | Inr s \<Rightarrow> k () (s, snd x))"
  "bind_o (read_o r) f' x = f' (r (snd x)) x"
  "bind_o (change_o c) k x = k () (fst x, c (snd x))"
  "bind_o (result_o q) f x = (case q of Inl e \<Rightarrow> (Inl e, x) | Inr a \<Rightarrow> f a x)"
  by (simp_all add: bind_o_def op_simps split: sum.splits)

section \<open>Keeping an invariant\<close>

definition keeps :: "(session_info \<Rightarrow> 'st \<Rightarrow> bool) \<Rightarrow> ('a, 'st) op \<Rightarrow> bool" where
  "keeps I m \<longleftrightarrow> (\<forall>s st r s' st'. I s st \<longrightarrow> m (s, st) = (r, s', st') \<longrightarrow> I s' st')"

named_theorems keeps_intros \<open>operations that keep an invariant\<close>

lemma keepsI: "(\<And>s st r s' st'. I s st \<Longrightarrow> m (s, st) = (r, s', st') \<Longrightarrow> I s' st') \<Longrightarrow> keeps I m"
  by (simp add: keeps_def)

lemma keepsD: "keeps I m \<Longrightarrow> I s st \<Longrightarrow> m (s, st) = (r, s', st') \<Longrightarrow> I s' st'"
  by (auto simp: keeps_def)

lemma keeps_pure [keeps_intros]:
  "keeps I (return_o a)" "keeps I (throw_o e)" "keeps I (session_o g)" "keeps I (read_o f)" "keeps I (result_o q)"
  by (simp_all add: keeps_def op_simps)

lemma keeps_bind [keeps_intros]:
  assumes "keeps I m" and "\<And>a. keeps I (f a)"
  shows "keeps I (bind_o m f)"
proof (rule keepsI)
  fix s st r s' st' assume "I s st" and run: "bind_o m f (s, st) = (r, s', st')"
  obtain r1 s1 st1 where m: "m (s, st) = (r1, s1, st1)" by (cases "m (s, st)") auto
  then have I: "I s1 st1" using assms(1) \<open>I s st\<close> by (auto intro: keepsD)
  show "I s' st'"
  proof (cases r1)
    case (Inl e)
    with m run I show ?thesis by (simp add: bind_o_def)
  next
    case (Inr a)
    with m run have "f a (s1, st1) = (r, s', st')" by (simp add: bind_o_def)
    with assms(2) I show ?thesis by (rule keepsD)
  qed
qed

lemma keeps_if [keeps_intros]: "(b \<Longrightarrow> keeps I m) \<Longrightarrow> (\<not> b \<Longrightarrow> keeps I n) \<Longrightarrow> keeps I (if b then m else n)"
  by simp

lemma keeps_assign: "(\<And>s st s'. I s st \<Longrightarrow> f s = Inr s' \<Longrightarrow> I s' st) \<Longrightarrow> keeps I (assign_o f)"
  by (auto simp: keeps_def assign_o_def split: sum.splits)

lemma keeps_change: "(\<And>s st. I s st \<Longrightarrow> I s (f st)) \<Longrightarrow> keeps I (change_o f)"
  by (auto simp: keeps_def change_o_def)

lemma keeps_option [keeps_intros]:
  "keeps I m \<Longrightarrow> (\<And>a. keeps I (f a)) \<Longrightarrow> keeps I (case x of None \<Rightarrow> m | Some a \<Rightarrow> f a)"
  by (simp split: option.split)

lemma keeps_conj: "keeps I m \<Longrightarrow> keeps K m \<Longrightarrow> keeps (\<lambda>s st. I s st \<and> K s st) m"
  by (auto simp: keeps_def)

lemma keeps_lift:
  assumes "keeps I m" and "\<And>s b. J s b \<Longrightarrow> I s (part b)" and "\<And>s b s' st. J s b \<Longrightarrow> I s' st \<Longrightarrow> J s' (put st b)"
  shows "keeps J (lift_o part put m)"
proof (rule keepsI)
  fix s b r s' b' assume J: "J s b" and run: "lift_o part put m (s, b) = (r, s', b')"
  obtain st' where m: "m (s, part b) = (r, s', st')" "b' = put st' b"
    using run by (auto simp: lift_o_def split: prod.splits)
  with keepsD [OF assms(1) assms(2) [OF J] m(1)] assms(3) [OF J] show "J s' b'" by simp
qed

text \<open>A property of the session alone.\<close>

lemma keeps_session_change [keeps_intros]: "keeps (\<lambda>s st. P s) (change_o f)"
  by (rule keeps_change)

primrec serve_all :: "('req \<Rightarrow> ('a, 'st) op) \<Rightarrow> 'req list \<Rightarrow> session_info \<times> 'st \<Rightarrow> session_info \<times> 'st" where
  "serve_all serve [] x = x"
| "serve_all serve (req # reqs) x = serve_all serve reqs (snd (serve req x))"

text \<open>A server: its methods keep an invariant of every session and of its state.\<close>

locale keeper =
  fixes serve :: "'req \<Rightarrow> ('a, 'st) op" and I :: "session_info \<Rightarrow> 'st \<Rightarrow> bool"
  assumes serve_keeps: "keeps I (serve req)"
begin

lemma serve_all_keeps: "I s st \<Longrightarrow> serve_all serve reqs (s, st) = (s', st') \<Longrightarrow> I s' st'"
proof (induction reqs arbitrary: s st)
  case Nil
  then show ?case by simp
next
  case (Cons req reqs)
  obtain r s1 st1 where "serve req (s, st) = (r, s1, st1)" by (cases "serve req (s, st)") auto
  with Cons.prems Cons.IH [of s1 st1] keepsD [OF serve_keeps] show ?case by simp
qed

end

end
