(* ===== verification/Database_Servers.thy ===== *)
theory Database_Servers
  imports Handlers Wal_Recovery
begin

text \<open>
  \<^verbatim>\<open>vanity/db/servers/\<close> and \<^verbatim>\<open>vanity/db/transaction_server.cpp\<close>: the requests on the databases. A
  request takes the database and the transaction id from the session of its client
  (\<^verbatim>\<open>DatabaseObjectServer::database\<close>), calls the locked database, and answers with what it returns.

  A request is handled at one point in time, \<open>mc_now\<close>. The arithmetic and the conversions of doubles are
  parameters: \<open>mc_duration\<close> is \<^verbatim>\<open>duration_cast\<close> from seconds to clock ticks, without a value where the
  result is not representable, and \<open>mc_seconds\<close> is the conversion back.
\<close>

section \<open>The databases of a client\<close>

record machine =
  mc_fadd :: "float_t \<Rightarrow> float_t \<Rightarrow> float_t"
  mc_draw :: "nat \<Rightarrow> nat \<Rightarrow> nat"
  mc_now :: time_t
  mc_to_string :: "float_t \<Rightarrow> string"
  mc_duration :: "float_t \<Rightarrow> int option"
  mc_seconds :: "int \<Rightarrow> float_t"

definition M_NUM_DATABASES :: nat where
  "M_NUM_DATABASES = 16"

definition create_databases :: "database list" where
  "create_databases = map new_database [0 ..< M_NUM_DATABASES]"

text \<open>\<^verbatim>\<open>m_databases[index]\<close> of a \<^verbatim>\<open>std::array\<close>: nothing is checked.\<close>

definition database_obj :: "nat \<Rightarrow> (nat, locked_server) op" where
  "database_obj i x = (if i < length (m_databases (snd x)) then Inr i else undefined_behaviour, x)"

definition call_obj :: "machine \<Rightarrow> nat \<Rightarrow> trn_id_t \<Rightarrow> db_call \<Rightarrow> (db_reply, locked_server) op" where
  "call_obj mc d trn call x =
     (case locked_call (mc_fadd mc) (mc_draw mc) (mc_now mc) trn d call (snd x) of
        Inl e \<Rightarrow> (Inl e, x)
      | Inr (r, st) \<Rightarrow> (Inr r, fst x, st))"

text \<open>A call through the wrapper that \<^verbatim>\<open>database(client)\<close> makes.\<close>

definition database_call :: "machine \<Rightarrow> db_call \<Rightarrow> (db_reply, locked_server) op" where
  "database_call mc call =
     bind_o (session_o session_db) (\<lambda>i.
     bind_o (database_obj i) (\<lambda>d.
     bind_o (session_o session_trn_id) (\<lambda>trn. call_obj mc d trn call)))"

text \<open>The event that is pushed every ten seconds.\<close>

definition event_expire :: "time_t \<Rightarrow> locked_server \<Rightarrow> locked_server" where
  "event_expire now st = purge_all now st"

text \<open>The reply of a call has the type of the method called. Any other shape would be a compile time
  error; it gets an exception that no call ever raises.\<close>

definition bad_reply :: "('a, 'st) op" where
  "bad_reply = throw_o (RuntimeError ''bad variant access'')"

section \<open>General requests\<close>

definition validate_db_index :: "int \<Rightarrow> response option" where
  "validate_db_index i =
     (if i < 0 then Some (error '' db index must be non-negative'')
      else if i \<ge> int M_NUM_DATABASES then Some (error ('' db index must be less than '' @ to_string M_NUM_DATABASES))
      else None)"

text \<open>\<^verbatim>\<open>db_index_t\<close>: the type at an index of the variant.\<close>

definition db_index_t :: "nat \<Rightarrow> value_type option" where
  "db_index_t i =
     (if i = 0 then Some str_type else if i = 1 then Some int_type else if i = 2 then Some float_type
      else if i = 3 then Some list_type else if i = 4 then Some set_type else if i = 5 then Some hash_type
      else None)"

fun bool_reply :: "db_reply \<Rightarrow> (response, 'st) op" where
  "bool_reply (RBool b) = return_o (if b then ok else null)"
| "bool_reply _ = bad_reply"

fun get_reply :: "machine \<Rightarrow> db_reply \<Rightarrow> (response, 'st) op" where
  "get_reply mc (RData None) = return_o null"
| "get_reply mc (RData (Some v)) = return_o (ok_value (serialize_data (mc_to_string mc)) v)"
| "get_reply mc _ = bad_reply"

fun type_reply :: "db_reply \<Rightarrow> (response, 'st) op" where
  "type_reply (RType None) = return_o null"
| "type_reply (RType (Some i)) =
     (case db_index_t i of Some t \<Rightarrow> return_o (serialize_type t ok) | None \<Rightarrow> throw_o (RuntimeError ''invalid type''))"
| "type_reply _ = bad_reply"

fun keys_reply :: "db_reply \<Rightarrow> (response, 'st) op" where
  "keys_reply (RKeys ks) = return_o (if ks = [] then null else ok_value serialize_arr ks)"
| "keys_reply _ = bad_reply"

definition unit_reply :: "db_reply \<Rightarrow> (response, 'st) op" where
  "unit_reply r = return_o ok"

text \<open>\<^verbatim>\<open>request_copy_to_db\<close> and \<^verbatim>\<open>request_move_to_db\<close>\<close>

definition to_db :: "machine \<Rightarrow> (nat \<Rightarrow> db_call) \<Rightarrow> int \<Rightarrow> (response, locked_server) op" where
  "to_db mc call dest =
     (case validate_db_index dest of
        Some r \<Rightarrow> return_o r
      | None \<Rightarrow>
          bind_o (session_o session_db) (\<lambda>i.
          if dest = int i then return_o ok
          else bind_o (database_obj (nat dest)) (\<lambda>d. bind_o (database_call mc (call d)) bool_reply)))"

primrec serve_general :: "machine \<Rightarrow> general_request \<Rightarrow> (response, locked_server) op" where
  "serve_general mc (request_switch_db i) =
     (case validate_db_index i of
        Some r \<Rightarrow> return_o r
      | None \<Rightarrow> bind_o (assign_o (update_user_data (\<lambda>u. u\<lparr>used_database := nat i\<rparr>))) (\<lambda>_. return_o ok))"
| "serve_general mc (request_get key) = bind_o (database_call mc (call_get key)) (get_reply mc)"
| "serve_general mc (request_del key) = bind_o (database_call mc (call_del key)) bool_reply"
| "serve_general mc (request_type key) = bind_o (database_call mc (call_type key)) type_reply"
| "serve_general mc request_reset = bind_o (database_call mc call_reset) unit_reply"
| "serve_general mc (request_exists key) = bind_o (database_call mc (call_has key)) bool_reply"
| "serve_general mc request_keys = bind_o (database_call mc call_keys) keys_reply"
| "serve_general mc (request_copy_to src dst) = bind_o (database_call mc (call_copy_to src dst)) bool_reply"
| "serve_general mc (request_move_to src dst) = bind_o (database_call mc (call_move_to src dst)) bool_reply"
| "serve_general mc (request_copy_to_db src dst) = to_db mc (call_copy_to_db src) dst"
| "serve_general mc (request_move_to_db src dst) = to_db mc (call_move_to_db src) dst"

section \<open>Expiry\<close>

text \<open>\<^verbatim>\<open>system_clock::now() + duration_cast<system_clock::duration>(duration<double>(seconds))\<close>: the cast
  and the sum are undefined when they overflow.\<close>

definition seconds_to_time_point :: "machine \<Rightarrow> float_t \<Rightarrow> time_t result" where
  "seconds_to_time_point mc seconds =
     (case mc_duration mc seconds of
        None \<Rightarrow> undefined_behaviour
      | Some d \<Rightarrow> if int64_ok (mc_now mc + d) then Inr (mc_now mc + d) else undefined_behaviour)"

definition time_point_to_seconds :: "machine \<Rightarrow> time_t \<Rightarrow> float_t result" where
  "time_point_to_seconds mc tp =
     (if int64_ok (tp - mc_now mc) then Inr (mc_seconds mc (tp - mc_now mc)) else undefined_behaviour)"

fun time_reply :: "machine \<Rightarrow> db_reply \<Rightarrow> (response, 'st) op" where
  "time_reply mc (RTime None) = return_o null"
| "time_reply mc (RTime (Some tp)) =
     bind_o (result_o (time_point_to_seconds mc tp)) (\<lambda>s. return_o (ok_value (serialize_float (mc_to_string mc)) s))"
| "time_reply mc _ = bad_reply"

primrec serve_expiry :: "machine \<Rightarrow> expiry_request \<Rightarrow> (response, locked_server) op" where
  "serve_expiry mc (request_set_expiry key seconds) =
     bind_o (result_o (seconds_to_time_point mc seconds)) (\<lambda>t.
     bind_o (database_call mc (call_set_expiry key t)) unit_reply)"
| "serve_expiry mc (request_get_expiry key) = bind_o (database_call mc (call_get_expiry key)) (time_reply mc)"
| "serve_expiry mc (request_clear_expiry key) = bind_o (database_call mc (call_clear_expiry key)) unit_reply"

section \<open>Primitive types\<close>

fun int_reply :: "string \<Rightarrow> db_reply \<Rightarrow> (response, 'st) op" where
  "int_reply msg (RInt (Some i)) = return_o (ok_value serialize_int i)"
| "int_reply msg (RInt None) = return_o (bad_type msg)"
| "int_reply msg _ = bad_reply"

fun float_reply :: "machine \<Rightarrow> db_reply \<Rightarrow> (response, 'st) op" where
  "float_reply mc (RFloat (Some x)) = return_o (ok_value (serialize_float (mc_to_string mc)) x)"
| "float_reply mc (RFloat None) = return_o (bad_type ''not a float'')"
| "float_reply mc _ = bad_reply"

fun many_reply :: "machine \<Rightarrow> db_reply \<Rightarrow> (response, 'st) op" where
  "many_reply mc (RMany vs) =
     return_o (ok_value (serialize_tuple (serialize_option (serialize_data (mc_to_string mc)))) vs)"
| "many_reply mc _ = bad_reply"

primrec serve_primitive :: "machine \<Rightarrow> primitive_request \<Rightarrow> (response, locked_server) op" where
  "serve_primitive mc (request_str_set key v) = bind_o (database_call mc (call_str_set key v)) unit_reply"
| "serve_primitive mc (request_int_set key v) = bind_o (database_call mc (call_int_set key v)) unit_reply"
| "serve_primitive mc (request_float_set key v) = bind_o (database_call mc (call_float_set key v)) unit_reply"
| "serve_primitive mc (request_incr_int key v) =
     bind_o (database_call mc (call_incr_int key v)) (int_reply ''not an int'')"
| "serve_primitive mc (request_incr_float key v) =
     bind_o (database_call mc (call_incr_float key v)) (float_reply mc)"
| "serve_primitive mc (request_str_len key) =
     bind_o (database_call mc (call_str_len key)) (int_reply ''not a string'')"
| "serve_primitive mc (request_many_get ks) = bind_o (database_call mc (call_many_get ks)) (many_reply mc)"

section \<open>Lists\<close>

fun list_send_error :: "ListErrorKind \<Rightarrow> response" where
  "list_send_error NotList = bad_type ''not a list''"
| "list_send_error List_Database.OutOfRange = error ''index out of range''"

definition list_handle_result :: "('a \<Rightarrow> response \<Rightarrow> response) \<Rightarrow> ListErrorKind + 'a \<Rightarrow> (response, 'st) op" where
  "list_handle_result ser r = return_o (case r of Inl e \<Rightarrow> list_send_error e | Inr a \<Rightarrow> ok_value ser a)"

fun list_reply :: "db_reply \<Rightarrow> (response, 'st) op" where
  "list_reply (RListNat r) = list_handle_result serialize_size r"
| "list_reply (RListStr r) = list_handle_result serialize_str r"
| "list_reply (RList r) = list_handle_result serialize_list r"
| "list_reply _ = bad_reply"

primrec list_call :: "list_request \<Rightarrow> db_call" where
  "list_call (request_list_len key) = call_list_len key"
| "list_call (request_list_get key i) = call_list_get key i"
| "list_call (request_list_set key i v) = call_list_set key i v"
| "list_call (request_list_push_left key vs) = call_list_push_left key vs"
| "list_call (request_list_push_right key vs) = call_list_push_right key vs"
| "list_call (request_list_pop_left key n) = call_list_pop_left key n"
| "list_call (request_list_pop_right key n) = call_list_pop_right key n"
| "list_call (request_list_range key i j) = call_list_range key i j"
| "list_call (request_list_trim key i j) = call_list_trim key i j"
| "list_call (request_list_remove key v n) = call_list_remove key v n"

definition serve_list :: "machine \<Rightarrow> list_request \<Rightarrow> (response, locked_server) op" where
  "serve_list mc req = bind_o (database_call mc (list_call req)) list_reply"

section \<open>Sets\<close>

definition set_handle_result :: "('a \<Rightarrow> response \<Rightarrow> response) \<Rightarrow> 'a option \<Rightarrow> (response, 'st) op" where
  "set_handle_result ser r = return_o (case r of None \<Rightarrow> bad_type ''not a set'' | Some a \<Rightarrow> ok_value ser a)"

fun set_reply :: "db_reply \<Rightarrow> (response, 'st) op" where
  "set_reply (RNat r) = set_handle_result serialize_size r"
| "set_reply (RSet r) = set_handle_result serialize_set r"
| "set_reply (ROptBool r) = set_handle_result serialize_bool r"
| "set_reply _ = bad_reply"

text \<open>The count of a removal is an \<^verbatim>\<open>int64_t\<close> in the request and a \<^verbatim>\<open>size_t\<close> in the database.\<close>

primrec set_call :: "set_request \<Rightarrow> db_call" where
  "set_call (request_set_add key vs) = call_set_add key vs"
| "set_call (request_set_all key) = call_set_all key"
| "set_call (request_set_remove key n) = call_set_remove key (nat (n mod 2 ^ 64))"
| "set_call (request_set_discard key vs) = call_set_discard key vs"
| "set_call (request_set_len key) = call_set_len key"
| "set_call (request_set_contains key v) = call_set_contains key v"
| "set_call (request_set_move src dst v) = call_set_move src dst v"
| "set_call (request_set_union ks) = call_set_union ks"
| "set_call (request_set_union_into dst ks) = call_set_union_into dst ks"
| "set_call (request_set_union_len ks) = call_set_union_len ks"
| "set_call (request_set_intersection ks) = call_set_intersection ks"
| "set_call (request_set_intersection_into dst ks) = call_set_intersection_into dst ks"
| "set_call (request_set_intersection_len ks) = call_set_intersection_len ks"
| "set_call (request_set_difference k1 k2) = call_set_difference k1 k2"
| "set_call (request_set_difference_into dst k1 k2) = call_set_difference_into dst k1 k2"
| "set_call (request_set_difference_len k1 k2) = call_set_difference_len k1 k2"

definition serve_set :: "machine \<Rightarrow> set_request \<Rightarrow> (response, locked_server) op" where
  "serve_set mc req = bind_o (database_call mc (set_call req)) set_reply"

section \<open>Hashes\<close>

fun hash_send_error :: "HashError \<Rightarrow> response" where
  "hash_send_error NotHash = bad_type ''not hash''"
| "hash_send_error BadKey = error ''bad key''"

definition hash_handle_result :: "('a \<Rightarrow> response \<Rightarrow> response) \<Rightarrow> HashError + 'a \<Rightarrow> (response, 'st) op" where
  "hash_handle_result ser r = return_o (case r of Inl e \<Rightarrow> hash_send_error e | Inr a \<Rightarrow> ok_value ser a)"

fun hash_reply :: "db_reply \<Rightarrow> (response, 'st) op" where
  "hash_reply (RHash r) = hash_handle_result serialize_hash r"
| "hash_reply (RHashStr r) = hash_handle_result serialize_str r"
| "hash_reply (RHashBool r) = hash_handle_result serialize_bool r"
| "hash_reply (RHashNat r) = hash_handle_result serialize_size r"
| "hash_reply (RHashStrs r) = hash_handle_result serialize_arr r"
| "hash_reply (RHashMany r) = hash_handle_result (serialize_tuple (serialize_option serialize_str)) r"
| "hash_reply RUnit = return_o ok"
| "hash_reply _ = bad_reply"

primrec hash_call :: "hash_request \<Rightarrow> db_call" where
  "hash_call (request_hash_set key h) = call_hash_set key h"
| "hash_call (request_hash_all key) = call_hash_all key"
| "hash_call (request_hash_get key f) = call_hash_get key f"
| "hash_call (request_hash_contains key f) = call_hash_contains key f"
| "hash_call (request_hash_len key) = call_hash_len key"
| "hash_call (request_hash_key_len key f) = call_hash_key_len key f"
| "hash_call (request_hash_remove key fs) = call_hash_remove key fs"
| "hash_call (request_hash_keys key) = call_hash_keys key"
| "hash_call (request_hash_values key) = call_hash_values key"
| "hash_call (request_hash_update key h) = call_hash_update key h"
| "hash_call (request_hash_many_get key fs) = call_hash_many_get key fs"

definition serve_hash :: "machine \<Rightarrow> hash_request \<Rightarrow> (response, locked_server) op" where
  "serve_hash mc req = bind_o (database_call mc (hash_call req)) hash_reply"

section \<open>The array of databases is never left\<close>

text \<open>There are always sixteen databases and a user always has one of them selected, whatever is requested.\<close>

definition selects_database :: "session_info \<Rightarrow> bool" where
  "selects_database s \<longleftrightarrow> wf_session s \<and> (\<forall>u. session_data s = User_Data u \<longrightarrow> used_database u < M_NUM_DATABASES)"

definition db_inv :: "session_info \<Rightarrow> locked_server \<Rightarrow> bool" where
  "db_inv s st \<longleftrightarrow> selects_database s \<and> length (m_databases st) = M_NUM_DATABASES"

lemma selects_new_session: "selects_database new_session"
  by (simp add: selects_database_def wf_new_session) (simp add: new_session_def)

lemma selects_set_auth: "session_set_auth a s = Inr s' \<Longrightarrow> selects_database s'"
  using wf_session_set_auth [of a s s']
  by (auto simp: selects_database_def session_set_auth_def new_user_data_def M_NUM_DATABASES_def split: client_auth.splits)

lemma selects_update:
  assumes "selects_database s" and "\<And>u. used_database (f u) = used_database u \<or> used_database (f u) < M_NUM_DATABASES"
    and "update_user_data f s = Inr s'"
  shows "selects_database s'"
proof -
  have "wf_session s'" using wf_update_user_data [of s f s'] assms(1,3) by (simp add: selects_database_def)
  moreover obtain u where "session_data s = User_Data u" "s' = s\<lparr>session_data := User_Data (f u)\<rparr>"
    using assms(3) by (auto simp: update_user_data_def session_user_data_def bind_result_Inr_iff split: session_data_t.splits)
  ultimately show ?thesis using assms(1) assms(2) [of u] by (auto simp: selects_database_def)
qed

lemma length_locked_call:
  "locked_call fadd dis now trn d call st = Inr (r, st') \<Longrightarrow> length (m_databases st') = length (m_databases st)"
  by (auto simp: locked_call_def Let_def bind_result_Inr_iff log_expiries_def fold_wal_expiry wal_log_def wal_db_op_def
      wal_def dest!: length_run_call)

lemma session_db_ok: "selects_database s \<Longrightarrow> session_db s = Inr d \<Longrightarrow> d < M_NUM_DATABASES"
  by (auto simp: selects_database_def session_db_def session_user_data_def bind_result_Inr_iff split: session_data_t.splits)

lemma keeps_call_obj [keeps_intros]: "keeps db_inv (call_obj mc d trn call)"
  by (rule keepsI) (auto simp: call_obj_def db_inv_def dest: length_locked_call split: sum.splits)

lemma keeps_database_obj [keeps_intros]: "keeps I (database_obj d)"
  by (rule keepsI) (simp add: database_obj_def split: if_splits)

lemma keeps_database_call [keeps_intros]: "keeps db_inv (database_call mc call)"
  unfolding database_call_def by (intro keeps_intros)

lemma keeps_replies [keeps_intros]:
  "keeps I (bool_reply r)" "keeps I (get_reply mc r)" "keeps I (type_reply r)" "keeps I (keys_reply r)"
  "keeps I (unit_reply r)" "keeps I (time_reply mc r)" "keeps I (int_reply msg r)" "keeps I (float_reply mc r)"
  "keeps I (many_reply mc r)" "keeps I (list_reply r)" "keeps I (set_reply r)" "keeps I (hash_reply r)"
proof -
  show "keeps I (bool_reply r)" by (cases r) (simp_all add: bad_reply_def keeps_intros)
  show "keeps I (get_reply mc r)" by (cases "(mc, r)" rule: get_reply.cases) (simp_all add: bad_reply_def keeps_intros)
  show "keeps I (type_reply r)" by (cases r rule: type_reply.cases) (simp_all add: bad_reply_def keeps_intros split: option.split)
  show "keeps I (keys_reply r)" by (cases r) (simp_all add: bad_reply_def keeps_intros)
  show "keeps I (unit_reply r)" by (simp add: unit_reply_def keeps_intros)
  show "keeps I (time_reply mc r)" by (cases "(mc, r)" rule: time_reply.cases) (simp_all add: bad_reply_def keeps_intros)
  show "keeps I (int_reply msg r)" by (cases "(msg, r)" rule: int_reply.cases) (simp_all add: bad_reply_def keeps_intros)
  show "keeps I (float_reply mc r)" by (cases "(mc, r)" rule: float_reply.cases) (simp_all add: bad_reply_def keeps_intros)
  show "keeps I (many_reply mc r)" by (cases r) (simp_all add: bad_reply_def keeps_intros)
  show "keeps I (list_reply r)" by (cases r) (simp_all add: bad_reply_def list_handle_result_def keeps_intros)
  show "keeps I (set_reply r)" by (cases r) (simp_all add: bad_reply_def set_handle_result_def keeps_intros)
  show "keeps I (hash_reply r)" by (cases r) (simp_all add: bad_reply_def hash_handle_result_def keeps_intros)
qed

lemma keeps_switch: "validate_db_index i = None \<Longrightarrow> keeps db_inv (assign_o (update_user_data (\<lambda>u. u\<lparr>used_database := nat i\<rparr>)))"
  by (rule keeps_assign)
     (auto simp: db_inv_def validate_db_index_def nat_less_iff split: if_splits intro: selects_update [where f = "\<lambda>u. u\<lparr>used_database := nat i\<rparr>"])

lemma keeps_to_db [keeps_intros]: "keeps db_inv (to_db mc call dest)"
  unfolding to_db_def by (cases "validate_db_index dest") (simp_all, (intro keeps_intros)+)

interpretation general: keeper "serve_general mc" db_inv
proof unfold_locales
  fix req
  show "keeps db_inv (serve_general mc req)"
    by (cases req) (auto intro!: keeps_intros keeps_switch split: option.split)
qed

interpretation expiry: keeper "serve_expiry mc" db_inv
proof unfold_locales
  fix req
  show "keeps db_inv (serve_expiry mc req)" by (cases req) (auto intro!: keeps_intros)
qed

interpretation primitive: keeper "serve_primitive mc" db_inv
proof unfold_locales
  fix req
  show "keeps db_inv (serve_primitive mc req)" by (cases req) (auto intro!: keeps_intros)
qed

interpretation lists: keeper "serve_list mc" db_inv
  by unfold_locales (simp add: serve_list_def keeps_intros)

interpretation sets: keeper "serve_set mc" db_inv
  by unfold_locales (simp add: serve_set_def keeps_intros)

interpretation hashes: keeper "serve_hash mc" db_inv
  by unfold_locales (simp add: serve_hash_def keeps_intros)

text \<open>A call of a user therefore reaches its database.\<close>

lemma database_call_user:
  assumes "db_inv s st" and "session_data s = User_Data u"
  shows "database_call mc call (s, st) = call_obj mc (used_database u) (trn_id u) call (s, st)"
  using assms
  by (simp add: database_call_def database_obj_def bind_o_def op_simps db_inv_def selects_database_def session_db_def
      session_trn_id_def session_user_data_def)

end
