(* ===== verification/Transaction_Server.thy ===== *)
theory Transaction_Server
  imports Database_Servers
begin

text \<open>
  \<^verbatim>\<open>vanity/db/transaction_server.{h,cpp}\<close> and \<^verbatim>\<open>vanity/db/atomic_counter.h\<close>. The ids of transactions come
  from a counter of 64 bits. Beginning and ending a transaction is logged; the databases themselves do not
  treat the calls of a transaction in any special way yet.
\<close>

record transaction_server =
  m_counter :: nat
  m_locked :: locked_server

definition new_counter :: nat where
  "new_counter = FIRST_CLIENT_TRN_ID"

text \<open>\<^verbatim>\<open>AtomicCounter::next\<close>\<close>

definition next_id :: "nat \<Rightarrow> nat \<times> nat" where
  "next_id c = (c, (c + 1) mod 2 ^ 64)"

definition new_trn_id :: "(trn_id_t, transaction_server) op" where
  "new_trn_id x = (case next_id (m_counter (snd x)) of (i, c) \<Rightarrow> (Inr i, fst x, (snd x)\<lparr>m_counter := c\<rparr>))"

definition on_locked :: "('a, locked_server) op \<Rightarrow> ('a, transaction_server) op" where
  "on_locked = lift_o m_locked (\<lambda>l st. st\<lparr>m_locked := l\<rparr>)"

definition set_trn_id :: "trn_id_t \<Rightarrow> (unit, transaction_server) op" where
  "set_trn_id i = assign_o (update_user_data (\<lambda>u. u\<lparr>trn_id := i\<rparr>))"

definition request_transact_begin_op :: "machine \<Rightarrow> (response, transaction_server) op" where
  "request_transact_begin_op mc =
     bind_o (session_o session_trn_id) (\<lambda>i.
     if i \<noteq> NO_TRN_ID then throw_o (RuntimeError ''Transaction already in progress'')
     else bind_o (session_o session_db) (\<lambda>d.
          bind_o (on_locked (database_obj d)) (\<lambda>d.
          bind_o new_trn_id (\<lambda>new.
          bind_o (on_locked (call_obj mc d new call_begin)) (\<lambda>_.
          bind_o (set_trn_id new) (\<lambda>_. return_o ok))))))"

text \<open>\<^verbatim>\<open>request_transact_commit\<close> and \<^verbatim>\<open>request_transact_discard\<close>\<close>

definition end_transaction :: "machine \<Rightarrow> db_call \<Rightarrow> (response, transaction_server) op" where
  "end_transaction mc call =
     bind_o (session_o session_trn_id) (\<lambda>i.
     if i = NO_TRN_ID then throw_o (RuntimeError ''No transaction in progress'')
     else bind_o (session_o session_db) (\<lambda>d.
          bind_o (on_locked (database_obj d)) (\<lambda>d.
          bind_o (on_locked (call_obj mc d i call)) (\<lambda>_.
          bind_o (set_trn_id NO_TRN_ID) (\<lambda>_. return_o ok)))))"

primrec serve_transact :: "machine \<Rightarrow> transact_request \<Rightarrow> (response, transaction_server) op" where
  "serve_transact mc request_transact_begin = request_transact_begin_op mc"
| "serve_transact mc request_transact_commit = end_transaction mc call_commit"
| "serve_transact mc request_transact_discard = end_transaction mc call_discard"

section \<open>Invariant\<close>

definition transact_inv :: "session_info \<Rightarrow> transaction_server \<Rightarrow> bool" where
  "transact_inv s t \<longleftrightarrow> db_inv s (m_locked t)"

lemma keeps_on_locked [keeps_intros]: "keeps db_inv m \<Longrightarrow> keeps transact_inv (on_locked m)"
  unfolding on_locked_def by (erule keeps_lift) (simp_all add: transact_inv_def)

lemma keeps_new_trn_id [keeps_intros]: "keeps transact_inv new_trn_id"
  by (rule keepsI) (auto simp: new_trn_id_def next_id_def transact_inv_def)

lemma keeps_set_trn_id [keeps_intros]: "keeps transact_inv (set_trn_id i)"
  unfolding set_trn_id_def
  by (rule keeps_assign)
     (auto simp: transact_inv_def db_inv_def intro: selects_update [where f = "\<lambda>u. u\<lparr>trn_id := i\<rparr>"])

interpretation transact: keeper "serve_transact mc" transact_inv
proof unfold_locales
  fix req
  show "keeps transact_inv (serve_transact mc req)"
    by (cases req) (auto simp: request_transact_begin_op_def end_transaction_def intro!: keeps_intros)
qed

section \<open>Transaction ids\<close>

text \<open>Ids are handed out one after the other; before the counter wraps around, none of them is a reserved one.\<close>

primrec next_ids :: "nat \<Rightarrow> nat \<Rightarrow> nat list \<times> nat" where
  "next_ids 0 c = ([], c)"
| "next_ids (Suc k) c = (case next_id c of (i, c) \<Rightarrow> case next_ids k c of (is, c) \<Rightarrow> (i # is, c))"

lemma next_ids_run: "c + k \<le> 2 ^ 64 \<Longrightarrow> fst (next_ids k c) = [c ..< c + k]"
proof (induction k arbitrary: c)
  case (Suc k)
  have upt: "[c ..< c + Suc k] = c # [c + 1 ..< (c + 1) + k]" by (simp add: upt_conv_Cons del: upt_Suc)
  obtain "is" c' where ids: "next_ids k ((c + 1) mod 2 ^ 64) = (is, c')" by fastforce
  have "is = [c + 1 ..< (c + 1) + k]"
  proof (cases "k = 0")
    case False
    with Suc.prems have "(c + 1) mod 2 ^ 64 = c + 1" by simp
    with Suc.IH [of "c + 1"] Suc.prems ids show ?thesis by simp
  qed (use ids in simp)
  with upt ids show ?case by (simp add: next_id_def del: upt_Suc)
qed simp

end
