(* ===== verification/Auth_Server.thy ===== *)
theory Auth_Server
  imports Handlers Persist_Journal Database_File
begin

text \<open>
  \<^verbatim>\<open>vanity/auth/auth_server.{h,cpp}\<close>, \<^verbatim>\<open>locked_auth_server.cpp\<close> and \<^verbatim>\<open>hasher.h\<close>: the logins, the file they
  are kept in, and the requests on them. A locked method runs under one mutex, so a request is one step.

  The two functions of bcrypt that the hasher calls are a parameter: \<open>bc_gensalt\<close> makes a salt of a work
  factor, \<open>bc_hashpw\<close> hashes a C string with a salt; both may fail. \<open>Bcrypt\<close> has the functions themselves.
\<close>

section \<open>The hasher\<close>

record bcrypt =
  bc_gensalt :: "nat \<Rightarrow> string option"
  bc_hashpw :: "string \<Rightarrow> string \<Rightarrow> string option"

definition M_WORK_FACTOR :: nat where
  "M_WORK_FACTOR = 4"

text \<open>\<^verbatim>\<open>c_str()\<close> as a function of C reads it: up to the first zero byte.\<close>

definition c_str :: "string \<Rightarrow> string" where
  "c_str s = takeWhile (\<lambda>c. c \<noteq> CHR 0x00) s"

definition make_hash :: "bcrypt \<Rightarrow> string \<Rightarrow> string result" where
  "make_hash bc str =
     (case bc_gensalt bc M_WORK_FACTOR of
        None \<Rightarrow> Inl (HasherError ''Could not generate salt'')
      | Some salt \<Rightarrow>
          (case bc_hashpw bc (c_str str) salt of
             None \<Rightarrow> Inl (HasherError ''Could not hash password'')
           | Some hash \<Rightarrow> Inr hash))"

definition check_hash :: "bcrypt \<Rightarrow> string \<Rightarrow> string \<Rightarrow> bool result" where
  "check_hash bc str hash =
     (case bc_hashpw bc (c_str str) (c_str hash) of
        None \<Rightarrow> Inl (HasherError ''Could not check password hash'')
      | Some new_hash \<Rightarrow> Inr (hash = new_hash))"

text \<open>The documented law of bcrypt: a hash holds its salt, so that hashing the same password with it gives
  the hash again. Hashes have no zero byte.\<close>

definition sound_bcrypt :: "bcrypt \<Rightarrow> bool" where
  "sound_bcrypt bc \<longleftrightarrow>
     (\<forall>p salt h. bc_hashpw bc p salt = Some h \<longrightarrow> bc_hashpw bc p h = Some h \<and> CHR 0x00 \<notin> set h)"

section \<open>Logins\<close>

record auth_info =
  login_hash :: string
  login_auth :: client_auth

record auth_server =
  m_logins :: "(string \<times> auth_info) list"
  m_users_db :: "path option"
  m_auth_fs :: fs

definition M_DEFAULT_USERNAME :: string where
  "M_DEFAULT_USERNAME = ''vanity''"

definition M_DEFAULT_PASSWORD :: string where
  "M_DEFAULT_PASSWORD = ''vanity''"

definition M_MIN_USERNAME_LENGTH :: nat where
  "M_MIN_USERNAME_LENGTH = 4"

definition M_MIN_PASSWORD_LENGTH :: nat where
  "M_MIN_PASSWORD_LENGTH = 4"

text \<open>The password comes from the environment variable, if it is set.\<close>

definition default_auth_info :: "bcrypt \<Rightarrow> string option \<Rightarrow> auth_info result" where
  "default_auth_info bc env =
     bind_result (make_hash bc (case env of None \<Rightarrow> M_DEFAULT_PASSWORD | Some p \<Rightarrow> p))
       (\<lambda>h. Inr \<lparr>login_hash = h, login_auth = ADMIN\<rparr>)"

text \<open>\<^verbatim>\<open>serializer::write\<close> and \<^verbatim>\<open>read\<close> of logins. An enumeration is written as the \<^verbatim>\<open>int\<close> of its position; a
  number that is none of them is never written, and has no meaning in the model.\<close>

primrec auth_code :: "client_auth \<Rightarrow> nat" where
  "auth_code UNKNOWN = 0"
| "auth_code USER = 1"
| "auth_code PEER = 2"
| "auth_code ADMIN = 3"

definition auth_of_code :: "nat \<Rightarrow> client_auth option" where
  "auth_of_code n =
     (if n = 0 then Some UNKNOWN else if n = 1 then Some USER else if n = 2 then Some PEER
      else if n = 3 then Some ADMIN else None)"

definition write_auth_info :: "auth_info \<Rightarrow> string" where
  "write_auth_info i = write_string (login_hash i) @ write_arith 4 (auth_code (login_auth i))"

definition read_auth_info :: "auth_info reader" where
  "read_auth_info s =
     bind_result (read_string s) (\<lambda>(h, s).
     bind_result (read_arith 4 s) (\<lambda>(n, s).
     case auth_of_code n of
       None \<Rightarrow> Inl (RuntimeError ''not a client_auth'')
     | Some a \<Rightarrow> Inr (\<lparr>login_hash = h, login_auth = a\<rparr>, s)))"

definition write_logins :: "(string \<times> auth_info) list \<Rightarrow> string" where
  "write_logins m = write_map write_auth_info m"

text \<open>The counter of the loop is unsigned, so a negative size counts as a huge one.\<close>

definition read_logins :: "(string \<times> auth_info) list reader" where
  "read_logins s =
     bind_result (read_signed 8 s) (\<lambda>(size, s).
     bind_result (read_n (read_pair read_string read_auth_info) (nat (size mod 2 ^ 64)) s) (\<lambda>(kvs, s).
     Inr (fold umap_insert kvs [], s)))"

text \<open>The constructor. An exception in it ends the program, because it is \<^verbatim>\<open>noexcept\<close>.\<close>

definition new_auth_server :: "bcrypt \<Rightarrow> string option \<Rightarrow> path option \<Rightarrow> fs \<Rightarrow> auth_server result" where
  "new_auth_server bc env db fs =
     bind_result (default_auth_info bc env) (\<lambda>info.
     let st = \<lparr>m_logins = [(M_DEFAULT_USERNAME, info)], m_users_db = db, m_auth_fs = fs\<rparr> in
     case db of
       None \<Rightarrow> Inr st
     | Some p \<Rightarrow>
         if file_exists fs p
         then bind_result (read_logins (fs p)) (\<lambda>(m, _). Inr (st\<lparr>m_logins := m\<rparr>))
         else Inr st)"

definition persist_logins :: "(unit, auth_server) op" where
  "persist_logins x =
     (case m_users_db (snd x) of
        None \<Rightarrow> (Inr (), x)
      | Some p \<Rightarrow>
          let tmp = with_name_prefix p ''tmp.'' in
          (case bind_result (write_file tmp (write_logins (m_logins (snd x))) (m_auth_fs (snd x))) (rename_file tmp p) of
             Inl e \<Rightarrow> (Inl e, x)
           | Inr fs \<Rightarrow> (Inr (), fst x, (snd x)\<lparr>m_auth_fs := fs\<rparr>)))"

section \<open>Requests\<close>

definition set_login :: "string \<Rightarrow> auth_info \<Rightarrow> (unit, auth_server) op" where
  "set_login u i = change_o (\<lambda>st. st\<lparr>m_logins := AList.update u i (m_logins st)\<rparr>)"

definition request_add_user_op :: "bcrypt \<Rightarrow> string \<Rightarrow> string \<Rightarrow> (response, auth_server) op" where
  "request_add_user_op bc u p =
     (if length u < M_MIN_USERNAME_LENGTH then return_o (error ''username too short'')
      else if length p < M_MIN_PASSWORD_LENGTH then return_o (error ''password too short'')
      else bind_o (read_o m_logins) (\<lambda>m.
        if contains m u then return_o (error ''user already exists'')
        else bind_o (result_o (make_hash bc p)) (\<lambda>h.
          bind_o (set_login u \<lparr>login_hash = h, login_auth = USER\<rparr>) (\<lambda>_.
          bind_o persist_logins (\<lambda>_. return_o ok)))))"

text \<open>The name of the client is read for the log, after the change.\<close>

definition request_edit_user_op :: "string \<Rightarrow> client_auth \<Rightarrow> (response, auth_server) op" where
  "request_edit_user_op u a =
     bind_o (read_o m_logins) (\<lambda>m.
     case map_of m u of
       None \<Rightarrow> return_o (error ''user does not exist'')
     | Some i \<Rightarrow>
         if a \<noteq> USER \<and> a \<noteq> ADMIN then return_o (error ''invalid auth level'')
         else bind_o (set_login u (i\<lparr>login_auth := a\<rparr>)) (\<lambda>_.
              bind_o persist_logins (\<lambda>_.
              bind_o (session_o session_username) (\<lambda>_. return_o ok))))"

definition request_del_user_op :: "string \<Rightarrow> (response, auth_server) op" where
  "request_del_user_op u =
     bind_o (read_o m_logins) (\<lambda>m.
     if \<not> contains m u then return_o (error ''user does not exist'')
     else bind_o (session_o session_username) (\<lambda>self.
       if u = self then return_o (error ''cannot delete self'')
       else bind_o (change_o (\<lambda>st. st\<lparr>m_logins := AList.delete u (m_logins st)\<rparr>)) (\<lambda>_.
            bind_o persist_logins (\<lambda>_. return_o ok))))"

definition request_auth_op :: "bcrypt \<Rightarrow> string \<Rightarrow> string \<Rightarrow> (response, auth_server) op" where
  "request_auth_op bc u p =
     (if length p < M_MIN_PASSWORD_LENGTH then return_o (error ''password too short'')
      else bind_o (read_o m_logins) (\<lambda>m.
        case map_of m u of
          None \<Rightarrow> return_o (error ''user does not exist'')
        | Some i \<Rightarrow>
            bind_o (result_o (check_hash bc p (login_hash i))) (\<lambda>good.
            if \<not> good then return_o (error ''incorrect password'')
            else bind_o (assign_o (session_set_auth (login_auth i))) (\<lambda>_.
                 bind_o (assign_o (update_user_data (\<lambda>d. d\<lparr>username := u\<rparr>))) (\<lambda>_. return_o ok)))))"

definition request_change_password_op :: "bcrypt \<Rightarrow> string \<Rightarrow> (response, auth_server) op" where
  "request_change_password_op bc p =
     (if length p < M_MIN_PASSWORD_LENGTH then return_o (error ''password too short'')
      else bind_o (session_o session_username) (\<lambda>u.
        bind_o (read_o m_logins) (\<lambda>m.
        case map_of m u of
          None \<Rightarrow> return_o (error ''user does not exist'')
        | Some i \<Rightarrow>
            bind_o (result_o (make_hash bc p)) (\<lambda>h.
            bind_o (set_login u (i\<lparr>login_hash := h\<rparr>)) (\<lambda>_.
            bind_o persist_logins (\<lambda>_. return_o ok))))))"

primrec serve_auth :: "bcrypt \<Rightarrow> auth_request \<Rightarrow> (response, auth_server) op" where
  "serve_auth bc (request_add_user u p) = request_add_user_op bc u p"
| "serve_auth bc (request_edit_user u a) = request_edit_user_op u a"
| "serve_auth bc (request_del_user u) = request_del_user_op u"
| "serve_auth bc (request_auth u p) = request_auth_op bc u p"
| "serve_auth bc (request_change_password p) = request_change_password_op bc p"
| "serve_auth bc request_auth_level = bind_o (session_o (\<lambda>s. Inr (session_auth s))) (\<lambda>a. return_o (ok_value serialize_auth a))"
| "serve_auth bc request_username = bind_o (session_o session_username) (\<lambda>u. return_o (ok_value serialize_str u))"

section \<open>The users file\<close>

lemma auth_of_auth_code [simp]: "auth_of_code (auth_code a) = Some a"
  by (cases a) (simp_all add: auth_of_code_def)

lemma auth_code_less: "auth_code a < 256 ^ 4"
  by (cases a) simp_all

interpretation login_info: codec write_auth_info read_auth_info "\<lambda>i. small (login_hash i)"
  by unfold_locales
     (simp add: write_auth_info_def read_auth_info_def string.round_trip arith.round_trip [OF auth_code_less])

interpretation login: two_codecs write_string read_string small write_auth_info read_auth_info "\<lambda>i. small (login_hash i)" ..

definition valid_logins :: "(string \<times> auth_info) list \<Rightarrow> bool" where
  "valid_logins m \<longleftrightarrow> small m \<and> distinct (map fst m) \<and> (\<forall>(u, i) \<in> set m. small u \<and> small (login_hash i))"

interpretation logins: codec write_logins read_logins valid_logins
proof unfold_locales
  fix m :: "(string \<times> auth_info) list" and rest
  assume v: "valid_logins m"
  then have "int (length m) mod 2 ^ 64 = int (length m)" by (simp add: valid_logins_def)
  moreover from v have "read_n (read_pair read_string read_auth_info) (length m)
      (Some (concat (map (write_pair write_string write_auth_info) m) @ rest)) = Inr (m, Some rest)"
    by (intro login.pair.read_n_round_trip) (auto simp: valid_logins_def)
  ultimately show "read_logins (Some (write_logins m @ rest)) = Inr (m, Some rest)"
    using v fold_umap_insert_distinct [of "[]" m]
    by (simp add: read_logins_def write_logins_def write_map_def valid_logins_def size_read_signed)
qed

text \<open>What \<^verbatim>\<open>persist_logins\<close> leaves in the file, the next start reads.\<close>

lemma persist_logins_run:
  assumes "m_users_db st = Some p"
  shows "\<exists>fs. persist_logins (s, st) = (Inr (), s, st\<lparr>m_auth_fs := fs\<rparr>) \<and> fs p = Some (write_logins (m_logins st))"
proof -
  have "with_name_prefix p ''tmp.'' \<noteq> p" using prefixed_files_distinct(1) [of p] by (simp add: make_temp_db_file_def)
  then show ?thesis
    using assms
    by (intro exI [of _ "(m_auth_fs st)(p \<mapsto> write_logins (m_logins st), with_name_prefix p ''tmp.'' := None)"])
       (simp add: persist_logins_def Let_def write_file_def rename_file_def)
qed

lemma persist_logins_keeps: "persist_logins (s, st) = (r, s', st') \<Longrightarrow> s' = s \<and> m_logins st' = m_logins st"
  by (auto simp: persist_logins_def Let_def split: option.splits sum.splits)

lemma persist_logins_total: "\<exists>st'. persist_logins (s, st) = (Inr (), s, st') \<and> m_logins st' = m_logins st"
proof (cases "m_users_db st")
  case None
  then show ?thesis by (simp add: persist_logins_def)
next
  case (Some p)
  then show ?thesis using persist_logins_run [OF Some, of s] by auto
qed

lemma users_file_reloaded:
  assumes "persist_logins (s, st) = (Inr (), s', st')" and "m_users_db st = Some p" and "valid_logins (m_logins st)"
    and "make_hash bc (case env of None \<Rightarrow> M_DEFAULT_PASSWORD | Some q \<Rightarrow> q) = Inr h"
  shows "\<exists>st''. new_auth_server bc env (Some p) (m_auth_fs st') = Inr st'' \<and> m_logins st'' = m_logins st"
proof -
  have "m_auth_fs st' p = Some (write_logins (m_logins st))"
    using persist_logins_run [OF assms(2), of s] assms(1) by auto
  moreover have "read_logins (Some (write_logins (m_logins st))) = Inr (m_logins st, Some [])"
    using logins.round_trip [OF assms(3), of "[]"] by simp
  ultimately show ?thesis
    using assms(4) by (simp add: new_auth_server_def default_auth_info_def Let_def file_exists_def)
qed

section \<open>Invariant\<close>

text \<open>Names are unique and every login is a user or an administrator, so that authentication never throws.\<close>

definition wf_logins :: "(string \<times> auth_info) list \<Rightarrow> bool" where
  "wf_logins m \<longleftrightarrow> distinct (map fst m) \<and> (\<forall>i \<in> snd ` set m. login_auth i = USER \<or> login_auth i = ADMIN)"

definition auth_inv :: "session_info \<Rightarrow> auth_server \<Rightarrow> bool" where
  "auth_inv s st \<longleftrightarrow> wf_session s \<and> wf_logins (m_logins st)"

lemma wf_logins_update:
  "wf_logins m \<Longrightarrow> login_auth i = USER \<or> login_auth i = ADMIN \<Longrightarrow> wf_logins (AList.update u i m)"
  unfolding wf_logins_def using snd_update_subset [of u i m] by (intro conjI distinct_update ballI) blast+

lemma wf_logins_delete: "wf_logins m \<Longrightarrow> wf_logins (AList.delete u m)"
  using set_delete_subset [of u m] by (auto simp: wf_logins_def distinct_delete)

lemma wf_logins_level: "wf_logins m \<Longrightarrow> map_of m u = Some i \<Longrightarrow> login_auth i = USER \<or> login_auth i = ADMIN"
  by (force simp: wf_logins_def dest: map_of_SomeD)

lemma keeps_persist_logins [keeps_intros]: "keeps auth_inv persist_logins"
  by (rule keepsI) (auto simp: auth_inv_def dest: persist_logins_keeps)

lemma keeps_set_login:
  "login_auth i = USER \<or> login_auth i = ADMIN \<Longrightarrow> keeps auth_inv (set_login u i)"
  unfolding set_login_def by (rule keeps_change) (simp add: auth_inv_def wf_logins_update)

lemma keeps_del_login: "keeps auth_inv (change_o (\<lambda>st. st\<lparr>m_logins := AList.delete u (m_logins st)\<rparr>))"
  by (rule keeps_change) (simp add: auth_inv_def wf_logins_delete)

lemma keeps_auth_session [keeps_intros]:
  "keeps auth_inv (assign_o (session_set_auth a))" "keeps auth_inv (assign_o (update_user_data f))"
  by (rule keeps_assign; auto simp: auth_inv_def dest: wf_session_set_auth wf_update_user_data)+

text \<open>A login that was read from well formed logins may be written back with another password.\<close>

lemma keeps_login:
  assumes "\<And>i. login_auth i = USER \<or> login_auth i = ADMIN \<Longrightarrow> keeps auth_inv (f i)" and "keeps auth_inv g"
  shows "keeps auth_inv (bind_o (read_o m_logins) (\<lambda>m. case map_of m u of None \<Rightarrow> g | Some i \<Rightarrow> f i))"
proof (rule keepsI)
  fix s st r s' st'
  assume I: "auth_inv s st"
    and run: "bind_o (read_o m_logins) (\<lambda>m. case map_of m u of None \<Rightarrow> g | Some i \<Rightarrow> f i) (s, st) = (r, s', st')"
  show "auth_inv s' st'"
  proof (cases "map_of (m_logins st) u")
    case None
    with run assms(2) I show ?thesis by (auto intro: keepsD)
  next
    case (Some i)
    with I have "login_auth i = USER \<or> login_auth i = ADMIN" by (auto simp: auth_inv_def dest: wf_logins_level)
    with run Some assms(1) I show ?thesis by (auto intro: keepsD)
  qed
qed

interpretation auth: keeper "serve_auth bc" auth_inv
proof unfold_locales
  fix req :: auth_request
  show "keeps auth_inv (serve_auth bc req)"
  proof (cases req)
    case (request_add_user u p)
    show ?thesis
      unfolding request_add_user serve_auth.simps request_add_user_op_def
      by (intro keeps_intros keeps_set_login) simp
  next
    case (request_edit_user u a)
    show ?thesis
      unfolding request_edit_user serve_auth.simps request_edit_user_op_def
      by (intro keeps_login keeps_if keeps_bind keeps_set_login keeps_intros) auto
  next
    case (request_del_user u)
    show ?thesis
      unfolding request_del_user serve_auth.simps request_del_user_op_def by (intro keeps_intros keeps_del_login)
  next
    case (request_auth u p)
    show ?thesis
      unfolding request_auth serve_auth.simps request_auth_op_def by (intro keeps_intros)
  next
    case (request_change_password p)
    show ?thesis
      unfolding request_change_password serve_auth.simps request_change_password_op_def
      by (intro keeps_if keeps_bind keeps_pure keeps_login) (auto intro!: keeps_intros keeps_set_login)
  qed (simp_all add: keeps_intros)
qed

section \<open>Who gets in\<close>

text \<open>An authentication changes nothing but the session, and that only after the password was checked
  against the login; the session gets the level of the login.\<close>

lemma auth_checked:
  assumes "serve_auth bc (request_auth u p) (s, st) = (r, s', st')" and "wf_logins (m_logins st)"
  shows "st' = st \<and>
    (s' = s \<or>
     (\<exists>i. map_of (m_logins st) u = Some i \<and> check_hash bc p (login_hash i) = Inr True \<and>
        r = Inr ok \<and> auth s' = login_auth i \<and> session_username s' = Inr u))"
proof (cases "map_of (m_logins st) u")
  case None
  with assms(1) show ?thesis by (auto simp: request_auth_op_def op_simps split: if_splits)
next
  case (Some i)
  then have "login_auth i = USER \<or> login_auth i = ADMIN" using assms(2) by (rule wf_logins_level [rotated])
  with Some assms(1) show ?thesis
    by (auto simp: request_auth_op_def op_simps session_set_auth_def update_user_data_def session_user_data_def
        session_username_def split: if_splits sum.splits)
qed

lemma c_str_no_zero: "CHR 0x00 \<notin> set h \<Longrightarrow> c_str h = h"
  by (auto simp: c_str_def takeWhile_eq_all_conv)

lemma check_make_hash: "sound_bcrypt bc \<Longrightarrow> make_hash bc p = Inr h \<Longrightarrow> check_hash bc p h = Inr True"
  by (auto simp: make_hash_def check_hash_def sound_bcrypt_def c_str_no_zero split: option.splits)

text \<open>Only the part of a password before its first zero byte counts.\<close>

lemma check_hash_c_str: "c_str p = c_str q \<Longrightarrow> check_hash bc p h = check_hash bc q h"
  by (simp add: check_hash_def)

lemma ok_not_error [simp]: "ok \<noteq> error m" "error m \<noteq> ok"
  by (simp_all add: ok_def error_def error_response_def empty_response_def serialize_error_def serialize_type_def
      serialize_string_body_def serialize_length_def)

lemma add_user_run:
  assumes "serve_auth bc (request_add_user u p) (s, st) = (Inr ok, s', st')"
  shows "\<exists>h. make_hash bc p = Inr h \<and> m_logins st' = AList.update u \<lparr>login_hash = h, login_auth = USER\<rparr> (m_logins st) \<and>
    M_MIN_PASSWORD_LENGTH \<le> length p"
  using assms persist_logins_keeps
  by (auto simp: request_add_user_op_def op_simps set_login_def bind_o_def split: if_splits sum.splits prod.splits)

lemma added_user_logs_in:
  assumes "sound_bcrypt bc" and "serve_auth bc (request_add_user u p) (s, st) = (Inr ok, s', st')"
  shows "\<exists>s2. serve_auth bc (request_auth u p) (s1, st') = (Inr ok, s2, st') \<and> auth s2 = USER \<and> session_username s2 = Inr u"
proof -
  obtain h where h: "make_hash bc p = Inr h" "M_MIN_PASSWORD_LENGTH \<le> length p"
    "map_of (m_logins st') u = Some \<lparr>login_hash = h, login_auth = USER\<rparr>"
    using add_user_run [OF assms(2)] by (auto simp: update_conv)
  then show ?thesis
    using check_make_hash [OF assms(1) h(1)]
    by (auto simp: request_auth_op_def op_simps session_set_auth_def update_user_data_def session_user_data_def
        session_username_def)
qed

end
