(* ===== verification/Pubsub_Server.thy ===== *)
theory Pubsub_Server
  imports Handlers
begin

text \<open>
  \<^verbatim>\<open>vanity/pubsub_server.{h,cpp}\<close>: channels, subscriptions and published messages.

  Subscriptions hold pointers to clients. A request that runs in a pipe has the proxy of the pipe as its
  client, an object on the stack that is gone when the pipe ends; so a pointer is the one of a connection or of a
  proxy. To send to a pointer whose client does not exist any more is undefined behaviour.

  The second half is the life of the subscriptions as a transition system over all connections, with
  the invariant that ties them to the sessions.
\<close>

section \<open>State\<close>

datatype client_ptr = Tcp_Client nat | Piped_Client nat

record PublishData =
  pd_channel :: string
  pd_message :: string

record pubsub_server =
  m_subscriptions :: "(string \<times> client_ptr list) list"
  m_publish_queue :: "PublishData list"

definition new_pubsub :: pubsub_server where
  "new_pubsub = \<lparr>m_subscriptions = [], m_publish_queue = []\<rparr>"

text \<open>\<^verbatim>\<open>m_subscriptions[channel]\<close>\<close>

definition subscribers :: "string \<Rightarrow> (string \<times> client_ptr list) list \<Rightarrow> client_ptr list" where
  "subscribers ch m = (case map_of m ch of None \<Rightarrow> [] | Some cs \<Rightarrow> cs)"

definition insert_subscription :: "client_ptr \<Rightarrow> string \<Rightarrow> pubsub_server \<Rightarrow> pubsub_server" where
  "insert_subscription c ch st =
     st\<lparr>m_subscriptions := AList.update ch (uset_insert c (subscribers ch (m_subscriptions st))) (m_subscriptions st)\<rparr>"

definition erase_subscription :: "client_ptr \<Rightarrow> string \<Rightarrow> pubsub_server \<Rightarrow> pubsub_server" where
  "erase_subscription c ch st =
     (if \<not> contains (m_subscriptions st) ch then st
      else let cs = removeAll c (subscribers ch (m_subscriptions st)) in
        st\<lparr>m_subscriptions :=
             (if cs = [] then AList.delete ch (m_subscriptions st) else AList.update ch cs (m_subscriptions st))\<rparr>)"

section \<open>Requests\<close>

text \<open>The channels of a session are a \<^verbatim>\<open>std::set\<close>: sorted, without duplicates. Strings are compared byte by
  byte.\<close>

definition bytes_less :: "string \<Rightarrow> string \<Rightarrow> bool" where
  "bytes_less a b \<longleftrightarrow> ord_class.lexordp (map (of_char :: char \<Rightarrow> nat) a) (map of_char b)"

fun insert_channel :: "string \<Rightarrow> string list \<Rightarrow> string list" where
  "insert_channel ch [] = [ch]"
| "insert_channel ch (c # cs) =
     (if ch = c then c # cs else if bytes_less ch c then ch # c # cs else c # insert_channel ch cs)"

definition request_subscribe_op :: "client_ptr \<Rightarrow> string \<Rightarrow> (response, pubsub_server) op" where
  "request_subscribe_op c ch =
     bind_o (session_o session_channels) (\<lambda>chs.
     bind_o (change_o (insert_subscription c ch)) (\<lambda>_.
     bind_o (assign_o (update_user_data (\<lambda>u. u\<lparr>channels := insert_channel ch chs\<rparr>))) (\<lambda>_.
     return_o (ok_value serialize_size (length (insert_channel ch chs))))))"

definition request_subscribed_op :: "(response, pubsub_server) op" where
  "request_subscribed_op = bind_o (session_o session_channels) (\<lambda>chs. return_o (ok_value serialize_arr chs))"

definition request_unsubscribe_op :: "client_ptr \<Rightarrow> string \<Rightarrow> (response, pubsub_server) op" where
  "request_unsubscribe_op c ch =
     bind_o (session_o session_channels) (\<lambda>chs.
     bind_o (change_o (erase_subscription c ch)) (\<lambda>_.
     bind_o (assign_o (update_user_data (\<lambda>u. u\<lparr>channels := removeAll ch chs\<rparr>))) (\<lambda>_.
     return_o (ok_value serialize_size (length (removeAll ch chs))))))"

definition request_unsubscribe_all_op :: "client_ptr \<Rightarrow> (response, pubsub_server) op" where
  "request_unsubscribe_all_op c =
     bind_o (session_o session_channels) (\<lambda>chs.
     bind_o (change_o (fold (erase_subscription c) chs)) (\<lambda>_.
     bind_o (assign_o (update_user_data (\<lambda>u. u\<lparr>channels := []\<rparr>))) (\<lambda>_. return_o ok)))"

text \<open>The event that \<^verbatim>\<open>request_publish\<close> pushes is handled later by \<open>event_publish\<close>.\<close>

definition request_publish_op :: "string \<Rightarrow> string \<Rightarrow> (response, pubsub_server) op" where
  "request_publish_op ch msg =
     bind_o (change_o (\<lambda>st. st\<lparr>m_publish_queue := m_publish_queue st @ [\<lparr>pd_channel = ch, pd_message = msg\<rparr>]\<rparr>))
       (\<lambda>_. return_o ok)"

primrec serve_pubsub :: "client_ptr \<Rightarrow> pubsub_request \<Rightarrow> (response, pubsub_server) op" where
  "serve_pubsub c (request_publish ch msg) = request_publish_op ch msg"
| "serve_pubsub c (request_subscribe ch) = request_subscribe_op c ch"
| "serve_pubsub c request_subscribed = request_subscribed_op"
| "serve_pubsub c (request_unsubscribe ch) = request_unsubscribe_op c ch"
| "serve_pubsub c request_unsubscribe_all = request_unsubscribe_all_op c"

section \<open>Events\<close>

definition serialize_publish :: "PublishData \<Rightarrow> response \<Rightarrow> response" where
  "serialize_publish d r = serialize_string_body (pd_message d) (serialize_string_body (pd_channel d) (r @ '':PUBLISH ''))"

text \<open>The response goes to every subscribed client in turn; \<open>sends n\<close> is how \<^verbatim>\<open>Client::write\<close> ends on a connection that is there, which throws
  when the socket fails.\<close>

fun send_each :: "(nat \<Rightarrow> bool) \<Rightarrow> (nat \<Rightarrow> unit result) \<Rightarrow> response \<Rightarrow> client_ptr list \<Rightarrow> (nat \<times> response) list result" where
  "send_each alive sends r [] = Inr []"
| "send_each alive sends r (Piped_Client a # cs) = undefined_behaviour"
| "send_each alive sends r (Tcp_Client n # cs) =
     (if alive n then bind_result (sends n) (\<lambda>_. bind_result (send_each alive sends r cs) (\<lambda>out. Inr ((n, r) # out)))
      else undefined_behaviour)"

definition publish ::
  "(nat \<Rightarrow> bool) \<Rightarrow> (nat \<Rightarrow> unit result) \<Rightarrow> (string \<times> client_ptr list) list \<Rightarrow> PublishData \<Rightarrow> (nat \<times> response) list result" where
  "publish alive sends subs d = send_each alive sends (async serialize_publish d) (subscribers (pd_channel d) subs)"

fun publish_all ::
  "(nat \<Rightarrow> bool) \<Rightarrow> (nat \<Rightarrow> unit result) \<Rightarrow> (string \<times> client_ptr list) list \<Rightarrow> PublishData list \<Rightarrow> (nat \<times> response) list result" where
  "publish_all alive sends subs [] = Inr []"
| "publish_all alive sends subs (d # ds) =
     bind_result (publish alive sends subs d) (\<lambda>out. bind_result (publish_all alive sends subs ds) (\<lambda>outs. Inr (out @ outs)))"

definition event_publish ::
  "(nat \<Rightarrow> bool) \<Rightarrow> (nat \<Rightarrow> unit result) \<Rightarrow> pubsub_server \<Rightarrow> ((nat \<times> response) list \<times> pubsub_server) result" where
  "event_publish alive sends st =
     bind_result (publish_all alive sends (m_subscriptions st) (m_publish_queue st))
       (\<lambda>out. Inr (out, st\<lparr>m_publish_queue := []\<rparr>))"

text \<open>The hook that runs before a connection is deleted.\<close>

definition pre_client_delete_pubsub :: "nat \<Rightarrow> session_info \<Rightarrow> pubsub_server \<Rightarrow> pubsub_server result" where
  "pre_client_delete_pubsub n s st =
     (if \<not> session_is_user s then Inr st
      else bind_result (session_channels s) (\<lambda>chs. Inr (fold (erase_subscription (Tcp_Client n)) chs st)))"

section \<open>Subscriptions\<close>

lemma subscribers_insert [simp]:
  "subscribers ch' (m_subscriptions (insert_subscription c ch st)) =
     (if ch' = ch then uset_insert c (subscribers ch (m_subscriptions st)) else subscribers ch' (m_subscriptions st))"
  by (simp add: insert_subscription_def subscribers_def update_conv)

lemma subscribers_erase [simp]:
  "subscribers ch' (m_subscriptions (erase_subscription c ch st)) =
     (if ch' = ch then removeAll c (subscribers ch (m_subscriptions st)) else subscribers ch' (m_subscriptions st))"
  by (auto simp: erase_subscription_def subscribers_def contains_def update_conv delete_conv Let_def split: option.splits)

lemma subscribers_erase_all:
  "subscribers ch (m_subscriptions (fold (erase_subscription c) chs st)) =
     (if ch \<in> set chs then removeAll c (subscribers ch (m_subscriptions st)) else subscribers ch (m_subscriptions st))"
  by (induction chs arbitrary: st) auto

lemma publish_queue_subscriptions [simp]:
  "m_publish_queue (insert_subscription c ch st) = m_publish_queue st"
  "m_publish_queue (erase_subscription c ch st) = m_publish_queue st"
  by (simp_all add: insert_subscription_def erase_subscription_def Let_def)

lemma set_insert_channel [simp]: "set (insert_channel ch chs) = insert ch (set chs)"
  by (induction chs) auto

section \<open>The life of a connection\<close>

record pubsub_net =
  net_sessions :: "nat \<Rightarrow> session_info option"
  net_pubsub :: pubsub_server

definition new_net :: pubsub_net where
  "new_net = \<lparr>net_sessions = (\<lambda>_. None), net_pubsub = new_pubsub\<rparr>"

text \<open>One step: a connection is accepted or opened; it authenticates, as a user or as a peer; it makes a request on channels, directly or in
  a pipe; it makes any other request, which leaves its level and its channels alone; the queue is
  published; the connection ends. The flag tells whether the request came in a pipe.\<close>

inductive net_step :: "bool \<Rightarrow> pubsub_net \<Rightarrow> (nat \<times> response) list \<Rightarrow> pubsub_net \<Rightarrow> bool" where
  connect: "net_sessions N n = None \<Longrightarrow>
    net_step False N [] (N\<lparr>net_sessions := (net_sessions N)(n \<mapsto> new_session)\<rparr>)"
| authenticate: "\<lbrakk>net_sessions N n = Some s; is_permitted AUTH (auth s); session_set_auth a s = Inr s';
    update_user_data (\<lambda>d. d\<lparr>username := u\<rparr>) s' = Inr s''\<rbrakk> \<Longrightarrow>
    net_step False N [] (N\<lparr>net_sessions := (net_sessions N)(n \<mapsto> s'')\<rparr>)"
| become_peer: "\<lbrakk>net_sessions N n = Some s; is_permitted PEER_AUTH (auth s); session_set_auth_peer now PEER ad i s = Inr s'\<rbrakk> \<Longrightarrow>
    net_step False N out (N\<lparr>net_sessions := (net_sessions N)(n \<mapsto> s')\<rparr>)"
| request: "\<lbrakk>net_sessions N n = Some s; is_permitted (pubsub_request_op req) (auth s);
    serve_pubsub (Tcp_Client n) req (s, net_pubsub N) = (Inr r, s', P)\<rbrakk> \<Longrightarrow>
    net_step False N [(n, r)] \<lparr>net_sessions = (net_sessions N)(n \<mapsto> s'), net_pubsub = P\<rparr>"
| piped: "\<lbrakk>net_sessions N n = Some s; is_permitted (pubsub_request_op req) (auth s);
    serve_pubsub (Piped_Client a) req (s, net_pubsub N) = (Inr r, s', P)\<rbrakk> \<Longrightarrow>
    net_step True N [(n, r)] \<lparr>net_sessions = (net_sessions N)(n \<mapsto> s'), net_pubsub = P\<rparr>"
| other: "\<lbrakk>net_sessions N n = Some s; wf_session s'; auth s' = auth s; session_channels s' = session_channels s\<rbrakk> \<Longrightarrow>
    net_step False N out (N\<lparr>net_sessions := (net_sessions N)(n \<mapsto> s')\<rparr>)"
| deliver: "event_publish (\<lambda>n. net_sessions N n \<noteq> None) sends (net_pubsub N) = Inr (out, P) \<Longrightarrow>
    net_step False N out (N\<lparr>net_pubsub := P\<rparr>)"
| disconnect: "\<lbrakk>net_sessions N n = Some s; pre_client_delete_pubsub n s (net_pubsub N) = Inr P\<rbrakk> \<Longrightarrow>
    net_step False N [] \<lparr>net_sessions = (net_sessions N)(n := None), net_pubsub = P\<rparr>"

inductive unpiped :: "pubsub_net \<Rightarrow> bool" where
  start: "unpiped new_net"
| step: "unpiped N \<Longrightarrow> net_step False N out N' \<Longrightarrow> unpiped N'"

text \<open>The invariant: a session is well formed, its connection is subscribed to exactly its channels, and
  nothing else is subscribed to anything, or twice.\<close>

definition session_channel_set :: "session_info \<Rightarrow> string set" where
  "session_channel_set s = (case session_channels s of Inl e \<Rightarrow> {} | Inr chs \<Rightarrow> set chs)"

definition linked :: "pubsub_net \<Rightarrow> bool" where
  "linked N \<longleftrightarrow>
     (\<forall>n s. net_sessions N n = Some s \<longrightarrow> wf_session s) \<and>
     (\<forall>ch. distinct (subscribers ch (m_subscriptions (net_pubsub N)))) \<and>
     (\<forall>ch c. c \<in> set (subscribers ch (m_subscriptions (net_pubsub N))) \<longleftrightarrow>
        (\<exists>n s. c = Tcp_Client n \<and> net_sessions N n = Some s \<and> ch \<in> session_channel_set s))"

lemma session_channels_user: "session_channels s = Inr chs \<Longrightarrow> \<exists>u. session_data s = User_Data u \<and> chs = channels u"
  by (auto simp: session_channels_def session_user_data_def bind_result_Inr_iff split: session_data_t.splits)

lemma update_channels:
  assumes "session_channels s = Inr chs"
  obtains s' where "update_user_data (\<lambda>u. u\<lparr>channels := chs'\<rparr>) s = Inr s'" "auth s' = auth s" "session_channel_set s' = set chs'"
    "wf_session s \<Longrightarrow> wf_session s'"
  using session_channels_user [OF assms]
  by (auto simp: update_user_data_def session_user_data_def session_channel_set_def session_channels_def wf_session_def)

text \<open>A request of a client keeps its subscriptions and its channels together, and touches no other's.\<close>

lemma serve_pubsub_linked:
  assumes "serve_pubsub c req (s, P) = (Inr r, s', P')" and "wf_session s"
    and "\<forall>ch. distinct (subscribers ch (m_subscriptions P))"
    and "\<forall>ch. c \<in> set (subscribers ch (m_subscriptions P)) \<longleftrightarrow> ch \<in> session_channel_set s"
  shows "wf_session s'"
    and "distinct (subscribers ch (m_subscriptions P'))"
    and "c' \<in> set (subscribers ch (m_subscriptions P')) \<longleftrightarrow>
      (if c' = c then ch \<in> session_channel_set s' else c' \<in> set (subscribers ch (m_subscriptions P)))"
proof -
  have *: "wf_session s' \<and> distinct (subscribers ch (m_subscriptions P')) \<and>
    (c' \<in> set (subscribers ch (m_subscriptions P')) \<longleftrightarrow>
      (if c' = c then ch \<in> session_channel_set s' else c' \<in> set (subscribers ch (m_subscriptions P))))"
  proof (cases "session_channels s")
    case (Inl e)
    with assms show ?thesis
      by (cases req)
         (auto simp: request_subscribe_op_def request_subscribed_op_def request_unsubscribe_op_def
           request_unsubscribe_all_op_def request_publish_op_def op_simps)
  next
    case (Inr chs)
    note defs = request_subscribe_op_def request_subscribed_op_def request_unsubscribe_op_def
           request_unsubscribe_all_op_def request_publish_op_def op_simps
    have chs: "session_channel_set s = set chs" using Inr by (simp add: session_channel_set_def)
    show ?thesis
    proof (cases req)
      case (request_subscribe ch')
      obtain s1 where "update_user_data (\<lambda>u. u\<lparr>channels := insert_channel ch' chs\<rparr>) s = Inr s1"
        "session_channel_set s1 = set (insert_channel ch' chs)" "wf_session s \<Longrightarrow> wf_session s1"
        by (rule update_channels [OF Inr, of "insert_channel ch' chs"]) blast
      with assms Inr chs request_subscribe show ?thesis by (auto simp: defs uset_insert_def split: if_splits)
    next
      case (request_unsubscribe ch')
      obtain s1 where "update_user_data (\<lambda>u. u\<lparr>channels := removeAll ch' chs\<rparr>) s = Inr s1"
        "session_channel_set s1 = set (removeAll ch' chs)" "wf_session s \<Longrightarrow> wf_session s1"
        by (rule update_channels [OF Inr, of "removeAll ch' chs"]) blast
      with assms Inr chs request_unsubscribe show ?thesis by (auto simp: defs distinct_removeAll split: if_splits)
    next
      case request_unsubscribe_all
      obtain s1 where "update_user_data (\<lambda>u. u\<lparr>channels := []\<rparr>) s = Inr s1"
        "session_channel_set s1 = set []" "wf_session s \<Longrightarrow> wf_session s1"
        by (rule update_channels [OF Inr, of "[]"]) blast
      with assms Inr chs request_unsubscribe_all show ?thesis
        by (auto simp: defs subscribers_erase_all distinct_removeAll split: if_splits)
    qed (use assms Inr in \<open>auto simp: defs\<close>)
  qed
  then show "wf_session s'" "distinct (subscribers ch (m_subscriptions P'))"
    "c' \<in> set (subscribers ch (m_subscriptions P')) \<longleftrightarrow>
      (if c' = c then ch \<in> session_channel_set s' else c' \<in> set (subscribers ch (m_subscriptions P)))"
    by blast+
qed

lemma channel_set_unknown: "wf_session s \<Longrightarrow> auth s = UNKNOWN \<Longrightarrow> session_channel_set s = {}"
  by (auto simp: wf_session_def session_channel_set_def session_channels_def session_user_data_def
      split: session_data_t.splits)

lemma linked_request:
  assumes "linked N" and "net_sessions N n = Some s"
    and "serve_pubsub (Tcp_Client n) req (s, net_pubsub N) = (Inr r, s', P)"
  shows "linked \<lparr>net_sessions = (net_sessions N)(n \<mapsto> s'), net_pubsub = P\<rparr>"
proof -
  have own: "\<forall>ch. Tcp_Client n \<in> set (subscribers ch (m_subscriptions (net_pubsub N))) \<longleftrightarrow> ch \<in> session_channel_set s"
    and wf: "wf_session s" and dist: "\<forall>ch. distinct (subscribers ch (m_subscriptions (net_pubsub N)))"
    using assms(1,2) by (auto simp: linked_def)
  note step = serve_pubsub_linked [OF assms(3) wf dist own]
  show ?thesis
    unfolding linked_def
    using assms(1,2) step by (auto simp: linked_def)
qed

lemma linked_session:
  assumes "linked N" and "net_sessions N n = Some s" and "wf_session s'" and "session_channel_set s' = session_channel_set s"
  shows "linked (N\<lparr>net_sessions := (net_sessions N)(n \<mapsto> s')\<rparr>)"
  using assms by (auto simp: linked_def)

lemma linked_connect:
  assumes "linked N" and "net_sessions N n = None"
  shows "linked (N\<lparr>net_sessions := (net_sessions N)(n \<mapsto> new_session)\<rparr>)"
proof -
  have "session_channel_set new_session = {}" by (rule channel_set_unknown) (rule wf_new_session, simp add: new_session_def)
  then have "(\<exists>m s. c = Tcp_Client m \<and> ((net_sessions N)(n \<mapsto> new_session)) m = Some s \<and> ch \<in> session_channel_set s) \<longleftrightarrow>
      (\<exists>m s. c = Tcp_Client m \<and> net_sessions N m = Some s \<and> ch \<in> session_channel_set s)" for c ch
    using assms(2) by (cases c) auto
  with assms(1) show ?thesis by (simp add: linked_def wf_new_session)
qed

lemma linked_disconnect:
  assumes "linked N" and "net_sessions N n = Some s" and "pre_client_delete_pubsub n s (net_pubsub N) = Inr P"
  shows "linked \<lparr>net_sessions = (net_sessions N)(n := None), net_pubsub = P\<rparr>"
proof -
  have own: "Tcp_Client n \<in> set (subscribers ch (m_subscriptions (net_pubsub N))) \<longleftrightarrow> ch \<in> session_channel_set s"
    and dist: "distinct (subscribers ch (m_subscriptions (net_pubsub N)))" and wf: "wf_session s" for ch
    using assms(1,2) by (auto simp: linked_def)
  have "distinct (subscribers ch (m_subscriptions P)) \<and>
      set (subscribers ch (m_subscriptions P)) = set (subscribers ch (m_subscriptions (net_pubsub N))) - {Tcp_Client n}" for ch
  proof (cases "session_is_user s")
    case True
    then obtain u where u: "session_data s = User_Data u" using session_user_data_user [OF wf] by blast
    then have "session_channels s = Inr (channels u)" by (simp add: session_channels_def session_user_data_def)
    moreover from this have "session_channel_set s = set (channels u)" by (simp add: session_channel_set_def)
    ultimately show ?thesis
      using assms(3) True own [of ch] dist [of ch]
      by (auto simp: pre_client_delete_pubsub_def subscribers_erase_all distinct_removeAll)
  next
    case False
    then have "\<nexists>u. session_data s = User_Data u" using session_user_data_user [OF wf] by blast
    then have "session_channel_set s = {}"
      by (auto simp: session_channel_set_def session_channels_def session_user_data_def split: session_data_t.splits)
    then show ?thesis using assms(3) False own [of ch] dist [of ch] by (auto simp: pre_client_delete_pubsub_def)
  qed
  with assms(1) show ?thesis by (auto simp: linked_def)
qed

lemma net_step_linked: "net_step pipe N out N' \<Longrightarrow> \<not> pipe \<Longrightarrow> linked N \<Longrightarrow> linked N'"
proof (induction rule: net_step.induct)
  case (authenticate N n s a s' u s'')
  then have "wf_session s" by (auto simp: linked_def)
  moreover have "auth s = UNKNOWN" using authenticate(2) by (cases "auth s") simp_all
  ultimately have "session_channel_set s = {}" by (rule channel_set_unknown)
  moreover have "wf_session s''" using wf_update_user_data [OF wf_session_set_auth [OF authenticate(3)] authenticate(4)] by simp
  moreover have "session_channel_set s'' = {}"
    using authenticate(3,4)
    by (auto simp: session_set_auth_def update_user_data_def session_user_data_def session_channel_set_def
        session_channels_def new_user_data_def split: client_auth.splits)
  ultimately show ?case using authenticate by (intro linked_session) auto
next
  case (become_peer N n s now ad i s' out)
  then have "wf_session s" by (auto simp: linked_def)
  moreover have "auth s = UNKNOWN" using become_peer(2) by (cases "auth s") simp_all
  ultimately have "session_channel_set s = {}" by (rule channel_set_unknown)
  moreover have "session_channel_set s' = {}"
    using become_peer(3) by (auto simp: session_set_auth_peer_def session_channel_set_def session_channels_def session_user_data_def)
  ultimately show ?case using become_peer wf_session_set_auth_peer by (intro linked_session) auto
next
  case (other N n s s' out)
  then show ?case by (intro linked_session) (auto simp: session_channel_set_def)
next
  case (deliver N sends out P)
  then show ?case by (auto simp: event_publish_def linked_def bind_result_Inr_iff)
qed (auto intro: linked_connect linked_request linked_disconnect)

lemma unpiped_linked: "unpiped N \<Longrightarrow> linked N"
proof (induction rule: unpiped.induct)
  case start
  show ?case by (simp add: linked_def new_net_def new_pubsub_def subscribers_def)
next
  case (step N out N')
  then show ?case using net_step_linked by blast
qed

section \<open>Delivery\<close>

lemma send_each_run:
  "\<forall>c \<in> set cs. \<exists>n. c = Tcp_Client n \<and> alive n \<and> sends n = Inr () \<Longrightarrow>
    \<exists>out. send_each alive sends r cs = Inr out \<and> map (\<lambda>(n, r). Tcp_Client n) out = cs \<and> (\<forall>x \<in> set out. snd x = r)"
  by (induction cs) auto

text \<open>What a connection receives: the messages of its channels, each once and in order.\<close>

definition received :: "nat \<Rightarrow> (nat \<times> response) list \<Rightarrow> response list" where
  "received n out = map snd (filter (\<lambda>x. fst x = n) out)"

definition due :: "string set \<Rightarrow> PublishData list \<Rightarrow> response list" where
  "due chs ds = map (async serialize_publish) (filter (\<lambda>d. pd_channel d \<in> chs) ds)"

lemma received_append [simp]: "received n (a @ b) = received n a @ received n b"
  by (simp add: received_def)

lemma received_once:
  assumes "distinct cs" and "map (\<lambda>(n, r). Tcp_Client n) out = cs" and "\<forall>x \<in> set out. snd x = r"
  shows "received n out = (if Tcp_Client n \<in> set cs then [r] else [])"
  using assms
proof (induction out arbitrary: cs)
  case Nil
  then show ?case by (simp add: received_def)
next
  case (Cons x out)
  from Cons.prems have "received n out = (if Tcp_Client n \<in> set (tl cs) then [r] else [])" by (intro Cons.IH) auto
  with Cons.prems show ?case by (auto simp: received_def split: prod.splits)
qed

lemma publish_all_run:
  assumes "linked N" and "net_sessions N n = Some s" and "\<forall>m. net_sessions N m \<noteq> None \<longrightarrow> sends m = Inr ()"
  shows "\<exists>out. publish_all (\<lambda>n. net_sessions N n \<noteq> None) sends (m_subscriptions (net_pubsub N)) ds = Inr out \<and>
    received n out = due (session_channel_set s) ds"
proof (induction ds)
  case Nil
  then show ?case by (simp add: received_def due_def)
next
  case (Cons d ds)
  let ?cs = "subscribers (pd_channel d) (m_subscriptions (net_pubsub N))" and ?r = "async serialize_publish d"
  have tcp: "\<forall>c \<in> set ?cs. \<exists>n. c = Tcp_Client n \<and> net_sessions N n \<noteq> None \<and> sends n = Inr ()"
    using assms(1,3) unfolding linked_def by blast
  obtain out where out: "send_each (\<lambda>n. net_sessions N n \<noteq> None) sends ?r ?cs = Inr out"
    "map (\<lambda>(n, r). Tcp_Client n) out = ?cs" "\<forall>x \<in> set out. snd x = ?r"
    using send_each_run [OF tcp] by blast
  moreover have "distinct ?cs" and "Tcp_Client n \<in> set ?cs \<longleftrightarrow> pd_channel d \<in> session_channel_set s"
    using assms(1,2) by (auto simp: linked_def)
  ultimately have "received n out = (if pd_channel d \<in> session_channel_set s then [?r] else [])"
    using received_once [OF _ out(2,3), of n] by simp
  with out(1) Cons.IH show ?case by (auto simp: publish_def due_def)
qed

lemma event_publish_delivers:
  assumes "unpiped N" and "net_sessions N n = Some s" and "\<forall>m. net_sessions N m \<noteq> None \<longrightarrow> sends m = Inr ()"
  shows "\<exists>out P. event_publish (\<lambda>n. net_sessions N n \<noteq> None) sends (net_pubsub N) = Inr (out, P) \<and> m_publish_queue P = [] \<and>
    received n out = due (session_channel_set s) (m_publish_queue (net_pubsub N))"
  using publish_all_run [OF unpiped_linked [OF assms(1)] assms(2,3), of "m_publish_queue (net_pubsub N)"]
  by (auto simp: event_publish_def)

text \<open>A connection whose socket fails takes the deliveries behind it along, and the exception ends the event loop.\<close>

lemma failing_write_stops_delivery:
  "Tcp_Client n \<in> set cs \<Longrightarrow> sends n = Inl e \<Longrightarrow> \<exists>e'. send_each alive sends r cs = Inl e'"
proof (induction cs)
  case (Cons c cs)
  then show ?case by (cases c; cases "send_each alive sends r cs") (auto simp: bind_result_def split: sum.split)
qed simp

text \<open>A subscription in a pipe outlives the proxy it points to. An earlier write may fail first.\<close>

lemma send_each_dangling: "Piped_Client a \<in> set cs \<Longrightarrow> \<forall>n. sends n = Inr () \<Longrightarrow> send_each alive sends r cs = undefined_behaviour"
  by (induction alive sends r cs rule: send_each.induct) auto

lemma piped_subscription_dangles:
  assumes "serve_pubsub (Piped_Client a) (request_subscribe ch) (s, P) = (Inr r, s', P')"
    and "m_publish_queue P' = \<lparr>pd_channel = ch, pd_message = msg\<rparr> # ds" and "\<forall>n. sends n = Inr ()"
  shows "event_publish alive sends P' = undefined_behaviour"
proof -
  have "Piped_Client a \<in> set (subscribers ch (m_subscriptions P'))"
    using assms(1) by (auto simp: request_subscribe_op_def op_simps uset_insert_def split: sum.splits)
  then have "send_each alive sends r (subscribers ch (m_subscriptions P')) = undefined_behaviour" for r
    using assms(3) by (rule send_each_dangling)
  then show ?thesis using assms(2) by (simp add: event_publish_def publish_def)
qed

end
