(* ===== verification/Bind_Server.thy ===== *)
theory Bind_Server
  imports Handlers
begin

text \<open>
  \<^verbatim>\<open>vanity/bind_server.{h,cpp}\<close>: the addresses the server listens on. To open a listening socket is a system
  call; \<open>listen\<close> says what it does for a host and a port. The server can always be asked for the address of its
  cluster listener, which is a lookup that must find something.
\<close>

type_synonym addr_type = "string \<times> nat"

record bind_server =
  m_listeners :: "addr_type list"
  m_host :: string
  m_ports :: "nat list"
  m_cluster_port :: nat

definition new_bind_server :: "string \<Rightarrow> nat list \<Rightarrow> nat \<Rightarrow> bind_server" where
  "new_bind_server host ports cluster_port =
     \<lparr>m_listeners = [], m_host = host, m_ports = sort (remdups ports), m_cluster_port = cluster_port\<rparr>"

definition validate_port :: "int \<Rightarrow> bool" where
  "validate_port port \<longleftrightarrow> port > 0 \<and> port \<le> 65535"

text \<open>The socket is opened before the map is asked, so binding twice fails in the system call or leaves
  the old listener in the map.\<close>

definition bind_port :: "(string \<Rightarrow> nat \<Rightarrow> unit result) \<Rightarrow> string \<Rightarrow> nat \<Rightarrow> bind_server \<Rightarrow> bind_server result" where
  "bind_port listen host port st =
     bind_result (listen host port) (\<lambda>_. Inr (st\<lparr>m_listeners := uset_insert (host, port) (m_listeners st)\<rparr>))"

fun bind_ports :: "(string \<Rightarrow> nat \<Rightarrow> unit result) \<Rightarrow> nat list \<Rightarrow> bind_server \<Rightarrow> bind_server result" where
  "bind_ports listen [] st = Inr st"
| "bind_ports listen (p # ps) st = bind_result (bind_port listen (m_host st) p st) (bind_ports listen ps)"

definition bind_start :: "(string \<Rightarrow> nat \<Rightarrow> unit result) \<Rightarrow> bind_server \<Rightarrow> bind_server result" where
  "bind_start listen st = bind_ports listen (m_ports st @ [m_cluster_port st]) st"

definition bind_stop :: "bind_server \<Rightarrow> bind_server" where
  "bind_stop st = st\<lparr>m_listeners := []\<rparr>"

text \<open>\<^verbatim>\<open>find(...)->second\<close>: undefined when nothing is found.\<close>

definition cluster_addr :: "bind_server \<Rightarrow> addr_type result" where
  "cluster_addr st =
     (if (m_host st, m_cluster_port st) \<in> set (m_listeners st) then Inr (m_host st, m_cluster_port st)
      else undefined_behaviour)"

definition bind_step :: "(string \<Rightarrow> nat \<Rightarrow> unit result) \<Rightarrow> string \<Rightarrow> nat \<Rightarrow> (unit, bind_server) op" where
  "bind_step listen host port x =
     (case bind_port listen host port (snd x) of Inl e \<Rightarrow> (Inl e, x) | Inr st \<Rightarrow> (Inr (), fst x, st))"

definition request_bind_op :: "(string \<Rightarrow> nat \<Rightarrow> unit result) \<Rightarrow> string \<Rightarrow> int \<Rightarrow> (response, bind_server) op" where
  "request_bind_op listen host port =
     (if \<not> validate_port port then return_o (error ''invalid port'')
      else bind_o (read_o m_listeners) (\<lambda>ls.
        if (host, nat port) \<in> set ls then return_o (error ''already bound to port'')
        else bind_o (bind_step listen host (nat port)) (\<lambda>_. return_o ok)))"

definition request_unbind_op :: "string \<Rightarrow> int \<Rightarrow> (response, bind_server) op" where
  "request_unbind_op host port =
     (if \<not> validate_port port then return_o (error ''invalid port'')
      else bind_o (read_o id) (\<lambda>st.
        if length (m_listeners st) = 1 then return_o (error ''cannot unbind last port'')
        else if nat port = m_cluster_port st \<and> host = m_host st then return_o (error ''cannot unbind cluster port'')
        else if (host, nat port) \<notin> set (m_listeners st) then return_o (error ''was not bound to port'')
        else bind_o (change_o (\<lambda>st. st\<lparr>m_listeners := removeAll (host, nat port) (m_listeners st)\<rparr>)) (\<lambda>_. return_o ok)))"

section \<open>The cluster listener stays\<close>

definition bind_inv :: "session_info \<Rightarrow> bind_server \<Rightarrow> bool" where
  "bind_inv s st \<longleftrightarrow> (m_host st, m_cluster_port st) \<in> set (m_listeners st) \<and> distinct (m_listeners st)"

lemma bind_port_keeps:
  "bind_port listen host port st = Inr st' \<Longrightarrow>
    m_host st' = m_host st \<and> m_cluster_port st' = m_cluster_port st \<and> m_ports st' = m_ports st \<and>
    set (m_listeners st') = insert (host, port) (set (m_listeners st)) \<and>
    (distinct (m_listeners st) \<longrightarrow> distinct (m_listeners st'))"
  by (auto simp: bind_port_def bind_result_Inr_iff uset_insert_def split: if_splits)

lemma bind_ports_run:
  "bind_ports listen ps st = Inr st' \<Longrightarrow> distinct (m_listeners st) \<Longrightarrow>
    m_host st' = m_host st \<and> m_cluster_port st' = m_cluster_port st \<and> distinct (m_listeners st') \<and>
    set (m_listeners st') = set (m_listeners st) \<union> (\<lambda>p. (m_host st, p)) ` set ps"
proof (induction ps arbitrary: st)
  case (Cons p ps)
  then obtain st1 where st1: "bind_port listen (m_host st) p st = Inr st1" "bind_ports listen ps st1 = Inr st'"
    by (auto simp: bind_result_Inr_iff)
  from bind_port_keeps [OF st1(1)] Cons.prems(2) Cons.IH [OF st1(2)] show ?case by auto
qed simp

lemma bind_start_inv: "bind_start listen (new_bind_server host ports cluster_port) = Inr st \<Longrightarrow> bind_inv s st"
  using bind_ports_run [of listen _ "new_bind_server host ports cluster_port" st]
  by (auto simp: bind_start_def bind_inv_def new_bind_server_def)

lemma keeps_bind_step [keeps_intros]: "keeps bind_inv (bind_step listen host port)"
proof (rule keepsI)
  fix s st r s' st' assume "bind_inv s st" and "bind_step listen host port (s, st) = (r, s', st')"
  then show "bind_inv s' st'"
    by (cases "bind_port listen host port st")
       (auto simp: bind_step_def bind_inv_def dest: bind_port_keeps)
qed

datatype bind_request = Bind string int | Unbind string int

primrec serve_bind :: "(string \<Rightarrow> nat \<Rightarrow> unit result) \<Rightarrow> bind_request \<Rightarrow> (response, bind_server) op" where
  "serve_bind listen (Bind host port) = request_bind_op listen host port"
| "serve_bind listen (Unbind host port) = request_unbind_op host port"

interpretation bind: keeper "serve_bind listen" bind_inv
proof unfold_locales
  fix req
  have "keeps bind_inv (request_bind_op listen host port)" for host port
    unfolding request_bind_op_def by (intro keeps_intros)
  moreover have "keeps bind_inv (request_unbind_op host port)" for host port
    by (rule keepsI) (auto simp: request_unbind_op_def bind_inv_def op_simps distinct_removeAll split: if_splits)
  ultimately show "keeps bind_inv (serve_bind listen req)" by (cases req) simp_all
qed

lemma cluster_addr_found: "bind_inv s st \<Longrightarrow> cluster_addr st = Inr (m_host st, m_cluster_port st)"
  by (simp add: cluster_addr_def bind_inv_def)

end
