(* ===== verification/Persistent_Server.thy ===== *)
theory Persistent_Server
  imports Database_Servers Persist_Journal Database_File
begin

text \<open>
  \<^verbatim>\<open>vanity/persistent_server.cpp\<close> and the functions of \<^verbatim>\<open>persist_journal_server.cpp\<close> that put the pieces of
  persistence together: which files are used, the constructor, the recovery, and the request \<^verbatim>\<open>PERSIST\<close>.
  While the logger has its file open, the contents of that file are those of the logger.
\<close>

record persist_server =
  ps_wal_file :: "path option"
  ps_db_file :: "path option"
  ps_journal_file :: "path option"
  ps_fs :: fs
  ps_locked :: locked_server

definition ps_files :: "path \<Rightarrow> path \<Rightarrow> path \<Rightarrow> files" where
  "ps_files w d j = \<lparr>db_file = d, wal_path = w, journal_file = j\<rparr>"

text \<open>\<^verbatim>\<open>WriteAheadLogger::wal_to\<close> opens the file to append to it, and makes it if there is none; \<^verbatim>\<open>close_wal\<close>
  leaves the contents in the file.\<close>

definition wal_to :: "path \<Rightarrow> persist_server \<Rightarrow> persist_server" where
  "wal_to w ps = ps\<lparr>ps_locked := (ps_locked ps)\<lparr>m_wal_file := Some (case ps_fs ps w of None \<Rightarrow> [] | Some c \<Rightarrow> c)\<rparr>\<rparr>"

definition close_wal :: "path \<Rightarrow> persist_server \<Rightarrow> persist_server" where
  "close_wal w ps =
     (case m_wal_file (ps_locked ps) of
        None \<Rightarrow> ps
      | Some c \<Rightarrow> ps\<lparr>ps_fs := (ps_fs ps)(w \<mapsto> c), ps_locked := (ps_locked ps)\<lparr>m_wal_file := None\<rparr>\<rparr>)"

definition persist_through_journal :: "path \<Rightarrow> path \<Rightarrow> path \<Rightarrow> persist_server \<Rightarrow> persist_server result" where
  "persist_through_journal w d j ps =
     (let ps = close_wal w ps in
      bind_result
        (run_steps (persist_with_wal (ps_files w d j) [] (do_persist (m_databases (ps_locked ps))) (ps_fs ps)) (ps_fs ps))
        (\<lambda>fs. Inr (wal_to w (ps\<lparr>ps_fs := fs\<rparr>))))"

definition persist_without_wal :: "path \<Rightarrow> persist_server \<Rightarrow> persist_server result" where
  "persist_without_wal d ps =
     (let tmp = with_name_prefix d ''tmp.'' in
      bind_result
        (bind_result (write_file tmp (do_persist (m_databases (ps_locked ps))) (ps_fs ps)) (rename_file tmp d))
        (\<lambda>fs. Inr (ps\<lparr>ps_fs := fs\<rparr>)))"

text \<open>The constructor makes sure that there is a journal when there are the other two files.\<close>

definition persist_no_check :: "time_t \<Rightarrow> persist_server \<Rightarrow> persist_server result" where
  "persist_no_check now ps =
     (let ps = ps\<lparr>ps_locked := purge_all now (ps_locked ps)\<rparr> in
      case ps_db_file ps of
        None \<Rightarrow> undefined_behaviour
      | Some d \<Rightarrow>
          (case ps_wal_file ps of
             None \<Rightarrow> persist_without_wal d ps
           | Some w \<Rightarrow>
               (case ps_journal_file ps of
                  None \<Rightarrow> undefined_behaviour
                | Some j \<Rightarrow> persist_through_journal w d j ps)))"

definition request_persist_op :: "time_t \<Rightarrow> (response, persist_server) op" where
  "request_persist_op now x =
     (if ps_db_file (snd x) = None then (Inr (error ''Persistence disabled''), x)
      else case persist_no_check now (snd x) of
        Inl e \<Rightarrow> (Inl e, x)
      | Inr ps \<Rightarrow> (Inr ok, fst x, ps))"

section \<open>Starting\<close>

definition load_databases :: "persist_server \<Rightarrow> persist_server result" where
  "load_databases ps =
     (case ps_db_file ps of
        None \<Rightarrow> Inr ps
      | Some d \<Rightarrow>
          if \<not> file_exists (ps_fs ps) d then Inr ps
          else bind_result (load_each (m_databases (ps_locked ps)) (ps_fs ps d))
                 (\<lambda>(dbs, _). Inr (ps\<lparr>ps_locked := (ps_locked ps)\<lparr>m_databases := dbs\<rparr>\<rparr>)))"

definition prepare_files :: "persist_server \<Rightarrow> persist_server result" where
  "prepare_files ps =
     (case (ps_wal_file ps, ps_db_file ps) of
        (Some w, Some d) \<Rightarrow>
          (case ps_journal_file ps of
             None \<Rightarrow> undefined_behaviour
           | Some j \<Rightarrow> bind_result (pre_database_load (ps_files w d j) (ps_fs ps)) (\<lambda>fs. Inr (ps\<lparr>ps_fs := fs\<rparr>)))
      | _ \<Rightarrow> Inr ps)"

definition new_persist_server :: "path option \<Rightarrow> path option \<Rightarrow> path option \<Rightarrow> fs \<Rightarrow> persist_server result" where
  "new_persist_server w d j fs =
     (if w \<noteq> None \<and> d \<noteq> None \<and> j = None
      then Inl (InvalidArgument ''Journal file must be provided if WAL and DB files are provided'')
      else let ps = \<lparr>ps_wal_file = w, ps_db_file = d, ps_journal_file = j, ps_fs = fs,
                     ps_locked = \<lparr>m_databases = create_databases, m_wal_file = None\<rparr>\<rparr> in
        bind_result (prepare_files ps) (\<lambda>ps.
        bind_result (load_databases ps) (\<lambda>ps.
        Inr (case w of None \<Rightarrow> ps | Some w \<Rightarrow> wal_to w ps))))"

text \<open>\<^verbatim>\<open>PersistJournalServer::recover\<close>. The constructor has opened the log for appending, so the file exists.\<close>

definition recover_server :: "(float_t \<Rightarrow> float_t \<Rightarrow> float_t) \<Rightarrow> (nat \<Rightarrow> nat \<Rightarrow> nat) \<Rightarrow> time_t \<Rightarrow> persist_server \<Rightarrow> persist_server result" where
  "recover_server fadd dis now ps =
     (case ps_wal_file ps of
        None \<Rightarrow> Inr ps
      | Some w \<Rightarrow>
          bind_result (recover fadd dis now (m_wal_file (ps_locked ps)) (m_databases (ps_locked ps)))
            (\<lambda>l. Inr (ps\<lparr>ps_locked := l\<rparr>)))"

section \<open>What a persist request leaves\<close>

text \<open>The database file is the snapshot of the purged databases, the log is empty, and the journal is gone.\<close>

lemma persist_through_journal_run:
  assumes "distinct_files (ps_files w d j)"
  shows "\<exists>fs. persist_through_journal w d j ps =
      Inr (ps\<lparr>ps_fs := fs, ps_locked := (ps_locked ps)\<lparr>m_wal_file := Some []\<rparr>\<rparr>) \<and>
    fs d = Some (do_persist (m_databases (ps_locked ps))) \<and> fs w = None \<and> fs j = None"
proof -
  define F where "F = ps_files w d j"
  have F: "d = db_file F" "w = wal_path F" "j = journal_file F" by (simp_all add: F_def ps_files_def)
  define ps1 where "ps1 = close_wal w ps"
  have ps1: "m_databases (ps_locked ps1) = m_databases (ps_locked ps)"
    "ps1\<lparr>ps_fs := fs, ps_locked := (ps_locked ps1)\<lparr>m_wal_file := v\<rparr>\<rparr> =
     ps\<lparr>ps_fs := fs, ps_locked := (ps_locked ps)\<lparr>m_wal_file := v\<rparr>\<rparr>" for fs v
    by (simp_all add: ps1_def close_wal_def split: option.split)
  let ?snap = "do_persist (m_databases (ps_locked ps))"
  have "\<exists>fs. run_steps (persist_with_wal F [] ?snap (ps_fs ps1)) (ps_fs ps1) = Inr fs \<and>
      fs d = Some ?snap \<and> fs w = None \<and> fs j = None"
    using distinct_filesD [OF assms [folded F_def]] unfolding F
    by (cases "ps_fs ps1 (db_file F)")
       (simp_all add: persist_with_wal_def journal_db_file_exist_def journal_db_file_no_exist_def step_simps)
  then obtain fs where "run_steps (persist_with_wal F [] ?snap (ps_fs ps1)) (ps_fs ps1) = Inr fs"
    "fs d = Some ?snap" "fs w = None" "fs j = None" by blast
  then show ?thesis
    using ps1(1) ps1(2) [where fs = fs and v = "Some []"]
    by (intro exI [of _ fs])
       (simp add: persist_through_journal_def Let_def ps1_def [symmetric] F_def [symmetric] wal_to_def)
qed

lemma settled_purge_all:
  assumes "settled (m_databases l)"
  shows "settled (m_databases (purge_all now l))"
proof -
  have "\<forall>d \<in> set ds. d < length (m_databases l) \<Longrightarrow> settled (m_databases l) \<Longrightarrow>
      settled (m_databases (fold (locked_deep_purge now) ds l))" for ds
  proof (induction ds arbitrary: l)
    case (Cons i ds)
    let ?db = "(deep_purge now (m_databases l ! i))\<lparr>pre_expire_calls := []\<rparr>"
    have l: "m_databases (locked_deep_purge now i l) = (m_databases l)[i := ?db]"
      using Cons.prems(1) by (simp add: locked_deep_purge_def log_expiries_def Let_def fold_wal_expiry)
    have "settled (m_databases (locked_deep_purge now i l))"
      using Cons.prems settledD [of "m_databases l" i] by (auto simp: l deep_purge_def intro!: settled_update)
    with Cons.IH [of "locked_deep_purge now i l"] Cons.prems(1) show ?case by (simp add: l)
  qed simp
  from this [of "[0 ..< length (m_databases l)]"] assms show ?thesis by (simp add: purge_all_def)
qed

text \<open>A server that starts from the files that a persist request has left, with nothing in the log, has the databases of
  the request.\<close>

lemma persist_restart:
  assumes "distinct_files (ps_files w d j)" and "ps_wal_file ps = Some w" and "ps_db_file ps = Some d"
    and "ps_journal_file ps = Some j" and "settled (m_databases (ps_locked ps))" and "wf_dbs (m_databases (ps_locked ps))"
    and "length (m_databases (ps_locked ps)) = M_NUM_DATABASES"
    and "\<forall>db \<in> set (m_databases (purge_all now (ps_locked ps))). fits db"
  shows "\<exists>ps' ps''. request_persist_op now (s, ps) = (Inr ok, s, ps') \<and>
    new_persist_server (Some w) (Some d) (Some j) (ps_fs ps') = Inr ps'' \<and>
    m_databases (ps_locked ps'') = m_databases (purge_all now (ps_locked ps)) \<and> m_wal_file (ps_locked ps'') = Some []"
proof -
  let ?l = "purge_all now (ps_locked ps)"
  have purge: "wf_dbs (m_databases ?l)" "length (m_databases ?l) = M_NUM_DATABASES" "settled (m_databases ?l)"
    using purge_all_views [OF assms(6)] assms(7) settled_purge_all [OF assms(5)] by simp_all
  obtain fs where fs: "persist_through_journal w d j (ps\<lparr>ps_locked := ?l\<rparr>) =
      Inr (ps\<lparr>ps_fs := fs, ps_locked := ?l\<lparr>m_wal_file := Some []\<rparr>\<rparr>)"
    "fs d = Some (do_persist (m_databases ?l))" "fs w = None" "fs j = None"
    using persist_through_journal_run [OF assms(1), of "ps\<lparr>ps_locked := ?l\<rparr>"] by auto
  then have "request_persist_op now (s, ps) = (Inr ok, s, ps\<lparr>ps_fs := fs, ps_locked := ?l\<lparr>m_wal_file := Some []\<rparr>\<rparr>)"
    using assms(2-4) by (simp add: request_persist_op_def persist_no_check_def Let_def)
  moreover have "load_each create_databases (fs d) = Inr (m_databases ?l, Some [])"
    using load_each_do_persist [of create_databases "m_databases ?l" "[]"] settled_load [OF purge(3)] purge assms(8) fs(2)
    by (simp add: create_databases_def wf_dbs_def)
  moreover have "pre_database_load (ps_files w d j) fs = Inr fs"
    using fs(4) by (simp add: pre_database_load_def ps_files_def recovered_journals(1))
  ultimately show ?thesis
    using fs by (simp add: new_persist_server_def prepare_files_def load_databases_def Let_def file_exists_def wal_to_def)
qed

end
