(* ===== verification/Peer_Messages.thy ===== *)
theory Peer_Messages
  imports Response
begin

text \<open>
  \<^verbatim>\<open>vanity/cluster/peer_operations.h\<close>, \<^verbatim>\<open>reply_status.h\<close>, \<^verbatim>\<open>vanity/response/{post,reply,async}_message.cpp\<close> and
  \<^verbatim>\<open>vanity/request/peer_request.cpp\<close>: the messages that servers of a cluster send to each other. A message is posted
  with an id and an operation, a reply carries the id of the message it answers, and an asynchronous message has
  neither id nor reply. As for responses, a message is the text without the length in front of it.
\<close>

section \<open>Words\<close>

datatype peer_op_t = op_PING | op_EXIT | op_PEER_AUTH | op_PEERS | op_ASK_EVICT | op_MAX_OP

definition PEER_OP_STRINGS :: "(peer_op_t \<times> string) list" where
  "PEER_OP_STRINGS =
     [(op_PING, ''PING''), (op_EXIT, ''EXIT''), (op_PEER_AUTH, ''PEER_AUTH''), (op_PEERS, ''PEERS''),
      (op_ASK_EVICT, ''ASK_EVICT'')]"

datatype async_op_t = async_PULSE | async_MAX_OP

definition ASYNC_OP_STRINGS :: "(async_op_t \<times> string) list" where
  "ASYNC_OP_STRINGS = [(async_PULSE, ''PULSE'')]"

datatype ReplyStatus = status_OK | status_ERR | status_DENIED | status_REDIRECT | MAX_STATUS

definition REPLY_STATUS_STRINGS :: "(ReplyStatus \<times> string) list" where
  "REPLY_STATUS_STRINGS =
     [(status_OK, ''OK''), (status_ERR, ''ERR''), (status_DENIED, ''DENIED''), (status_REDIRECT, ''REDIRECT'')]"

datatype peer_request_t = msg_POST | msg_REPLY | msg_ASYNC

definition REQUEST_STRINGS :: "(peer_request_t \<times> string) list" where
  "REQUEST_STRINGS = [(msg_POST, ''POST''), (msg_REPLY, ''REPLY''), (msg_ASYNC, ''ASYNC'')]"

section \<open>Composing\<close>

text \<open>The array of strings is indexed by the operation. It has no entry for \<^verbatim>\<open>MAX_OP\<close>: reading that one is
  outside of the array.\<close>

definition array_string :: "('a \<times> string) list \<Rightarrow> 'a \<Rightarrow> string result" where
  "array_string strings op = (case map_of strings op of Some s \<Rightarrow> Inr s | None \<Rightarrow> undefined_behaviour)"

definition op_to_string :: "peer_op_t \<Rightarrow> string result" where
  "op_to_string op = array_string PEER_OP_STRINGS op"

definition post_op :: "peer_op_t \<Rightarrow> string \<Rightarrow> string result" where
  "post_op op m = bind_result (op_to_string op) (\<lambda>s. Inr (m @ s))"

definition post_length :: "nat \<Rightarrow> string \<Rightarrow> string" where
  "post_length n m = m @ ''('' @ to_string n @ '')''"

definition post_str :: "string \<Rightarrow> string \<Rightarrow> string" where
  "post_str s m = post_length (length s) m @ s"

definition post_int :: "int \<Rightarrow> string \<Rightarrow> string" where
  "post_int i m = m @ int_to_string i @ '' ''"

definition async_op :: "async_op_t \<Rightarrow> string \<Rightarrow> string result" where
  "async_op op m = bind_result (array_string ASYNC_OP_STRINGS op) (\<lambda>s. Inr (m @ s))"

definition reply_status :: "ReplyStatus \<Rightarrow> string \<Rightarrow> string result" where
  "reply_status status m =
     (case map_of REPLY_STATUS_STRINGS status of
        None \<Rightarrow> Inl (InvalidArgument ''invalid status'')
      | Some s \<Rightarrow> Inr (m @ s))"

definition reply_int :: "int \<Rightarrow> string \<Rightarrow> string" where
  "reply_int i m = m @ int_to_string i @ '' ''"

definition reply_length :: "nat \<Rightarrow> string \<Rightarrow> string" where
  "reply_length n m = m @ ''('' @ to_string n @ '')''"

definition reply_str :: "string \<Rightarrow> string \<Rightarrow> string" where
  "reply_str s m = reply_length (length s) m @ s"

definition reply_set :: "set_t \<Rightarrow> string \<Rightarrow> string" where
  "reply_set ss m = fold reply_str ss (reply_length (length ss) m @ [CHR 0x7B]) @ [CHR 0x7D]"

definition reply_bool :: "bool \<Rightarrow> string \<Rightarrow> string" where
  "reply_bool b m = m @ (if b then ''true'' else ''false'')"

text \<open>\<^verbatim>\<open>new_post\<close>, \<^verbatim>\<open>new_plain_post\<close>, \<^verbatim>\<open>new_reply\<close> and \<^verbatim>\<open>new_async\<close> of \<^verbatim>\<open>PeerMessageServer\<close>, for a given id. The plain message
  is for a server that does not know the sender yet, so it looks like the request of a client.\<close>

definition post_message :: "int \<Rightarrow> peer_op_t \<Rightarrow> string result" where
  "post_message i op = post_op op (post_int i ''POST'')"

definition plain_post_message :: "int \<Rightarrow> peer_op_t \<Rightarrow> string result" where
  "plain_post_message i op = bind_result (post_op op []) (\<lambda>m. Inr (post_int i m))"

definition new_reply :: "int \<Rightarrow> ReplyStatus \<Rightarrow> string result" where
  "new_reply i status = reply_status status (reply_int i ''REPLY'')"

definition new_async :: "async_op_t \<Rightarrow> string result" where
  "new_async op = async_op op ''ASYNC''"

section \<open>Reading\<close>

definition get_request_t :: "peer_request_t extraction" where
  "get_request_t = get_from_list REQUEST_STRINGS ''invalid request type''"

definition get_reply_status :: "ReplyStatus extraction" where
  "get_reply_status = get_from_list REPLY_STATUS_STRINGS ''invalid reply status''"

definition get_op :: "peer_op_t extraction" where
  "get_op = get_from_list PEER_OP_STRINGS ''invalid peer operation''"

definition get_async_op :: "async_op_t extraction" where
  "get_async_op = get_from_list ASYNC_OP_STRINGS ''invalid async operation''"

lemma safe_peer_words [safe_intros]: "safe get_request_t" "safe get_reply_status" "safe get_op" "safe get_async_op"
  unfolding get_request_t_def get_reply_status_def get_op_def get_async_op_def by (intro safe_intros)+

section \<open>What is composed is read back\<close>

interpretation peer_op: word_list PEER_OP_STRINGS
  by unfold_locales (simp_all add: PEER_OP_STRINGS_def is_word_def is_word_char_def unshadowed_def)

interpretation peer_async: word_list ASYNC_OP_STRINGS
  by unfold_locales (simp_all add: ASYNC_OP_STRINGS_def is_word_def is_word_char_def unshadowed_def)

interpretation peer_status: word_list REPLY_STATUS_STRINGS
  by unfold_locales (simp_all add: REPLY_STATUS_STRINGS_def is_word_def is_word_char_def unshadowed_def)

interpretation peer_kind: word_list REQUEST_STRINGS
  by unfold_locales (simp_all add: REQUEST_STRINGS_def is_word_def is_word_char_def unshadowed_def)

lemma fold_reply_str: "fold reply_str ss m = m @ concat (map show_str ss)"
  by (induction ss arbitrary: m) (simp_all add: reply_str_def reply_length_def show_str_def show_len_def)

lemma message_parts:
  "post_str s m = m @ show_str s" "reply_str s m = m @ show_str s" "reply_set ss m = m @ show_set ss"
  "post_int i m = m @ int_to_string i @ '' ''" "reply_int i m = m @ int_to_string i @ '' ''"
  by (simp_all add: post_str_def post_length_def reply_str_def reply_length_def reply_set_def fold_reply_str show_set_def show_seq_def
      show_str_def show_len_def post_int_def reply_int_def)

lemma listed_words:
  "op \<noteq> op_MAX_OP \<Longrightarrow> map_of PEER_OP_STRINGS op = Some (peer_op.word_of op)"
  "st \<noteq> MAX_STATUS \<Longrightarrow> map_of REPLY_STATUS_STRINGS st = Some (peer_status.word_of st)"
proof -
  assume "op \<noteq> op_MAX_OP"
  then have "op \<in> fst ` set PEER_OP_STRINGS" by (cases op) (simp_all add: PEER_OP_STRINGS_def)
  from peer_op.word_of_listed [OF this] show "map_of PEER_OP_STRINGS op = Some (peer_op.word_of op)"
    using peer_op.distinct_values by simp
next
  assume "st \<noteq> MAX_STATUS"
  then have "st \<in> fst ` set REPLY_STATUS_STRINGS" by (cases st) (simp_all add: REPLY_STATUS_STRINGS_def)
  from peer_status.word_of_listed [OF this] show "map_of REPLY_STATUS_STRINGS st = Some (peer_status.word_of st)"
    using peer_status.distinct_values by simp
qed

lemma message_heads:
  "op \<noteq> op_MAX_OP \<Longrightarrow> post_message i op = Inr (''POST'' @ int_to_string i @ '' '' @ peer_op.word_of op)"
  "op \<noteq> op_MAX_OP \<Longrightarrow> plain_post_message i op = Inr (peer_op.word_of op @ int_to_string i @ '' '')"
  "st \<noteq> MAX_STATUS \<Longrightarrow> new_reply i st = Inr (''REPLY'' @ int_to_string i @ '' '' @ peer_status.word_of st)"
  "new_async async_PULSE = Inr ''ASYNCPULSE''"
  by (simp_all add: post_message_def plain_post_message_def post_op_def op_to_string_def array_string_def listed_words
      post_int_def new_reply_def reply_status_def reply_int_def new_async_def async_op_def ASYNC_OP_STRINGS_def)

text \<open>The words where the readers expect them.\<close>

lemma kind_at:
  assumes "no_word_char rest" and "fits_size (peer_kind.word_of k @ rest)"
  shows "get_request_t (at [] (peer_kind.word_of k @ rest)) = (Inr k, at (peer_kind.word_of k) rest)"
proof -
  have "k \<in> fst ` set REQUEST_STRINGS" by (cases k) (simp_all add: REQUEST_STRINGS_def)
  then show ?thesis using peer_kind.word.reads [of k rest "[]" "[]"] assms by (simp add: get_request_t_def)
qed

lemma op_at:
  assumes "op \<noteq> op_MAX_OP" and "no_word_char rest" and "spaces ws" and "fits_size (pre @ ws @ peer_op.word_of op @ rest)"
  shows "get_op (at pre (ws @ peer_op.word_of op @ rest)) = (Inr op, at (pre @ ws @ peer_op.word_of op) rest)"
proof -
  have "op \<in> fst ` set PEER_OP_STRINGS" using assms(1) by (cases op) (simp_all add: PEER_OP_STRINGS_def)
  then show ?thesis using peer_op.word.reads assms by (simp add: get_op_def)
qed

lemma status_at:
  assumes "st \<noteq> MAX_STATUS" and "no_word_char rest" and "spaces ws" and "fits_size (pre @ ws @ peer_status.word_of st @ rest)"
  shows "get_reply_status (at pre (ws @ peer_status.word_of st @ rest)) = (Inr st, at (pre @ ws @ peer_status.word_of st) rest)"
proof -
  have "st \<in> fst ` set REPLY_STATUS_STRINGS" using assms(1) by (cases st) (simp_all add: REPLY_STATUS_STRINGS_def)
  then show ?thesis using peer_status.word.reads assms by (simp add: get_reply_status_def)
qed

end
