(* ===== verification/Cluster_State.thy ===== *)
theory Cluster_State
  imports Peer_Messages Bind_Server Pubsub_Server
begin

text \<open>
  The state that a server keeps about its cluster, and the servers that own it: \<^verbatim>\<open>ClusterAuthServer\<close> (key and id),
  \<^verbatim>\<open>PeerAuthApplicationServer\<close> (pending applications), \<^verbatim>\<open>PeerMessageServer\<close> (ids and expected replies), \<^verbatim>\<open>AddressServer\<close>,
  \<^verbatim>\<open>PeerServer\<close> (the connections to peers), and \<^verbatim>\<open>vanity/utils/random.h\<close>.

  Connections are numbers, as in \<open>Pubsub_Server\<close>. A handler works on the whole state, which has the
  sessions of all live connections, what was sent to whom, and who was closed. It may throw, and what it changed before
  stays changed.
\<close>

section \<open>Computations\<close>

type_synonym ('a, 'x) comp = "'x \<Rightarrow> 'a result \<times> 'x"

definition return_c :: "'a \<Rightarrow> ('a, 'x) comp" where
  "return_c a x = (Inr a, x)"

definition throw_c :: "error \<Rightarrow> ('a, 'x) comp" where
  "throw_c e x = (Inl e, x)"

definition bind_c :: "('a, 'x) comp \<Rightarrow> ('a \<Rightarrow> ('b, 'x) comp) \<Rightarrow> ('b, 'x) comp" where
  "bind_c m f x = (case m x of (Inl e, x) \<Rightarrow> (Inl e, x) | (Inr a, x) \<Rightarrow> f a x)"

definition read_c :: "('x \<Rightarrow> 'a result) \<Rightarrow> ('a, 'x) comp" where
  "read_c f x = (f x, x)"

definition get_c :: "('x \<Rightarrow> 'a) \<Rightarrow> ('a, 'x) comp" where
  "get_c f x = (Inr (f x), x)"

definition change_c :: "('x \<Rightarrow> 'x) \<Rightarrow> (unit, 'x) comp" where
  "change_c f x = (Inr (), f x)"

primrec each_c :: "('a \<Rightarrow> (unit, 'x) comp) \<Rightarrow> 'a list \<Rightarrow> (unit, 'x) comp" where
  "each_c f [] = return_c ()"
| "each_c f (a # as) = bind_c (f a) (\<lambda>_. each_c f as)"

named_theorems comp_simps \<open>the elementary computations\<close>

declare return_c_def [comp_simps] throw_c_def [comp_simps] read_c_def [comp_simps] get_c_def [comp_simps]
  change_c_def [comp_simps]

lemma bind_c_pure [simp]: "bind_c (return_c a) f = f a" "bind_c (throw_c e) f = throw_c e"
  by (simp_all add: bind_c_def return_c_def throw_c_def fun_eq_iff)

lemma bind_c_steps [simp]:
  "bind_c (read_c g) f x = (case g x of Inl e \<Rightarrow> (Inl e, x) | Inr a \<Rightarrow> f a x)"
  "bind_c (get_c h) k x = k (h x) x"
  "bind_c (change_c c) n x = n () (c x)"
  by (simp_all add: bind_c_def comp_simps split: sum.splits)

lemma bind_c_run:
  "m x = (Inr a, y) \<Longrightarrow> bind_c m f x = f a y"
  "m x = (Inl e, y) \<Longrightarrow> bind_c m f x = (Inl e, y)"
  by (simp_all add: bind_c_def)

section \<open>State\<close>

record PendingPeerAuth =
  pa_key :: string
  pa_own_id :: string
  pa_client :: "client_ptr option"

record eviction_issue_t =
  issue_id :: string
  issue_peer_id :: string
  reason :: string
  opinions :: "bool list"
  self_opinion :: bool
  resolved :: bool
  expected_opinions :: int
  forget_at :: int

text \<open>A reference to an issue is the key it has in the map: the issues are never erased.\<close>

record cluster_server =
  m_cluster_key :: "string option"
  m_cluster_id :: "string option"
  m_pending_peer_auths :: "(int \<times> PendingPeerAuth) list"
  m_expected_ops :: "(int \<times> peer_op_t) list"
  m_next_id :: int
  m_peers :: "nat list"
  m_eviction_issues :: "(string \<times> eviction_issue_t) list"
  m_ask_evict_requests :: "(int \<times> string) list"
  draws :: nat
  sessions :: "nat \<Rightarrow> session_info option"
  closed_clients :: "nat list"
  outbox :: "(nat \<times> string) list"

definition new_cluster :: cluster_server where
  "new_cluster =
     \<lparr>m_cluster_key = None, m_cluster_id = None, m_pending_peer_auths = [], m_expected_ops = [], m_next_id = 0, m_peers = [],
      m_eviction_issues = [], m_ask_evict_requests = [], draws = 0, sessions = (\<lambda>_. None), closed_clients = [], outbox = []\<rparr>"

text \<open>What the cluster takes from its surroundings: the steady clock, the random numbers, the connections that the
  system opens (with the address of the other end; the number is not in use), the local ports of the
  connections, and the listeners of the server itself.\<close>

record cluster_env =
  ce_now :: int
  ce_pick :: "nat \<Rightarrow> nat"
  ce_connect :: "(nat \<Rightarrow> session_info option) \<Rightarrow> string \<Rightarrow> nat \<Rightarrow> (nat \<times> string \<times> nat) result"
  ce_local_port :: "nat \<Rightarrow> nat"
  ce_bind :: bind_server

type_synonym 'a cluster_op = "('a, cluster_server) comp"

section \<open>Sending\<close>

text \<open>\<^verbatim>\<open>send\<close> through a pointer: the connection has to be alive, and a proxy of a pipe is gone once its pipe is handled. That the writer
  of a live connection takes the text without an error of the socket is assumed.\<close>

fun send_to :: "client_ptr \<Rightarrow> string \<Rightarrow> unit cluster_op" where
  "send_to (Tcp_Client n) msg c =
     (if sessions c n = None then (undefined_behaviour, c) else (Inr (), c\<lparr>outbox := outbox c @ [(n, msg)]\<rparr>))"
| "send_to (Piped_Client a) msg c = (undefined_behaviour, c)"

definition close_client :: "nat \<Rightarrow> unit cluster_op" where
  "close_client n = change_c (\<lambda>c. c\<lparr>closed_clients := uset_insert n (closed_clients c)\<rparr>)"

text \<open>The session of a connection, and assignment to it.\<close>

definition session_c :: "nat \<Rightarrow> (session_info \<Rightarrow> 'a result) \<Rightarrow> 'a cluster_op" where
  "session_c n f = read_c (\<lambda>c. case sessions c n of None \<Rightarrow> undefined_behaviour | Some s \<Rightarrow> f s)"

definition assign_c :: "nat \<Rightarrow> (session_info \<Rightarrow> session_info result) \<Rightarrow> unit cluster_op" where
  "assign_c n f = bind_c (session_c n f) (\<lambda>s. change_c (\<lambda>c. c\<lparr>sessions := (sessions c)(n \<mapsto> s)\<rparr>))"

definition update_peer_data :: "(peer_data_t \<Rightarrow> peer_data_t) \<Rightarrow> session_info \<Rightarrow> session_info result" where
  "update_peer_data f s = bind_result (session_peer_data s) (\<lambda>p. Inr (s\<lparr>session_data := Peer_Data (f p)\<rparr>))"

section \<open>Random strings\<close>

definition random_chars :: string where
  "random_chars = ''0123456789abcdefghijklmnopqrstuvwxyzABCDEFGHIJKLMNOPQRSTUVWXYZ''"

definition random_string :: "cluster_env \<Rightarrow> nat \<Rightarrow> string cluster_op" where
  "random_string ce n =
     bind_c (get_c draws) (\<lambda>k.
     bind_c (change_c (\<lambda>c. c\<lparr>draws := k + n\<rparr>)) (\<lambda>_.
     return_c (map (\<lambda>i. random_chars ! ce_pick ce (k + i)) [0 ..< n])))"

definition random_cluster_id :: "cluster_env \<Rightarrow> string cluster_op" where
  "random_cluster_id ce = random_string ce 15"

section \<open>Addresses\<close>

definition make_address :: "string \<Rightarrow> nat \<Rightarrow> string" where
  "make_address host port = host @ '':'' @ to_string port"

text \<open>\<^verbatim>\<open>std::stoi\<close>: \<^verbatim>\<open>strtol\<close> on the C string, and a check that the result is an \<^verbatim>\<open>int\<close>.\<close>

definition stoi :: "string \<Rightarrow> int result" where
  "stoi s =
     (case strtoll (takeWhile (\<lambda>c. c \<noteq> CHR 0x00) s) of
        No_Conversion \<Rightarrow> Inl (InvalidArgument ''stoi'')
      | Out_Of_Range \<Rightarrow> Inl (OutOfRange ''stoi'')
      | Converted v n \<Rightarrow> if - (2 ^ 31) \<le> v \<and> v < 2 ^ 31 then Inr v else Inl (OutOfRange ''stoi''))"

text \<open>\<^verbatim>\<open>rfind(':')\<close>: the host is everything before the last colon.\<close>

definition unmake_address :: "string \<Rightarrow> (string \<times> nat) result" where
  "unmake_address ad =
     (if CHR '':'' \<notin> set ad then Inl (RuntimeError ''invalid address'')
      else let port = rev (takeWhile (\<lambda>c. c \<noteq> CHR '':'') (rev ad)); host = take (length ad - length port - 1) ad in
        bind_result (stoi port) (\<lambda>p. if \<not> validate_port p then Inl (RuntimeError ''invalid port'') else Inr (host, nat p)))"

definition try_unmake_address :: "string \<Rightarrow> (string \<times> nat) option" where
  "try_unmake_address ad = (case unmake_address ad of Inl _ \<Rightarrow> None | Inr a \<Rightarrow> Some a)"

definition own_peer_addr :: "cluster_env \<Rightarrow> string result" where
  "own_peer_addr ce = bind_result (cluster_addr (ce_bind ce)) (\<lambda>(host, port). Inr (make_address host port))"

section \<open>Messages\<close>

definition INT64_MAX :: int where
  "INT64_MAX = 2 ^ 63 - 1"

text \<open>\<^verbatim>\<open>m_next_id++\<close> on a signed integer.\<close>

definition next_msg_id :: "int cluster_op" where
  "next_msg_id =
     bind_c (get_c m_next_id) (\<lambda>i.
     if i = INT64_MAX then throw_c UndefinedBehaviour
     else bind_c (change_c (\<lambda>c. c\<lparr>m_next_id := i + 1\<rparr>)) (\<lambda>_. return_c i))"

definition expect_op :: "int \<Rightarrow> peer_op_t \<Rightarrow> unit cluster_op" where
  "expect_op i op = change_c (\<lambda>c. c\<lparr>m_expected_ops := AList.update i op (m_expected_ops c)\<rparr>)"

definition expected_op :: "int \<Rightarrow> peer_op_t option cluster_op" where
  "expected_op i =
     bind_c (get_c (\<lambda>c. map_of (m_expected_ops c) i)) (\<lambda>r.
     case r of
       None \<Rightarrow> return_c None
     | Some op \<Rightarrow> bind_c (change_c (\<lambda>c. c\<lparr>m_expected_ops := AList.delete i (m_expected_ops c)\<rparr>)) (\<lambda>_. return_c (Some op)))"

definition new_post_id :: "peer_op_t \<Rightarrow> int cluster_op" where
  "new_post_id op = bind_c next_msg_id (\<lambda>i. bind_c (expect_op i op) (\<lambda>_. return_c i))"

definition post :: "nat \<Rightarrow> peer_op_t \<Rightarrow> string list \<Rightarrow> int cluster_op" where
  "post n op args =
     bind_c (new_post_id op) (\<lambda>i.
     bind_c (read_c (\<lambda>_. post_message i op)) (\<lambda>m.
     bind_c (send_to (Tcp_Client n) (fold post_str args m)) (\<lambda>_. return_c i)))"

definition post_plain :: "nat \<Rightarrow> peer_op_t \<Rightarrow> string list \<Rightarrow> int cluster_op" where
  "post_plain n op args =
     bind_c (new_post_id op) (\<lambda>i.
     bind_c (read_c (\<lambda>_. plain_post_message i op)) (\<lambda>m.
     bind_c (send_to (Tcp_Client n) (fold post_str args m)) (\<lambda>_. return_c i)))"

definition send_async :: "nat \<Rightarrow> async_op_t \<Rightarrow> unit cluster_op" where
  "send_async n op = bind_c (read_c (\<lambda>_. new_async op)) (send_to (Tcp_Client n))"

definition reply_with :: "nat \<Rightarrow> int \<Rightarrow> ReplyStatus \<Rightarrow> (string \<Rightarrow> string) \<Rightarrow> unit cluster_op" where
  "reply_with n i status ser = bind_c (read_c (\<lambda>_. new_reply i status)) (\<lambda>m. send_to (Tcp_Client n) (ser m))"

section \<open>Applications\<close>

definition add_auth_application :: "int \<Rightarrow> string \<Rightarrow> string \<Rightarrow> client_ptr option \<Rightarrow> unit cluster_op" where
  "add_auth_application i key own_id client = change_c (\<lambda>c.
     if contains (m_pending_peer_auths c) i then c
     else c\<lparr>m_pending_peer_auths := m_pending_peer_auths c @ [(i, \<lparr>pa_key = key, pa_own_id = own_id, pa_client = client\<rparr>)]\<rparr>)"

definition pop_auth_application :: "int \<Rightarrow> PendingPeerAuth option cluster_op" where
  "pop_auth_application i =
     bind_c (get_c (\<lambda>c. map_of (m_pending_peer_auths c) i)) (\<lambda>r.
     case r of
       None \<Rightarrow> return_c None
     | Some p \<Rightarrow> bind_c (change_c (\<lambda>c. c\<lparr>m_pending_peer_auths := AList.delete i (m_pending_peer_auths c)\<rparr>)) (\<lambda>_. return_c (Some p)))"

definition send_opt :: "client_ptr option \<Rightarrow> string \<Rightarrow> unit cluster_op" where
  "send_opt client msg = (case client of None \<Rightarrow> return_c () | Some p \<Rightarrow> send_to p msg)"

definition clear_auth_applications :: "string \<Rightarrow> unit cluster_op" where
  "clear_auth_applications msg =
     bind_c (get_c m_pending_peer_auths) (\<lambda>ps.
     bind_c (each_c (\<lambda>p. send_opt (pa_client (snd p)) msg) ps) (\<lambda>_.
     change_c (\<lambda>c. c\<lparr>m_pending_peer_auths := []\<rparr>)))"

section \<open>The key of the cluster\<close>

definition M_MIN_CLUSTER_KEY_LEN :: nat where
  "M_MIN_CLUSTER_KEY_LEN = 12"

definition M_MIN_CLUSTER_ID_LEN :: nat where
  "M_MIN_CLUSTER_ID_LEN = 12"

definition check_cluster_key_length :: "string \<Rightarrow> bool" where
  "check_cluster_key_length key \<longleftrightarrow> length key \<ge> M_MIN_CLUSTER_KEY_LEN"

definition check_cluster_id_length :: "string \<Rightarrow> bool" where
  "check_cluster_id_length i \<longleftrightarrow> i = [] \<or> length i \<ge> M_MIN_CLUSTER_ID_LEN"

definition authenticate_cluster_key :: "string \<Rightarrow> cluster_server \<Rightarrow> bool" where
  "authenticate_cluster_key key c \<longleftrightarrow> (case m_cluster_key c of None \<Rightarrow> False | Some k \<Rightarrow> key = k)"

definition in_cluster :: "cluster_server \<Rightarrow> bool" where
  "in_cluster c \<longleftrightarrow> m_cluster_key c \<noteq> None"

definition set_cluster_info :: "cluster_env \<Rightarrow> string \<Rightarrow> string \<Rightarrow> string cluster_op" where
  "set_cluster_info ce key i =
     bind_c (clear_auth_applications (error ''already in a cluster'')) (\<lambda>_.
     bind_c (change_c (\<lambda>c. c\<lparr>m_cluster_key := Some key\<rparr>)) (\<lambda>_.
     bind_c (if i = [] then random_cluster_id ce else return_c i) (\<lambda>own.
     bind_c (change_c (\<lambda>c. c\<lparr>m_cluster_id := Some own\<rparr>)) (\<lambda>_. return_c own))))"

definition leave_cluster :: "unit cluster_op" where
  "leave_cluster =
     bind_c (clear_auth_applications (error ''cluster left'')) (\<lambda>_.
     change_c (\<lambda>c. c\<lparr>m_cluster_key := None, m_cluster_id := None\<rparr>))"

section \<open>Peers\<close>

text \<open>\<^verbatim>\<open>peer_addresses\<close> and \<^verbatim>\<open>peer_ids\<close> collect into a set.\<close>

primrec collect_c :: "(nat \<Rightarrow> string option result) \<Rightarrow> nat list \<Rightarrow> string list \<Rightarrow> string list result" where
  "collect_c f [] acc = Inr acc"
| "collect_c f (n # ns) acc =
     bind_result (f n) (\<lambda>r. collect_c f ns (case r of None \<Rightarrow> acc | Some s \<Rightarrow> uset_insert s acc))"

definition peer_session :: "cluster_server \<Rightarrow> (session_info \<Rightarrow> 'a result) \<Rightarrow> nat \<Rightarrow> 'a result" where
  "peer_session c f n = (case sessions c n of None \<Rightarrow> undefined_behaviour | Some s \<Rightarrow> f s)"

definition peer_addresses :: "cluster_server \<Rightarrow> string list result" where
  "peer_addresses c = collect_c (peer_session c (\<lambda>s. bind_result (session_addr s) (\<lambda>a. Inr (Some a)))) (m_peers c) []"

definition peer_ids :: "cluster_server \<Rightarrow> string list result" where
  "peer_ids c = collect_c (peer_session c session_id) (m_peers c) []"

definition register_peer :: "cluster_env \<Rightarrow> nat \<Rightarrow> string \<Rightarrow> string option \<Rightarrow> unit cluster_op" where
  "register_peer ce n ad i =
     bind_c (change_c (\<lambda>c. c\<lparr>m_peers := uset_insert n (m_peers c)\<rparr>)) (\<lambda>_.
     assign_c n (session_set_auth_peer (ce_now ce) PEER ad i))"

text \<open>The host is passed to the system as a C string.\<close>

definition new_peer :: "cluster_env \<Rightarrow> string \<Rightarrow> nat \<Rightarrow> nat cluster_op" where
  "new_peer ce host port =
     bind_c (read_c (\<lambda>c. ce_connect ce (sessions c) (takeWhile (\<lambda>x. x \<noteq> CHR 0x00) host) port)) (\<lambda>(n, rhost, rport).
     bind_c (change_c (\<lambda>c. c\<lparr>sessions := (sessions c)(n \<mapsto> new_session)\<rparr>)) (\<lambda>_.
     bind_c (register_peer ce n (make_address rhost rport) None) (\<lambda>_. return_c n)))"

definition forget_peer :: "nat \<Rightarrow> unit cluster_op" where
  "forget_peer n =
     bind_c (session_c n (\<lambda>s. Inr (session_is_peer s))) (\<lambda>b.
     if \<not> b then return_c () else change_c (\<lambda>c. c\<lparr>m_peers := uset_erase n (m_peers c)\<rparr>))"

definition clear_peers :: "unit cluster_op" where
  "clear_peers =
     bind_c (get_c m_peers) (\<lambda>ps.
     bind_c (each_c (\<lambda>n. bind_c (post n op_EXIT []) (\<lambda>_. close_client n)) ps) (\<lambda>_.
     change_c (\<lambda>c. c\<lparr>m_peers := []\<rparr>)))"

text \<open>\<^verbatim>\<open>ClientServer::remove_client\<close> for the cluster: the hook, then the connection is gone.\<close>

definition remove_client :: "nat \<Rightarrow> unit cluster_op" where
  "remove_client n = bind_c (forget_peer n) (\<lambda>_. change_c (\<lambda>c. c\<lparr>sessions := (sessions c)(n := None)\<rparr>))"

section \<open>Addresses are read back\<close>

lemma stoi_to_string:
  assumes "n < 2 ^ 31"
  shows "stoi (to_string n) = Inr (int n)"
proof -
  have "takeWhile (\<lambda>c. c \<noteq> CHR 0x00) (to_string n) = to_string n"
    using to_string_no_zero by (simp add: takeWhile_eq_all_conv)
  then show ?thesis
    using strtoll_to_string [of "int n" "[]"] assms
    by (simp only: stoi_def) (simp add: int_to_string_def int64_ok_def no_digit_def)
qed

lemma unmake_make_address:
  assumes "0 < port" and "port \<le> 65535"
  shows "unmake_address (make_address host port) = Inr (host, port)"
proof -
  have no_colon: "\<forall>c \<in> set (to_string port). c \<noteq> CHR '':''"
    using to_string_digits [of port] by (auto simp: is_digit_def)
  have "takeWhile (\<lambda>c. c \<noteq> CHR '':'') (rev (make_address host port)) = rev (to_string port)"
    using no_colon takeWhile_append2 [of "rev (to_string port)" "\<lambda>c. c \<noteq> CHR '':''" "CHR '':'' # rev host"]
    by (auto simp: make_address_def)
  with stoi_to_string [of port] show ?thesis
    using assms by (simp add: unmake_address_def Let_def validate_port_def) (simp add: make_address_def)
qed

end
