(* ===== verification/Peer_Eviction.thy ===== *)
theory Peer_Eviction
  imports Cluster_State
begin

text \<open>
  \<^verbatim>\<open>vanity/cluster/peer_behaviour_server.cpp\<close>, \<^verbatim>\<open>peer_eviction_server.cpp\<close> and \<^verbatim>\<open>peer_pulse_server.cpp\<close>: peers are watched, and
  those that misbehave or seem dead are evicted by a vote of the cluster. The clock counts nanoseconds.
\<close>

section \<open>Opinions\<close>

definition M_MAX_SCORE :: nat where
  "M_MAX_SCORE = 100"

datatype report_t = BAD_MESSAGE | BAD_PEER_REQUEST | BAD_REPLY

primrec report_score :: "report_t \<Rightarrow> nat" where
  "report_score BAD_MESSAGE = 10"
| "report_score BAD_PEER_REQUEST = 10"
| "report_score BAD_REPLY = 10"

text \<open>The comparison with \<^verbatim>\<open>M_MAX_SCORE * 0.75\<close> and the one with \<^verbatim>\<open>M_MAX_PULSE_DELAY * 0.75\<close> are between doubles that
  are exact here.\<close>

definition evict_opinion_misbehaving :: "session_info \<Rightarrow> bool result" where
  "evict_opinion_misbehaving s = bind_result (session_peer_data s) (\<lambda>p. Inr (4 * behaviour_score p \<ge> 3 * M_MAX_SCORE))"

definition seconds :: "int \<Rightarrow> int" where
  "seconds n = n * 1000000000"

definition M_PULSE_INTERVAL :: int where
  "M_PULSE_INTERVAL = seconds 10"

definition M_MAX_PULSE_DELAY :: int where
  "M_MAX_PULSE_DELAY = seconds 60"

definition evict_opinion_dead :: "cluster_env \<Rightarrow> session_info \<Rightarrow> bool result" where
  "evict_opinion_dead ce s =
     bind_result (session_peer_data s) (\<lambda>p. Inr (4 * (ce_now ce - last_pulse p) > 3 * M_MAX_PULSE_DELAY))"

definition forget_evict_issue_after :: int where
  "forget_evict_issue_after = M_MAX_PULSE_DELAY * 2"

section \<open>Issues\<close>

text \<open>\<^verbatim>\<open>insert\<close> keeps an issue that is already there under the id.\<close>

definition insert_eviction_issue :: "eviction_issue_t \<Rightarrow> string cluster_op" where
  "insert_eviction_issue iss =
     bind_c (change_c (\<lambda>c. if contains (m_eviction_issues c) (issue_id iss) then c
       else c\<lparr>m_eviction_issues := m_eviction_issues c @ [(issue_id iss, iss)]\<rparr>)) (\<lambda>_. return_c (issue_id iss))"

definition make_issue :: "string \<Rightarrow> string \<Rightarrow> string \<Rightarrow> bool \<Rightarrow> eviction_issue_t" where
  "make_issue i p r self =
     \<lparr>issue_id = i, issue_peer_id = p, reason = r, opinions = [], self_opinion = self, resolved = False,
      expected_opinions = 0, forget_at = 0\<rparr>"

definition new_eviction_issue :: "cluster_env \<Rightarrow> string \<Rightarrow> string \<Rightarrow> string cluster_op" where
  "new_eviction_issue ce p r = bind_c (random_string ce 15) (\<lambda>i. insert_eviction_issue (make_issue i p r True))"

definition similar_issue_exists :: "string \<Rightarrow> string \<Rightarrow> cluster_server \<Rightarrow> bool" where
  "similar_issue_exists p r c \<longleftrightarrow>
     list_ex (\<lambda>(_, iss). issue_peer_id iss = p \<and> reason iss = r) (m_eviction_issues c)"

text \<open>The first peer with the id.\<close>

primrec find_peer :: "cluster_server \<Rightarrow> string \<Rightarrow> nat list \<Rightarrow> nat result" where
  "find_peer c i [] = Inl (RuntimeError (''no peer with ID '' @ i @ '' found''))"
| "find_peer c i (n # ns) = bind_result (peer_session c session_id n) (\<lambda>r. if r = Some i then Inr n else find_peer c i ns)"

definition peer_from_id :: "string \<Rightarrow> nat cluster_op" where
  "peer_from_id i = read_c (\<lambda>c. find_peer c i (m_peers c))"

definition self_opinion_on :: "cluster_env \<Rightarrow> string \<Rightarrow> string \<Rightarrow> bool cluster_op" where
  "self_opinion_on ce p r =
     bind_c (peer_from_id p) (\<lambda>n.
     if r = ''misbehaving'' then session_c n evict_opinion_misbehaving
     else if r = ''dead'' then session_c n (evict_opinion_dead ce)
     else throw_c (RuntimeError (''unknown evict reason '' @ r)))"

definition get_eviction_issue :: "cluster_env \<Rightarrow> string \<Rightarrow> string \<Rightarrow> string \<Rightarrow> (string \<times> bool) cluster_op" where
  "get_eviction_issue ce i p r =
     bind_c (get_c (\<lambda>c. contains (m_eviction_issues c) i)) (\<lambda>known.
     if known then return_c (i, False)
     else bind_c (self_opinion_on ce p r) (\<lambda>self.
       bind_c (insert_eviction_issue (make_issue i p r self)) (\<lambda>i. return_c (i, True))))"

text \<open>Access through the reference to an issue.\<close>

definition issue_c :: "string \<Rightarrow> (eviction_issue_t \<Rightarrow> 'a) \<Rightarrow> 'a cluster_op" where
  "issue_c i f = read_c (\<lambda>c. case map_of (m_eviction_issues c) i of None \<Rightarrow> undefined_behaviour | Some iss \<Rightarrow> Inr (f iss))"

definition update_issue :: "string \<Rightarrow> (eviction_issue_t \<Rightarrow> eviction_issue_t) \<Rightarrow> unit cluster_op" where
  "update_issue i f = bind_c (issue_c i f) (\<lambda>iss. change_c (\<lambda>c.
     c\<lparr>m_eviction_issues := AList.update i iss (m_eviction_issues c)\<rparr>))"

section \<open>Voting\<close>

definition post_ask_evict :: "string \<Rightarrow> nat \<Rightarrow> int cluster_op" where
  "post_ask_evict i n =
     bind_c (issue_c i (\<lambda>iss. [issue_id iss, issue_peer_id iss, reason iss])) (post n op_ASK_EVICT)"

text \<open>The number of opinions is narrowed to a \<^verbatim>\<open>short\<close>.\<close>

definition to_short :: "nat \<Rightarrow> int" where
  "to_short n = (int n + 2 ^ 15) mod 2 ^ 16 - 2 ^ 15"

definition ask_peer :: "string \<Rightarrow> (nat \<Rightarrow> bool cluster_op) \<Rightarrow> nat \<Rightarrow> unit cluster_op" where
  "ask_peer i pred n =
     bind_c (pred n) (\<lambda>b.
     if \<not> b then return_c ()
     else bind_c (post_ask_evict i n) (\<lambda>m. change_c (\<lambda>c.
       if contains (m_ask_evict_requests c) m then c
       else c\<lparr>m_ask_evict_requests := m_ask_evict_requests c @ [(m, i)]\<rparr>)))"

definition post_ask_evict_all :: "string \<Rightarrow> (nat \<Rightarrow> bool cluster_op) \<Rightarrow> unit cluster_op" where
  "post_ask_evict_all i pred =
     bind_c (get_c m_peers) (\<lambda>ps.
     bind_c (update_issue i (\<lambda>iss. iss\<lparr>opinions := opinions iss @ [self_opinion iss],
       expected_opinions := to_short (length ps div 2 + 1)\<rparr>)) (\<lambda>_.
     each_c (ask_peer i pred) ps))"

definition pop_ask_evict :: "int \<Rightarrow> string cluster_op" where
  "pop_ask_evict m =
     bind_c (read_c (\<lambda>c. case map_of (m_ask_evict_requests c) m of
       None \<Rightarrow> Inl (OutOfRange ''_Map_base::at'') | Some i \<Rightarrow> Inr i)) (\<lambda>i.
     bind_c (change_c (\<lambda>c. c\<lparr>m_ask_evict_requests := AList.delete m (m_ask_evict_requests c)\<rparr>)) (\<lambda>_. return_c i))"

definition begin_evict_process :: "cluster_env \<Rightarrow> nat \<Rightarrow> string \<Rightarrow> unit cluster_op" where
  "begin_evict_process ce n r =
     bind_c (session_c n session_id) (\<lambda>p.
     bind_c (get_c (\<lambda>c. case p of None \<Rightarrow> True | Some i \<Rightarrow> similar_issue_exists i r c)) (\<lambda>skip.
     if skip then return_c ()
     else bind_c (new_eviction_issue ce (the p) r) (\<lambda>i.
       post_ask_evict_all i (\<lambda>m. return_c (m \<noteq> n)))))"

text \<open>\<^verbatim>\<open>do_evict_peer\<close> dereferences the id for its log message.\<close>

definition do_evict_peer :: "nat \<Rightarrow> unit cluster_op" where
  "do_evict_peer n =
     bind_c (session_c n session_id) (\<lambda>i.
     if i = None then throw_c UndefinedBehaviour
     else bind_c (forget_peer n) (\<lambda>_. close_client n))"

definition resolve_issue :: "cluster_env \<Rightarrow> string \<Rightarrow> bool \<Rightarrow> unit cluster_op" where
  "resolve_issue ce i verdict =
     bind_c (update_issue i (\<lambda>iss. iss\<lparr>forget_at := ce_now ce + forget_evict_issue_after, resolved := True\<rparr>)) (\<lambda>_.
     if verdict then bind_c (issue_c i issue_peer_id) (\<lambda>p. bind_c (peer_from_id p) do_evict_peer) else return_c ())"

text \<open>The count of the agreeing opinions is signed, the other one is not.\<close>

definition try_resolve_issue :: "cluster_env \<Rightarrow> string \<Rightarrow> unit cluster_op" where
  "try_resolve_issue ce i =
     bind_c (issue_c i id) (\<lambda>iss.
     let true_count = count_list (opinions iss) True; false_count = length (opinions iss) - true_count in
     if resolved iss then return_c ()
     else if int true_count \<ge> expected_opinions iss then resolve_issue ce i True
     else if int false_count \<ge> expected_opinions iss mod 2 ^ 64 then resolve_issue ce i False
     else return_c ())"

definition evict_misbehaving_peer :: "cluster_env \<Rightarrow> nat \<Rightarrow> unit cluster_op" where
  "evict_misbehaving_peer ce n = begin_evict_process ce n ''misbehaving''"

definition evict_dead_peer :: "cluster_env \<Rightarrow> nat \<Rightarrow> unit cluster_op" where
  "evict_dead_peer ce n = begin_evict_process ce n ''dead''"

definition report_peer :: "cluster_env \<Rightarrow> nat \<Rightarrow> report_t \<Rightarrow> unit cluster_op" where
  "report_peer ce n rep =
     bind_c (assign_c n (update_peer_data (\<lambda>p. p\<lparr>behaviour_score := (behaviour_score p + report_score rep) mod 2 ^ 32\<rparr>))) (\<lambda>_.
     bind_c (session_c n session_peer_data) (\<lambda>p.
     if behaviour_score p \<ge> M_MAX_SCORE then evict_misbehaving_peer ce n else return_c ()))"

section \<open>Requests and replies\<close>

definition post_request_ask_evict :: "cluster_env \<Rightarrow> nat \<Rightarrow> int \<Rightarrow> string \<Rightarrow> string \<Rightarrow> string \<Rightarrow> unit cluster_op" where
  "post_request_ask_evict ce n m i p r =
     bind_c (get_eviction_issue ce i p r) (\<lambda>(i, created).
     bind_c (issue_c i self_opinion) (\<lambda>self.
     bind_c (reply_with n m status_OK (reply_bool self)) (\<lambda>_.
     if created then post_ask_evict_all i (\<lambda>q. bind_c (session_c q session_id) (\<lambda>qi. return_c (qi \<noteq> None \<and> qi \<noteq> Some p)))
     else return_c ())))"

definition reply_request_ask_evict :: "cluster_env \<Rightarrow> int \<Rightarrow> bool \<Rightarrow> unit cluster_op" where
  "reply_request_ask_evict ce m opinion =
     bind_c (pop_ask_evict m) (\<lambda>i.
     bind_c (update_issue i (\<lambda>iss. iss\<lparr>opinions := opinions iss @ [opinion]\<rparr>)) (\<lambda>_. try_resolve_issue ce i))"

section \<open>Pulses\<close>

definition send_pulses :: "unit cluster_op" where
  "send_pulses = bind_c (get_c m_peers) (each_c (\<lambda>n. send_async n async_PULSE))"

definition check_pulse :: "cluster_env \<Rightarrow> nat \<Rightarrow> unit cluster_op" where
  "check_pulse ce n =
     bind_c (session_c n session_peer_data) (\<lambda>p.
     if ce_now ce - last_pulse p > M_MAX_PULSE_DELAY then evict_dead_peer ce n else return_c ())"

definition check_pulses :: "cluster_env \<Rightarrow> unit cluster_op" where
  "check_pulses ce = bind_c (get_c m_peers) (each_c (check_pulse ce))"

definition async_request_pulse :: "cluster_env \<Rightarrow> nat \<Rightarrow> unit cluster_op" where
  "async_request_pulse ce n = assign_c n (update_peer_data (\<lambda>p. p\<lparr>last_pulse := ce_now ce\<rparr>))"

definition event_pulse :: "cluster_env \<Rightarrow> unit cluster_op" where
  "event_pulse ce =
     bind_c (get_c in_cluster) (\<lambda>b. if \<not> b then return_c () else bind_c send_pulses (\<lambda>_. check_pulses ce))"

end
