(* ===== verification/Cluster_Server.thy ===== *)
theory Cluster_Server
  imports Peer_Eviction Request_Server
begin

text \<open>
  \<^verbatim>\<open>vanity/cluster/high_peer_server.cpp\<close>, \<^verbatim>\<open>cluster_server.cpp\<close> and \<^verbatim>\<open>vanity/request/peer_request_server.cpp\<close>: the requests of
  clients about the cluster, and the messages of peers. A message of a peer is parsed and handled in turns, and the order
  matters: what was done stays done when the rest of the message turns out to be malformed.
\<close>

section \<open>Connecting\<close>

definition peer_connect :: "cluster_env \<Rightarrow> string \<Rightarrow> nat \<Rightarrow> string \<Rightarrow> string \<Rightarrow> client_ptr option \<Rightarrow> unit cluster_op" where
  "peer_connect ce host port key own_id client =
     bind_c (new_peer ce host port) (\<lambda>n.
     bind_c (read_c (\<lambda>_. own_peer_addr ce)) (\<lambda>own.
     bind_c (post_plain n op_PEER_AUTH [key, own, own_id]) (\<lambda>i.
     add_auth_application i key own_id client)))"

definition peer_sync :: "nat \<Rightarrow> unit cluster_op" where
  "peer_sync n = bind_c (post n op_PEERS []) (\<lambda>_. return_c ())"

definition remove_peer :: "nat \<Rightarrow> unit cluster_op" where
  "remove_peer n = bind_c (forget_peer n) (\<lambda>_. close_client n)"

definition unknown_peers_in :: "cluster_env \<Rightarrow> set_t \<Rightarrow> set_t cluster_op" where
  "unknown_peers_in ce ps =
     bind_c (read_c peer_addresses) (\<lambda>known.
     bind_c (read_c (\<lambda>_. own_peer_addr ce)) (\<lambda>own.
     return_c (uset_erase own (filter (\<lambda>a. a \<notin> set known) ps))))"

primrec unmake_all :: "string list \<Rightarrow> (string \<times> nat) list result" where
  "unmake_all [] = Inr []"
| "unmake_all (a # as) = bind_result (unmake_address a) (\<lambda>p. bind_result (unmake_all as) (\<lambda>ps. Inr (p # ps)))"

section \<open>Requests of clients\<close>

text \<open>A request of a client is answered, or nothing is sent for now. \<open>depth\<close> is the number of pipes around it: the
  client of a piped request is not a \<^verbatim>\<open>TcpClient\<close>.\<close>

definition to_tcp :: "client_ptr \<Rightarrow> nat cluster_op" where
  "to_tcp p = (case p of Tcp_Client n \<Rightarrow> return_c n | Piped_Client _ \<Rightarrow> throw_c (RuntimeError ''expected a TcpClient''))"

definition request_cluster_join_op ::
  "cluster_env \<Rightarrow> client_ptr \<Rightarrow> string \<Rightarrow> string \<Rightarrow> string \<Rightarrow> nat \<Rightarrow> response option cluster_op" where
  "request_cluster_join_op ce p key i host port =
     bind_c (get_c in_cluster) (\<lambda>b.
     if b then return_c (Some (error ''already in a cluster''))
     else if i \<noteq> [] \<and> \<not> check_cluster_id_length i then return_c (Some (error ''id is too short''))
     else bind_c (if i = [] then random_cluster_id ce else return_c i) (\<lambda>own_id.
       bind_c (peer_connect ce host port key own_id (Some p)) (\<lambda>_. return_c None)))"

definition request_cluster_leave_op :: "response option cluster_op" where
  "request_cluster_leave_op =
     bind_c (get_c in_cluster) (\<lambda>b.
     if \<not> b then return_c (Some (error ''not in a cluster''))
     else bind_c leave_cluster (\<lambda>_. bind_c clear_peers (\<lambda>_. return_c (Some ok))))"

definition text_or_null :: "string option \<Rightarrow> response" where
  "text_or_null r = (case r of Some s \<Rightarrow> ok_value serialize_str s | None \<Rightarrow> null)"

definition request_cluster_new_op :: "cluster_env \<Rightarrow> string \<Rightarrow> string \<Rightarrow> response option cluster_op" where
  "request_cluster_new_op ce key i =
     bind_c (get_c in_cluster) (\<lambda>b.
     if b then return_c (Some (error ''already in a cluster''))
     else if \<not> check_cluster_key_length key then return_c (Some (error ''key is too short''))
     else if \<not> check_cluster_id_length i then return_c (Some (error ''id is too short''))
     else bind_c (set_cluster_info ce key i) (\<lambda>own. return_c (Some (ok_value serialize_str own))))"

definition is_on_cluster_port :: "cluster_env \<Rightarrow> client_ptr \<Rightarrow> bool cluster_op" where
  "is_on_cluster_port ce p =
     bind_c (read_c (\<lambda>_. cluster_addr (ce_bind ce))) (\<lambda>own.
     bind_c (to_tcp p) (\<lambda>n. return_c (snd own = ce_local_port ce n)))"

text \<open>The reply to the application is what the client is sent.\<close>

definition reply_text :: "int \<Rightarrow> ReplyStatus \<Rightarrow> (string \<Rightarrow> string) \<Rightarrow> response option cluster_op" where
  "reply_text i status ser = bind_c (read_c (\<lambda>_. new_reply i status)) (\<lambda>m. return_c (Some (ser m)))"

definition request_peer_auth_op ::
  "cluster_env \<Rightarrow> client_ptr \<Rightarrow> int \<Rightarrow> string \<Rightarrow> string \<Rightarrow> string \<Rightarrow> response option cluster_op" where
  "request_peer_auth_op ce p i key ad pid =
     bind_c (is_on_cluster_port ce p) (\<lambda>b.
     bind_c (to_tcp p) (\<lambda>n.
     if \<not> b then
       bind_c (close_client n) (\<lambda>_.
       bind_c (read_c (\<lambda>_. own_peer_addr ce)) (\<lambda>own. reply_text i status_REDIRECT (reply_str own)))
     else bind_c (get_c (authenticate_cluster_key key)) (\<lambda>k.
       if \<not> k then bind_c (close_client n) (\<lambda>_. reply_text i status_DENIED id)
       else bind_c (get_c m_cluster_id) (\<lambda>own_id.
         case own_id of
           None \<Rightarrow> bind_c (close_client n) (\<lambda>_. reply_text i status_OK (reply_str ''DENIED''))
         | Some own \<Rightarrow> bind_c (register_peer ce n ad (Some pid)) (\<lambda>_. reply_text i status_OK (reply_str own))))))"

definition request_peers_op :: "response option cluster_op" where
  "request_peers_op = bind_c (read_c peer_addresses) (\<lambda>as. return_c (Some (ok_value serialize_set as)))"

definition request_peer_ids_op :: "response option cluster_op" where
  "request_peer_ids_op = bind_c (read_c peer_ids) (\<lambda>is. return_c (Some (ok_value serialize_set is)))"

section \<open>Messages of peers\<close>

definition post_request_ping :: "nat \<Rightarrow> int \<Rightarrow> unit cluster_op" where
  "post_request_ping n i = reply_with n i status_OK (reply_str ''PONG'')"

definition post_request_peers :: "nat \<Rightarrow> int \<Rightarrow> unit cluster_op" where
  "post_request_peers n i = bind_c (read_c peer_addresses) (\<lambda>as. reply_with n i status_OK (reply_set as))"

definition reply_request_peers :: "cluster_env \<Rightarrow> set_t \<Rightarrow> unit cluster_op" where
  "reply_request_peers ce ps =
     bind_c (get_c (\<lambda>c. (m_cluster_key c, m_cluster_id c))) (\<lambda>ki.
     case ki of
       (Some key, Some own_id) \<Rightarrow>
         bind_c (unknown_peers_in ce ps) (\<lambda>unknown.
         bind_c (read_c (\<lambda>_. unmake_all unknown)) (each_c (\<lambda>(host, port). peer_connect ce host port key own_id None)))
     | _ \<Rightarrow> return_c ())"

definition reply_request_peer_auth :: "cluster_env \<Rightarrow> nat \<Rightarrow> int \<Rightarrow> string \<Rightarrow> unit cluster_op" where
  "reply_request_peer_auth ce n i dat =
     bind_c (pop_auth_application i) (\<lambda>pending.
     case pending of
       None \<Rightarrow> remove_peer n
     | Some p \<Rightarrow>
         bind_c (assign_c n (update_peer_data (\<lambda>d. d\<lparr>peer_id := Some dat\<rparr>))) (\<lambda>_.
         bind_c (get_c in_cluster) (\<lambda>b.
         bind_c (if b then return_c () else bind_c (set_cluster_info ce (pa_key p) (pa_own_id p)) (\<lambda>_. return_c ())) (\<lambda>_.
         bind_c (send_opt (pa_client p) (ok_value serialize_str (pa_own_id p))) (\<lambda>_.
         peer_sync n)))))"

definition reply_denied_request_peer_auth :: "nat \<Rightarrow> int \<Rightarrow> unit cluster_op" where
  "reply_denied_request_peer_auth n i =
     bind_c (remove_peer n) (\<lambda>_.
     bind_c (pop_auth_application i) (\<lambda>pending.
     case pending of None \<Rightarrow> return_c () | Some p \<Rightarrow> send_opt (pa_client p) (error ''peer denied connection'')))"

definition reply_redirect_request_peer_auth :: "cluster_env \<Rightarrow> nat \<Rightarrow> int \<Rightarrow> string \<Rightarrow> unit cluster_op" where
  "reply_redirect_request_peer_auth ce n i ad =
     bind_c (remove_peer n) (\<lambda>_.
     bind_c (pop_auth_application i) (\<lambda>pending.
     case pending of
       None \<Rightarrow> return_c ()
     | Some p \<Rightarrow>
         (case try_unmake_address ad of
            Some (host, port) \<Rightarrow> peer_connect ce host port (pa_key p) (pa_own_id p) (pa_client p)
          | None \<Rightarrow> report_peer ce n BAD_REPLY)))"

section \<open>Parsing and dispatching\<close>

text \<open>The parser and the state together.\<close>

type_synonym 'a peer_action = "('a, extractable \<times> cluster_server) comp"

definition parse_p :: "'a extraction \<Rightarrow> 'a peer_action" where
  "parse_p m xc = (case m (fst xc) of (r, x) \<Rightarrow> (r, x, snd xc))"

definition do_p :: "'a cluster_op \<Rightarrow> 'a peer_action" where
  "do_p m xc = (case m (snd xc) of (r, c) \<Rightarrow> (r, fst xc, c))"

abbreviation end_p :: "unit peer_action" where
  "end_p \<equiv> parse_p (get_exact (return_e ()) True)"

primrec handle_async_op :: "cluster_env \<Rightarrow> nat \<Rightarrow> async_op_t \<Rightarrow> unit peer_action" where
  "handle_async_op ce n async_PULSE = bind_c end_p (\<lambda>_. do_p (async_request_pulse ce n))"
| "handle_async_op ce n async_MAX_OP = bind_c end_p (\<lambda>_. do_p (report_peer ce n BAD_PEER_REQUEST))"

primrec handle_post_op :: "cluster_env \<Rightarrow> nat \<Rightarrow> int \<Rightarrow> peer_op_t \<Rightarrow> unit peer_action" where
  "handle_post_op ce n i op_PING = bind_c end_p (\<lambda>_. do_p (post_request_ping n i))"
| "handle_post_op ce n i op_EXIT = bind_c (do_p (close_client n)) (\<lambda>_. end_p)"
| "handle_post_op ce n i op_PEER_AUTH =
     bind_c end_p (\<lambda>_. throw_c (RuntimeError ''a peer_auth request was received from a peer''))"
| "handle_post_op ce n i op_PEERS = bind_c end_p (\<lambda>_. do_p (post_request_peers n i))"
| "handle_post_op ce n i op_ASK_EVICT =
     bind_c (parse_p (get_exact (pair_e get_str (pair_e get_str get_str)) True)) (\<lambda>(iss, p, r).
     do_p (post_request_ask_evict ce n i iss p r))"
| "handle_post_op ce n i op_MAX_OP = bind_c (do_p (report_peer ce n BAD_PEER_REQUEST)) (\<lambda>_. end_p)"

text \<open>\<^verbatim>\<open>e.what()\<close> as in \<open>Request_Server\<close>; the text goes through a C string. \<^verbatim>\<open>InvalidRequest\<close> derives from \<^verbatim>\<open>Exception\<close> privately, so
  the handler of \<^verbatim>\<open>std::exception\<close> does not catch it and the handler of everything else does.\<close>

definition c_text :: "string \<Rightarrow> string" where
  "c_text s = takeWhile (\<lambda>c. c \<noteq> CHR 0x00) s"

definition post_error_text :: "error \<Rightarrow> string" where
  "post_error_text e = (case e of InvalidRequest _ \<Rightarrow> ''unknown error'' | _ \<Rightarrow> c_text (what e))"

definition reply_err :: "nat \<Rightarrow> int \<Rightarrow> error \<Rightarrow> unit cluster_op" where
  "reply_err n i e = reply_with n i status_ERR (reply_str (post_error_text e))"

text \<open>The handler of exceptions answers, and throws again. What is not an exception is not caught.\<close>

definition handle_post_request :: "cluster_env \<Rightarrow> nat \<Rightarrow> int \<Rightarrow> unit peer_action" where
  "handle_post_request ce n i xc =
     (case bind_c (parse_p get_op) (handle_post_op ce n i) xc of
        (Inr u, xc) \<Rightarrow> (Inr u, xc)
      | (Inl e, xc) \<Rightarrow> if is_crash e then (Inl e, xc) else bind_c (do_p (reply_err n i e)) (\<lambda>_. throw_c e) xc)"

primrec handle_ok_reply :: "cluster_env \<Rightarrow> nat \<Rightarrow> int \<Rightarrow> peer_op_t \<Rightarrow> unit peer_action" where
  "handle_ok_reply ce n i op_PING = bind_c (parse_p (get_exact get_str True)) (\<lambda>_. return_c ())"
| "handle_ok_reply ce n i op_EXIT =
     bind_c end_p (\<lambda>_. throw_c (RuntimeError ''received unexpected reply to exit request''))"
| "handle_ok_reply ce n i op_PEER_AUTH =
     bind_c (parse_p (get_exact get_str True)) (\<lambda>dat. do_p (reply_request_peer_auth ce n i dat))"
| "handle_ok_reply ce n i op_PEERS =
     bind_c (parse_p (get_exact get_set True)) (\<lambda>ps. do_p (reply_request_peers ce ps))"
| "handle_ok_reply ce n i op_ASK_EVICT =
     bind_c (parse_p (get_exact get_bool True)) (\<lambda>b. do_p (reply_request_ask_evict ce i b))"
| "handle_ok_reply ce n i op_MAX_OP = bind_c (do_p (report_peer ce n BAD_PEER_REQUEST)) (\<lambda>_. end_p)"

text \<open>\<^verbatim>\<open>get_peer_str\<close>, of which only the exception matters: the text is for the log.\<close>

definition get_peer_str :: "nat \<Rightarrow> unit cluster_op" where
  "get_peer_str n =
     bind_c (session_c n session_id) (\<lambda>i.
     if i \<noteq> None then return_c () else bind_c (session_c n session_addr) (\<lambda>_. return_c ()))"

definition handle_default_err :: "nat \<Rightarrow> unit peer_action" where
  "handle_default_err n = bind_c (do_p (get_peer_str n)) (\<lambda>_. bind_c (parse_p (get_exact get_str True)) (\<lambda>_. return_c ()))"

definition handle_default_refusal :: "nat \<Rightarrow> unit peer_action" where
  "handle_default_refusal n = bind_c end_p (\<lambda>_. do_p (get_peer_str n))"

definition handle_max_op :: "cluster_env \<Rightarrow> nat \<Rightarrow> unit peer_action" where
  "handle_max_op ce n = bind_c (do_p (report_peer ce n BAD_PEER_REQUEST)) (\<lambda>_. end_p)"

definition handle_err_reply :: "cluster_env \<Rightarrow> nat \<Rightarrow> peer_op_t \<Rightarrow> unit peer_action" where
  "handle_err_reply ce n op = (if op = op_MAX_OP then handle_max_op ce n else handle_default_err n)"

definition handle_denied_reply :: "cluster_env \<Rightarrow> nat \<Rightarrow> int \<Rightarrow> peer_op_t \<Rightarrow> unit peer_action" where
  "handle_denied_reply ce n i op =
     (if op = op_PEER_AUTH then bind_c end_p (\<lambda>_. do_p (reply_denied_request_peer_auth n i))
      else if op = op_MAX_OP then handle_max_op ce n
      else handle_default_refusal n)"

definition handle_redirect_reply :: "cluster_env \<Rightarrow> nat \<Rightarrow> int \<Rightarrow> peer_op_t \<Rightarrow> unit peer_action" where
  "handle_redirect_reply ce n i op =
     (if op = op_PEER_AUTH then
        bind_c (parse_p (get_exact get_str True)) (\<lambda>ad. do_p (reply_redirect_request_peer_auth ce n i ad))
      else if op = op_MAX_OP then handle_max_op ce n
      else handle_default_refusal n)"

primrec handle_status :: "cluster_env \<Rightarrow> nat \<Rightarrow> int \<Rightarrow> peer_op_t \<Rightarrow> ReplyStatus \<Rightarrow> unit peer_action" where
  "handle_status ce n i op status_OK = handle_ok_reply ce n i op"
| "handle_status ce n i op status_ERR = handle_err_reply ce n op"
| "handle_status ce n i op status_DENIED = handle_denied_reply ce n i op"
| "handle_status ce n i op status_REDIRECT = handle_redirect_reply ce n i op"
| "handle_status ce n i op MAX_STATUS = do_p (report_peer ce n BAD_REPLY)"

definition handle_reply_request :: "cluster_env \<Rightarrow> nat \<Rightarrow> int \<Rightarrow> unit peer_action" where
  "handle_reply_request ce n i =
     bind_c (do_p (expected_op i)) (\<lambda>r.
     case r of
       None \<Rightarrow> do_p (report_peer ce n BAD_REPLY)
     | Some op \<Rightarrow> bind_c (parse_p get_reply_status) (handle_status ce n i op))"

primrec handle_kind :: "cluster_env \<Rightarrow> nat \<Rightarrow> peer_request_t \<Rightarrow> unit peer_action" where
  "handle_kind ce n msg_ASYNC = bind_c (parse_p get_async_op) (handle_async_op ce n)"
| "handle_kind ce n msg_POST = bind_c (parse_p get_int) (handle_post_request ce n)"
| "handle_kind ce n msg_REPLY = bind_c (parse_p get_int) (handle_reply_request ce n)"

definition handle_peer_inner :: "cluster_env \<Rightarrow> nat \<Rightarrow> string \<Rightarrow> unit cluster_op" where
  "handle_peer_inner ce n msg c =
     (case bind_c (parse_p get_request_t) (handle_kind ce n) (\<lparr>m_msg = msg, m_pos = 0\<rparr>, c) of (r, x, c) \<Rightarrow> (r, c))"

text \<open>A malformed message is held against the peer; every exception ends here. \<^verbatim>\<open>report_peer\<close> runs in the handler.\<close>

definition handle_peer :: "cluster_env \<Rightarrow> nat \<Rightarrow> string \<Rightarrow> unit cluster_op" where
  "handle_peer ce n msg c =
     (case handle_peer_inner ce n msg c of
        (Inr u, c) \<Rightarrow> (Inr u, c)
      | (Inl e, c) \<Rightarrow>
          if is_crash e then (Inl e, c)
          else if is_invalid_request e then report_peer ce n BAD_MESSAGE c
          else (Inr (), c))"

end
