(* ===== verification/Cluster_Invariant.thy ===== *)
theory Cluster_Invariant
  imports Cluster_Server
begin

text \<open>
  No message of a peer brings the server down. The handlers follow pointers: to the connections of peers, to the clients
  that asked to join, to issues. The invariant says that these are alive; every handler keeps it, and then the
  only thing left that is undefined is to run out of message ids.
\<close>

section \<open>The invariant\<close>

definition is_peer :: "cluster_server \<Rightarrow> nat \<Rightarrow> bool" where
  "is_peer c n \<longleftrightarrow> (\<exists>s p. sessions c n = Some s \<and> session_data s = Peer_Data p)"

definition client_alive :: "cluster_server \<Rightarrow> client_ptr option \<Rightarrow> bool" where
  "client_alive c p \<longleftrightarrow> (case p of None \<Rightarrow> True | Some (Tcp_Client n) \<Rightarrow> sessions c n \<noteq> None | Some (Piped_Client _) \<Rightarrow> False)"

definition cluster_ok :: "cluster_server \<Rightarrow> bool" where
  "cluster_ok c \<longleftrightarrow>
     distinct (m_peers c) \<and> (\<forall>n \<in> set (m_peers c). is_peer c n) \<and>
     (\<forall>n s. sessions c n = Some s \<longrightarrow> wf_session s) \<and>
     (m_cluster_key c = None \<longleftrightarrow> m_cluster_id c = None) \<and>
     (\<forall>p \<in> set (m_pending_peer_auths c). client_alive c (pa_client (snd p))) \<and>
     (\<forall>p \<in> set (m_ask_evict_requests c). contains (m_eviction_issues c) (snd p))"

lemma cluster_ok_new: "cluster_ok new_cluster"
  by (simp add: cluster_ok_def new_cluster_def)

text \<open>Facts that stay true while messages are handled.\<close>

datatype fact = Peer nat | Alive "client_ptr option" | Issue string

primrec true_in :: "cluster_server \<Rightarrow> fact \<Rightarrow> bool" where
  "true_in c (Peer n) = is_peer c n"
| "true_in c (Alive p) = client_alive c p"
| "true_in c (Issue i) = contains (m_eviction_issues c) i"

definition grows :: "cluster_server \<Rightarrow> cluster_server \<Rightarrow> bool" where
  "grows c c' \<longleftrightarrow> (\<forall>x. true_in c x \<longrightarrow> true_in c' x) \<and> m_next_id c \<le> m_next_id c'"

lemma grows_trans: "grows a b \<Longrightarrow> grows b c \<Longrightarrow> grows a c"
  by (auto simp: grows_def)

lemma grows_refl: "grows c c"
  by (simp add: grows_def)

lemma growsI:
  assumes "\<And>n. is_peer c n \<Longrightarrow> is_peer c' n" and "\<And>n. sessions c n \<noteq> None \<Longrightarrow> sessions c' n \<noteq> None"
    and "\<And>i. contains (m_eviction_issues c) i \<Longrightarrow> contains (m_eviction_issues c') i" and "m_next_id c \<le> m_next_id c'"
  shows "grows c c'"
proof -
  have "client_alive c' p" if "client_alive c p" for p
    using that assms(2) by (auto simp: client_alive_def split: option.splits client_ptr.splits)
  with assms have "true_in c' x" if "true_in c x" for x using that by (cases x) simp_all
  with assms(4) show ?thesis by (simp add: grows_def)
qed

lemma growsD:
  "grows c c' \<Longrightarrow> is_peer c n \<Longrightarrow> is_peer c' n" "grows c c' \<Longrightarrow> client_alive c p \<Longrightarrow> client_alive c' p"
  "grows c c' \<Longrightarrow> contains (m_eviction_issues c) i \<Longrightarrow> contains (m_eviction_issues c') i"
  by (auto simp: grows_def dest: spec [of _ "Peer n"] spec [of _ "Alive p"] spec [of _ "Issue i"])

text \<open>An operation is sound if it keeps the invariant and the facts, gives the facts it promises with its result, does
  nothing undefined before the message ids run out, and throws only if it may.\<close>

definition outcome :: "bool \<Rightarrow> ('a \<Rightarrow> fact set) \<Rightarrow> 'a result \<Rightarrow> cluster_server \<Rightarrow> bool" where
  "outcome may_throw G r c =
     (case r of Inl e \<Rightarrow> (if is_crash e then m_next_id c = INT64_MAX else may_throw) | Inr a \<Rightarrow> \<forall>x \<in> G a. true_in c x)"

definition sound :: "bool \<Rightarrow> fact set \<Rightarrow> 'a cluster_op \<Rightarrow> ('a \<Rightarrow> fact set) \<Rightarrow> bool" where
  "sound t F m G \<longleftrightarrow>
     (\<forall>c r c'. cluster_ok c \<longrightarrow> (\<forall>x \<in> F. true_in c x) \<longrightarrow> m c = (r, c') \<longrightarrow> cluster_ok c' \<and> grows c c' \<and> outcome t G r c')"

abbreviation nothing :: "'a \<Rightarrow> fact set" where
  "nothing \<equiv> \<lambda>_. {}"

named_theorems sound_intros \<open>sound operations\<close>

lemma soundI:
  assumes "\<And>c r c'. cluster_ok c \<Longrightarrow> \<forall>x \<in> F. true_in c x \<Longrightarrow> m c = (r, c') \<Longrightarrow> cluster_ok c' \<and> grows c c' \<and> outcome t G r c'"
  shows "sound t F m G"
  using assms by (auto simp: sound_def)

lemma soundD:
  "sound t F m G \<Longrightarrow> cluster_ok c \<Longrightarrow> \<forall>x \<in> F. true_in c x \<Longrightarrow> m c = (r, c') \<Longrightarrow> cluster_ok c' \<and> grows c c' \<and> outcome t G r c'"
  by (simp add: sound_def)

lemma sound_weaken: "sound t F m G \<Longrightarrow> (\<And>a. H a \<subseteq> G a) \<Longrightarrow> sound t F m H"
  by (rule soundI, drule (3) soundD) (auto simp: outcome_def split: sum.splits)

lemma sound_return [sound_intros]: "sound t F (return_c a) nothing"
  by (simp add: sound_def return_c_def grows_refl outcome_def)

lemma sound_return_facts: "G a \<subseteq> F \<Longrightarrow> sound t F (return_c a) G"
  by (auto simp: sound_def return_c_def grows_refl outcome_def)

lemma sound_throw [sound_intros]: "\<not> is_crash e \<Longrightarrow> sound True F (throw_c e) G"
  by (simp add: sound_def throw_c_def grows_refl outcome_def)

lemma sound_get:
  assumes "\<And>c. cluster_ok c \<Longrightarrow> \<forall>x \<in> F. true_in c x \<Longrightarrow> \<forall>x \<in> G (f c). true_in c x"
  shows "sound t F (get_c f) G"
  using assms by (simp add: sound_def get_c_def grows_refl outcome_def)

lemma sound_read:
  assumes "\<And>c. cluster_ok c \<Longrightarrow> \<forall>x \<in> F. true_in c x \<Longrightarrow> case f c of Inl e \<Rightarrow> \<not> is_crash e \<and> t | Inr a \<Rightarrow> \<forall>x \<in> G a. true_in c x"
  shows "sound t F (read_c f) G"
proof (rule soundI)
  fix c r c' assume "cluster_ok c" and "\<forall>x \<in> F. true_in c x" and "read_c f c = (r, c')"
  with assms [of c] show "cluster_ok c' \<and> grows c c' \<and> outcome t G r c'"
    by (auto simp: read_c_def grows_refl outcome_def split: sum.splits)
qed

lemma sound_bind:
  assumes "sound t F m G" and "\<And>a. sound t (F \<union> G a) (f a) H"
  shows "sound t F (bind_c m f) H"
proof (rule soundI)
  fix c r c' assume c: "cluster_ok c" "\<forall>x \<in> F. true_in c x" and run: "bind_c m f c = (r, c')"
  obtain r1 c1 where m: "m c = (r1, c1)" by fastforce
  note 1 = soundD [OF assms(1) c m]
  show "cluster_ok c' \<and> grows c c' \<and> outcome t H r c'"
  proof (cases r1)
    case (Inl e)
    with m run 1 show ?thesis by (auto simp: bind_c_run outcome_def)
  next
    case (Inr a)
    have "\<forall>x \<in> F \<union> G a. true_in c1 x" using 1 c(2) Inr by (auto simp: grows_def outcome_def)
    moreover have "f a c1 = (r, c')" using m run Inr by (simp add: bind_c_run)
    ultimately show ?thesis using 1 soundD [OF assms(2) [of a]] grows_trans by blast
  qed
qed

lemma sound_step [sound_intros]: "sound t F m nothing \<Longrightarrow> (\<And>a. sound t F (f a) H) \<Longrightarrow> sound t F (bind_c m f) H"
  by (rule sound_bind [where G = nothing]) simp_all

lemma sound_change:
  assumes "\<And>c. cluster_ok c \<Longrightarrow> \<forall>x \<in> F. true_in c x \<Longrightarrow> cluster_ok (f c) \<and> grows c (f c)"
  shows "sound t F (change_c f) nothing"
  by (rule soundI) (use assms in \<open>auto simp: change_c_def outcome_def\<close>)

lemma sound_if [sound_intros]: "(b \<Longrightarrow> sound t F m G) \<Longrightarrow> (\<not> b \<Longrightarrow> sound t F n G) \<Longrightarrow> sound t F (if b then m else n) G"
  by simp

lemma sound_each [sound_intros]:
  assumes "\<And>a. a \<in> set as \<Longrightarrow> sound t F (f a) nothing"
  shows "sound t F (each_c f as) nothing"
  using assms by (induction as) (auto intro: sound_return sound_bind [where G = nothing])

section \<open>The operations are sound\<close>

text \<open>Changes that leave sessions, peers and issues alone.\<close>

lemma same_sessions: "sessions c' = sessions c \<Longrightarrow> is_peer c' = is_peer c \<and> client_alive c' = client_alive c"
  by (simp add: is_peer_def client_alive_def fun_eq_iff split: option.splits client_ptr.splits)

lemma quiet_change:
  assumes "cluster_ok c" and "set (m_peers c') \<subseteq> set (m_peers c)" and "distinct (m_peers c) \<Longrightarrow> distinct (m_peers c')"
    and "sessions c' = sessions c" and "m_eviction_issues c' = m_eviction_issues c"
    and "set (m_ask_evict_requests c') \<subseteq> set (m_ask_evict_requests c)" and "m_next_id c \<le> m_next_id c'"
    and "set (m_pending_peer_auths c') \<subseteq> set (m_pending_peer_auths c)"
    and "m_cluster_key c' = None \<longleftrightarrow> m_cluster_id c' = None"
  shows "cluster_ok c' \<and> grows c c'"
proof
  show "cluster_ok c'" using assms same_sessions [OF assms(4)] by (simp add: cluster_ok_def) blast
  show "grows c c'" by (rule growsI) (use assms same_sessions [OF assms(4)] in simp_all)
qed

lemma cluster_okD:
  assumes "cluster_ok c"
  shows "distinct (m_peers c)" and "n \<in> set (m_peers c) \<Longrightarrow> is_peer c n" and "sessions c n = Some s \<Longrightarrow> wf_session s"
    and "m_cluster_key c = None \<longleftrightarrow> m_cluster_id c = None"
    and "p \<in> set (m_pending_peer_auths c) \<Longrightarrow> client_alive c (pa_client (snd p))"
    and "q \<in> set (m_ask_evict_requests c) \<Longrightarrow> contains (m_eviction_issues c) (snd q)"
  using assms by (auto simp: cluster_ok_def)

lemma sound_send [sound_intros]:
  "Alive (Some p) \<in> F \<Longrightarrow> sound t F (send_to p msg) nothing"
proof (rule soundI)
  fix c r c' assume c: "cluster_ok c" "\<forall>x \<in> F. true_in c x" "Alive (Some p) \<in> F" and run: "send_to p msg c = (r, c')"
  then have "client_alive c (Some p)" by force
  then obtain n where "p = Tcp_Client n" "sessions c n \<noteq> None" by (cases p) (auto simp: client_alive_def)
  with run have r: "r = Inr ()" "c' = c\<lparr>outbox := outbox c @ [(n, msg)]\<rparr>" by auto
  have "cluster_ok c' \<and> grows c c'" by (rule quiet_change [OF c(1)]) (use cluster_okD(4) [OF c(1)] in \<open>simp_all add: r\<close>)
  then show "cluster_ok c' \<and> grows c c' \<and> outcome t nothing r c'" by (simp add: r outcome_def)
qed

lemma sound_derive:
  assumes "sound t (insert y F) m G" and "x \<in> F" and "\<And>c. true_in c x \<Longrightarrow> true_in c y"
  shows "sound t F m G"
  using assms by (auto simp: sound_def)

lemma peer_alive: "true_in c (Peer n) \<Longrightarrow> true_in c (Alive (Some (Tcp_Client n)))"
  by (auto simp: is_peer_def client_alive_def)

lemma sound_send_peer [sound_intros]: "Peer n \<in> F \<Longrightarrow> sound t F (send_to (Tcp_Client n) msg) nothing"
  by (rule sound_derive [where y = "Alive (Some (Tcp_Client n))"], rule sound_send, simp, assumption, erule peer_alive)

lemma sound_send_opt [sound_intros]: "Alive p \<in> F \<Longrightarrow> sound t F (send_opt p msg) nothing"
  by (cases p) (simp_all add: send_opt_def sound_intros)

lemma sound_close [sound_intros]: "sound t F (close_client n) nothing"
  unfolding close_client_def by (rule sound_change, rule quiet_change) (auto dest: cluster_okD(4))

lemma sound_session:
  assumes "Peer n \<in> F" and "\<And>s p. session_data s = Peer_Data p \<Longrightarrow> \<exists>a. f s = Inr a"
  shows "sound t F (session_c n f) nothing"
  unfolding session_c_def
proof (rule sound_read)
  fix c assume "\<forall>x \<in> F. true_in c x"
  with assms(1) have "is_peer c n" by force
  then show "case (case sessions c n of None \<Rightarrow> undefined_behaviour | Some s \<Rightarrow> f s) of
      Inl e \<Rightarrow> \<not> is_crash e \<and> t | Inr a \<Rightarrow> \<forall>x \<in> nothing a. true_in c x"
    using assms(2) by (fastforce simp: is_peer_def)
qed

lemma sound_sessions [sound_intros]:
  assumes "Peer n \<in> F"
  shows "sound t F (session_c n session_peer_data) nothing" "sound t F (session_c n session_id) nothing"
    "sound t F (session_c n session_addr) nothing" "sound t F (session_c n (\<lambda>s. Inr (session_is_peer s))) nothing"
    "sound t F (session_c n evict_opinion_misbehaving) nothing" "sound t F (session_c n (evict_opinion_dead ce)) nothing"
  by (rule sound_session [OF assms]; simp add: session_peer_data_def session_id_def session_addr_def evict_opinion_misbehaving_def
      evict_opinion_dead_def)+

lemma sound_get_any [sound_intros]: "sound t F (get_c f) nothing"
  by (rule sound_get) simp

lemma sound_get_peers: "sound t F (get_c m_peers) (\<lambda>ps. Peer ` set ps)"
  by (rule sound_get) (auto dest: cluster_okD(2))

lemma sound_get_pending: "sound t F (get_c m_pending_peer_auths) (\<lambda>ps. (\<lambda>p. Alive (pa_client (snd p))) ` set ps)"
  by (rule sound_get) (auto dest: cluster_okD(5))

lemma sound_pure_read [sound_intros]: "r = Inr a \<Longrightarrow> sound t F (read_c (\<lambda>_. r)) nothing"
  by (rule sound_read) simp

lemma wf_peer: "wf_session s \<Longrightarrow> session_data s = Peer_Data p \<Longrightarrow> session_is_peer s"
  by (simp add: wf_session_def session_is_peer_def session_auth_def)

text \<open>A new session for a peer.\<close>

lemma set_session:
  assumes "cluster_ok c" and "wf_session s" and "session_data s = Peer_Data p"
    and "set (m_peers c') \<subseteq> insert n (set (m_peers c))" and "distinct (m_peers c')" and "sessions c' = (sessions c)(n \<mapsto> s)"
    and "m_eviction_issues c' = m_eviction_issues c" and "m_ask_evict_requests c' = m_ask_evict_requests c"
    and "m_next_id c' = m_next_id c" and "m_pending_peer_auths c' = m_pending_peer_auths c"
    and "m_cluster_key c' = m_cluster_key c" and "m_cluster_id c' = m_cluster_id c"
  shows "cluster_ok c' \<and> grows c c' \<and> is_peer c' n"
proof -
  have n: "is_peer c' n" using assms(3,6) by (simp add: is_peer_def)
  have g: "grows c c'" by (rule growsI) (use assms n in \<open>auto simp: is_peer_def split: if_splits\<close>)
  have "cluster_ok c'"
    unfolding cluster_ok_def using assms(1,2,4-12) cluster_okD [OF assms(1)] growsD [OF g] n
    by (auto split: if_splits)
  with g n show ?thesis by simp
qed

lemma sound_update_peer [sound_intros]:
  assumes "Peer n \<in> F"
  shows "sound t F (assign_c n (update_peer_data f)) nothing"
proof (rule soundI)
  fix c r c' assume c: "cluster_ok c" "\<forall>x \<in> F. true_in c x" and run: "assign_c n (update_peer_data f) c = (r, c')"
  from c(2) assms obtain s p where s: "sessions c n = Some s" "session_data s = Peer_Data p" by (force simp: is_peer_def)
  let ?s = "s\<lparr>session_data := Peer_Data (f p)\<rparr>"
  have "wf_session ?s" using cluster_okD(3) [OF c(1) s(1)] s(2) by (simp add: wf_session_def)
  moreover have r: "r = Inr ()" "c' = c\<lparr>sessions := (sessions c)(n \<mapsto> ?s)\<rparr>"
    using run s by (simp_all add: assign_c_def session_c_def update_peer_data_def session_peer_data_def change_c_def)
  ultimately have "cluster_ok c' \<and> grows c c' \<and> is_peer c' n"
    by (intro set_session [OF c(1), of ?s "f p"]) (use cluster_okD(1) [OF c(1)] in auto)
  then show "cluster_ok c' \<and> grows c c' \<and> outcome t nothing r c'" by (simp add: r outcome_def)
qed

lemma register_peer_run:
  assumes "sessions c n = Some s"
  shows "register_peer ce n ad i c = (Inr (), c\<lparr>m_peers := uset_insert n (m_peers c),
    sessions := (sessions c)(n \<mapsto> \<lparr>session_data = Peer_Data (new_peer_data (ce_now ce) ad i), auth = PEER\<rparr>)\<rparr>)"
  using assms by (cases s) (simp add: register_peer_def assign_c_def session_c_def session_set_auth_peer_def change_c_def)

lemma register_peer_ok:
  assumes "cluster_ok c" and "sessions c n = Some s" and "register_peer ce n ad i c = (r, c')"
  shows "r = Inr () \<and> cluster_ok c' \<and> grows c c' \<and> is_peer c' n"
proof -
  let ?s = "\<lparr>session_data = Peer_Data (new_peer_data (ce_now ce) ad i), auth = PEER\<rparr>"
  have r: "r = Inr ()" "c' = c\<lparr>m_peers := uset_insert n (m_peers c), sessions := (sessions c)(n \<mapsto> ?s)\<rparr>"
    using register_peer_run [OF assms(2)] assms(3) by auto
  have "cluster_ok c' \<and> grows c c' \<and> is_peer c' n"
    by (intro set_session [OF assms(1), of ?s "new_peer_data (ce_now ce) ad i"])
       (use cluster_okD(1) [OF assms(1)] in \<open>auto simp: r wf_session_def uset_insert_def\<close>)
  with r show ?thesis by simp
qed

text \<open>What the surroundings are asked for: the listener of the cluster is there, a new connection has a new number, and a
  connection that fails throws.\<close>

definition sound_connections :: "cluster_env \<Rightarrow> bool" where
  "sound_connections ce \<longleftrightarrow>
     (\<forall>ss host port. case ce_connect ce ss host port of Inl e \<Rightarrow> \<not> is_crash e | Inr (n, _) \<Rightarrow> ss n = None)"

definition sound_env :: "cluster_env \<Rightarrow> bool" where
  "sound_env ce \<longleftrightarrow> bind_inv new_session (ce_bind ce) \<and> sound_connections ce"

lemma sound_connect:
  assumes "sound_connections ce"
  shows "ce_connect ce ss host port = Inl e \<Longrightarrow> \<not> is_crash e" and "ce_connect ce ss host port = Inr (n, ad) \<Longrightarrow> ss n = None"
proof -
  have "case ce_connect ce ss host port of Inl e \<Rightarrow> \<not> is_crash e | Inr (n, _) \<Rightarrow> ss n = None"
    using assms unfolding sound_connections_def by blast
  then show "ce_connect ce ss host port = Inl e \<Longrightarrow> \<not> is_crash e" "ce_connect ce ss host port = Inr (n, ad) \<Longrightarrow> ss n = None"
    by simp_all
qed

lemma sound_own_addr:
  "sound_env ce \<Longrightarrow> cluster_addr (ce_bind ce) = Inr (m_host (ce_bind ce), m_cluster_port (ce_bind ce))"
  "sound_env ce \<Longrightarrow> own_peer_addr ce = Inr (make_address (m_host (ce_bind ce)) (m_cluster_port (ce_bind ce)))"
  by (auto simp: sound_env_def own_peer_addr_def dest: cluster_addr_found)

lemma sound_new_peer:
  assumes "sound_env ce"
  shows "sound True F (new_peer ce host port) (\<lambda>n. {Peer n})"
proof (rule soundI)
  fix c r c' assume c: "cluster_ok c" and run: "new_peer ce host port c = (r, c')"
  let ?con = "ce_connect ce (sessions c) (takeWhile (\<lambda>x. x \<noteq> CHR 0x00) host) port"
  show "cluster_ok c' \<and> grows c c' \<and> outcome True (\<lambda>n. {Peer n}) r c'"
  proof (cases ?con)
    case (Inl e)
    with sound_connect(1) assms [unfolded sound_env_def] show ?thesis using run c by (auto simp: new_peer_def grows_refl outcome_def)
  next
    case (Inr con)
    obtain n h q where con: "con = (n, h, q)" by (cases con)
    with Inr have fresh: "sessions c n = None" using sound_connect(2) assms [unfolded sound_env_def] by blast
    let ?c = "c\<lparr>sessions := (sessions c)(n \<mapsto> new_session)\<rparr>"
    have g: "grows c ?c" by (rule growsI) (use fresh in \<open>auto simp: is_peer_def\<close>)
    have ok: "cluster_ok ?c"
      unfolding cluster_ok_def using c cluster_okD [OF c] growsD [OF g] wf_new_session by (auto split: if_splits)
    obtain r1 c1 where reg: "register_peer ce n (make_address h q) None ?c = (r1, c1)" by fastforce
    from register_peer_ok [OF ok _ this] have "r1 = Inr ()" "cluster_ok c1" "grows ?c c1" "is_peer c1 n" by auto
    moreover from this reg run Inr con have "r = Inr n" "c' = c1" by (auto simp: new_peer_def bind_c_run return_c_def)
    ultimately show ?thesis using g grows_trans by (auto simp: outcome_def)
  qed
qed

lemma sound_erase_peer: "sound t F (change_c (\<lambda>c. c\<lparr>m_peers := uset_erase n (m_peers c)\<rparr>)) nothing"
  by (rule sound_change, rule quiet_change) (auto dest: cluster_okD(4) simp: uset_erase_def)

lemma sound_forget_peer [sound_intros]: "Peer n \<in> F \<Longrightarrow> sound t F (forget_peer n) nothing"
  unfolding forget_peer_def by (intro sound_intros sound_erase_peer)

lemma sound_next_id [sound_intros]: "sound t F next_msg_id nothing"
proof (rule soundI)
  fix c r c' assume c: "cluster_ok c" and run: "next_msg_id c = (r, c')"
  show "cluster_ok c' \<and> grows c c' \<and> outcome t nothing r c'"
  proof (cases "m_next_id c = INT64_MAX")
    case True
    with run c show ?thesis by (auto simp: next_msg_id_def comp_simps grows_refl outcome_def is_crash_def)
  next
    case False
    with run have r: "r = Inr (m_next_id c)" "c' = c\<lparr>m_next_id := m_next_id c + 1\<rparr>"
      by (simp_all add: next_msg_id_def comp_simps)
    have "cluster_ok c' \<and> grows c c'" by (rule quiet_change [OF c]) (use cluster_okD(4) [OF c] r in simp_all)
    with r show ?thesis by (simp add: outcome_def)
  qed
qed

lemma sound_expected [sound_intros]: "sound t F (expect_op i op) nothing" "sound t F (expected_op i) nothing"
proof -
  have change: "sound t F (change_c (\<lambda>c. c\<lparr>m_expected_ops := g c\<rparr>)) nothing" for g
    by (rule sound_change, rule quiet_change) (auto dest: cluster_okD(4))
  show "sound t F (expect_op i op) nothing" unfolding expect_op_def by (rule change)
  show "sound t F (expected_op i) nothing"
    unfolding expected_op_def by (auto intro!: sound_intros change split: option.split)
qed

lemma sound_post [sound_intros]:
  assumes "op \<noteq> op_MAX_OP" and "Peer n \<in> F"
  shows "sound t F (post n op args) nothing" "sound t F (post_plain n op args) nothing"
  unfolding post_def post_plain_def new_post_id_def using assms message_heads(1,2) [OF assms(1)]
  by (auto intro!: sound_intros)

lemma sound_send_async [sound_intros]: "Peer n \<in> F \<Longrightarrow> sound t F (send_async n async_PULSE) nothing"
  unfolding send_async_def using message_heads(4) by (auto intro!: sound_intros)

lemma sound_reply [sound_intros]: "st \<noteq> MAX_STATUS \<Longrightarrow> Peer n \<in> F \<Longrightarrow> sound t F (reply_with n i st ser) nothing"
  unfolding reply_with_def using message_heads(3) by (auto intro!: sound_intros)

lemma sound_add_application [sound_intros]: "Alive p \<in> F \<Longrightarrow> sound t F (add_auth_application i key own p) nothing"
  unfolding add_auth_application_def
proof (rule sound_change)
  fix c assume p: "Alive p \<in> F" and c: "cluster_ok c" and "\<forall>x \<in> F. true_in c x"
  then have "client_alive c p" by force
  then show "cluster_ok (if contains (m_pending_peer_auths c) i then c
        else c\<lparr>m_pending_peer_auths := m_pending_peer_auths c @ [(i, \<lparr>pa_key = key, pa_own_id = own, pa_client = p\<rparr>)]\<rparr>) \<and>
      grows c (if contains (m_pending_peer_auths c) i then c
        else c\<lparr>m_pending_peer_auths := m_pending_peer_auths c @ [(i, \<lparr>pa_key = key, pa_own_id = own, pa_client = p\<rparr>)]\<rparr>)"
    using c same_sessions [of "c\<lparr>m_pending_peer_auths := x\<rparr>" c for x]
    by (auto simp: grows_refl cluster_ok_def intro!: growsI)
qed

lemma sound_pop_application:
  "sound t F (pop_auth_application i) (\<lambda>r. case r of None \<Rightarrow> {} | Some p \<Rightarrow> {Alive (pa_client p)})"
proof -
  have "sound t F (get_c (\<lambda>c. map_of (m_pending_peer_auths c) i)) (\<lambda>r. case r of None \<Rightarrow> {} | Some p \<Rightarrow> {Alive (pa_client p)})"
    by (rule sound_get) (auto dest: map_of_SomeD cluster_okD(5) split: option.split)
  moreover have "sound t F (change_c (\<lambda>c. c\<lparr>m_pending_peer_auths := AList.delete i (m_pending_peer_auths c)\<rparr>)) nothing" for F
    by (rule sound_change, rule quiet_change) (auto dest: cluster_okD(4) subsetD [OF set_delete_subset])
  ultimately show ?thesis
    unfolding pop_auth_application_def
    by (auto intro!: sound_bind sound_return_facts split: option.split)
qed

lemma sound_clear_applications [sound_intros]: "sound t F (clear_auth_applications msg) nothing"
proof -
  have clear: "sound t F (change_c (\<lambda>c. c\<lparr>m_pending_peer_auths := []\<rparr>)) nothing" for F
    by (rule sound_change, rule quiet_change) (auto dest: cluster_okD(4))
  show ?thesis
    unfolding clear_auth_applications_def by (rule sound_bind [OF sound_get_pending]) (auto intro!: sound_intros clear)
qed

lemma sound_random [sound_intros]: "sound t F (random_string ce n) nothing"
proof -
  have "sound t F (change_c (\<lambda>c. c\<lparr>draws := k\<rparr>)) nothing" for F k
    by (rule sound_change, rule quiet_change) (auto dest: cluster_okD(4))
  then show ?thesis unfolding random_string_def by (intro sound_intros)
qed

text \<open>The key and the id are set together: in between, the invariant does not hold.\<close>

lemma sound_set_cluster_info [sound_intros]: "sound t F (set_cluster_info ce key i) nothing"
proof -
  let ?own = "if i = [] then random_cluster_id ce else return_c i"
  let ?m = "bind_c (change_c (\<lambda>c. c\<lparr>m_cluster_key := Some key\<rparr>)) (\<lambda>_. bind_c ?own (\<lambda>own.
     bind_c (change_c (\<lambda>c. c\<lparr>m_cluster_id := Some own\<rparr>)) (\<lambda>_. return_c own)))"
  have "sound t E ?m nothing" for E
  proof (rule soundI)
    fix c r c' assume c: "cluster_ok c" and run: "?m c = (r, c')"
    obtain own d where own: "?own (c\<lparr>m_cluster_key := Some key\<rparr>) = (Inr own, c\<lparr>m_cluster_key := Some key, draws := d\<rparr>)"
    proof (cases "i = []")
      case False
      then show ?thesis using that [of i "draws c"] by (simp add: return_c_def)
    qed (auto simp: random_cluster_id_def random_string_def comp_simps intro: that)
    then have r: "r = Inr own" "c' = c\<lparr>m_cluster_key := Some key, draws := d, m_cluster_id := Some own\<rparr>"
      using run by (simp_all add: bind_c_def comp_simps)
    have "cluster_ok c' \<and> grows c c'" by (rule quiet_change [OF c]) (simp_all add: r)
    with r show "cluster_ok c' \<and> grows c c' \<and> outcome t nothing r c'" by (simp add: outcome_def)
  qed
  then show ?thesis unfolding set_cluster_info_def by (rule sound_step [OF sound_clear_applications])
qed

lemma sound_leave [sound_intros]: "sound t F leave_cluster nothing"
proof -
  have "sound t F (change_c (\<lambda>c. c\<lparr>m_cluster_key := None, m_cluster_id := None\<rparr>)) nothing" for F
    by (rule sound_change, rule quiet_change) auto
  then show ?thesis unfolding leave_cluster_def by (intro sound_intros)
qed

lemma sound_clear_peers [sound_intros]: "sound t F clear_peers nothing"
proof -
  have clear: "sound t F (change_c (\<lambda>c. c\<lparr>m_peers := []\<rparr>)) nothing" for F
    by (rule sound_change, rule quiet_change) (auto dest: cluster_okD(4))
  show ?thesis
    unfolding clear_peers_def by (rule sound_bind [OF sound_get_peers]) (auto intro!: sound_intros clear)
qed

lemma collect_runs: "(\<And>n. n \<in> set ns \<Longrightarrow> \<exists>r. f n = Inr r) \<Longrightarrow> \<exists>ss. collect_c f ns acc = Inr ss"
proof (induction ns arbitrary: acc)
  case (Cons n ns)
  from Cons.prems [of n] obtain r where "f n = Inr r" by auto
  with Cons show ?case by simp
qed simp

lemma peer_session_runs:
  "is_peer c n \<Longrightarrow> \<exists>i. peer_session c session_id n = Inr i"
  "is_peer c n \<Longrightarrow> \<exists>i. peer_session c (\<lambda>s. bind_result (session_addr s) (\<lambda>a. Inr (Some a))) n = Inr i"
  by (auto simp: is_peer_def peer_session_def session_id_def session_addr_def session_peer_data_def)

lemma sound_peer_lists [sound_intros]:
  "sound t F (read_c peer_addresses) nothing" "sound t F (read_c peer_ids) nothing"
proof -
  have "\<exists>ss. peer_addresses c = Inr ss" "\<exists>ss. peer_ids c = Inr ss" if "cluster_ok c" for c
    using that peer_session_runs cluster_okD(2) [OF that]
    by (auto simp: peer_addresses_def peer_ids_def intro!: collect_runs)
  then show "sound t F (read_c peer_addresses) nothing" "sound t F (read_c peer_ids) nothing"
    by (fastforce intro!: sound_read split: sum.split)+
qed

section \<open>Issues\<close>

lemma sound_insert_issue: "sound t F (insert_eviction_issue iss) (\<lambda>i. {Issue i})"
proof (rule soundI)
  fix c r c' assume c: "cluster_ok c" and run: "insert_eviction_issue iss c = (r, c')"
  let ?c = "if contains (m_eviction_issues c) (issue_id iss) then c else c\<lparr>m_eviction_issues := m_eviction_issues c @ [(issue_id iss, iss)]\<rparr>"
  from run have r: "r = Inr (issue_id iss)" "c' = ?c" by (simp_all add: insert_eviction_issue_def comp_simps)
  have s: "sessions ?c = sessions c" by simp
  have g: "grows c ?c" by (rule growsI) (use same_sessions [OF s] in \<open>auto simp: contains_iff\<close>)
  have "cluster_ok ?c"
    unfolding cluster_ok_def using same_sessions [OF s] cluster_okD [OF c] growsD(3) [OF g] by (auto split: if_splits)
  with g show "cluster_ok c' \<and> grows c c' \<and> outcome t (\<lambda>i. {Issue i}) r c'" by (simp add: r outcome_def contains_iff)
qed

lemma sound_issue [sound_intros]: "Issue i \<in> F \<Longrightarrow> sound t F (issue_c i f) nothing"
  unfolding issue_c_def
proof (rule sound_read)
  fix c assume "Issue i \<in> F" and "\<forall>x \<in> F. true_in c x"
  then have "contains (m_eviction_issues c) i" by force
  then show "case (case map_of (m_eviction_issues c) i of None \<Rightarrow> undefined_behaviour | Some iss \<Rightarrow> Inr (f iss)) of
      Inl e \<Rightarrow> \<not> is_crash e \<and> t | Inr a \<Rightarrow> \<forall>x \<in> nothing a. true_in c x"
    by (cases "map_of (m_eviction_issues c) i") (simp_all add: contains_iff map_of_eq_None_iff)
qed

lemma sound_update_issue [sound_intros]:
  assumes "Issue i \<in> F"
  shows "sound t F (update_issue i f) nothing"
  unfolding update_issue_def
proof (rule sound_step [OF sound_issue [OF assms]], rule sound_change)
  fix iss c assume c: "cluster_ok c"
  let ?c = "c\<lparr>m_eviction_issues := AList.update i iss (m_eviction_issues c)\<rparr>"
  have s: "sessions ?c = sessions c" by simp
  have g: "grows c ?c" by (rule growsI) (use same_sessions [OF s] in \<open>auto simp: contains_iff dom_update\<close>)
  have "cluster_ok ?c"
    unfolding cluster_ok_def using same_sessions [OF s] cluster_okD [OF c] growsD(3) [OF g] by auto
  with g show "cluster_ok ?c \<and> grows c ?c" by simp
qed

lemma find_peer_run:
  assumes "cluster_ok c" and "set ns \<subseteq> set (m_peers c)"
  shows "case find_peer c i ns of Inl e \<Rightarrow> \<not> is_crash e | Inr n \<Rightarrow> n \<in> set ns \<and> peer_session c session_id n = Inr (Some i)"
  using assms(2)
proof (induction ns)
  case (Cons n ns)
  then have "is_peer c n" using cluster_okD(2) [OF assms(1)] by simp
  with peer_session_runs(1) obtain j where "peer_session c session_id n = Inr j" by blast
  with Cons show ?case by (auto split: sum.splits)
qed (simp add: is_crash_def)

lemma sound_peer_from_id: "sound True F (peer_from_id i) (\<lambda>n. {Peer n})"
  unfolding peer_from_id_def
proof (rule sound_read)
  fix c assume "cluster_ok c"
  with find_peer_run [of c "m_peers c" i] cluster_okD(2)
  show "case find_peer c i (m_peers c) of Inl e \<Rightarrow> \<not> is_crash e \<and> True | Inr n \<Rightarrow> \<forall>x \<in> {Peer n}. true_in c x"
    by (auto split: sum.splits)
qed

lemma sound_evict_found: "sound True F (bind_c (peer_from_id i) do_evict_peer) nothing"
proof (rule soundI)
  fix c r c' assume c: "cluster_ok c" and run: "bind_c (peer_from_id i) do_evict_peer c = (r, c')"
  show "cluster_ok c' \<and> grows c c' \<and> outcome True nothing r c'"
  proof (cases "find_peer c i (m_peers c)")
    case (Inl e)
    with run find_peer_run [OF c subset_refl, of i] c show ?thesis
      by (auto simp: peer_from_id_def grows_refl outcome_def)
  next
    case (Inr n)
    with find_peer_run [OF c subset_refl, of i] have n: "n \<in> set (m_peers c)" "peer_session c session_id n = Inr (Some i)" by simp_all
    with run Inr have "bind_c (forget_peer n) (\<lambda>_. close_client n) c = (r, c')"
      by (auto simp: peer_from_id_def do_evict_peer_def session_c_def peer_session_def split: option.splits)
    moreover have "sound True {Peer n} (bind_c (forget_peer n) (\<lambda>_. close_client n)) nothing" by (intro sound_intros) simp
    ultimately show ?thesis using soundD [of True "{Peer n}"] c n cluster_okD(2) [OF c] by fastforce
  qed
qed

lemma sound_resolve [sound_intros]: "Issue i \<in> F \<Longrightarrow> sound True F (resolve_issue ce i v) nothing"
  unfolding resolve_issue_def by (intro sound_intros sound_evict_found)

lemma sound_try_resolve [sound_intros]: "Issue i \<in> F \<Longrightarrow> sound True F (try_resolve_issue ce i) nothing"
  unfolding try_resolve_issue_def Let_def by (intro sound_intros)

lemma sound_pop_ask: "sound True F (pop_ask_evict m) (\<lambda>i. {Issue i})"
proof -
  have pop: "sound True F (read_c (\<lambda>c. case map_of (m_ask_evict_requests c) m of
      None \<Rightarrow> Inl (OutOfRange ''_Map_base::at'') | Some i \<Rightarrow> Inr i)) (\<lambda>i. {Issue i})"
    by (rule sound_read) (auto simp: is_crash_def dest: map_of_SomeD cluster_okD(6) split: option.split)
  moreover have "sound True F (change_c (\<lambda>c. c\<lparr>m_ask_evict_requests := AList.delete m (m_ask_evict_requests c)\<rparr>)) nothing" for F
    by (rule sound_change, rule quiet_change) (auto dest: cluster_okD(4) subsetD [OF set_delete_subset])
  ultimately show ?thesis
    unfolding pop_ask_evict_def by (intro sound_bind [OF pop] sound_step sound_return_facts) auto
qed

lemma sound_reply_ask [sound_intros]: "sound True F (reply_request_ask_evict ce m b) nothing"
  unfolding reply_request_ask_evict_def by (rule sound_bind [OF sound_pop_ask]) (intro sound_intros; simp)

lemma sound_ask_peer:
  assumes "Issue i \<in> F" and "Peer n \<in> F" and "sound t F (pred n) nothing"
  shows "sound t F (ask_peer i pred n) nothing"
proof -
  have "sound t F (change_c (\<lambda>c. if contains (m_ask_evict_requests c) m then c
      else c\<lparr>m_ask_evict_requests := m_ask_evict_requests c @ [(m, i)]\<rparr>)) nothing" for m
  proof (rule sound_change)
    fix c assume c: "cluster_ok c" and F: "\<forall>x \<in> F. true_in c x"
    let ?c = "if contains (m_ask_evict_requests c) m then c else c\<lparr>m_ask_evict_requests := m_ask_evict_requests c @ [(m, i)]\<rparr>"
    have s: "sessions ?c = sessions c" by simp
    have g: "grows c ?c" by (rule growsI) (use same_sessions [OF s] in auto)
    have "contains (m_eviction_issues c) i" using F assms(1) by force
    then have "cluster_ok ?c"
      unfolding cluster_ok_def using same_sessions [OF s] cluster_okD [OF c] by (auto split: if_splits)
    with g show "cluster_ok ?c \<and> grows c ?c" by simp
  qed
  then show ?thesis unfolding ask_peer_def post_ask_evict_def using assms by (intro sound_intros) simp_all
qed

lemma sound_ask_all [sound_intros]:
  assumes "Issue i \<in> F" and "\<And>n E. Peer n \<in> E \<Longrightarrow> sound t E (pred n) nothing"
  shows "sound t F (post_ask_evict_all i pred) nothing"
  unfolding post_ask_evict_all_def
  by (rule sound_bind [OF sound_get_peers], intro sound_intros sound_ask_peer assms(2)) (use assms(1) in auto)

lemma sound_begin_evict [sound_intros]: "Peer n \<in> F \<Longrightarrow> sound t F (begin_evict_process ce n r) nothing"
  unfolding begin_evict_process_def new_eviction_issue_def
  by (intro sound_intros sound_bind [OF sound_bind [OF sound_random sound_insert_issue]]) simp_all

lemma sound_report [sound_intros]: "Peer n \<in> F \<Longrightarrow> sound t F (report_peer ce n rep) nothing"
  unfolding report_peer_def evict_misbehaving_peer_def by (intro sound_intros)

lemma sound_get_issue: "sound True F (get_eviction_issue ce i p r) (\<lambda>(j, _). {Issue j})"
proof -
  have self: "sound True E (self_opinion_on ce p r) nothing" for E
    unfolding self_opinion_on_def
    by (rule sound_bind [OF sound_peer_from_id]) (intro sound_intros; simp add: is_crash_def)
  have known: "sound True F (get_c (\<lambda>c. contains (m_eviction_issues c) i)) (\<lambda>b. if b then {Issue i} else {})"
    by (rule sound_get) simp
  show ?thesis
    unfolding get_eviction_issue_def
    by (intro sound_bind [OF known] sound_if sound_return_facts sound_step [OF self] sound_bind [OF sound_insert_issue]) auto
qed

lemma sound_post_ask [sound_intros]: "Peer n \<in> F \<Longrightarrow> sound True F (post_request_ask_evict ce n m i p r) nothing"
  unfolding post_request_ask_evict_def
  by (rule sound_bind [OF sound_get_issue]) (auto intro!: sound_intros)

section \<open>Requests and messages\<close>

lemma sound_peer_connect:
  assumes "sound_env ce" and "Alive client \<in> F"
  shows "sound True F (peer_connect ce host port key own client) nothing"
  unfolding peer_connect_def
  by (rule sound_bind [OF sound_new_peer [OF assms(1)]]) (use assms(2) sound_own_addr(2) [OF assms(1)] in \<open>auto intro!: sound_intros\<close>)

lemma alive_none: "sound t (insert (Alive None) F) m G \<Longrightarrow> sound t F m G"
  by (simp add: sound_def client_alive_def)

lemma unmake_all_polite: "unmake_all as = Inl e \<Longrightarrow> \<not> is_crash e"
  by (induction as arbitrary: e)
     (auto simp: bind_result_def unmake_address_def stoi_def Let_def is_crash_def split: if_splits sum.splits conversion.splits)

lemma sound_reply_peers:
  assumes "sound_env ce"
  shows "sound True F (reply_request_peers ce ps) nothing"
proof -
  have unknown: "sound True F (unknown_peers_in ce ps) nothing"
    unfolding unknown_peers_in_def using sound_own_addr(2) [OF assms] by (auto intro!: sound_intros)
  have unmake: "sound True F (read_c (\<lambda>_. unmake_all as)) nothing" for as
    by (rule sound_read) (auto dest: unmake_all_polite split: sum.split)
  have connect: "sound True F (peer_connect ce host port key own None) nothing" for host port key own
    by (rule alive_none, rule sound_peer_connect [OF assms]) simp
  show ?thesis
    unfolding reply_request_peers_def
    by (auto intro!: sound_intros unknown unmake connect split: option.split)
qed

lemma sound_remove_peer [sound_intros]: "Peer n \<in> F \<Longrightarrow> sound t F (remove_peer n) nothing"
  unfolding remove_peer_def by (intro sound_intros)

lemma sound_peer_sync [sound_intros]: "Peer n \<in> F \<Longrightarrow> sound t F (peer_sync n) nothing"
  unfolding peer_sync_def by (intro sound_intros) simp_all

lemma sound_replies_peer_auth:
  assumes "Peer n \<in> F"
  shows "sound True F (reply_request_peer_auth ce n i dat) nothing"
    and "sound True F (reply_denied_request_peer_auth n i) nothing"
    and "sound_env ce \<Longrightarrow> sound True F (reply_redirect_request_peer_auth ce n i ad) nothing"
proof -
  show "sound True F (reply_request_peer_auth ce n i dat) nothing"
    unfolding reply_request_peer_auth_def
    by (rule sound_bind [OF sound_pop_application]) (use assms in \<open>auto intro!: sound_intros split: option.split\<close>)
  show "sound True F (reply_denied_request_peer_auth n i) nothing"
    unfolding reply_denied_request_peer_auth_def
    by (intro sound_step sound_bind [OF sound_pop_application])
       (use assms in \<open>auto intro!: sound_intros split: option.split\<close>)
  assume ce: "sound_env ce"
  show "sound True F (reply_redirect_request_peer_auth ce n i ad) nothing"
    unfolding reply_redirect_request_peer_auth_def
    by (intro sound_step sound_bind [OF sound_pop_application])
       (use assms in \<open>auto intro!: sound_intros sound_peer_connect [OF ce] split: option.split\<close>)
qed

lemma sound_posts [sound_intros]:
  assumes "Peer n \<in> F"
  shows "sound True F (post_request_ping n i) nothing" "sound True F (post_request_peers n i) nothing"
    "sound True F (async_request_pulse ce n) nothing" "sound True F (reply_err n i e) nothing"
    "sound True F (get_peer_str n) nothing"
  unfolding post_request_ping_def post_request_peers_def async_request_pulse_def reply_err_def get_peer_str_def
  by (intro sound_intros assms; simp)+

section \<open>Parsing\<close>

definition psound :: "fact set \<Rightarrow> 'a peer_action \<Rightarrow> bool" where
  "psound F m \<longleftrightarrow>
     (\<forall>x c r x' c'. in_bounds x \<longrightarrow> cluster_ok c \<longrightarrow> (\<forall>y \<in> F. true_in c y) \<longrightarrow> m (x, c) = (r, x', c') \<longrightarrow>
        in_bounds x' \<and> cluster_ok c' \<and> grows c c' \<and> outcome True nothing r c')"

named_theorems psound_intros \<open>sound actions on the message and the state\<close>

lemma psoundI:
  assumes "\<And>x c r x' c'. in_bounds x \<Longrightarrow> cluster_ok c \<Longrightarrow> \<forall>y \<in> F. true_in c y \<Longrightarrow> m (x, c) = (r, x', c') \<Longrightarrow>
    in_bounds x' \<and> cluster_ok c' \<and> grows c c' \<and> outcome True nothing r c'"
  shows "psound F m"
  unfolding psound_def using assms by blast

lemma psoundD:
  "psound F m \<Longrightarrow> in_bounds x \<Longrightarrow> cluster_ok c \<Longrightarrow> \<forall>y \<in> F. true_in c y \<Longrightarrow> m (x, c) = (r, x', c') \<Longrightarrow>
    in_bounds x' \<and> cluster_ok c' \<and> grows c c' \<and> outcome True nothing r c'"
  unfolding psound_def by blast

lemma parse_error_polite: "parse_error e \<Longrightarrow> \<not> is_crash e"
  by (cases e) (simp_all add: is_crash_def)

lemma psound_pure [psound_intros]: "psound F (return_c a)" "\<not> is_crash e \<Longrightarrow> psound F (throw_c e)"
  by (simp_all add: psound_def comp_simps outcome_def grows_refl)

lemma psound_bind [psound_intros]:
  assumes "psound F m" and "\<And>a. psound F (f a)"
  shows "psound F (bind_c m f)"
proof (rule psoundI)
  fix x c r x' c'
  assume x: "in_bounds x" "cluster_ok c" "\<forall>y \<in> F. true_in c y" and run: "bind_c m f (x, c) = (r, x', c')"
  obtain r1 x1 c1 where m: "m (x, c) = (r1, x1, c1)" by (metis prod_cases3)
  note 1 = psoundD [OF assms(1) x m]
  show "in_bounds x' \<and> cluster_ok c' \<and> grows c c' \<and> outcome True nothing r c'"
  proof (cases r1)
    case (Inl e)
    with m run 1 show ?thesis by (auto simp: bind_c_run outcome_def)
  next
    case (Inr a)
    have "\<forall>y \<in> F. true_in c1 y" using 1 x(3) by (simp add: grows_def)
    moreover have "f a (x1, c1) = (r, x', c')" using m run Inr by (simp add: bind_c_run)
    ultimately show ?thesis using 1 psoundD [OF assms(2) [of a]] grows_trans by blast
  qed
qed

lemma psound_parse [psound_intros]: "safe m \<Longrightarrow> psound F (parse_p m)"
proof (rule psoundI)
  fix x c r x' c'
  assume m: "safe m" and x: "in_bounds x" and c: "cluster_ok c" and run: "parse_p m (x, c) = (r, x', c')"
  from run have eq: "fst (m x) = r" "snd (m x) = x'" "c' = c" by (auto simp: parse_p_def split: prod.splits)
  with m x have "in_bounds x'" "\<forall>e. r = Inl e \<longrightarrow> \<not> is_crash e" unfolding safe_def using parse_error_polite by blast+
  with c show "in_bounds x' \<and> cluster_ok c' \<and> grows c c' \<and> outcome True nothing r c'"
    by (simp add: eq grows_refl outcome_def split: sum.splits)
qed

lemma psound_do [psound_intros]: "sound True F m nothing \<Longrightarrow> psound F (do_p m)"
  by (rule psoundI) (auto simp: do_p_def split: prod.splits dest: soundD)

lemma psound_report [psound_intros]: "Peer n \<in> F \<Longrightarrow> psound F (do_p (report_peer ce n rep))"
  by (intro psound_intros sound_intros)

lemma polite_runtime [simp]: "\<not> is_crash (RuntimeError m)"
  by (simp add: is_crash_def)

lemma psound_post_op: "Peer n \<in> F \<Longrightarrow> psound F (handle_post_op ce n i op)"
  by (cases op) (auto intro!: psound_intros safe_intros sound_intros)

lemma psound_async_op: "Peer n \<in> F \<Longrightarrow> psound F (handle_async_op ce n op)"
  by (cases op) (auto intro!: psound_intros safe_intros sound_intros)

lemma psound_post_request:
  assumes "Peer n \<in> F"
  shows "psound F (handle_post_request ce n i)"
proof (rule psoundI)
  fix x c r x' c'
  let ?m = "bind_c (parse_p get_op) (handle_post_op ce n i)"
  assume x: "in_bounds x" "cluster_ok c" "\<forall>y \<in> F. true_in c y" and run: "handle_post_request ce n i (x, c) = (r, x', c')"
  obtain r1 x1 c1 where m: "?m (x, c) = (r1, x1, c1)" by (metis prod_cases3)
  have "psound F ?m" using assms by (intro psound_intros safe_intros psound_post_op)
  note 1 = psoundD [OF this x m]
  show "in_bounds x' \<and> cluster_ok c' \<and> grows c c' \<and> outcome True nothing r c'"
  proof (cases "\<exists>e. r1 = Inl e \<and> \<not> is_crash e")
    case False
    with m run 1 show ?thesis by (auto simp: handle_post_request_def split: sum.splits if_splits)
  next
    case True
    then obtain e where e: "r1 = Inl e" "\<not> is_crash e" by blast
    with m run have "bind_c (do_p (reply_err n i e)) (\<lambda>_. throw_c e) (x1, c1) = (r, x', c')"
      by (simp add: handle_post_request_def)
    moreover have "psound F (bind_c (do_p (reply_err n i e)) (\<lambda>_. throw_c e))"
      using assms e(2) by (intro psound_intros sound_intros)
    moreover have "\<forall>y \<in> F. true_in c1 y" using 1 x(3) by (simp add: grows_def)
    ultimately show ?thesis using 1 psoundD grows_trans by blast
  qed
qed

lemma psound_status:
  assumes "Peer n \<in> F" and "sound_env ce"
  shows "psound F (handle_status ce n i op st)"
proof -
  have "psound F (handle_ok_reply ce n i op)"
    using assms sound_reply_peers [OF assms(2)] sound_replies_peer_auth(1) [OF assms(1)]
    by (cases op) (auto intro!: psound_intros safe_intros sound_intros)
  moreover have "psound F (handle_max_op ce n)" "psound F (handle_default_err n)" "psound F (handle_default_refusal n)"
    unfolding handle_max_op_def handle_default_err_def handle_default_refusal_def
    by (intro psound_intros safe_intros sound_intros assms(1))+
  moreover have "psound F (do_p (reply_denied_request_peer_auth n i))" "psound F (do_p (reply_redirect_request_peer_auth ce n i ad))" for ad
    using sound_replies_peer_auth(2,3) [OF assms(1)] assms(2) by (auto intro: psound_do)
  ultimately show ?thesis
    using assms(1) by (cases st)
      (auto simp: handle_err_reply_def handle_denied_reply_def handle_redirect_reply_def intro!: psound_bind psound_parse psound_report safe_intros)
qed

lemma psound_kind:
  assumes "Peer n \<in> F" and "sound_env ce"
  shows "psound F (handle_kind ce n k)"
proof (cases k)
  case msg_REPLY
  with assms show ?thesis
    by (auto simp: handle_reply_request_def intro!: psound_bind psound_parse psound_do safe_intros sound_expected psound_report
        psound_status sound_report split: option.split)
qed (use assms in \<open>auto intro!: psound_bind psound_parse safe_intros psound_post_request psound_async_op\<close>)

theorem handle_peer_sound:
  assumes "sound_env ce" and "fits_size msg"
  shows "sound False {Peer n} (handle_peer ce n msg) nothing"
proof (rule soundI)
  fix c r c' assume c: "cluster_ok c" "\<forall>x \<in> {Peer n}. true_in c x" and run: "handle_peer ce n msg c = (r, c')"
  let ?x = "\<lparr>m_msg = msg, m_pos = 0\<rparr>" and ?m = "bind_c (parse_p get_request_t) (handle_kind ce n)"
  obtain r1 x1 c1 where m: "?m (?x, c) = (r1, x1, c1)" by (metis prod_cases3)
  have "psound {Peer n} ?m" by (intro psound_intros safe_intros psound_kind assms(1)) simp
  from psoundD [OF this _ c m] have 1: "cluster_ok c1" "grows c c1" "outcome True nothing r1 c1"
    using assms(2) by (simp_all add: in_bounds_def fits_size_def)
  have inner: "handle_peer_inner ce n msg c = (r1, c1)" by (simp add: handle_peer_inner_def m)
  show "cluster_ok c' \<and> grows c c' \<and> outcome False nothing r c'"
  proof (cases "\<exists>e. r1 = Inl e \<and> \<not> is_crash e \<and> is_invalid_request e")
    case True
    then have "report_peer ce n BAD_MESSAGE c1 = (r, c')" using run inner by (auto simp: handle_peer_def)
    moreover have "\<forall>x \<in> {Peer n}. true_in c1 x" using growsD(1) [OF 1(2)] c(2) by simp
    moreover have "sound False {Peer n} (report_peer ce n BAD_MESSAGE) nothing" by (intro sound_intros) simp
    ultimately show ?thesis using 1 soundD grows_trans by blast
  next
    case False
    with run inner 1 show ?thesis by (auto simp: handle_peer_def outcome_def split: sum.splits if_splits)
  qed
qed

end
