(* ===== verification/Cluster_Requests.thy ===== *)
theory Cluster_Requests
  imports Cluster_Invariant Database_Servers
begin

text \<open>
  The requests of clients about the cluster, all together, and what they do to the session of the client: nothing,
  unless it authenticates as a peer.
\<close>

text \<open>The port is narrowed to a \<^verbatim>\<open>uint16_t\<close>.\<close>

primrec serve_cluster :: "cluster_env \<Rightarrow> client_ptr \<Rightarrow> cluster_request \<Rightarrow> response option cluster_op" where
  "serve_cluster ce p (request_cluster_join key i host port) = request_cluster_join_op ce p key i host (nat (port mod 2 ^ 16))"
| "serve_cluster ce p request_cluster_leave = request_cluster_leave_op"
| "serve_cluster ce p request_cluster_key = bind_c (get_c m_cluster_key) (\<lambda>k. return_c (Some (text_or_null k)))"
| "serve_cluster ce p request_cluster_id = bind_c (get_c m_cluster_id) (\<lambda>i. return_c (Some (text_or_null i)))"
| "serve_cluster ce p (request_cluster_new key i) = request_cluster_new_op ce key i"
| "serve_cluster ce p (request_peer_auth i key ad pid) = request_peer_auth_op ce p i key ad pid"
| "serve_cluster ce p request_peers = request_peers_op"
| "serve_cluster ce p request_peer_ids = request_peer_ids_op"

section \<open>The invariant\<close>

text \<open>A client that is not in a pipe leaves no pointer behind that could dangle.\<close>

lemma serve_cluster_sound:
  assumes "sound_env ce"
  shows "sound True {Alive (Some (Tcp_Client n))} (serve_cluster ce (Tcp_Client n) req) nothing"
proof (cases req)
  case (request_cluster_join key i host port)
  with assms show ?thesis
    by (auto simp: request_cluster_join_op_def random_cluster_id_def intro!: sound_intros sound_peer_connect)
next
  case (request_peer_auth i key ad pid)
  have register: "sound True {Alive (Some (Tcp_Client n))} (register_peer ce n ad x) nothing" for x
  proof (rule soundI)
    fix c r c'
    assume c: "cluster_ok c" "\<forall>y \<in> {Alive (Some (Tcp_Client n))}. true_in c y" and run: "register_peer ce n ad x c = (r, c')"
    then obtain s where "sessions c n = Some s" by (auto simp: client_alive_def)
    from register_peer_ok [OF c(1) this run] show "cluster_ok c' \<and> grows c c' \<and> outcome True nothing r c'"
      by (simp add: outcome_def)
  qed
  have "sound True {Alive (Some (Tcp_Client n))} (reply_text i st ser) nothing" if "st \<noteq> MAX_STATUS" for st ser
    unfolding reply_text_def using message_heads(3) [OF that] by (auto intro!: sound_intros)
  with request_peer_auth register sound_own_addr [OF assms] show ?thesis
    by (auto simp: request_peer_auth_op_def is_on_cluster_port_def to_tcp_def intro!: sound_intros split: option.split)
qed (auto simp: request_cluster_leave_op_def request_cluster_new_op_def request_peers_op_def request_peer_ids_op_def intro!: sound_intros)

section \<open>Sessions\<close>

definition preserves :: "(cluster_server \<Rightarrow> bool) \<Rightarrow> 'a cluster_op \<Rightarrow> bool" where
  "preserves J m \<longleftrightarrow> (\<forall>c r c'. J c \<longrightarrow> m c = (r, c') \<longrightarrow> J c')"

named_theorems preserves_intros \<open>operations that preserve a property of a session\<close>

lemma preservesI: "(\<And>c r c'. J c \<Longrightarrow> m c = (r, c') \<Longrightarrow> J c') \<Longrightarrow> preserves J m"
  by (simp add: preserves_def)

lemma preservesD: "preserves J m \<Longrightarrow> J c \<Longrightarrow> m c = (r, c') \<Longrightarrow> J c'"
  by (auto simp: preserves_def)

lemma preserves_pure [preserves_intros]:
  "preserves J (return_c a)" "preserves J (throw_c e)" "preserves J (get_c f)" "preserves J (read_c g)"
  by (simp_all add: preserves_def comp_simps)

lemma preserves_bind [preserves_intros]:
  assumes "preserves J m" and "\<And>a. preserves J (f a)"
  shows "preserves J (bind_c m f)"
proof (rule preservesI)
  fix c r c' assume c: "J c" and run: "bind_c m f c = (r, c')"
  obtain r1 c1 where m: "m c = (r1, c1)" by fastforce
  with assms(1) c have "J c1" by (rule preservesD)
  with assms(2) m run show "J c'" by (cases r1) (auto simp: bind_c_run dest: preservesD)
qed

lemma preserves_if [preserves_intros]: "preserves J m \<Longrightarrow> preserves J n \<Longrightarrow> preserves J (if b then m else n)"
  by simp

lemma preserves_option [preserves_intros]:
  "preserves J m \<Longrightarrow> (\<And>a. preserves J (f a)) \<Longrightarrow> preserves J (case x of None \<Rightarrow> m | Some a \<Rightarrow> f a)"
  by (simp split: option.split)

lemma preserves_each [preserves_intros]: "(\<And>a. preserves J (f a)) \<Longrightarrow> preserves J (each_c f as)"
  by (induction as) (simp_all add: preserves_intros)

text \<open>A property of one session.\<close>

definition at_session :: "nat \<Rightarrow> (session_info option \<Rightarrow> bool) \<Rightarrow> cluster_server \<Rightarrow> bool" where
  "at_session n P c \<longleftrightarrow> P (sessions c n)"

lemma preserves_quiet: "(\<And>c. sessions (f c) = sessions c) \<Longrightarrow> preserves (at_session n P) (change_c f)"
  by (simp add: preserves_def at_session_def comp_simps)

lemma preserves_send [preserves_intros]: "preserves (at_session n P) (send_to p msg)" "preserves (at_session n P) (send_opt q msg)"
proof -
  show "preserves (at_session n P) (send_to p msg)" for p
    by (cases p) (auto simp: preserves_def at_session_def split: if_splits)
  then show "preserves (at_session n P) (send_opt q msg)" by (cases q) (simp_all add: send_opt_def preserves_intros)
qed

lemma preserves_steps [preserves_intros]:
  "preserves (at_session n P) (close_client k)" "preserves (at_session n P) (clear_auth_applications msg)"
  "preserves (at_session n P) (random_string ce l)" "preserves (at_session n P) (set_cluster_info ce key i)"
  "preserves (at_session n P) leave_cluster" "preserves (at_session n P) (post k op args)"
  "preserves (at_session n P) (post_plain k op args)" "preserves (at_session n P) (add_auth_application m key own q)"
  "preserves (at_session n P) clear_peers"
  unfolding close_client_def clear_auth_applications_def random_string_def set_cluster_info_def leave_cluster_def post_def post_plain_def
    add_auth_application_def clear_peers_def new_post_id_def next_msg_id_def expect_op_def random_cluster_id_def
  by (intro preserves_intros preserves_quiet; simp)+

text \<open>A new connection is another one, or the property holds of the sessions of peers.\<close>

definition peer_session_of :: "session_info \<Rightarrow> bool" where
  "peer_session_of s \<longleftrightarrow> auth s = PEER \<and> (\<exists>p. session_data s = Peer_Data p)"

lemma preserves_register:
  assumes "k \<noteq> n \<or> (\<forall>s. peer_session_of s \<longrightarrow> P (Some s))"
  shows "preserves (at_session n P) (register_peer ce k ad i)"
proof (rule preservesI)
  fix c r c' assume c: "at_session n P c" and run: "register_peer ce k ad i c = (r, c')"
  show "at_session n P c'"
  proof (cases "sessions c k")
    case None
    with run c show ?thesis by (auto simp: register_peer_def assign_c_def session_c_def at_session_def)
  next
    case (Some s)
    with run register_peer_run [OF Some] have "sessions c' = (sessions c)(k \<mapsto> \<lparr>session_data = Peer_Data (new_peer_data (ce_now ce) ad i), auth = PEER\<rparr>)"
      by auto
    with c assms show ?thesis by (auto simp: at_session_def peer_session_of_def)
  qed
qed

lemma preserves_connect:
  assumes "(sound_connections ce \<and> \<not> P None) \<or> (\<forall>s. peer_session_of s \<longrightarrow> P (Some s))"
  shows "preserves (at_session n P) (peer_connect ce host port key own q)"
proof -
  have "preserves (at_session n P) (new_peer ce host port)"
  proof (rule preservesI)
    fix c r c' assume c: "at_session n P c" and run: "new_peer ce host port c = (r, c')"
    show "at_session n P c'"
    proof (cases "ce_connect ce (sessions c) (takeWhile (\<lambda>x. x \<noteq> CHR 0x00) host) port")
      case (Inl e)
      with run c show ?thesis by (simp add: new_peer_def)
    next
      case (Inr con)
      obtain k h p where con: "con = (k, h, p)" by (cases con)
      let ?c = "c\<lparr>sessions := (sessions c)(k \<mapsto> new_session)\<rparr>"
      have reg: "register_peer ce k (make_address h p) None ?c = (Inr (), ?c\<lparr>m_peers := uset_insert k (m_peers ?c),
          sessions := (sessions ?c)(k \<mapsto> \<lparr>session_data = Peer_Data (new_peer_data (ce_now ce) (make_address h p) None), auth = PEER\<rparr>)\<rparr>)"
        by (rule register_peer_run) simp
      with run Inr con have s: "sessions c' = (sessions c)(k \<mapsto> \<lparr>session_data = Peer_Data (new_peer_data (ce_now ce) (make_address h p) None), auth = PEER\<rparr>)"
        by (auto simp: new_peer_def bind_c_run return_c_def)
      show ?thesis
      proof (cases "k = n")
        case True
        have "sessions c n = None" if "sound_connections ce" using sound_connect(2) [OF that] Inr con True by blast
        with c assms have "\<forall>s. peer_session_of s \<longrightarrow> P (Some s)" by (auto simp: at_session_def)
        with s True show ?thesis by (simp add: at_session_def peer_session_of_def)
      qed (use s c in \<open>simp add: at_session_def\<close>)
    qed
  qed
  then show ?thesis unfolding peer_connect_def by (intro preserves_intros)
qed

lemma serve_cluster_session:
  assumes "(sound_connections ce \<and> \<not> P None) \<or> (\<forall>s. peer_session_of s \<longrightarrow> P (Some s))"
    and "cluster_request_op req \<noteq> PEER_AUTH \<or> (\<forall>s. peer_session_of s \<longrightarrow> P (Some s))"
  shows "preserves (at_session n P) (serve_cluster ce p req)"
proof (cases req)
  case (request_peer_auth i key ad pid)
  with assms(2) have "preserves (at_session n P) (register_peer ce k ad x)" for k x by (intro preserves_register) simp
  then show ?thesis
    unfolding request_peer_auth serve_cluster.simps request_peer_auth_op_def is_on_cluster_port_def to_tcp_def reply_text_def
    by (cases p) (auto intro!: preserves_intros)
qed (use preserves_connect [OF assms(1)] in \<open>auto simp: request_cluster_join_op_def random_cluster_id_def request_cluster_leave_op_def
      request_cluster_new_op_def request_peers_op_def request_peer_ids_op_def intro!: preserves_intros\<close>)

lemma bind_c_Inr: "bind_c m f c = (Inr b, c') \<longleftrightarrow> (\<exists>a c1. m c = (Inr a, c1) \<and> f a c1 = (Inr b, c'))"
  by (auto simp: bind_c_def split: prod.splits sum.splits)

lemma reply_text_answers [simp]: "reply_text i st ser c \<noteq> (Inr None, c')"
  by (cases "new_reply i st") (simp_all add: reply_text_def comp_simps)

lemma serve_cluster_answers:
  "serve_cluster ce p req c = (Inr None, c') \<Longrightarrow> cluster_request_op req = CLUSTER_JOIN"
  by (cases req; cases "own_peer_addr ce")
     (auto simp: request_cluster_leave_op_def request_cluster_new_op_def request_peers_op_def request_peer_ids_op_def
       request_peer_auth_op_def bind_c_Inr return_c_def split: if_splits option.splits sum.split_asm)

text \<open>The one way into the cluster: the key, on the port of the cluster.\<close>

lemma cluster_port_run:
  "sound_env ce \<Longrightarrow> is_on_cluster_port ce (Tcp_Client n) c = (Inr (m_cluster_port (ce_bind ce) = ce_local_port ce n), c)"
  by (simp add: is_on_cluster_port_def to_tcp_def sound_own_addr comp_simps)

lemma reply_text_run:
  "st \<noteq> MAX_STATUS \<Longrightarrow>
    reply_text i st ser c = (Inr (Some (ser (''REPLY'' @ int_to_string i @ '' '' @ peer_status.word_of st))), c)"
  by (simp add: reply_text_def message_heads comp_simps)

lemma peer_auth_needs_key:
  assumes "request_peer_auth_op ce (Tcp_Client n) i key ad pid c = (r, c')" and "sound_env ce" and "sessions c n = Some s"
  shows "c' = c\<lparr>closed_clients := uset_insert n (closed_clients c)\<rparr> \<or>
    m_cluster_key c = Some key \<and> ce_local_port ce n = m_cluster_port (ce_bind ce) \<and>
    c' = c\<lparr>m_peers := uset_insert n (m_peers c),
      sessions := (sessions c)(n \<mapsto> \<lparr>session_data = Peer_Data (new_peer_data (ce_now ce) ad (Some pid)), auth = PEER\<rparr>)\<rparr>"
proof -
  note reg = bind_c_run(1) [where m = "register_peer ce n ad (Some pid)", OF register_peer_run [OF assms(3), of ce ad "Some pid"]]
  show ?thesis
    using assms(1) sound_own_addr [OF assms(2)]
    by (auto simp: request_peer_auth_op_def to_tcp_def bind_c_run(1) [OF cluster_port_run [OF assms(2)]] authenticate_cluster_key_def
        reg close_client_def reply_text_run split: if_splits option.splits)
qed

end
