(* ===== verification/Server.thy ===== *)
theory Server
  imports Request_Effects Transaction_Server Auth_Server Pubsub_Server Bind_Server Persistent_Server Cluster_Requests
begin

text \<open>
  The server as a whole (\<^verbatim>\<open>vanity/server.h\<close>): one object that inherits from all the servers, so that every
  request of \<^verbatim>\<open>RequestHandler\<close> has one handler, and the state is the state of all of them. Here every part's operation
  is lifted to the whole state, \<open>serve_request\<close> is the table of the handlers, and \<open>handle_message\<close> runs a message of a
  client through parser, permissions, handlers and responses.

  The session of the client whose message is handled is kept apart while the message is handled; \<open>handle\<close> takes it from
  the connections and stores it there again.
\<close>

section \<open>State\<close>

record server =
  srv_persist :: persist_server
  srv_counter :: nat
  srv_auth :: auth_server
  srv_pubsub :: pubsub_server
  srv_bind :: bind_server
  srv_cluster :: cluster_server
  srv_terminated :: bool

record environment =
  env_machine :: machine
  env_bcrypt :: bcrypt
  env_listen :: "string \<Rightarrow> nat \<Rightarrow> unit result"
  env_proxy :: "nat \<Rightarrow> nat"
  env_cluster :: cluster_env

abbreviation srv_databases :: "server \<Rightarrow> database list" where
  "srv_databases b \<equiv> m_databases (ps_locked (srv_persist b))"

definition on_persist :: "('a, persist_server) op \<Rightarrow> ('a, server) op" where
  "on_persist = lift_o srv_persist (\<lambda>p b. b\<lparr>srv_persist := p\<rparr>)"

definition on_databases :: "('a, locked_server) op \<Rightarrow> ('a, server) op" where
  "on_databases = lift_o (\<lambda>b. ps_locked (srv_persist b)) (\<lambda>l b. b\<lparr>srv_persist := (srv_persist b)\<lparr>ps_locked := l\<rparr>\<rparr>)"

definition on_transact :: "('a, transaction_server) op \<Rightarrow> ('a, server) op" where
  "on_transact =
     lift_o (\<lambda>b. \<lparr>m_counter = srv_counter b, m_locked = ps_locked (srv_persist b)\<rparr>)
       (\<lambda>t b. b\<lparr>srv_counter := m_counter t, srv_persist := (srv_persist b)\<lparr>ps_locked := m_locked t\<rparr>\<rparr>)"

definition on_auth :: "('a, auth_server) op \<Rightarrow> ('a, server) op" where
  "on_auth = lift_o srv_auth (\<lambda>a b. b\<lparr>srv_auth := a\<rparr>)"

definition on_pubsub :: "('a, pubsub_server) op \<Rightarrow> ('a, server) op" where
  "on_pubsub = lift_o srv_pubsub (\<lambda>p b. b\<lparr>srv_pubsub := p\<rparr>)"

definition on_bind :: "('a, bind_server) op \<Rightarrow> ('a, server) op" where
  "on_bind = lift_o srv_bind (\<lambda>p b. b\<lparr>srv_bind := p\<rparr>)"

text \<open>The cluster works on the sessions of all connections, the one of the client included.\<close>

definition cluster_env_of :: "environment \<Rightarrow> server \<Rightarrow> cluster_env" where
  "cluster_env_of env b = (env_cluster env)\<lparr>ce_bind := srv_bind b\<rparr>"

definition store_session :: "nat \<Rightarrow> session_info \<Rightarrow> server \<Rightarrow> server" where
  "store_session n s b = b\<lparr>srv_cluster := (srv_cluster b)\<lparr>sessions := (sessions (srv_cluster b))(n \<mapsto> s)\<rparr>\<rparr>"

definition on_cluster :: "environment \<Rightarrow> nat \<Rightarrow> (cluster_env \<Rightarrow> 'a cluster_op) \<Rightarrow> ('a, server) op" where
  "on_cluster env n m x =
     (case m (cluster_env_of env (snd x)) (srv_cluster (store_session n (fst x) (snd x))) of
        (r, c) \<Rightarrow> (r, case sessions c n of Some s \<Rightarrow> s | None \<Rightarrow> fst x, (snd x)\<lparr>srv_cluster := c\<rparr>))"

section \<open>Handlers\<close>

text \<open>The client that a handler is called with: the connection, or the proxy of the pipe.\<close>

definition client_at :: "environment \<Rightarrow> nat \<Rightarrow> nat \<Rightarrow> client_ptr" where
  "client_at env n depth = (if depth = 0 then Tcp_Client n else Piped_Client (env_proxy env depth))"

text \<open>\<^verbatim>\<open>PipeServer::request_exit\<close> and \<^verbatim>\<open>request_terminate\<close> refuse to work in a pipe; otherwise the connection is marked
  as closed, or the event that ends the server is pushed, and nothing is sent.\<close>

definition request_exit_op :: "nat \<Rightarrow> nat \<Rightarrow> (response option, server) op" where
  "request_exit_op n depth =
     (if 0 < depth then return_o (Some (error ''EXIT command not allowed in PIPE request''))
      else bind_o (change_o (\<lambda>b. b\<lparr>srv_cluster := snd (close_client n (srv_cluster b))\<rparr>)) (\<lambda>_. return_o None))"

definition request_terminate_op :: "nat \<Rightarrow> (response option, server) op" where
  "request_terminate_op depth =
     (if 0 < depth then return_o (Some (error ''TERMINATE command not allowed in PIPE request''))
      else bind_o (change_o (\<lambda>b. b\<lparr>srv_terminated := True\<rparr>)) (\<lambda>_. return_o None))"

definition answer :: "(response, server) op \<Rightarrow> (response option, server) op" where
  "answer m = bind_o m (\<lambda>r. return_o (Some r))"

primrec serve_server :: "environment \<Rightarrow> nat \<Rightarrow> nat \<Rightarrow> server_request \<Rightarrow> (response option, server) op" where
  "serve_server env n depth request_exit = request_exit_op n depth"
| "serve_server env n depth request_terminate = request_terminate_op depth"
| "serve_server env n depth request_ping = answer (return_o pong)"
| "serve_server env n depth (request_bind host port) = answer (on_bind (serve_bind (env_listen env) (Bind host port)))"
| "serve_server env n depth (request_unbind host port) = answer (on_bind (serve_bind (env_listen env) (Unbind host port)))"
| "serve_server env n depth request_persist = answer (on_persist (request_persist_op (mc_now (env_machine env))))"

text \<open>A pipe is not handled here: the dispatcher runs its requests.\<close>

primrec serve_request :: "environment \<Rightarrow> nat \<Rightarrow> nat \<Rightarrow> request \<Rightarrow> (response option, server) op" where
  "serve_request env n depth request_pipe = return_o None"
| "serve_request env n depth (Server_Request r) = serve_server env n depth r"
| "serve_request env n depth (Auth_Request r) = answer (on_auth (serve_auth (env_bcrypt env) r))"
| "serve_request env n depth (Transact_Request r) = answer (on_transact (serve_transact (env_machine env) r))"
| "serve_request env n depth (Pubsub_Request r) = answer (on_pubsub (serve_pubsub (client_at env n depth) r))"
| "serve_request env n depth (General_Request r) = answer (on_databases (serve_general (env_machine env) r))"
| "serve_request env n depth (Expiry_Request r) = answer (on_databases (serve_expiry (env_machine env) r))"
| "serve_request env n depth (Primitive_Request r) = answer (on_databases (serve_primitive (env_machine env) r))"
| "serve_request env n depth (List_Request r) = answer (on_databases (serve_list (env_machine env) r))"
| "serve_request env n depth (Set_Request r) = answer (on_databases (serve_set (env_machine env) r))"
| "serve_request env n depth (Hash_Request r) = answer (on_databases (serve_hash (env_machine env) r))"
| "serve_request env n depth (Cluster_Request r) =
     on_cluster env n (\<lambda>ce. serve_cluster ce (client_at env n depth) r)"

type_synonym client_state = "session_info \<times> server"

definition server_handler :: "environment \<Rightarrow> nat \<Rightarrow> client_state handler" where
  "server_handler env n depth req st =
     (case serve_request env n depth req st of
        (Inl e, st) \<Rightarrow> (Inl e, [], st)
      | (Inr None, st) \<Rightarrow> (Inr (), [], st)
      | (Inr (Some r), st) \<Rightarrow> (Inr (), [r], st))"

definition client_level :: "client_state \<Rightarrow> client_auth" where
  "client_level st = session_auth (fst st)"

definition handle_message ::
  "platform \<Rightarrow> environment \<Rightarrow> nat \<Rightarrow> nat \<Rightarrow> string \<Rightarrow> client_state \<Rightarrow> unit result \<times> response list \<times> client_state" where
  "handle_message pf env stack n msg st = handle_user pf (server_handler env n) client_level stack msg st"

text \<open>\<^verbatim>\<open>ClusterServer::handle\<close>: what the callback of the reader of a connection calls.\<close>

definition handle :: "platform \<Rightarrow> environment \<Rightarrow> nat \<Rightarrow> nat \<Rightarrow> string \<Rightarrow> server \<Rightarrow> unit result \<times> response list \<times> server" where
  "handle pf env stack n msg b =
     (case sessions (srv_cluster b) n of
        None \<Rightarrow> (undefined_behaviour, [], b)
      | Some s \<Rightarrow>
          if session_is_peer s then
            (case handle_peer (cluster_env_of env b) n msg (srv_cluster b) of (r, c) \<Rightarrow> (r, [], b\<lparr>srv_cluster := c\<rparr>))
          else
            (case handle_message pf env stack n msg (s, b) of (r, out, s, b) \<Rightarrow> (r, out, store_session n s b)))"

section \<open>The invariant\<close>

definition server_inv :: "session_info \<Rightarrow> server \<Rightarrow> bool" where
  "server_inv s b \<longleftrightarrow>
     selects_database s \<and> length (srv_databases b) = M_NUM_DATABASES \<and> wf_logins (m_logins (srv_auth b)) \<and>
     bind_inv s (srv_bind b)"

lemma bind_inv_session: "bind_inv s st = bind_inv s' st"
  by (simp add: bind_inv_def)

lemma keeps_answer [keeps_intros]: "keeps I m \<Longrightarrow> keeps I (answer m)"
  unfolding answer_def by (intro keeps_intros)

lemma keeps_on_databases [keeps_intros]: "keeps db_inv m \<Longrightarrow> keeps server_inv (on_databases m)"
  unfolding on_databases_def by (erule keeps_lift) (auto simp: server_inv_def db_inv_def bind_inv_def)

lemma keeps_on_transact [keeps_intros]: "keeps transact_inv m \<Longrightarrow> keeps server_inv (on_transact m)"
  unfolding on_transact_def by (erule keeps_lift) (auto simp: server_inv_def transact_inv_def db_inv_def bind_inv_def)

lemma keeps_on_auth [keeps_intros]:
  "keeps auth_inv m \<Longrightarrow> keeps (\<lambda>s st. selects_database s) m \<Longrightarrow> keeps server_inv (on_auth m)"
  unfolding on_auth_def
  by (rule keeps_lift [OF keeps_conj [of auth_inv _ "\<lambda>s st. selects_database s"]])
     (auto simp: server_inv_def auth_inv_def bind_inv_def selects_database_def)

lemma keeps_on_pubsub [keeps_intros]:
  "keeps (\<lambda>s st. selects_database s) m \<Longrightarrow> keeps server_inv (on_pubsub m)"
  unfolding on_pubsub_def by (erule keeps_lift) (auto simp: server_inv_def bind_inv_def)

lemma keeps_on_bind [keeps_intros]:
  "keeps bind_inv m \<Longrightarrow> keeps (\<lambda>s st. selects_database s) m \<Longrightarrow> keeps server_inv (on_bind m)"
  unfolding on_bind_def
  by (rule keeps_lift [OF keeps_conj [of bind_inv _ "\<lambda>s st. selects_database s"]])
     (auto simp: server_inv_def bind_inv_def)

lemma selects_auth: "keeps (\<lambda>s st. selects_database s) (serve_auth bc req)"
proof -
  have "keeps (\<lambda>s st. selects_database s) persist_logins"
    by (rule keepsI) (auto dest: persist_logins_keeps)
  moreover have "keeps (\<lambda>s st. selects_database s) (assign_o (session_set_auth a))" for a
    by (rule keeps_assign) (rule selects_set_auth)
  moreover have "keeps (\<lambda>s st. selects_database s) (assign_o (update_user_data (\<lambda>d. d\<lparr>username := u\<rparr>)))" for u
    by (rule keeps_assign) (auto intro: selects_update [where f = "\<lambda>d. d\<lparr>username := u\<rparr>"])
  ultimately show ?thesis
    by (cases req)
       (auto simp: request_add_user_op_def request_edit_user_op_def request_del_user_op_def request_auth_op_def
         request_change_password_op_def set_login_def intro!: keeps_intros)
qed

lemma selects_pubsub: "keeps (\<lambda>s st. selects_database s) (serve_pubsub c req)"
proof -
  have "keeps (\<lambda>s st. selects_database s) (assign_o (update_user_data (\<lambda>u. u\<lparr>channels := chs\<rparr>)))" for chs
    by (rule keeps_assign) (auto intro: selects_update [where f = "\<lambda>u. u\<lparr>channels := chs\<rparr>"])
  then show ?thesis
    by (cases req)
       (auto simp: request_publish_op_def request_subscribe_op_def request_subscribed_op_def request_unsubscribe_op_def
         request_unsubscribe_all_op_def intro!: keeps_intros)
qed

lemma selects_bind: "keeps (\<lambda>s st. selects_database s) (serve_bind listen req)"
proof -
  have "keeps (\<lambda>s st. selects_database s) (bind_step listen host port)" for host port
    by (rule keepsI) (auto simp: bind_step_def split: sum.splits)
  then show ?thesis
    by (cases req) (auto simp: request_bind_op_def request_unbind_op_def intro!: keeps_intros)
qed

lemma length_purge_all: "length (m_databases (purge_all now l)) = length (m_databases l)"
proof -
  have "length (m_databases (fold (locked_deep_purge now) ds l)) = length (m_databases l)" for ds
    by (induction ds arbitrary: l) (simp_all add: locked_deep_purge_def log_expiries_def Let_def fold_wal_expiry)
  then show ?thesis by (simp add: purge_all_def)
qed

lemma length_persist_no_check:
  "persist_no_check now ps = Inr ps' \<Longrightarrow> length (m_databases (ps_locked ps')) = length (m_databases (ps_locked ps))"
  by (auto simp: persist_no_check_def Let_def persist_through_journal_def persist_without_wal_def wal_to_def close_wal_def
      length_purge_all bind_result_Inr_iff split: option.splits)

lemma keeps_request_persist: "keeps server_inv (on_persist (request_persist_op now))"
proof -
  have "keeps (\<lambda>s ps. selects_database s \<and> length (m_databases (ps_locked ps)) = M_NUM_DATABASES) (request_persist_op now)"
    by (rule keepsI) (auto simp: request_persist_op_def dest: length_persist_no_check split: if_splits sum.splits)
  then show ?thesis
    unfolding on_persist_def by (rule keeps_lift) (auto simp: server_inv_def bind_inv_def)
qed

lemma keeps_exit: "keeps server_inv (request_exit_op n depth)" "keeps server_inv (request_terminate_op depth)"
  unfolding request_exit_op_def request_terminate_op_def
  by (intro keeps_intros keeps_change; simp add: server_inv_def)+

lemma keeps_on_cluster: "keeps server_inv (on_cluster env n (\<lambda>ce. serve_cluster ce p r))"
proof (rule keepsI)
  fix s b q s' b'
  assume inv: "server_inv s b" and run: "on_cluster env n (\<lambda>ce. serve_cluster ce p r) (s, b) = (q, s', b')"
  let ?ce = "cluster_env_of env b" and ?P = "\<lambda>x. \<forall>s. x = Some s \<longrightarrow> selects_database s"
  obtain c where c: "serve_cluster ?ce p r (srv_cluster (store_session n s b)) = (q, c)" "b' = b\<lparr>srv_cluster := c\<rparr>"
    "s' = (case sessions c n of Some s \<Rightarrow> s | None \<Rightarrow> s)"
    using run by (auto simp: on_cluster_def cong: option.case_cong split: prod.splits)
  have "at_session n ?P (srv_cluster (store_session n s b))"
    using inv by (simp add: at_session_def store_session_def server_inv_def)
  moreover have "\<forall>s. peer_session_of s \<longrightarrow> ?P (Some s)"
    by (auto simp: peer_session_of_def selects_database_def wf_session_def)
  then have "preserves (at_session n ?P) (serve_cluster ?ce p r)" by (intro serve_cluster_session) blast+
  ultimately have "at_session n ?P c" using c(1) by (blast dest: preservesD)
  with inv c(2,3) show "server_inv s' b'" by (auto simp: server_inv_def at_session_def bind_inv_def split: option.split)
qed

lemma serve_request_keeps: "keeps server_inv (serve_request env n depth req)"
proof (cases req)
  case (Server_Request r)
  then show ?thesis
    by (cases r)
       (auto intro!: keeps_exit keeps_answer keeps_pure keeps_on_bind bind.serve_keeps selects_bind keeps_request_persist
         simp del: serve_bind.simps)
next
  case (Cluster_Request r)
  then show ?thesis by (simp add: keeps_on_cluster)
qed (auto intro!: keeps_intros auth.serve_keeps selects_auth transact.serve_keeps selects_pubsub general.serve_keeps
       expiry.serve_keeps primitive.serve_keeps lists.serve_keeps sets.serve_keeps hashes.serve_keeps)

end
