(* ===== verification/Server_Security.thy ===== *)
theory Server_Security
  imports Server
begin

text \<open>
  What a message can do to the whole server, whatever bytes it has: the interpretations of the contracts of
  \<open>Request_Effects\<close> on the handlers of the server.
\<close>

section \<open>The invariant survives every message\<close>

lemma server_handler_run:
  "server_handler env n depth req st = (r, out, st') \<Longrightarrow> \<exists>q. serve_request env n depth req st = (q, st')"
  by (auto simp: server_handler_def split: prod.splits sum.splits option.splits)

interpretation invariant: permitted_handler "server_handler env n" client_level
  "\<lambda>st st'. server_inv (fst st) (snd st) \<longrightarrow> server_inv (fst st') (snd st')" for env n
proof (unfold_locales, goal_cases)
  case (3 req st depth r out st')
  then obtain q where "serve_request env n depth req st = (q, st')" using server_handler_run by blast
  then show ?case
    by (cases st, cases st') (auto intro: keepsD [OF serve_request_keeps])
qed simp_all

section \<open>Every message is answered\<close>

lemma answer_Some: "answer m x = (Inr r, y) \<Longrightarrow> r \<noteq> None"
  by (auto simp: answer_def bind_o_def return_o_def split: prod.splits sum.splits)

lemma serve_request_silent:
  assumes "serve_request env n depth req st = (Inr None, st')" and "req \<noteq> request_pipe"
  shows "depth = 0 \<and> last_request req \<or> request_op req = CLUSTER_JOIN"
proof (cases req)
  case (Server_Request r)
  with assms show ?thesis
    by (cases r)
       (auto simp: last_request_def request_exit_op_def request_terminate_op_def op_simps dest: answer_Some split: if_splits)
next
  case (Cluster_Request r)
  with assms show ?thesis by (auto simp: on_cluster_def dest: serve_cluster_answers split: prod.splits)
qed (use assms in \<open>auto dest: answer_Some\<close>)

interpretation answers: answering_handler "server_handler env n" for env n
proof unfold_locales
  fix depth req st out st'
  assume "server_handler env n depth req st = (Inr (), out, st')" and "req \<noteq> request_pipe"
  then show "out \<noteq> [] \<or> depth = 0 \<and> last_request req \<or> request_op req = CLUSTER_JOIN"
    using serve_request_silent [of env n depth req st]
    by (auto simp: server_handler_def split: prod.splits sum.splits option.splits)
qed

section \<open>Levels\<close>

lemma keeps_levelD: "keeps (\<lambda>s st. auth s = a) m \<Longrightarrow> auth (fst st) = a \<Longrightarrow> m st = (q, st') \<Longrightarrow> auth (fst st') = a"
  using keepsD [of "\<lambda>s st. auth s = a" m "fst st" "snd st" q "fst st'" "snd st'"] by simp

lemma keeps_level_lift [keeps_intros]: "keeps (\<lambda>s st. P s) m \<Longrightarrow> keeps (\<lambda>s st. P s) (lift_o part put m)"
  by (rule keeps_lift)

lemma keeps_level_update [keeps_intros]: "keeps (\<lambda>s st. auth s = a) (assign_o (update_user_data f))"
  by (rule keeps_assign) (auto simp: update_user_data_def bind_result_Inr_iff)

lemma keeps_level_databases [keeps_intros]:
  "keeps (\<lambda>s st. P s) (call_obj mc d trn call)" "keeps (\<lambda>s st. P s) (database_call mc call)"
proof -
  show call: "keeps (\<lambda>s st. P s) (call_obj mc d trn call)" for d trn
    by (rule keepsI) (auto simp: call_obj_def split: sum.splits)
  show "keeps (\<lambda>s st. P s) (database_call mc call)"
    unfolding database_call_def by (intro keeps_intros call)
qed

lemma keeps_level_parts [keeps_intros]:
  "keeps (\<lambda>s st. P s) persist_logins" "keeps (\<lambda>s st. P s) (bind_step listen host port)"
  "keeps (\<lambda>s st. P s) new_trn_id" "keeps (\<lambda>s st. P s) (request_persist_op now)"
proof -
  show "keeps (\<lambda>s st. P s) persist_logins" by (rule keepsI) (auto dest: persist_logins_keeps)
  show "keeps (\<lambda>s st. P s) (bind_step listen host port)" by (rule keepsI) (auto simp: bind_step_def split: sum.splits)
  show "keeps (\<lambda>s st. P s) new_trn_id" by (rule keepsI) (simp add: new_trn_id_def next_id_def)
  show "keeps (\<lambda>s st. P s) (request_persist_op now)"
    by (rule keepsI) (auto simp: request_persist_op_def split: if_splits sum.splits)
qed

text \<open>Only the two requests that authenticate change a level.\<close>

lemma serve_request_level:
  assumes "sound_connections (env_cluster env)" and "request_op req \<noteq> AUTH" and "request_op req \<noteq> PEER_AUTH"
  shows "keeps (\<lambda>s st. auth s = a) (serve_request env n depth req)"
proof (cases req)
  case (Server_Request r)
  then show ?thesis
    by (cases r)
       (auto simp: request_exit_op_def request_terminate_op_def on_bind_def on_persist_def request_bind_op_def request_unbind_op_def
         intro!: keeps_intros)
next
  case (Auth_Request r)
  with assms(2) show ?thesis
    by (cases r)
       (auto simp: request_add_user_op_def request_edit_user_op_def request_del_user_op_def request_change_password_op_def
         set_login_def on_auth_def intro!: keeps_intros)
next
  case (Transact_Request r)
  then show ?thesis
    by (cases r)
       (auto simp: request_transact_begin_op_def end_transaction_def on_transact_def on_locked_def set_trn_id_def
         intro!: keeps_intros)
next
  case (Pubsub_Request r)
  then show ?thesis
    by (cases r)
       (auto simp: request_publish_op_def request_subscribe_op_def request_subscribed_op_def request_unsubscribe_op_def
         request_unsubscribe_all_op_def on_pubsub_def intro!: keeps_intros)
next
  case (General_Request r)
  then show ?thesis
    by (cases r) (auto simp: on_databases_def to_db_def intro!: keeps_intros split: option.split)
next
  case (Expiry_Request r)
  then show ?thesis by (cases r) (auto simp: on_databases_def intro!: keeps_intros)
next
  case (Primitive_Request r)
  then show ?thesis by (cases r) (auto simp: on_databases_def intro!: keeps_intros)
next
  case (Cluster_Request r)
  have "keeps (\<lambda>s st. auth s = a) (on_cluster env n (\<lambda>ce. serve_cluster ce p r))" for p
  proof (rule keepsI)
    fix s b q s' b'
    assume "auth s = a" and run: "on_cluster env n (\<lambda>ce. serve_cluster ce p r) (s, b) = (q, s', b')"
    let ?ce = "cluster_env_of env b" and ?P = "\<lambda>x. \<exists>s. x = Some s \<and> auth s = a"
    obtain c where c: "serve_cluster ?ce p r (srv_cluster (store_session n s b)) = (q, c)"
      "s' = (case sessions c n of Some s \<Rightarrow> s | None \<Rightarrow> s)"
      using run by (auto simp: on_cluster_def cong: option.case_cong split: prod.splits)
    have "preserves (at_session n ?P) (serve_cluster ?ce p r)"
      by (rule serve_cluster_session)
         (use assms(1,3) Cluster_Request in \<open>simp_all add: sound_connections_def cluster_env_of_def\<close>)
    moreover have "at_session n ?P (srv_cluster (store_session n s b))"
      using \<open>auth s = a\<close> by (simp add: at_session_def store_session_def)
    ultimately have "at_session n ?P c" using c(1) by (blast dest: preservesD)
    with c(2) show "auth s' = a" by (auto simp: at_session_def)
  qed
  with Cluster_Request show ?thesis by simp
qed (auto simp: on_databases_def serve_list_def serve_set_def serve_hash_def intro!: keeps_intros)

interpretation level: permitted_handler "server_handler env n" client_level
  "\<lambda>st st'. sound_connections (env_cluster env) \<longrightarrow> client_level st \<noteq> UNKNOWN \<longrightarrow> client_level st' = client_level st" for env n
proof (unfold_locales, goal_cases)
  case (3 req st depth r out st')
  then obtain q where q: "serve_request env n depth req st = (q, st')" using server_handler_run by blast
  have "request_op req \<noteq> AUTH \<and> request_op req \<noteq> PEER_AUTH" if "client_level st \<noteq> UNKNOWN"
    using 3(1) that by (cases "client_level st") auto
  then show ?case
    using keeps_levelD [OF serve_request_level _ q] by (auto simp: client_level_def session_auth_def)
qed simp_all

section \<open>Clients that have not authenticated\<close>

lemma unknown_requests:
  assumes "is_permitted (request_op req) UNKNOWN" and "req \<noteq> request_pipe"
  obtains "req = Server_Request request_ping" | "req = Server_Request request_exit"
  | u p where "req = Auth_Request (request_auth u p)" | "req = Auth_Request request_auth_level"
  | i a b c where "req = Cluster_Request (request_peer_auth i a b c)"
proof (cases req)
  case (Server_Request r)
  with assms that show ?thesis by (cases r) auto
next
  case (Auth_Request r)
  with assms that show ?thesis by (cases r) auto
next
  case (Transact_Request r)
  with assms that show ?thesis by (cases r) auto
next
  case (Pubsub_Request r)
  with assms that show ?thesis by (cases r) auto
next
  case (General_Request r)
  with assms that show ?thesis by (cases r) auto
next
  case (Expiry_Request r)
  with assms that show ?thesis by (cases r) auto
next
  case (Primitive_Request r)
  with assms that show ?thesis by (cases r) auto
next
  case (List_Request r)
  with assms that show ?thesis by (cases r) auto
next
  case (Set_Request r)
  with assms that show ?thesis by (cases r) auto
next
  case (Hash_Request r)
  with assms that show ?thesis by (cases r) auto
next
  case (Cluster_Request r)
  with assms that show ?thesis by (cases r) auto
qed (use assms in simp)

text \<open>The ways an unknown client leaves a mark: it closes its connection, it proves to know a password, or
  it authenticates as a peer.\<close>

lemma unknown_client_effects:
  assumes "handle_message pf env stack n msg (s, b) = (r, out, s', b')" and "auth s = UNKNOWN"
    and "server_inv s b" and "sessions (srv_cluster b) n = Some s" and "sound_connections (env_cluster env)"
  obtains (nothing) "s' = s" "b' = b"
  | (closed) "s' = s" "b' = b\<lparr>srv_cluster := snd (close_client n (srv_cluster b))\<rparr>"
  | (login) u p i where "message_request pf msg = Inr (Auth_Request (request_auth u p))"
      "map_of (m_logins (srv_auth b)) u = Some i" "check_hash (env_bcrypt env) p (login_hash i) = Inr True"
      "b' = b" "auth s' = login_auth i" "session_username s' = Inr u"
  | (peer) i key ad pid where "message_request pf msg = Inr (Cluster_Request (request_peer_auth i key ad pid))"
      "m_cluster_key (srv_cluster b) = Some key" "ce_local_port (env_cluster env) n = m_cluster_port (srv_bind b)"
      "s' = \<lparr>session_data = Peer_Data (new_peer_data (ce_now (env_cluster env)) ad (Some pid)), auth = PEER\<rparr>"
      "b' = b\<lparr>srv_cluster := (srv_cluster b)\<lparr>m_peers := uset_insert n (m_peers (srv_cluster b)),
         sessions := (sessions (srv_cluster b))(n \<mapsto> s')\<rparr>\<rparr>"
proof -
  have "\<not> is_permitted PIPE (client_level (s, b))" using assms(2) by (simp add: client_level_def session_auth_def)
  with assms(1) [unfolded handle_message_def] show ?thesis
  proof (cases rule: handle_user_one_call)
    case none
    show ?thesis by (rule nothing) (use none in simp_all)
  next
    case (call req r' out')
    obtain q where q: "serve_request env n 0 req (s, b) = (q, s', b')" using server_handler_run [OF call(3)] by blast
    from call(1) have "is_permitted (request_op req) UNKNOWN" using assms(2) by (simp add: client_level_def session_auth_def)
    then show ?thesis using call(2)
    proof (cases rule: unknown_requests)
      case 1
      show ?thesis by (rule nothing) (use q 1 in \<open>simp_all add: answer_def op_simps\<close>)
    next
      case 2
      show ?thesis by (rule closed) (use q 2 in \<open>auto simp: request_exit_op_def op_simps\<close>)
    next
      case (3 u p)
      obtain q1 s1 a1 where run: "serve_auth (env_bcrypt env) (request_auth u p) (s, srv_auth b) = (q1, s1, a1)"
        by (cases "serve_auth (env_bcrypt env) (request_auth u p) (s, srv_auth b)") auto
      from assms(3) have "wf_logins (m_logins (srv_auth b))" by (simp add: server_inv_def)
      note checked = auth_checked [OF run this]
      then have "b\<lparr>srv_auth := a1\<rparr> = b" by (simp add: server_inv_def)
      with q 3 run have "s' = s1" "b' = b"
        by (auto simp: answer_def on_auth_def lift_o_def bind_o_def return_o_def simp del: serve_auth.simps split: sum.splits)
      from checked consider "s1 = s" | i where "map_of (m_logins (srv_auth b)) u = Some i"
        "check_hash (env_bcrypt env) p (login_hash i) = Inr True" "auth s1 = login_auth i" "session_username s1 = Inr u"
        by blast
      then show ?thesis
      proof cases
        case 1
        show ?thesis by (rule nothing) (use 1 \<open>s' = s1\<close> \<open>b' = b\<close> in simp_all)
      next
        case (2 i)
        show ?thesis by (rule login [of u p i]) (use 2 3 call(4) \<open>s' = s1\<close> \<open>b' = b\<close> in simp_all)
      qed
    next
      case 4
      show ?thesis
        by (rule nothing) (use q 4 in \<open>auto simp: answer_def on_auth_def lift_o_def bind_o_def op_simps\<close>)
    next
      case (5 i x y z)
      let ?ce = "cluster_env_of env b" and ?c = "srv_cluster b"
      have c: "srv_cluster (store_session n s b) = ?c" using assms(4) by (simp add: store_session_def map_upd_triv)
      obtain c where run: "request_peer_auth_op ?ce (Tcp_Client n) i x y z ?c = (q, c)" "b' = b\<lparr>srv_cluster := c\<rparr>"
        "s' = (case sessions c n of Some s \<Rightarrow> s | None \<Rightarrow> s)"
        using q 5 c by (auto simp: on_cluster_def client_at_def cong: option.case_cong split: prod.splits)
      have "sound_env ?ce"
        using assms(3,5) bind_inv_session by (auto simp: sound_env_def cluster_env_of_def sound_connections_def server_inv_def bind_inv_def)
      from peer_auth_needs_key [OF run(1) this assms(4)] show ?thesis
      proof
        assume "c = ?c\<lparr>closed_clients := uset_insert n (closed_clients ?c)\<rparr>"
        with run assms(4) show ?thesis by (intro closed) (simp_all add: close_client_def comp_simps)
      next
        assume "m_cluster_key ?c = Some x \<and> ce_local_port ?ce n = m_cluster_port (ce_bind ?ce) \<and>
          c = ?c\<lparr>m_peers := uset_insert n (m_peers ?c),
            sessions := (sessions ?c)(n \<mapsto> \<lparr>session_data = Peer_Data (new_peer_data (ce_now ?ce) y (Some z)), auth = PEER\<rparr>)\<rparr>"
        with run(2,3) 5 call(4) show ?thesis by (intro peer [of i x y z]) (simp_all add: cluster_env_of_def)
      qed
    qed
  qed
qed

end
