(* ===== verification/Server_Requests.thy ===== *)
theory Server_Requests
  imports Server_Security
begin

text \<open>
  Requests from the bytes of the message to the bytes of the response: an authenticated client sends a
  request in the documented format, and the handler's answer is what it gets.
\<close>

lemma handle_user_request:
  assumes "valid_request pf r" and "float_format pf ftoa" and "spaces ws" and "fits_size (show_request ftoa r @ ws)"
    and "is_permitted (request_op r) (auth_of s)" and "h 0 r s = (Inr (), out, s')"
  shows "handle_user pf h auth_of stack (show_request ftoa r @ ws) s = (Inr (), out, s')"
proof -
  have "do_handle_single pf h auth_of p 0 True (at [] ([] @ show_request ftoa r @ ws), s) =
      (Inr True, out, if ends_here True r then at ([] @ [] @ show_request ftoa r @ ws) []
        else at ([] @ [] @ show_request ftoa r) ws, s')" for p
    by (rule handle_single_permitted) (use assms spaces_separated in \<open>simp_all\<close>)
  then show ?thesis by (simp add: handle_user_def do_handle_one [simplified] at_def)
qed

section \<open>Calls on the database of a client\<close>

text \<open>What is visible of a database through the locked server.\<close>

definition db_view :: "time_t \<Rightarrow> nat \<Rightarrow> locked_server \<Rightarrow> view_t" where
  "db_view now d l = view now (m_databases l ! d)"

lemma wal_log_databases [simp]: "m_databases (wal_log d trn op args l) = m_databases l"
  by (simp add: wal_log_def wal_db_op_def wal_def)

lemma log_expiries_view [simp]: "d < length (m_databases l) \<Longrightarrow> db_view now i (log_expiries d l) = db_view now i l"
  by (cases "i = d") (simp_all add: db_view_def log_expiries_def Let_def fold_wal_expiry)

lemma locked_str_set:
  assumes "d < length (m_databases l)"
  shows "\<exists>l'. locked_call fadd dis now trn d (call_str_set k v) l = Inr (RUnit, l') \<and>
    length (m_databases l') = length (m_databases l) \<and>
    (\<forall>t. db_view t d l' = (db_view t d l)(k \<mapsto> (VStr v, None))) \<and> (\<forall>t i. i \<noteq> d \<longrightarrow> db_view t i l' = db_view t i l)"
proof -
  obtain r l' where run: "locked_call fadd dis now trn d (call_str_set k v) l = Inr (r, l')"
    by (simp add: locked_call_def Let_def on_db_def str_set_def)
  then have "r = RUnit" "length (m_databases l') = length (m_databases l)"
    "db_view t d l' = (db_view t d l)(k \<mapsto> (VStr v, None))" "i \<noteq> d \<Longrightarrow> db_view t i l' = db_view t i l" for t i
    using assms length_locked_call [OF run]
    by (auto simp: locked_call_def Let_def on_db_def str_set_def) (simp_all add: db_view_def view_set_data)
  with run show ?thesis by blast
qed

lemma locked_get:
  assumes "d < length (m_databases l)"
  shows "\<exists>l'. locked_call fadd dis now trn d (call_get k) l = Inr (RData (map_option fst (db_view now d l k)), l') \<and>
    length (m_databases l') = length (m_databases l)"
proof -
  obtain l' where run: "locked_call fadd dis now trn d (call_get k) l = Inr (RData (map_option fst (db_view now d l k)), l')"
    by (simp add: locked_call_def Let_def on_db_def General_Database.get_def expiry_aware_get_def lookup_touch db_view_def)
  with length_locked_call [OF run] show ?thesis by blast
qed

section \<open>Storing and reading\<close>

text \<open>A client that is logged in, on a server whose invariant holds.\<close>

definition logged_in :: "session_info \<Rightarrow> server \<Rightarrow> user_data_t \<Rightarrow> bool" where
  "logged_in s b u \<longleftrightarrow> server_inv s b \<and> session_data s = User_Data u"

lemma logged_in_level: "logged_in s b u \<Longrightarrow> client_level (s, b) = USER \<or> client_level (s, b) = ADMIN"
  by (auto simp: logged_in_def server_inv_def selects_database_def wf_session_def client_level_def session_auth_def)

lemma logged_in_db: "logged_in s b u \<Longrightarrow> db_inv s (ps_locked (srv_persist b)) \<and> used_database u < length (srv_databases b)"
  by (auto simp: logged_in_def server_inv_def db_inv_def selects_database_def)

abbreviation with_locked :: "server \<Rightarrow> locked_server \<Rightarrow> server" where
  "with_locked b l \<equiv> b\<lparr>srv_persist := (srv_persist b)\<lparr>ps_locked := l\<rparr>\<rparr>"

lemma logged_in_with_locked:
  "logged_in s b u \<Longrightarrow> length (m_databases l) = length (srv_databases b) \<Longrightarrow> logged_in s (with_locked b l) u"
  by (simp add: logged_in_def server_inv_def)

lemma serve_databases:
  assumes "logged_in s b u"
    and "locked_call (mc_fadd mc) (mc_draw mc) (mc_now mc) (trn_id u) (used_database u) call (ps_locked (srv_persist b)) = Inr (r, l)"
  shows "answer (on_databases (bind_o (database_call mc call) reply)) (s, b) =
    (case reply r (s, l) of
       (Inl e, s', l') \<Rightarrow> (Inl e, s', with_locked b l') | (Inr x, s', l') \<Rightarrow> (Inr (Some x), s', with_locked b l'))"
proof -
  have "database_call mc call (s, ps_locked (srv_persist b)) = (Inr r, s, l)"
    using database_call_user [of s "ps_locked (srv_persist b)" u mc call] assms logged_in_db [OF assms(1)]
    by (simp add: call_obj_def logged_in_def)
  then show ?thesis
    by (simp add: answer_def on_databases_def lift_o_def bind_o_def return_o_def split: prod.splits sum.splits)
qed

lemma set_message:
  assumes "logged_in s b u" and "float_format pf ftoa" and "spaces ws"
    and "fits_size (show_request ftoa (Primitive_Request (request_str_set k v)) @ ws)"
  shows "\<exists>b'. handle_message pf env stack n (show_request ftoa (Primitive_Request (request_str_set k v)) @ ws) (s, b) =
      (Inr (), [ok], s, b') \<and> logged_in s b' u \<and>
    (\<forall>t. view t (srv_databases b' ! used_database u) = (view t (srv_databases b ! used_database u))(k \<mapsto> (VStr v, None))) \<and>
    (\<forall>t i. i \<noteq> used_database u \<longrightarrow> view t (srv_databases b' ! i) = view t (srv_databases b ! i))"
proof -
  let ?mc = "env_machine env"
  obtain l where l: "locked_call (mc_fadd ?mc) (mc_draw ?mc) (mc_now ?mc) (trn_id u) (used_database u) (call_str_set k v)
      (ps_locked (srv_persist b)) = Inr (RUnit, l)" "length (m_databases l) = length (srv_databases b)"
    "\<forall>t. db_view t (used_database u) l = (db_view t (used_database u) (ps_locked (srv_persist b)))(k \<mapsto> (VStr v, None))"
    "\<forall>t i. i \<noteq> used_database u \<longrightarrow> db_view t i l = db_view t i (ps_locked (srv_persist b))"
    using locked_str_set logged_in_db [OF assms(1)] by metis
  have "server_handler env n 0 (Primitive_Request (request_str_set k v)) (s, b) = (Inr (), [ok], s, with_locked b l)"
    using serve_databases [OF assms(1) l(1), of unit_reply] by (simp add: server_handler_def unit_reply_def return_o_def)
  then have "handle_message pf env stack n (show_request ftoa (Primitive_Request (request_str_set k v)) @ ws) (s, b) =
      (Inr (), [ok], s, with_locked b l)"
    unfolding handle_message_def using assms logged_in_level [OF assms(1)] by (intro handle_user_request) auto
  with l logged_in_with_locked [OF assms(1) l(2)] show ?thesis by (auto simp: db_view_def)
qed

lemma get_message:
  assumes "logged_in s b u" and "float_format pf ftoa" and "spaces ws"
    and "fits_size (show_request ftoa (General_Request (request_get k)) @ ws)"
  shows "\<exists>b'. handle_message pf env stack n (show_request ftoa (General_Request (request_get k)) @ ws) (s, b) =
      (Inr (), [case view (mc_now (env_machine env)) (srv_databases b ! used_database u) k of
                  None \<Rightarrow> null
                | Some (x, t) \<Rightarrow> ok_value (serialize_data (mc_to_string (env_machine env))) x], s, b') \<and>
    logged_in s b' u"
proof -
  let ?mc = "env_machine env"
  let ?v = "db_view (mc_now ?mc) (used_database u) (ps_locked (srv_persist b)) k"
  obtain l where l: "locked_call (mc_fadd ?mc) (mc_draw ?mc) (mc_now ?mc) (trn_id u) (used_database u) (call_get k)
      (ps_locked (srv_persist b)) = Inr (RData (map_option fst ?v), l)" "length (m_databases l) = length (srv_databases b)"
    using locked_get logged_in_db [OF assms(1)] by metis
  let ?r = "case ?v of None \<Rightarrow> null | Some (x, t) \<Rightarrow> ok_value (serialize_data (mc_to_string ?mc)) x"
  have "server_handler env n 0 (General_Request (request_get k)) (s, b) = (Inr (), [?r], s, with_locked b l)"
    using serve_databases [OF assms(1) l(1), of "get_reply ?mc"]
    by (cases ?v) (auto simp: server_handler_def return_o_def)
  then have "handle_message pf env stack n (show_request ftoa (General_Request (request_get k)) @ ws) (s, b) =
      (Inr (), [?r], s, with_locked b l)"
    unfolding handle_message_def using assms logged_in_level [OF assms(1)] by (intro handle_user_request) auto
  with logged_in_with_locked [OF assms(1) l(2)] show ?thesis by (auto simp: db_view_def)
qed

section \<open>Transactions\<close>

text \<open>Beginning and ending a transaction is written to the log, and nothing else happens to the databases.\<close>

lemma locked_transact:
  assumes "d < length (m_databases l)" and "call = call_begin \<or> call = call_commit \<or> call = call_discard"
  shows "\<exists>l'. locked_call fadd dis now trn d call l = Inr (RUnit, l') \<and>
    length (m_databases l') = length (m_databases l) \<and> (\<forall>t i. db_view t i l' = db_view t i l)"
proof -
  obtain l' where run: "locked_call fadd dis now trn d call l = Inr (RUnit, l')"
    and l': "l' = log_expiries d (wal_log d trn (call_op call) (call_args call) l)"
    using assms(2) by (auto simp: locked_call_def Let_def wal_log_def wal_db_op_def wal_def)
  have "db_view t i l' = db_view t i l" for t i
    using assms(1) unfolding l' by (simp add: db_view_def [of _ _ "wal_log d trn (call_op call) (call_args call) l"] db_view_def [of _ _ l])
  with run length_locked_call [OF run] show ?thesis by blast
qed

definition with_trn :: "trn_id_t \<Rightarrow> session_info \<Rightarrow> user_data_t \<Rightarrow> session_info" where
  "with_trn i s u = s\<lparr>session_data := User_Data (u\<lparr>trn_id := i\<rparr>)\<rparr>"

lemma logged_in_with_trn: "logged_in s b u \<Longrightarrow> logged_in (with_trn i s u) b (u\<lparr>trn_id := i\<rparr>)"
  by (auto simp: logged_in_def with_trn_def server_inv_def selects_database_def wf_session_def bind_inv_def)

lemma logged_in_counter: "logged_in s b u \<Longrightarrow> logged_in s (b\<lparr>srv_counter := c\<rparr>) u"
  by (simp add: logged_in_def server_inv_def)

lemma logged_in_session:
  assumes "logged_in s b u"
  shows "session_trn_id s = Inr (trn_id u)" "session_db s = Inr (used_database u)"
    "update_user_data (\<lambda>u. u\<lparr>trn_id := i\<rparr>) s = Inr (with_trn i s u)"
  using assms by (simp_all add: logged_in_def session_trn_id_def session_db_def session_user_data_def update_user_data_def with_trn_def)

lemma begin_message:
  assumes "logged_in s b u" and "float_format pf ftoa" and "spaces ws" and "trn_id u = NO_TRN_ID"
    and "fits_size (show_request ftoa (Transact_Request request_transact_begin) @ ws)"
  shows "\<exists>b'. handle_message pf env stack n (show_request ftoa (Transact_Request request_transact_begin) @ ws) (s, b) =
      (Inr (), [ok], with_trn (srv_counter b) s u, b') \<and> logged_in (with_trn (srv_counter b) s u) b' (u\<lparr>trn_id := srv_counter b\<rparr>) \<and>
    srv_counter b' = (srv_counter b + 1) mod 2 ^ 64 \<and> (\<forall>t i. view t (srv_databases b' ! i) = view t (srv_databases b ! i))"
proof -
  let ?mc = "env_machine env" and ?l = "ps_locked (srv_persist b)" and ?i = "srv_counter b"
  obtain l where l: "locked_call (mc_fadd ?mc) (mc_draw ?mc) (mc_now ?mc) ?i (used_database u) call_begin ?l = Inr (RUnit, l)"
    "length (m_databases l) = length (m_databases ?l)" "\<forall>t i. db_view t i l = db_view t i ?l"
    using locked_transact logged_in_db [OF assms(1)] by metis
  let ?b = "with_locked (b\<lparr>srv_counter := (?i + 1) mod 2 ^ 64\<rparr>) l"
  have "serve_request env n 0 (Transact_Request request_transact_begin) (s, b) = (Inr (Some ok), with_trn ?i s u, ?b)"
    using l(1) logged_in_db [OF assms(1)] logged_in_session [OF assms(1)] assms(4)
    by (simp add: answer_def on_transact_def request_transact_begin_op_def on_locked_def lift_o_def bind_o_def op_simps
        database_obj_def call_obj_def new_trn_id_def next_id_def set_trn_id_def)
  then have "handle_message pf env stack n (show_request ftoa (Transact_Request request_transact_begin) @ ws) (s, b) =
      (Inr (), [ok], with_trn ?i s u, ?b)"
    unfolding handle_message_def using assms logged_in_level [OF assms(1)]
    by (intro handle_user_request) (auto simp: server_handler_def)
  moreover have "logged_in (with_trn ?i s u) ?b (u\<lparr>trn_id := ?i\<rparr>)"
    using assms(1) l(2) by (intro logged_in_with_trn logged_in_with_locked logged_in_counter) simp_all
  ultimately show ?thesis using l(3) by (auto simp: db_view_def)
qed

lemma discard_message:
  assumes "logged_in s b u" and "float_format pf ftoa" and "spaces ws" and "trn_id u \<noteq> NO_TRN_ID"
    and "fits_size (show_request ftoa (Transact_Request request_transact_discard) @ ws)"
  shows "\<exists>b'. handle_message pf env stack n (show_request ftoa (Transact_Request request_transact_discard) @ ws) (s, b) =
      (Inr (), [ok], with_trn NO_TRN_ID s u, b') \<and> logged_in (with_trn NO_TRN_ID s u) b' (u\<lparr>trn_id := NO_TRN_ID\<rparr>) \<and>
    (\<forall>t i. view t (srv_databases b' ! i) = view t (srv_databases b ! i))"
proof -
  let ?mc = "env_machine env" and ?l = "ps_locked (srv_persist b)"
  obtain l where l: "locked_call (mc_fadd ?mc) (mc_draw ?mc) (mc_now ?mc) (trn_id u) (used_database u) call_discard ?l = Inr (RUnit, l)"
    "length (m_databases l) = length (m_databases ?l)" "\<forall>t i. db_view t i l = db_view t i ?l"
    using locked_transact logged_in_db [OF assms(1)] by metis
  have "serve_request env n 0 (Transact_Request request_transact_discard) (s, b) =
      (Inr (Some ok), with_trn NO_TRN_ID s u, with_locked b l)"
    using l(1) logged_in_db [OF assms(1)] logged_in_session [OF assms(1)] assms(4)
    by (simp add: answer_def on_transact_def end_transaction_def on_locked_def lift_o_def bind_o_def op_simps
        database_obj_def call_obj_def set_trn_id_def)
  then have "handle_message pf env stack n (show_request ftoa (Transact_Request request_transact_discard) @ ws) (s, b) =
      (Inr (), [ok], with_trn NO_TRN_ID s u, with_locked b l)"
    unfolding handle_message_def using assms logged_in_level [OF assms(1)]
    by (intro handle_user_request) (auto simp: server_handler_def)
  moreover have "logged_in (with_trn NO_TRN_ID s u) (with_locked b l) (u\<lparr>trn_id := NO_TRN_ID\<rparr>)"
    using assms(1) l(2) by (intro logged_in_with_trn logged_in_with_locked) simp_all
  ultimately show ?thesis using l(3) by (auto simp: db_view_def)
qed

section \<open>The pipe that calls itself\<close>

lemma server_serves_get: "serves_get (server_handler env n) client_level (\<lambda>st. \<exists>u. logged_in (fst st) (snd st) u)"
  unfolding serves_get_def
proof (intro allI impI)
  fix depth key and st :: client_state
  assume "(\<exists>u. logged_in (fst st) (snd st) u) \<and> client_level st \<noteq> UNKNOWN"
  then obtain s b u where st: "st = (s, b)" "logged_in s b u" by (cases st) auto
  let ?mc = "env_machine env"
  obtain r l where l: "locked_call (mc_fadd ?mc) (mc_draw ?mc) (mc_now ?mc) (trn_id u) (used_database u) (call_get key)
      (ps_locked (srv_persist b)) = Inr (RData r, l)" "length (m_databases l) = length (srv_databases b)"
    using locked_get logged_in_db [OF st(2)] by metis
  then show "(\<exists>u. logged_in (fst (snd (snd (server_handler env n depth (General_Request (request_get key)) st))))
        (snd (snd (snd (server_handler env n depth (General_Request (request_get key)) st)))) u) \<and>
      client_level (snd (snd (server_handler env n depth (General_Request (request_get key)) st))) = client_level st \<and>
      (\<forall>e. fst (server_handler env n depth (General_Request (request_get key)) st) = Inl e \<longrightarrow> \<not> is_crash e)"
    using serve_databases [OF st(2) l(1), of "get_reply ?mc"] logged_in_with_locked [OF st(2) l(2)]
    by (cases r) (auto simp: st(1) server_handler_def return_o_def client_level_def)
qed

lemma loop_message_crashes:
  assumes "logged_in s b u"
  shows "fst (handle_message pf env stack n loop_message (s, b)) = Inl StackOverflow"
  unfolding handle_message_def
  by (rule loop_crashes [OF server_serves_get]) (use assms logged_in_level [OF assms] in auto)

end
