(* ===== verification/Configuration.thy ===== *)
theory Configuration
  imports Cluster_State
begin

text \<open>
  From the command line to the configuration of the server: \<^verbatim>\<open>arguments.h\<close> and \<^verbatim>\<open>config.cpp\<close>. A position in an
  argument is what is left of the argument from there; a character read past the end is the final \<^verbatim>\<open>NUL\<close>.
  The directories of the system are parameters. The theorems: which arguments are accepted and what they mean, that
  the ports are never taken from an empty vector, and that every port is one of sixteen bits.
\<close>

section \<open>Arguments\<close>

record arguments =
  m_args :: "string list"
  m_kwargs :: "(string \<times> string) list"
  m_multi_kwargs :: "(string \<times> string list) list"

definition no_arguments :: arguments where
  "no_arguments = \<lparr>m_args = [], m_kwargs = [], m_multi_kwargs = []\<rparr>"

definition at_nul :: "string \<Rightarrow> bool" where
  "at_nul s \<longleftrightarrow> s = [] \<or> hd s = CHR 0x00"

definition add_arg :: "string \<Rightarrow> arguments \<Rightarrow> arguments" where
  "add_arg arg a = a\<lparr>m_args := uset_insert arg (m_args a)\<rparr>"

definition add_kwarg :: "string \<Rightarrow> string \<Rightarrow> arguments \<Rightarrow> arguments" where
  "add_kwarg key val a =
     (case map_of (m_multi_kwargs a) key of
        Some vs \<Rightarrow> a\<lparr>m_multi_kwargs := AList.update key (vs @ [val]) (m_multi_kwargs a)\<rparr>
      | None \<Rightarrow>
          (case map_of (m_kwargs a) key of
             None \<Rightarrow> a\<lparr>m_kwargs := AList.update key val (m_kwargs a)\<rparr>
           | Some v \<Rightarrow> a\<lparr>m_multi_kwargs := AList.update key [v, val] (m_multi_kwargs a), m_kwargs := AList.delete key (m_kwargs a)\<rparr>))"

text \<open>The word, and what is left.\<close>

fun extract_word :: "string \<Rightarrow> string \<times> string" where
  "extract_word [] = ([], [])"
| "extract_word (c # cs) =
     (if c = CHR 0x00 \<or> c = CHR ''='' then ([], c # cs)
      else case extract_word cs of (w, r) \<Rightarrow> ((if c = CHR ''-'' then CHR ''_'' else c) # w, r))"

text \<open>The left of a sum is the message of a \<^verbatim>\<open>MalformedArgument\<close>.\<close>

definition extract_argument :: "string \<Rightarrow> arguments \<Rightarrow> string + arguments" where
  "extract_argument s a =
     (case extract_word s of (key, r) \<Rightarrow>
        if at_nul r then Inr (add_arg key a)
        else if at_nul (tl r) then Inl (''expected value after = at '' @ key)
        else case extract_word (tl r) of (val, r) \<Rightarrow>
          if \<not> at_nul r then Inl (''unexpected = after -'' @ val) else Inr (add_kwarg key val a))"

definition parse_arg :: "string \<Rightarrow> arguments \<Rightarrow> string + arguments" where
  "parse_arg s a =
     (if take 2 s \<noteq> ''--'' then Inl ''expected -- at start of argument''
      else if at_nul (drop 2 s) then Inl ''expected argument after --''
      else extract_argument (drop 2 s) a)"

primrec parse :: "string list \<Rightarrow> arguments \<Rightarrow> string + arguments" where
  "parse [] a = Inr a"
| "parse (s # ss) a = (case parse_arg s a of Inl m \<Rightarrow> Inl m | Inr a \<Rightarrow> parse ss a)"

section \<open>Configuration\<close>

datatype LogLevel = level_DEBUG | level_INFO | level_WARNING | level_ERROR | level_CRITICAL | level_DISABLED

record config =
  cfg_journal_file :: "string option"
  cfg_working_dir :: "string option"
  cfg_lock_file :: "string option"
  cfg_auth_file :: "string option"
  cfg_wal_file :: "string option"
  cfg_db_file :: "string option"
  cfg_log_file :: string
  cfg_host :: string
  cfg_cluster_port :: nat
  cfg_ports :: "nat list"
  cfg_log_level :: LogLevel

text \<open>The system: the absolute form of a path, the directory of the user, and the creation of a directory.\<close>

record config_system =
  sys_absolute :: "string \<Rightarrow> string"
  sys_home :: string
  sys_create_directories :: "string \<Rightarrow> unit result"

text \<open>\<^verbatim>\<open>operator/\<close> of paths, for a relative path on the right.\<close>

definition path_append :: "string \<Rightarrow> string \<Rightarrow> string" where
  "path_append p q = (if p = [] \<or> last p = CHR ''/'' then p @ q else p @ ''/'' @ q)"

definition to_lower :: "string \<Rightarrow> string" where
  "to_lower = map (\<lambda>c. let n = (of_char c :: nat) in if 65 \<le> n \<and> n \<le> 90 then char_of (n + 32) else c)"

definition DEFAULT_PORTS :: "nat list" where
  "DEFAULT_PORTS = [9955, 19955]"

definition uint16 :: "int \<Rightarrow> nat" where
  "uint16 i = nat (i mod 65536)"

definition extract_working_dir :: "config_system \<Rightarrow> arguments \<Rightarrow> string option result" where
  "extract_working_dir sys a =
     (if ''no_working_dir'' \<in> set (m_args a) then Inr None
      else let dir = (case map_of (m_kwargs a) ''working_dir'' of
                        Some d \<Rightarrow> sys_absolute sys d | None \<Rightarrow> path_append (sys_home sys) ''.vanity'')
           in bind_result (sys_create_directories sys dir) (\<lambda>_. Inr (Some dir)))"

primrec stoi_ports :: "string list \<Rightarrow> nat list result" where
  "stoi_ports [] = Inr []"
| "stoi_ports (p # ps) = bind_result (stoi p) (\<lambda>i. bind_result (stoi_ports ps) (\<lambda>is. Inr (uint16 i # is)))"

definition extract_ports :: "arguments \<Rightarrow> nat list result" where
  "extract_ports a =
     (case map_of (m_multi_kwargs a) ''port'' of
        Some ps \<Rightarrow> stoi_ports ps
      | None \<Rightarrow> (case map_of (m_kwargs a) ''port'' of Some p \<Rightarrow> stoi_ports [p] | None \<Rightarrow> Inr DEFAULT_PORTS))"

definition extract_log_level :: "arguments \<Rightarrow> LogLevel" where
  "extract_log_level a =
     (case map_of (m_kwargs a) ''log_level'' of
        None \<Rightarrow> level_INFO
      | Some s \<Rightarrow>
          let level = to_lower s in
          if level = ''debug'' then level_DEBUG else if level = ''info'' then level_INFO
          else if level = ''warning'' then level_WARNING else if level = ''error'' then level_ERROR
          else if level = ''critical'' then level_CRITICAL else level_DISABLED)"

text \<open>\<^verbatim>\<open>back()\<close> of an empty vector is undefined.\<close>

definition get_default_cluster_port :: "nat list \<Rightarrow> (nat \<times> nat list) result" where
  "get_default_cluster_port ps = (if ps = [] then undefined_behaviour else Inr (last ps, butlast ps))"

definition extract_cluster_port :: "arguments \<Rightarrow> nat list \<Rightarrow> (nat \<times> nat list) result" where
  "extract_cluster_port a ps =
     (case map_of (m_kwargs a) ''cluster_port'' of
        Some p \<Rightarrow> bind_result (stoi p) (\<lambda>i. Inr (uint16 i, ps)) | None \<Rightarrow> get_default_cluster_port ps)"

definition extract_host :: "arguments \<Rightarrow> string" where
  "extract_host a = (case map_of (m_kwargs a) ''host'' of Some h \<Rightarrow> h | None \<Rightarrow> ''localhost'')"

text \<open>The file of the log, and its level.\<close>

definition extract_logging :: "arguments \<Rightarrow> string option \<Rightarrow> string \<times> LogLevel" where
  "extract_logging a dir =
     (case dir of
        None \<Rightarrow> ([], level_DISABLED)
      | Some d \<Rightarrow> if ''no_logging'' \<in> set (m_args a) then ([], level_DISABLED) else (path_append d ''vanity.log'', extract_log_level a))"

definition file_unless :: "string \<Rightarrow> string \<Rightarrow> arguments \<Rightarrow> string option \<Rightarrow> string option" where
  "file_unless flag name a dir = (case dir of None \<Rightarrow> None | Some d \<Rightarrow> if flag \<in> set (m_args a) then None else Some (path_append d name))"

definition extract_db_file :: "arguments \<Rightarrow> string option \<Rightarrow> string option" where
  "extract_db_file = file_unless ''no_db_persist'' ''vanity.db''"

definition extract_auth_file :: "arguments \<Rightarrow> string option \<Rightarrow> string option" where
  "extract_auth_file = file_unless ''no_auth_persist'' ''vanity.auth''"

definition extract_wal_file :: "arguments \<Rightarrow> string option \<Rightarrow> string option" where
  "extract_wal_file = file_unless ''no_wal'' ''vanity.wal''"

definition extract_journal_file :: "string option \<Rightarrow> string option" where
  "extract_journal_file dir = map_option (\<lambda>d. path_append d ''vanity.journal'') dir"

definition extract_lock_file :: "string option \<Rightarrow> string option" where
  "extract_lock_file dir = map_option (\<lambda>d. path_append d ''vanity.lock'') dir"

definition new_config :: "config_system \<Rightarrow> arguments \<Rightarrow> config result" where
  "new_config sys a =
     bind_result (extract_working_dir sys a) (\<lambda>dir.
     bind_result (extract_ports a) (\<lambda>ps.
     bind_result (extract_cluster_port a ps) (\<lambda>(cport, ps).
     Inr \<lparr>cfg_journal_file = extract_journal_file dir, cfg_working_dir = dir, cfg_lock_file = extract_lock_file dir,
          cfg_auth_file = extract_auth_file a dir, cfg_wal_file = extract_wal_file a dir, cfg_db_file = extract_db_file a dir,
          cfg_log_file = fst (extract_logging a dir), cfg_host = extract_host a,
          cfg_cluster_port = cport, cfg_ports = ps, cfg_log_level = snd (extract_logging a dir)\<rparr>)))"

definition configure :: "config_system \<Rightarrow> string list \<Rightarrow> string + config result" where
  "configure sys argv = (case parse argv no_arguments of Inl m \<Rightarrow> Inl m | Inr a \<Rightarrow> Inr (new_config sys a))"

section \<open>What the arguments mean\<close>

text \<open>All values that were given for a key, in order.\<close>

definition values_of :: "arguments \<Rightarrow> string \<Rightarrow> string list" where
  "values_of a k =
     (case map_of (m_multi_kwargs a) k of
        Some vs \<Rightarrow> vs | None \<Rightarrow> (case map_of (m_kwargs a) k of Some v \<Rightarrow> [v] | None \<Rightarrow> []))"

definition wf_arguments :: "arguments \<Rightarrow> bool" where
  "wf_arguments a \<longleftrightarrow>
     (\<forall>k vs. map_of (m_multi_kwargs a) k = Some vs \<longrightarrow> 2 \<le> length vs \<and> map_of (m_kwargs a) k = None)"

definition dashes :: "string \<Rightarrow> string" where
  "dashes = map (\<lambda>c. if c = CHR ''-'' then CHR ''_'' else c)"

definition plain_word :: "string \<Rightarrow> bool" where
  "plain_word s \<longleftrightarrow> CHR 0x00 \<notin> set s \<and> CHR ''='' \<notin> set s"

lemma add_kwarg_values: "values_of (add_kwarg key val a) k = values_of a k @ (if k = key then [val] else [])"
  by (auto simp: values_of_def add_kwarg_def update_conv' delete_conv' split: option.splits)

lemma add_kwarg_wf: "wf_arguments a \<Longrightarrow> wf_arguments (add_kwarg key val a)"
  by (fastforce simp: wf_arguments_def add_kwarg_def update_conv' delete_conv' split: option.splits if_splits)

lemma add_arg_wf: "wf_arguments a \<Longrightarrow> wf_arguments (add_arg w a)"
  by (simp add: wf_arguments_def add_arg_def)

lemma extract_argument_wf: "\<lbrakk>extract_argument s a = Inr a'; wf_arguments a\<rbrakk> \<Longrightarrow> wf_arguments a'"
  by (auto simp: extract_argument_def intro: add_arg_wf add_kwarg_wf split: prod.splits if_splits)

lemma parse_wf: "\<lbrakk>parse argv a = Inr a'; wf_arguments a\<rbrakk> \<Longrightarrow> wf_arguments a'"
  by (induction argv arbitrary: a) (auto simp: parse_arg_def intro: extract_argument_wf split: sum.splits if_splits)

lemma no_arguments_wf: "wf_arguments no_arguments"
  by (simp add: wf_arguments_def no_arguments_def)

lemma wf_kwarg: "wf_arguments a \<Longrightarrow> map_of (m_kwargs a) k = (case values_of a k of [v] \<Rightarrow> Some v | _ \<Rightarrow> None)"
  by (fastforce simp: wf_arguments_def values_of_def split: option.splits list.splits)

lemma extract_word_plain:
  "plain_word w \<Longrightarrow> extract_word (w @ r) = (if r = [] \<or> hd r = CHR 0x00 \<or> hd r = CHR ''='' then (dashes w, r)
     else (dashes w @ fst (extract_word r), snd (extract_word r)))"
  by (induction w) (cases r, auto simp: plain_word_def dashes_def split: prod.splits)

lemma parse_kwarg:
  assumes "plain_word key" and "plain_word val" and "key \<noteq> []" and "val \<noteq> []"
  shows "parse_arg (''--'' @ key @ ''='' @ val) a = Inr (add_kwarg (dashes key) (dashes val) a)"
  using assms extract_word_plain [OF assms(1), of "''='' @ val"] extract_word_plain [OF assms(2), of "[]"]
  by (cases key; cases val) (auto simp: parse_arg_def extract_argument_def at_nul_def plain_word_def)

lemma parse_flag:
  assumes "plain_word key" and "key \<noteq> []"
  shows "parse_arg (''--'' @ key) a = Inr (add_arg (dashes key) a)"
  using assms extract_word_plain [OF assms(1), of "[]"]
  by (cases key) (auto simp: parse_arg_def extract_argument_def at_nul_def plain_word_def)

section \<open>The configuration is defined\<close>

lemma stoi_not_undefined: "stoi s \<noteq> undefined_behaviour"
  by (auto simp: stoi_def split: conversion.splits)

lemma stoi_ports_result:
  "stoi_ports ps \<noteq> undefined_behaviour"
  "stoi_ports ps = Inr ns \<Longrightarrow> length ns = length ps \<and> (\<forall>n \<in> set ns. n < 65536)"
proof -
  show "stoi_ports ps \<noteq> undefined_behaviour"
  proof (induction ps)
    case (Cons p ps)
    with stoi_not_undefined [of p] show ?case by (cases "stoi p"; cases "stoi_ports ps") auto
  qed simp
  show "stoi_ports ps = Inr ns \<Longrightarrow> length ns = length ps \<and> (\<forall>n \<in> set ns. n < 65536)"
    by (induction ps arbitrary: ns) (auto simp: bind_result_Inr_iff uint16_def nat_less_iff)
qed

lemma extract_ports_result:
  assumes "wf_arguments a"
  shows "extract_ports a \<noteq> undefined_behaviour"
    and "extract_ports a = Inr ps \<Longrightarrow> ps \<noteq> [] \<and> (\<forall>p \<in> set ps. p < 65536)"
proof -
  show "extract_ports a \<noteq> undefined_behaviour"
    unfolding extract_ports_def using stoi_ports_result(1) by (auto simp del: stoi_ports.simps split: option.splits)
  show "ps \<noteq> [] \<and> (\<forall>p \<in> set ps. p < 65536)" if run: "extract_ports a = Inr ps"
  proof (cases "map_of (m_multi_kwargs a) ''port''")
    case (Some vs)
    with assms have "2 \<le> length vs" unfolding wf_arguments_def by blast
    then have "vs \<noteq> []" by auto
    moreover have "stoi_ports vs = Inr ps" using run Some by (simp add: extract_ports_def)
    ultimately show ?thesis using stoi_ports_result(2) [of vs ps] by auto
  next
    case None
    show ?thesis
    proof (cases "map_of (m_kwargs a) ''port''")
      case (Some v)
      with run None have "stoi_ports [v] = Inr ps" by (simp add: extract_ports_def)
      from stoi_ports_result(2) [OF this] show ?thesis by auto
    qed (use run None in \<open>auto simp: extract_ports_def DEFAULT_PORTS_def\<close>)
  qed
qed

lemma extract_cluster_port_result:
  assumes "extract_cluster_port a ps = Inr (p, qs)" and "\<forall>p \<in> set ps. p < 65536"
  shows "p < 65536 \<and> (\<forall>p \<in> set qs. p < 65536)"
proof (cases "map_of (m_kwargs a) ''cluster_port''")
  case None
  with assms(1) have "ps \<noteq> []" "p = last ps" "qs = butlast ps"
    by (simp_all add: extract_cluster_port_def get_default_cluster_port_def split: if_splits)
  then show ?thesis using assms(2) by (auto dest: in_set_butlastD)
qed (use assms in \<open>auto simp: extract_cluster_port_def bind_result_Inr_iff uint16_def nat_less_iff\<close>)

lemma new_config_result:
  assumes "wf_arguments a" and "\<And>d. sys_create_directories sys d \<noteq> undefined_behaviour"
  shows "new_config sys a \<noteq> undefined_behaviour"
    and "new_config sys a = Inr c \<Longrightarrow> cfg_cluster_port c < 65536 \<and> (\<forall>p \<in> set (cfg_ports c). p < 65536)"
proof -
  have dir: "extract_working_dir sys a \<noteq> undefined_behaviour"
    using assms(2) by (auto simp: extract_working_dir_def bind_result_def Let_def split: sum.splits option.splits)
  have port: "extract_cluster_port a ps \<noteq> undefined_behaviour" if "ps \<noteq> []" for ps
    using that stoi_not_undefined by (auto simp: extract_cluster_port_def get_default_cluster_port_def bind_result_def split: option.splits sum.splits)
  show "new_config sys a \<noteq> undefined_behaviour"
    using dir extract_ports_result [OF assms(1)] port
    by (auto simp: new_config_def bind_result_def Let_def split: sum.splits prod.splits)
  assume "new_config sys a = Inr c"
  then obtain ps where "extract_ports a = Inr ps" "extract_cluster_port a ps = Inr (cfg_cluster_port c, cfg_ports c)"
    by (auto simp: new_config_def bind_result_Inr_iff Let_def)
  with extract_ports_result(2) [OF assms(1)] show "cfg_cluster_port c < 65536 \<and> (\<forall>p \<in> set (cfg_ports c). p < 65536)"
    by (auto dest: extract_cluster_port_result)
qed

section \<open>Ports\<close>

text \<open>The ports of the command line are the ports of the server, in order; the last is the port of the cluster.\<close>

definition port_argument :: "nat \<Rightarrow> string" where
  "port_argument p = ''--port='' @ to_string p"

lemma to_string_only_digits: "\<not> is_digit c \<Longrightarrow> c \<notin> set (to_string p)"
  using to_string_digits by blast

lemma dashes_digits: "dashes (to_string p) = to_string p"
  using to_string_only_digits [of "CHR ''-''" p] by (auto simp: dashes_def is_digit_def intro!: map_idI)

lemma parse_port: "parse_arg (port_argument p) a = Inr (add_kwarg ''port'' (to_string p) a)"
proof -
  have "plain_word (to_string p)" "to_string p \<noteq> []"
    using to_string_only_digits [of "CHR ''=''" p] to_string_only_digits [of "CHR 0x00" p] by (auto simp: plain_word_def is_digit_def)
  with parse_kwarg [of "''port''" "to_string p" a] show ?thesis
    by (simp add: port_argument_def plain_word_def dashes_digits) (simp add: dashes_def)
qed

lemma parse_ports:
  "\<exists>a'. parse (map port_argument ps) a = Inr a' \<and> m_args a' = m_args a \<and>
     (\<forall>k. values_of a' k = values_of a k @ (if k = ''port'' then map to_string ps else []))"
proof (induction ps arbitrary: a)
  case (Cons p ps)
  have "m_args (add_kwarg ''port'' (to_string p) a) = m_args a" by (simp add: add_kwarg_def split: option.splits)
  with Cons [of "add_kwarg ''port'' (to_string p) a"] show ?case by (auto simp: parse_port add_kwarg_values)
qed simp

lemma stoi_ports_numbers: "\<forall>p \<in> set ps. p \<le> 65535 \<Longrightarrow> stoi_ports (map to_string ps) = Inr ps"
  by (induction ps) (auto simp: stoi_to_string uint16_def)

lemma extract_ports_values:
  "\<lbrakk>wf_arguments a; values_of a ''port'' \<noteq> []\<rbrakk> \<Longrightarrow> extract_ports a = stoi_ports (values_of a ''port'')"
  by (auto simp: extract_ports_def values_of_def simp del: stoi_ports.simps split: option.splits)

lemma configure_ports:
  assumes "ps \<noteq> []" and "\<forall>p \<in> set ps. p \<le> 65535" and "\<And>d. sys_create_directories sys d = Inr ()"
  shows "\<exists>c. configure sys (map port_argument ps) = Inr (Inr c) \<and> cfg_ports c @ [cfg_cluster_port c] = ps \<and>
    cfg_working_dir c = Some (path_append (sys_home sys) ''.vanity'')"
proof -
  from parse_ports [of ps no_arguments] obtain a where a: "parse (map port_argument ps) no_arguments = Inr a" "m_args a = []"
    "\<And>k. values_of a k = (if k = ''port'' then map to_string ps else [])"
    by (auto simp: no_arguments_def values_of_def)
  from parse_wf [OF a(1) no_arguments_wf] have wf: "wf_arguments a" .
  have "extract_ports a = Inr ps" using extract_ports_values [OF wf] assms by (simp add: a(3) stoi_ports_numbers)
  moreover have "map_of (m_kwargs a) k = None" if "k \<noteq> ''port''" for k using that by (simp add: wf_kwarg [OF wf] a(3))
  ultimately show ?thesis
    using assms(1,3) by (simp add: configure_def a(1,2) new_config_def extract_working_dir_def extract_cluster_port_def
        get_default_cluster_port_def Let_def)
qed

end
