(* ===== verification/File_Lock.thy ===== *)
theory File_Lock
  imports Cluster_State
begin

text \<open>
  The lock file that keeps two servers from the same directory: \<^verbatim>\<open>file_lock.h\<close>. The state is the content of
  the file, absent or a text; whether a process is alive is a parameter. As one call the lock excludes a second
  server while the first is alive. The calls of two servers that start together are not one step each: the
  relation below interleaves them, and both can end up with the lock.
\<close>

section \<open>The calls\<close>

text \<open>\<^verbatim>\<open>ifs >> pid\<close>.\<close>

definition read_pid :: "string \<Rightarrow> int option" where
  "read_pid c = (case stoi c of Inr p \<Rightarrow> Some p | Inl _ \<Rightarrow> None)"

definition owner_alive :: "(int \<Rightarrow> bool) \<Rightarrow> string \<Rightarrow> bool" where
  "owner_alive alive c = (case read_pid c of Some p \<Rightarrow> alive p | None \<Rightarrow> False)"

definition delete_if_owner_dead :: "(int \<Rightarrow> bool) \<Rightarrow> string option \<Rightarrow> string option" where
  "delete_if_owner_dead alive f =
     (case f of None \<Rightarrow> None | Some c \<Rightarrow> if owner_alive alive c then Some c else None)"

definition write_pid :: "nat \<Rightarrow> string" where
  "write_pid pid = to_string pid"

text \<open>The constructor: the message of the \<^verbatim>\<open>FileLockError\<close>, or the lock.\<close>

definition file_lock :: "(int \<Rightarrow> bool) \<Rightarrow> nat \<Rightarrow> string option \<Rightarrow> (string + unit) \<times> string option" where
  "file_lock alive pid f =
     (case delete_if_owner_dead alive f of
        Some c \<Rightarrow> (Inl ''Lock is already acquired: '', Some c)
      | None \<Rightarrow> (Inr (), Some (write_pid pid)))"

lemma read_written: "pid < 2 ^ 31 \<Longrightarrow> read_pid (write_pid pid) = Some (int pid)"
  by (simp add: read_pid_def write_pid_def stoi_to_string)

lemma owner_of_written: "pid < 2 ^ 31 \<Longrightarrow> owner_alive alive (write_pid pid) = alive (int pid)"
  by (simp add: owner_alive_def read_written)

lemma second_lock_fails:
  assumes "file_lock alive p f = (Inr (), f')" and "p < 2 ^ 31" and "alive (int p)"
  shows "file_lock alive q f' = (Inl ''Lock is already acquired: '', f')"
  using assms by (auto simp: file_lock_def delete_if_owner_dead_def owner_of_written split: option.splits)

lemma lock_of_dead_owner: "\<lbrakk>p < 2 ^ 31; \<not> alive (int p)\<rbrakk> \<Longrightarrow> file_lock alive q (Some (write_pid p)) = (Inr (), Some (write_pid q))"
  by (simp add: file_lock_def delete_if_owner_dead_def owner_of_written)

section \<open>Two processes\<close>

datatype lock_phase = Checking | Removing | Opening | Writing | Held | Refused | Released

record lock_system =
  lock_content :: "string option"
  lock_phases :: "nat \<Rightarrow> lock_phase"

definition set_phase :: "nat \<Rightarrow> lock_phase \<Rightarrow> lock_system \<Rightarrow> lock_system" where
  "set_phase p ph s = s\<lparr>lock_phases := (lock_phases s)(p := ph)\<rparr>"

definition set_content :: "string option \<Rightarrow> lock_system \<Rightarrow> lock_system" where
  "set_content f s = s\<lparr>lock_content := f\<rparr>"

text \<open>One system call of the process \<open>p\<close>.\<close>

inductive lock_step :: "(int \<Rightarrow> bool) \<Rightarrow> lock_system \<Rightarrow> lock_system \<Rightarrow> bool" for alive where
  no_file: "\<lbrakk>lock_phases s p = Checking; lock_content s = None\<rbrakk> \<Longrightarrow> lock_step alive s (set_phase p Opening s)"
| live_owner: "\<lbrakk>lock_phases s p = Checking; lock_content s = Some c; owner_alive alive c\<rbrakk> \<Longrightarrow> lock_step alive s (set_phase p Opening s)"
| dead_owner: "\<lbrakk>lock_phases s p = Checking; lock_content s = Some c; \<not> owner_alive alive c\<rbrakk> \<Longrightarrow> lock_step alive s (set_phase p Removing s)"
| remove_file: "lock_phases s p = Removing \<Longrightarrow> lock_step alive s (set_phase p Opening (set_content None s))"
| file_exists: "\<lbrakk>lock_phases s p = Opening; lock_content s = Some c\<rbrakk> \<Longrightarrow> lock_step alive s (set_phase p Refused s)"
| file_created: "\<lbrakk>lock_phases s p = Opening; lock_content s = None\<rbrakk> \<Longrightarrow> lock_step alive s (set_phase p Writing (set_content (Some []) s))"
| pid_written: "lock_phases s p = Writing \<Longrightarrow> lock_step alive s (set_phase p Held (set_content (Some (write_pid p)) s))"
| lock_released: "lock_phases s p = Held \<Longrightarrow> lock_step alive s (set_phase p Released (set_content None s))"

definition all_start :: lock_system where
  "all_start = \<lparr>lock_content = None, lock_phases = \<lambda>p. Checking\<rparr>"

lemmas lock_defs = set_phase_def set_content_def all_start_def

text \<open>The file is empty for a moment after it has been created, and an empty file counts as one whose owner is dead.\<close>

lemma empty_owner: "\<not> owner_alive alive []"
  by (simp add: owner_alive_def read_pid_def stoi_def strtoll_def subject_sequence_def sign_split_def Let_def)

lemma lock_held_twice:
  assumes "p \<noteq> q"
  shows "\<exists>s. (lock_step alive)\<^sup>*\<^sup>* all_start s \<and> lock_phases s p = Held \<and> lock_phases s q = Held"
proof -
  let ?a = "set_phase p Opening all_start"
  let ?b = "set_phase p Writing (set_content (Some []) ?a)"
  let ?c = "set_phase q Removing ?b"
  let ?d = "set_phase q Opening (set_content None ?c)"
  let ?e = "set_phase q Writing (set_content (Some []) ?d)"
  let ?f = "set_phase q Held (set_content (Some (write_pid q)) ?e)"
  let ?g = "set_phase p Held (set_content (Some (write_pid p)) ?f)"
  have "lock_step alive all_start ?a" by (rule no_file) (simp_all add: lock_defs)
  moreover have "lock_step alive ?a ?b" by (rule file_created) (simp_all add: lock_defs)
  moreover have "lock_step alive ?b ?c" by (rule dead_owner [of _ _ "[]"]) (use assms in \<open>simp_all add: lock_defs empty_owner\<close>)
  moreover have "lock_step alive ?c ?d" by (rule remove_file) (simp add: lock_defs)
  moreover have "lock_step alive ?d ?e" by (rule file_created) (simp_all add: lock_defs)
  moreover have "lock_step alive ?e ?f" by (rule pid_written) (simp add: lock_defs)
  moreover have "lock_step alive ?f ?g" by (rule pid_written) (use assms in \<open>simp add: lock_defs\<close>)
  ultimately have "(lock_step alive)\<^sup>*\<^sup>* all_start ?g" by (meson rtranclp.rtrancl_into_rtrancl rtranclp.rtrancl_refl)
  moreover have "lock_phases ?g p = Held" "lock_phases ?g q = Held" using assms by (simp_all add: lock_defs)
  ultimately show ?thesis by blast
qed

end
