(* ===== verification/Server_Start.thy ===== *)
theory Server_Start
  imports Server Configuration File_Lock Observation
begin

text \<open>
  The life of the whole server: \<^verbatim>\<open>server.cpp\<close> and the parts of \<^verbatim>\<open>client_server.cpp\<close> that add and remove
  connections. The constructor makes every part from the configuration and recovers the databases,
  \<^verbatim>\<open>start\<close> opens the listeners, \<^verbatim>\<open>stop\<close> persists and lets everything go. The main result is that a stop
  and a start with the same configuration lose nothing.
\<close>

section \<open>Construction, start and stop\<close>

text \<open>The variable of the environment that holds the first password, and the two directories of files.\<close>

definition new_server :: "environment \<Rightarrow> string option \<Rightarrow> config \<Rightarrow> fs \<Rightarrow> fs \<Rightarrow> server result" where
  "new_server env password cfg auth_fs db_fs =
     (let mc = env_machine env in
      bind_result (new_auth_server (env_bcrypt env) password (cfg_auth_file cfg) auth_fs) (\<lambda>au.
      bind_result (new_persist_server (cfg_wal_file cfg) (cfg_db_file cfg) (cfg_journal_file cfg) db_fs) (\<lambda>ps.
      bind_result (recover_server (mc_fadd mc) (mc_draw mc) (mc_now mc) ps) (\<lambda>ps.
      Inr \<lparr>srv_persist = ps, srv_counter = new_counter, srv_auth = au, srv_pubsub = new_pubsub,
           srv_bind = new_bind_server (cfg_host cfg) (cfg_ports cfg) (cfg_cluster_port cfg),
           srv_cluster = new_cluster, srv_terminated = False\<rparr>))))"

definition server_start :: "environment \<Rightarrow> server \<Rightarrow> server result" where
  "server_start env b = bind_result (bind_start (env_listen env) (srv_bind b)) (\<lambda>st. Inr (b\<lparr>srv_bind := st\<rparr>))"

text \<open>\<^verbatim>\<open>PersistentServer::stop\<close> and \<^verbatim>\<open>event_persist\<close>: nothing to do without a file.\<close>

definition event_persist :: "time_t \<Rightarrow> persist_server \<Rightarrow> persist_server result" where
  "event_persist now ps = (if ps_db_file ps = None then Inr ps else persist_no_check now ps)"

definition server_stop :: "environment \<Rightarrow> server \<Rightarrow> server result" where
  "server_stop env b =
     bind_result (event_persist (mc_now (env_machine env)) (srv_persist b)) (\<lambda>ps.
     Inr (b\<lparr>srv_persist := ps, srv_cluster := (srv_cluster b)\<lparr>sessions := \<lambda>_. None\<rparr>, srv_bind := bind_stop (srv_bind b)\<rparr>))"

section \<open>Connections\<close>

definition add_client :: "nat \<Rightarrow> server \<Rightarrow> server" where
  "add_client n b = store_session n new_session b"

text \<open>The hooks of \<^verbatim>\<open>pre_client_delete\<close>, then the connection is gone.\<close>

definition remove_connection :: "nat \<Rightarrow> server \<Rightarrow> unit result \<times> server" where
  "remove_connection n b =
     (case sessions (srv_cluster b) n of
        None \<Rightarrow> (undefined_behaviour, b)
      | Some s \<Rightarrow>
          (case pre_client_delete_pubsub n s (srv_pubsub b) of
             Inl e \<Rightarrow> (Inl e, b)
           | Inr p \<Rightarrow>
               (case remove_client n (srv_cluster b) of (r, c) \<Rightarrow> (r, b\<lparr>srv_pubsub := p, srv_cluster := c\<rparr>))))"

text \<open>\<^verbatim>\<open>TcpClient::ready\<close>: what the reader delivers is handled; a connection that is closed, by the other end or by
  a handler, is removed.\<close>

definition client_ready ::
  "platform \<Rightarrow> environment \<Rightarrow> nat \<Rightarrow> nat \<Rightarrow> bool \<times> string option \<Rightarrow> server \<Rightarrow> unit result \<times> response list \<times> server" where
  "client_ready pf env stack n readout b =
     (if n \<in> set (closed_clients (srv_cluster b)) then (case remove_connection n b of (r, b) \<Rightarrow> (r, [], b))
      else case (case snd readout of None \<Rightarrow> (Inr (), [], b) | Some msg \<Rightarrow> handle pf env stack n msg b) of
        (Inl e, out, b) \<Rightarrow> (Inl e, out, b)
      | (Inr _, out, b) \<Rightarrow>
          if \<not> fst readout \<or> n \<in> set (closed_clients (srv_cluster b))
          then (case remove_connection n b of (r, b) \<Rightarrow> (r, out, b)) else (Inr (), out, b))"

section \<open>A stop and a start lose nothing\<close>

lemma recover_empty_log:
  assumes "settled dbs" and "wf_dbs dbs"
  shows "\<exists>st. recover fadd dis now (Some []) dbs = Inr st \<and> length (m_databases st) = length dbs \<and>
    views now (m_databases st) = views now dbs \<and> wf_dbs (m_databases st)"
proof -
  let ?st = "\<lparr>m_databases = dbs, m_wal_file = Some []\<rparr>"
  have "\<exists>st. recover fadd dis now (m_wal_file ?st) dbs = Inr st \<and> length (m_databases st) = length (m_databases ?st) \<and>
    wf_dbs (m_databases st) \<and> (\<forall>d < length (m_databases ?st). view now (m_databases st ! d) = view now (m_databases ?st ! d))"
    by (rule recover_run [where evs = "[]" and dis = "\<lambda>i n. 0"]) (use assms in simp_all)
  then obtain st where "recover fadd dis now (Some []) dbs = Inr st" "length (m_databases st) = length dbs" "wf_dbs (m_databases st)"
    "\<forall>d < length dbs. view now (m_databases st ! d) = view now (dbs ! d)"
    unfolding locked_server.select_convs by blast
  moreover from this have "views now (m_databases st) = views now dbs" by (simp add: views_def list_eq_iff_nth_eq)
  ultimately show ?thesis by blast
qed

definition file_names :: "persist_server \<Rightarrow> path option \<times> path option \<times> path option" where
  "file_names ps = (ps_wal_file ps, ps_db_file ps, ps_journal_file ps)"

lemma start_keeps_names:
  "prepare_files ps = Inr ps' \<Longrightarrow> file_names ps' = file_names ps"
  "load_databases ps = Inr ps' \<Longrightarrow> file_names ps' = file_names ps"
  "file_names (wal_to p ps) = file_names ps"
  by (auto simp: file_names_def prepare_files_def bind_result_Inr_iff split: option.splits)
     (auto simp: file_names_def load_databases_def wal_to_def bind_result_Inr_iff split: option.splits if_splits)

lemma new_persist_files:
  assumes "new_persist_server w d j fs = Inr ps"
  shows "file_names ps = (w, d, j)"
proof -
  let ?ps = "\<lparr>ps_wal_file = w, ps_db_file = d, ps_journal_file = j, ps_fs = fs,
    ps_locked = \<lparr>m_databases = create_databases, m_wal_file = None\<rparr>\<rparr>"
  obtain ps1 ps2 where "prepare_files ?ps = Inr ps1" "load_databases ps1 = Inr ps2" "ps = (case w of None \<Rightarrow> ps2 | Some w \<Rightarrow> wal_to w ps2)"
    using assms by (auto simp: new_persist_server_def Let_def bind_result_Inr_iff split: if_splits)
  then have "file_names ps = file_names ?ps"
    using start_keeps_names(1) [of ?ps ps1] start_keeps_names(2) [of ps1 ps2] by (simp add: start_keeps_names(3) split: option.splits)
  then show ?thesis by (simp add: file_names_def)
qed

lemma persist_of_request:
  assumes "request_persist_op now (s, ps) = (Inr ok, s, ps')" and "ps_db_file ps \<noteq> None"
  shows "event_persist now ps = Inr ps'"
  using assms by (auto simp: request_persist_op_def event_persist_def split: if_splits sum.splits)

lemma stop_and_start:
  assumes "distinct_files (ps_files w d j)" and "cfg_wal_file cfg = Some w" and "cfg_db_file cfg = Some d" and "cfg_journal_file cfg = Some j"
    and "ps_wal_file (srv_persist b) = Some w" and "ps_db_file (srv_persist b) = Some d" and "ps_journal_file (srv_persist b) = Some j"
    and "settled (srv_databases b)" and "wf_dbs (srv_databases b)" and "length (srv_databases b) = M_NUM_DATABASES"
    and "\<forall>db \<in> set (m_databases (purge_all (mc_now (env_machine env)) (ps_locked (srv_persist b)))). fits db"
    and "new_auth_server (env_bcrypt env') password (cfg_auth_file cfg) auth_fs = Inr au"
  shows "\<exists>b' b''. server_stop env b = Inr b' \<and> new_server env' password cfg auth_fs (ps_fs (srv_persist b')) = Inr b'' \<and>
    srv_auth b'' = au \<and> length (srv_databases b'') = M_NUM_DATABASES \<and>
    views (mc_now (env_machine env')) (srv_databases b'') =
      views (mc_now (env_machine env')) (m_databases (purge_all (mc_now (env_machine env)) (ps_locked (srv_persist b))))"
proof -
  let ?now = "mc_now (env_machine env)" and ?mc = "env_machine env'"
  let ?l = "purge_all ?now (ps_locked (srv_persist b))"
  obtain ps' ps'' where run: "request_persist_op ?now (new_session, srv_persist b) = (Inr ok, new_session, ps')"
    "new_persist_server (Some w) (Some d) (Some j) (ps_fs ps') = Inr ps''"
    "m_databases (ps_locked ps'') = m_databases ?l" "m_wal_file (ps_locked ps'') = Some []"
    using persist_restart [OF assms(1,5-11)] by blast
  have purged: "settled (m_databases ?l)" "wf_dbs (m_databases ?l)" "length (m_databases ?l) = M_NUM_DATABASES"
    using settled_purge_all [OF assms(8)] purge_all_views [OF assms(9)] assms(10) by simp_all
  obtain l where l: "recover (mc_fadd ?mc) (mc_draw ?mc) (mc_now ?mc) (Some []) (m_databases ?l) = Inr l"
    "length (m_databases l) = M_NUM_DATABASES" "views (mc_now ?mc) (m_databases l) = views (mc_now ?mc) (m_databases ?l)"
    using recover_empty_log [OF purged(1,2)] purged(3) by metis
  have "ps_wal_file ps'' = Some w" using new_persist_files [OF run(2)] by (simp add: file_names_def)
  with l run(3,4) have recovered: "recover_server (mc_fadd ?mc) (mc_draw ?mc) (mc_now ?mc) ps'' = Inr (ps''\<lparr>ps_locked := l\<rparr>)"
    by (simp add: recover_server_def)
  have "event_persist ?now (srv_persist b) = Inr ps'" using persist_of_request [OF run(1)] assms(6) by simp
  with run(2) recovered l(2,3) show ?thesis
    using assms(2-4,12) by (simp add: server_stop_def new_server_def Let_def)
qed

end
