(* ===== verification/Blowfish_Evaluation.thy ===== *)
theory Blowfish_Evaluation
  imports Blowfish
begin

unbundle bit_operations_syntax

text \<open>
  The self test of \<^verbatim>\<open>crypt_blowfish.c\<close>, computed inside the logic: a hash with the least work factor is 1755 encryptions of
  sixteen rounds. To make that possible in about a minute, words are represented by eight hexadecimal digits whose sums and
  exclusive ors are tables, and the boxes by trees. The first half of the theory proves that the cipher on this
  representation is the cipher of \<open>Blowfish\<close>, the second half runs it.
\<close>

section \<open>Words as digits\<close>

datatype (plugins only: size) nib = Hex0 | Hex1 | Hex2 | Hex3 | Hex4 | Hex5 | Hex6 | Hex7 | Hex8 | Hex9 | HexA | HexB | HexC | HexD | HexE | HexF

datatype (plugins only: size) carry = C0 | C1

datatype (plugins only: size) digit = Digit nib carry

datatype (plugins only: size) nw = W8 nib nib nib nib nib nib nib nib

primrec nv :: "nib \<Rightarrow> nat" where
  "nv Hex0 = 0"
| "nv Hex1 = 1"
| "nv Hex2 = 2"
| "nv Hex3 = 3"
| "nv Hex4 = 4"
| "nv Hex5 = 5"
| "nv Hex6 = 6"
| "nv Hex7 = 7"
| "nv Hex8 = 8"
| "nv Hex9 = 9"
| "nv HexA = 10"
| "nv HexB = 11"
| "nv HexC = 12"
| "nv HexD = 13"
| "nv HexE = 14"
| "nv HexF = 15"

primrec cv :: "carry \<Rightarrow> nat" where
  "cv C0 = 0"
| "cv C1 = 1"

definition nibs :: "nib list" where
  "nibs = [Hex0, Hex1, Hex2, Hex3, Hex4, Hex5, Hex6, Hex7, Hex8, Hex9, HexA, HexB, HexC, HexD, HexE, HexF]"

definition nxor :: "nib \<Rightarrow> nib \<Rightarrow> nib" where
  "nxor a b = nibs ! (nv a XOR nv b)"

definition fa :: "carry \<Rightarrow> nib \<Rightarrow> nib \<Rightarrow> digit" where
  "fa k a b = Digit (nibs ! ((cv k + nv a + nv b) mod 16)) (if cv k + nv a + nv b < 16 then C0 else C1)"

primrec wn :: "nw \<Rightarrow> nat" where
  "wn (W8 a b c d e f g h) =
     nv h + 16 * (nv g + 16 * (nv f + 16 * (nv e + 16 * (nv d + 16 * (nv c + 16 * (nv b + 16 * nv a))))))"

definition w32 :: "nw \<Rightarrow> BF_word" where
  "w32 x = word_of_nat (wn x)"

fun wxor :: "nw \<Rightarrow> nw \<Rightarrow> nw" where
  "wxor (W8 a b c d e f g h) (W8 a' b' c' d' e' f' g' h') =
     W8 (nxor a a') (nxor b b') (nxor c c') (nxor d d') (nxor e e') (nxor f f') (nxor g g') (nxor h h')"

text \<open>The sum, one digit after the other from the lowest, each with the carry of the one before.\<close>

primrec add0 where
  "add0 b c d e f g h (Digit a k) = W8 a b c d e f g h"

primrec add1 where
  "add1 a a' c d e f g h (Digit b k) = add0 b c d e f g h (fa k a a')"

primrec add2 where
  "add2 a b a' b' d e f g h (Digit c k) = add1 a a' c d e f g h (fa k b b')"

primrec add3 where
  "add3 a b c a' b' c' e f g h (Digit d k) = add2 a b a' b' d e f g h (fa k c c')"

primrec add4 where
  "add4 a b c d a' b' c' d' f g h (Digit e k) = add3 a b c a' b' c' e f g h (fa k d d')"

primrec add5 where
  "add5 a b c d e a' b' c' d' e' g h (Digit f k) = add4 a b c d a' b' c' d' f g h (fa k e e')"

primrec add6 where
  "add6 a b c d e f a' b' c' d' e' f' h (Digit g k) = add5 a b c d e a' b' c' d' e' g h (fa k f f')"

primrec add7 where
  "add7 a b c d e f g a' b' c' d' e' f' g' (Digit h k) = add6 a b c d e f a' b' c' d' e' f' h (fa k g g')"

fun wadd :: "nw \<Rightarrow> nw \<Rightarrow> nw" where
  "wadd (W8 a b c d e f g h) (W8 a' b' c' d' e' f' g' h') = add7 a b c d e f g a' b' c' d' e' f' g' (fa C0 h h')"

subsection \<open>The tables\<close>

lemma nxor_table:
  "nxor Hex0 Hex0 = Hex0" "nxor Hex0 Hex1 = Hex1" "nxor Hex0 Hex2 = Hex2" "nxor Hex0 Hex3 = Hex3" "nxor Hex0 Hex4 = Hex4"
  "nxor Hex0 Hex5 = Hex5" "nxor Hex0 Hex6 = Hex6" "nxor Hex0 Hex7 = Hex7" "nxor Hex0 Hex8 = Hex8" "nxor Hex0 Hex9 = Hex9"
  "nxor Hex0 HexA = HexA" "nxor Hex0 HexB = HexB" "nxor Hex0 HexC = HexC" "nxor Hex0 HexD = HexD" "nxor Hex0 HexE = HexE"
  "nxor Hex0 HexF = HexF" "nxor Hex1 Hex0 = Hex1" "nxor Hex1 Hex1 = Hex0" "nxor Hex1 Hex2 = Hex3" "nxor Hex1 Hex3 = Hex2"
  "nxor Hex1 Hex4 = Hex5" "nxor Hex1 Hex5 = Hex4" "nxor Hex1 Hex6 = Hex7" "nxor Hex1 Hex7 = Hex6" "nxor Hex1 Hex8 = Hex9"
  "nxor Hex1 Hex9 = Hex8" "nxor Hex1 HexA = HexB" "nxor Hex1 HexB = HexA" "nxor Hex1 HexC = HexD" "nxor Hex1 HexD = HexC"
  "nxor Hex1 HexE = HexF" "nxor Hex1 HexF = HexE" "nxor Hex2 Hex0 = Hex2" "nxor Hex2 Hex1 = Hex3" "nxor Hex2 Hex2 = Hex0"
  "nxor Hex2 Hex3 = Hex1" "nxor Hex2 Hex4 = Hex6" "nxor Hex2 Hex5 = Hex7" "nxor Hex2 Hex6 = Hex4" "nxor Hex2 Hex7 = Hex5"
  "nxor Hex2 Hex8 = HexA" "nxor Hex2 Hex9 = HexB" "nxor Hex2 HexA = Hex8" "nxor Hex2 HexB = Hex9" "nxor Hex2 HexC = HexE"
  "nxor Hex2 HexD = HexF" "nxor Hex2 HexE = HexC" "nxor Hex2 HexF = HexD" "nxor Hex3 Hex0 = Hex3" "nxor Hex3 Hex1 = Hex2"
  "nxor Hex3 Hex2 = Hex1" "nxor Hex3 Hex3 = Hex0" "nxor Hex3 Hex4 = Hex7" "nxor Hex3 Hex5 = Hex6" "nxor Hex3 Hex6 = Hex5"
  "nxor Hex3 Hex7 = Hex4" "nxor Hex3 Hex8 = HexB" "nxor Hex3 Hex9 = HexA" "nxor Hex3 HexA = Hex9" "nxor Hex3 HexB = Hex8"
  "nxor Hex3 HexC = HexF" "nxor Hex3 HexD = HexE" "nxor Hex3 HexE = HexD" "nxor Hex3 HexF = HexC" "nxor Hex4 Hex0 = Hex4"
  "nxor Hex4 Hex1 = Hex5" "nxor Hex4 Hex2 = Hex6" "nxor Hex4 Hex3 = Hex7" "nxor Hex4 Hex4 = Hex0" "nxor Hex4 Hex5 = Hex1"
  "nxor Hex4 Hex6 = Hex2" "nxor Hex4 Hex7 = Hex3" "nxor Hex4 Hex8 = HexC" "nxor Hex4 Hex9 = HexD" "nxor Hex4 HexA = HexE"
  "nxor Hex4 HexB = HexF" "nxor Hex4 HexC = Hex8" "nxor Hex4 HexD = Hex9" "nxor Hex4 HexE = HexA" "nxor Hex4 HexF = HexB"
  "nxor Hex5 Hex0 = Hex5" "nxor Hex5 Hex1 = Hex4" "nxor Hex5 Hex2 = Hex7" "nxor Hex5 Hex3 = Hex6" "nxor Hex5 Hex4 = Hex1"
  "nxor Hex5 Hex5 = Hex0" "nxor Hex5 Hex6 = Hex3" "nxor Hex5 Hex7 = Hex2" "nxor Hex5 Hex8 = HexD" "nxor Hex5 Hex9 = HexC"
  "nxor Hex5 HexA = HexF" "nxor Hex5 HexB = HexE" "nxor Hex5 HexC = Hex9" "nxor Hex5 HexD = Hex8" "nxor Hex5 HexE = HexB"
  "nxor Hex5 HexF = HexA" "nxor Hex6 Hex0 = Hex6" "nxor Hex6 Hex1 = Hex7" "nxor Hex6 Hex2 = Hex4" "nxor Hex6 Hex3 = Hex5"
  "nxor Hex6 Hex4 = Hex2" "nxor Hex6 Hex5 = Hex3" "nxor Hex6 Hex6 = Hex0" "nxor Hex6 Hex7 = Hex1" "nxor Hex6 Hex8 = HexE"
  "nxor Hex6 Hex9 = HexF" "nxor Hex6 HexA = HexC" "nxor Hex6 HexB = HexD" "nxor Hex6 HexC = HexA" "nxor Hex6 HexD = HexB"
  "nxor Hex6 HexE = Hex8" "nxor Hex6 HexF = Hex9" "nxor Hex7 Hex0 = Hex7" "nxor Hex7 Hex1 = Hex6" "nxor Hex7 Hex2 = Hex5"
  "nxor Hex7 Hex3 = Hex4" "nxor Hex7 Hex4 = Hex3" "nxor Hex7 Hex5 = Hex2" "nxor Hex7 Hex6 = Hex1" "nxor Hex7 Hex7 = Hex0"
  "nxor Hex7 Hex8 = HexF" "nxor Hex7 Hex9 = HexE" "nxor Hex7 HexA = HexD" "nxor Hex7 HexB = HexC" "nxor Hex7 HexC = HexB"
  "nxor Hex7 HexD = HexA" "nxor Hex7 HexE = Hex9" "nxor Hex7 HexF = Hex8" "nxor Hex8 Hex0 = Hex8" "nxor Hex8 Hex1 = Hex9"
  "nxor Hex8 Hex2 = HexA" "nxor Hex8 Hex3 = HexB" "nxor Hex8 Hex4 = HexC" "nxor Hex8 Hex5 = HexD" "nxor Hex8 Hex6 = HexE"
  "nxor Hex8 Hex7 = HexF" "nxor Hex8 Hex8 = Hex0" "nxor Hex8 Hex9 = Hex1" "nxor Hex8 HexA = Hex2" "nxor Hex8 HexB = Hex3"
  "nxor Hex8 HexC = Hex4" "nxor Hex8 HexD = Hex5" "nxor Hex8 HexE = Hex6" "nxor Hex8 HexF = Hex7" "nxor Hex9 Hex0 = Hex9"
  "nxor Hex9 Hex1 = Hex8" "nxor Hex9 Hex2 = HexB" "nxor Hex9 Hex3 = HexA" "nxor Hex9 Hex4 = HexD" "nxor Hex9 Hex5 = HexC"
  "nxor Hex9 Hex6 = HexF" "nxor Hex9 Hex7 = HexE" "nxor Hex9 Hex8 = Hex1" "nxor Hex9 Hex9 = Hex0" "nxor Hex9 HexA = Hex3"
  "nxor Hex9 HexB = Hex2" "nxor Hex9 HexC = Hex5" "nxor Hex9 HexD = Hex4" "nxor Hex9 HexE = Hex7" "nxor Hex9 HexF = Hex6"
  "nxor HexA Hex0 = HexA" "nxor HexA Hex1 = HexB" "nxor HexA Hex2 = Hex8" "nxor HexA Hex3 = Hex9" "nxor HexA Hex4 = HexE"
  "nxor HexA Hex5 = HexF" "nxor HexA Hex6 = HexC" "nxor HexA Hex7 = HexD" "nxor HexA Hex8 = Hex2" "nxor HexA Hex9 = Hex3"
  "nxor HexA HexA = Hex0" "nxor HexA HexB = Hex1" "nxor HexA HexC = Hex6" "nxor HexA HexD = Hex7" "nxor HexA HexE = Hex4"
  "nxor HexA HexF = Hex5" "nxor HexB Hex0 = HexB" "nxor HexB Hex1 = HexA" "nxor HexB Hex2 = Hex9" "nxor HexB Hex3 = Hex8"
  "nxor HexB Hex4 = HexF" "nxor HexB Hex5 = HexE" "nxor HexB Hex6 = HexD" "nxor HexB Hex7 = HexC" "nxor HexB Hex8 = Hex3"
  "nxor HexB Hex9 = Hex2" "nxor HexB HexA = Hex1" "nxor HexB HexB = Hex0" "nxor HexB HexC = Hex7" "nxor HexB HexD = Hex6"
  "nxor HexB HexE = Hex5" "nxor HexB HexF = Hex4" "nxor HexC Hex0 = HexC" "nxor HexC Hex1 = HexD" "nxor HexC Hex2 = HexE"
  "nxor HexC Hex3 = HexF" "nxor HexC Hex4 = Hex8" "nxor HexC Hex5 = Hex9" "nxor HexC Hex6 = HexA" "nxor HexC Hex7 = HexB"
  "nxor HexC Hex8 = Hex4" "nxor HexC Hex9 = Hex5" "nxor HexC HexA = Hex6" "nxor HexC HexB = Hex7" "nxor HexC HexC = Hex0"
  "nxor HexC HexD = Hex1" "nxor HexC HexE = Hex2" "nxor HexC HexF = Hex3" "nxor HexD Hex0 = HexD" "nxor HexD Hex1 = HexC"
  "nxor HexD Hex2 = HexF" "nxor HexD Hex3 = HexE" "nxor HexD Hex4 = Hex9" "nxor HexD Hex5 = Hex8" "nxor HexD Hex6 = HexB"
  "nxor HexD Hex7 = HexA" "nxor HexD Hex8 = Hex5" "nxor HexD Hex9 = Hex4" "nxor HexD HexA = Hex7" "nxor HexD HexB = Hex6"
  "nxor HexD HexC = Hex1" "nxor HexD HexD = Hex0" "nxor HexD HexE = Hex3" "nxor HexD HexF = Hex2" "nxor HexE Hex0 = HexE"
  "nxor HexE Hex1 = HexF" "nxor HexE Hex2 = HexC" "nxor HexE Hex3 = HexD" "nxor HexE Hex4 = HexA" "nxor HexE Hex5 = HexB"
  "nxor HexE Hex6 = Hex8" "nxor HexE Hex7 = Hex9" "nxor HexE Hex8 = Hex6" "nxor HexE Hex9 = Hex7" "nxor HexE HexA = Hex4"
  "nxor HexE HexB = Hex5" "nxor HexE HexC = Hex2" "nxor HexE HexD = Hex3" "nxor HexE HexE = Hex0" "nxor HexE HexF = Hex1"
  "nxor HexF Hex0 = HexF" "nxor HexF Hex1 = HexE" "nxor HexF Hex2 = HexD" "nxor HexF Hex3 = HexC" "nxor HexF Hex4 = HexB"
  "nxor HexF Hex5 = HexA" "nxor HexF Hex6 = Hex9" "nxor HexF Hex7 = Hex8" "nxor HexF Hex8 = Hex7" "nxor HexF Hex9 = Hex6"
  "nxor HexF HexA = Hex5" "nxor HexF HexB = Hex4" "nxor HexF HexC = Hex3" "nxor HexF HexD = Hex2" "nxor HexF HexE = Hex1"
  "nxor HexF HexF = Hex0"
  by (simp_all add: nxor_def nibs_def)

lemma fa_table:
  "fa C0 Hex0 Hex0 = Digit Hex0 C0" "fa C0 Hex0 Hex1 = Digit Hex1 C0" "fa C0 Hex0 Hex2 = Digit Hex2 C0"
  "fa C0 Hex0 Hex3 = Digit Hex3 C0" "fa C0 Hex0 Hex4 = Digit Hex4 C0" "fa C0 Hex0 Hex5 = Digit Hex5 C0"
  "fa C0 Hex0 Hex6 = Digit Hex6 C0" "fa C0 Hex0 Hex7 = Digit Hex7 C0" "fa C0 Hex0 Hex8 = Digit Hex8 C0"
  "fa C0 Hex0 Hex9 = Digit Hex9 C0" "fa C0 Hex0 HexA = Digit HexA C0" "fa C0 Hex0 HexB = Digit HexB C0"
  "fa C0 Hex0 HexC = Digit HexC C0" "fa C0 Hex0 HexD = Digit HexD C0" "fa C0 Hex0 HexE = Digit HexE C0"
  "fa C0 Hex0 HexF = Digit HexF C0" "fa C0 Hex1 Hex0 = Digit Hex1 C0" "fa C0 Hex1 Hex1 = Digit Hex2 C0"
  "fa C0 Hex1 Hex2 = Digit Hex3 C0" "fa C0 Hex1 Hex3 = Digit Hex4 C0" "fa C0 Hex1 Hex4 = Digit Hex5 C0"
  "fa C0 Hex1 Hex5 = Digit Hex6 C0" "fa C0 Hex1 Hex6 = Digit Hex7 C0" "fa C0 Hex1 Hex7 = Digit Hex8 C0"
  "fa C0 Hex1 Hex8 = Digit Hex9 C0" "fa C0 Hex1 Hex9 = Digit HexA C0" "fa C0 Hex1 HexA = Digit HexB C0"
  "fa C0 Hex1 HexB = Digit HexC C0" "fa C0 Hex1 HexC = Digit HexD C0" "fa C0 Hex1 HexD = Digit HexE C0"
  "fa C0 Hex1 HexE = Digit HexF C0" "fa C0 Hex1 HexF = Digit Hex0 C1" "fa C0 Hex2 Hex0 = Digit Hex2 C0"
  "fa C0 Hex2 Hex1 = Digit Hex3 C0" "fa C0 Hex2 Hex2 = Digit Hex4 C0" "fa C0 Hex2 Hex3 = Digit Hex5 C0"
  "fa C0 Hex2 Hex4 = Digit Hex6 C0" "fa C0 Hex2 Hex5 = Digit Hex7 C0" "fa C0 Hex2 Hex6 = Digit Hex8 C0"
  "fa C0 Hex2 Hex7 = Digit Hex9 C0" "fa C0 Hex2 Hex8 = Digit HexA C0" "fa C0 Hex2 Hex9 = Digit HexB C0"
  "fa C0 Hex2 HexA = Digit HexC C0" "fa C0 Hex2 HexB = Digit HexD C0" "fa C0 Hex2 HexC = Digit HexE C0"
  "fa C0 Hex2 HexD = Digit HexF C0" "fa C0 Hex2 HexE = Digit Hex0 C1" "fa C0 Hex2 HexF = Digit Hex1 C1"
  "fa C0 Hex3 Hex0 = Digit Hex3 C0" "fa C0 Hex3 Hex1 = Digit Hex4 C0" "fa C0 Hex3 Hex2 = Digit Hex5 C0"
  "fa C0 Hex3 Hex3 = Digit Hex6 C0" "fa C0 Hex3 Hex4 = Digit Hex7 C0" "fa C0 Hex3 Hex5 = Digit Hex8 C0"
  "fa C0 Hex3 Hex6 = Digit Hex9 C0" "fa C0 Hex3 Hex7 = Digit HexA C0" "fa C0 Hex3 Hex8 = Digit HexB C0"
  "fa C0 Hex3 Hex9 = Digit HexC C0" "fa C0 Hex3 HexA = Digit HexD C0" "fa C0 Hex3 HexB = Digit HexE C0"
  "fa C0 Hex3 HexC = Digit HexF C0" "fa C0 Hex3 HexD = Digit Hex0 C1" "fa C0 Hex3 HexE = Digit Hex1 C1"
  "fa C0 Hex3 HexF = Digit Hex2 C1" "fa C0 Hex4 Hex0 = Digit Hex4 C0" "fa C0 Hex4 Hex1 = Digit Hex5 C0"
  "fa C0 Hex4 Hex2 = Digit Hex6 C0" "fa C0 Hex4 Hex3 = Digit Hex7 C0" "fa C0 Hex4 Hex4 = Digit Hex8 C0"
  "fa C0 Hex4 Hex5 = Digit Hex9 C0" "fa C0 Hex4 Hex6 = Digit HexA C0" "fa C0 Hex4 Hex7 = Digit HexB C0"
  "fa C0 Hex4 Hex8 = Digit HexC C0" "fa C0 Hex4 Hex9 = Digit HexD C0" "fa C0 Hex4 HexA = Digit HexE C0"
  "fa C0 Hex4 HexB = Digit HexF C0" "fa C0 Hex4 HexC = Digit Hex0 C1" "fa C0 Hex4 HexD = Digit Hex1 C1"
  "fa C0 Hex4 HexE = Digit Hex2 C1" "fa C0 Hex4 HexF = Digit Hex3 C1" "fa C0 Hex5 Hex0 = Digit Hex5 C0"
  "fa C0 Hex5 Hex1 = Digit Hex6 C0" "fa C0 Hex5 Hex2 = Digit Hex7 C0" "fa C0 Hex5 Hex3 = Digit Hex8 C0"
  "fa C0 Hex5 Hex4 = Digit Hex9 C0" "fa C0 Hex5 Hex5 = Digit HexA C0" "fa C0 Hex5 Hex6 = Digit HexB C0"
  "fa C0 Hex5 Hex7 = Digit HexC C0" "fa C0 Hex5 Hex8 = Digit HexD C0" "fa C0 Hex5 Hex9 = Digit HexE C0"
  "fa C0 Hex5 HexA = Digit HexF C0" "fa C0 Hex5 HexB = Digit Hex0 C1" "fa C0 Hex5 HexC = Digit Hex1 C1"
  "fa C0 Hex5 HexD = Digit Hex2 C1" "fa C0 Hex5 HexE = Digit Hex3 C1" "fa C0 Hex5 HexF = Digit Hex4 C1"
  "fa C0 Hex6 Hex0 = Digit Hex6 C0" "fa C0 Hex6 Hex1 = Digit Hex7 C0" "fa C0 Hex6 Hex2 = Digit Hex8 C0"
  "fa C0 Hex6 Hex3 = Digit Hex9 C0" "fa C0 Hex6 Hex4 = Digit HexA C0" "fa C0 Hex6 Hex5 = Digit HexB C0"
  "fa C0 Hex6 Hex6 = Digit HexC C0" "fa C0 Hex6 Hex7 = Digit HexD C0" "fa C0 Hex6 Hex8 = Digit HexE C0"
  "fa C0 Hex6 Hex9 = Digit HexF C0" "fa C0 Hex6 HexA = Digit Hex0 C1" "fa C0 Hex6 HexB = Digit Hex1 C1"
  "fa C0 Hex6 HexC = Digit Hex2 C1" "fa C0 Hex6 HexD = Digit Hex3 C1" "fa C0 Hex6 HexE = Digit Hex4 C1"
  "fa C0 Hex6 HexF = Digit Hex5 C1" "fa C0 Hex7 Hex0 = Digit Hex7 C0" "fa C0 Hex7 Hex1 = Digit Hex8 C0"
  "fa C0 Hex7 Hex2 = Digit Hex9 C0" "fa C0 Hex7 Hex3 = Digit HexA C0" "fa C0 Hex7 Hex4 = Digit HexB C0"
  "fa C0 Hex7 Hex5 = Digit HexC C0" "fa C0 Hex7 Hex6 = Digit HexD C0" "fa C0 Hex7 Hex7 = Digit HexE C0"
  "fa C0 Hex7 Hex8 = Digit HexF C0" "fa C0 Hex7 Hex9 = Digit Hex0 C1" "fa C0 Hex7 HexA = Digit Hex1 C1"
  "fa C0 Hex7 HexB = Digit Hex2 C1" "fa C0 Hex7 HexC = Digit Hex3 C1" "fa C0 Hex7 HexD = Digit Hex4 C1"
  "fa C0 Hex7 HexE = Digit Hex5 C1" "fa C0 Hex7 HexF = Digit Hex6 C1" "fa C0 Hex8 Hex0 = Digit Hex8 C0"
  "fa C0 Hex8 Hex1 = Digit Hex9 C0" "fa C0 Hex8 Hex2 = Digit HexA C0" "fa C0 Hex8 Hex3 = Digit HexB C0"
  "fa C0 Hex8 Hex4 = Digit HexC C0" "fa C0 Hex8 Hex5 = Digit HexD C0" "fa C0 Hex8 Hex6 = Digit HexE C0"
  "fa C0 Hex8 Hex7 = Digit HexF C0" "fa C0 Hex8 Hex8 = Digit Hex0 C1" "fa C0 Hex8 Hex9 = Digit Hex1 C1"
  "fa C0 Hex8 HexA = Digit Hex2 C1" "fa C0 Hex8 HexB = Digit Hex3 C1" "fa C0 Hex8 HexC = Digit Hex4 C1"
  "fa C0 Hex8 HexD = Digit Hex5 C1" "fa C0 Hex8 HexE = Digit Hex6 C1" "fa C0 Hex8 HexF = Digit Hex7 C1"
  "fa C0 Hex9 Hex0 = Digit Hex9 C0" "fa C0 Hex9 Hex1 = Digit HexA C0" "fa C0 Hex9 Hex2 = Digit HexB C0"
  "fa C0 Hex9 Hex3 = Digit HexC C0" "fa C0 Hex9 Hex4 = Digit HexD C0" "fa C0 Hex9 Hex5 = Digit HexE C0"
  "fa C0 Hex9 Hex6 = Digit HexF C0" "fa C0 Hex9 Hex7 = Digit Hex0 C1" "fa C0 Hex9 Hex8 = Digit Hex1 C1"
  "fa C0 Hex9 Hex9 = Digit Hex2 C1" "fa C0 Hex9 HexA = Digit Hex3 C1" "fa C0 Hex9 HexB = Digit Hex4 C1"
  "fa C0 Hex9 HexC = Digit Hex5 C1" "fa C0 Hex9 HexD = Digit Hex6 C1" "fa C0 Hex9 HexE = Digit Hex7 C1"
  "fa C0 Hex9 HexF = Digit Hex8 C1" "fa C0 HexA Hex0 = Digit HexA C0" "fa C0 HexA Hex1 = Digit HexB C0"
  "fa C0 HexA Hex2 = Digit HexC C0" "fa C0 HexA Hex3 = Digit HexD C0" "fa C0 HexA Hex4 = Digit HexE C0"
  "fa C0 HexA Hex5 = Digit HexF C0" "fa C0 HexA Hex6 = Digit Hex0 C1" "fa C0 HexA Hex7 = Digit Hex1 C1"
  "fa C0 HexA Hex8 = Digit Hex2 C1" "fa C0 HexA Hex9 = Digit Hex3 C1" "fa C0 HexA HexA = Digit Hex4 C1"
  "fa C0 HexA HexB = Digit Hex5 C1" "fa C0 HexA HexC = Digit Hex6 C1" "fa C0 HexA HexD = Digit Hex7 C1"
  "fa C0 HexA HexE = Digit Hex8 C1" "fa C0 HexA HexF = Digit Hex9 C1" "fa C0 HexB Hex0 = Digit HexB C0"
  "fa C0 HexB Hex1 = Digit HexC C0" "fa C0 HexB Hex2 = Digit HexD C0" "fa C0 HexB Hex3 = Digit HexE C0"
  "fa C0 HexB Hex4 = Digit HexF C0" "fa C0 HexB Hex5 = Digit Hex0 C1" "fa C0 HexB Hex6 = Digit Hex1 C1"
  "fa C0 HexB Hex7 = Digit Hex2 C1" "fa C0 HexB Hex8 = Digit Hex3 C1" "fa C0 HexB Hex9 = Digit Hex4 C1"
  "fa C0 HexB HexA = Digit Hex5 C1" "fa C0 HexB HexB = Digit Hex6 C1" "fa C0 HexB HexC = Digit Hex7 C1"
  "fa C0 HexB HexD = Digit Hex8 C1" "fa C0 HexB HexE = Digit Hex9 C1" "fa C0 HexB HexF = Digit HexA C1"
  "fa C0 HexC Hex0 = Digit HexC C0" "fa C0 HexC Hex1 = Digit HexD C0" "fa C0 HexC Hex2 = Digit HexE C0"
  "fa C0 HexC Hex3 = Digit HexF C0" "fa C0 HexC Hex4 = Digit Hex0 C1" "fa C0 HexC Hex5 = Digit Hex1 C1"
  "fa C0 HexC Hex6 = Digit Hex2 C1" "fa C0 HexC Hex7 = Digit Hex3 C1" "fa C0 HexC Hex8 = Digit Hex4 C1"
  "fa C0 HexC Hex9 = Digit Hex5 C1" "fa C0 HexC HexA = Digit Hex6 C1" "fa C0 HexC HexB = Digit Hex7 C1"
  "fa C0 HexC HexC = Digit Hex8 C1" "fa C0 HexC HexD = Digit Hex9 C1" "fa C0 HexC HexE = Digit HexA C1"
  "fa C0 HexC HexF = Digit HexB C1" "fa C0 HexD Hex0 = Digit HexD C0" "fa C0 HexD Hex1 = Digit HexE C0"
  "fa C0 HexD Hex2 = Digit HexF C0" "fa C0 HexD Hex3 = Digit Hex0 C1" "fa C0 HexD Hex4 = Digit Hex1 C1"
  "fa C0 HexD Hex5 = Digit Hex2 C1" "fa C0 HexD Hex6 = Digit Hex3 C1" "fa C0 HexD Hex7 = Digit Hex4 C1"
  "fa C0 HexD Hex8 = Digit Hex5 C1" "fa C0 HexD Hex9 = Digit Hex6 C1" "fa C0 HexD HexA = Digit Hex7 C1"
  "fa C0 HexD HexB = Digit Hex8 C1" "fa C0 HexD HexC = Digit Hex9 C1" "fa C0 HexD HexD = Digit HexA C1"
  "fa C0 HexD HexE = Digit HexB C1" "fa C0 HexD HexF = Digit HexC C1" "fa C0 HexE Hex0 = Digit HexE C0"
  "fa C0 HexE Hex1 = Digit HexF C0" "fa C0 HexE Hex2 = Digit Hex0 C1" "fa C0 HexE Hex3 = Digit Hex1 C1"
  "fa C0 HexE Hex4 = Digit Hex2 C1" "fa C0 HexE Hex5 = Digit Hex3 C1" "fa C0 HexE Hex6 = Digit Hex4 C1"
  "fa C0 HexE Hex7 = Digit Hex5 C1" "fa C0 HexE Hex8 = Digit Hex6 C1" "fa C0 HexE Hex9 = Digit Hex7 C1"
  "fa C0 HexE HexA = Digit Hex8 C1" "fa C0 HexE HexB = Digit Hex9 C1" "fa C0 HexE HexC = Digit HexA C1"
  "fa C0 HexE HexD = Digit HexB C1" "fa C0 HexE HexE = Digit HexC C1" "fa C0 HexE HexF = Digit HexD C1"
  "fa C0 HexF Hex0 = Digit HexF C0" "fa C0 HexF Hex1 = Digit Hex0 C1" "fa C0 HexF Hex2 = Digit Hex1 C1"
  "fa C0 HexF Hex3 = Digit Hex2 C1" "fa C0 HexF Hex4 = Digit Hex3 C1" "fa C0 HexF Hex5 = Digit Hex4 C1"
  "fa C0 HexF Hex6 = Digit Hex5 C1" "fa C0 HexF Hex7 = Digit Hex6 C1" "fa C0 HexF Hex8 = Digit Hex7 C1"
  "fa C0 HexF Hex9 = Digit Hex8 C1" "fa C0 HexF HexA = Digit Hex9 C1" "fa C0 HexF HexB = Digit HexA C1"
  "fa C0 HexF HexC = Digit HexB C1" "fa C0 HexF HexD = Digit HexC C1" "fa C0 HexF HexE = Digit HexD C1"
  "fa C0 HexF HexF = Digit HexE C1" "fa C1 Hex0 Hex0 = Digit Hex1 C0" "fa C1 Hex0 Hex1 = Digit Hex2 C0"
  "fa C1 Hex0 Hex2 = Digit Hex3 C0" "fa C1 Hex0 Hex3 = Digit Hex4 C0" "fa C1 Hex0 Hex4 = Digit Hex5 C0"
  "fa C1 Hex0 Hex5 = Digit Hex6 C0" "fa C1 Hex0 Hex6 = Digit Hex7 C0" "fa C1 Hex0 Hex7 = Digit Hex8 C0"
  "fa C1 Hex0 Hex8 = Digit Hex9 C0" "fa C1 Hex0 Hex9 = Digit HexA C0" "fa C1 Hex0 HexA = Digit HexB C0"
  "fa C1 Hex0 HexB = Digit HexC C0" "fa C1 Hex0 HexC = Digit HexD C0" "fa C1 Hex0 HexD = Digit HexE C0"
  "fa C1 Hex0 HexE = Digit HexF C0" "fa C1 Hex0 HexF = Digit Hex0 C1" "fa C1 Hex1 Hex0 = Digit Hex2 C0"
  "fa C1 Hex1 Hex1 = Digit Hex3 C0" "fa C1 Hex1 Hex2 = Digit Hex4 C0" "fa C1 Hex1 Hex3 = Digit Hex5 C0"
  "fa C1 Hex1 Hex4 = Digit Hex6 C0" "fa C1 Hex1 Hex5 = Digit Hex7 C0" "fa C1 Hex1 Hex6 = Digit Hex8 C0"
  "fa C1 Hex1 Hex7 = Digit Hex9 C0" "fa C1 Hex1 Hex8 = Digit HexA C0" "fa C1 Hex1 Hex9 = Digit HexB C0"
  "fa C1 Hex1 HexA = Digit HexC C0" "fa C1 Hex1 HexB = Digit HexD C0" "fa C1 Hex1 HexC = Digit HexE C0"
  "fa C1 Hex1 HexD = Digit HexF C0" "fa C1 Hex1 HexE = Digit Hex0 C1" "fa C1 Hex1 HexF = Digit Hex1 C1"
  "fa C1 Hex2 Hex0 = Digit Hex3 C0" "fa C1 Hex2 Hex1 = Digit Hex4 C0" "fa C1 Hex2 Hex2 = Digit Hex5 C0"
  "fa C1 Hex2 Hex3 = Digit Hex6 C0" "fa C1 Hex2 Hex4 = Digit Hex7 C0" "fa C1 Hex2 Hex5 = Digit Hex8 C0"
  "fa C1 Hex2 Hex6 = Digit Hex9 C0" "fa C1 Hex2 Hex7 = Digit HexA C0" "fa C1 Hex2 Hex8 = Digit HexB C0"
  "fa C1 Hex2 Hex9 = Digit HexC C0" "fa C1 Hex2 HexA = Digit HexD C0" "fa C1 Hex2 HexB = Digit HexE C0"
  "fa C1 Hex2 HexC = Digit HexF C0" "fa C1 Hex2 HexD = Digit Hex0 C1" "fa C1 Hex2 HexE = Digit Hex1 C1"
  "fa C1 Hex2 HexF = Digit Hex2 C1" "fa C1 Hex3 Hex0 = Digit Hex4 C0" "fa C1 Hex3 Hex1 = Digit Hex5 C0"
  "fa C1 Hex3 Hex2 = Digit Hex6 C0" "fa C1 Hex3 Hex3 = Digit Hex7 C0" "fa C1 Hex3 Hex4 = Digit Hex8 C0"
  "fa C1 Hex3 Hex5 = Digit Hex9 C0" "fa C1 Hex3 Hex6 = Digit HexA C0" "fa C1 Hex3 Hex7 = Digit HexB C0"
  "fa C1 Hex3 Hex8 = Digit HexC C0" "fa C1 Hex3 Hex9 = Digit HexD C0" "fa C1 Hex3 HexA = Digit HexE C0"
  "fa C1 Hex3 HexB = Digit HexF C0" "fa C1 Hex3 HexC = Digit Hex0 C1" "fa C1 Hex3 HexD = Digit Hex1 C1"
  "fa C1 Hex3 HexE = Digit Hex2 C1" "fa C1 Hex3 HexF = Digit Hex3 C1" "fa C1 Hex4 Hex0 = Digit Hex5 C0"
  "fa C1 Hex4 Hex1 = Digit Hex6 C0" "fa C1 Hex4 Hex2 = Digit Hex7 C0" "fa C1 Hex4 Hex3 = Digit Hex8 C0"
  "fa C1 Hex4 Hex4 = Digit Hex9 C0" "fa C1 Hex4 Hex5 = Digit HexA C0" "fa C1 Hex4 Hex6 = Digit HexB C0"
  "fa C1 Hex4 Hex7 = Digit HexC C0" "fa C1 Hex4 Hex8 = Digit HexD C0" "fa C1 Hex4 Hex9 = Digit HexE C0"
  "fa C1 Hex4 HexA = Digit HexF C0" "fa C1 Hex4 HexB = Digit Hex0 C1" "fa C1 Hex4 HexC = Digit Hex1 C1"
  "fa C1 Hex4 HexD = Digit Hex2 C1" "fa C1 Hex4 HexE = Digit Hex3 C1" "fa C1 Hex4 HexF = Digit Hex4 C1"
  "fa C1 Hex5 Hex0 = Digit Hex6 C0" "fa C1 Hex5 Hex1 = Digit Hex7 C0" "fa C1 Hex5 Hex2 = Digit Hex8 C0"
  "fa C1 Hex5 Hex3 = Digit Hex9 C0" "fa C1 Hex5 Hex4 = Digit HexA C0" "fa C1 Hex5 Hex5 = Digit HexB C0"
  "fa C1 Hex5 Hex6 = Digit HexC C0" "fa C1 Hex5 Hex7 = Digit HexD C0" "fa C1 Hex5 Hex8 = Digit HexE C0"
  "fa C1 Hex5 Hex9 = Digit HexF C0" "fa C1 Hex5 HexA = Digit Hex0 C1" "fa C1 Hex5 HexB = Digit Hex1 C1"
  "fa C1 Hex5 HexC = Digit Hex2 C1" "fa C1 Hex5 HexD = Digit Hex3 C1" "fa C1 Hex5 HexE = Digit Hex4 C1"
  "fa C1 Hex5 HexF = Digit Hex5 C1" "fa C1 Hex6 Hex0 = Digit Hex7 C0" "fa C1 Hex6 Hex1 = Digit Hex8 C0"
  "fa C1 Hex6 Hex2 = Digit Hex9 C0" "fa C1 Hex6 Hex3 = Digit HexA C0" "fa C1 Hex6 Hex4 = Digit HexB C0"
  "fa C1 Hex6 Hex5 = Digit HexC C0" "fa C1 Hex6 Hex6 = Digit HexD C0" "fa C1 Hex6 Hex7 = Digit HexE C0"
  "fa C1 Hex6 Hex8 = Digit HexF C0" "fa C1 Hex6 Hex9 = Digit Hex0 C1" "fa C1 Hex6 HexA = Digit Hex1 C1"
  "fa C1 Hex6 HexB = Digit Hex2 C1" "fa C1 Hex6 HexC = Digit Hex3 C1" "fa C1 Hex6 HexD = Digit Hex4 C1"
  "fa C1 Hex6 HexE = Digit Hex5 C1" "fa C1 Hex6 HexF = Digit Hex6 C1" "fa C1 Hex7 Hex0 = Digit Hex8 C0"
  "fa C1 Hex7 Hex1 = Digit Hex9 C0" "fa C1 Hex7 Hex2 = Digit HexA C0" "fa C1 Hex7 Hex3 = Digit HexB C0"
  "fa C1 Hex7 Hex4 = Digit HexC C0" "fa C1 Hex7 Hex5 = Digit HexD C0" "fa C1 Hex7 Hex6 = Digit HexE C0"
  "fa C1 Hex7 Hex7 = Digit HexF C0" "fa C1 Hex7 Hex8 = Digit Hex0 C1" "fa C1 Hex7 Hex9 = Digit Hex1 C1"
  "fa C1 Hex7 HexA = Digit Hex2 C1" "fa C1 Hex7 HexB = Digit Hex3 C1" "fa C1 Hex7 HexC = Digit Hex4 C1"
  "fa C1 Hex7 HexD = Digit Hex5 C1" "fa C1 Hex7 HexE = Digit Hex6 C1" "fa C1 Hex7 HexF = Digit Hex7 C1"
  "fa C1 Hex8 Hex0 = Digit Hex9 C0" "fa C1 Hex8 Hex1 = Digit HexA C0" "fa C1 Hex8 Hex2 = Digit HexB C0"
  "fa C1 Hex8 Hex3 = Digit HexC C0" "fa C1 Hex8 Hex4 = Digit HexD C0" "fa C1 Hex8 Hex5 = Digit HexE C0"
  "fa C1 Hex8 Hex6 = Digit HexF C0" "fa C1 Hex8 Hex7 = Digit Hex0 C1" "fa C1 Hex8 Hex8 = Digit Hex1 C1"
  "fa C1 Hex8 Hex9 = Digit Hex2 C1" "fa C1 Hex8 HexA = Digit Hex3 C1" "fa C1 Hex8 HexB = Digit Hex4 C1"
  "fa C1 Hex8 HexC = Digit Hex5 C1" "fa C1 Hex8 HexD = Digit Hex6 C1" "fa C1 Hex8 HexE = Digit Hex7 C1"
  "fa C1 Hex8 HexF = Digit Hex8 C1" "fa C1 Hex9 Hex0 = Digit HexA C0" "fa C1 Hex9 Hex1 = Digit HexB C0"
  "fa C1 Hex9 Hex2 = Digit HexC C0" "fa C1 Hex9 Hex3 = Digit HexD C0" "fa C1 Hex9 Hex4 = Digit HexE C0"
  "fa C1 Hex9 Hex5 = Digit HexF C0" "fa C1 Hex9 Hex6 = Digit Hex0 C1" "fa C1 Hex9 Hex7 = Digit Hex1 C1"
  "fa C1 Hex9 Hex8 = Digit Hex2 C1" "fa C1 Hex9 Hex9 = Digit Hex3 C1" "fa C1 Hex9 HexA = Digit Hex4 C1"
  "fa C1 Hex9 HexB = Digit Hex5 C1" "fa C1 Hex9 HexC = Digit Hex6 C1" "fa C1 Hex9 HexD = Digit Hex7 C1"
  "fa C1 Hex9 HexE = Digit Hex8 C1" "fa C1 Hex9 HexF = Digit Hex9 C1" "fa C1 HexA Hex0 = Digit HexB C0"
  "fa C1 HexA Hex1 = Digit HexC C0" "fa C1 HexA Hex2 = Digit HexD C0" "fa C1 HexA Hex3 = Digit HexE C0"
  "fa C1 HexA Hex4 = Digit HexF C0" "fa C1 HexA Hex5 = Digit Hex0 C1" "fa C1 HexA Hex6 = Digit Hex1 C1"
  "fa C1 HexA Hex7 = Digit Hex2 C1" "fa C1 HexA Hex8 = Digit Hex3 C1" "fa C1 HexA Hex9 = Digit Hex4 C1"
  "fa C1 HexA HexA = Digit Hex5 C1" "fa C1 HexA HexB = Digit Hex6 C1" "fa C1 HexA HexC = Digit Hex7 C1"
  "fa C1 HexA HexD = Digit Hex8 C1" "fa C1 HexA HexE = Digit Hex9 C1" "fa C1 HexA HexF = Digit HexA C1"
  "fa C1 HexB Hex0 = Digit HexC C0" "fa C1 HexB Hex1 = Digit HexD C0" "fa C1 HexB Hex2 = Digit HexE C0"
  "fa C1 HexB Hex3 = Digit HexF C0" "fa C1 HexB Hex4 = Digit Hex0 C1" "fa C1 HexB Hex5 = Digit Hex1 C1"
  "fa C1 HexB Hex6 = Digit Hex2 C1" "fa C1 HexB Hex7 = Digit Hex3 C1" "fa C1 HexB Hex8 = Digit Hex4 C1"
  "fa C1 HexB Hex9 = Digit Hex5 C1" "fa C1 HexB HexA = Digit Hex6 C1" "fa C1 HexB HexB = Digit Hex7 C1"
  "fa C1 HexB HexC = Digit Hex8 C1" "fa C1 HexB HexD = Digit Hex9 C1" "fa C1 HexB HexE = Digit HexA C1"
  "fa C1 HexB HexF = Digit HexB C1" "fa C1 HexC Hex0 = Digit HexD C0" "fa C1 HexC Hex1 = Digit HexE C0"
  "fa C1 HexC Hex2 = Digit HexF C0" "fa C1 HexC Hex3 = Digit Hex0 C1" "fa C1 HexC Hex4 = Digit Hex1 C1"
  "fa C1 HexC Hex5 = Digit Hex2 C1" "fa C1 HexC Hex6 = Digit Hex3 C1" "fa C1 HexC Hex7 = Digit Hex4 C1"
  "fa C1 HexC Hex8 = Digit Hex5 C1" "fa C1 HexC Hex9 = Digit Hex6 C1" "fa C1 HexC HexA = Digit Hex7 C1"
  "fa C1 HexC HexB = Digit Hex8 C1" "fa C1 HexC HexC = Digit Hex9 C1" "fa C1 HexC HexD = Digit HexA C1"
  "fa C1 HexC HexE = Digit HexB C1" "fa C1 HexC HexF = Digit HexC C1" "fa C1 HexD Hex0 = Digit HexE C0"
  "fa C1 HexD Hex1 = Digit HexF C0" "fa C1 HexD Hex2 = Digit Hex0 C1" "fa C1 HexD Hex3 = Digit Hex1 C1"
  "fa C1 HexD Hex4 = Digit Hex2 C1" "fa C1 HexD Hex5 = Digit Hex3 C1" "fa C1 HexD Hex6 = Digit Hex4 C1"
  "fa C1 HexD Hex7 = Digit Hex5 C1" "fa C1 HexD Hex8 = Digit Hex6 C1" "fa C1 HexD Hex9 = Digit Hex7 C1"
  "fa C1 HexD HexA = Digit Hex8 C1" "fa C1 HexD HexB = Digit Hex9 C1" "fa C1 HexD HexC = Digit HexA C1"
  "fa C1 HexD HexD = Digit HexB C1" "fa C1 HexD HexE = Digit HexC C1" "fa C1 HexD HexF = Digit HexD C1"
  "fa C1 HexE Hex0 = Digit HexF C0" "fa C1 HexE Hex1 = Digit Hex0 C1" "fa C1 HexE Hex2 = Digit Hex1 C1"
  "fa C1 HexE Hex3 = Digit Hex2 C1" "fa C1 HexE Hex4 = Digit Hex3 C1" "fa C1 HexE Hex5 = Digit Hex4 C1"
  "fa C1 HexE Hex6 = Digit Hex5 C1" "fa C1 HexE Hex7 = Digit Hex6 C1" "fa C1 HexE Hex8 = Digit Hex7 C1"
  "fa C1 HexE Hex9 = Digit Hex8 C1" "fa C1 HexE HexA = Digit Hex9 C1" "fa C1 HexE HexB = Digit HexA C1"
  "fa C1 HexE HexC = Digit HexB C1" "fa C1 HexE HexD = Digit HexC C1" "fa C1 HexE HexE = Digit HexD C1"
  "fa C1 HexE HexF = Digit HexE C1" "fa C1 HexF Hex0 = Digit Hex0 C1" "fa C1 HexF Hex1 = Digit Hex1 C1"
  "fa C1 HexF Hex2 = Digit Hex2 C1" "fa C1 HexF Hex3 = Digit Hex3 C1" "fa C1 HexF Hex4 = Digit Hex4 C1"
  "fa C1 HexF Hex5 = Digit Hex5 C1" "fa C1 HexF Hex6 = Digit Hex6 C1" "fa C1 HexF Hex7 = Digit Hex7 C1"
  "fa C1 HexF Hex8 = Digit Hex8 C1" "fa C1 HexF Hex9 = Digit Hex9 C1" "fa C1 HexF HexA = Digit HexA C1"
  "fa C1 HexF HexB = Digit HexB C1" "fa C1 HexF HexC = Digit HexC C1" "fa C1 HexF HexD = Digit HexD C1"
  "fa C1 HexF HexE = Digit HexE C1" "fa C1 HexF HexF = Digit HexF C1"
  by (simp_all add: fa_def nibs_def)

subsection \<open>What they compute\<close>

lemma nv_less: "nv a < 16"
  by (cases a) simp_all

lemma nv_nibs: "n < 16 \<Longrightarrow> nv (nibs ! n) = n"
  by (simp add: nibs_def nth_Cons' split: if_splits)

lemma xor_digit:
  assumes "a < 16" and "b < 16"
  shows "(a + 16 * x) XOR (b + 16 * y) = (a XOR b) + 16 * (x XOR y :: nat)"
proof -
  have high: "\<not> bit c n" if "c < 16" "4 \<le> n" for c n :: nat
  proof -
    have "take_bit 4 c = c" using that(1) by (simp add: take_bit_nat_eq_self_iff)
    then show ?thesis using that(2) by (metis bit_take_bit_iff not_less)
  qed
  have split: "c + 16 * z = c OR push_bit 4 z" if "c < 16" for c z :: nat
  proof -
    have "c + push_bit 4 z = c OR push_bit 4 z"
      by (rule disjunctive_add) (use high [OF that] in \<open>auto simp: bit_push_bit_iff\<close>)
    then show ?thesis by (simp add: push_bit_eq_mult mult.commute)
  qed
  have "take_bit 4 a = a" "take_bit 4 b = b" using assms by (simp_all add: take_bit_nat_eq_self_iff)
  then have "take_bit 4 (a XOR b) = a XOR b" by (simp add: take_bit_xor)
  then have "a XOR b < 2 ^ 4" by (simp only: take_bit_nat_eq_self_iff)
  then have less: "a XOR b < 16" by simp
  show ?thesis
    unfolding split [OF assms(1)] split [OF assms(2)] split [OF less]
    by (rule bit_eqI) (auto simp: bit_simps high assms)
qed

lemma nv_nxor: "nv (nxor a b) = nv a XOR nv b"
  by (cases a; cases b) (simp_all add: nxor_table)

lemma wn_xor: "wn (wxor x y) = wn x XOR wn y"
  by (cases x; cases y) (simp only: wxor.simps wn.simps nv_nxor xor_digit nv_less)

lemma w32_xor: "w32 x XOR w32 y = w32 (wxor x y)"
  by (simp add: w32_def wn_xor of_nat_xor_eq)

lemma fa_sum: "fa k a b = Digit s k' \<Longrightarrow> cv k + nv a + nv b = nv s + 16 * cv k'"
  using nv_less [of a] nv_less [of b]
  by (cases k) (auto simp: fa_def nv_nibs mod_if split: if_splits)

lemma wn_add: "\<exists>k. wn x + wn y = wn (wadd x y) + 2 ^ 32 * cv k"
proof -
  obtain a b c d e f g h where x: "x = W8 a b c d e f g h" by (cases x)
  obtain a' b' c' d' e' f' g' h' where y: "y = W8 a' b' c' d' e' f' g' h'" by (cases y)
  obtain h2 k0 where 0: "fa C0 h h' = Digit h2 k0" by (cases "fa C0 h h'")
  obtain g2 k1 where 1: "fa k0 g g' = Digit g2 k1" by (cases "fa k0 g g'")
  obtain f2 k2 where 2: "fa k1 f f' = Digit f2 k2" by (cases "fa k1 f f'")
  obtain e2 k3 where 3: "fa k2 e e' = Digit e2 k3" by (cases "fa k2 e e'")
  obtain d2 k4 where 4: "fa k3 d d' = Digit d2 k4" by (cases "fa k3 d d'")
  obtain c2 k5 where 5: "fa k4 c c' = Digit c2 k5" by (cases "fa k4 c c'")
  obtain b2 k6 where 6: "fa k5 b b' = Digit b2 k6" by (cases "fa k5 b b'")
  obtain a2 k7 where 7: "fa k6 a a' = Digit a2 k7" by (cases "fa k6 a a'")
  have "wadd x y = W8 a2 b2 c2 d2 e2 f2 g2 h2" by (simp add: x y 0 1 2 3 4 5 6 7)
  then have "wn x + wn y = wn (wadd x y) + 2 ^ 32 * cv k7"
    using 0 [THEN fa_sum] 1 [THEN fa_sum] 2 [THEN fa_sum] 3 [THEN fa_sum] 4 [THEN fa_sum] 5 [THEN fa_sum]
      6 [THEN fa_sum] 7 [THEN fa_sum] by (simp add: x y)
  then show ?thesis ..
qed

lemma w32_add: "w32 x + w32 y = w32 (wadd x y)"
proof -
  obtain k where k: "wn x + wn y = wn (wadd x y) + 2 ^ 32 * cv k" using wn_add by blast
  have "w32 x + w32 y = word_of_nat (wn x + wn y)" by (simp add: w32_def)
  also have "\<dots> = word_of_nat (wn (wadd x y)) + 2 ^ 32 * word_of_nat (cv k)"
    unfolding k by (simp only: of_nat_add of_nat_mult of_nat_power of_nat_numeral)
  also have "(2 :: BF_word) ^ 32 = 0" by simp
  finally show ?thesis by (simp add: w32_def)
qed

lemma unat_w32: "unat (w32 x) = wn x"
proof -
  have "wn x < 2 ^ 32"
  proof (cases x)
    case (W8 a b c d e f g h)
    then show ?thesis
      using nv_less [of a] nv_less [of b] nv_less [of c] nv_less [of d] nv_less [of e] nv_less [of f]
        nv_less [of g] nv_less [of h] by simp
  qed
  then show ?thesis by (simp add: w32_def unat_of_nat)
qed

lemma w32_bytes:
  assumes "x = W8 a b c d e f g h"
  shows "unat (drop_bit 24 (w32 x)) = 16 * nv a + nv b"
    and "unat (drop_bit 16 (w32 x) AND 0xFF) = 16 * nv c + nv d"
    and "unat (drop_bit 8 (w32 x) AND 0xFF) = 16 * nv e + nv f"
    and "unat (w32 x AND 0xFF) = 16 * nv g + nv h"
proof -
  have mask: "unat (w AND 0xFF) = unat w mod 256" for w :: BF_word
  proof -
    have "w AND 0xFF = take_bit 8 w" by (simp add: take_bit_eq_mask mask_eq_exp_minus_1)
    then have "unat (w AND 0xFF) = take_bit 8 (unat w)" by (simp only: unsigned_take_bit_eq)
    then show ?thesis by (simp add: take_bit_eq_mod)
  qed
  note digits = nv_less [of a] nv_less [of b] nv_less [of c] nv_less [of d] nv_less [of e] nv_less [of f]
        nv_less [of g] nv_less [of h]
  have drop: "unat (drop_bit n (w32 x)) = wn x div 2 ^ n" for n
    unfolding unat_drop_bit_eq unat_w32 by (rule drop_bit_eq_div)
  show "unat (drop_bit 24 (w32 x)) = 16 * nv a + nv b"
    unfolding drop using digits by (simp add: assms)
  have middle: "(r + m * (q + 256 * z)) div m mod 256 = q" if "r < m" "q < 256" for r m q z :: nat
    using that by simp
  have "wn x = (nv h + 16 * nv g + 256 * nv f + 4096 * nv e) + 2 ^ 16 * ((16 * nv c + nv d) + 256 * (nv b + 16 * nv a))"
    by (simp add: assms)
  with middle [of "nv h + 16 * nv g + 256 * nv f + 4096 * nv e" "2 ^ 16" "16 * nv c + nv d" "nv b + 16 * nv a"] digits
  show "unat (drop_bit 16 (w32 x) AND 0xFF) = 16 * nv c + nv d"
    unfolding mask drop by simp
  have "wn x = (nv h + 16 * nv g) + 2 ^ 8 * ((16 * nv e + nv f) + 256 * (nv d + 16 * nv c + 256 * nv b + 4096 * nv a))"
    by (simp add: assms)
  with middle [of "nv h + 16 * nv g" "2 ^ 8" "16 * nv e + nv f" "nv d + 16 * nv c + 256 * nv b + 4096 * nv a"] digits
  show "unat (drop_bit 8 (w32 x) AND 0xFF) = 16 * nv e + nv f"
    unfolding mask drop by simp
  have "wn x = 0 + 1 * ((16 * nv g + nv h) + 256 * (nv f + 16 * nv e + 256 * nv d + 4096 * nv c + 65536 * nv b + 1048576 * nv a))"
    by (simp add: assms)
  with middle [of 0 1 "16 * nv g + nv h" "nv f + 16 * nv e + 256 * nv d + 4096 * nv c + 65536 * nv b + 1048576 * nv a"] digits
  show "unat (w32 x AND 0xFF) = 16 * nv g + nv h"
    unfolding mask unat_w32 by simp
qed

section \<open>Boxes as trees\<close>

datatype (plugins only: size) 'a n16 = N16 'a 'a 'a 'a 'a 'a 'a 'a 'a 'a 'a 'a 'a 'a 'a 'a

primrec l16 :: "'a n16 \<Rightarrow> 'a list" where
  "l16 (N16 x0 x1 x2 x3 x4 x5 x6 x7 x8 x9 xa xb xc xd xe xf) = [x0, x1, x2, x3, x4, x5, x6, x7, x8, x9, xa, xb, xc, xd, xe, xf]"

fun get16 :: "'a n16 \<Rightarrow> nib \<Rightarrow> 'a" where
  "get16 (N16 x0 x1 x2 x3 x4 x5 x6 x7 x8 x9 xa xb xc xd xe xf) Hex0 = x0"
| "get16 (N16 x0 x1 x2 x3 x4 x5 x6 x7 x8 x9 xa xb xc xd xe xf) Hex1 = x1"
| "get16 (N16 x0 x1 x2 x3 x4 x5 x6 x7 x8 x9 xa xb xc xd xe xf) Hex2 = x2"
| "get16 (N16 x0 x1 x2 x3 x4 x5 x6 x7 x8 x9 xa xb xc xd xe xf) Hex3 = x3"
| "get16 (N16 x0 x1 x2 x3 x4 x5 x6 x7 x8 x9 xa xb xc xd xe xf) Hex4 = x4"
| "get16 (N16 x0 x1 x2 x3 x4 x5 x6 x7 x8 x9 xa xb xc xd xe xf) Hex5 = x5"
| "get16 (N16 x0 x1 x2 x3 x4 x5 x6 x7 x8 x9 xa xb xc xd xe xf) Hex6 = x6"
| "get16 (N16 x0 x1 x2 x3 x4 x5 x6 x7 x8 x9 xa xb xc xd xe xf) Hex7 = x7"
| "get16 (N16 x0 x1 x2 x3 x4 x5 x6 x7 x8 x9 xa xb xc xd xe xf) Hex8 = x8"
| "get16 (N16 x0 x1 x2 x3 x4 x5 x6 x7 x8 x9 xa xb xc xd xe xf) Hex9 = x9"
| "get16 (N16 x0 x1 x2 x3 x4 x5 x6 x7 x8 x9 xa xb xc xd xe xf) HexA = xa"
| "get16 (N16 x0 x1 x2 x3 x4 x5 x6 x7 x8 x9 xa xb xc xd xe xf) HexB = xb"
| "get16 (N16 x0 x1 x2 x3 x4 x5 x6 x7 x8 x9 xa xb xc xd xe xf) HexC = xc"
| "get16 (N16 x0 x1 x2 x3 x4 x5 x6 x7 x8 x9 xa xb xc xd xe xf) HexD = xd"
| "get16 (N16 x0 x1 x2 x3 x4 x5 x6 x7 x8 x9 xa xb xc xd xe xf) HexE = xe"
| "get16 (N16 x0 x1 x2 x3 x4 x5 x6 x7 x8 x9 xa xb xc xd xe xf) HexF = xf"

fun upd16 :: "'a n16 \<Rightarrow> nib \<Rightarrow> 'a \<Rightarrow> 'a n16" where
  "upd16 (N16 x0 x1 x2 x3 x4 x5 x6 x7 x8 x9 xa xb xc xd xe xf) Hex0 v = N16 v x1 x2 x3 x4 x5 x6 x7 x8 x9 xa xb xc xd xe xf"
| "upd16 (N16 x0 x1 x2 x3 x4 x5 x6 x7 x8 x9 xa xb xc xd xe xf) Hex1 v = N16 x0 v x2 x3 x4 x5 x6 x7 x8 x9 xa xb xc xd xe xf"
| "upd16 (N16 x0 x1 x2 x3 x4 x5 x6 x7 x8 x9 xa xb xc xd xe xf) Hex2 v = N16 x0 x1 v x3 x4 x5 x6 x7 x8 x9 xa xb xc xd xe xf"
| "upd16 (N16 x0 x1 x2 x3 x4 x5 x6 x7 x8 x9 xa xb xc xd xe xf) Hex3 v = N16 x0 x1 x2 v x4 x5 x6 x7 x8 x9 xa xb xc xd xe xf"
| "upd16 (N16 x0 x1 x2 x3 x4 x5 x6 x7 x8 x9 xa xb xc xd xe xf) Hex4 v = N16 x0 x1 x2 x3 v x5 x6 x7 x8 x9 xa xb xc xd xe xf"
| "upd16 (N16 x0 x1 x2 x3 x4 x5 x6 x7 x8 x9 xa xb xc xd xe xf) Hex5 v = N16 x0 x1 x2 x3 x4 v x6 x7 x8 x9 xa xb xc xd xe xf"
| "upd16 (N16 x0 x1 x2 x3 x4 x5 x6 x7 x8 x9 xa xb xc xd xe xf) Hex6 v = N16 x0 x1 x2 x3 x4 x5 v x7 x8 x9 xa xb xc xd xe xf"
| "upd16 (N16 x0 x1 x2 x3 x4 x5 x6 x7 x8 x9 xa xb xc xd xe xf) Hex7 v = N16 x0 x1 x2 x3 x4 x5 x6 v x8 x9 xa xb xc xd xe xf"
| "upd16 (N16 x0 x1 x2 x3 x4 x5 x6 x7 x8 x9 xa xb xc xd xe xf) Hex8 v = N16 x0 x1 x2 x3 x4 x5 x6 x7 v x9 xa xb xc xd xe xf"
| "upd16 (N16 x0 x1 x2 x3 x4 x5 x6 x7 x8 x9 xa xb xc xd xe xf) Hex9 v = N16 x0 x1 x2 x3 x4 x5 x6 x7 x8 v xa xb xc xd xe xf"
| "upd16 (N16 x0 x1 x2 x3 x4 x5 x6 x7 x8 x9 xa xb xc xd xe xf) HexA v = N16 x0 x1 x2 x3 x4 x5 x6 x7 x8 x9 v xb xc xd xe xf"
| "upd16 (N16 x0 x1 x2 x3 x4 x5 x6 x7 x8 x9 xa xb xc xd xe xf) HexB v = N16 x0 x1 x2 x3 x4 x5 x6 x7 x8 x9 xa v xc xd xe xf"
| "upd16 (N16 x0 x1 x2 x3 x4 x5 x6 x7 x8 x9 xa xb xc xd xe xf) HexC v = N16 x0 x1 x2 x3 x4 x5 x6 x7 x8 x9 xa xb v xd xe xf"
| "upd16 (N16 x0 x1 x2 x3 x4 x5 x6 x7 x8 x9 xa xb xc xd xe xf) HexD v = N16 x0 x1 x2 x3 x4 x5 x6 x7 x8 x9 xa xb xc v xe xf"
| "upd16 (N16 x0 x1 x2 x3 x4 x5 x6 x7 x8 x9 xa xb xc xd xe xf) HexE v = N16 x0 x1 x2 x3 x4 x5 x6 x7 x8 x9 xa xb xc xd v xf"
| "upd16 (N16 x0 x1 x2 x3 x4 x5 x6 x7 x8 x9 xa xb xc xd xe xf) HexF v = N16 x0 x1 x2 x3 x4 x5 x6 x7 x8 x9 xa xb xc xd xe v"

text \<open>What the cipher needs of an array: a lookup and an update that are those of the list it stands for.\<close>

locale indexed_array =
  fixes elems :: "'t \<Rightarrow> 'a list" and index :: "'i \<Rightarrow> nat" and get :: "'t \<Rightarrow> 'i \<Rightarrow> 'a" and upd :: "'t \<Rightarrow> 'i \<Rightarrow> 'a \<Rightarrow> 't" and len :: nat
  assumes elems_length: "length (elems t) = len"
    and index_less: "index i < len"
    and get_elems: "get t i = elems t ! index i"
    and elems_upd: "elems (upd t i v) = (elems t)[index i := v]"
begin

lemma get_append: "n = length xs \<Longrightarrow> (xs @ elems t @ ys) ! (n + index i) = get t i"
  using elems_length [of t] index_less [of i] by (simp add: get_elems nth_append)

lemma upd_append: "n = length xs \<Longrightarrow> (xs @ elems t @ ys)[n + index i := v] = xs @ elems (upd t i v) @ ys"
  using elems_length [of t] index_less [of i] by (simp add: elems_upd list_update_append)

end

interpretation node: indexed_array l16 nv get16 upd16 16
proof unfold_locales
  show "length (l16 t) = 16" for t :: "'a n16" by (cases t) simp
  show "nv i < 16" for i by (rule nv_less)
  show "get16 t i = l16 t ! nv i" for t :: "'a n16" and i by (cases t; cases i) simp_all
  show "l16 (upd16 t i v) = (l16 t)[nv i := v]" for t :: "'a n16" and i v by (cases t; cases i) simp_all
qed

type_synonym box = "nw n16 n16"

definition box_list :: "box \<Rightarrow> nw list" where
  "box_list t = concat (map l16 (l16 t))"

definition box_index :: "nib \<times> nib \<Rightarrow> nat" where
  "box_index = (\<lambda>(h, l). 16 * nv h + nv l)"

fun box_get :: "box \<Rightarrow> nib \<times> nib \<Rightarrow> nw" where
  "box_get t (h, l) = get16 (get16 t h) l"

fun box_upd :: "box \<Rightarrow> nib \<times> nib \<Rightarrow> nw \<Rightarrow> box" where
  "box_upd t (h, l) v = upd16 t h (upd16 (get16 t h) l v)"

lemma nth_concat_rows:
  "\<forall>xs \<in> set xss. length xs = k \<Longrightarrow> i < length xss \<Longrightarrow> j < k \<Longrightarrow> concat xss ! (k * i + j) = xss ! i ! j"
  by (induction xss arbitrary: i) (auto simp: nth_Cons nth_append split: nat.splits)

lemma concat_rows_update:
  "\<forall>xs \<in> set xss. length xs = k \<Longrightarrow> i < length xss \<Longrightarrow> j < k \<Longrightarrow>
   (concat xss)[k * i + j := v] = concat (xss[i := (xss ! i)[j := v]])"
  by (induction xss arbitrary: i) (auto simp: nth_Cons list_update_append split: nat.splits)

lemma concat_rows_length: "\<forall>xs \<in> set xss. length xs = k \<Longrightarrow> length (concat xss) = length xss * k"
  by (induction xss) auto

interpretation box: indexed_array box_list box_index box_get box_upd 256
proof unfold_locales
  fix t :: box and i :: "nib \<times> nib" and v
  obtain h l where i: "i = (h, l)" by (cases i)
  have rows: "\<forall>xs \<in> set (map l16 (l16 t)). length xs = 16" by (simp add: node.elems_length)
  show "length (box_list t) = 256"
    using concat_rows_length [OF rows] by (simp add: box_list_def node.elems_length)
  show "box_index i < 256"
    using nv_less [of h] nv_less [of l] by (simp add: box_index_def i)
  show "box_get t i = box_list t ! box_index i"
    using nth_concat_rows [OF rows, of "nv h" "nv l"]
    by (simp add: box_list_def box_index_def i node.elems_length nv_less node.get_elems)
  show "box_list (box_upd t i v) = (box_list t)[box_index i := v]"
    using concat_rows_update [OF rows, of "nv h" "nv l" v]
    by (simp add: box_list_def box_index_def i node.elems_length nv_less node.get_elems node.elems_upd map_update)
qed

section \<open>The cipher on digits and trees\<close>

datatype (plugins only: size) boxes = Boxes box box box box

datatype (plugins only: size) p18 =
  P18 nw nw nw nw nw nw nw nw nw nw nw nw nw nw nw nw nw nw

datatype (plugins only: size) halves = Halves nw nw

datatype (plugins only: size) fast_state = Fast boxes p18 halves

primrec boxes_list :: "boxes \<Rightarrow> BF_word list" where
  "boxes_list (Boxes s0 s1 s2 s3) = map w32 (box_list s0 @ box_list s1 @ box_list s2 @ box_list s3)"

primrec p_list :: "p18 \<Rightarrow> nw list" where
  "p_list (P18 p0 p1 p2 p3 p4 p5 p6 p7 p8 p9 p10 p11 p12 p13 p14 p15 p16 p17) = [p0, p1, p2, p3, p4, p5, p6, p7, p8, p9, p10, p11, p12, p13, p14, p15, p16, p17]"

definition ctx_of :: "boxes \<Rightarrow> p18 \<Rightarrow> BF_ctx" where
  "ctx_of s p = \<lparr>ctx_S = boxes_list s, ctx_P = map w32 (p_list p)\<rparr>"

primrec pair_of :: "halves \<Rightarrow> BF_word \<times> BF_word" where
  "pair_of (Halves l r) = (w32 l, w32 r)"

primrec state_of :: "fast_state \<Rightarrow> (BF_word \<times> BF_word) \<times> BF_ctx" where
  "state_of (Fast s p lr) = (pair_of lr, ctx_of s p)"

fun rd :: "boxes \<Rightarrow> nw \<Rightarrow> nw \<Rightarrow> nw \<Rightarrow> nw" where
  "rd (Boxes s0 s1 s2 s3) p (W8 a b c d e f g h) r =
     wxor (wxor r p)
       (wadd (wxor (wadd (get16 (get16 s1 c) d) (get16 (get16 s0 a) b)) (get16 (get16 s2 e) f)) (get16 (get16 s3 g) h))"

text \<open>The halves change places after each round.\<close>

fun rounds :: "boxes \<Rightarrow> nw list \<Rightarrow> nw \<Rightarrow> nw \<Rightarrow> halves" where
  "rounds s [] x y = Halves y x"
| "rounds s [p] x y = Halves (wxor y p) x"
| "rounds s (p # q # ps) x y = rounds s (q # ps) (rd s p x y) x"

fun enc :: "boxes \<Rightarrow> p18 \<Rightarrow> halves \<Rightarrow> halves" where
  "enc s (P18 p0 p1 p2 p3 p4 p5 p6 p7 p8 p9 p10 p11 p12 p13 p14 p15 p16 p17) (Halves x y) = rounds s [p1, p2, p3, p4, p5, p6, p7, p8, p9, p10, p11, p12, p13, p14, p15, p16, p17] (wxor x p0) y"

lemma boxes_nth:
  "boxes_list (Boxes s0 s1 s2 s3) ! box_index i = w32 (box_get s0 i)"
  "boxes_list (Boxes s0 s1 s2 s3) ! (256 + box_index i) = w32 (box_get s1 i)"
  "boxes_list (Boxes s0 s1 s2 s3) ! (512 + box_index i) = w32 (box_get s2 i)"
  "boxes_list (Boxes s0 s1 s2 s3) ! (768 + box_index i) = w32 (box_get s3 i)"
  using box.index_less [of i] box.get_append [of 0 "[]" s0 "box_list s1 @ box_list s2 @ box_list s3" i]
    box.get_append [of 256 "box_list s0" s1 "box_list s2 @ box_list s3" i]
    box.get_append [of 512 "box_list s0 @ box_list s1" s2 "box_list s3" i]
    box.get_append [of 768 "box_list s0 @ box_list s1 @ box_list s2" s3 "[]" i]
  by (simp_all add: box.elems_length del: map_append)

lemma BF_ROUND_fast:
  assumes "N < 17"
  shows "BF_ROUND (ctx_of s p) (w32 l) (w32 r) N = w32 (rd s (p_list p ! (N + 1)) l r)"
proof -
  obtain s0 s1 s2 s3 where s: "s = Boxes s0 s1 s2 s3" by (cases s)
  obtain a b c d e f g h where l: "l = W8 a b c d e f g h" by (cases l)
  have "length (p_list p) = 18" by (cases p) simp
  then have P: "map w32 (p_list p) ! (N + 1) = w32 (p_list p ! (N + 1))" using assms by simp
  note nth = boxes_nth [of s0 s1 s2 s3 "(u, v)" for u v, unfolded box_index_def box_get.simps prod.case]
  show ?thesis
    unfolding BF_ROUND_def ctx_of_def s Let_def BF_ctx.simps P w32_bytes [OF l]
    by (simp add: nth l w32_xor w32_add del: boxes_list.simps)
qed

lemma BF_ENCRYPT_fast: "BF_ENCRYPT (ctx_of s p) (pair_of lr) = pair_of (enc s p lr)"
proof -
  obtain p0 p1 p2 p3 p4 p5 p6 p7 p8 p9 p10 p11 p12 p13 p14 p15 p16 p17 where p: "p = P18 p0 p1 p2 p3 p4 p5 p6 p7 p8 p9 p10 p11 p12 p13 p14 p15 p16 p17" by (cases p)
  obtain x y where lr: "lr = Halves x y" by (cases lr)
  have P: "ctx_P (ctx_of s p) = map w32 [p0, p1, p2, p3, p4, p5, p6, p7, p8, p9, p10, p11, p12, p13, p14, p15, p16, p17]" by (simp add: ctx_of_def p)
  show ?thesis
    by (simp add: BF_ENCRYPT_def BF_ROUNDS_def lr P w32_xor BF_N_def BF_ROUND_fast) (simp add: p)
qed

subsection \<open>The loops over the context\<close>

datatype (plugins only: size) row = K0 | K1 | K2 | K3

datatype (plugins only: size) quad = Q0 | Q1 | Q2 | Q3

datatype (plugins only: size) p_index = P0 | P1 | P2 | P3 | P4 | P5 | P6 | P7 | P8

primrec kv :: "row \<Rightarrow> nat" where
  "kv K0 = 0"
| "kv K1 = 1"
| "kv K2 = 2"
| "kv K3 = 3"

primrec qv :: "quad \<Rightarrow> nat" where
  "qv Q0 = 0"
| "qv Q1 = 1"
| "qv Q2 = 2"
| "qv Q3 = 3"

primrec pv :: "p_index \<Rightarrow> nat" where
  "pv P0 = 0"
| "pv P1 = 1"
| "pv P2 = 2"
| "pv P3 = 3"
| "pv P4 = 4"
| "pv P5 = 5"
| "pv P6 = 6"
| "pv P7 = 7"
| "pv P8 = 8"

fun hxor :: "halves \<Rightarrow> halves \<Rightarrow> halves" where
  "hxor (Halves a b) (Halves c d) = Halves (wxor a c) (wxor b d)"

fun upd2 :: "box \<Rightarrow> nib \<Rightarrow> nib \<Rightarrow> nib \<Rightarrow> nw \<Rightarrow> nw \<Rightarrow> box" where
  "upd2 t h l l' x y = upd16 t h (upd16 (upd16 (get16 t h) l x) l' y)"

fun sput :: "row \<Rightarrow> nib \<Rightarrow> nib \<Rightarrow> nib \<Rightarrow> boxes \<Rightarrow> p18 \<Rightarrow> halves \<Rightarrow> fast_state" where
  "sput K0 h l l' (Boxes s0 s1 s2 s3) p (Halves x y) = Fast (Boxes (upd2 s0 h l l' x y) s1 s2 s3) p (Halves x y)"
| "sput K1 h l l' (Boxes s0 s1 s2 s3) p (Halves x y) = Fast (Boxes s0 (upd2 s1 h l l' x y) s2 s3) p (Halves x y)"
| "sput K2 h l l' (Boxes s0 s1 s2 s3) p (Halves x y) = Fast (Boxes s0 s1 (upd2 s2 h l l' x y) s3) p (Halves x y)"
| "sput K3 h l l' (Boxes s0 s1 s2 s3) p (Halves x y) = Fast (Boxes s0 s1 s2 (upd2 s3 h l l' x y)) p (Halves x y)"

fun sturn :: "halves \<Rightarrow> row \<Rightarrow> nib \<Rightarrow> nib \<Rightarrow> nib \<Rightarrow> fast_state \<Rightarrow> fast_state" where
  "sturn salt k h l l' (Fast s p lr) = sput k h l l' s p (enc s p (hxor lr salt))"

fun pput :: "p_index \<Rightarrow> p18 \<Rightarrow> halves \<Rightarrow> p18" where
  "pput P0 (P18 p0 p1 p2 p3 p4 p5 p6 p7 p8 p9 p10 p11 p12 p13 p14 p15 p16 p17) (Halves l r) = P18 l r p2 p3 p4 p5 p6 p7 p8 p9 p10 p11 p12 p13 p14 p15 p16 p17"
| "pput P1 (P18 p0 p1 p2 p3 p4 p5 p6 p7 p8 p9 p10 p11 p12 p13 p14 p15 p16 p17) (Halves l r) = P18 p0 p1 l r p4 p5 p6 p7 p8 p9 p10 p11 p12 p13 p14 p15 p16 p17"
| "pput P2 (P18 p0 p1 p2 p3 p4 p5 p6 p7 p8 p9 p10 p11 p12 p13 p14 p15 p16 p17) (Halves l r) = P18 p0 p1 p2 p3 l r p6 p7 p8 p9 p10 p11 p12 p13 p14 p15 p16 p17"
| "pput P3 (P18 p0 p1 p2 p3 p4 p5 p6 p7 p8 p9 p10 p11 p12 p13 p14 p15 p16 p17) (Halves l r) = P18 p0 p1 p2 p3 p4 p5 l r p8 p9 p10 p11 p12 p13 p14 p15 p16 p17"
| "pput P4 (P18 p0 p1 p2 p3 p4 p5 p6 p7 p8 p9 p10 p11 p12 p13 p14 p15 p16 p17) (Halves l r) = P18 p0 p1 p2 p3 p4 p5 p6 p7 l r p10 p11 p12 p13 p14 p15 p16 p17"
| "pput P5 (P18 p0 p1 p2 p3 p4 p5 p6 p7 p8 p9 p10 p11 p12 p13 p14 p15 p16 p17) (Halves l r) = P18 p0 p1 p2 p3 p4 p5 p6 p7 p8 p9 l r p12 p13 p14 p15 p16 p17"
| "pput P6 (P18 p0 p1 p2 p3 p4 p5 p6 p7 p8 p9 p10 p11 p12 p13 p14 p15 p16 p17) (Halves l r) = P18 p0 p1 p2 p3 p4 p5 p6 p7 p8 p9 p10 p11 l r p14 p15 p16 p17"
| "pput P7 (P18 p0 p1 p2 p3 p4 p5 p6 p7 p8 p9 p10 p11 p12 p13 p14 p15 p16 p17) (Halves l r) = P18 p0 p1 p2 p3 p4 p5 p6 p7 p8 p9 p10 p11 p12 p13 l r p16 p17"
| "pput P8 (P18 p0 p1 p2 p3 p4 p5 p6 p7 p8 p9 p10 p11 p12 p13 p14 p15 p16 p17) (Halves l r) = P18 p0 p1 p2 p3 p4 p5 p6 p7 p8 p9 p10 p11 p12 p13 p14 p15 l r"

fun pstore :: "p_index \<Rightarrow> boxes \<Rightarrow> p18 \<Rightarrow> halves \<Rightarrow> fast_state" where
  "pstore i s p (Halves x y) = Fast s (pput i p (Halves x y)) (Halves x y)"

fun pturn :: "halves \<Rightarrow> p_index \<Rightarrow> fast_state \<Rightarrow> fast_state" where
  "pturn salt i (Fast s p lr) = pstore i s p (enc s p (hxor lr salt))"

lemma pair_hxor: "pair_of (hxor lr salt) = (fst (pair_of lr) XOR fst (pair_of salt), snd (pair_of lr) XOR snd (pair_of salt))"
  by (cases lr; cases salt) (simp add: w32_xor)

lemma fill_P_fast: "fill_P (pair_of salt) (2 * pv i) (state_of st) = state_of (pturn salt i st)"
proof -
  obtain s p lr where st: "st = Fast s p lr" by (cases st)
  obtain x y where e: "enc s p (hxor lr salt) = Halves x y" by (cases "enc s p (hxor lr salt)")
  have "map w32 (p_list (pput i p (Halves x y))) = (map w32 (p_list p))[2 * pv i := w32 x, 2 * pv i + 1 := w32 y]"
    by (cases p; cases i) simp_all
  then show ?thesis
    using BF_ENCRYPT_fast [of s p "hxor lr salt"]
    by (simp add: fill_P_def st e pair_hxor split_beta ctx_of_def)
qed

lemma boxes_update2:
  assumes "nv l' = nv l + 1" and "sput k h l l' s p (Halves x y) = Fast s' p' lr"
  shows "boxes_list s' = (boxes_list s)[256 * kv k + 16 * nv h + nv l := w32 x, 256 * kv k + 16 * nv h + nv l + 1 := w32 y]"
    and "p' = p" and "lr = Halves x y"
proof -
  obtain s0 s1 s2 s3 where s: "s = Boxes s0 s1 s2 s3" by (cases s)
  have same: "get16 (upd16 t h z) h = z" "upd16 (upd16 t h z) h z' = upd16 t h z'" for t :: box and z z'
    by (cases t; cases h; simp)+
  have upd2: "box_list (upd2 t h l l' x y) = (box_list t)[16 * nv h + nv l := x, 16 * nv h + nv l + 1 := y]" for t
    using box.elems_upd [of t "(h, l)" x] box.elems_upd [of "box_upd t (h, l) x" "(h, l')" y] assms(1)
    by (simp add: same box_index_def)
  have "16 * nv h + nv l + 1 < 256" using assms(1) nv_less [of h] nv_less [of l'] by simp
  then show "boxes_list s' = (boxes_list s)[256 * kv k + 16 * nv h + nv l := w32 x, 256 * kv k + 16 * nv h + nv l + 1 := w32 y]"
    using assms(2) by (cases k) (auto simp: s upd2 box.elems_length list_update_append map_update simp del: upd2.simps)
  show "p' = p" "lr = Halves x y" using assms(2) s by (cases k; simp)+
qed

lemma fill_S_fast:
  assumes "nv l' = nv l + 1"
  shows "fill_S (pair_of salt) (256 * kv k + 16 * nv h + nv l) (state_of st) = state_of (sturn salt k h l l' st)"
proof -
  obtain s p lr where st: "st = Fast s p lr" by (cases st)
  obtain x y where e: "enc s p (hxor lr salt) = Halves x y" by (cases "enc s p (hxor lr salt)")
  obtain s' p' lr' where put: "sput k h l l' s p (Halves x y) = Fast s' p' lr'" by (cases "sput k h l l' s p (Halves x y)")
  show ?thesis
    using BF_ENCRYPT_fast [of s p "hxor lr salt"] boxes_update2 [OF assms put]
    by (simp add: fill_S_def st e put pair_hxor split_beta ctx_of_def)
qed

text \<open>A row of a box has four groups of four words; the two halves of a group get different salts.\<close>

fun qturn :: "halves \<Rightarrow> halves \<Rightarrow> row \<Rightarrow> nib \<Rightarrow> quad \<Rightarrow> fast_state \<Rightarrow> fast_state" where
  "qturn sa sb k h Q0 st = sturn sb k h Hex2 Hex3 (sturn sa k h Hex0 Hex1 st)"
| "qturn sa sb k h Q1 st = sturn sb k h Hex6 Hex7 (sturn sa k h Hex4 Hex5 st)"
| "qturn sa sb k h Q2 st = sturn sb k h HexA HexB (sturn sa k h Hex8 Hex9 st)"
| "qturn sa sb k h Q3 st = sturn sb k h HexE HexF (sturn sa k h HexC HexD st)"

definition quads :: "quad list" where
  "quads = [Q0, Q1, Q2, Q3]"

definition rowturn :: "halves \<Rightarrow> halves \<Rightarrow> row \<Rightarrow> nib \<Rightarrow> fast_state \<Rightarrow> fast_state" where
  "rowturn sa sb k h = fold (qturn sa sb k h) quads"

definition boxturn :: "halves \<Rightarrow> halves \<Rightarrow> row \<Rightarrow> fast_state \<Rightarrow> fast_state" where
  "boxturn sa sb k = fold (rowturn sa sb k) nibs"

definition fill_boxes :: "halves \<Rightarrow> halves \<Rightarrow> fast_state \<Rightarrow> fast_state" where
  "fill_boxes sa sb = fold (boxturn sa sb) [K0, K1, K2, K3]"

lemma qturn_fast:
  "fill_S (pair_of sb) (256 * kv k + 16 * nv h + 4 * qv q + 2) (fill_S (pair_of sa) (256 * kv k + 16 * nv h + 4 * qv q) (state_of st)) =
   state_of (qturn sa sb k h q st)"
  using fill_S_fast [of "nibs ! (4 * qv q + 1)" "nibs ! (4 * qv q)" sa k h st]
    fill_S_fast [of "nibs ! (4 * qv q + 3)" "nibs ! (4 * qv q + 2)" sb k h "sturn sa k h (nibs ! (4 * qv q)) (nibs ! (4 * qv q + 1)) st"]
  by (cases q) (simp_all add: nibs_def ac_simps)

lemma fold_fast: "(\<And>x st. f x (state_of st) = state_of (g x st)) \<Longrightarrow> fold f xs (state_of st) = state_of (fold g xs st)"
  by (induction xs arbitrary: st) simp_all

lemma fold_concat_map: "fold f (concat (map g xs)) = fold (\<lambda>x. fold f (g x)) xs"
  by (induction xs) simp_all

lemma four_steps:
  "map (\<lambda>k. 4 * k) [0..<0x100] =
   concat (map (\<lambda>k. concat (map (\<lambda>h. map (\<lambda>q. 256 * kv k + 16 * nv h + 4 * qv q) quads) nibs)) [K0, K1, K2, K3])"
  by (simp add: quads_def nibs_def upt_rec)

lemma two_steps: "map (\<lambda>k. 2 * k) [0..<0x200] = concat (map (\<lambda>i. [i, i + 2]) (map (\<lambda>k. 4 * k) [0..<0x100]))"
  by code_simp

lemma fill_boxes_fast:
  "fold (\<lambda>i. fill_S (pair_of sb) (i + 2) \<circ> fill_S (pair_of sa) i) (map (\<lambda>k. 4 * k) [0..<0x100]) (state_of st) =
   state_of (fill_boxes sa sb st)"
proof -
  let ?f = "\<lambda>i. fill_S (pair_of sb) (i + 2) \<circ> fill_S (pair_of sa) i"
  have row: "fold ?f (map (\<lambda>q. 256 * kv k + 16 * nv h + 4 * qv q) quads) (state_of st) = state_of (rowturn sa sb k h st)" for k h st
    unfolding rowturn_def fold_map by (rule fold_fast) (simp only: o_apply qturn_fast)
  have box: "fold ?f (concat (map (\<lambda>h. map (\<lambda>q. 256 * kv k + 16 * nv h + 4 * qv q) quads) nibs)) (state_of st) =
      state_of (boxturn sa sb k st)" for k st
    unfolding boxturn_def fold_concat_map by (rule fold_fast) (rule row)
  show ?thesis
    unfolding four_steps fill_boxes_def fold_concat_map [of _ _ "[K0, K1, K2, K3]"] by (rule fold_fast) (rule box)
qed

primrec pick :: "p_index \<Rightarrow> halves \<Rightarrow> halves \<Rightarrow> halves" where
  "pick P0 sa sb = sa"
| "pick P1 sa sb = sb"
| "pick P2 sa sb = sa"
| "pick P3 sa sb = sb"
| "pick P4 sa sb = sa"
| "pick P5 sa sb = sb"
| "pick P6 sa sb = sa"
| "pick P7 sa sb = sb"
| "pick P8 sa sb = sa"

definition fill_p :: "halves \<Rightarrow> halves \<Rightarrow> fast_state \<Rightarrow> fast_state" where
  "fill_p sa sb = fold (\<lambda>i. pturn (pick i sa sb) i) [P0, P1, P2, P3, P4, P5, P6, P7, P8]"

lemma p_steps: "map (\<lambda>k. 2 * k) [0..<9] = map (\<lambda>i. 2 * pv i) [P0, P1, P2, P3, P4, P5, P6, P7, P8]"
  by (simp add: upt_rec)

definition zero_w :: nw where
  "zero_w = W8 Hex0 Hex0 Hex0 Hex0 Hex0 Hex0 Hex0 Hex0"

lemma w32_zero: "w32 zero_w = 0"
  by (simp add: w32_def zero_w_def)

lemma fill_p_fast:
  "fold (\<lambda>i. fill_P (if i AND 2 = 0 then pair_of sa else pair_of sb) i) (map (\<lambda>k. 2 * k) [0..<9]) (state_of st) =
   state_of (fill_p sa sb st)"
  unfolding p_steps fill_p_def fold_map
proof (rule fold_fast)
  show "((\<lambda>i. fill_P (if i AND 2 = 0 then pair_of sa else pair_of sb) i) \<circ> (\<lambda>i. 2 * pv i)) i (state_of st) =
      state_of (pturn (pick i sa sb) i st)" for i st
    using fill_P_fast [of "pick i sa sb" i st] by (cases i) simp_all
qed

lemma first_fast:
  "first_P [w32 s0, w32 s1, w32 s2, w32 s3] (state_of st) = state_of (fill_p (Halves s0 s1) (Halves s2 s3) st)"
  "first_S [w32 s0, w32 s1, w32 s2, w32 s3] (state_of st) = state_of (fill_boxes (Halves s2 s3) (Halves s0 s1) st)"
proof -
  have "first_P [w32 s0, w32 s1, w32 s2, w32 s3] =
      fold (\<lambda>i. fill_P (if i AND 2 = 0 then pair_of (Halves s0 s1) else pair_of (Halves s2 s3)) i) (map (\<lambda>k. 2 * k) [0..<9])"
    unfolding first_P_def p_steps by (rule ext) (simp add: salt_pair_def)
  then show "first_P [w32 s0, w32 s1, w32 s2, w32 s3] (state_of st) = state_of (fill_p (Halves s0 s1) (Halves s2 s3) st)"
    by (simp only: fill_p_fast)
  show "first_S [w32 s0, w32 s1, w32 s2, w32 s3] (state_of st) = state_of (fill_boxes (Halves s2 s3) (Halves s0 s1) st)"
    using fill_boxes_fast [of "Halves s0 s1" "Halves s2 s3" st] by (simp add: first_S_def salt_pair_def)
qed

definition zero_h :: halves where
  "zero_h = Halves zero_w zero_w"

primrec boxes_of :: "fast_state \<Rightarrow> boxes" where
  "boxes_of (Fast s p lr) = s"

primrec p_of :: "fast_state \<Rightarrow> p18" where
  "p_of (Fast s p lr) = p"

definition body :: "boxes \<Rightarrow> p18 \<Rightarrow> fast_state" where
  "body s p = fill_boxes zero_h zero_h (fill_p zero_h zero_h (Fast s p zero_h))"

lemma BF_body_fast: "BF_body (ctx_of s p) = ctx_of (boxes_of (body s p)) (p_of (body s p))"
proof -
  have zero: "(0, 0) = pair_of zero_h" by (simp add: zero_h_def w32_zero)
  have P: "fold (fill_P (0, 0)) (map (\<lambda>k. 2 * k) [0..<9]) ((0, 0), ctx_of s p) = state_of (fill_p zero_h zero_h (Fast s p zero_h))"
    using fill_p_fast [of zero_h zero_h "Fast s p zero_h"] by (simp add: zero_h_def w32_zero)
  have S: "fold (fill_S (0, 0)) (map (\<lambda>k. 2 * k) [0..<0x200]) (state_of st) = state_of (fill_boxes zero_h zero_h st)" for st
    using fill_boxes_fast [of zero_h zero_h st] unfolding two_steps fold_concat_map zero by (simp add: o_def)
  obtain s' p' lr' where b: "body s p = Fast s' p' lr'" by (cases "body s p")
  show ?thesis
    unfolding BF_body_def P S using b by (simp add: body_def)
qed

section \<open>The hash\<close>

fun p_xor :: "p18 \<Rightarrow> p18 \<Rightarrow> p18" where
  "p_xor (P18 p0 p1 p2 p3 p4 p5 p6 p7 p8 p9 p10 p11 p12 p13 p14 p15 p16 p17) (P18 q0 q1 q2 q3 q4 q5 q6 q7 q8 q9 q10 q11 q12 q13 q14 q15 q16 q17) =
     P18 (wxor p0 q0) (wxor p1 q1) (wxor p2 q2) (wxor p3 q3) (wxor p4 q4) (wxor p5 q5) (wxor p6 q6) (wxor p7 q7) (wxor p8 q8) (wxor p9 q9) (wxor p10 q10) (wxor p11 q11) (wxor p12 q12) (wxor p13 q13) (wxor p14 q14) (wxor p15 q15) (wxor p16 q16) (wxor p17 q17)"

fun p_salt :: "nw \<Rightarrow> nw \<Rightarrow> nw \<Rightarrow> nw \<Rightarrow> p18 \<Rightarrow> p18" where
  "p_salt s0 s1 s2 s3 (P18 p0 p1 p2 p3 p4 p5 p6 p7 p8 p9 p10 p11 p12 p13 p14 p15 p16 p17) =
     P18 (wxor p0 s0) (wxor p1 s1) (wxor p2 s2) (wxor p3 s3) (wxor p4 s0) (wxor p5 s1) (wxor p6 s2) (wxor p7 s3) (wxor p8 s0) (wxor p9 s1) (wxor p10 s2) (wxor p11 s3) (wxor p12 s0) (wxor p13 s1) (wxor p14 s2) (wxor p15 s3) (wxor p16 s0) (wxor p17 s1)"

lemma mix_fast:
  "mix_key (map w32 (p_list key)) (ctx_of s p) = ctx_of s (p_xor p key)"
  "mix_salt [w32 s0, w32 s1, w32 s2, w32 s3] (ctx_of s p) = ctx_of s (p_salt s0 s1 s2 s3 p)"
  by (cases p; cases key; simp add: mix_key_def ctx_of_def w32_xor)
    (cases p; simp add: mix_salt_def ctx_of_def w32_xor BF_N_def upt_rec)

text \<open>Sixty-four encryptions are sixteen times four.\<close>

definition enc_quad :: "boxes \<Rightarrow> p18 \<Rightarrow> nib \<Rightarrow> halves \<Rightarrow> halves" where
  "enc_quad s p h lr = enc s p (enc s p (enc s p (enc s p lr)))"

definition enc64 :: "boxes \<Rightarrow> p18 \<Rightarrow> halves \<Rightarrow> halves" where
  "enc64 s p = fold (enc_quad s p) nibs"

lemma enc64_fast: "(BF_ENCRYPT (ctx_of s p) ^^ 64) (pair_of lr) = pair_of (enc64 s p lr)"
proof -
  have "(BF_ENCRYPT (ctx_of s p) ^^ n) (pair_of lr) = pair_of ((enc s p ^^ n) lr)" for n
    by (induction n) (simp_all add: BF_ENCRYPT_fast)
  moreover have "(enc s p ^^ 64) lr = enc64 s p lr"
    by (simp add: enc64_def enc_quad_def nibs_def eval_nat_numeral)
  ultimately show ?thesis by simp
qed

fun run_magic :: "fast_state \<Rightarrow> halves list" where
  "run_magic (Fast s p lr) =
     [enc64 s p (Halves (W8 Hex4 HexF Hex7 Hex2 Hex7 Hex0 Hex6 Hex8) (W8 Hex6 Hex5 Hex6 Hex1 Hex6 HexE Hex4 Hex2)),
      enc64 s p (Halves (W8 Hex6 Hex5 Hex6 Hex8 Hex6 HexF Hex6 HexC) (W8 Hex6 Hex4 Hex6 Hex5 Hex7 Hex2 Hex5 Hex3)),
      enc64 s p (Halves (W8 Hex6 Hex3 Hex7 Hex2 Hex7 Hex9 Hex4 Hex4) (W8 Hex6 HexF Hex7 Hex5 Hex6 Hex2 Hex7 Hex4))]"

fun run_second :: "nw \<Rightarrow> nw \<Rightarrow> nw \<Rightarrow> nw \<Rightarrow> fast_state \<Rightarrow> fast_state" where
  "run_second s0 s1 s2 s3 (Fast s p lr) = body s (p_salt s0 s1 s2 s3 p)"

fun run_first :: "p18 \<Rightarrow> fast_state \<Rightarrow> fast_state" where
  "run_first key (Fast s p lr) = body s (p_xor p key)"

lemma magic_fast:
  "concat (map (encrypt_magic (snd (state_of st))) [0, 2, 4]) = concat (map (\<lambda>h. [fst (pair_of h), snd (pair_of h)]) (run_magic st))"
proof -
  obtain s p lr where st: "st = Fast s p lr" by (cases st)
  have "encrypt_magic (ctx_of s p) 0 = [fst (pair_of h), snd (pair_of h)]" if "h = enc64 s p (Halves (W8 Hex4 HexF Hex7 Hex2 Hex7 Hex0 Hex6 Hex8) (W8 Hex6 Hex5 Hex6 Hex1 Hex6 HexE Hex4 Hex2))" for h
    using enc64_fast [of s p "Halves (W8 Hex4 HexF Hex7 Hex2 Hex7 Hex0 Hex6 Hex8) (W8 Hex6 Hex5 Hex6 Hex1 Hex6 HexE Hex4 Hex2)"] that
    by (simp add: encrypt_magic_def BF_magic_w_def w32_def split_beta)
  moreover have "encrypt_magic (ctx_of s p) 2 = [fst (pair_of h), snd (pair_of h)]" if "h = enc64 s p (Halves (W8 Hex6 Hex5 Hex6 Hex8 Hex6 HexF Hex6 HexC) (W8 Hex6 Hex4 Hex6 Hex5 Hex7 Hex2 Hex5 Hex3))" for h
    using enc64_fast [of s p "Halves (W8 Hex6 Hex5 Hex6 Hex8 Hex6 HexF Hex6 HexC) (W8 Hex6 Hex4 Hex6 Hex5 Hex7 Hex2 Hex5 Hex3)"] that
    by (simp add: encrypt_magic_def BF_magic_w_def w32_def split_beta)
  moreover have "encrypt_magic (ctx_of s p) 4 = [fst (pair_of h), snd (pair_of h)]" if "h = enc64 s p (Halves (W8 Hex6 Hex3 Hex7 Hex2 Hex7 Hex9 Hex4 Hex4) (W8 Hex6 HexF Hex7 Hex5 Hex6 Hex2 Hex7 Hex4))" for h
    using enc64_fast [of s p "Halves (W8 Hex6 Hex3 Hex7 Hex2 Hex7 Hex9 Hex4 Hex4) (W8 Hex6 HexF Hex7 Hex5 Hex6 Hex2 Hex7 Hex4)"] that
    by (simp add: encrypt_magic_def BF_magic_w_def w32_def split_beta)
  ultimately show ?thesis by (simp add: st)
qed

lemma main_turn_fast:
  "main_turn (map w32 (p_list key)) [w32 s0, w32 s1, w32 s2, w32 s3] (snd (state_of st)) =
   snd (state_of (run_second s0 s1 s2 s3 (run_first key st)))"
proof -
  obtain s p lr where st: "st = Fast s p lr" by (cases st)
  obtain s' p' lr' where b: "body s (p_xor p key) = Fast s' p' lr'" by (cases "body s (p_xor p key)")
  obtain s'' p'' lr'' where b': "body s' (p_salt s0 s1 s2 s3 p') = Fast s'' p'' lr''" by (cases "body s' (p_salt s0 s1 s2 s3 p')")
  show ?thesis by (simp add: main_turn_def st mix_fast BF_body_fast b b')
qed

section \<open>The run of the self test\<close>

definition init_boxes :: boxes where
  "init_boxes = Boxes
    (N16
      (N16 (W8 HexD Hex1 Hex3 Hex1 Hex0 HexB HexA Hex6) (W8 Hex9 Hex8 HexD HexF HexB Hex5 HexA HexC)
       (W8 Hex2 HexF HexF HexD Hex7 Hex2 HexD HexB) (W8 HexD Hex0 Hex1 HexA HexD HexF HexB Hex7)
       (W8 HexB Hex8 HexE Hex1 HexA HexF HexE HexD) (W8 Hex6 HexA Hex2 Hex6 Hex7 HexE Hex9 Hex6)
       (W8 HexB HexA Hex7 HexC Hex9 Hex0 Hex4 Hex5) (W8 HexF Hex1 Hex2 HexC Hex7 HexF Hex9 Hex9)
       (W8 Hex2 Hex4 HexA Hex1 Hex9 Hex9 Hex4 Hex7) (W8 HexB Hex3 Hex9 Hex1 Hex6 HexC HexF Hex7)
       (W8 Hex0 Hex8 Hex0 Hex1 HexF Hex2 HexE Hex2) (W8 Hex8 Hex5 Hex8 HexE HexF HexC Hex1 Hex6)
       (W8 Hex6 Hex3 Hex6 Hex9 Hex2 Hex0 HexD Hex8) (W8 Hex7 Hex1 Hex5 Hex7 Hex4 HexE Hex6 Hex9)
       (W8 HexA Hex4 Hex5 Hex8 HexF HexE HexA Hex3) (W8 HexF Hex4 Hex9 Hex3 Hex3 HexD Hex7 HexE))
      (N16 (W8 Hex0 HexD Hex9 Hex5 Hex7 Hex4 Hex8 HexF) (W8 Hex7 Hex2 Hex8 HexE HexB Hex6 Hex5 Hex8)
       (W8 Hex7 Hex1 Hex8 HexB HexC HexD Hex5 Hex8) (W8 Hex8 Hex2 Hex1 Hex5 Hex4 HexA HexE HexE)
       (W8 Hex7 HexB Hex5 Hex4 HexA Hex4 Hex1 HexD) (W8 HexC Hex2 Hex5 HexA Hex5 Hex9 HexB Hex5)
       (W8 Hex9 HexC Hex3 Hex0 HexD Hex5 Hex3 Hex9) (W8 Hex2 HexA HexF Hex2 Hex6 Hex0 Hex1 Hex3)
       (W8 HexC Hex5 HexD Hex1 HexB Hex0 Hex2 Hex3) (W8 Hex2 Hex8 Hex6 Hex0 Hex8 Hex5 HexF Hex0)
       (W8 HexC HexA Hex4 Hex1 Hex7 Hex9 Hex1 Hex8) (W8 HexB Hex8 HexD HexB Hex3 Hex8 HexE HexF)
       (W8 Hex8 HexE Hex7 Hex9 HexD HexC HexB Hex0) (W8 Hex6 Hex0 Hex3 HexA Hex1 Hex8 Hex0 HexE)
       (W8 Hex6 HexC Hex9 HexE Hex0 HexE Hex8 HexB) (W8 HexB Hex0 Hex1 HexE Hex8 HexA Hex3 HexE))
      (N16 (W8 HexD Hex7 Hex1 Hex5 Hex7 Hex7 HexC Hex1) (W8 HexB HexD Hex3 Hex1 Hex4 HexB Hex2 Hex7)
       (W8 Hex7 Hex8 HexA HexF Hex2 HexF HexD HexA) (W8 Hex5 Hex5 Hex6 Hex0 Hex5 HexC Hex6 Hex0)
       (W8 HexE Hex6 Hex5 Hex5 Hex2 Hex5 HexF Hex3) (W8 HexA HexA Hex5 Hex5 HexA HexB Hex9 Hex4)
       (W8 Hex5 Hex7 Hex4 Hex8 Hex9 Hex8 Hex6 Hex2) (W8 Hex6 Hex3 HexE Hex8 Hex1 Hex4 Hex4 Hex0)
       (W8 Hex5 Hex5 HexC HexA Hex3 Hex9 Hex6 HexA) (W8 Hex2 HexA HexA HexB Hex1 Hex0 HexB Hex6)
       (W8 HexB Hex4 HexC HexC Hex5 HexC Hex3 Hex4) (W8 Hex1 Hex1 Hex4 Hex1 HexE Hex8 HexC HexE)
       (W8 HexA Hex1 Hex5 Hex4 Hex8 Hex6 HexA HexF) (W8 Hex7 HexC Hex7 Hex2 HexE Hex9 Hex9 Hex3)
       (W8 HexB Hex3 HexE HexE Hex1 Hex4 Hex1 Hex1) (W8 Hex6 Hex3 Hex6 HexF HexB HexC Hex2 HexA))
      (N16 (W8 Hex2 HexB HexA Hex9 HexC Hex5 Hex5 HexD) (W8 Hex7 Hex4 Hex1 Hex8 Hex3 Hex1 HexF Hex6)
       (W8 HexC HexE Hex5 HexC Hex3 HexE Hex1 Hex6) (W8 Hex9 HexB Hex8 Hex7 Hex9 Hex3 Hex1 HexE)
       (W8 HexA HexF HexD Hex6 HexB HexA Hex3 Hex3) (W8 Hex6 HexC Hex2 Hex4 HexC HexF Hex5 HexC)
       (W8 Hex7 HexA Hex3 Hex2 Hex5 Hex3 Hex8 Hex1) (W8 Hex2 Hex8 Hex9 Hex5 Hex8 Hex6 Hex7 Hex7)
       (W8 Hex3 HexB Hex8 HexF Hex4 Hex8 Hex9 Hex8) (W8 Hex6 HexB Hex4 HexB HexB Hex9 HexA HexF)
       (W8 HexC Hex4 HexB HexF HexE Hex8 Hex1 HexB) (W8 Hex6 Hex6 Hex2 Hex8 Hex2 Hex1 Hex9 Hex3)
       (W8 Hex6 Hex1 HexD Hex8 Hex0 Hex9 HexC HexC) (W8 HexF HexB Hex2 Hex1 HexA Hex9 Hex9 Hex1)
       (W8 Hex4 Hex8 Hex7 HexC HexA HexC Hex6 Hex0) (W8 Hex5 HexD HexE HexC Hex8 Hex0 Hex3 Hex2))
      (N16 (W8 HexE HexF Hex8 Hex4 Hex5 HexD Hex5 HexD) (W8 HexE Hex9 Hex8 Hex5 Hex7 Hex5 HexB Hex1)
       (W8 HexD HexC Hex2 Hex6 Hex2 Hex3 Hex0 Hex2) (W8 HexE HexB Hex6 Hex5 Hex1 HexB Hex8 Hex8)
       (W8 Hex2 Hex3 Hex8 Hex9 Hex3 HexE Hex8 Hex1) (W8 HexD Hex3 Hex9 Hex6 HexA HexC HexC Hex5)
       (W8 Hex0 HexF Hex6 HexD Hex6 HexF HexF Hex3) (W8 Hex8 Hex3 HexF Hex4 Hex4 Hex2 Hex3 Hex9)
       (W8 Hex2 HexE Hex0 HexB Hex4 Hex4 Hex8 Hex2) (W8 HexA Hex4 Hex8 Hex4 Hex2 Hex0 Hex0 Hex4)
       (W8 Hex6 Hex9 HexC Hex8 HexF Hex0 Hex4 HexA) (W8 Hex9 HexE Hex1 HexF Hex9 HexB Hex5 HexE)
       (W8 Hex2 Hex1 HexC Hex6 Hex6 Hex8 Hex4 Hex2) (W8 HexF Hex6 HexE Hex9 Hex6 HexC Hex9 HexA)
       (W8 Hex6 Hex7 Hex0 HexC Hex9 HexC Hex6 Hex1) (W8 HexA HexB HexD Hex3 Hex8 Hex8 HexF Hex0))
      (N16 (W8 Hex6 HexA Hex5 Hex1 HexA Hex0 HexD Hex2) (W8 HexD Hex8 Hex5 Hex4 Hex2 HexF Hex6 Hex8)
       (W8 Hex9 Hex6 Hex0 HexF HexA Hex7 Hex2 Hex8) (W8 HexA HexB Hex5 Hex1 Hex3 Hex3 HexA Hex3)
       (W8 Hex6 HexE HexE HexF Hex0 HexB Hex6 HexC) (W8 Hex1 Hex3 Hex7 HexA Hex3 HexB HexE Hex4)
       (W8 HexB HexA Hex3 HexB HexF Hex0 Hex5 Hex0) (W8 Hex7 HexE HexF HexB Hex2 HexA Hex9 Hex8)
       (W8 HexA Hex1 HexF Hex1 Hex6 Hex5 Hex1 HexD) (W8 Hex3 Hex9 HexA HexF Hex0 Hex1 Hex7 Hex6)
       (W8 Hex6 Hex6 HexC HexA Hex5 Hex9 Hex3 HexE) (W8 Hex8 Hex2 Hex4 Hex3 Hex0 HexE Hex8 Hex8)
       (W8 Hex8 HexC HexE HexE Hex8 Hex6 Hex1 Hex9) (W8 Hex4 Hex5 Hex6 HexF Hex9 HexF HexB Hex4)
       (W8 Hex7 HexD Hex8 Hex4 HexA Hex5 HexC Hex3) (W8 Hex3 HexB Hex8 HexB Hex5 HexE HexB HexE))
      (N16 (W8 HexE Hex0 Hex6 HexF Hex7 Hex5 HexD Hex8) (W8 Hex8 Hex5 HexC Hex1 Hex2 Hex0 Hex7 Hex3)
       (W8 Hex4 Hex0 Hex1 HexA Hex4 Hex4 Hex9 HexF) (W8 Hex5 Hex6 HexC Hex1 Hex6 HexA HexA Hex6)
       (W8 Hex4 HexE HexD Hex3 HexA HexA Hex6 Hex2) (W8 Hex3 Hex6 Hex3 HexF Hex7 Hex7 Hex0 Hex6)
       (W8 Hex1 HexB HexF HexE HexD HexF Hex7 Hex2) (W8 Hex4 Hex2 Hex9 HexB Hex0 Hex2 Hex3 HexD)
       (W8 Hex3 Hex7 HexD Hex0 HexD Hex7 Hex2 Hex4) (W8 HexD Hex0 Hex0 HexA Hex1 Hex2 Hex4 Hex8)
       (W8 HexD HexB Hex0 HexF HexE HexA HexD Hex3) (W8 Hex4 Hex9 HexF Hex1 HexC Hex0 Hex9 HexB)
       (W8 Hex0 Hex7 Hex5 Hex3 Hex7 Hex2 HexC Hex9) (W8 Hex8 Hex0 Hex9 Hex9 Hex1 HexB Hex7 HexB)
       (W8 Hex2 Hex5 HexD Hex4 Hex7 Hex9 HexD Hex8) (W8 HexF Hex6 HexE Hex8 HexD HexE HexF Hex7))
      (N16 (W8 HexE Hex3 HexF HexE Hex5 Hex0 Hex1 HexA) (W8 HexB Hex6 Hex7 Hex9 Hex4 HexC Hex3 HexB)
       (W8 Hex9 Hex7 Hex6 HexC HexE Hex0 HexB HexD) (W8 Hex0 Hex4 HexC Hex0 Hex0 Hex6 HexB HexA)
       (W8 HexC Hex1 HexA Hex9 Hex4 HexF HexB Hex6) (W8 Hex4 Hex0 Hex9 HexF Hex6 Hex0 HexC Hex4)
       (W8 Hex5 HexE Hex5 HexC Hex9 HexE HexC Hex2) (W8 Hex1 Hex9 Hex6 HexA Hex2 Hex4 Hex6 Hex3)
       (W8 Hex6 Hex8 HexF HexB Hex6 HexF HexA HexF) (W8 Hex3 HexE Hex6 HexC Hex5 Hex3 HexB Hex5)
       (W8 Hex1 Hex3 Hex3 Hex9 HexB Hex2 HexE HexB) (W8 Hex3 HexB Hex5 Hex2 HexE HexC Hex6 HexF)
       (W8 Hex6 HexD HexF HexC Hex5 Hex1 Hex1 HexF) (W8 Hex9 HexB Hex3 Hex0 Hex9 Hex5 Hex2 HexC)
       (W8 HexC HexC Hex8 Hex1 Hex4 Hex5 Hex4 Hex4) (W8 HexA HexF Hex5 HexE HexB HexD Hex0 Hex9))
      (N16 (W8 HexB HexE HexE Hex3 HexD Hex0 Hex0 Hex4) (W8 HexD HexE Hex3 Hex3 Hex4 HexA HexF HexD)
       (W8 Hex6 Hex6 Hex0 HexF Hex2 Hex8 Hex0 Hex7) (W8 Hex1 Hex9 Hex2 HexE Hex4 HexB HexB Hex3)
       (W8 HexC Hex0 HexC HexB HexA Hex8 Hex5 Hex7) (W8 Hex4 Hex5 HexC Hex8 Hex7 Hex4 Hex0 HexF)
       (W8 HexD Hex2 Hex0 HexB Hex5 HexF Hex3 Hex9) (W8 HexB Hex9 HexD Hex3 HexF HexB HexD HexB)
       (W8 Hex5 Hex5 Hex7 Hex9 HexC Hex0 HexB HexD) (W8 Hex1 HexA Hex6 Hex0 Hex3 Hex2 Hex0 HexA)
       (W8 HexD Hex6 HexA Hex1 Hex0 Hex0 HexC Hex6) (W8 Hex4 Hex0 Hex2 HexC Hex7 Hex2 Hex7 Hex9)
       (W8 Hex6 Hex7 Hex9 HexF Hex2 Hex5 HexF HexE) (W8 HexF HexB Hex1 HexF HexA Hex3 HexC HexC)
       (W8 Hex8 HexE HexA Hex5 HexE Hex9 HexF Hex8) (W8 HexD HexB Hex3 Hex2 Hex2 Hex2 HexF Hex8))
      (N16 (W8 Hex3 HexC Hex7 Hex5 Hex1 Hex6 HexD HexF) (W8 HexF HexD Hex6 Hex1 Hex6 HexB Hex1 Hex5)
       (W8 Hex2 HexF Hex5 Hex0 Hex1 HexE HexC Hex8) (W8 HexA HexD Hex0 Hex5 Hex5 Hex2 HexA HexB)
       (W8 Hex3 Hex2 Hex3 HexD HexB Hex5 HexF HexA) (W8 HexF HexD Hex2 Hex3 Hex8 Hex7 Hex6 Hex0)
       (W8 Hex5 Hex3 Hex3 Hex1 Hex7 HexB Hex4 Hex8) (W8 Hex3 HexE Hex0 Hex0 HexD HexF Hex8 Hex2)
       (W8 Hex9 HexE Hex5 HexC Hex5 Hex7 HexB HexB) (W8 HexC HexA Hex6 HexF Hex8 HexC HexA Hex0)
       (W8 Hex1 HexA Hex8 Hex7 Hex5 Hex6 Hex2 HexE) (W8 HexD HexF Hex1 Hex7 Hex6 Hex9 HexD HexB)
       (W8 HexD Hex5 Hex4 Hex2 HexA Hex8 HexF Hex6) (W8 Hex2 Hex8 Hex7 HexE HexF HexF HexC Hex3)
       (W8 HexA HexC Hex6 Hex7 Hex3 Hex2 HexC Hex6) (W8 Hex8 HexC Hex4 HexF Hex5 Hex5 Hex7 Hex3))
      (N16 (W8 Hex6 Hex9 Hex5 HexB Hex2 Hex7 HexB Hex0) (W8 HexB HexB HexC HexA Hex5 Hex8 HexC Hex8)
       (W8 HexE Hex1 HexF HexF HexA Hex3 Hex5 HexD) (W8 HexB Hex8 HexF Hex0 Hex1 Hex1 HexA Hex0)
       (W8 Hex1 Hex0 HexF HexA Hex3 HexD Hex9 Hex8) (W8 HexF HexD Hex2 Hex1 Hex8 Hex3 HexB Hex8)
       (W8 Hex4 HexA HexF HexC HexB Hex5 Hex6 HexC) (W8 Hex2 HexD HexD Hex1 HexD Hex3 Hex5 HexB)
       (W8 Hex9 HexA Hex5 Hex3 HexE Hex4 Hex7 Hex9) (W8 HexB Hex6 HexF Hex8 Hex4 Hex5 Hex6 Hex5)
       (W8 HexD Hex2 Hex8 HexE Hex4 Hex9 HexB HexC) (W8 Hex4 HexB HexF HexB Hex9 Hex7 Hex9 Hex0)
       (W8 HexE Hex1 HexD HexD HexF Hex2 HexD HexA) (W8 HexA Hex4 HexC HexB Hex7 HexE Hex3 Hex3)
       (W8 Hex6 Hex2 HexF HexB Hex1 Hex3 Hex4 Hex1) (W8 HexC HexE HexE Hex4 HexC Hex6 HexE Hex8))
      (N16 (W8 HexE HexF Hex2 Hex0 HexC HexA HexD HexA) (W8 Hex3 Hex6 Hex7 Hex7 Hex4 HexC Hex0 Hex1)
       (W8 HexD Hex0 Hex7 HexE Hex9 HexE HexF HexE) (W8 Hex2 HexB HexF Hex1 Hex1 HexF HexB Hex4)
       (W8 Hex9 Hex5 HexD HexB HexD HexA Hex4 HexD) (W8 HexA HexE Hex9 Hex0 Hex9 Hex1 Hex9 Hex8)
       (W8 HexE HexA HexA HexD Hex8 HexE Hex7 Hex1) (W8 Hex6 HexB Hex9 Hex3 HexD Hex5 HexA Hex0)
       (W8 HexD Hex0 Hex8 HexE HexD Hex1 HexD Hex0) (W8 HexA HexF HexC Hex7 Hex2 Hex5 HexE Hex0)
       (W8 Hex8 HexE Hex3 HexC Hex5 HexB Hex2 HexF) (W8 Hex8 HexE Hex7 Hex5 Hex9 Hex4 HexB Hex7)
       (W8 Hex8 HexF HexF Hex6 HexE Hex2 HexF HexB) (W8 HexF Hex2 Hex1 Hex2 Hex2 HexB Hex6 Hex4)
       (W8 Hex8 Hex8 Hex8 Hex8 HexB Hex8 Hex1 Hex2) (W8 Hex9 Hex0 Hex0 HexD HexF Hex0 Hex1 HexC))
      (N16 (W8 Hex4 HexF HexA HexD Hex5 HexE HexA Hex0) (W8 Hex6 Hex8 Hex8 HexF HexC Hex3 Hex1 HexC)
       (W8 HexD Hex1 HexC HexF HexF Hex1 Hex9 Hex1) (W8 HexB Hex3 HexA Hex8 HexC Hex1 HexA HexD)
       (W8 Hex2 HexF Hex2 HexF Hex2 Hex2 Hex1 Hex8) (W8 HexB HexE Hex0 HexE Hex1 Hex7 Hex7 Hex7)
       (W8 HexE HexA Hex7 Hex5 Hex2 HexD HexF HexE) (W8 Hex8 HexB Hex0 Hex2 Hex1 HexF HexA Hex1)
       (W8 HexE Hex5 HexA Hex0 HexC HexC Hex0 HexF) (W8 HexB Hex5 Hex6 HexF Hex7 Hex4 HexE Hex8)
       (W8 Hex1 Hex8 HexA HexC HexF Hex3 HexD Hex6) (W8 HexC HexE Hex8 Hex9 HexE Hex2 Hex9 Hex9)
       (W8 HexB Hex4 HexA Hex8 Hex4 HexF HexE Hex0) (W8 HexF HexD Hex1 Hex3 HexE Hex0 HexB Hex7)
       (W8 Hex7 HexC HexC Hex4 Hex3 HexB Hex8 Hex1) (W8 HexD Hex2 HexA HexD HexA Hex8 HexD Hex9))
      (N16 (W8 Hex1 Hex6 Hex5 HexF HexA Hex2 Hex6 Hex6) (W8 Hex8 Hex0 Hex9 Hex5 Hex7 Hex7 Hex0 Hex5)
       (W8 Hex9 Hex3 HexC HexC Hex7 Hex3 Hex1 Hex4) (W8 Hex2 Hex1 Hex1 HexA Hex1 Hex4 Hex7 Hex7)
       (W8 HexE Hex6 HexA HexD Hex2 Hex0 Hex6 Hex5) (W8 Hex7 Hex7 HexB Hex5 HexF HexA Hex8 Hex6)
       (W8 HexC Hex7 Hex5 Hex4 Hex4 Hex2 HexF Hex5) (W8 HexF HexB Hex9 HexD Hex3 Hex5 HexC HexF)
       (W8 HexE HexB HexC HexD HexA HexF Hex0 HexC) (W8 Hex7 HexB Hex3 HexE Hex8 Hex9 HexA Hex0)
       (W8 HexD Hex6 Hex4 Hex1 Hex1 HexB HexD Hex3) (W8 HexA HexE Hex1 HexE Hex7 HexE Hex4 Hex9)
       (W8 Hex0 Hex0 Hex2 Hex5 Hex0 HexE Hex2 HexD) (W8 Hex2 Hex0 Hex7 Hex1 HexB Hex3 Hex5 HexE)
       (W8 Hex2 Hex2 Hex6 Hex8 Hex0 Hex0 HexB HexB) (W8 Hex5 Hex7 HexB Hex8 HexE Hex0 HexA HexF))
      (N16 (W8 Hex2 Hex4 Hex6 Hex4 Hex3 Hex6 Hex9 HexB) (W8 HexF Hex0 Hex0 Hex9 HexB Hex9 Hex1 HexE)
       (W8 Hex5 Hex5 Hex6 Hex3 Hex9 Hex1 Hex1 HexD) (W8 Hex5 Hex9 HexD HexF HexA Hex6 HexA HexA)
       (W8 Hex7 Hex8 HexC Hex1 Hex4 Hex3 Hex8 Hex9) (W8 HexD Hex9 Hex5 HexA Hex5 Hex3 Hex7 HexF)
       (W8 Hex2 Hex0 Hex7 HexD Hex5 HexB HexA Hex2) (W8 Hex0 Hex2 HexE Hex5 HexB Hex9 HexC Hex5)
       (W8 Hex8 Hex3 Hex2 Hex6 Hex0 Hex3 Hex7 Hex6) (W8 Hex6 Hex2 Hex9 Hex5 HexC HexF HexA Hex9)
       (W8 Hex1 Hex1 HexC Hex8 Hex1 Hex9 Hex6 Hex8) (W8 Hex4 HexE Hex7 Hex3 Hex4 HexA Hex4 Hex1)
       (W8 HexB Hex3 Hex4 Hex7 Hex2 HexD HexC HexA) (W8 Hex7 HexB Hex1 Hex4 HexA Hex9 Hex4 HexA)
       (W8 Hex1 HexB Hex5 Hex1 Hex0 Hex0 Hex5 Hex2) (W8 Hex9 HexA Hex5 Hex3 Hex2 Hex9 Hex1 Hex5))
      (N16 (W8 HexD Hex6 Hex0 HexF Hex5 Hex7 Hex3 HexF) (W8 HexB HexC Hex9 HexB HexC Hex6 HexE Hex4)
       (W8 Hex2 HexB Hex6 Hex0 HexA Hex4 Hex7 Hex6) (W8 Hex8 Hex1 HexE Hex6 Hex7 Hex4 Hex0 Hex0)
       (W8 Hex0 Hex8 HexB HexA Hex6 HexF HexB Hex5) (W8 Hex5 Hex7 Hex1 HexB HexE Hex9 Hex1 HexF)
       (W8 HexF Hex2 Hex9 Hex6 HexE HexC Hex6 HexB) (W8 Hex2 HexA Hex0 HexD HexD Hex9 Hex1 Hex5)
       (W8 HexB Hex6 Hex6 Hex3 Hex6 Hex5 Hex2 Hex1) (W8 HexE Hex7 HexB Hex9 HexF Hex9 HexB Hex6)
       (W8 HexF HexF Hex3 Hex4 Hex0 Hex5 Hex2 HexE) (W8 HexC Hex5 Hex8 Hex5 Hex5 Hex6 Hex6 Hex4)
       (W8 Hex5 Hex3 HexB Hex0 Hex2 HexD Hex5 HexD) (W8 HexA Hex9 Hex9 HexF Hex8 HexF HexA Hex1)
       (W8 Hex0 Hex8 HexB HexA Hex4 Hex7 Hex9 Hex9) (W8 Hex6 HexE Hex8 Hex5 Hex0 Hex7 Hex6 HexA)))
    (N16
      (N16 (W8 Hex4 HexB Hex7 HexA Hex7 Hex0 HexE Hex9) (W8 HexB Hex5 HexB Hex3 Hex2 Hex9 Hex4 Hex4)
       (W8 HexD HexB Hex7 Hex5 Hex0 Hex9 Hex2 HexE) (W8 HexC Hex4 Hex1 Hex9 Hex2 Hex6 Hex2 Hex3)
       (W8 HexA HexD Hex6 HexE HexA Hex6 HexB Hex0) (W8 Hex4 Hex9 HexA Hex7 HexD HexF Hex7 HexD)
       (W8 Hex9 HexC HexE HexE Hex6 Hex0 HexB Hex8) (W8 Hex8 HexF HexE HexD HexB Hex2 Hex6 Hex6)
       (W8 HexE HexC HexA HexA Hex8 HexC Hex7 Hex1) (W8 Hex6 Hex9 Hex9 HexA Hex1 Hex7 HexF HexF)
       (W8 Hex5 Hex6 Hex6 Hex4 Hex5 Hex2 Hex6 HexC) (W8 HexC Hex2 HexB Hex1 Hex9 HexE HexE Hex1)
       (W8 Hex1 Hex9 Hex3 Hex6 Hex0 Hex2 HexA Hex5) (W8 Hex7 Hex5 Hex0 Hex9 Hex4 HexC Hex2 Hex9)
       (W8 HexA Hex0 Hex5 Hex9 Hex1 Hex3 Hex4 Hex0) (W8 HexE Hex4 Hex1 Hex8 Hex3 HexA Hex3 HexE))
      (N16 (W8 Hex3 HexF Hex5 Hex4 Hex9 Hex8 Hex9 HexA) (W8 Hex5 HexB Hex4 Hex2 Hex9 HexD Hex6 Hex5)
       (W8 Hex6 HexB Hex8 HexF HexE Hex4 HexD Hex6) (W8 Hex9 Hex9 HexF Hex7 Hex3 HexF HexD Hex6)
       (W8 HexA Hex1 HexD Hex2 Hex9 HexC Hex0 Hex7) (W8 HexE HexF HexE Hex8 Hex3 Hex0 HexF Hex5)
       (W8 Hex4 HexD Hex2 HexD Hex3 Hex8 HexE Hex6) (W8 HexF Hex0 Hex2 Hex5 Hex5 HexD HexC Hex1)
       (W8 Hex4 HexC HexD HexD Hex2 Hex0 Hex8 Hex6) (W8 Hex8 Hex4 Hex7 Hex0 HexE HexB Hex2 Hex6)
       (W8 Hex6 Hex3 Hex8 Hex2 HexE Hex9 HexC Hex6) (W8 Hex0 Hex2 Hex1 HexE HexC HexC Hex5 HexE)
       (W8 Hex0 Hex9 Hex6 Hex8 Hex6 HexB Hex3 HexF) (W8 Hex3 HexE HexB HexA HexE HexF HexC Hex9)
       (W8 Hex3 HexC Hex9 Hex7 Hex1 Hex8 Hex1 Hex4) (W8 Hex6 HexB Hex6 HexA Hex7 Hex0 HexA Hex1))
      (N16 (W8 Hex6 Hex8 Hex7 HexF Hex3 Hex5 Hex8 Hex4) (W8 Hex5 Hex2 HexA Hex0 HexE Hex2 Hex8 Hex6)
       (W8 HexB Hex7 Hex9 HexC Hex5 Hex3 Hex0 Hex5) (W8 HexA HexA Hex5 Hex0 Hex0 Hex7 Hex3 Hex7)
       (W8 Hex3 HexE Hex0 Hex7 Hex8 Hex4 Hex1 HexC) (W8 Hex7 HexF HexD HexE HexA HexE Hex5 HexC)
       (W8 Hex8 HexE Hex7 HexD Hex4 Hex4 HexE HexC) (W8 Hex5 Hex7 Hex1 Hex6 HexF Hex2 HexB Hex8)
       (W8 HexB Hex0 Hex3 HexA HexD HexA Hex3 Hex7) (W8 HexF Hex0 Hex5 Hex0 Hex0 HexC Hex0 HexD)
       (W8 HexF Hex0 Hex1 HexC Hex1 HexF Hex0 Hex4) (W8 Hex0 Hex2 Hex0 Hex0 HexB Hex3 HexF HexF)
       (W8 HexA HexE Hex0 HexC HexF Hex5 Hex1 HexA) (W8 Hex3 HexC HexB Hex5 Hex7 Hex4 HexB Hex2)
       (W8 Hex2 Hex5 Hex8 Hex3 Hex7 HexA Hex5 Hex8) (W8 HexD HexC Hex0 Hex9 Hex2 Hex1 HexB HexD))
      (N16 (W8 HexD Hex1 Hex9 Hex1 Hex1 Hex3 HexF Hex9) (W8 Hex7 HexC HexA Hex9 Hex2 HexF HexF Hex6)
       (W8 Hex9 Hex4 Hex3 Hex2 Hex4 Hex7 Hex7 Hex3) (W8 Hex2 Hex2 HexF Hex5 Hex4 Hex7 Hex0 Hex1)
       (W8 Hex3 HexA HexE Hex5 HexE Hex5 Hex8 Hex1) (W8 Hex3 Hex7 HexC Hex2 HexD HexA HexD HexC)
       (W8 HexC Hex8 HexB Hex5 Hex7 Hex6 Hex3 Hex4) (W8 Hex9 HexA HexF Hex3 HexD HexD HexA Hex7)
       (W8 HexA Hex9 Hex4 Hex4 Hex6 Hex1 Hex4 Hex6) (W8 Hex0 HexF HexD Hex0 Hex0 Hex3 Hex0 HexE)
       (W8 HexE HexC HexC Hex8 HexC Hex7 Hex3 HexE) (W8 HexA Hex4 Hex7 Hex5 Hex1 HexE Hex4 Hex1)
       (W8 HexE Hex2 Hex3 Hex8 HexC HexD Hex9 Hex9) (W8 Hex3 HexB HexE HexA Hex0 HexE Hex2 HexF)
       (W8 Hex3 Hex2 Hex8 Hex0 HexB HexB HexA Hex1) (W8 Hex1 Hex8 Hex3 HexE HexB Hex3 Hex3 Hex1))
      (N16 (W8 Hex4 HexE Hex5 Hex4 Hex8 HexB Hex3 Hex8) (W8 Hex4 HexF Hex6 HexD HexB Hex9 Hex0 Hex8)
       (W8 Hex6 HexF Hex4 Hex2 Hex0 HexD Hex0 Hex3) (W8 HexF Hex6 Hex0 HexA Hex0 Hex4 HexB HexF)
       (W8 Hex2 HexC HexB Hex8 Hex1 Hex2 Hex9 Hex0) (W8 Hex2 Hex4 Hex9 Hex7 Hex7 HexC Hex7 Hex9)
       (W8 Hex5 Hex6 Hex7 Hex9 HexB Hex0 Hex7 Hex2) (W8 HexB HexC HexA HexF Hex8 Hex9 HexA HexF)
       (W8 HexD HexE Hex9 HexA Hex7 Hex7 Hex1 HexF) (W8 HexD Hex9 Hex9 Hex3 Hex0 Hex8 Hex1 Hex0)
       (W8 HexB Hex3 Hex8 HexB HexA HexE Hex1 Hex2) (W8 HexD HexC HexC HexF Hex3 HexF Hex2 HexE)
       (W8 Hex5 Hex5 Hex1 Hex2 Hex7 Hex2 Hex1 HexF) (W8 Hex2 HexE Hex6 HexB Hex7 Hex1 Hex2 Hex4)
       (W8 Hex5 Hex0 Hex1 HexA HexD HexD HexE Hex6) (W8 Hex9 HexF Hex8 Hex4 HexC HexD Hex8 Hex7))
      (N16 (W8 Hex7 HexA Hex5 Hex8 Hex4 Hex7 Hex1 Hex8) (W8 Hex7 Hex4 Hex0 Hex8 HexD HexA Hex1 Hex7)
       (W8 HexB HexC Hex9 HexF Hex9 HexA HexB HexC) (W8 HexE Hex9 Hex4 HexB Hex7 HexD Hex8 HexC)
       (W8 HexE HexC Hex7 HexA HexE HexC Hex3 HexA) (W8 HexD HexB Hex8 Hex5 Hex1 HexD HexF HexA)
       (W8 Hex6 Hex3 Hex0 Hex9 Hex4 Hex3 Hex6 Hex6) (W8 HexC Hex4 Hex6 Hex4 HexC Hex3 HexD Hex2)
       (W8 HexE HexF Hex1 HexC Hex1 Hex8 Hex4 Hex7) (W8 Hex3 Hex2 Hex1 Hex5 HexD Hex9 Hex0 Hex8)
       (W8 HexD HexD Hex4 Hex3 Hex3 HexB Hex3 Hex7) (W8 Hex2 Hex4 HexC Hex2 HexB HexA Hex1 Hex6)
       (W8 Hex1 Hex2 HexA Hex1 Hex4 HexD Hex4 Hex3) (W8 Hex2 HexA Hex6 Hex5 HexC Hex4 Hex5 Hex1)
       (W8 Hex5 Hex0 Hex9 Hex4 Hex0 Hex0 Hex0 Hex2) (W8 Hex1 Hex3 Hex3 HexA HexE Hex4 HexD HexD))
      (N16 (W8 Hex7 Hex1 HexD HexF HexF Hex8 Hex9 HexE) (W8 Hex1 Hex0 Hex3 Hex1 Hex4 HexE Hex5 Hex5)
       (W8 Hex8 Hex1 HexA HexC Hex7 Hex7 HexD Hex6) (W8 Hex5 HexF Hex1 Hex1 Hex1 Hex9 Hex9 HexB)
       (W8 Hex0 Hex4 Hex3 Hex5 Hex5 Hex6 HexF Hex1) (W8 HexD Hex7 HexA Hex3 HexC Hex7 Hex6 HexB)
       (W8 Hex3 HexC Hex1 Hex1 Hex1 Hex8 Hex3 HexB) (W8 Hex5 Hex9 Hex2 Hex4 HexA Hex5 Hex0 Hex9)
       (W8 HexF Hex2 Hex8 HexF HexE Hex6 HexE HexD) (W8 Hex9 Hex7 HexF Hex1 HexF HexB HexF HexA)
       (W8 Hex9 HexE HexB HexA HexB HexF Hex2 HexC) (W8 Hex1 HexE Hex1 Hex5 Hex3 HexC Hex6 HexE)
       (W8 Hex8 Hex6 HexE Hex3 Hex4 Hex5 Hex7 Hex0) (W8 HexE HexA HexE Hex9 Hex6 HexF HexB Hex1)
       (W8 Hex8 Hex6 Hex0 HexE Hex5 HexE Hex0 HexA) (W8 Hex5 HexA Hex3 HexE Hex2 HexA HexB Hex3))
      (N16 (W8 Hex7 Hex7 Hex1 HexF HexE Hex7 Hex1 HexC) (W8 Hex4 HexE Hex3 HexD Hex0 Hex6 HexF HexA)
       (W8 Hex2 Hex9 Hex6 Hex5 HexD HexC HexB Hex9) (W8 Hex9 Hex9 HexE Hex7 Hex1 HexD Hex0 HexF)
       (W8 Hex8 Hex0 Hex3 HexE Hex8 Hex9 HexD Hex6) (W8 Hex5 Hex2 Hex6 Hex6 HexC Hex8 Hex2 Hex5)
       (W8 Hex2 HexE Hex4 HexC HexC Hex9 Hex7 Hex8) (W8 Hex9 HexC Hex1 Hex0 HexB Hex3 Hex6 HexA)
       (W8 HexC Hex6 Hex1 Hex5 Hex0 HexE HexB HexA) (W8 Hex9 Hex4 HexE Hex2 HexE HexA Hex7 Hex8)
       (W8 HexA Hex5 HexF HexC Hex3 HexC Hex5 Hex3) (W8 Hex1 HexE Hex0 HexA Hex2 HexD HexF Hex4)
       (W8 HexF Hex2 HexF Hex7 Hex4 HexE HexA Hex7) (W8 Hex3 Hex6 Hex1 HexD Hex2 HexB Hex3 HexD)
       (W8 Hex1 Hex9 Hex3 Hex9 Hex2 Hex6 Hex0 HexF) (W8 Hex1 Hex9 HexC Hex2 Hex7 Hex9 Hex6 Hex0))
      (N16 (W8 Hex5 Hex2 Hex2 Hex3 HexA Hex7 Hex0 Hex8) (W8 HexF Hex7 Hex1 Hex3 Hex1 Hex2 HexB Hex6)
       (W8 HexE HexB HexA HexD HexF HexE Hex6 HexE) (W8 HexE HexA HexC Hex3 Hex1 HexF Hex6 Hex6)
       (W8 HexE Hex3 HexB HexC Hex4 Hex5 Hex9 Hex5) (W8 HexA Hex6 Hex7 HexB HexC Hex8 Hex8 Hex3)
       (W8 HexB Hex1 Hex7 HexF Hex3 Hex7 HexD Hex1) (W8 Hex0 Hex1 Hex8 HexC HexF HexF Hex2 Hex8)
       (W8 HexC Hex3 Hex3 Hex2 HexD HexD HexE HexF) (W8 HexB HexE Hex6 HexC Hex5 HexA HexA Hex5)
       (W8 Hex6 Hex5 Hex5 Hex8 Hex2 Hex1 Hex8 Hex5) (W8 Hex6 Hex8 HexA HexB Hex9 Hex8 Hex0 Hex2)
       (W8 HexE HexE HexC HexE HexA Hex5 Hex0 HexF) (W8 HexD HexB Hex2 HexF Hex9 Hex5 Hex3 HexB)
       (W8 Hex2 HexA HexE HexF Hex7 HexD HexA HexD) (W8 Hex5 HexB Hex6 HexE Hex2 HexF Hex8 Hex4))
      (N16 (W8 Hex1 Hex5 Hex2 Hex1 HexB Hex6 Hex2 Hex8) (W8 Hex2 Hex9 Hex0 Hex7 Hex6 Hex1 Hex7 Hex0)
       (W8 HexE HexC HexD HexD Hex4 Hex7 Hex7 Hex5) (W8 Hex6 Hex1 Hex9 HexF Hex1 Hex5 Hex1 Hex0)
       (W8 Hex1 Hex3 HexC HexC HexA Hex8 Hex3 Hex0) (W8 HexE HexB Hex6 Hex1 HexB HexD Hex9 Hex6)
       (W8 Hex0 Hex3 Hex3 Hex4 HexF HexE Hex1 HexE) (W8 HexA HexA Hex0 Hex3 Hex6 Hex3 HexC HexF)
       (W8 HexB Hex5 Hex7 Hex3 Hex5 HexC Hex9 Hex0) (W8 Hex4 HexC Hex7 Hex0 HexA Hex2 Hex3 Hex9)
       (W8 HexD Hex5 Hex9 HexE Hex9 HexE Hex0 HexB) (W8 HexC HexB HexA HexA HexD HexE Hex1 Hex4)
       (W8 HexE HexE HexC HexC Hex8 Hex6 HexB HexC) (W8 Hex6 Hex0 Hex6 Hex2 Hex2 HexC HexA Hex7)
       (W8 Hex9 HexC HexA HexB Hex5 HexC HexA HexB) (W8 HexB Hex2 HexF Hex3 Hex8 Hex4 Hex6 HexE))
      (N16 (W8 Hex6 Hex4 Hex8 HexB Hex1 HexE HexA HexF) (W8 Hex1 Hex9 HexB HexD HexF Hex0 HexC HexA)
       (W8 HexA Hex0 Hex2 Hex3 Hex6 Hex9 HexB Hex9) (W8 Hex6 Hex5 Hex5 HexA HexB HexB Hex5 Hex0)
       (W8 Hex4 Hex0 Hex6 Hex8 Hex5 HexA Hex3 Hex2) (W8 Hex3 HexC Hex2 HexA HexB Hex4 HexB Hex3)
       (W8 Hex3 Hex1 Hex9 HexE HexE Hex9 HexD Hex5) (W8 HexC Hex0 Hex2 Hex1 HexB Hex8 HexF Hex7)
       (W8 Hex9 HexB Hex5 Hex4 Hex0 HexB Hex1 Hex9) (W8 Hex8 Hex7 Hex5 HexF HexA Hex0 Hex9 Hex9)
       (W8 Hex9 Hex5 HexF Hex7 Hex9 Hex9 Hex7 HexE) (W8 Hex6 Hex2 Hex3 HexD Hex7 HexD HexA Hex8)
       (W8 HexF Hex8 Hex3 Hex7 Hex8 Hex8 Hex9 HexA) (W8 Hex9 Hex7 HexE Hex3 Hex2 HexD Hex7 Hex7)
       (W8 Hex1 Hex1 HexE HexD Hex9 Hex3 Hex5 HexF) (W8 Hex1 Hex6 Hex6 Hex8 Hex1 Hex2 Hex8 Hex1))
      (N16 (W8 Hex0 HexE Hex3 Hex5 Hex8 Hex8 Hex2 Hex9) (W8 HexC Hex7 HexE Hex6 Hex1 HexF HexD Hex6)
       (W8 Hex9 Hex6 HexD HexE HexD HexF HexA Hex1) (W8 Hex7 Hex8 Hex5 Hex8 HexB HexA Hex9 Hex9)
       (W8 Hex5 Hex7 HexF Hex5 Hex8 Hex4 HexA Hex5) (W8 Hex1 HexB Hex2 Hex2 Hex7 Hex2 Hex6 Hex3)
       (W8 Hex9 HexB Hex8 Hex3 HexC Hex3 HexF HexF) (W8 Hex1 HexA HexC Hex2 Hex4 Hex6 Hex9 Hex6)
       (W8 HexC HexD HexB Hex3 Hex0 HexA HexE HexB) (W8 Hex5 Hex3 Hex2 HexE Hex3 Hex0 Hex5 Hex4)
       (W8 Hex8 HexF HexD Hex9 Hex4 Hex8 HexE Hex4) (W8 Hex6 HexD HexB HexC Hex3 Hex1 Hex2 Hex8)
       (W8 Hex5 Hex8 HexE HexB HexF Hex2 HexE HexF) (W8 Hex3 Hex4 HexC Hex6 HexF HexF HexE HexA)
       (W8 HexF HexE Hex2 Hex8 HexE HexD Hex6 Hex1) (W8 HexE HexE Hex7 HexC Hex3 HexC Hex7 Hex3))
      (N16 (W8 Hex5 HexD Hex4 HexA Hex1 Hex4 HexD Hex9) (W8 HexE Hex8 Hex6 Hex4 HexB Hex7 HexE Hex3)
       (W8 Hex4 Hex2 Hex1 Hex0 Hex5 HexD Hex1 Hex4) (W8 Hex2 Hex0 Hex3 HexE Hex1 Hex3 HexE Hex0)
       (W8 Hex4 Hex5 HexE HexE HexE Hex2 HexB Hex6) (W8 HexA Hex3 HexA HexA HexA HexB HexE HexA)
       (W8 HexD HexB Hex6 HexC Hex4 HexF Hex1 Hex5) (W8 HexF HexA HexC HexB Hex4 HexF HexD Hex0)
       (W8 HexC Hex7 Hex4 Hex2 HexF Hex4 Hex4 Hex2) (W8 HexE HexF Hex6 HexA HexB HexB HexB Hex5)
       (W8 Hex6 Hex5 Hex4 HexF Hex3 HexB Hex1 HexD) (W8 Hex4 Hex1 HexC HexD Hex2 Hex1 Hex0 Hex5)
       (W8 HexD Hex8 Hex1 HexE Hex7 Hex9 Hex9 HexE) (W8 Hex8 Hex6 Hex8 Hex5 Hex4 HexD HexC Hex7)
       (W8 HexE Hex4 Hex4 HexB Hex4 Hex7 Hex6 HexA) (W8 Hex3 HexD Hex8 Hex1 Hex6 Hex2 Hex5 Hex0))
      (N16 (W8 HexC HexF Hex6 Hex2 HexA Hex1 HexF Hex2) (W8 Hex5 HexB Hex8 HexD Hex2 Hex6 Hex4 Hex6)
       (W8 HexF HexC Hex8 Hex8 Hex8 Hex3 HexA Hex0) (W8 HexC Hex1 HexC Hex7 HexB Hex6 HexA Hex3)
       (W8 Hex7 HexF Hex1 Hex5 Hex2 Hex4 HexC Hex3) (W8 Hex6 Hex9 HexC HexB Hex7 Hex4 Hex9 Hex2)
       (W8 Hex4 Hex7 Hex8 Hex4 Hex8 HexA Hex0 HexB) (W8 Hex5 Hex6 Hex9 Hex2 HexB Hex2 Hex8 Hex5)
       (W8 Hex0 Hex9 Hex5 HexB HexB HexF Hex0 Hex0) (W8 HexA HexD Hex1 Hex9 Hex4 Hex8 Hex9 HexD)
       (W8 Hex1 Hex4 Hex6 Hex2 HexB Hex1 Hex7 Hex4) (W8 Hex2 Hex3 Hex8 Hex2 Hex0 HexE Hex0 Hex0)
       (W8 Hex5 Hex8 Hex4 Hex2 Hex8 HexD Hex2 HexA) (W8 Hex0 HexC Hex5 Hex5 HexF Hex5 HexE HexA)
       (W8 Hex1 HexD HexA HexD HexF Hex4 Hex3 HexE) (W8 Hex2 Hex3 Hex3 HexF Hex7 Hex0 Hex6 Hex1))
      (N16 (W8 Hex3 Hex3 Hex7 Hex2 HexF Hex0 Hex9 Hex2) (W8 Hex8 HexD Hex9 Hex3 Hex7 HexE Hex4 Hex1)
       (W8 HexD Hex6 Hex5 HexF HexE HexC HexF Hex1) (W8 Hex6 HexC Hex2 Hex2 Hex3 HexB HexD HexB)
       (W8 Hex7 HexC HexD HexE Hex3 Hex7 Hex5 Hex9) (W8 HexC HexB HexE HexE Hex7 Hex4 Hex6 Hex0)
       (W8 Hex4 Hex0 Hex8 Hex5 HexF Hex2 HexA Hex7) (W8 HexC HexE Hex7 Hex7 Hex3 Hex2 Hex6 HexE)
       (W8 HexA Hex6 Hex0 Hex7 Hex8 Hex0 Hex8 Hex4) (W8 Hex1 Hex9 HexF Hex8 Hex5 Hex0 Hex9 HexE)
       (W8 HexE Hex8 HexE HexF HexD Hex8 Hex5 Hex5) (W8 Hex6 Hex1 HexD Hex9 Hex9 Hex7 Hex3 Hex5)
       (W8 HexA Hex9 Hex6 Hex9 HexA Hex7 HexA HexA) (W8 HexC Hex5 Hex0 HexC Hex0 Hex6 HexC Hex2)
       (W8 Hex5 HexA Hex0 Hex4 HexA HexB HexF HexC) (W8 Hex8 Hex0 Hex0 HexB HexC HexA HexD HexC))
      (N16 (W8 Hex9 HexE Hex4 Hex4 Hex7 HexA Hex2 HexE) (W8 HexC Hex3 Hex4 Hex5 Hex3 Hex4 Hex8 Hex4)
       (W8 HexF HexD HexD Hex5 Hex6 Hex7 Hex0 Hex5) (W8 Hex0 HexE Hex1 HexE Hex9 HexE HexC Hex9)
       (W8 HexD HexB Hex7 Hex3 HexD HexB HexD Hex3) (W8 Hex1 Hex0 Hex5 Hex5 Hex8 Hex8 HexC HexD)
       (W8 Hex6 Hex7 Hex5 HexF HexD HexA Hex7 Hex9) (W8 HexE Hex3 Hex6 Hex7 Hex4 Hex3 Hex4 Hex0)
       (W8 HexC Hex5 HexC Hex4 Hex3 Hex4 Hex6 Hex5) (W8 Hex7 Hex1 Hex3 HexE Hex3 Hex8 HexD Hex8)
       (W8 Hex3 HexD Hex2 Hex8 HexF Hex8 Hex9 HexE) (W8 HexF Hex1 Hex6 HexD HexF HexF Hex2 Hex0)
       (W8 Hex1 Hex5 Hex3 HexE Hex2 Hex1 HexE Hex7) (W8 Hex8 HexF HexB Hex0 Hex3 HexD Hex4 HexA)
       (W8 HexE Hex6 HexE Hex3 Hex9 HexF Hex2 HexB) (W8 HexD HexB Hex8 Hex3 HexA HexD HexF Hex7)))
    (N16
      (N16 (W8 HexE Hex9 Hex3 HexD Hex5 HexA Hex6 Hex8) (W8 Hex9 Hex4 Hex8 Hex1 Hex4 Hex0 HexF Hex7)
       (W8 HexF Hex6 Hex4 HexC Hex2 Hex6 Hex1 HexC) (W8 Hex9 Hex4 Hex6 Hex9 Hex2 Hex9 Hex3 Hex4)
       (W8 Hex4 Hex1 Hex1 Hex5 Hex2 Hex0 HexF Hex7) (W8 Hex7 Hex6 Hex0 Hex2 HexD Hex4 HexF Hex7)
       (W8 HexB HexC HexF Hex4 Hex6 HexB Hex2 HexE) (W8 HexD Hex4 HexA Hex2 Hex0 Hex0 Hex6 Hex8)
       (W8 HexD Hex4 Hex0 Hex8 Hex2 Hex4 Hex7 Hex1) (W8 Hex3 Hex3 Hex2 Hex0 HexF Hex4 Hex6 HexA)
       (W8 Hex4 Hex3 HexB Hex7 HexD Hex4 HexB Hex7) (W8 Hex5 Hex0 Hex0 Hex0 Hex6 Hex1 HexA HexF)
       (W8 Hex1 HexE Hex3 Hex9 HexF Hex6 Hex2 HexE) (W8 Hex9 Hex7 Hex2 Hex4 Hex4 Hex5 Hex4 Hex6)
       (W8 Hex1 Hex4 Hex2 Hex1 Hex4 HexF Hex7 Hex4) (W8 HexB HexF Hex8 HexB Hex8 Hex8 Hex4 Hex0))
      (N16 (W8 Hex4 HexD Hex9 Hex5 HexF HexC Hex1 HexD) (W8 Hex9 Hex6 HexB Hex5 Hex9 Hex1 HexA HexF)
       (W8 Hex7 Hex0 HexF Hex4 HexD HexD HexD Hex3) (W8 Hex6 Hex6 HexA Hex0 Hex2 HexF Hex4 Hex5)
       (W8 HexB HexF HexB HexC Hex0 Hex9 HexE HexC) (W8 Hex0 Hex3 HexB HexD Hex9 Hex7 Hex8 Hex5)
       (W8 Hex7 HexF HexA HexC Hex6 HexD HexD Hex0) (W8 Hex3 Hex1 HexC HexB Hex8 Hex5 Hex0 Hex4)
       (W8 Hex9 Hex6 HexE HexB Hex2 Hex7 HexB Hex3) (W8 Hex5 Hex5 HexF HexD Hex3 Hex9 Hex4 Hex1)
       (W8 HexD HexA Hex2 Hex5 Hex4 Hex7 HexE Hex6) (W8 HexA HexB HexC HexA Hex0 HexA Hex9 HexA)
       (W8 Hex2 Hex8 Hex5 Hex0 Hex7 Hex8 Hex2 Hex5) (W8 Hex5 Hex3 Hex0 Hex4 Hex2 Hex9 HexF Hex4)
       (W8 Hex0 HexA Hex2 HexC Hex8 Hex6 HexD HexA) (W8 HexE Hex9 HexB Hex6 Hex6 HexD HexF HexB))
      (N16 (W8 Hex6 Hex8 HexD HexC Hex1 Hex4 Hex6 Hex2) (W8 HexD Hex7 Hex4 Hex8 Hex6 Hex9 Hex0 Hex0)
       (W8 Hex6 Hex8 Hex0 HexE HexC Hex0 HexA Hex4) (W8 Hex2 Hex7 HexA Hex1 Hex8 HexD HexE HexE)
       (W8 Hex4 HexF Hex3 HexF HexF HexE HexA Hex2) (W8 HexE Hex8 Hex8 Hex7 HexA HexD Hex8 HexC)
       (W8 HexB Hex5 Hex8 HexC HexE Hex0 Hex0 Hex6) (W8 Hex7 HexA HexF Hex4 HexD Hex6 HexB Hex6)
       (W8 HexA HexA HexC HexE Hex1 HexE Hex7 HexC) (W8 HexD Hex3 Hex3 Hex7 Hex5 HexF HexE HexC)
       (W8 HexC HexE Hex7 Hex8 HexA Hex3 Hex9 Hex9) (W8 Hex4 Hex0 Hex6 HexB Hex2 HexA Hex4 Hex2)
       (W8 Hex2 Hex0 HexF HexE Hex9 HexE Hex3 Hex5) (W8 HexD Hex9 HexF Hex3 Hex8 Hex5 HexB Hex9)
       (W8 HexE HexE Hex3 Hex9 HexD Hex7 HexA HexB) (W8 Hex3 HexB Hex1 Hex2 Hex4 HexE Hex8 HexB))
      (N16 (W8 Hex1 HexD HexC Hex9 HexF HexA HexF Hex7) (W8 Hex4 HexB Hex6 HexD Hex1 Hex8 Hex5 Hex6)
       (W8 Hex2 Hex6 HexA Hex3 Hex6 Hex6 Hex3 Hex1) (W8 HexE HexA HexE Hex3 Hex9 Hex7 HexB Hex2)
       (W8 Hex3 HexA Hex6 HexE HexF HexA Hex7 Hex4) (W8 HexD HexD Hex5 HexB Hex4 Hex3 Hex3 Hex2)
       (W8 Hex6 Hex8 Hex4 Hex1 HexE Hex7 HexF Hex7) (W8 HexC HexA Hex7 Hex8 Hex2 Hex0 HexF HexB)
       (W8 HexF HexB Hex0 HexA HexF Hex5 Hex4 HexE) (W8 HexD Hex8 HexF HexE HexB Hex3 Hex9 Hex7)
       (W8 Hex4 Hex5 Hex4 Hex0 Hex5 Hex6 HexA HexC) (W8 HexB HexA Hex4 Hex8 Hex9 Hex5 Hex2 Hex7)
       (W8 Hex5 Hex5 Hex5 Hex3 Hex3 HexA Hex3 HexA) (W8 Hex2 Hex0 Hex8 Hex3 Hex8 HexD Hex8 Hex7)
       (W8 HexF HexE Hex6 HexB HexA Hex9 HexB Hex7) (W8 HexD Hex0 Hex9 Hex6 Hex9 Hex5 Hex4 HexB))
      (N16 (W8 Hex5 Hex5 HexA Hex8 Hex6 Hex7 HexB HexC) (W8 HexA Hex1 Hex1 Hex5 Hex9 HexA Hex5 Hex8)
       (W8 HexC HexC HexA Hex9 Hex2 Hex9 Hex6 Hex3) (W8 Hex9 Hex9 HexE Hex1 HexD HexB Hex3 Hex3)
       (W8 HexA Hex6 Hex2 HexA Hex4 HexA Hex5 Hex6) (W8 Hex3 HexF Hex3 Hex1 Hex2 Hex5 HexF Hex9)
       (W8 Hex5 HexE HexF Hex4 Hex7 HexE Hex1 HexC) (W8 Hex9 Hex0 Hex2 Hex9 Hex3 Hex1 Hex7 HexC)
       (W8 HexF HexD HexF Hex8 HexE Hex8 Hex0 Hex2) (W8 Hex0 Hex4 Hex2 Hex7 Hex2 HexF Hex7 Hex0)
       (W8 Hex8 Hex0 HexB HexB Hex1 Hex5 Hex5 HexC) (W8 Hex0 Hex5 Hex2 Hex8 Hex2 HexC HexE Hex3)
       (W8 Hex9 Hex5 HexC Hex1 Hex1 Hex5 Hex4 Hex8) (W8 HexE Hex4 HexC Hex6 Hex6 HexD Hex2 Hex2)
       (W8 Hex4 Hex8 HexC Hex1 Hex1 Hex3 Hex3 HexF) (W8 HexC Hex7 Hex0 HexF Hex8 Hex6 HexD HexC))
      (N16 (W8 Hex0 Hex7 HexF Hex9 HexC Hex9 HexE HexE) (W8 Hex4 Hex1 Hex0 Hex4 Hex1 HexF Hex0 HexF)
       (W8 Hex4 Hex0 Hex4 Hex7 Hex7 Hex9 HexA Hex4) (W8 Hex5 HexD Hex8 Hex8 Hex6 HexE Hex1 Hex7)
       (W8 Hex3 Hex2 Hex5 HexF Hex5 Hex1 HexE HexB) (W8 HexD Hex5 Hex9 HexB HexC Hex0 HexD Hex1)
       (W8 HexF Hex2 HexB HexC HexC Hex1 Hex8 HexF) (W8 Hex4 Hex1 Hex1 Hex1 Hex3 Hex5 Hex6 Hex4)
       (W8 Hex2 Hex5 Hex7 HexB Hex7 Hex8 Hex3 Hex4) (W8 Hex6 Hex0 Hex2 HexA Hex9 HexC Hex6 Hex0)
       (W8 HexD HexF HexF Hex8 HexE Hex8 HexA Hex3) (W8 Hex1 HexF Hex6 Hex3 Hex6 HexC Hex1 HexB)
       (W8 Hex0 HexE Hex1 Hex2 HexB Hex4 HexC Hex2) (W8 Hex0 Hex2 HexE Hex1 Hex3 Hex2 Hex9 HexE)
       (W8 HexA HexF Hex6 Hex6 Hex4 HexF HexD Hex1) (W8 HexC HexA HexD Hex1 Hex8 Hex1 Hex1 Hex5))
      (N16 (W8 Hex6 HexB Hex2 Hex3 Hex9 Hex5 HexE Hex0) (W8 Hex3 Hex3 Hex3 HexE Hex9 Hex2 HexE Hex1)
       (W8 Hex3 HexB Hex2 Hex4 Hex0 HexB Hex6 Hex2) (W8 HexE HexE HexB HexE HexB Hex9 Hex2 Hex2)
       (W8 Hex8 Hex5 HexB Hex2 HexA Hex2 Hex0 HexE) (W8 HexE Hex6 HexB HexA Hex0 HexD Hex9 Hex9)
       (W8 HexD HexE Hex7 Hex2 Hex0 HexC Hex8 HexC) (W8 Hex2 HexD HexA Hex2 HexF Hex7 Hex2 Hex8)
       (W8 HexD Hex0 Hex1 Hex2 Hex7 Hex8 Hex4 Hex5) (W8 Hex9 Hex5 HexB Hex7 Hex9 Hex4 HexF HexD)
       (W8 Hex6 Hex4 Hex7 HexD Hex0 Hex8 Hex6 Hex2) (W8 HexE Hex7 HexC HexC HexF Hex5 HexF Hex0)
       (W8 Hex5 Hex4 Hex4 Hex9 HexA Hex3 Hex6 HexF) (W8 Hex8 Hex7 Hex7 HexD Hex4 Hex8 HexF HexA)
       (W8 HexC Hex3 Hex9 HexD HexF HexD Hex2 Hex7) (W8 HexF Hex3 Hex3 HexE Hex8 HexD Hex1 HexE))
      (N16 (W8 Hex0 HexA Hex4 Hex7 Hex6 Hex3 Hex4 Hex1) (W8 Hex9 Hex9 Hex2 HexE HexF HexF Hex7 Hex4)
       (W8 Hex3 HexA Hex6 HexF Hex6 HexE HexA HexB) (W8 HexF Hex4 HexF Hex8 HexF HexD Hex3 Hex7)
       (W8 HexA Hex8 Hex1 Hex2 HexD HexC Hex6 Hex0) (W8 HexA Hex1 HexE HexB HexD HexD HexF Hex8)
       (W8 Hex9 Hex9 Hex1 HexB HexE Hex1 Hex4 HexC) (W8 HexD HexB Hex6 HexE Hex6 HexB Hex0 HexD)
       (W8 HexC Hex6 Hex7 HexB Hex5 Hex5 Hex1 Hex0) (W8 Hex6 HexD Hex6 Hex7 Hex2 HexC Hex3 Hex7)
       (W8 Hex2 Hex7 Hex6 Hex5 HexD Hex4 Hex3 HexB) (W8 HexD HexC HexD Hex0 HexE Hex8 Hex0 Hex4)
       (W8 HexF Hex1 Hex2 Hex9 Hex0 HexD HexC Hex7) (W8 HexC HexC Hex0 Hex0 HexF HexF HexA Hex3)
       (W8 HexB Hex5 Hex3 Hex9 Hex0 HexF Hex9 Hex2) (W8 Hex6 Hex9 Hex0 HexF HexE HexD Hex0 HexB))
      (N16 (W8 Hex6 Hex6 Hex7 HexB Hex9 HexF HexF HexB) (W8 HexC HexE HexD HexB Hex7 HexD Hex9 HexC)
       (W8 HexA Hex0 Hex9 Hex1 HexC HexF Hex0 HexB) (W8 HexD Hex9 Hex1 Hex5 Hex5 HexE HexA Hex3)
       (W8 HexB HexB Hex1 Hex3 Hex2 HexF Hex8 Hex8) (W8 Hex5 Hex1 Hex5 HexB HexA HexD Hex2 Hex4)
       (W8 Hex7 HexB Hex9 Hex4 Hex7 Hex9 HexB HexF) (W8 Hex7 Hex6 Hex3 HexB HexD Hex6 HexE HexB)
       (W8 Hex3 Hex7 Hex3 Hex9 Hex2 HexE HexB Hex3) (W8 HexC HexC Hex1 Hex1 Hex5 Hex9 Hex7 Hex9)
       (W8 Hex8 Hex0 Hex2 Hex6 HexE Hex2 Hex9 Hex7) (W8 HexF Hex4 Hex2 HexE Hex3 Hex1 Hex2 HexD)
       (W8 Hex6 Hex8 Hex4 Hex2 HexA HexD HexA Hex7) (W8 HexC Hex6 Hex6 HexA Hex2 HexB Hex3 HexB)
       (W8 Hex1 Hex2 Hex7 Hex5 Hex4 HexC HexC HexC) (W8 Hex7 Hex8 Hex2 HexE HexF Hex1 Hex1 HexC))
      (N16 (W8 Hex6 HexA Hex1 Hex2 Hex4 Hex2 Hex3 Hex7) (W8 HexB Hex7 Hex9 Hex2 Hex5 Hex1 HexE Hex7)
       (W8 Hex0 Hex6 HexA Hex1 HexB HexB HexE Hex6) (W8 Hex4 HexB HexF HexB Hex6 Hex3 Hex5 Hex0)
       (W8 Hex1 HexA Hex6 HexB Hex1 Hex0 Hex1 Hex8) (W8 Hex1 Hex1 HexC HexA HexE HexD HexF HexA)
       (W8 Hex3 HexD Hex2 Hex5 HexB HexD HexD Hex8) (W8 HexE Hex2 HexE Hex1 HexC Hex3 HexC Hex9)
       (W8 Hex4 Hex4 Hex4 Hex2 Hex1 Hex6 Hex5 Hex9) (W8 Hex0 HexA Hex1 Hex2 Hex1 Hex3 Hex8 Hex6)
       (W8 HexD Hex9 Hex0 HexC HexE HexC Hex6 HexE) (W8 HexD Hex5 HexA HexB HexE HexA Hex2 HexA)
       (W8 Hex6 Hex4 HexA HexF Hex6 Hex7 Hex4 HexE) (W8 HexD HexA Hex8 Hex6 HexA Hex8 Hex5 HexF)
       (W8 HexB HexE HexB HexF HexE Hex9 Hex8 Hex8) (W8 Hex6 Hex4 HexE Hex4 HexC Hex3 HexF HexE))
      (N16 (W8 Hex9 HexD HexB HexC Hex8 Hex0 Hex5 Hex7) (W8 HexF Hex0 HexF Hex7 HexC Hex0 Hex8 Hex6)
       (W8 Hex6 Hex0 Hex7 Hex8 Hex7 HexB HexF Hex8) (W8 Hex6 Hex0 Hex0 Hex3 Hex6 Hex0 Hex4 HexD)
       (W8 HexD Hex1 HexF HexD Hex8 Hex3 Hex4 Hex6) (W8 HexF Hex6 Hex3 Hex8 Hex1 HexF HexB Hex0)
       (W8 Hex7 Hex7 Hex4 Hex5 HexA HexE Hex0 Hex4) (W8 HexD Hex7 Hex3 Hex6 HexF HexC HexC HexC)
       (W8 Hex8 Hex3 Hex4 Hex2 Hex6 HexB Hex3 Hex3) (W8 HexF Hex0 Hex1 HexE HexA HexB Hex7 Hex1)
       (W8 HexB Hex0 Hex8 Hex0 Hex4 Hex1 Hex8 Hex7) (W8 Hex3 HexC Hex0 Hex0 Hex5 HexE Hex5 HexF)
       (W8 Hex7 Hex7 HexA Hex0 Hex5 Hex7 HexB HexE) (W8 HexB HexD HexE Hex8 HexA HexE Hex2 Hex4)
       (W8 Hex5 Hex5 Hex4 Hex6 Hex4 Hex2 Hex9 Hex9) (W8 HexB HexF Hex5 Hex8 Hex2 HexE Hex6 Hex1))
      (N16 (W8 Hex4 HexE Hex5 Hex8 HexF Hex4 Hex8 HexF) (W8 HexF Hex2 HexD HexD HexF HexD HexA Hex2)
       (W8 HexF Hex4 Hex7 Hex4 HexE HexF Hex3 Hex8) (W8 Hex8 Hex7 Hex8 Hex9 HexB HexD HexC Hex2)
       (W8 Hex5 Hex3 Hex6 Hex6 HexF Hex9 HexC Hex3) (W8 HexC Hex8 HexB Hex3 Hex8 HexE Hex7 Hex4)
       (W8 HexB Hex4 Hex7 Hex5 HexF Hex2 Hex5 Hex5) (W8 Hex4 Hex6 HexF HexC HexD Hex9 HexB Hex9)
       (W8 Hex7 HexA HexE HexB Hex2 Hex6 Hex6 Hex1) (W8 Hex8 HexB Hex1 HexD HexD HexF Hex8 Hex4)
       (W8 Hex8 Hex4 Hex6 HexA Hex0 HexE Hex7 Hex9) (W8 Hex9 Hex1 Hex5 HexF Hex9 Hex5 HexE Hex2)
       (W8 Hex4 Hex6 Hex6 HexE Hex5 Hex9 Hex8 HexE) (W8 Hex2 Hex0 HexB Hex4 Hex5 Hex7 Hex7 Hex0)
       (W8 Hex8 HexC HexD Hex5 Hex5 Hex5 Hex9 Hex1) (W8 HexC Hex9 Hex0 Hex2 HexD HexE Hex4 HexC))
      (N16 (W8 HexB Hex9 Hex0 HexB HexA HexC HexE Hex1) (W8 HexB HexB Hex8 Hex2 Hex0 Hex5 HexD Hex0)
       (W8 Hex1 Hex1 HexA Hex8 Hex6 Hex2 Hex4 Hex8) (W8 Hex7 Hex5 Hex7 Hex4 HexA Hex9 Hex9 HexE)
       (W8 HexB Hex7 Hex7 HexF Hex1 Hex9 HexB Hex6) (W8 HexE Hex0 HexA Hex9 HexD HexC Hex0 Hex9)
       (W8 Hex6 Hex6 Hex2 HexD Hex0 Hex9 HexA Hex1) (W8 HexC Hex4 Hex3 Hex2 Hex4 Hex6 Hex3 Hex3)
       (W8 HexE Hex8 Hex5 HexA Hex1 HexF Hex0 Hex2) (W8 Hex0 Hex9 HexF Hex0 HexB HexE Hex8 HexC)
       (W8 Hex4 HexA Hex9 Hex9 HexA Hex0 Hex2 Hex5) (W8 Hex1 HexD Hex6 HexE HexF HexE Hex1 Hex0)
       (W8 Hex1 HexA HexB Hex9 Hex3 HexD Hex1 HexD) (W8 Hex0 HexB HexA Hex5 HexA Hex4 HexD HexF)
       (W8 HexA Hex1 Hex8 Hex6 HexF Hex2 Hex0 HexF) (W8 Hex2 Hex8 Hex6 Hex8 HexF Hex1 Hex6 Hex9))
      (N16 (W8 HexD HexC HexB Hex7 HexD HexA Hex8 Hex3) (W8 Hex5 Hex7 Hex3 Hex9 Hex0 Hex6 HexF HexE)
       (W8 HexA Hex1 HexE Hex2 HexC HexE Hex9 HexB) (W8 Hex4 HexF HexC HexD Hex7 HexF Hex5 Hex2)
       (W8 Hex5 Hex0 Hex1 Hex1 Hex5 HexE Hex0 Hex1) (W8 HexA Hex7 Hex0 Hex6 Hex8 Hex3 HexF HexA)
       (W8 HexA Hex0 Hex0 Hex2 HexB Hex5 HexC Hex4) (W8 Hex0 HexD HexE Hex6 HexD Hex0 Hex2 Hex7)
       (W8 Hex9 HexA HexF Hex8 Hex8 HexC Hex2 Hex7) (W8 Hex7 Hex7 Hex3 HexF Hex8 Hex6 Hex4 Hex1)
       (W8 HexC Hex3 Hex6 Hex0 Hex4 HexC Hex0 Hex6) (W8 Hex6 Hex1 HexA Hex8 Hex0 Hex6 HexB Hex5)
       (W8 HexF Hex0 Hex1 Hex7 Hex7 HexA Hex2 Hex8) (W8 HexC Hex0 HexF Hex5 Hex8 Hex6 HexE Hex0)
       (W8 Hex0 Hex0 Hex6 Hex0 Hex5 Hex8 HexA HexA) (W8 Hex3 Hex0 HexD HexC Hex7 HexD Hex6 Hex2))
      (N16 (W8 Hex1 Hex1 HexE Hex6 Hex9 HexE HexD Hex7) (W8 Hex2 Hex3 Hex3 Hex8 HexE HexA Hex6 Hex3)
       (W8 Hex5 Hex3 HexC Hex2 HexD HexD Hex9 Hex4) (W8 HexC Hex2 HexC Hex2 Hex1 Hex6 Hex3 Hex4)
       (W8 HexB HexB HexC HexB HexE HexE Hex5 Hex6) (W8 Hex9 Hex0 HexB HexC HexB Hex6 HexD HexE)
       (W8 HexE HexB HexF HexC Hex7 HexD HexA Hex1) (W8 HexC HexE Hex5 Hex9 Hex1 HexD Hex7 Hex6)
       (W8 Hex6 HexF Hex0 Hex5 HexE Hex4 Hex0 Hex9) (W8 Hex4 HexB Hex7 HexC Hex0 Hex1 Hex8 Hex8)
       (W8 Hex3 Hex9 Hex7 Hex2 Hex0 HexA Hex3 HexD) (W8 Hex7 HexC Hex9 Hex2 Hex7 HexC Hex2 Hex4)
       (W8 Hex8 Hex6 HexE Hex3 Hex7 Hex2 Hex5 HexF) (W8 Hex7 Hex2 Hex4 HexD Hex9 HexD HexB Hex9)
       (W8 Hex1 HexA HexC Hex1 Hex5 HexB HexB Hex4) (W8 HexD Hex3 Hex9 HexE HexB Hex8 HexF HexC))
      (N16 (W8 HexE HexD Hex5 Hex4 Hex5 Hex5 Hex7 Hex8) (W8 Hex0 Hex8 HexF HexC HexA Hex5 HexB Hex5)
       (W8 HexD Hex8 Hex3 HexD Hex7 HexC HexD Hex3) (W8 Hex4 HexD HexA HexD Hex0 HexF HexC Hex4)
       (W8 Hex1 HexE Hex5 Hex0 HexE HexF Hex5 HexE) (W8 HexB Hex1 Hex6 Hex1 HexE Hex6 HexF Hex8)
       (W8 HexA Hex2 Hex8 Hex5 Hex1 Hex4 HexD Hex9) (W8 Hex6 HexC Hex5 Hex1 Hex1 Hex3 Hex3 HexC)
       (W8 Hex6 HexF HexD Hex5 HexC Hex7 HexE Hex7) (W8 Hex5 Hex6 HexE Hex1 Hex4 HexE HexC Hex4)
       (W8 Hex3 Hex6 Hex2 HexA HexB HexF HexC HexE) (W8 HexD HexD HexC Hex6 HexC Hex8 Hex3 Hex7)
       (W8 HexD Hex7 Hex9 HexA Hex3 Hex2 Hex3 Hex4) (W8 Hex9 Hex2 Hex6 Hex3 Hex8 Hex2 Hex1 Hex2)
       (W8 Hex6 Hex7 Hex0 HexE HexF HexA Hex8 HexE) (W8 Hex4 Hex0 Hex6 Hex0 Hex0 Hex0 HexE Hex0)))
    (N16
      (N16 (W8 Hex3 HexA Hex3 Hex9 HexC HexE Hex3 Hex7) (W8 HexD Hex3 HexF HexA HexF Hex5 HexC HexF)
       (W8 HexA HexB HexC Hex2 Hex7 Hex7 Hex3 Hex7) (W8 Hex5 HexA HexC Hex5 Hex2 HexD Hex1 HexB)
       (W8 Hex5 HexC HexB Hex0 Hex6 Hex7 Hex9 HexE) (W8 Hex4 HexF HexA Hex3 Hex3 Hex7 Hex4 Hex2)
       (W8 HexD Hex3 Hex8 Hex2 Hex2 Hex7 Hex4 Hex0) (W8 Hex9 Hex9 HexB HexC Hex9 HexB HexB HexE)
       (W8 HexD Hex5 Hex1 Hex1 Hex8 HexE Hex9 HexD) (W8 HexB HexF Hex0 HexF Hex7 Hex3 Hex1 Hex5)
       (W8 HexD Hex6 Hex2 HexD Hex1 HexC Hex7 HexE) (W8 HexC Hex7 Hex0 Hex0 HexC Hex4 Hex7 HexB)
       (W8 HexB Hex7 Hex8 HexC Hex1 HexB Hex6 HexB) (W8 Hex2 Hex1 HexA Hex1 Hex9 Hex0 Hex4 Hex5)
       (W8 HexB Hex2 Hex6 HexE HexB Hex1 HexB HexE) (W8 Hex6 HexA Hex3 Hex6 Hex6 HexE HexB Hex4))
      (N16 (W8 Hex5 Hex7 Hex4 Hex8 HexA HexB Hex2 HexF) (W8 HexB HexC Hex9 Hex4 Hex6 HexE Hex7 Hex9)
       (W8 HexC Hex6 HexA Hex3 Hex7 Hex6 HexD Hex2) (W8 Hex6 Hex5 Hex4 Hex9 HexC Hex2 HexC Hex8)
       (W8 Hex5 Hex3 Hex0 HexF HexF Hex8 HexE HexE) (W8 Hex4 Hex6 Hex8 HexD HexD HexE Hex7 HexD)
       (W8 HexD Hex5 Hex7 Hex3 Hex0 HexA Hex1 HexD) (W8 Hex4 HexC HexD Hex0 Hex4 HexD HexC Hex6)
       (W8 Hex2 Hex9 Hex3 Hex9 HexB HexB HexD HexB) (W8 HexA Hex9 HexB HexA Hex4 Hex6 Hex5 Hex0)
       (W8 HexA HexC Hex9 Hex5 Hex2 Hex6 HexE Hex8) (W8 HexB HexE Hex5 HexE HexE Hex3 Hex0 Hex4)
       (W8 HexA Hex1 HexF HexA HexD Hex5 HexF Hex0) (W8 Hex6 HexA Hex2 HexD Hex5 Hex1 Hex9 HexA)
       (W8 Hex6 Hex3 HexE HexF Hex8 HexC HexE Hex2) (W8 Hex9 HexA Hex8 Hex6 HexE HexE Hex2 Hex2))
      (N16 (W8 HexC Hex0 Hex8 Hex9 HexC Hex2 HexB Hex8) (W8 Hex4 Hex3 Hex2 Hex4 Hex2 HexE HexF Hex6)
       (W8 HexA Hex5 Hex1 HexE Hex0 Hex3 HexA HexA) (W8 Hex9 HexC HexF Hex2 HexD Hex0 HexA Hex4)
       (W8 Hex8 Hex3 HexC Hex0 Hex6 Hex1 HexB HexA) (W8 Hex9 HexB HexE Hex9 Hex6 HexA Hex4 HexD)
       (W8 Hex8 HexF HexE Hex5 Hex1 Hex5 Hex5 Hex0) (W8 HexB HexA Hex6 Hex4 Hex5 HexB HexD Hex6)
       (W8 Hex2 Hex8 Hex2 Hex6 HexA Hex2 HexF Hex9) (W8 HexA Hex7 Hex3 HexA Hex3 HexA HexE Hex1)
       (W8 Hex4 HexB HexA Hex9 Hex9 Hex5 Hex8 Hex6) (W8 HexE HexF Hex5 Hex5 Hex6 Hex2 HexE Hex9)
       (W8 HexC Hex7 Hex2 HexF HexE HexF HexD Hex3) (W8 HexF Hex7 Hex5 Hex2 HexF Hex7 HexD HexA)
       (W8 Hex3 HexF Hex0 Hex4 Hex6 HexF Hex6 Hex9) (W8 Hex7 Hex7 HexF HexA Hex0 HexA Hex5 Hex9))
      (N16 (W8 Hex8 Hex0 HexE Hex4 HexA Hex9 Hex1 Hex5) (W8 Hex8 Hex7 HexB Hex0 Hex8 Hex6 Hex0 Hex1)
       (W8 Hex9 HexB Hex0 Hex9 HexE Hex6 HexA HexD) (W8 Hex3 HexB Hex3 HexE HexE Hex5 Hex9 Hex3)
       (W8 HexE Hex9 Hex9 Hex0 HexF HexD Hex5 HexA) (W8 Hex9 HexE Hex3 Hex4 HexD Hex7 Hex9 Hex7)
       (W8 Hex2 HexC HexF Hex0 HexB Hex7 HexD Hex9) (W8 Hex0 Hex2 Hex2 HexB Hex8 HexB Hex5 Hex1)
       (W8 Hex9 Hex6 HexD Hex5 HexA HexC Hex3 HexA) (W8 Hex0 Hex1 Hex7 HexD HexA Hex6 Hex7 HexD)
       (W8 HexD Hex1 HexC HexF Hex3 HexE HexD Hex6) (W8 Hex7 HexC Hex7 HexD Hex2 HexD Hex2 Hex8)
       (W8 Hex1 HexF Hex9 HexF Hex2 Hex5 HexC HexF) (W8 HexA HexD HexF Hex2 HexB Hex8 Hex9 HexB)
       (W8 Hex5 HexA HexD Hex6 HexB Hex4 Hex7 Hex2) (W8 Hex5 HexA Hex8 Hex8 HexF Hex5 Hex4 HexC))
      (N16 (W8 HexE Hex0 Hex2 Hex9 HexA HexC Hex7 Hex1) (W8 HexE Hex0 Hex1 Hex9 HexA Hex5 HexE Hex6)
       (W8 Hex4 Hex7 HexB Hex0 HexA HexC HexF HexD) (W8 HexE HexD Hex9 Hex3 HexF HexA Hex9 HexB)
       (W8 HexE Hex8 HexD Hex3 HexC Hex4 Hex8 HexD) (W8 Hex2 Hex8 Hex3 HexB Hex5 Hex7 HexC HexC)
       (W8 HexF Hex8 HexD Hex5 Hex6 Hex6 Hex2 Hex9) (W8 Hex7 Hex9 Hex1 Hex3 Hex2 HexE Hex2 Hex8)
       (W8 Hex7 Hex8 Hex5 HexF Hex0 Hex1 Hex9 Hex1) (W8 HexE HexD Hex7 Hex5 Hex6 Hex0 Hex5 Hex5)
       (W8 HexF Hex7 Hex9 Hex6 Hex0 HexE Hex4 Hex4) (W8 HexE Hex3 HexD Hex3 Hex5 HexE Hex8 HexC)
       (W8 Hex1 Hex5 Hex0 Hex5 Hex6 HexD HexD Hex4) (W8 Hex8 Hex8 HexF Hex4 Hex6 HexD HexB HexA)
       (W8 Hex0 Hex3 HexA Hex1 Hex6 Hex1 Hex2 Hex5) (W8 Hex0 Hex5 Hex6 Hex4 HexF Hex0 HexB HexD))
      (N16 (W8 HexC Hex3 HexE HexB Hex9 HexE Hex1 Hex5) (W8 Hex3 HexC Hex9 Hex0 Hex5 Hex7 HexA Hex2)
       (W8 Hex9 Hex7 Hex2 Hex7 Hex1 HexA HexE HexC) (W8 HexA Hex9 Hex3 HexA Hex0 Hex7 Hex2 HexA)
       (W8 Hex1 HexB Hex3 HexF Hex6 HexD Hex9 HexB) (W8 Hex1 HexE Hex6 Hex3 Hex2 Hex1 HexF Hex5)
       (W8 HexF Hex5 Hex9 HexC Hex6 Hex6 HexF HexB) (W8 Hex2 Hex6 HexD HexC HexF Hex3 Hex1 Hex9)
       (W8 Hex7 Hex5 Hex3 Hex3 HexD Hex9 Hex2 Hex8) (W8 HexB Hex1 Hex5 Hex5 HexF HexD HexF Hex5)
       (W8 Hex0 Hex3 Hex5 Hex6 Hex3 Hex4 Hex8 Hex2) (W8 Hex8 HexA HexB HexA Hex3 HexC HexB HexB)
       (W8 Hex2 Hex8 Hex5 Hex1 Hex7 Hex7 Hex1 Hex1) (W8 HexC Hex2 Hex0 HexA HexD Hex9 HexF Hex8)
       (W8 HexA HexB HexC HexC Hex5 Hex1 Hex6 Hex7) (W8 HexC HexC HexA HexD Hex9 Hex2 Hex5 HexF))
      (N16 (W8 Hex4 HexD HexE Hex8 Hex1 Hex7 Hex5 Hex1) (W8 Hex3 Hex8 Hex3 Hex0 HexD HexC Hex8 HexE)
       (W8 Hex3 Hex7 Hex9 HexD Hex5 Hex8 Hex6 Hex2) (W8 Hex9 Hex3 Hex2 Hex0 HexF Hex9 Hex9 Hex1)
       (W8 HexE HexA Hex7 HexA Hex9 Hex0 HexC Hex2) (W8 HexF HexB Hex3 HexE Hex7 HexB HexC HexE)
       (W8 Hex5 Hex1 Hex2 Hex1 HexC HexE Hex6 Hex4) (W8 Hex7 Hex7 Hex4 HexF HexB HexE Hex3 Hex2)
       (W8 HexA Hex8 HexB Hex6 HexE Hex3 Hex7 HexE) (W8 HexC Hex3 Hex2 Hex9 Hex3 HexD Hex4 Hex6)
       (W8 Hex4 Hex8 HexD HexE Hex5 Hex3 Hex6 Hex9) (W8 Hex6 Hex4 Hex1 Hex3 HexE Hex6 Hex8 Hex0)
       (W8 HexA Hex2 HexA HexE Hex0 Hex8 Hex1 Hex0) (W8 HexD HexD Hex6 HexD HexB Hex2 Hex2 Hex4)
       (W8 Hex6 Hex9 Hex8 Hex5 Hex2 HexD HexF HexD) (W8 Hex0 Hex9 Hex0 Hex7 Hex2 Hex1 Hex6 Hex6))
      (N16 (W8 HexB Hex3 Hex9 HexA Hex4 Hex6 Hex0 HexA) (W8 Hex6 Hex4 Hex4 Hex5 HexC Hex0 HexD HexD)
       (W8 Hex5 Hex8 Hex6 HexC HexD HexE HexC HexF) (W8 Hex1 HexC Hex2 Hex0 HexC Hex8 HexA HexE)
       (W8 Hex5 HexB HexB HexE HexF Hex7 HexD HexD) (W8 Hex1 HexB Hex5 Hex8 Hex8 HexD Hex4 Hex0)
       (W8 HexC HexC HexD Hex2 Hex0 Hex1 Hex7 HexF) (W8 Hex6 HexB HexB Hex4 HexE Hex3 HexB HexB)
       (W8 HexD HexD HexA Hex2 Hex6 HexA Hex7 HexE) (W8 Hex3 HexA Hex5 Hex9 HexF HexF Hex4 Hex5)
       (W8 Hex3 HexE Hex3 Hex5 Hex0 HexA Hex4 Hex4) (W8 HexB HexC HexB Hex4 HexC HexD HexD Hex5)
       (W8 Hex7 Hex2 HexE HexA HexC HexE HexA Hex8) (W8 HexF HexA Hex6 Hex4 Hex8 Hex4 HexB HexB)
       (W8 Hex8 HexD Hex6 Hex6 Hex1 Hex2 HexA HexE) (W8 HexB HexF Hex3 HexC Hex6 HexF Hex4 Hex7))
      (N16 (W8 HexD Hex2 Hex9 HexB HexE Hex4 Hex6 Hex3) (W8 Hex5 Hex4 Hex2 HexF Hex5 HexD Hex9 HexE)
       (W8 HexA HexE HexC Hex2 Hex7 Hex7 Hex1 HexB) (W8 HexF Hex6 Hex4 HexE Hex6 Hex3 Hex7 Hex0)
       (W8 Hex7 Hex4 Hex0 HexE Hex0 HexD Hex8 HexD) (W8 HexE Hex7 Hex5 HexB Hex1 Hex3 Hex5 Hex7)
       (W8 HexF Hex8 Hex7 Hex2 Hex1 Hex6 Hex7 Hex1) (W8 HexA HexF Hex5 Hex3 Hex7 HexD Hex5 HexD)
       (W8 Hex4 Hex0 Hex4 Hex0 HexC HexB Hex0 Hex8) (W8 Hex4 HexE HexB Hex4 HexE Hex2 HexC HexC)
       (W8 Hex3 Hex4 HexD Hex2 Hex4 Hex6 Hex6 HexA) (W8 Hex0 Hex1 Hex1 Hex5 HexA HexF Hex8 Hex4)
       (W8 HexE Hex1 HexB Hex0 Hex0 Hex4 Hex2 Hex8) (W8 Hex9 Hex5 Hex9 Hex8 Hex3 HexA Hex1 HexD)
       (W8 Hex0 Hex6 HexB Hex8 Hex9 HexF HexB Hex4) (W8 HexC HexE Hex6 HexE HexA Hex0 Hex4 Hex8))
      (N16 (W8 Hex6 HexF Hex3 HexF Hex3 HexB Hex8 Hex2) (W8 Hex3 Hex5 Hex2 Hex0 HexA HexB Hex8 Hex2)
       (W8 Hex0 Hex1 Hex1 HexA Hex1 HexD Hex4 HexB) (W8 Hex2 Hex7 Hex7 Hex2 Hex2 Hex7 HexF Hex8)
       (W8 Hex6 Hex1 Hex1 Hex5 Hex6 Hex0 HexB Hex1) (W8 HexE Hex7 Hex9 Hex3 Hex3 HexF HexD HexC)
       (W8 HexB HexB Hex3 HexA Hex7 Hex9 Hex2 HexB) (W8 Hex3 Hex4 Hex4 Hex5 Hex2 Hex5 HexB HexD)
       (W8 HexA Hex0 Hex8 Hex8 Hex3 Hex9 HexE Hex1) (W8 Hex5 Hex1 HexC HexE Hex7 Hex9 Hex4 HexB)
       (W8 Hex2 HexF Hex3 Hex2 HexC Hex9 HexB Hex7) (W8 HexA Hex0 Hex1 HexF HexB HexA HexC Hex9)
       (W8 HexE Hex0 Hex1 HexC HexC Hex8 Hex7 HexE) (W8 HexB HexC HexC Hex7 HexD Hex1 HexF Hex6)
       (W8 HexC HexF Hex0 Hex1 Hex1 Hex1 HexC Hex3) (W8 HexA Hex1 HexE Hex8 HexA HexA HexC Hex7))
      (N16 (W8 Hex1 HexA Hex9 Hex0 Hex8 Hex7 Hex4 Hex9) (W8 HexD Hex4 Hex4 HexF HexB HexD Hex9 HexA)
       (W8 HexD Hex0 HexD HexA HexD HexE HexC HexB) (W8 HexD Hex5 Hex0 HexA HexD HexA Hex3 Hex8)
       (W8 Hex0 Hex3 Hex3 Hex9 HexC Hex3 Hex2 HexA) (W8 HexC Hex6 Hex9 Hex1 Hex3 Hex6 Hex6 Hex7)
       (W8 Hex8 HexD HexF Hex9 Hex3 Hex1 Hex7 HexC) (W8 HexE Hex0 HexB Hex1 Hex2 HexB Hex4 HexF)
       (W8 HexF Hex7 Hex9 HexE Hex5 Hex9 HexB Hex7) (W8 Hex4 Hex3 HexF Hex5 HexB HexB Hex3 HexA)
       (W8 HexF Hex2 HexD Hex5 Hex1 Hex9 HexF HexF) (W8 Hex2 Hex7 HexD Hex9 Hex4 Hex5 Hex9 HexC)
       (W8 HexB HexF Hex9 Hex7 Hex2 Hex2 Hex2 HexC) (W8 Hex1 Hex5 HexE Hex6 HexF HexC Hex2 HexA)
       (W8 Hex0 HexF Hex9 Hex1 HexF HexC Hex7 Hex1) (W8 Hex9 HexB Hex9 Hex4 Hex1 Hex5 Hex2 Hex5))
      (N16 (W8 HexF HexA HexE Hex5 Hex9 Hex3 Hex6 Hex1) (W8 HexC HexE HexB Hex6 Hex9 HexC HexE HexB)
       (W8 HexC Hex2 HexA Hex8 Hex6 Hex4 Hex5 Hex9) (W8 Hex1 Hex2 HexB HexA HexA Hex8 HexD Hex1)
       (W8 HexB Hex6 HexC Hex1 Hex0 Hex7 Hex5 HexE) (W8 HexE Hex3 Hex0 Hex5 Hex6 HexA Hex0 HexC)
       (W8 Hex1 Hex0 HexD Hex2 Hex5 Hex0 Hex6 Hex5) (W8 HexC HexB Hex0 Hex3 HexA Hex4 Hex4 Hex2)
       (W8 HexE Hex0 HexE HexC Hex6 HexE Hex0 HexE) (W8 Hex1 Hex6 Hex9 Hex8 HexD HexB Hex3 HexB)
       (W8 Hex4 HexC Hex9 Hex8 HexA Hex0 HexB HexE) (W8 Hex3 Hex2 Hex7 Hex8 HexE Hex9 Hex6 Hex4)
       (W8 Hex9 HexF Hex1 HexF Hex9 Hex5 Hex3 Hex2) (W8 HexE Hex0 HexD Hex3 Hex9 Hex2 HexD HexF)
       (W8 HexD Hex3 HexA Hex0 Hex3 Hex4 Hex2 HexB) (W8 Hex8 Hex9 Hex7 Hex1 HexF Hex2 Hex1 HexE))
      (N16 (W8 Hex1 HexB Hex0 HexA Hex7 Hex4 Hex4 Hex1) (W8 Hex4 HexB HexA Hex3 Hex3 Hex4 Hex8 HexC)
       (W8 HexC Hex5 HexB HexE Hex7 Hex1 Hex2 Hex0) (W8 HexC Hex3 Hex7 Hex6 Hex3 Hex2 HexD Hex8)
       (W8 HexD HexF Hex3 Hex5 Hex9 HexF Hex8 HexD) (W8 Hex9 HexB Hex9 Hex9 Hex2 HexF Hex2 HexE)
       (W8 HexE Hex6 Hex0 HexB Hex6 HexF Hex4 Hex7) (W8 Hex0 HexF HexE Hex3 HexF Hex1 Hex1 HexD)
       (W8 HexE Hex5 Hex4 HexC HexD HexA Hex5 Hex4) (W8 Hex1 HexE HexD HexA HexD Hex8 Hex9 Hex1)
       (W8 HexC HexE Hex6 Hex2 Hex7 Hex9 HexC HexF) (W8 HexC HexD Hex3 HexE Hex7 HexE Hex6 HexF)
       (W8 Hex1 Hex6 Hex1 Hex8 HexB Hex1 Hex6 Hex6) (W8 HexF HexD Hex2 HexC Hex1 HexD Hex0 Hex5)
       (W8 Hex8 Hex4 Hex8 HexF HexD Hex2 HexC Hex5) (W8 HexF Hex6 HexF HexB Hex2 Hex2 Hex9 Hex9))
      (N16 (W8 HexF Hex5 Hex2 Hex3 HexF Hex3 Hex5 Hex7) (W8 HexA Hex6 Hex3 Hex2 Hex7 Hex6 Hex2 Hex3)
       (W8 Hex9 Hex3 HexA Hex8 Hex3 Hex5 Hex3 Hex1) (W8 Hex5 Hex6 HexC HexC HexC HexD Hex0 Hex2)
       (W8 HexA HexC HexF Hex0 Hex8 Hex1 Hex6 Hex2) (W8 Hex5 HexA Hex7 Hex5 HexE HexB HexB Hex5)
       (W8 Hex6 HexE Hex1 Hex6 Hex3 Hex6 Hex9 Hex7) (W8 Hex8 Hex8 HexD Hex2 Hex7 Hex3 HexC HexC)
       (W8 HexD HexE Hex9 Hex6 Hex6 Hex2 Hex9 Hex2) (W8 Hex8 Hex1 HexB Hex9 Hex4 Hex9 HexD Hex0)
       (W8 Hex4 HexC Hex5 Hex0 Hex9 Hex0 Hex1 HexB) (W8 Hex7 Hex1 HexC Hex6 Hex5 Hex6 Hex1 Hex4)
       (W8 HexE Hex6 HexC Hex6 HexC Hex7 HexB HexD) (W8 Hex3 Hex2 Hex7 HexA Hex1 Hex4 Hex0 HexA)
       (W8 Hex4 Hex5 HexE Hex1 HexD Hex0 Hex0 Hex6) (W8 HexC Hex3 HexF Hex2 Hex7 HexB Hex9 HexA))
      (N16 (W8 HexC Hex9 HexA HexA Hex5 Hex3 HexF HexD) (W8 Hex6 Hex2 HexA Hex8 Hex0 HexF Hex0 Hex0)
       (W8 HexB HexB Hex2 Hex5 HexB HexF HexE Hex2) (W8 Hex3 Hex5 HexB HexD HexD Hex2 HexF Hex6)
       (W8 Hex7 Hex1 Hex1 Hex2 Hex6 Hex9 Hex0 Hex5) (W8 HexB Hex2 Hex0 Hex4 Hex0 Hex2 Hex2 Hex2)
       (W8 HexB Hex6 HexC HexB HexC HexF Hex7 HexC) (W8 HexC HexD Hex7 Hex6 Hex9 HexC Hex2 HexB)
       (W8 Hex5 Hex3 Hex1 Hex1 Hex3 HexE HexC Hex0) (W8 Hex1 Hex6 Hex4 Hex0 HexE Hex3 HexD Hex3)
       (W8 Hex3 Hex8 HexA HexB HexB HexD Hex6 Hex0) (W8 Hex2 Hex5 Hex4 Hex7 HexA HexD HexF Hex0)
       (W8 HexB HexA Hex3 Hex8 Hex2 Hex0 Hex9 HexC) (W8 HexF Hex7 Hex4 Hex6 HexC HexE Hex7 Hex6)
       (W8 Hex7 Hex7 HexA HexF HexA Hex1 HexC Hex5) (W8 Hex2 Hex0 Hex7 Hex5 Hex6 Hex0 Hex6 Hex0))
      (N16 (W8 Hex8 Hex5 HexC HexB HexF HexE Hex4 HexE) (W8 Hex8 HexA HexE Hex8 Hex8 HexD HexD Hex8)
       (W8 Hex7 HexA HexA HexA HexF Hex9 HexB Hex0) (W8 Hex4 HexC HexF Hex9 HexA HexA Hex7 HexE)
       (W8 Hex1 Hex9 Hex4 Hex8 HexC Hex2 Hex5 HexC) (W8 Hex0 Hex2 HexF HexB Hex8 HexA Hex8 HexC)
       (W8 Hex0 Hex1 HexC Hex3 Hex6 HexA HexE Hex4) (W8 HexD Hex6 HexE HexB HexE Hex1 HexF Hex9)
       (W8 Hex9 Hex0 HexD Hex4 HexF Hex8 Hex6 Hex9) (W8 HexA Hex6 Hex5 HexC HexD HexE HexA Hex0)
       (W8 Hex3 HexF Hex0 Hex9 Hex2 Hex5 Hex2 HexD) (W8 HexC Hex2 Hex0 Hex8 HexE Hex6 Hex9 HexF)
       (W8 HexB Hex7 Hex4 HexE Hex6 Hex1 Hex3 Hex2) (W8 HexC HexE Hex7 Hex7 HexE Hex2 Hex5 HexB)
       (W8 Hex5 Hex7 Hex8 HexF HexD HexF HexE Hex3) (W8 Hex3 HexA HexC Hex3 Hex7 Hex2 HexE Hex6)))"

lemma init_boxes_list: "boxes_list init_boxes = ctx_S BF_init_state"
  by (simp add: init_boxes_def box_list_def w32_def BF_init_state_def BF_init_S0_def BF_init_S1_def BF_init_S2_def BF_init_S3_def)

definition test_key :: string where
  "test_key = ''8b '' @ map char_of [0xd0 :: nat, 0xc1, 0xd2, 0xcf, 0xcc, 0xd8]"

definition test_expanded :: p18 where
  "test_expanded =
    P18 (W8 Hex3 Hex8 Hex6 Hex2 Hex2 Hex0 HexD Hex0) (W8 HexC Hex1 HexD Hex2 HexC HexF HexC HexC) (W8 HexD Hex8 Hex0 Hex0 Hex3 Hex8 Hex6 Hex2)
     (W8 Hex2 Hex0 HexD Hex0 HexC Hex1 HexD Hex2) (W8 HexC HexF HexC HexC HexD Hex8 Hex0 Hex0) (W8 Hex3 Hex8 Hex6 Hex2 Hex2 Hex0 HexD Hex0)
     (W8 HexC Hex1 HexD Hex2 HexC HexF HexC HexC) (W8 HexD Hex8 Hex0 Hex0 Hex3 Hex8 Hex6 Hex2) (W8 Hex2 Hex0 HexD Hex0 HexC Hex1 HexD Hex2)
     (W8 HexC HexF HexC HexC HexD Hex8 Hex0 Hex0) (W8 Hex3 Hex8 Hex6 Hex2 Hex2 Hex0 HexD Hex0) (W8 HexC Hex1 HexD Hex2 HexC HexF HexC HexC)
     (W8 HexD Hex8 Hex0 Hex0 Hex3 Hex8 Hex6 Hex2) (W8 Hex2 Hex0 HexD Hex0 HexC Hex1 HexD Hex2) (W8 HexC HexF HexC HexC HexD Hex8 Hex0 Hex0)
     (W8 Hex3 Hex8 Hex6 Hex2 Hex2 Hex0 HexD Hex0) (W8 HexC Hex1 HexD Hex2 HexC HexF HexC HexC) (W8 HexD Hex8 Hex0 Hex0 Hex3 Hex8 Hex6 Hex2)"

definition test_initial :: p18 where
  "test_initial =
    P18 (W8 Hex1 HexC Hex5 HexD Hex4 HexA Hex5 Hex8) (W8 Hex4 Hex4 Hex7 Hex1 HexC Hex7 Hex1 HexF) (W8 HexC HexB Hex1 Hex9 HexB Hex2 Hex4 HexC)
     (W8 Hex2 Hex3 HexA Hex0 HexB Hex2 Hex9 Hex6) (W8 Hex6 HexB HexC Hex5 HexE Hex0 Hex2 Hex2) (W8 Hex1 Hex1 HexF HexD Hex1 Hex1 Hex0 Hex0)
     (W8 HexC Hex9 HexF HexC Hex3 Hex5 Hex5 Hex4) (W8 Hex3 Hex4 Hex4 HexE Hex5 Hex4 HexE HexB) (W8 Hex6 Hex5 HexF Hex8 HexE Hex0 Hex3 Hex4)
     (W8 HexF Hex7 Hex1 HexC HexC HexB Hex7 Hex7) (W8 Hex8 Hex6 Hex3 Hex6 Hex4 Hex6 Hex1 HexF) (W8 HexF Hex5 Hex3 HexB HexC Hex3 HexA Hex0)
     (W8 Hex1 Hex8 HexA HexC Hex1 Hex1 HexD Hex5) (W8 HexE Hex9 HexA HexC Hex9 Hex1 Hex0 HexF) (W8 HexF Hex0 Hex4 Hex8 Hex0 HexD HexB Hex5)
     (W8 Hex8 HexD Hex2 Hex5 Hex2 Hex9 HexC Hex7) (W8 Hex5 Hex3 HexC Hex4 Hex1 HexA Hex1 Hex5) (W8 Hex5 Hex1 Hex7 Hex9 HexC Hex3 Hex7 Hex9)"

lemma test_key_set: "BF_set_key test_key 2 = (map w32 (p_list test_expanded), map w32 (p_list test_initial))"
proof -
  have "BF_set_key test_key 2 =
    ([0x386220D0, 0xC1D2CFCC, 0xD8003862, 0x20D0C1D2, 0xCFCCD800, 0x386220D0, 0xC1D2CFCC, 0xD8003862, 0x20D0C1D2,
    0xCFCCD800, 0x386220D0, 0xC1D2CFCC, 0xD8003862, 0x20D0C1D2, 0xCFCCD800, 0x386220D0, 0xC1D2CFCC, 0xD8003862],
     [0x1C5D4A58, 0x4471C71F, 0xCB19B24C, 0x23A0B296, 0x6BC5E022, 0x11FD1100, 0xC9FC3554, 0x344E54EB, 0x65F8E034,
    0xF71CCB77, 0x8636461F, 0xF53BC3A0, 0x18AC11D5, 0xE9AC910F, 0xF0480DB5, 0x8D2529C7, 0x53C41A15, 0x5179C379])"
    by code_simp
  then show ?thesis by (simp add: test_expanded_def test_initial_def w32_def)
qed

definition test_run :: "halves list" where
  "test_run = run_magic
     (run_second (W8 Hex7 Hex1 HexD Hex7 Hex9 HexF Hex8 Hex2) (W8 Hex1 Hex8 HexA Hex3 Hex9 Hex2 Hex5 Hex9) (W8 HexA Hex7 HexA Hex2 Hex9 HexA HexA HexB) (W8 HexB Hex2 HexD HexB HexA HexF HexC Hex3)
     (run_first test_expanded
     (fill_boxes (Halves (W8 HexA Hex7 HexA Hex2 Hex9 HexA HexA HexB) (W8 HexB Hex2 HexD HexB HexA HexF HexC Hex3)) (Halves (W8 Hex7 Hex1 HexD Hex7 Hex9 HexF Hex8 Hex2) (W8 Hex1 Hex8 HexA Hex3 Hex9 Hex2 Hex5 Hex9))
     (fill_p (Halves (W8 Hex7 Hex1 HexD Hex7 Hex9 HexF Hex8 Hex2) (W8 Hex1 Hex8 HexA Hex3 Hex9 Hex2 Hex5 Hex9)) (Halves (W8 HexA Hex7 HexA Hex2 Hex9 HexA HexA HexB) (W8 HexB Hex2 HexD HexB HexA HexF HexC Hex3))
     (Fast init_boxes test_initial zero_h)))))"

lemmas fast_rules = nxor_table fa_table wxor.simps add0.simps add1.simps add2.simps add3.simps add4.simps add5.simps add6.simps
  add7.simps wadd.simps get16.simps upd16.simps rd.simps rounds.simps enc.simps hxor.simps upd2.simps sput.simps sturn.simps
  pput.simps pstore.simps pturn.simps pick.simps qturn.simps rowturn_def boxturn_def fill_boxes_def fill_p_def body_def
  p_xor.simps p_salt.simps enc_quad_def enc64_def run_magic.simps run_first.simps run_second.simps zero_w_def zero_h_def
  quads_def nibs_def fold_simps

lemma test_run_result:
  "test_run = [Halves (W8 Hex9 Hex3 Hex7 Hex1 Hex7 HexD HexD HexB) (W8 HexF HexC Hex6 Hex1 Hex7 Hex2 Hex8 HexC), Halves (W8 Hex2 Hex7 Hex9 Hex2 Hex8 Hex9 HexC Hex8) (W8 Hex7 HexA HexC HexD HexA HexC HexB Hex3), Halves (W8 Hex9 Hex5 HexB Hex1 HexC Hex1 Hex6 Hex7) (W8 Hex2 HexE HexC Hex4 Hex6 Hex7 HexC Hex6)]"
  unfolding test_run_def init_boxes_def test_expanded_def test_initial_def by (simp only: fast_rules)

theorem self_test_words:
  "eks_blowfish test_key 2 0 [0x71D79F82, 0x18A39259, 0xA7A29AAB, 0xB2DBAFC3] = [0x93717DDB, 0xFC61728C, 0x279289C8, 0x7ACDACB3, 0x95B1C167, 0x2EC467C6]"
proof -
  let ?salt = "[w32 (W8 Hex7 Hex1 HexD Hex7 Hex9 HexF Hex8 Hex2), w32 (W8 Hex1 Hex8 HexA Hex3 Hex9 Hex2 Hex5 Hex9), w32 (W8 HexA Hex7 HexA Hex2 Hex9 HexA HexA HexB), w32 (W8 HexB Hex2 HexD HexB HexA HexF HexC Hex3)]"
  let ?st = "Fast init_boxes test_initial zero_h"
  have salt: "[0x71D79F82, 0x18A39259, 0xA7A29AAB, 0xB2DBAFC3] = ?salt" by (simp add: w32_def)
  have start: "((0, 0), \<lparr>ctx_S = ctx_S BF_init_state, ctx_P = map w32 (p_list test_initial)\<rparr>) = state_of ?st"
    by (simp add: ctx_of_def init_boxes_list zero_h_def w32_zero)
  have "eks_blowfish test_key 2 0 ?salt = concat (map (\<lambda>h. [fst (pair_of h), snd (pair_of h)]) test_run)"
    unfolding test_run_def magic_fast [symmetric] main_turn_fast [symmetric] first_fast [symmetric] start [symmetric]
    by (simp add: eks_blowfish_def test_key_set split_beta Let_def)
  then show ?thesis unfolding salt test_run_result by (simp add: w32_def)
qed

end
