(* ===== verification/Bcrypt.thy ===== *)
theory Bcrypt
  imports Blowfish_Evaluation Auth_Server
begin

unbundle bit_operations_syntax

text \<open>
  The library around the hash: the end of \<^verbatim>\<open>crypt_blowfish.c\<close> with the self test that every call runs, \<^verbatim>\<open>crypt_gensalt.c\<close>,
  \<^verbatim>\<open>wrapper.c\<close> as it is compiled outside of the GNU C library, and \<^verbatim>\<open>bcrypt.c\<close>. Its functions take the place of the parameter of
  \<open>Auth_Server\<close>: the law that the hasher relies on is proved for them, and so is that no password is refused.

  A returned pointer is the string it points to, \<^verbatim>\<open>NULL\<close> is \<^const>\<open>None\<close>; \<^verbatim>\<open>errno\<close> is left out, since nobody reads it. The system
  calls on \<^verbatim>\<open>/dev/urandom\<close> are the lists of their answers.
\<close>

section \<open>The self test\<close>

definition crypt_output_magic :: "string \<Rightarrow> int \<Rightarrow> string option" where
  "crypt_output_magic setting sz =
     (if sz < 3 then None
      else Some (if char_at setting 0 = CHR ''*'' \<and> char_at setting 1 = CHR ''0'' then ''*1'' else ''*0''))"

definition test_setting :: string where
  "test_setting = ''$2a$00$abcdefghijklmnopqrstuu''"

definition test_hashes :: "string list" where
  "test_hashes = [''i1D709vfamulimlGcq0qq3UvuUasvEa'', ''VUrPmXD6q/nVSSp7pNDhCR9071IfIRe'']"

definition test_long_key :: string where
  "test_long_key = map char_of [0xff :: nat, 0xa3] @ ''34'' @ map char_of [0xff :: nat, 0xff, 0xff, 0xa3] @ ''345''"

definition test_set_key :: bool where
  "test_set_key \<longleftrightarrow>
     (let (ae, ai) = BF_set_key test_long_key 2;
          (ye, yi) = BF_set_key test_long_key 4;
          ai = ai[0 := ai ! 0 XOR 0x10000]
      in ai ! 0 = 0xdb9c59bc \<and> ye ! 17 = 0x33343500 \<and> ae = ye \<and> ai = yi)"

text \<open>The test runs with the subtype of the setting, if the password was hashed, and with \<^verbatim>\<open>a\<close> otherwise. The buffer is filled with
  \<^verbatim>\<open>0x55\<close> and ends in a NUL; the hash is written over its beginning, with a NUL behind it, and the bytes that follow are to be as they
  were.\<close>

definition test_buffer :: string where
  "test_buffer = replicate (7 + 22 + 31 + 1 + 1) (CHR 0x55) @ [CHR 0x00]"

definition self_test :: "char \<Rightarrow> bool" where
  "self_test subtype \<longleftrightarrow>
     (let s = test_setting[2 := subtype];
          test_hash = test_hashes ! (subtype_flags subtype mod 2)
      in (case BF_crypt test_key s (7 + 22 + 31 + 1) 1 of
            None \<Rightarrow> False
          | Some p \<Rightarrow>
              let buf = p @ CHR 0x00 # drop (length p + 1) test_buffer
              in take (7 + 22) buf = take (7 + 22) s \<and>
                 take (31 + 1 + 1 + 1) (drop (7 + 22) buf) = test_hash @ [CHR 0x00, CHR 0x55, CHR 0x00]) \<and>
         test_set_key)"

definition crypt_blowfish_rn :: "string \<Rightarrow> string \<Rightarrow> int \<Rightarrow> string option" where
  "crypt_blowfish_rn key setting sz =
     (let retval = BF_crypt key setting sz 16;
          subtype = (case retval of None \<Rightarrow> CHR ''a'' | Some _ \<Rightarrow> char_at setting 2)
      in if self_test subtype then retval else None)"

text \<open>What the buffer of the caller holds afterwards, \<^const>\<open>None\<close> if it was not written to.\<close>

definition crypt_blowfish_buffer :: "string \<Rightarrow> string \<Rightarrow> int \<Rightarrow> string option" where
  "crypt_blowfish_buffer key setting sz =
     (case crypt_blowfish_rn key setting sz of None \<Rightarrow> crypt_output_magic setting sz | Some h \<Rightarrow> Some h)"

section \<open>Salts\<close>

definition crypt_itoa64 :: string where
  "crypt_itoa64 = ''./0123456789ABCDEFGHIJKLMNOPQRSTUVWXYZabcdefghijklmnopqrstuvwxyz''"

definition crypt_digit :: "64 word \<Rightarrow> char" where
  "crypt_digit w = crypt_itoa64 ! unat (w AND 0x3f)"

definition decimal_digit :: "nat \<Rightarrow> char" where
  "decimal_digit n = char_of (of_char CHR ''0'' + n)"

type_synonym gensalt = "string \<Rightarrow> nat \<Rightarrow> byte list \<Rightarrow> int \<Rightarrow> string option"

definition crypt_gensalt_blowfish_rn :: gensalt where
  "crypt_gensalt_blowfish_rn pre count input output_size =
     (if length input < 16 \<or> output_size < 7 + 22 + 1 \<or> (count \<noteq> 0 \<and> (count < 4 \<or> count > 31)) \<or>
         char_at pre 0 \<noteq> CHR ''$'' \<or> char_at pre 1 \<noteq> CHR ''2'' \<or>
         (char_at pre 2 \<noteq> CHR ''a'' \<and> char_at pre 2 \<noteq> CHR ''b'' \<and> char_at pre 2 \<noteq> CHR ''y'')
      then None
      else let count = (if count = 0 then 5 else count) in
        Some ([CHR ''$'', CHR ''2'', char_at pre 2, CHR ''$'', decimal_digit (count div 10), decimal_digit (count mod 10), CHR ''$''] @
              BF_encode (take 16 input)))"

definition crypt_gensalt_traditional_rn :: gensalt where
  "crypt_gensalt_traditional_rn pre count input output_size =
     (if length input < 2 \<or> output_size < 2 + 1 \<or> (count \<noteq> 0 \<and> count \<noteq> 25) then None
      else Some [crypt_digit (ucast (input ! 0)), crypt_digit (ucast (input ! 1))])"

definition three_bytes :: "byte list \<Rightarrow> nat \<Rightarrow> 64 word" where
  "three_bytes input i =
     ucast (input ! i) OR push_bit 8 (ucast (input ! (i + 1))) OR push_bit 16 (ucast (input ! (i + 2)))"

definition four_digits :: "64 word \<Rightarrow> string" where
  "four_digits w = [crypt_digit w, crypt_digit (drop_bit 6 w), crypt_digit (drop_bit 12 w), crypt_digit (drop_bit 18 w)]"

definition crypt_gensalt_extended_rn :: gensalt where
  "crypt_gensalt_extended_rn pre count input output_size =
     (if length input < 3 \<or> output_size < 1 + 4 + 4 + 1 \<or> (count \<noteq> 0 \<and> (count > 0xffffff \<or> even count)) then None
      else let count = (if count = 0 then 725 else count) in
        Some (CHR ''_'' # four_digits (word_of_nat count) @ four_digits (three_bytes input 0)))"

definition crypt_gensalt_md5_rn :: gensalt where
  "crypt_gensalt_md5_rn pre count input output_size =
     (if length input < 3 \<or> output_size < 3 + 4 + 1 \<or> (count \<noteq> 0 \<and> count \<noteq> 1000) then None
      else Some (''$1$'' @ four_digits (three_bytes input 0) @
        (if length input \<ge> 6 \<and> output_size \<ge> 3 + 4 + 4 + 1 then four_digits (three_bytes input 3) else [])))"

definition crypt_gensalt_rn :: "string \<Rightarrow> nat \<Rightarrow> byte list option \<Rightarrow> int \<Rightarrow> string option" where
  "crypt_gensalt_rn pre count input output_size =
     (case input of
        None \<Rightarrow> None
      | Some input \<Rightarrow>
          if take 4 pre = ''$2a$'' \<or> take 4 pre = ''$2b$'' \<or> take 4 pre = ''$2y$''
          then crypt_gensalt_blowfish_rn pre count input output_size
          else if take 3 pre = ''$1$'' then crypt_gensalt_md5_rn pre count input output_size
          else if char_at pre 0 = CHR ''_'' then crypt_gensalt_extended_rn pre count input output_size
          else if char_at pre 0 = CHR 0x00 \<or>
            (char_at pre 0 \<noteq> CHR 0x00 \<and> char_at pre 1 \<noteq> CHR 0x00 \<and>
             char_at pre 0 \<in> set crypt_itoa64 \<and> char_at pre 1 \<in> set crypt_itoa64)
          then crypt_gensalt_traditional_rn pre count input output_size
          else None)"

section \<open>The interfaces of crypt\<close>

definition CRYPT_OUTPUT_SIZE :: int where
  "CRYPT_OUTPUT_SIZE = 7 + 22 + 31 + 1"

definition CRYPT_GENSALT_OUTPUT_SIZE :: int where
  "CRYPT_GENSALT_OUTPUT_SIZE = 7 + 22 + 1"

text \<open>The size of the block of the caller, if there is one; \<open>realloc\<close> says whether memory can be had.\<close>

definition crypt_data_alloc :: "(int \<Rightarrow> bool) \<Rightarrow> int option \<Rightarrow> int \<Rightarrow> int option" where
  "crypt_data_alloc realloc data need =
     (case data of
        Some sz \<Rightarrow> if sz \<ge> need then Some sz else if realloc need then Some need else None
      | None \<Rightarrow> if realloc need then Some need else None)"

definition crypt_retval_magic :: "string option \<Rightarrow> string \<Rightarrow> int \<Rightarrow> string option" where
  "crypt_retval_magic retval setting sz = (case retval of Some r \<Rightarrow> Some r | None \<Rightarrow> crypt_output_magic setting sz)"

definition crypt_rn :: "string \<Rightarrow> string \<Rightarrow> int \<Rightarrow> string option" where
  "crypt_rn key setting sz = crypt_blowfish_rn key setting sz"

definition crypt_ra :: "(int \<Rightarrow> bool) \<Rightarrow> string \<Rightarrow> string \<Rightarrow> int option \<Rightarrow> string option" where
  "crypt_ra realloc key setting data =
     (case crypt_data_alloc realloc data CRYPT_OUTPUT_SIZE of
        None \<Rightarrow> None
      | Some sz \<Rightarrow> crypt_blowfish_rn key setting sz)"

text \<open>\<^verbatim>\<open>crypt_r\<close> and \<^verbatim>\<open>crypt\<close>, which differ in whose buffer they use.\<close>

definition crypt :: "string \<Rightarrow> string \<Rightarrow> string option" where
  "crypt key setting = crypt_retval_magic (crypt_rn key setting CRYPT_OUTPUT_SIZE) setting CRYPT_OUTPUT_SIZE"

definition crypt_gensalt :: "string \<Rightarrow> nat \<Rightarrow> byte list option \<Rightarrow> string option" where
  "crypt_gensalt pre count input = crypt_gensalt_rn pre count input CRYPT_GENSALT_OUTPUT_SIZE"

definition crypt_gensalt_ra :: "bool \<Rightarrow> string \<Rightarrow> nat \<Rightarrow> byte list option \<Rightarrow> string option" where
  "crypt_gensalt_ra strdup pre count input =
     (case crypt_gensalt_rn pre count input CRYPT_GENSALT_OUTPUT_SIZE of
        None \<Rightarrow> None
      | Some r \<Rightarrow> if strdup then Some r else None)"

section \<open>The functions of bcrypt\<close>

definition BCRYPT_HASHSIZE :: int where
  "BCRYPT_HASHSIZE = 64"

definition RANDBYTES :: nat where
  "RANDBYTES = 16"

text \<open>The answers of \<^verbatim>\<open>read\<close> and \<^verbatim>\<open>close\<close>, in the order of the calls. A call that is interrupted is made again; when the list is at its
  end the function has not returned yet, which is \<^const>\<open>None\<close>.\<close>

datatype read_answer = Read_Interrupted | Read_Failed | Read_Bytes "byte list"

datatype close_answer = Close_Interrupted | Close_Failed | Closed

fun try_close :: "close_answer list \<Rightarrow> bool option" where
  "try_close [] = None"
| "try_close (Close_Interrupted # cs) = try_close cs"
| "try_close (Close_Failed # cs) = Some False"
| "try_close (Closed # cs) = Some True"

text \<open>The system never delivers more than it was asked for.\<close>

function try_read :: "read_answer list \<Rightarrow> nat \<Rightarrow> byte list option option" where
  "try_read rs 0 = Some (Some [])"
| "try_read [] (Suc n) = None"
| "try_read (Read_Interrupted # rs) (Suc n) = try_read rs (Suc n)"
| "try_read (Read_Failed # rs) (Suc n) = Some None"
| "try_read (Read_Bytes bs # rs) (Suc n) =
     (if bs = [] then Some None
      else map_option (map_option (append (take (Suc n) bs))) (try_read rs (Suc n - length bs)))"
  by pat_completeness auto
termination by (relation "measure (\<lambda>(rs, n). length rs)") auto

record urandom =
  ur_open :: bool
  ur_reads :: "read_answer list"
  ur_closes :: "close_answer list"

text \<open>The numbers that are returned for an error, or the salt.\<close>

definition bcrypt_gensalt :: "urandom \<Rightarrow> int \<Rightarrow> (nat + string) option" where
  "bcrypt_gensalt ur factor =
     (if \<not> ur_open ur then Some (Inl 1)
      else case try_read (ur_reads ur) RANDBYTES of
        None \<Rightarrow> None
      | Some None \<Rightarrow> map_option (\<lambda>closed. if \<not> closed then Inl 4 else Inl 2) (try_close (ur_closes ur))
      | Some (Some input) \<Rightarrow>
          (case try_close (ur_closes ur) of
             None \<Rightarrow> None
           | Some closed \<Rightarrow>
               if \<not> closed then Some (Inl 3)
               else let workf = (if factor < 4 \<or> factor > 31 then 12 else factor) in
                 (case crypt_gensalt_rn ''$2a$'' (nat workf) (Some input) BCRYPT_HASHSIZE of
                    None \<Rightarrow> Some (Inl 5)
                  | Some salt \<Rightarrow> Some (Inr salt))))"

definition bcrypt_hashpw :: "string \<Rightarrow> string \<Rightarrow> string option" where
  "bcrypt_hashpw passwd salt = crypt_rn passwd salt BCRYPT_HASHSIZE"

definition timing_safe_strcmp :: "string \<Rightarrow> string \<Rightarrow> 32 word" where
  "timing_safe_strcmp str1 str2 =
     (if length str1 \<noteq> length str2 then 1
      else fold (\<lambda>(a, b) ret. ret OR (of_char a XOR of_char b)) (zip str1 str2) 0)"

definition bcrypt_checkpw :: "string \<Rightarrow> string \<Rightarrow> 32 word" where
  "bcrypt_checkpw passwd hash =
     (case bcrypt_hashpw passwd hash of None \<Rightarrow> - 1 | Some outhash \<Rightarrow> timing_safe_strcmp hash outhash)"

text \<open>The library as the hasher sees it.\<close>

definition crypt_library :: "urandom \<Rightarrow> bcrypt" where
  "crypt_library ur =
     \<lparr>bc_gensalt = (\<lambda>factor. case bcrypt_gensalt ur (int factor) of Some (Inr salt) \<Rightarrow> Some salt | _ \<Rightarrow> None),
      bc_hashpw = bcrypt_hashpw\<rparr>"

section \<open>The self test passes\<close>

lemma self_test_passes: "self_test CHR ''a''"
proof -
  have decode: "BF_decode (drop 7 test_setting) 16 =
      Some [0x71, 0xd7, 0x9f, 0x82, 0x18, 0xa3, 0x92, 0x59, 0xa7, 0xa2, 0x9a, 0xab, 0xb2, 0xdb, 0xaf, 0xc3]"
    by code_simp
  have salt: "BF_swap (words_of_bytes [0x71, 0xd7, 0x9f, 0x82, 0x18, 0xa3, 0x92, 0x59, 0xa7, 0xa2, 0x9a, 0xab, 0xb2, 0xdb, 0xaf, 0xc3]) =
      [0x71D79F82, 0x18A39259, 0xA7A29AAB, 0xB2DBAFC3]"
    by code_simp
  have setting: "valid_setting test_setting" "setting_cost test_setting = 0" "char_at test_setting 2 = CHR ''a''"
    "subtype_flags CHR ''a'' = 2" "test_setting[2 := CHR ''a''] = test_setting"
    "itoa64 (BF_atoi64 ! unat (of_char (char_at test_setting 28) - 0x20 :: 32 word) AND 0x30) = CHR ''u''"
    by code_simp+
  have out: "BF_encode (take 23 (concat (map bytes_of_word (BF_swap [0x93717DDB, 0xFC61728C, 0x279289C8, 0x7ACDACB3, 0x95B1C167, 0x2EC467C6])))) =
      test_hashes ! 0"
    by code_simp
  have "BF_crypt test_key test_setting 61 1 = Some (take 28 test_setting @ CHR ''u'' # test_hashes ! 0)"
    unfolding BF_crypt_def setting decode Let_def option.case salt self_test_words by (simp add: setting out)
  moreover have "take 28 test_setting @ [CHR ''u''] = take 29 test_setting" "length test_setting = 29" by code_simp+
  moreover have "length (test_hashes ! 0) = 31" "drop 61 test_buffer = [CHR 0x55, CHR 0x00]" by code_simp+
  moreover have test_set_key by code_simp
  ultimately show ?thesis by (simp add: self_test_def setting Let_def)
qed

section \<open>What the hasher relies on\<close>

lemma bcrypt_hashpw_some:
  assumes "bcrypt_hashpw p salt = Some h"
  shows "BF_crypt p salt 64 16 = Some h" and "bcrypt_hashpw p h = Some h" and "CHR 0x00 \<notin> set h" and "length h = 60"
proof -
  have c: "BF_crypt p salt 64 16 = Some h" and test: "self_test (char_at salt 2)"
    using assms
    by (auto simp: bcrypt_hashpw_def crypt_rn_def crypt_blowfish_rn_def BCRYPT_HASHSIZE_def Let_def split: if_splits option.splits)
  show "BF_crypt p salt 64 16 = Some h" by (rule c)
  show "CHR 0x00 \<notin> set h" and "length h = 60" using BF_crypt_hash [OF c] by simp_all
  obtain "29 \<le> length salt" by (rule BF_crypt_some [OF c])
  moreover have "take 28 h ! 2 = take 28 salt ! 2" using BF_crypt_hash(3) [OF c] by simp
  ultimately have "char_at h 2 = char_at salt 2" using BF_crypt_hash(2) [OF c] by (simp add: char_at_def)
  then show "bcrypt_hashpw p h = Some h"
    using test BF_crypt_hash(1) [OF c] by (simp add: bcrypt_hashpw_def crypt_rn_def crypt_blowfish_rn_def BCRYPT_HASHSIZE_def)
qed

lemma crypt_library_sound: "sound_bcrypt (crypt_library ur)"
  using bcrypt_hashpw_some by (simp add: sound_bcrypt_def crypt_library_def)

section \<open>No password is refused\<close>

definition working_urandom :: "urandom \<Rightarrow> bool" where
  "working_urandom ur \<longleftrightarrow>
     ur_open ur \<and> (\<exists>bs. try_read (ur_reads ur) RANDBYTES = Some (Some bs)) \<and> try_close (ur_closes ur) = Some True"

lemma try_read_length: "try_read rs n = Some (Some bs) \<Longrightarrow> length bs = n"
proof (induction rs n arbitrary: bs rule: try_read.induct)
  case (5 as rs n)
  from "5.prems" obtain cs where "as \<noteq> []" "try_read rs (Suc n - length as) = Some (Some cs)" "bs = take (Suc n) as @ cs"
    by (auto split: if_splits)
  then show ?case using "5.IH" [of cs] by simp
qed simp_all

lemma gensalt_setting:
  assumes "length input = 16"
  shows "\<exists>salt. crypt_gensalt_rn ''$2a$'' 4 (Some input) BCRYPT_HASHSIZE = Some salt \<and> valid_setting salt \<and> setting_cost salt = 4 \<and>
    char_at salt 2 = CHR ''a'' \<and> take 7 salt = ''$2a$04$'' \<and> CHR 0x00 \<notin> set salt \<and> BF_decode (drop 7 salt) 16 = Some input"
proof -
  have digits: "decimal_digit 0 = CHR ''0''" "decimal_digit 4 = CHR ''4''" by code_simp+
  let ?salt = "''$2a$04$'' @ BF_encode input"
  have "valid_setting ?salt" "setting_cost ?salt = 4" "char_at ?salt 2 = CHR ''a''"
    by (simp_all add: valid_setting_def setting_cost_def char_at_def subtype_flags_def flags_by_subtype_def)
  moreover have "BF_decode (drop 7 ?salt) 16 = Some input" using BF_decode_encode [of input "[]"] assms by force
  moreover have "crypt_gensalt_rn ''$2a$'' 4 (Some input) BCRYPT_HASHSIZE = Some ?salt"
    using assms by (simp add: crypt_gensalt_rn_def crypt_gensalt_blowfish_rn_def BCRYPT_HASHSIZE_def char_at_def digits)
  ultimately show ?thesis using BF_encode_no_zero [of input] by auto
qed

lemma bcrypt_hashpw_defined:
  assumes "valid_setting salt" and "4 \<le> setting_cost salt" and "char_at salt 2 = CHR ''a''" and "BF_decode (drop 7 salt) 16 = Some input"
  shows "\<exists>h. bcrypt_hashpw p salt = Some h"
proof -
  have "(2 :: nat) ^ 4 \<le> 2 ^ setting_cost salt" using assms(2) by (rule power_increasing) simp
  then obtain h where "BF_crypt p salt 64 16 = Some h" using BF_crypt_defined [OF assms(1) _ _ assms(4), of 16 64 p] by auto
  then show ?thesis
    using self_test_passes by (simp add: bcrypt_hashpw_def crypt_rn_def crypt_blowfish_rn_def BCRYPT_HASHSIZE_def assms(3))
qed

lemma hash_verifies:
  assumes "working_urandom ur"
  shows "\<exists>h. make_hash (crypt_library ur) p = Inr h \<and> check_hash (crypt_library ur') p h = Inr True \<and> length h = 60 \<and> take 7 h = ''$2a$04$''"
proof -
  obtain input where read: "try_read (ur_reads ur) RANDBYTES = Some (Some input)" using assms by (auto simp: working_urandom_def)
  then have "length input = 16" using try_read_length by (fastforce simp: RANDBYTES_def)
  from gensalt_setting [OF this] obtain salt where salt: "crypt_gensalt_rn ''$2a$'' 4 (Some input) BCRYPT_HASHSIZE = Some salt"
    "valid_setting salt" "setting_cost salt = 4" "char_at salt 2 = CHR ''a''" "take 7 salt = ''$2a$04$''" "BF_decode (drop 7 salt) 16 = Some input"
    by blast
  obtain h where h: "bcrypt_hashpw (c_str p) salt = Some h" using bcrypt_hashpw_defined [OF salt(2) _ salt(4,6)] salt(3) by auto
  have "bc_gensalt (crypt_library ur) M_WORK_FACTOR = Some salt"
    using assms read salt(1) by (simp add: crypt_library_def bcrypt_gensalt_def working_urandom_def M_WORK_FACTOR_def)
  then have make: "make_hash (crypt_library ur) p = Inr h" using h by (simp add: make_hash_def crypt_library_def)
  have "take 28 h = take 28 salt" using BF_crypt_hash(3) [OF bcrypt_hashpw_some(1) [OF h]] .
  then have "take 7 (take 28 h) = take 7 (take 28 salt)" by simp
  then have "take 7 h = ''$2a$04$''" using salt(5) by simp
  moreover have "check_hash (crypt_library ur') p h = Inr True"
    using bcrypt_hashpw_some(2,3) [OF h] by (simp add: check_hash_def crypt_library_def c_str_no_zero)
  ultimately show ?thesis using make bcrypt_hashpw_some(4) [OF h] by blast
qed

section \<open>Only seventy-two bytes count\<close>

lemma check_hash_72:
  assumes "72 \<le> length (c_str p)" and "take 72 (c_str p) = take 72 (c_str q)"
  shows "check_hash (crypt_library ur) p h = check_hash (crypt_library ur) q h"
proof -
  have q: "72 \<le> length (c_str q)" using assms by (metis length_take min.absorb2 min.cobounded1)
  have "char_at (c_str p) i = char_at (c_str q) i \<and> char_at (c_str p) i \<noteq> CHR 0x00" if "i < 72" for i
  proof -
    have "c_str p ! i = c_str q ! i" using assms(2) that by (metis nth_take)
    moreover have "c_str p ! i \<noteq> CHR 0x00" using that assms(1) nth_mem [of i "c_str p"] unfolding c_str_def by (metis (mono_tags, lifting) less_le_trans set_takeWhileD)
    ultimately show ?thesis using that assms(1) q by (simp add: char_at_def)
  qed
  then have "BF_crypt (c_str p) = BF_crypt (c_str q)" using BF_crypt_72 by (intro ext) blast
  then show ?thesis by (simp add: check_hash_def crypt_library_def bcrypt_hashpw_def crypt_rn_def crypt_blowfish_rn_def)
qed

section \<open>The rest of the interface\<close>

lemma strcmp_fold:
  "fold (\<lambda>(a, b) ret. ret OR (of_char a XOR of_char b)) xs r = (0 :: 32 word) \<longleftrightarrow> r = 0 \<and> (\<forall>(a, b) \<in> set xs. a = b)"
proof (induction xs arbitrary: r)
  case Nil
  then show ?case by simp
next
  case (Cons x xs)
  have "of_char a XOR of_char b = (0 :: 32 word) \<longleftrightarrow> a = b" for a b :: char
  proof
    assume *: "of_char a XOR of_char b = (0 :: 32 word)"
    have "(of_char a :: 32 word) = (of_char a XOR of_char b) XOR of_char b" by (simp add: xor.assoc)
    then have "(of_char a :: 32 word) = of_char b" unfolding * by simp
    then have "word_of_nat (of_char a) = (word_of_nat (of_char b) :: 32 word)" by (simp only: of_nat_of_char)
    then have "(of_char a :: nat) = of_char b"
      using nat_of_char_less_256 [of a] nat_of_char_less_256 [of b] by (simp add: word_of_nat_eq_iff take_bit_nat_eq_self)
    then show "a = b" by simp
  qed simp
  then show ?case using Cons by (cases x) (auto simp: or_eq_0_iff)
qed

lemma timing_safe_strcmp_equal: "timing_safe_strcmp s t = 0 \<longleftrightarrow> s = t"
  by (auto simp: timing_safe_strcmp_def strcmp_fold list_eq_iff_zip_eq)

lemma bcrypt_checkpw_checks: "bcrypt_checkpw p h = 0 \<longleftrightarrow> bcrypt_hashpw p h = Some h"
  by (auto simp: bcrypt_checkpw_def timing_safe_strcmp_equal split: option.splits)

text \<open>A caller of \<^verbatim>\<open>crypt\<close> that compares the result with the stored hash is never fooled by a hash that cannot be used.\<close>

lemma crypt_failure_differs:
  assumes "crypt_rn key setting CRYPT_OUTPUT_SIZE = None"
  shows "\<exists>r. crypt key setting = Some r \<and> r \<noteq> setting"
  using assms by (auto simp: crypt_def crypt_retval_magic_def crypt_output_magic_def CRYPT_OUTPUT_SIZE_def char_at_def)

end
