(* ===== verification/Samples.thy ===== *)
theory Samples
  imports Server_Requests Server_Start Bcrypt
begin

text \<open>
  Concrete surroundings and states for the witnesses of the properties about the whole server: a platform whose
  numbers are printed in decimal, a machine with a stopped clock, listeners on two ports, a fresh server, and
  sessions of a user and of an unknown client.
\<close>

definition sample_ftoa :: "float_t \<Rightarrow> string" where
  "sample_ftoa f = to_string (unat f)"

definition sample_platform :: platform where
  "sample_platform =
     \<lparr>strtod = (\<lambda>s. let ds = takeWhile is_digit s in
        if ds = [] then No_Conversion else Converted (of_nat (digits_value ds)) (length ds)), can_reserve = (\<lambda>n. n < 1000)\<rparr>"

lemma sample_platform_sound: "sound_platform sample_platform"
  by (auto simp: sound_platform_def sample_platform_def Let_def length_takeWhile_le split: if_splits)

lemma sample_float_format: "float_format sample_platform sample_ftoa"
proof -
  have "strtod sample_platform (sample_ftoa f @ rest) = Converted f (length (sample_ftoa f))" if "rest = [] \<or> is_space (hd rest)" for f rest
  proof -
    have "no_digit rest" using that separated_follow by (auto simp: separated_def)
    then show ?thesis by (simp add: sample_platform_def sample_ftoa_def takeWhile_to_string)
  qed
  moreover have "(\<exists>c s. sample_ftoa f = c # s \<and> \<not> is_space c) \<and> CHR 0x00 \<notin> set (sample_ftoa f)" for f
    using to_string_Cons [of "unat f"] to_string_no_zero [of "unat f"] digit_no_space by (auto simp: sample_ftoa_def)
  ultimately show ?thesis by (simp add: float_format_def)
qed

definition sample_machine :: machine where
  "sample_machine =
     \<lparr>mc_fadd = (\<lambda>a b. a), mc_draw = (\<lambda>i n. 0), mc_now = 30, mc_to_string = sample_ftoa, mc_duration = (\<lambda>_. None),
      mc_seconds = of_int\<rparr>"

definition sample_bcrypt :: bcrypt where
  "sample_bcrypt = \<lparr>bc_gensalt = (\<lambda>_. Some ''salt''), bc_hashpw = (\<lambda>p s. Some (''salt'' @ p))\<rparr>"

definition sample_bind :: bind_server where
  "sample_bind = \<lparr>m_listeners = [(''localhost'', 9955), (''localhost'', 19955)], m_host = ''localhost'', m_ports = [9955], m_cluster_port = 19955\<rparr>"

definition sample_cluster_env :: cluster_env where
  "sample_cluster_env =
     \<lparr>ce_now = 0, ce_pick = (\<lambda>i. 0), ce_connect = (\<lambda>ss host port. Inl (SocketError ''refused'')), ce_local_port = (\<lambda>n. 9955),
      ce_bind = sample_bind\<rparr>"

lemma sample_connections: "sound_connections sample_cluster_env"
  by (simp add: sound_connections_def sample_cluster_env_def is_crash_def)

lemma sample_cluster_sound: "sound_env sample_cluster_env"
  by (simp add: sound_env_def sample_connections) (simp add: sample_cluster_env_def sample_bind_def bind_inv_def)

definition sample_env :: environment where
  "sample_env =
     \<lparr>env_machine = sample_machine, env_bcrypt = sample_bcrypt, env_listen = (\<lambda>h p. Inr ()), env_proxy = (\<lambda>d. d),
      env_cluster = sample_cluster_env\<rparr>"

definition fresh_server :: server where
  "fresh_server =
     \<lparr>srv_persist = \<lparr>ps_wal_file = None, ps_db_file = None, ps_journal_file = None, ps_fs = (\<lambda>_. None),
        ps_locked = \<lparr>m_databases = create_databases, m_wal_file = None\<rparr>\<rparr>,
      srv_counter = new_counter, srv_auth = \<lparr>m_logins = [(''vanity'', \<lparr>login_hash = ''saltvanity'', login_auth = ADMIN\<rparr>)],
        m_users_db = None, m_auth_fs = (\<lambda>_. None)\<rparr>,
      srv_pubsub = new_pubsub, srv_bind = sample_bind, srv_cluster = new_cluster, srv_terminated = False\<rparr>"

definition sample_user :: session_info where
  "sample_user = \<lparr>session_data = User_Data new_user_data, auth = USER\<rparr>"

lemma fresh_logged_in: "logged_in sample_user fresh_server new_user_data"
  by (simp add: logged_in_def server_inv_def selects_database_def wf_session_def sample_user_def fresh_server_def create_databases_def
      wf_logins_def bind_inv_def sample_bind_def new_user_data_def M_NUM_DATABASES_def)

lemma fresh_unknown: "server_inv new_session fresh_server"
  using fresh_logged_in selects_new_session bind_inv_session by (auto simp: logged_in_def server_inv_def)

lemma sample_words:
  "operation.word_of STR_SET = ''STR_SET''" "operation.word_of GET = ''GET''"
  "operation.word_of TRANSACT_BEGIN = ''TRANSACT_BEGIN''" "operation.word_of TRANSACT_DISCARD = ''TRANSACT_DISCARD''"
  by (simp_all only: operation.word_of_def) (simp_all add: OPERATION_T_STRINGS_def)

lemma sample_set_short: "length (show_request sample_ftoa (Primitive_Request (request_str_set ''k'' ''v''))) < 100"
  by (simp add: show_request_def sample_words show_str_def show_len_def to_string.simps)

lemma sample_get_short: "length (show_request sample_ftoa (General_Request (request_get ''k''))) < 100"
  by (simp add: show_request_def sample_words show_str_def show_len_def to_string.simps)

lemma sample_transact_short:
  "length (show_request sample_ftoa (Transact_Request request_transact_begin)) < 100"
  "length (show_request sample_ftoa (Transact_Request request_transact_discard)) < 100"
  by (simp_all add: show_request_def sample_words)

lemma short_fits: "length m < 100 \<Longrightarrow> fits_size m" "length m < 100 \<Longrightarrow> fits_size (m @ '' '')"
  by (simp_all add: fits_size_def SIZE_MAX_1_def)

lemmas sample_fits = short_fits(1) [OF sample_set_short] short_fits(1) [OF sample_get_short] short_fits(1) [OF sample_transact_short(1)]
  short_fits(1) [OF sample_transact_short(2)]

lemma sample_set_run:
  "\<exists>b. handle_message sample_platform sample_env 10 1 (show_request sample_ftoa (Primitive_Request (request_str_set ''k'' ''v'')))
     (sample_user, fresh_server) = (Inr (), [ok], sample_user, b)"
  using set_message [OF fresh_logged_in sample_float_format, of "[]" "''k''" "''v''" sample_env 10 1] sample_fits(1) by auto

section \<open>A server with files\<close>

lemma no_calls_same: "pre_expire_calls db = [] \<Longrightarrow> db\<lparr>pre_expire_calls := []\<rparr> = db"
  by (cases db) simp

lemma purge_nothing:
  assumes "\<forall>db \<in> set (m_databases st). m_expiry_times db = [] \<and> pre_expire_calls db = []"
  shows "purge_all now st = st"
proof -
  have "locked_deep_purge now d st = st" if "d < length (m_databases st)" for d
    using assms that by (simp add: locked_deep_purge_def deep_purge_def log_expiries_def Let_def no_calls_same)
  then have "fold (locked_deep_purge now) ds st = st" if "\<forall>d \<in> set ds. d < length (m_databases st)" for ds
    using that by (induction ds) simp_all
  then show ?thesis by (simp add: purge_all_def)
qed

lemma new_database_clean:
  "m_expiry_times (new_database i) = [] \<and> pre_expire_calls (new_database i) = [] \<and> m_index (new_database i) = i \<and> m_data (new_database i) = [] \<and>
   m_expiry_enabled (new_database i)"
  by (simp add: new_database_def)

lemma create_databases_clean:
  "settled create_databases" "wf_dbs create_databases" "length create_databases = M_NUM_DATABASES"
  "db \<in> set create_databases \<Longrightarrow> m_expiry_times db = [] \<and> pre_expire_calls db = [] \<and> fits db"
  by (auto simp: settled_def wf_dbs_def create_databases_def fits_def new_database_clean M_NUM_DATABASES_def comp_def simp del: upt_rec_numeral)

definition stored_server :: server where
  "stored_server = fresh_server\<lparr>srv_persist :=
     \<lparr>ps_wal_file = Some ''/v/wal'', ps_db_file = Some ''/v/db'', ps_journal_file = Some ''/v/j'', ps_fs = (\<lambda>_. None),
      ps_locked = \<lparr>m_databases = create_databases, m_wal_file = Some []\<rparr>\<rparr>\<rparr>"

definition sample_config :: config where
  "sample_config =
     \<lparr>cfg_journal_file = Some ''/v/j'', cfg_working_dir = Some ''/v'', cfg_lock_file = None, cfg_auth_file = None,
      cfg_wal_file = Some ''/v/wal'', cfg_db_file = Some ''/v/db'', cfg_log_file = [], cfg_host = ''localhost'',
      cfg_cluster_port = 19955, cfg_ports = [9955], cfg_log_level = level_DISABLED\<rparr>"

section \<open>A subscriber\<close>

definition subscriber :: "string list \<Rightarrow> session_info" where
  "subscriber chs = \<lparr>session_data = User_Data (new_user_data\<lparr>channels := chs, username := ''u''\<rparr>), auth = USER\<rparr>"

definition sample_net :: pubsub_net where
  "sample_net = \<lparr>net_sessions = [1 \<mapsto> subscriber [''ch'']],
     net_pubsub = \<lparr>m_subscriptions = [(''ch'', [Tcp_Client 1])], m_publish_queue = [\<lparr>pd_channel = ''ch'', pd_message = ''hi''\<rparr>]\<rparr>\<rparr>"

lemma sample_net_unpiped: "unpiped sample_net"
proof -
  let ?N0 = "\<lparr>net_sessions = [1 \<mapsto> new_session], net_pubsub = new_pubsub\<rparr>"
  let ?N1 = "\<lparr>net_sessions = [1 \<mapsto> subscriber []], net_pubsub = new_pubsub\<rparr>"
  let ?N2 = "\<lparr>net_sessions = [1 \<mapsto> subscriber [''ch'']], net_pubsub = \<lparr>m_subscriptions = [(''ch'', [Tcp_Client 1])], m_publish_queue = []\<rparr>\<rparr>"
  have "net_step False new_net [] ?N0" using connect [of new_net 1] by (simp add: new_net_def)
  then have "unpiped ?N0" by (rule unpiped.step [OF unpiped.start])
  moreover have "net_step False ?N0 [] ?N1"
    using authenticate [of ?N0 1 new_session USER _ "''u''" "subscriber []"]
    by (simp add: new_session_def session_set_auth_def update_user_data_def session_user_data_def subscriber_def new_user_data_def)
  ultimately have "unpiped ?N1" by (rule unpiped.step)
  moreover have "serve_pubsub (Tcp_Client 1) (request_subscribe ''ch'') (subscriber [], new_pubsub) =
      (Inr (ok_value serialize_size 1), subscriber [''ch''], net_pubsub ?N2)"
    by (simp add: request_subscribe_op_def op_simps bind_o_def subscriber_def session_channels_def session_user_data_def
        update_user_data_def insert_subscription_def subscribers_def new_pubsub_def uset_insert_def new_user_data_def)
  then have "net_step False ?N1 [(1, ok_value serialize_size 1)] ?N2"
    using request [of ?N1 1 "subscriber []" "request_subscribe ''ch''" "ok_value serialize_size 1" "subscriber [''ch'']"]
    by (simp add: subscriber_def)
  ultimately have "unpiped ?N2" by (rule unpiped.step)
  moreover have "net_step False ?N2 [(1, ok)] sample_net"
    using request [of ?N2 1 "subscriber [''ch'']" "request_publish ''ch'' ''hi''" ok "subscriber [''ch'']"]
    by (simp add: request_publish_op_def sample_net_def op_simps subscriber_def)
  ultimately show ?thesis by (rule unpiped.step)
qed

text \<open>A random device whose reads are interrupted and come in parts.\<close>

definition sample_urandom :: urandom where
  "sample_urandom =
     \<lparr>ur_open = True, ur_reads = [Read_Interrupted, Read_Bytes [1, 2, 3, 4, 5, 6, 7], Read_Bytes [11, 12, 13, 14, 15, 16, 17, 18, 19]],
      ur_closes = [Close_Interrupted, Closed]\<rparr>"

lemma sample_urandom_works: "working_urandom sample_urandom"
  by (simp add: working_urandom_def sample_urandom_def RANDBYTES_def eval_nat_numeral)

end
