(* ===== verification/Event_Server.thy ===== *)
theory Event_Server
  imports Prelude "HOL-Library.Multiset"
begin

text \<open>
  The threads of the server: \<^verbatim>\<open>utils/queue.h\<close>, \<^verbatim>\<open>utils/event.h\<close>, \<^verbatim>\<open>event_server.cpp\<close>,
  \<^verbatim>\<open>poll_server.cpp\<close> and the order of \<^verbatim>\<open>Server::stop\<close>. Four threads take events from one
  queue; a thread that waits on the epoll pushes \<^verbatim>\<open>epoll_ready\<close> and waits until it has been
  handled; the thread that repeats events, the signal handler and the handlers push more. A state
  holds the queue and where each thread is, a step is what one thread does between two points where
  another can come in (the mutex of the queue makes a call of it one step). What a handler does to
  the rest of the server is modelled elsewhere; here it may push the events that requests push.

  The four loops end once a terminating event is in, in a bounded number of steps whatever the order
  of the threads, and every event pushed before it is handled first. The shutdown as a whole need
  not end: a thread may wait for an event nobody is left to handle.
\<close>

section \<open>Queue and flag\<close>

definition queue_get :: "'a list \<Rightarrow> ('a \<times> 'a list) option" where
  "queue_get q = (case q of [] \<Rightarrow> None | x # q' \<Rightarrow> Some (x, q'))"

definition queue_push :: "'a \<Rightarrow> 'a list \<Rightarrow> 'a list" where
  "queue_push x q = q @ [x]"

definition queue_clear :: "'a list \<Rightarrow> 'a list" where
  "queue_clear q = []"

text \<open>The laws of a queue that is shared by threads: what is taken is what was pushed, in the order of the
  pushes.\<close>

locale fifo =
  fixes get :: "'q \<Rightarrow> ('a \<times> 'q) option" and push :: "'a \<Rightarrow> 'q \<Rightarrow> 'q" and elements :: "'q \<Rightarrow> 'a list"
  assumes get_None: "get q = None \<longleftrightarrow> elements q = []"
    and get_Some: "get q = Some (x, q') \<Longrightarrow> elements q = x # elements q'"
    and elements_push: "elements (push x q) = elements q @ [x]"
begin

lemma history:
  assumes "before = taken @ elements q"
  shows "get q = Some (x, q') \<Longrightarrow> before = (taken @ [x]) @ elements q'"
    and "before @ [y] = taken @ elements (push y q)"
  using assms by (auto simp: elements_push dest: get_Some)

lemma not_blocked: "x \<in> set (elements q) \<Longrightarrow> \<exists>y q'. get q = Some (y, q')"
  using get_None [of q] by (cases "get q") auto

end

interpretation queue: fifo queue_get queue_push "\<lambda>q. q"
  by unfold_locales (auto simp: queue_get_def queue_push_def split: list.splits)

text \<open>A step relation with a measure that every step lowers: its runs are bounded, and end in a state from which it cannot go on.\<close>

locale bounded_runs =
  fixes run :: "'s \<Rightarrow> 's \<Rightarrow> bool" and work :: "'s \<Rightarrow> nat"
  assumes work_decreases: "run s t \<Longrightarrow> work t < work s"
begin

lemma bounded: "(run ^^ n) s t \<Longrightarrow> n + work t \<le> work s"
proof (induction n arbitrary: t)
  case (Suc n)
  then obtain u where "(run ^^ n) s u" "run u t" by auto
  with Suc.IH work_decreases show ?case by fastforce
qed simp

lemma ends: "\<exists>t. run\<^sup>*\<^sup>* s t \<and> (\<nexists>u. run t u)"
proof (induction "work s" arbitrary: s rule: less_induct)
  case less
  show ?case
  proof (cases "\<exists>u. run s u")
    case True
    then obtain u where u: "run s u" by blast
    from less [OF work_decreases [OF u]] u show ?thesis by (meson converse_rtranclp_into_rtranclp)
  qed blast
qed

end

section \<open>Threads\<close>

datatype server_event = epoll_ready_event | persist_event | terminate_event | expire_event | publish_event | pulse_event

definition M_THREADS :: nat where
  "M_THREADS = 4"

text \<open>A thread of \<^verbatim>\<open>EventServer::run\<close> waits for an event, handles one, has taken the terminating event and
  is to push it again, or has returned.\<close>

datatype worker = Looping | Handling server_event | Leaving | Returned

text \<open>The thread of \<^verbatim>\<open>PollServer::poll\<close>: in \<^verbatim>\<open>epoll_wait\<close>, about to push, in \<^verbatim>\<open>m_polled.wait()\<close>, about to
  clear the flag, ended.\<close>

datatype poller = Polling | Poll_Ready | Poll_Waiting | Poll_Clearing | Poll_Ended

text \<open>The main thread runs one of the four loops, then joins the others and stops the parts one after the other.\<close>

datatype main_phase = In_Loops | Queue_Cleared | Repeat_Stopped | Persisted | Clients_Removed | Poll_Joining | Stopped

record event_system =
  m_event_queue :: "server_event list"
  workers :: "worker list"
  poll_thread :: poller
  m_polled :: bool
  m_running :: bool
  repeating :: bool
  main_thread :: main_phase
  pushed :: "server_event list"
  taken :: "server_event list"
  handled :: "server_event list"

text \<open>\<^const>\<open>pushed\<close>, \<^const>\<open>taken\<close> and \<^const>\<open>handled\<close> record what has gone through the queue since the start; no step
  depends on them.\<close>

definition started :: event_system where
  "started =
     \<lparr>m_event_queue = [], workers = replicate M_THREADS Looping, poll_thread = Polling, m_polled = False, m_running = True,
      repeating = True, main_thread = In_Loops, pushed = [], taken = [], handled = []\<rparr>"

definition push_event :: "server_event \<Rightarrow> event_system \<Rightarrow> event_system" where
  "push_event e s = s\<lparr>m_event_queue := queue_push e (m_event_queue s), pushed := pushed s @ [e]\<rparr>"

text \<open>What a thread does with the event it has taken.\<close>

definition take_up :: "server_event \<Rightarrow> worker" where
  "take_up e = (if e = terminate_event then Leaving else Handling e)"

definition set_worker :: "nat \<Rightarrow> worker \<Rightarrow> event_system \<Rightarrow> event_system" where
  "set_worker i w s = s\<lparr>workers := (workers s)[i := w]\<rparr>"

text \<open>One turn of one of the four loops: \<^verbatim>\<open>EventServer::event_loop\<close>.\<close>

inductive loop_step :: "event_system \<Rightarrow> event_system \<Rightarrow> bool" where
  take_event: "\<lbrakk>i < length (workers s); workers s ! i = Looping; queue_get (m_event_queue s) = Some (e, q)\<rbrakk> \<Longrightarrow>
    loop_step s (set_worker i (take_up e) (s\<lparr>m_event_queue := q, taken := taken s @ [e]\<rparr>))"
| event_handled: "\<lbrakk>i < length (workers s); workers s ! i = Handling e\<rbrakk> \<Longrightarrow>
    loop_step s (set_worker i Looping (s\<lparr>m_polled := m_polled s \<or> e = epoll_ready_event, handled := handled s @ [e]\<rparr>))"
| leave_loop: "\<lbrakk>i < length (workers s); workers s ! i = Leaving\<rbrakk> \<Longrightarrow>
    loop_step s (set_worker i Returned (push_event terminate_event s))"

text \<open>All threads. A request that is handled may publish, or terminate the server; a signal may terminate it at any
  time.\<close>

inductive server_step :: "event_system \<Rightarrow> event_system \<Rightarrow> bool" where
  turn: "loop_step s s' \<Longrightarrow> server_step s s'"
| request_pushes: "\<lbrakk>i < length (workers s); workers s ! i = Handling epoll_ready_event; e \<in> {publish_event, terminate_event}\<rbrakk> \<Longrightarrow>
    server_step s (push_event e s)"
| signalled: "server_step s (push_event terminate_event s)"
| repeat_pushes: "\<lbrakk>repeating s; e \<in> {persist_event, expire_event, pulse_event}\<rbrakk> \<Longrightarrow> server_step s (push_event e s)"
| poll_over: "\<lbrakk>poll_thread s = Polling; \<not> m_running s\<rbrakk> \<Longrightarrow> server_step s (s\<lparr>poll_thread := Poll_Ended\<rparr>)"
| poll_finds: "poll_thread s = Polling \<Longrightarrow> server_step s (s\<lparr>poll_thread := Poll_Ready\<rparr>)"
| poll_pushes: "poll_thread s = Poll_Ready \<Longrightarrow> server_step s (push_event epoll_ready_event (s\<lparr>poll_thread := Poll_Waiting\<rparr>))"
| poll_woken: "\<lbrakk>poll_thread s = Poll_Waiting; m_polled s\<rbrakk> \<Longrightarrow> server_step s (s\<lparr>poll_thread := Poll_Clearing\<rparr>)"
| poll_clears: "poll_thread s = Poll_Clearing \<Longrightarrow> server_step s (s\<lparr>poll_thread := Polling, m_polled := False\<rparr>)"
| loops_joined: "\<lbrakk>main_thread s = In_Loops; list_all ((=) Returned) (workers s)\<rbrakk> \<Longrightarrow>
    server_step s (s\<lparr>main_thread := Queue_Cleared, m_event_queue := queue_clear (m_event_queue s)\<rparr>)"
| stop_repeat: "main_thread s = Queue_Cleared \<Longrightarrow> server_step s (s\<lparr>main_thread := Repeat_Stopped, repeating := False\<rparr>)"
| stop_persist: "main_thread s = Repeat_Stopped \<Longrightarrow> server_step s (s\<lparr>main_thread := Persisted\<rparr>)"
| stop_clients: "main_thread s = Persisted \<Longrightarrow> server_step s (s\<lparr>main_thread := Clients_Removed\<rparr>)"
| stop_poll: "main_thread s = Clients_Removed \<Longrightarrow> server_step s (s\<lparr>main_thread := Poll_Joining, m_running := False\<rparr>)"
| poll_joined: "\<lbrakk>main_thread s = Poll_Joining; poll_thread s = Poll_Ended\<rbrakk> \<Longrightarrow> server_step s (s\<lparr>main_thread := Stopped\<rparr>)"

inductive_cases loop_stepE: "loop_step s s'"
inductive_cases server_stepE: "server_step s s'"

lemmas step_defs = set_worker_def push_event_def take_up_def

section \<open>Every event before the terminating one is handled\<close>

text \<open>While the loops run, the queue has kept all that was pushed, and a terminating event that was taken comes back.\<close>

definition terminating :: "event_system \<Rightarrow> bool" where
  "terminating s \<longleftrightarrow> terminate_event \<in> set (m_event_queue s) \<or> Leaving \<in> set (workers s)"

primrec in_hand :: "worker \<Rightarrow> server_event list" where
  "in_hand Looping = []"
| "in_hand (Handling e) = [e]"
| "in_hand Leaving = []"
| "in_hand Returned = []"

definition loops_inv :: "event_system \<Rightarrow> bool" where
  "loops_inv s \<longleftrightarrow>
     length (workers s) = M_THREADS \<and>
     (\<exists>r. pushed s = taken s @ r \<and> (main_thread s = In_Loops \<longrightarrow> r = m_event_queue s)) \<and>
     (main_thread s \<noteq> In_Loops \<longrightarrow> list_all ((=) Returned) (workers s)) \<and>
     (\<forall>w \<in> set (workers s). w \<in> {Leaving, Returned} \<longrightarrow> terminate_event \<in> set (taken s)) \<and>
     mset (filter ((\<noteq>) terminate_event) (taken s)) = mset (handled s) + mset (concat (map in_hand (workers s)))"

lemma mset_in_hand:
  "i < length ws \<Longrightarrow>
    mset (concat (map in_hand (ws[i := w]))) + mset (in_hand (ws ! i)) = mset (concat (map in_hand ws)) + mset (in_hand w)"
proof (induction ws arbitrary: i)
  case (Cons v ws)
  then show ?case by (cases i) (simp_all add: ac_simps)
qed simp

lemma in_update: "w \<in> set (ws[i := v]) \<Longrightarrow> w = v \<or> w \<in> set ws"
  using set_update_subset_insert [of ws i v] by blast

lemma loops_inv_live:
  "\<lbrakk>loops_inv s; i < length (workers s); workers s ! i \<noteq> Returned\<rbrakk> \<Longrightarrow> main_thread s = In_Loops"
  by (auto simp: loops_inv_def list_all_length)

lemma loops_inv_started: "loops_inv started"
  by (simp add: loops_inv_def started_def M_THREADS_def numeral_eq_Suc)

lemma loops_inv_push: "loops_inv s \<Longrightarrow> loops_inv (push_event e s)"
  by (auto simp: loops_inv_def push_event_def queue_push_def)

lemma loops_inv_turn:
  assumes "loop_step s s'" and "loops_inv s"
  shows "loops_inv s'"
  using assms(1)
proof cases
  case (take_event i e q)
  note main = loops_inv_live [OF assms(2) take_event(2)] and hand = mset_in_hand [OF take_event(2), of "take_up e"]
  from queue.get_Some [OF take_event(4)] show ?thesis using assms(2) take_event(1,3) main hand
    by (auto simp: loops_inv_def step_defs dest!: in_update)
next
  case (event_handled i e)
  note main = loops_inv_live [OF assms(2) event_handled(2)] and hand = mset_in_hand [OF event_handled(2), of Looping]
  from assms(2) event_handled(1,3) main hand show ?thesis
    by (auto simp: loops_inv_def step_defs dest!: in_update)
next
  case (leave_loop i)
  note main = loops_inv_live [OF assms(2) leave_loop(2)] and hand = mset_in_hand [OF leave_loop(2), of Returned]
  have "Leaving \<in> set (workers s)" using leave_loop by (metis nth_mem)
  with assms(2) leave_loop(1,3) main hand show ?thesis
    by (auto simp: loops_inv_def step_defs queue_push_def dest!: in_update)
qed

lemma loops_inv_step:
  assumes "server_step s s'" and "loops_inv s"
  shows "loops_inv s'"
  using assms
  by (cases rule: server_step.cases) (auto simp: loops_inv_push intro: loops_inv_turn, auto simp: loops_inv_def push_event_def queue_push_def)

definition reachable :: "event_system \<Rightarrow> bool" where
  "reachable s \<longleftrightarrow> server_step\<^sup>*\<^sup>* started s"

lemma reachable_started [simp]: "reachable started"
  by (simp add: reachable_def)

lemma reachable_step: "\<lbrakk>reachable s; server_step s s'\<rbrakk> \<Longrightarrow> reachable s'"
  by (simp add: reachable_def)

lemma reachable_inv: "reachable s \<Longrightarrow> loops_inv s"
  unfolding reachable_def by (induction rule: rtranclp_induct) (auto simp: loops_inv_started intro: loops_inv_step)

lemma takeWhile_prefix: "x \<in> set xs \<Longrightarrow> takeWhile ((\<noteq>) x) (xs @ ys) = takeWhile ((\<noteq>) x) xs"
  by (rule takeWhile_append1) auto

lemma stop_after_events:
  assumes "reachable s" and "main_thread s \<noteq> In_Loops"
  shows "list_all ((=) Returned) (workers s)"
    and "takeWhile ((\<noteq>) terminate_event) (pushed s) = takeWhile ((\<noteq>) terminate_event) (taken s)"
    and "mset (filter ((\<noteq>) terminate_event) (taken s)) = mset (handled s)"
proof -
  from reachable_inv [OF assms(1)] assms(2) show returned: "list_all ((=) Returned) (workers s)" by (simp add: loops_inv_def)
  from reachable_inv [OF assms(1)] have "workers s \<noteq> []" by (auto simp: loops_inv_def M_THREADS_def)
  with returned have "Returned \<in> set (workers s)" by (cases "workers s") auto
  with reachable_inv [OF assms(1)] have "terminate_event \<in> set (taken s)" by (auto simp: loops_inv_def)
  with reachable_inv [OF assms(1)]
  show "takeWhile ((\<noteq>) terminate_event) (pushed s) = takeWhile ((\<noteq>) terminate_event) (taken s)"
    by (auto simp: loops_inv_def takeWhile_prefix)
  have "concat (map in_hand (workers s)) = []" using returned by (auto simp: list_all_iff)
  with reachable_inv [OF assms(1)] show "mset (filter ((\<noteq>) terminate_event) (taken s)) = mset (handled s)"
    by (simp add: loops_inv_def)
qed

section \<open>The four loops end\<close>

text \<open>How many turns are left: an event in the queue is taken and handled, a terminating one is taken and pushed again
  once per thread.\<close>

primrec turns_left :: "worker \<Rightarrow> nat" where
  "turns_left Looping = 2"
| "turns_left (Handling e) = 3"
| "turns_left Leaving = 3"
| "turns_left Returned = 0"

definition loop_work :: "event_system \<Rightarrow> nat" where
  "loop_work s = sum_list (map turns_left (workers s)) + 2 * length (m_event_queue s)"

lemma turns_left_update:
  "i < length ws \<Longrightarrow> sum_list (map turns_left (ws[i := w])) + turns_left (ws ! i) = sum_list (map turns_left ws) + turns_left w"
proof (induction ws arbitrary: i)
  case (Cons v ws)
  then show ?case by (cases i) simp_all
qed simp

lemma loop_step_work: "loop_step s s' \<Longrightarrow> loop_work s' < loop_work s"
proof (induction rule: loop_step.induct)
  case (take_event i s e q)
  with turns_left_update [of i "workers s" "take_up e"] show ?case
    by (auto simp: loop_work_def step_defs queue_get_def split: list.splits if_splits)
next
  case (event_handled i s e)
  with turns_left_update [of i "workers s" Looping] show ?case by (simp add: loop_work_def step_defs)
next
  case (leave_loop i s)
  with turns_left_update [of i "workers s" Returned] show ?case by (simp add: loop_work_def step_defs queue_push_def)
qed

interpretation loop_threads: bounded_runs loop_step loop_work
  by unfold_locales (rule loop_step_work)

lemma terminating_turn:
  assumes "loop_step s s'" and "terminating s"
  shows "terminating s'"
  using assms
proof cases
  case (take_event i e q)
  then show ?thesis using assms(2) queue.get_Some [OF take_event(4)]
    by (auto simp: terminating_def step_defs set_update_memI in_set_conv_nth nth_list_update) (metis nth_list_update worker.distinct)+
next
  case (event_handled i e)
  then show ?thesis using assms(2)
    by (auto simp: terminating_def step_defs in_set_conv_nth) (metis length_list_update nth_list_update_neq worker.distinct)
next
  case (leave_loop i)
  then show ?thesis by (simp add: terminating_def step_defs queue_push_def)
qed

lemma loops_stuck:
  assumes "terminating s" and "\<nexists>s'. loop_step s s'"
  shows "list_all ((=) Returned) (workers s)"
proof (rule ccontr)
  assume "\<not> ?thesis"
  then obtain i where i: "i < length (workers s)" "workers s ! i \<noteq> Returned" by (auto simp: list_all_length)
  have no_leaving: "Leaving \<notin> set (workers s)" using assms(2) leave_loop by (auto simp: in_set_conv_nth)
  with assms(1) obtain e q where "queue_get (m_event_queue s) = Some (e, q)"
    using queue.not_blocked [of terminate_event "m_event_queue s"] by (auto simp: terminating_def)
  with i no_leaving assms(2) show False
    by (cases "workers s ! i") (auto intro: take_event event_handled dest: nth_mem)
qed

lemma loops_end:
  assumes "terminating s" and "(loop_step ^^ n) s s'"
  shows "n \<le> loop_work s" and "(\<exists>t. loop_step s' t) \<or> list_all ((=) Returned) (workers s')"
proof -
  from loop_threads.bounded [OF assms(2)] show "n \<le> loop_work s" by simp
  from assms(2) have "terminating s'"
  proof (induction n arbitrary: s')
    case (Suc n)
    then show ?case by (auto intro: terminating_turn)
  qed (use assms(1) in simp)
  with loops_stuck show "(\<exists>t. loop_step s' t) \<or> list_all ((=) Returned) (workers s')" by blast
qed

section \<open>The shutdown may hang\<close>

text \<open>Once the loops have returned nobody handles \<^verbatim>\<open>epoll_ready\<close> any more, but the polling thread still pushes it
  when a listener or a connection is ready, and waits to be told; \<^verbatim>\<open>PollServer::stop\<close> waits for that thread.\<close>

definition hung :: "event_system \<Rightarrow> bool" where
  "hung s \<longleftrightarrow> list_all ((=) Returned) (workers s) \<and> poll_thread s = Poll_Waiting \<and> \<not> m_polled s \<and> main_thread s \<noteq> Stopped"

lemma hung_turn: "loop_step s s' \<Longrightarrow> hung s \<Longrightarrow> hung s'"
  by (induction rule: loop_step.induct) (auto simp: hung_def list_all_length)

lemma hung_step: "server_step s s' \<Longrightarrow> hung s \<Longrightarrow> hung s'"
  by (induction rule: server_step.induct) (auto simp: hung_turn, auto simp: hung_def push_event_def)

lemma hung_forever: "\<lbrakk>server_step\<^sup>*\<^sup>* s s'; hung s\<rbrakk> \<Longrightarrow> hung s'"
  by (induction rule: rtranclp_induct) (auto intro: hung_step)

text \<open>One loop takes the terminating event and gives it back.\<close>

lemma one_leaves:
  assumes "reachable s" and "m_event_queue s = [terminate_event]" and "i < length (workers s)" and "workers s ! i = Looping"
  shows "\<exists>s'. reachable s' \<and> m_event_queue s' = [terminate_event] \<and> workers s' = (workers s)[i := Returned] \<and>
    poll_thread s' = poll_thread s \<and> m_polled s' = m_polled s \<and> main_thread s' = main_thread s"
proof -
  let ?t = "set_worker i Leaving (s\<lparr>m_event_queue := [], taken := taken s @ [terminate_event]\<rparr>)"
  have "loop_step s ?t" using take_event [of i s terminate_event "[]"] assms by (simp add: queue_get_def take_up_def)
  then have t: "reachable ?t" by (blast intro: reachable_step [OF assms(1)] turn)
  have "loop_step ?t (set_worker i Returned (push_event terminate_event ?t))"
    by (rule leave_loop) (use assms(3) in \<open>simp_all add: set_worker_def\<close>)
  from reachable_step [OF t turn [OF this]] show ?thesis
    by (intro exI) (auto simp: step_defs queue_push_def)
qed

lemma all_leave:
  assumes "reachable s" and "m_event_queue s = [terminate_event]" and "workers s = replicate k Returned @ replicate m Looping"
    and "poll_thread s = Polling" and "\<not> m_polled s" and "main_thread s = In_Loops"
  shows "\<exists>s'. reachable s' \<and> workers s' = replicate (k + m) Returned \<and> poll_thread s' = Polling \<and> \<not> m_polled s' \<and>
    main_thread s' = In_Loops"
  using assms
proof (induction m arbitrary: k s)
  case (Suc m)
  from one_leaves [OF Suc.prems(1,2), of k] Suc.prems(3) obtain s' where s': "reachable s'" "m_event_queue s' = [terminate_event]"
    "workers s' = replicate (Suc k) Returned @ replicate m Looping"
    "poll_thread s' = poll_thread s" "m_polled s' = m_polled s" "main_thread s' = main_thread s"
    by (auto simp: nth_append list_update_append replicate_append_same)
  from Suc.IH [OF s'(1,2,3)] Suc.prems(4-6) s'(4-6) show ?case by simp
qed auto

lemma loops_returned_reachable:
  "\<exists>s. reachable s \<and> list_all ((=) Returned) (workers s) \<and> poll_thread s = Polling \<and> \<not> m_polled s \<and> main_thread s = In_Loops"
proof -
  let ?s = "push_event terminate_event started"
  have "reachable ?s" by (rule reachable_step [OF reachable_started signalled])
  from all_leave [OF this, of 0 M_THREADS] show ?thesis
    by (auto simp: push_event_def started_def queue_push_def list_all_iff)
qed

lemma hung_reachable: "\<exists>s. reachable s \<and> hung s"
proof -
  obtain s where s: "reachable s" "list_all ((=) Returned) (workers s)" "poll_thread s = Polling" "\<not> m_polled s" "main_thread s = In_Loops"
    using loops_returned_reachable by blast
  have "reachable (s\<lparr>poll_thread := Poll_Ready\<rparr>)" by (rule reachable_step [OF s(1) poll_finds [OF s(3)]])
  from reachable_step [OF this poll_pushes] s(2,4,5) show ?thesis
    by (auto simp: hung_def push_event_def)
qed

end
