(* ===== verification/Repeat_Events.thy ===== *)
theory Repeat_Events
  imports Event_Server Peer_Eviction
begin

text \<open>
  Events that are pushed again and again: \<^verbatim>\<open>repeat_event_server.cpp\<close>, with the intervals the persistent, the
  expiry and the pulse server register. The loop never ends by itself; a run is the list of its turns,
  each with the reading of the clock and the answer of \<^verbatim>\<open>m_stopped.wait\<close> for the time it is asked to wait.
  Times are in nanoseconds, as the steady clock counts them, intervals in microseconds.

  What the loop needs of \<^verbatim>\<open>std::priority_queue\<close> is a locale; which of several entries that are due at the
  same time is on top is left open there, as in the standard. However late the turns are, an event is pushed for
  every multiple of its interval since the start, and none is starved by another.
\<close>

section \<open>Priority queue\<close>

locale priority_queue =
  fixes top :: "'q \<Rightarrow> 'a" and pop :: "'q \<Rightarrow> 'q" and push :: "'a \<Rightarrow> 'q \<Rightarrow> 'q" and elements :: "'q \<Rightarrow> 'a multiset"
    and key :: "'a \<Rightarrow> int"
  assumes top_in: "elements q \<noteq> {#} \<Longrightarrow> top q \<in># elements q"
    and top_min: "x \<in># elements q \<Longrightarrow> key (top q) \<le> key x"
    and elements_pop: "elements q \<noteq> {#} \<Longrightarrow> elements (pop q) = elements q - {#top q#}"
    and elements_push: "elements (push x q) = add_mset x (elements q)"
begin

lemma advance:
  assumes "elements q = add_mset x M" and "top q = x"
  shows "elements (push y (pop q)) = add_mset y M"
  using assms by (simp add: elements_pop elements_push)

lemma advance_later:
  assumes "elements q \<noteq> {#}" and "key (top q) \<le> key y" and "x \<in># elements (push y (pop q))"
  shows "key (top q) \<le> key x"
  using assms top_min [of x q] by (auto simp: elements_pop elements_push dest: in_diffD)

end

record repeated_event =
  re_next :: int
  re_interval :: int
  re_event :: server_event

text \<open>\<^verbatim>\<open>operator<\<close> puts the entry with the earliest time on top.\<close>

definition pq_top :: "repeated_event list \<Rightarrow> repeated_event" where
  "pq_top q = arg_min_list re_next q"

definition pq_pop :: "repeated_event list \<Rightarrow> repeated_event list" where
  "pq_pop q = remove1 (pq_top q) q"

definition pq_push :: "repeated_event \<Rightarrow> repeated_event list \<Rightarrow> repeated_event list" where
  "pq_push e q = e # q"

lemma pq_top_earliest: "x \<in> set q \<Longrightarrow> re_next (pq_top q) \<le> re_next x"
  by (cases "q = []") (simp_all add: pq_top_def f_arg_min_list_f)

interpretation events: priority_queue pq_top pq_pop pq_push mset re_next
  by unfold_locales (auto simp: pq_top_earliest pq_pop_def pq_push_def, simp add: pq_top_def arg_min_list_in)

lemma pq_top_in: "q \<noteq> [] \<Longrightarrow> pq_top q \<in> set q"
  using events.top_in [of q] by simp

section \<open>The loop\<close>

definition microseconds :: "int \<Rightarrow> int" where
  "microseconds n = 1000 * n"

definition entry :: "server_event \<Rightarrow> int \<Rightarrow> int \<Rightarrow> repeated_event" where
  "entry e i t = \<lparr>re_next = t, re_interval = i, re_event = e\<rparr>"

definition repeat :: "server_event \<Rightarrow> int \<Rightarrow> int \<Rightarrow> repeated_event list \<Rightarrow> repeated_event list" where
  "repeat e i now q = pq_push (entry e i (now + microseconds i)) q"

text \<open>\<^verbatim>\<open>reset_events\<close> moves all entries to a new queue.\<close>

function reset_loop :: "int \<Rightarrow> repeated_event list \<Rightarrow> repeated_event list \<Rightarrow> repeated_event list" where
  "reset_loop now q new_events =
     (if q = [] then new_events
      else reset_loop now (pq_pop q)
        (pq_push (entry (re_event (pq_top q)) (re_interval (pq_top q)) (now + microseconds (re_interval (pq_top q)))) new_events))"
  by pat_completeness auto
termination
  by (relation "measure (\<lambda>(now, q, n). length q)")
     (auto simp: pq_pop_def length_remove1 pq_top_in)

declare reset_loop.simps [simp del]

definition reset_events :: "int \<Rightarrow> repeated_event list \<Rightarrow> repeated_event list" where
  "reset_events now q = reset_loop now q []"

text \<open>The timeout \<^verbatim>\<open>m_stopped.wait\<close> is called with, in microseconds.\<close>

definition sleep_time :: "int \<Rightarrow> repeated_event \<Rightarrow> int" where
  "sleep_time now e = max 0 (re_next e - now) div 1000"

type_synonym turn = "int \<times> (int \<Rightarrow> bool)"

text \<open>What is pushed, with the time it was due, and the queue that is left.\<close>

primrec repeat_turns :: "turn list \<Rightarrow> repeated_event list \<Rightarrow> repeated_event list \<times> repeated_event list" where
  "repeat_turns [] q = ([], q)"
| "repeat_turns (t # ts) q =
     (let e = pq_top q; q = pq_pop q in
      if snd t (sleep_time (fst t) e) then ([], q)
      else (case repeat_turns ts (pq_push (entry (re_event e) (re_interval e) (re_next e + microseconds (re_interval e))) q) of
              (log, q) \<Rightarrow> (e # log, q)))"

definition repeat_loop :: "int \<Rightarrow> turn list \<Rightarrow> repeated_event list \<Rightarrow> repeated_event list \<times> repeated_event list" where
  "repeat_loop now ts q = (if q = [] then ([], q) else repeat_turns ts (reset_events now q))"

text \<open>The events of the server; the databases are persisted only when there is a file for them.\<close>

definition M_PERSIST_INTERVAL :: int where
  "M_PERSIST_INTERVAL = 10 * 60 * 1000 * 1000"

definition M_EXPIRE_INTERVAL :: int where
  "M_EXPIRE_INTERVAL = 10 * 1000 * 1000"

definition register_events :: "bool \<Rightarrow> int \<Rightarrow> repeated_event list" where
  "register_events has_db_file now =
     repeat pulse_event (M_PULSE_INTERVAL div 1000) now
       (repeat expire_event M_EXPIRE_INTERVAL now
         (if has_db_file then repeat persist_event M_PERSIST_INTERVAL now [] else []))"

lemma not_early: "re_next e - 1000 < now + microseconds (sleep_time now e)"
  using pos_mod_bound [of 1000 "re_next e - now"]
  by (simp add: sleep_time_def microseconds_def max_def minus_mod_eq_mult_div [symmetric])

lemma reset_events_mset:
  "mset (reset_events now q) = mset (map (\<lambda>e. entry (re_event e) (re_interval e) (now + microseconds (re_interval e))) q)"
proof -
  have "mset (reset_loop now q new) =
    mset (map (\<lambda>e. entry (re_event e) (re_interval e) (now + microseconds (re_interval e))) q) + mset new" for new
  proof (induction now q new rule: reset_loop.induct)
    case (1 now q new)
    then show ?case
      by (subst reset_loop.simps)
         (auto simp: pq_pop_def pq_push_def image_mset_Diff pq_top_in)
  qed
  then show ?thesis by (simp add: reset_events_def)
qed

section \<open>The schedule\<close>

text \<open>The events with their intervals that were registered; an event is registered once.\<close>

type_synonym registered = "(server_event \<times> int) list"

definition pushes :: "server_event \<Rightarrow> repeated_event list \<Rightarrow> repeated_event list" where
  "pushes e log = filter (\<lambda>x. re_event x = e) log"

definition due_at :: "int \<Rightarrow> int \<Rightarrow> nat \<Rightarrow> int" where
  "due_at t0 i k = t0 + microseconds i * int k"

definition next_entry :: "int \<Rightarrow> repeated_event list \<Rightarrow> server_event \<times> int \<Rightarrow> repeated_event" where
  "next_entry t0 log = (\<lambda>(e, i). entry e i (due_at t0 i (Suc (length (pushes e log)))))"

definition on_schedule :: "int \<Rightarrow> registered \<Rightarrow> repeated_event list \<Rightarrow> repeated_event list \<Rightarrow> bool" where
  "on_schedule t0 regs log q \<longleftrightarrow>
     mset q = mset (map (next_entry t0 log) regs) \<and>
     (\<forall>(e, i) \<in> set regs. map re_next (pushes e log) = map (due_at t0 i) [1..<Suc (length (pushes e log))]) \<and>
     (\<forall>x \<in> set log. \<forall>y \<in> set q. re_next x \<le> re_next y) \<and> sorted (map re_next log)"

lemma pushes_snoc: "pushes e (log @ [x]) = pushes e log @ (if re_event x = e then [x] else [])"
  by (simp add: pushes_def)

lemma turn_on_schedule:
  assumes "on_schedule t0 regs log q" and "regs \<noteq> []" and "distinct (map fst regs)" and "\<forall>(e, i) \<in> set regs. 0 \<le> i"
    and "x = pq_top q" and "q' = pq_push (entry (re_event x) (re_interval x) (re_next x + microseconds (re_interval x))) (pq_pop q)"
  shows "on_schedule t0 regs (log @ [x]) q'"
proof -
  let ?y = "entry (re_event x) (re_interval x) (re_next x + microseconds (re_interval x))"
  have q: "mset q = mset (map (next_entry t0 log) regs)" using assms(1) by (simp add: on_schedule_def)
  with assms(2) have ne: "mset q \<noteq> {#}" by auto
  from events.top_in [OF ne] q assms(5) obtain e i where ei: "(e, i) \<in> set regs" "x = next_entry t0 log (e, i)" by auto
  from ei(1) obtain as bs where regs: "regs = as @ (e, i) # bs" by (auto dest: split_list)
  from assms(3) have others: "e \<notin> fst ` set as" "e \<notin> fst ` set bs" by (simp_all add: regs)
  have ex: "re_event x = e" "re_interval x = i" and x: "re_next x = due_at t0 i (Suc (length (pushes e log)))"
    by (simp_all add: ei(2) next_entry_def entry_def)
  have same: "next_entry t0 (log @ [x]) r = next_entry t0 log r" if "fst r \<noteq> e" for r
    using that ex by (auto simp: next_entry_def pushes_snoc split: prod.splits)
  have y: "next_entry t0 (log @ [x]) (e, i) = ?y"
    using ex x by (simp add: next_entry_def pushes_snoc due_at_def algebra_simps)
  have "map (next_entry t0 (log @ [x])) regs = map (next_entry t0 log) as @ ?y # map (next_entry t0 log) bs"
    using others y by (simp add: regs) (auto intro!: same)
  moreover have "mset q' = add_mset ?y (mset (map (next_entry t0 log) as) + mset (map (next_entry t0 log) bs))"
    unfolding assms(6) by (rule events.advance) (simp_all add: q regs ei(2) [symmetric] assms(5))
  ultimately have entries: "mset q' = mset (map (next_entry t0 (log @ [x])) regs)" by simp
  have "0 \<le> i" using assms(4) ei(1) by auto
  then have later: "re_next x \<le> re_next z" if "z \<in> set q'" for z
    using events.advance_later [OF ne, of ?y z] that unfolding assms(6) by (simp add: assms(5) entry_def microseconds_def ex [unfolded assms(5)])
  have times: "map re_next (pushes a (log @ [x])) = map (due_at t0 j) [1..<Suc (length (pushes a (log @ [x])))]"
    if "(a, j) \<in> set regs" for a j
  proof -
    have "map re_next (pushes a log) = map (due_at t0 j) [1..<Suc (length (pushes a log))]"
      using assms(1) that by (auto simp: on_schedule_def)
    moreover have "j = i" if "a = e" using that \<open>(a, j) \<in> set regs\<close> ei(1) assms(3) by (auto dest: eq_key_imp_eq_value)
    ultimately show ?thesis using ex x by (simp add: pushes_snoc)
  qed
  have "x \<in> set q" using pq_top_in [of q] ne assms(5) by auto
  with assms(1) have past: "\<forall>z \<in> set log. re_next z \<le> re_next x" unfolding on_schedule_def by blast
  with later have "\<forall>w \<in> set (log @ [x]). \<forall>z \<in> set q'. re_next w \<le> re_next z" by (auto intro: order_trans)
  moreover have "sorted (map re_next (log @ [x]))" using assms(1) past by (simp add: on_schedule_def sorted_append)
  ultimately show ?thesis using entries times by (simp add: on_schedule_def split_def)
qed

lemma turns_on_schedule:
  assumes "on_schedule t0 regs past q" and "regs \<noteq> []" and "distinct (map fst regs)" and "\<forall>(e, i) \<in> set regs. 0 \<le> i"
    and "repeat_turns ts q = (log, q')" and "\<forall>t \<in> set ts. \<forall>n. \<not> snd t n"
  shows "on_schedule t0 regs (past @ log) q' \<and> length log = length ts"
  using assms(1,5,6)
proof (induction ts arbitrary: past q log)
  case (Cons t ts)
  let ?q = "pq_push (entry (re_event (pq_top q)) (re_interval (pq_top q)) (re_next (pq_top q) + microseconds (re_interval (pq_top q)))) (pq_pop q)"
  from Cons.prems(2,3) obtain log' where log: "log = pq_top q # log'" "repeat_turns ts ?q = (log', q')"
    by (auto simp: Let_def split: prod.splits)
  have "on_schedule t0 regs (past @ [pq_top q]) ?q" by (rule turn_on_schedule [OF Cons.prems(1) assms(2-4)]) simp_all
  from Cons.IH [OF this log(2)] Cons.prems(3) log(1) show ?case by simp
qed simp

text \<open>No event waits for another: while \<open>a\<close> is pushed \<open>n\<close> times, \<open>b\<close> is pushed for all its times but the last.\<close>

lemma on_schedule_fair:
  assumes "on_schedule t0 regs log q" and "(a, i) \<in> set regs" and "(b, j) \<in> set regs"
    and "0 \<le> j"
  shows "i * int (length (pushes a log)) \<le> j * (int (length (pushes b log)) + 1)"
proof (cases "pushes a log = []")
  case False
  let ?n = "length (pushes a log)"
  have times: "map re_next (pushes a log) = map (due_at t0 i) [1..<Suc ?n]" using assms(1,2) by (auto simp: on_schedule_def)
  from False have "0 < ?n" by simp
  then have "re_next (pushes a log ! (?n - 1)) = due_at t0 i ?n"
    using arg_cong [OF times, of "\<lambda>xs. xs ! (?n - 1)"] by (simp del: upt_Suc)
  moreover have "pushes a log ! (?n - 1) \<in> set log" using nth_mem [of "?n - 1" "pushes a log"] \<open>0 < ?n\<close> by (auto simp: pushes_def)
  moreover have "next_entry t0 log (b, j) \<in> set q"
    using assms(1,3) mset_eq_setD [of q "map (next_entry t0 log) regs"] by (simp add: on_schedule_def)
  ultimately have "due_at t0 i ?n \<le> due_at t0 j (Suc (length (pushes b log)))"
    using assms(1) by (fastforce simp: on_schedule_def next_entry_def entry_def)
  then show ?thesis by (simp add: due_at_def microseconds_def algebra_simps)
qed (use assms(4) in simp)

lemma reset_on_schedule:
  assumes "distinct (map fst regs)"
    and "mset (map (\<lambda>e. (re_event e, re_interval e)) q) = mset regs"
  shows "on_schedule t0 regs [] (reset_events t0 q)"
proof -
  have "mset (map (\<lambda>e. entry (re_event e) (re_interval e) (t0 + microseconds (re_interval e))) q) =
    image_mset (\<lambda>(e, i). entry e i (t0 + microseconds i)) (mset (map (\<lambda>e. (re_event e, re_interval e)) q))"
    by (simp add: image_mset.compositionality comp_def)
  then have "mset (reset_events t0 q) = mset (map (next_entry t0 []) regs)"
    unfolding assms(2) reset_events_mset by (simp add: next_entry_def pushes_def due_at_def)
  then show ?thesis by (simp add: on_schedule_def pushes_def split_def)
qed

definition registered_events :: "bool \<Rightarrow> registered" where
  "registered_events has_db_file =
     [(pulse_event, 10000000), (expire_event, 10000000)] @ (if has_db_file then [(persist_event, 600000000)] else [])"

lemma registered_reset: "on_schedule t0 (registered_events f) [] (reset_events t0 (register_events f now))"
  by (rule reset_on_schedule)
     (simp_all add: registered_events_def register_events_def repeat_def pq_push_def entry_def M_PULSE_INTERVAL_def
       seconds_def M_EXPIRE_INTERVAL_def M_PERSIST_INTERVAL_def)

lemma server_schedule:
  assumes "repeat_loop t0 ts (register_events f now) = (log, q)" and "\<forall>t \<in> set ts. \<forall>n. \<not> snd t n"
  shows "on_schedule t0 (registered_events f) log q" and "length log = length ts"
proof -
  have ne: "register_events f now \<noteq> []" by (simp add: register_events_def repeat_def pq_push_def)
  have regs: "registered_events f \<noteq> []" "distinct (map fst (registered_events f))" "\<forall>(e, i) \<in> set (registered_events f). 0 \<le> i"
    by (auto simp: registered_events_def)
  from turns_on_schedule [OF registered_reset regs _ assms(2), of t0 now log q] assms(1) ne
  show "on_schedule t0 (registered_events f) log q" "length log = length ts" by (simp_all add: repeat_loop_def)
qed

end
