(* ===== verification/Peer_Protocol.thy ===== *)
theory Peer_Protocol
  imports Cluster_Invariant
begin

text \<open>
  What the messages of peers do, from the text: a message that one server composes is taken apart by the other
  into the operation, the id and the arguments it was composed of, and runs the handler of that operation.
  On top of that, three ways in which the protocol of the cluster falls short: a reply is matched with
  its request by the id alone, an application outlives the client that asked for it, and an eviction that
  nobody else can vote on is never decided.
\<close>

section \<open>From the text to the handler\<close>

definition reply_head :: "int \<Rightarrow> ReplyStatus \<Rightarrow> string" where
  "reply_head i st = ''REPLY'' @ int_to_string i @ '' '' @ peer_status.word_of st"

definition post_head :: "int \<Rightarrow> peer_op_t \<Rightarrow> string" where
  "post_head i op = ''POST'' @ int_to_string i @ '' '' @ peer_op.word_of op"

lemma no_word_char_int: "no_word_char (int_to_string i @ rest)"
proof -
  obtain ch cs where "to_string (nat \<bar>i\<bar>) = ch # cs" "is_digit ch" using to_string_Cons by blast
  then show ?thesis by (auto simp: int_to_string_def no_word_char_def is_word_char_def is_digit_def split: list.splits)
qed

lemma kind_words: "peer_kind.word_of msg_REPLY = ''REPLY''" "peer_kind.word_of msg_POST = ''POST''" "peer_kind.word_of msg_ASYNC = ''ASYNC''"
  by (simp_all only: peer_kind.word_of_def) (simp_all add: REQUEST_STRINGS_def)

lemma parse_bind: "m x = (Inr a, y) \<Longrightarrow> bind_c (parse_p m) f (x, c) = f a (y, c)"
  by (simp add: bind_c_def parse_p_def)

lemma do_bind: "m c = (Inr a, c') \<Longrightarrow> bind_c (do_p m) f (x, c) = f a (x, c')"
  by (simp add: bind_c_def do_p_def)

lemma head_read:
  assumes "int64_ok i" and "fits_size (peer_kind.word_of k @ int_to_string i @ '' '' @ rest)"
  shows "get_request_t \<lparr>m_msg = peer_kind.word_of k @ int_to_string i @ '' '' @ rest, m_pos = 0\<rparr> =
      (Inr k, at (peer_kind.word_of k) (int_to_string i @ '' '' @ rest))"
    and "get_int (at (peer_kind.word_of k) (int_to_string i @ '' '' @ rest)) =
      (Inr i, at (peer_kind.word_of k @ int_to_string i) ('' '' @ rest))"
proof -
  show "get_request_t \<lparr>m_msg = peer_kind.word_of k @ int_to_string i @ '' '' @ rest, m_pos = 0\<rparr> =
      (Inr k, at (peer_kind.word_of k) (int_to_string i @ '' '' @ rest))"
    using kind_at [OF no_word_char_int assms(2)] by (simp add: at_def)
  have "no_digit ('' '' @ rest)" by (simp add: no_digit_def is_digit_def)
  with int.reads [OF assms(1), of "'' '' @ rest" "[]" "peer_kind.word_of k"] assms(2)
  show "get_int (at (peer_kind.word_of k) (int_to_string i @ '' '' @ rest)) =
      (Inr i, at (peer_kind.word_of k @ int_to_string i) ('' '' @ rest))" by simp
qed

lemma reply_dispatched:
  assumes "int64_ok i" and "st \<noteq> MAX_STATUS" and "no_word_char rest" and "fits_size (reply_head i st @ rest)"
    and "map_of (m_expected_ops c) i = Some op"
  shows "handle_peer_inner ce n (reply_head i st @ rest) c =
    (case handle_status ce n i op st (at (reply_head i st) rest, c\<lparr>m_expected_ops := AList.delete i (m_expected_ops c)\<rparr>) of
       (r, x, c) \<Rightarrow> (r, c))"
proof -
  let ?c = "c\<lparr>m_expected_ops := AList.delete i (m_expected_ops c)\<rparr>"
  have txt_eq: "reply_head i st @ rest = peer_kind.word_of msg_REPLY @ int_to_string i @ '' '' @ peer_status.word_of st @ rest"
    by (simp add: reply_head_def kind_words)
  note head = head_read [OF assms(1) assms(4) [unfolded txt_eq]]
  have "get_reply_status (at (peer_kind.word_of msg_REPLY @ int_to_string i) ('' '' @ peer_status.word_of st @ rest)) =
      (Inr st, at (reply_head i st) rest)"
    using status_at [OF assms(2,3), of "'' ''" "''REPLY'' @ int_to_string i"] assms(4) by (simp add: reply_head_def kind_words is_space_def)
  note status = parse_bind [of get_reply_status, OF this]
  have "expected_op i c = (Inr (Some op), ?c)" using assms(5) by (simp add: expected_op_def comp_simps)
  note expected = do_bind [of "expected_op i", OF this]
  show ?thesis
    unfolding handle_peer_inner_def txt_eq parse_bind [of get_request_t, OF head(1)] handle_kind.simps
      parse_bind [of get_int, OF head(2)] handle_reply_request_def expected option.case status ..
qed

lemma unexpected_reply:
  assumes "int64_ok i" and "fits_size (peer_kind.word_of msg_REPLY @ int_to_string i @ '' '' @ rest)" and "map_of (m_expected_ops c) i = None"
  shows "handle_peer_inner ce n (peer_kind.word_of msg_REPLY @ int_to_string i @ '' '' @ rest) c = report_peer ce n BAD_REPLY c"
proof -
  note head = head_read [OF assms(1,2)]
  have "expected_op i c = (Inr None, c)" using assms(3) by (simp add: expected_op_def comp_simps)
  note expected = do_bind [of "expected_op i", OF this]
  show ?thesis
    unfolding handle_peer_inner_def parse_bind [of get_request_t, OF head(1)] handle_kind.simps
      parse_bind [of get_int, OF head(2)] handle_reply_request_def expected option.case
    by (simp add: do_p_def split: prod.splits)
qed

lemma post_dispatched:
  assumes "int64_ok i" and "op \<noteq> op_MAX_OP" and "no_word_char rest" and "fits_size (post_head i op @ rest)"
  shows "handle_peer_inner ce n (post_head i op @ rest) c =
    (case (case handle_post_op ce n i op (at (post_head i op) rest, c) of
             (Inr u, xc) \<Rightarrow> (Inr u, xc)
           | (Inl e, xc) \<Rightarrow> if is_crash e then (Inl e, xc) else bind_c (do_p (reply_err n i e)) (\<lambda>_. throw_c e) xc) of
       (r, x, c) \<Rightarrow> (r, c))"
proof -
  have txt_eq: "post_head i op @ rest = peer_kind.word_of msg_POST @ int_to_string i @ '' '' @ peer_op.word_of op @ rest"
    by (simp add: post_head_def kind_words)
  note head = head_read [OF assms(1) assms(4) [unfolded txt_eq]]
  have "get_op (at (peer_kind.word_of msg_POST @ int_to_string i) ('' '' @ peer_op.word_of op @ rest)) = (Inr op, at (post_head i op) rest)"
    using op_at [OF assms(2,3), of "'' ''" "''POST'' @ int_to_string i"] assms(4) by (simp add: post_head_def kind_words is_space_def)
  note op = parse_bind [of get_op, OF this]
  show ?thesis
    unfolding handle_peer_inner_def txt_eq parse_bind [of get_request_t, OF head(1)] handle_kind.simps
      parse_bind [of get_int, OF head(2)] handle_post_request_def op ..
qed

lemma end_reached: "ensure_end_if True (at pre []) = (Inr (), at pre [])"
  by (simp add: ensure_end_if_def ensure_end_def bind_e_def skip_whitespace_def at_def at_end_def return_e_def)

lemma end_at: "get_exact (return_e ()) True (at pre []) = (Inr (), at pre [])"
  by (simp add: get_exact_def bind_e_run end_reached return_e_def)

lemma three_texts_at:
  assumes "fits_size (pre @ show_str a @ show_str b @ show_str d)"
  shows "get_exact (pair_e get_str (pair_e get_str get_str)) True (at pre (show_str a @ show_str b @ show_str d)) =
    (Inr (a, b, d), at (pre @ show_str a @ show_str b @ show_str d) [])"
proof -
  have 1: "get_str (at pre (show_str a @ show_str b @ show_str d)) = (Inr a, at (pre @ show_str a) (show_str b @ show_str d))"
    using str.reads [where a = a and rest = "show_str b @ show_str d" and ws = "[]" and pre = pre] assms by simp
  have 2: "get_str (at (pre @ show_str a) (show_str b @ show_str d)) = (Inr b, at (pre @ show_str a @ show_str b) (show_str d))"
    using str.reads [where a = b and rest = "show_str d" and ws = "[]" and pre = "pre @ show_str a"] assms by simp
  have 3: "get_str (at (pre @ show_str a @ show_str b) (show_str d)) = (Inr d, at (pre @ show_str a @ show_str b @ show_str d) [])"
    using str.reads [where a = d and rest = "[]" and ws = "[]" and pre = "pre @ show_str a @ show_str b"] assms by simp
  show ?thesis
    by (simp add: get_exact_def pair_e_def bind_e_def 1 2 3 end_reached return_e_def)
qed

text \<open>The text that \<^verbatim>\<open>post_ask_evict\<close> sends runs the handler with the arguments it was composed of; an exception of the
  handler is answered and thrown on.\<close>

definition ask_evict_text :: "int \<Rightarrow> string \<Rightarrow> string \<Rightarrow> string \<Rightarrow> string" where
  "ask_evict_text i iss p r = fold post_str [iss, p, r] (post_head i op_ASK_EVICT)"

lemma ask_evict_received:
  assumes "int64_ok i" and "fits_size (ask_evict_text i iss p r)"
  shows "handle_peer_inner ce n (ask_evict_text i iss p r) c =
    (case post_request_ask_evict ce n i iss p r c of
       (Inr u, c) \<Rightarrow> (Inr u, c)
     | (Inl e, c) \<Rightarrow> if is_crash e then (Inl e, c) else bind_c (reply_err n i e) (\<lambda>_. throw_c e) c)"
proof -
  let ?rest = "show_str iss @ show_str p @ show_str r"
  have txt_eq: "ask_evict_text i iss p r = post_head i op_ASK_EVICT @ ?rest" by (simp add: ask_evict_text_def message_parts)
  have "no_word_char ?rest" by (simp add: no_word_char_def show_str_def show_len_def is_word_char_def)
  note run = post_dispatched [OF assms(1) _ this assms(2) [unfolded txt_eq], simplified]
  note args = parse_bind [of "get_exact (pair_e get_str (pair_e get_str get_str)) True", OF three_texts_at [OF assms(2) [unfolded txt_eq]]]
  show ?thesis
    unfolding txt_eq run args
    by (cases "post_request_ask_evict ce n i iss p r c") (auto simp: do_p_def bind_c_def throw_c_def split: sum.splits prod.splits)
qed

section \<open>An application outlives its client\<close>

lemma remove_peer_run:
  "sessions c n = Some s \<Longrightarrow>
    remove_peer n c = (Inr (), (if session_is_peer s then c\<lparr>m_peers := uset_erase n (m_peers c)\<rparr> else c)
      \<lparr>closed_clients := uset_insert n (closed_clients c)\<rparr>)"
  by (simp add: remove_peer_def forget_peer_def session_c_def close_client_def bind_c_def comp_simps)

lemma pop_auth_run:
  "map_of (m_pending_peer_auths c) i = Some p \<Longrightarrow>
    pop_auth_application i c = (Inr (Some p), c\<lparr>m_pending_peer_auths := AList.delete i (m_pending_peer_auths c)\<rparr>)"
  by (simp add: pop_auth_application_def bind_c_def comp_simps)

lemma denied_to_departed:
  assumes "sessions c n = Some s" and "map_of (m_pending_peer_auths c) i = Some p" and "pa_client p = Some (Tcp_Client j)"
    and "sessions c j = None"
  shows "fst (reply_denied_request_peer_auth n i c) = undefined_behaviour"
proof -
  obtain c1 where c1: "remove_peer n c = (Inr (), c1)" "m_pending_peer_auths c1 = m_pending_peer_auths c" "sessions c1 = sessions c"
    using remove_peer_run [OF assms(1)] by simp
  with pop_auth_run [of c1 i p] assms show ?thesis
    by (simp add: reply_denied_request_peer_auth_def bind_c_def send_opt_def)
qed

lemma denied_departed:
  assumes "int64_ok i" and "fits_size (reply_head i status_DENIED)"
    and "map_of (m_expected_ops c) i = Some op_PEER_AUTH" and "map_of (m_pending_peer_auths c) i = Some p"
    and "pa_client p = Some (Tcp_Client j)" and "sessions c j = None" and "sessions c n \<noteq> None"
  shows "fst (handle_peer ce n (reply_head i status_DENIED) c) = undefined_behaviour"
proof -
  have txt_eq: "handle_peer_inner ce n (reply_head i status_DENIED) c =
    (case handle_status ce n i op_PEER_AUTH status_DENIED
        (at (reply_head i status_DENIED) [], c\<lparr>m_expected_ops := AList.delete i (m_expected_ops c)\<rparr>) of (r, x, c) \<Rightarrow> (r, c))"
    using reply_dispatched [OF assms(1), of status_DENIED "[]" c op_PEER_AUTH ce n] assms(2,3) by (simp add: no_word_char_def)
  let ?c = "c\<lparr>m_expected_ops := AList.delete i (m_expected_ops c)\<rparr>"
  obtain s where "sessions ?c n = Some s" using assms(7) by auto
  from denied_to_departed [OF this, of i p j] assms(4-6) have "fst (reply_denied_request_peer_auth n i ?c) = undefined_behaviour" by simp
  then have "fst (handle_peer_inner ce n (reply_head i status_DENIED) c) = undefined_behaviour"
    unfolding txt_eq
    by (simp add: handle_denied_reply_def parse_bind [of "get_exact (return_e ()) True", OF end_at] do_p_def case_prod_beta)
  then show ?thesis by (cases "handle_peer_inner ce n (reply_head i status_DENIED) c") (simp add: handle_peer_def is_crash_def)
qed

text \<open>Removing the connection leaves the application.\<close>

lemma remove_client_run:
  assumes "sessions c n = Some s"
  shows "\<exists>c'. remove_client n c = (Inr (), c') \<and> sessions c' = (sessions c)(n := None) \<and>
    m_pending_peer_auths c' = m_pending_peer_auths c \<and> m_expected_ops c' = m_expected_ops c"
  using assms by (auto simp: remove_client_def forget_peer_def session_c_def bind_c_def comp_simps)

lemma departed_joiner:
  assumes "int64_ok i" and "fits_size (reply_head i status_DENIED)"
    and "map_of (m_expected_ops c) i = Some op_PEER_AUTH" and "map_of (m_pending_peer_auths c) i = Some p"
    and "pa_client p = Some (Tcp_Client j)" and "sessions c j \<noteq> None" and "sessions c n \<noteq> None" and "j \<noteq> n"
  shows "\<exists>c'. remove_client j c = (Inr (), c') \<and> fst (handle_peer ce n (reply_head i status_DENIED) c') = undefined_behaviour"
proof -
  from assms(6) obtain s where "sessions c j = Some s" by blast
  from remove_client_run [OF this] obtain c' where c': "remove_client j c = (Inr (), c')" "sessions c' = (sessions c)(j := None)"
    "m_pending_peer_auths c' = m_pending_peer_auths c" "m_expected_ops c' = m_expected_ops c" by blast
  with denied_departed [OF assms(1,2), of c' p j n ce] assms(3-5,7,8) show ?thesis by (intro exI [of _ c']) simp
qed

lemma reply_head_fits: "fits_size (reply_head 0 status_DENIED)"
  by (simp only: reply_head_def peer_status.word_of_def)
     (simp add: REPLY_STATUS_STRINGS_def fits_size_def SIZE_MAX_1_def int_to_string_def to_string.simps)

section \<open>Any peer can answer\<close>

lemma vote_of_anyone:
  assumes "int64_ok i" and "no_word_char v" and "fits_size (reply_head i status_OK @ v)" and "map_of (m_expected_ops c) i = Some op_ASK_EVICT"
  shows "handle_peer_inner ce n (reply_head i status_OK @ v) c = handle_peer_inner ce m (reply_head i status_OK @ v) c"
  using reply_dispatched [OF assms(1) _ assms(2,3,4)] by simp

section \<open>An eviction nobody else votes on\<close>

lemma lone_peer_issue:
  assumes "m_peers c = [n]" and "sessions c n = Some s" and "session_id s = Inr (Some p)" and "m_eviction_issues c = []"
  shows "\<exists>i. begin_evict_process ce n r c =
    (Inr (), c\<lparr>draws := draws c + 15, m_eviction_issues :=
       [(i, (make_issue i p r True)\<lparr>opinions := [True], expected_opinions := 1\<rparr>)]\<rparr>)"
  using assms
  by (simp add: begin_evict_process_def session_c_def bind_c_def comp_simps similar_issue_exists_def new_eviction_issue_def
      random_string_def insert_eviction_issue_def contains_def make_issue_def post_ask_evict_all_def update_issue_def issue_c_def
      ask_peer_def to_short_def) blast

lemma similar_issue_blocks:
  assumes "sessions c n = Some s" and "session_id s = Inr (Some p)" and "similar_issue_exists p r c"
  shows "begin_evict_process ce n r c = (Inr (), c)"
  using assms by (simp add: begin_evict_process_def session_c_def bind_c_def comp_simps)

end
