(* ===== verification/Epoll_Server.thy ===== *)
theory Epoll_Server
  imports Server_Start Framing
begin

text \<open>
  The sockets of the server: \<^verbatim>\<open>socket/socket.cpp\<close>, \<^verbatim>\<open>epoll.cpp\<close>, \<^verbatim>\<open>epoll_server.cpp\<close>, \<^verbatim>\<open>socket_listener.cpp\<close>, and what \<^verbatim>\<open>ClientServer\<close> and
  \<^verbatim>\<open>BindServer\<close> do with them. The kernel knows which descriptors are open, and for each of the two epolls the
  descriptors that are watched with the pointer that was registered; closing a descriptor removes it from both. A pointer
  is the number of an object; objects that were destroyed are gone, and to call one is undefined behaviour.

  The invariant: a descriptor has one owner, and the pointers that the kernel holds are to live objects. So what
  \<^verbatim>\<open>epoll_wait\<close> returns is alive at that moment. The events of one call are handled one after the other, though, and the last sections
  show what that, and exceptions that nobody catches, lead to.
\<close>

section \<open>Descriptors and objects\<close>

datatype read_handler = Listener string nat int | Client_Handler int

primrec socket_fd :: "read_handler \<Rightarrow> int" where
  "socket_fd (Listener host port fd) = fd"
| "socket_fd (Client_Handler fd) = fd"

record net =
  open_fds :: "int list"
  m_read_epoll :: "(int \<times> nat) list"
  m_write_epoll :: "(int \<times> nat) list"
  objects :: "(nat \<times> read_handler) list"
  next_object :: nat

definition no_sockets :: net where
  "no_sockets = \<lparr>open_fds = [], m_read_epoll = [], m_write_epoll = [], objects = [], next_object = 0\<rparr>"

definition sys_open :: "int \<Rightarrow> net \<Rightarrow> net" where
  "sys_open fd s = s\<lparr>open_fds := fd # open_fds s\<rparr>"

definition sys_close :: "int \<Rightarrow> net \<Rightarrow> net" where
  "sys_close fd s =
     s\<lparr>open_fds := removeAll fd (open_fds s), m_read_epoll := AList.delete fd (m_read_epoll s),
       m_write_epoll := AList.delete fd (m_write_epoll s)\<rparr>"

text \<open>\<^verbatim>\<open>~BaseSocket\<close>, and the constructor that moves: the new owner and what is left in the old one.\<close>

definition socket_destroyed :: "int \<Rightarrow> net \<Rightarrow> net" where
  "socket_destroyed m_fd s = (if m_fd \<ge> 0 then sys_close m_fd s else s)"

definition socket_moved :: "int \<Rightarrow> int \<times> int" where
  "socket_moved other_fd = (other_fd, - 1)"

section \<open>The epolls\<close>

definition epoll_add :: "nat \<Rightarrow> int \<Rightarrow> net \<Rightarrow> unit result \<times> net" where
  "epoll_add ptr fd s =
     (if fd \<notin> set (open_fds s) \<or> contains (m_read_epoll s) fd then (Inl (SocketError ''Could not add client to epoll''), s)
      else (Inr (), s\<lparr>m_read_epoll := AList.update fd ptr (m_read_epoll s)\<rparr>))"

definition epoll_remove :: "int \<Rightarrow> net \<Rightarrow> unit result \<times> net" where
  "epoll_remove fd s =
     (if \<not> contains (m_read_epoll s) fd then (Inl (SocketError ''Could not remove client from epoll''), s)
      else (Inr (), s\<lparr>m_read_epoll := AList.delete fd (m_read_epoll s)\<rparr>))"

definition add_writer :: "nat \<Rightarrow> int \<Rightarrow> net \<Rightarrow> unit result \<times> net" where
  "add_writer ptr fd s =
     (if fd \<notin> set (open_fds s) \<or> contains (m_write_epoll s) fd then (Inl (SocketError ''Could not add client to epoll''), s)
      else (Inr (), s\<lparr>m_write_epoll := AList.update fd ptr (m_write_epoll s)\<rparr>))"

definition remove_writer :: "int \<Rightarrow> net \<Rightarrow> unit result \<times> net" where
  "remove_writer fd s =
     (if \<not> contains (m_write_epoll s) fd then (Inl (SocketError ''Could not remove client from epoll''), s)
      else (Inr (), s\<lparr>m_write_epoll := AList.delete fd (m_write_epoll s)\<rparr>))"

section \<open>Connections\<close>

text \<open>\<^verbatim>\<open>ServerSocket::accept\<close>: \<open>got\<close> is what \<^verbatim>\<open>accept4\<close> returns, a new descriptor or \<open>-1\<close>. The code looks at the
  descriptor of the listener instead.\<close>

definition server_accept :: "int \<Rightarrow> int \<Rightarrow> net \<Rightarrow> int result \<times> net" where
  "server_accept m_fd got s =
     (let s = (if got \<ge> 0 then sys_open got s else s)
      in if m_fd < 0 then (Inl (SocketError ''Could not accept the connection''), s) else (Inr got, s))"

definition new_object :: "read_handler \<Rightarrow> net \<Rightarrow> nat \<times> net" where
  "new_object ob s = (next_object s, s\<lparr>objects := (next_object s, ob) # objects s, next_object := next_object s + 1\<rparr>)"

definition add_tcp_client :: "int \<Rightarrow> net \<Rightarrow> nat result \<times> net" where
  "add_tcp_client fd s =
     (let (ptr, s) = new_object (Client_Handler fd) s in
      case epoll_add ptr fd s of (Inl e, s) \<Rightarrow> (Inl e, s) | (Inr _, s) \<Rightarrow> (Inr ptr, s))"

text \<open>\<^verbatim>\<open>SocketListener::ready\<close>.\<close>

definition listener_ready :: "int \<Rightarrow> int \<Rightarrow> net \<Rightarrow> nat result \<times> net" where
  "listener_ready m_fd got s =
     (case server_accept m_fd got s of (Inl e, s) \<Rightarrow> (Inl e, s) | (Inr fd, s) \<Rightarrow> add_tcp_client fd s)"

text \<open>The object is erased, and its socket with it.\<close>

definition destroy :: "nat \<Rightarrow> int \<Rightarrow> net \<Rightarrow> net" where
  "destroy ptr fd s = socket_destroyed fd (s\<lparr>objects := AList.delete ptr (objects s)\<rparr>)"

definition remove_tcp_client :: "nat \<Rightarrow> net \<Rightarrow> unit result \<times> net" where
  "remove_tcp_client ptr s =
     (case map_of (objects s) ptr of
        None \<Rightarrow> (undefined_behaviour, s)
      | Some ob \<Rightarrow>
          (case epoll_remove (socket_fd ob) s of
             (Inl e, s) \<Rightarrow> (Inl e, s)
           | (Inr _, s) \<Rightarrow> (Inr (), destroy ptr (socket_fd ob) s)))"

text \<open>\<^verbatim>\<open>Socket::connect\<close>: for each address that \<^verbatim>\<open>getaddrinfo\<close> finds, the descriptor that \<^verbatim>\<open>::socket\<close> returns and
  whether it could be connected.\<close>

fun connect_first :: "(int \<times> bool) list \<Rightarrow> net \<Rightarrow> int result \<times> net" where
  "connect_first [] s = (Inl (SocketError ''Could not connect to the server''), s)"
| "connect_first ((fd, connected) # as) s =
     (if fd = - 1 then connect_first as s
      else if connected then (Inr fd, sys_open fd s)
      else connect_first as (sys_close fd (sys_open fd s)))"

definition socket_connect :: "(int \<times> bool) list result \<Rightarrow> net \<Rightarrow> int result \<times> net" where
  "socket_connect found s = (case found of Inl e \<Rightarrow> (Inl e, s) | Inr as \<Rightarrow> connect_first as s)"

section \<open>Listeners\<close>

fun is_listener :: "string \<Rightarrow> nat \<Rightarrow> read_handler \<Rightarrow> bool" where
  "is_listener host port (Listener host' port' fd) \<longleftrightarrow> host' = host \<and> port' = port"
| "is_listener host port (Client_Handler fd) \<longleftrightarrow> False"

definition find_listener :: "string \<Rightarrow> nat \<Rightarrow> (nat \<times> read_handler) list \<Rightarrow> (nat \<times> int) option" where
  "find_listener host port obs =
     map_option (\<lambda>(ptr, ob). (ptr, socket_fd ob)) (find (\<lambda>(ptr, ob). is_listener host port ob) obs)"

text \<open>\<^verbatim>\<open>ServerSocket::listen\<close>: whether \<^verbatim>\<open>bind\<close> succeeds for each address that \<^verbatim>\<open>getaddrinfo\<close> finds, and \<^verbatim>\<open>::listen\<close> after
  it.\<close>

definition server_listen :: "bool list result \<Rightarrow> bool \<Rightarrow> unit result" where
  "server_listen found listening =
     (case found of
        Inl e \<Rightarrow> Inl e
      | Inr bound \<Rightarrow>
          if True \<notin> set bound then Inl (SocketError ''Could not bind the socket'')
          else if \<not> listening then Inl (SocketError ''Could not listen on the socket'')
          else Inr ())"

text \<open>\<^verbatim>\<open>BindServer::bind\<close>: \<open>fd\<close> is the answer of \<^verbatim>\<open>::socket\<close>, \<open>listened\<close> how \<^verbatim>\<open>listen\<close> goes on it. A listener that is there
  already stays, the new one is destroyed.\<close>

definition bind_listener :: "string \<Rightarrow> nat \<Rightarrow> int \<Rightarrow> unit result \<Rightarrow> net \<Rightarrow> unit result \<times> net" where
  "bind_listener host port fd listened s =
     (if fd < 0 then (Inl (SocketError ''Could not create the server socket''), s)
      else let s = sys_open fd s in
        case listened of
          Inl e \<Rightarrow> (Inl e, socket_destroyed fd s)
        | Inr _ \<Rightarrow>
            (case find_listener host port (objects s) of
               Some (ptr, old) \<Rightarrow> epoll_add ptr old (socket_destroyed fd s)
             | None \<Rightarrow> (let (ptr, s) = new_object (Listener host port fd) s in epoll_add ptr fd s)))"

definition unbind_listener :: "string \<Rightarrow> nat \<Rightarrow> net \<Rightarrow> net" where
  "unbind_listener host port s =
     (case find_listener host port (objects s) of None \<Rightarrow> s | Some (ptr, fd) \<Rightarrow> destroy ptr fd s)"

section \<open>Events\<close>

text \<open>What a call of \<^verbatim>\<open>EpollBase::wait\<close> may return.\<close>

definition wait_returns :: "(int \<times> nat) list \<Rightarrow> nat list \<Rightarrow> bool" where
  "wait_returns epoll ptrs \<longleftrightarrow> distinct ptrs \<and> length ptrs \<le> 10 \<and> set ptrs \<subseteq> ran (map_of epoll)"

text \<open>The events of one call are handled in turn; \<open>ready\<close> is the virtual method of the handler, which works on the descriptors
  and on whatever else there is. A pointer to an object that is gone is undefined behaviour.\<close>

fun ready_all :: "(nat \<Rightarrow> net \<times> 's \<Rightarrow> unit result \<times> net \<times> 's) \<Rightarrow> nat list \<Rightarrow> net \<times> 's \<Rightarrow> unit result \<times> net \<times> 's" where
  "ready_all ready [] x = (Inr (), x)"
| "ready_all ready (ptr # ptrs) x =
     (if \<not> contains (objects (fst x)) ptr then (undefined_behaviour, x)
      else case ready ptr x of (Inl e, x) \<Rightarrow> (Inl e, x) | (Inr _, x) \<Rightarrow> ready_all ready ptrs x)"

text \<open>The loop over the calls, until one returns nothing.\<close>

fun epoll_ready_loop :: "(nat \<Rightarrow> net \<times> 's \<Rightarrow> unit result \<times> net \<times> 's) \<Rightarrow> nat list list \<Rightarrow> net \<times> 's \<Rightarrow> unit result \<times> net \<times> 's" where
  "epoll_ready_loop ready [] x = (Inr (), x)"
| "epoll_ready_loop ready (ptrs # calls) x =
     (if ptrs = [] then (Inr (), x)
      else case ready_all ready ptrs x of (Inl e, x) \<Rightarrow> (Inl e, x) | (Inr _, x) \<Rightarrow> epoll_ready_loop ready calls x)"

text \<open>The epolls that the outer one reports, each with the calls made on it.\<close>

fun epoll_ready ::
  "(nat \<Rightarrow> net \<times> 's \<Rightarrow> unit result \<times> net \<times> 's) \<Rightarrow> (nat \<Rightarrow> net \<times> 's \<Rightarrow> unit result \<times> net \<times> 's) \<Rightarrow> (bool \<times> nat list list) list \<Rightarrow>
   net \<times> 's \<Rightarrow> unit result \<times> net \<times> 's" where
  "epoll_ready read_ready write_ready [] x = (Inr (), x)"
| "epoll_ready read_ready write_ready ((is_read, calls) # epolls) x =
     (case epoll_ready_loop (if is_read then read_ready else write_ready) calls x of
        (Inl e, x) \<Rightarrow> (Inl e, x)
      | (Inr _, x) \<Rightarrow> epoll_ready read_ready write_ready epolls x)"

text \<open>\<^verbatim>\<open>EventServer::event_loop\<close> has no handler for exceptions: one that leaves a method ends the process.\<close>

datatype process = Running | Terminated

primrec after_event :: "unit result \<Rightarrow> process" where
  "after_event (Inl e) = Terminated"
| "after_event (Inr _) = Running"

text \<open>\<^verbatim>\<open>TcpClient::ready\<close>, with the reader of the connection.\<close>

definition tcp_client_ready ::
  "platform \<Rightarrow> environment \<Rightarrow> nat \<Rightarrow> nat \<Rightarrow> socket_reader \<Rightarrow> socket \<Rightarrow> server \<Rightarrow>
   unit result \<times> response list \<times> socket_reader \<times> socket \<times> server" where
  "tcp_client_ready pf env stack n r s b =
     (if n \<in> set (closed_clients (srv_cluster b))
      then (case client_ready pf env stack n (True, None) b of (q, out, b) \<Rightarrow> (q, out, r, s, b))
      else case reader_read r s of
        (Inl e, r, s) \<Rightarrow> (Inl e, [], r, s, b)
      | (Inr readout, r, s) \<Rightarrow> (case client_ready pf env stack n readout b of (q, out, b) \<Rightarrow> (q, out, r, s, b)))"

text \<open>A client sends \<^verbatim>\<open>UNBIND\<close>: \<^verbatim>\<open>BindServer::request_unbind\<close> with the listener that it erases.\<close>

definition client_unbinds :: "string \<Rightarrow> int \<Rightarrow> session_info \<Rightarrow> net \<times> bind_server \<Rightarrow> unit result \<times> net \<times> bind_server" where
  "client_unbinds host port ss x =
     (case request_unbind_op host port (ss, snd x) of
        (Inl e, _, st) \<Rightarrow> (Inl e, fst x, st)
      | (Inr _, _, st) \<Rightarrow>
          (Inr (), (if m_listeners st = m_listeners (snd x) then fst x else unbind_listener host (nat port) (fst x)), st))"

section \<open>The invariant\<close>

text \<open>Every watched descriptor is open, and registered with the pointer of the live object that owns it; an object that has a
  descriptor has an open one, and no other object has the same.\<close>

definition net_inv :: "net \<Rightarrow> bool" where
  "net_inv s \<longleftrightarrow>
     (\<forall>fd \<in> set (open_fds s). fd \<ge> 0) \<and> distinct (map fst (objects s)) \<and>
     (\<forall>fd p. map_of (m_read_epoll s) fd = Some p \<longrightarrow>
        fd \<in> set (open_fds s) \<and> (\<exists>ob. map_of (objects s) p = Some ob \<and> socket_fd ob = fd)) \<and>
     (\<forall>fd p. map_of (m_write_epoll s) fd = Some p \<longrightarrow>
        fd \<in> set (open_fds s) \<and> map_of (objects s) p = Some (Client_Handler fd)) \<and>
     (\<forall>p ob. map_of (objects s) p = Some ob \<longrightarrow>
        p < next_object s \<and> (socket_fd ob \<ge> 0 \<longrightarrow> socket_fd ob \<in> set (open_fds s))) \<and>
     (\<forall>p q ob ob'. map_of (objects s) p = Some ob \<and> map_of (objects s) q = Some ob' \<and> socket_fd ob = socket_fd ob' \<and>
        socket_fd ob \<ge> 0 \<longrightarrow> p = q)"

lemma net_invI:
  assumes "\<And>fd. fd \<in> set (open_fds s) \<Longrightarrow> fd \<ge> 0" and "distinct (map fst (objects s))"
    and "\<And>fd p. map_of (m_read_epoll s) fd = Some p \<Longrightarrow>
           fd \<in> set (open_fds s) \<and> (\<exists>ob. map_of (objects s) p = Some ob \<and> socket_fd ob = fd)"
    and "\<And>fd p. map_of (m_write_epoll s) fd = Some p \<Longrightarrow>
           fd \<in> set (open_fds s) \<and> map_of (objects s) p = Some (Client_Handler fd)"
    and "\<And>p ob. map_of (objects s) p = Some ob \<Longrightarrow>
           p < next_object s \<and> (socket_fd ob \<ge> 0 \<longrightarrow> socket_fd ob \<in> set (open_fds s))"
    and "\<And>p q ob ob'. map_of (objects s) p = Some ob \<Longrightarrow> map_of (objects s) q = Some ob' \<Longrightarrow> socket_fd ob = socket_fd ob' \<Longrightarrow>
           socket_fd ob \<ge> 0 \<Longrightarrow> p = q"
  shows "net_inv s"
  unfolding net_inv_def using assms by blast

lemma net_invD:
  assumes "net_inv s"
  shows "fd \<in> set (open_fds s) \<Longrightarrow> fd \<ge> 0" and "distinct (map fst (objects s))"
    and "map_of (m_read_epoll s) fd = Some p \<Longrightarrow>
           fd \<in> set (open_fds s) \<and> (\<exists>ob. map_of (objects s) p = Some ob \<and> socket_fd ob = fd)"
    and "map_of (m_write_epoll s) fd = Some p \<Longrightarrow>
           fd \<in> set (open_fds s) \<and> map_of (objects s) p = Some (Client_Handler fd)"
    and "map_of (objects s) p = Some ob \<Longrightarrow>
           p < next_object s \<and> (socket_fd ob \<ge> 0 \<longrightarrow> socket_fd ob \<in> set (open_fds s))"
    and "map_of (objects s) p = Some ob \<Longrightarrow> map_of (objects s) q = Some ob' \<Longrightarrow> socket_fd ob = socket_fd ob' \<Longrightarrow>
           socket_fd ob \<ge> 0 \<Longrightarrow> p = q"
  using assms unfolding net_inv_def by (blast+)

text \<open>A descriptor that the kernel gives out is not in use.\<close>

definition fresh_fd :: "int \<Rightarrow> net \<Rightarrow> bool" where
  "fresh_fd fd s \<longleftrightarrow> fd \<ge> 0 \<and> fd \<notin> set (open_fds s)"

fun fresh_answers :: "(int \<times> bool) list \<Rightarrow> net \<Rightarrow> bool" where
  "fresh_answers [] s \<longleftrightarrow> True"
| "fresh_answers ((fd, _) # as) s \<longleftrightarrow> (fd = - 1 \<or> fresh_fd fd s) \<and> fresh_answers as s"

text \<open>The steps of the process that touch descriptors: a listener is ready and \<^verbatim>\<open>accept4\<close> answers, a connection is removed, a
  writer comes and goes, a listener is bound or unbound, the node connects to another.\<close>

inductive fd_step :: "net \<Rightarrow> net \<Rightarrow> bool" where
  accept_step: "map_of (objects s) ptr = Some (Listener host port m_fd) \<Longrightarrow> got = - 1 \<or> fresh_fd got s \<Longrightarrow>
     fd_step s (snd (listener_ready m_fd got s))"
| remove_step: "fd_step s (snd (remove_tcp_client ptr s))"
| want_write: "map_of (objects s) ptr = Some (Client_Handler fd) \<Longrightarrow> fd_step s (snd (add_writer ptr fd s))"
| all_written: "fd_step s (snd (remove_writer fd s))"
| bind_step: "fd = - 1 \<or> fresh_fd fd s \<Longrightarrow> fd_step s (snd (bind_listener host port fd listened s))"
| unbind_step: "fd_step s (unbind_listener host port s)"
| connect_step: "(\<forall>as. found = Inr as \<longrightarrow> fresh_answers as s) \<Longrightarrow> socket_connect found s = (Inr fd, t) \<Longrightarrow>
     fd_step s (snd (add_tcp_client fd t))"
| no_connection: "(\<forall>as. found = Inr as \<longrightarrow> fresh_answers as s) \<Longrightarrow> socket_connect found s = (Inl e, t) \<Longrightarrow>
     fd_step s t"

lemma net_inv_none: "net_inv no_sockets"
  by (simp add: net_inv_def no_sockets_def)

lemma net_inv_open: "net_inv s \<Longrightarrow> fresh_fd fd s \<Longrightarrow> net_inv (sys_open fd s)"
  by (auto simp: net_inv_def fresh_fd_def sys_open_def)

lemma fresh_not_owned: "net_inv s \<Longrightarrow> fresh_fd fd s \<Longrightarrow> map_of (objects s) p = Some ob \<Longrightarrow> socket_fd ob \<noteq> fd"
  by (auto simp: fresh_fd_def dest: net_invD(5))

lemma close_open:
  assumes "net_inv s" and "fresh_fd fd s"
  shows "sys_close fd (sys_open fd s) = s"
proof -
  have "map_of (m_read_epoll s) fd = None"
    using assms(2) net_invD(3) [OF assms(1), of fd] by (cases "map_of (m_read_epoll s) fd") (auto simp: fresh_fd_def)
  moreover have "map_of (m_write_epoll s) fd = None"
    using assms(2) net_invD(4) [OF assms(1), of fd] by (cases "map_of (m_write_epoll s) fd") (auto simp: fresh_fd_def)
  moreover have "removeAll fd (open_fds s) = open_fds s" using assms(2) by (simp add: fresh_fd_def)
  ultimately show ?thesis by (simp add: sys_close_def sys_open_def delete_absent contains_def)
qed

lemma destroyed_open: "net_inv s \<Longrightarrow> fresh_fd fd s \<Longrightarrow> socket_destroyed fd (sys_open fd s) = s"
  by (simp add: socket_destroyed_def close_open fresh_fd_def)

lemma net_inv_object:
  assumes "net_inv s" and "new_object ob s = (ptr, s')"
    and "socket_fd ob < 0 \<or> socket_fd ob \<in> set (open_fds s) \<and> (\<forall>p ob'. map_of (objects s) p = Some ob' \<longrightarrow> socket_fd ob' \<noteq> socket_fd ob)"
  shows "net_inv s'" and "map_of (objects s') ptr = Some ob"
proof -
  have new: "map_of (objects s) (next_object s) = None"
    using net_invD(5) [OF assms(1), of "next_object s"] by (cases "map_of (objects s) (next_object s)") auto
  have s': "ptr = next_object s" "s' = s\<lparr>objects := (ptr, ob) # objects s, next_object := next_object s + 1\<rparr>"
    using assms(2) by (auto simp: new_object_def)
  show "map_of (objects s') ptr = Some ob" by (simp add: s')
  show "net_inv s'"
  proof (rule net_invI, goal_cases)
    case 1 then show ?case using net_invD(1) [OF assms(1)] by (simp add: s')
  next
    case 2 show ?case using net_invD(2) [OF assms(1)] new by (simp add: s' map_of_eq_None_iff)
  next
    case (3 fd p) then show ?case using net_invD(3) [OF assms(1)] new by (fastforce simp: s')
  next
    case (4 fd p) then show ?case using net_invD(4) [OF assms(1)] new by (fastforce simp: s')
  next
    case (5 p ob') then show ?case using net_invD(5) [OF assms(1)] assms(3) by (fastforce simp: s' split: if_splits)
  next
    case (6 p q ob1 ob2) then show ?case
      using net_invD(6) [OF assms(1), of p ob1 q ob2] assms(3) by (fastforce simp: s' split: if_splits)
  qed
qed

lemma net_inv_epoll_add:
  assumes "net_inv s" and "map_of (objects s) ptr = Some ob" and "socket_fd ob = fd" and "epoll_add ptr fd s = (r, s')"
  shows "net_inv s'"
  using assms by (auto simp: epoll_add_def net_inv_def update_conv' simp del: map_of_eq_Some_iff split: if_splits)

lemma net_inv_epoll_remove: "net_inv s \<Longrightarrow> epoll_remove fd s = (r, s') \<Longrightarrow> net_inv s'"
  by (auto simp: epoll_remove_def net_inv_def delete_conv' simp del: map_of_eq_Some_iff split: if_splits)

lemma net_inv_writers:
  "net_inv s \<Longrightarrow> map_of (objects s) ptr = Some (Client_Handler fd) \<Longrightarrow> add_writer ptr fd s = (r, s') \<Longrightarrow> net_inv s'"
  "net_inv s \<Longrightarrow> remove_writer fd s = (r, s') \<Longrightarrow> net_inv s'"
  by (auto simp: add_writer_def remove_writer_def net_inv_def update_conv' delete_conv' simp del: map_of_eq_Some_iff split: if_splits)

text \<open>A descriptor of no object that is alive may be closed; the object that is destroyed takes its descriptor out of both epolls.\<close>

lemma net_inv_destroy:
  assumes "net_inv s" and "map_of (objects s) ptr = Some ob" and "socket_fd ob = fd"
  shows "net_inv (destroy ptr fd s)"
proof -
  define t where "t = destroy ptr fd s"
  have obs: "map_of (objects t) p = (if p = ptr then None else map_of (objects s) p)" for p
    by (simp add: t_def destroy_def socket_destroyed_def sys_close_def delete_conv')
  have keys: "distinct (map fst (objects t))"
    using net_invD(2) [OF assms(1)] by (simp add: t_def destroy_def socket_destroyed_def sys_close_def distinct_delete)
  have opened: "set (open_fds t) = (if fd \<ge> 0 then set (open_fds s) - {fd} else set (open_fds s))"
    and re: "map_of (m_read_epoll t) x = (if x = fd \<and> fd \<ge> 0 then None else map_of (m_read_epoll s) x)"
    and we: "map_of (m_write_epoll t) x = (if x = fd \<and> fd \<ge> 0 then None else map_of (m_write_epoll s) x)"
    and nx: "next_object t = next_object s" for x
    by (auto simp: t_def destroy_def socket_destroyed_def sys_close_def delete_conv')
  have "net_inv t"
  proof (rule net_invI, goal_cases)
    case (1 x) then show ?case using net_invD(1) [OF assms(1)] by (auto simp: opened split: if_splits)
  next
    case 2 show ?case by (rule keys)
  next
    case (3 x p)
    then have "map_of (m_read_epoll s) x = Some p" and x: "x = fd \<longrightarrow> fd < 0" by (auto simp: re split: if_splits)
    from net_invD(3) [OF assms(1) this(1)] obtain ob' where
      o': "x \<in> set (open_fds s)" "map_of (objects s) p = Some ob'" "socket_fd ob' = x" by auto
    with x net_invD(1) [OF assms(1)] have "x \<noteq> fd" by force
    with o' assms(2,3) show ?case by (auto simp: obs opened)
  next
    case (4 x p)
    then have "map_of (m_write_epoll s) x = Some p" and x: "x = fd \<longrightarrow> fd < 0" by (auto simp: we split: if_splits)
    from net_invD(4) [OF assms(1) this(1)] have o': "x \<in> set (open_fds s)" "map_of (objects s) p = Some (Client_Handler x)" by auto
    with x net_invD(1) [OF assms(1)] have "x \<noteq> fd" by force
    with o' assms(2,3) show ?case by (auto simp: obs opened)
  next
    case (5 p ob') then show ?case
      using net_invD(5) [OF assms(1), of p ob'] net_invD(6) [OF assms(1), of p ob' ptr ob] assms(2,3)
      by (auto simp: obs opened nx split: if_splits)
  next
    case (6 p q ob1 ob2) then show ?case
      using net_invD(6) [OF assms(1), of p ob1 q ob2] by (auto simp: obs split: if_splits)
  qed
  then show ?thesis by (simp add: t_def)
qed

text \<open>A connection or a listener that is new, with a descriptor that is new or with none.\<close>

lemma net_inv_new_handler:
  assumes "net_inv s" and "socket_fd ob < 0 \<and> s' = s \<or> fresh_fd (socket_fd ob) s \<and> s' = sys_open (socket_fd ob) s"
    and "new_object ob s' = (ptr, t)" and "epoll_add ptr (socket_fd ob) t = (r, u)"
  shows "net_inv u"
proof -
  have s': "net_inv s'" using assms(1,2) net_inv_open by auto
  have "socket_fd ob < 0 \<or> socket_fd ob \<in> set (open_fds s') \<and>
      (\<forall>p ob'. map_of (objects s') p = Some ob' \<longrightarrow> socket_fd ob' \<noteq> socket_fd ob)"
    using assms(1,2) fresh_not_owned by (auto simp: sys_open_def)
  from net_inv_object [OF s' assms(3) this] have inv: "net_inv t" "map_of (objects t) ptr = Some ob" by auto
  show ?thesis by (rule net_inv_epoll_add [OF inv refl assms(4)])
qed

lemma net_inv_add_client:
  assumes "net_inv s" and "got = - 1 \<and> s' = s \<or> fresh_fd got s \<and> s' = sys_open got s"
  shows "net_inv (snd (add_tcp_client got s'))"
proof -
  obtain ptr t r u where t: "new_object (Client_Handler got) s' = (ptr, t)" and u: "epoll_add ptr got t = (r, u)"
    by (metis surj_pair)
  have "net_inv u" by (rule net_inv_new_handler [OF assms(1) _ t]) (use assms(2) u in auto)
  then show ?thesis by (simp add: add_tcp_client_def t u split: sum.splits)
qed

lemma net_inv_listener_ready:
  assumes "net_inv s" and "got = - 1 \<or> fresh_fd got s"
  shows "net_inv (snd (listener_ready m_fd got s))"
  using assms net_inv_add_client [OF assms(1), of got] net_inv_open [OF assms(1), of got]
  by (auto simp: listener_ready_def server_accept_def fresh_fd_def)

lemma net_inv_remove_client:
  assumes "net_inv s" shows "net_inv (snd (remove_tcp_client ptr s))"
proof (cases "map_of (objects s) ptr")
  case None with assms show ?thesis by (simp add: remove_tcp_client_def)
next
  case (Some ob)
  obtain r t where t: "epoll_remove (socket_fd ob) s = (r, t)" by fastforce
  have "objects t = objects s" using t by (auto simp: epoll_remove_def split: if_splits)
  with net_inv_epoll_remove [OF assms t] Some net_inv_destroy [of t ptr ob "socket_fd ob"] have "net_inv t" "net_inv (destroy ptr (socket_fd ob) t)"
    by auto
  with Some t show ?thesis by (auto simp: remove_tcp_client_def split: sum.splits)
qed

lemma find_listener_some:
  assumes "net_inv s" and "find_listener host port (objects s) = Some (ptr, fd)"
  shows "\<exists>ob. map_of (objects s) ptr = Some ob \<and> socket_fd ob = fd \<and> is_listener host port ob"
proof -
  from assms(2) obtain ob where "(ptr, ob) \<in> set (objects s)" "socket_fd ob = fd" "is_listener host port ob"
    by (auto simp: find_listener_def find_Some_iff) (metis nth_mem)
  with net_invD(2) [OF assms(1)] show ?thesis by (auto simp: map_of_eq_Some_iff)
qed

lemma net_inv_unbind: "net_inv s \<Longrightarrow> net_inv (unbind_listener host port s)"
  by (auto simp: unbind_listener_def split: option.split dest: find_listener_some intro: net_inv_destroy)

lemma net_inv_bind:
  assumes "net_inv s" and "fd < 0 \<or> fresh_fd fd s"
  shows "net_inv (snd (bind_listener host port fd listened s))"
proof (cases "fd < 0")
  case True with assms(1) show ?thesis by (simp add: bind_listener_def)
next
  case False
  with assms(2) have f: "fresh_fd fd s" by simp
  have o: "objects (sys_open fd s) = objects s" by (simp add: sys_open_def)
  consider (err) e where "listened = Inl e"
    | (old) ptr old where "listened = Inr ()" "find_listener host port (objects s) = Some (ptr, old)"
    | (new) "listened = Inr ()" "find_listener host port (objects s) = None"
    by (cases listened; cases "find_listener host port (objects s)") auto
  then show ?thesis
  proof cases
    case err with False assms(1) f show ?thesis by (simp add: bind_listener_def destroyed_open)
  next
    case old
    obtain ob where ob: "map_of (objects s) ptr = Some ob" "socket_fd ob = old" using find_listener_some [OF assms(1) old(2)] by auto
    obtain r t where t: "epoll_add ptr old s = (r, t)" by fastforce
    from net_inv_epoll_add [OF assms(1) ob t] old t False assms(1) f show ?thesis by (simp add: bind_listener_def destroyed_open o)
  next
    case new
    obtain ptr t r u where t: "new_object (Listener host port fd) (sys_open fd s) = (ptr, t)" and u: "epoll_add ptr fd t = (r, u)"
      by (metis surj_pair)
    have "net_inv u" by (rule net_inv_new_handler [OF assms(1) _ t]) (use f u in auto)
    with new t u False show ?thesis by (simp add: bind_listener_def o)
  qed
qed

text \<open>An attempt to connect leaves no descriptor behind but the one that it returns.\<close>

lemma connect_first_leaks_nothing:
  "net_inv s \<Longrightarrow> fresh_answers as s \<Longrightarrow> connect_first as s = (r, s') \<Longrightarrow>
     (case r of Inl e \<Rightarrow> s' = s | Inr fd \<Rightarrow> fresh_fd fd s \<and> s' = sys_open fd s)"
  by (induction as s rule: connect_first.induct) (auto simp: close_open split: if_splits sum.splits)

lemma fd_step_inv: "fd_step s t \<Longrightarrow> net_inv s \<Longrightarrow> net_inv t"
proof (induction rule: fd_step.induct)
  case (want_write s ptr fd)
  then show ?case using net_inv_writers(1) [of s ptr fd] by (metis prod.collapse)
next
  case (all_written s fd)
  then show ?case using net_inv_writers(2) [of s fd] by (metis prod.collapse)
next
  case (connect_step found s fd t)
  then obtain as where "found = Inr as" "connect_first as s = (Inr fd, t)" "fresh_answers as s"
    by (auto simp: socket_connect_def split: sum.splits)
  with connect_first_leaks_nothing [OF connect_step.prems, of as "Inr fd" t] connect_step.prems show ?case
    by (auto intro: net_inv_add_client)
next
  case (no_connection found s e t)
  then have "t = s" using connect_first_leaks_nothing [OF no_connection.prems, of _ "Inl e" t]
    by (auto simp: socket_connect_def split: sum.splits)
  with no_connection.prems show ?case by simp
qed (auto intro: net_inv_listener_ready net_inv_remove_client net_inv_bind net_inv_unbind)

lemma fd_reachable_inv: "fd_step\<^sup>*\<^sup>* no_sockets s \<Longrightarrow> net_inv s"
  by (induction rule: rtranclp_induct) (auto intro: net_inv_none fd_step_inv)

text \<open>What the kernel returns is alive, when it returns it, and owns its descriptor.\<close>

lemma watched_alive:
  assumes "net_inv s" and "epoll = m_read_epoll s \<or> epoll = m_write_epoll s" and "wait_returns epoll ptrs" and "ptr \<in> set ptrs"
  shows "\<exists>ob. map_of (objects s) ptr = Some ob \<and> socket_fd ob \<in> set (open_fds s) \<and>
    (\<forall>p ob'. map_of (objects s) p = Some ob' \<and> socket_fd ob' = socket_fd ob \<longrightarrow> p = ptr)"
proof -
  obtain fd where "map_of epoll fd = Some ptr" using assms(3,4) unfolding wait_returns_def ran_def by blast
  with assms(2) net_invD(3,4) [OF assms(1), of fd ptr] obtain ob where
    ob: "map_of (objects s) ptr = Some ob" "socket_fd ob = fd" "fd \<in> set (open_fds s)" by auto
  have "p = ptr" if "map_of (objects s) p = Some ob'" "socket_fd ob' = socket_fd ob" for p ob'
    using net_invD(6) [OF assms(1) that(1) ob(1) that(2)] net_invD(1) [OF assms(1) ob(3)] ob(2) that(2) by simp
  with ob show ?thesis by blast
qed

text \<open>A listener that one handler of a batch unbinds is called by the same batch.\<close>

lemma unbind_destroys:
  "find_listener host port (objects s) = Some (ptr, fd) \<Longrightarrow> \<not> contains (objects (unbind_listener host port s)) ptr"
  by (simp add: unbind_listener_def destroy_def socket_destroyed_def sys_close_def)

lemma client_unbinds_run:
  assumes "0 < port" and "port \<le> 65535" and "(host, nat port) \<in> set (m_listeners st)" and "length (m_listeners st) \<noteq> 1"
    and "(host, nat port) \<noteq> (m_host st, m_cluster_port st)"
  shows "\<exists>st'. client_unbinds host port ss (s, st) = (Inr (), unbind_listener host (nat port) s, st')"
proof -
  have "removeAll (host, nat port) (m_listeners st) \<noteq> m_listeners st"
    using assms(3) by (metis set_removeAll Diff_iff singletonI)
  with assms show ?thesis by (auto simp: client_unbinds_def request_unbind_op_def validate_port_def op_simps)
qed

text \<open>A connection that could not be accepted is registered all the same, which fails.\<close>

lemma failed_accept:
  assumes "net_inv s" and "m_fd \<ge> 0"
  shows "fst (listener_ready m_fd (- 1) s) = Inl (SocketError ''Could not add client to epoll'')"
  using assms net_invD(1) [OF assms(1), of "- 1"]
  by (auto simp: listener_ready_def server_accept_def add_tcp_client_def new_object_def epoll_add_def)

text \<open>The length of a message arrives, its body not yet: \<^verbatim>\<open>EAGAIN\<close> is an exception in \<^verbatim>\<open>SocketReader::read\<close>.\<close>

lemma stalled_read:
  assumes "0 < length m" and "length m < 2 ^ 32" and "drop (spos s) (stream s) = take 4 (frame m)"
    and "avail s (spos s) \<ge> 4" and "\<not> closed s" and "m_message_left r = 0"
  shows "fst (reader_read r s) = Inl (SocketError ''Could not read from the socket'')"
proof -
  have size: "take 4 (frame m) = htonl (length m)" "htonl (length m) \<noteq> []" by (simp_all add: frame_def htonl_def)
  have rest: "drop (spos s + 4) (stream s) = []"
    using assms(3) by (metis drop_drop add.commute length_htonl size(1) drop_all order_refl)
  have "read_size r s = (Inr True, \<lparr>rd_message = resize (length m) (rd_message r), m_message_left = length m\<rparr>, s\<lparr>spos := spos s + 4\<rparr>)"
    using assms size by (simp add: read_size_def socket_read_def Let_def min_def resize_def ntohl_htonl)
  moreover have "fst (read_message \<lparr>rd_message = x, m_message_left = length m\<rparr> (s\<lparr>spos := spos s + 4\<rparr>)) =
      Inl (SocketError ''Could not read from the socket'')" for x
    using assms(1,5) rest by (simp add: read_message_def socket_read_def Let_def)
  ultimately show ?thesis by (simp add: reader_read_def)
qed

end
