(* ===== verification/Logger.thy ===== *)
theory Logger
  imports Configuration Event_Server
begin

text \<open>
  \<^verbatim>\<open>vanity/utils/logger.h\<close> and \<^verbatim>\<open>vanity/signals.h\<close>: which messages are written to the log, and what a signal does.
  The text of the time is a parameter.
\<close>

section \<open>The log\<close>

record logger =
  m_log_file :: "string list option"
  m_log_level :: LogLevel

primrec level_rank :: "LogLevel \<Rightarrow> nat" where
  "level_rank level_DEBUG = 0"
| "level_rank level_INFO = 1"
| "level_rank level_WARNING = 2"
| "level_rank level_ERROR = 3"
| "level_rank level_CRITICAL = 4"
| "level_rank level_DISABLED = 5"

primrec log_level_str :: "LogLevel \<Rightarrow> string" where
  "log_level_str level_DEBUG = ''DEBUG''"
| "log_level_str level_INFO = ''INFO''"
| "log_level_str level_WARNING = ''WARNING''"
| "log_level_str level_ERROR = ''ERROR''"
| "log_level_str level_CRITICAL = ''CRITICAL''"
| "log_level_str level_DISABLED = ''DISABLED''"

text \<open>The file is opened to append to it, and only if there is something to log.\<close>

definition new_logger :: "string list \<Rightarrow> LogLevel \<Rightarrow> logger" where
  "new_logger lines level = \<lparr>m_log_file = (if level \<noteq> level_DISABLED then Some lines else None), m_log_level = level\<rparr>"

definition set_log_level :: "LogLevel \<Rightarrow> logger \<Rightarrow> logger" where
  "set_log_level level l = (if m_log_level l \<noteq> level_DISABLED then l\<lparr>m_log_level := level\<rparr> else l)"

text \<open>What is written to a stream without a file is lost.\<close>

definition log_message :: "string \<Rightarrow> string \<Rightarrow> LogLevel \<Rightarrow> logger \<Rightarrow> logger" where
  "log_message time msg level l =
     (if level_rank level < level_rank (m_log_level l) \<or> m_log_level l = level_DISABLED then l
      else l\<lparr>m_log_file := map_option (\<lambda>lines. lines @ [time @ log_level_str level @ '': '' @ msg]) (m_log_file l)\<rparr>)"

datatype log_call = Set_Level LogLevel | Log string string LogLevel

fun log_step :: "log_call \<Rightarrow> logger \<Rightarrow> logger" where
  "log_step (Set_Level level) l = set_log_level level l"
| "log_step (Log time msg level) l = log_message time msg level l"

text \<open>Logging that is disabled stays disabled, and a file once opened only grows.\<close>

lemma disabled_log_silent: "fold log_step cs (new_logger lines level_DISABLED) = new_logger lines level_DISABLED"
proof (induction cs)
  case (Cons c cs)
  have "log_step c (new_logger lines level_DISABLED) = new_logger lines level_DISABLED"
    by (cases c) (simp_all add: new_logger_def set_log_level_def log_message_def)
  with Cons show ?case by simp
qed simp

lemma log_only_grows: "m_log_file l = Some lines \<Longrightarrow> \<exists>more. m_log_file (fold log_step cs l) = Some (lines @ more)"
proof (induction cs arbitrary: l lines)
  case (Cons c cs)
  have "\<exists>more. m_log_file (log_step c l) = Some (lines @ more)"
    using Cons.prems by (cases c) (simp_all add: set_log_level_def log_message_def)
  then show ?case using Cons.IH by fastforce
qed simp

lemma message_logged:
  assumes "m_log_file l = Some lines" and "m_log_level l \<noteq> level_DISABLED"
  shows "m_log_file (log_message time msg level l) =
    Some (if level_rank (m_log_level l) \<le> level_rank level then lines @ [time @ log_level_str level @ '': '' @ msg] else lines)"
  using assms by (auto simp: log_message_def)

section \<open>Signals\<close>

datatype signal = SIGINT | SIGTERM | Other_Signal

text \<open>\<^verbatim>\<open>handle\<close>: without a value the process ends at once.\<close>

definition handle_signal :: "bool \<Rightarrow> signal \<Rightarrow> event_system \<Rightarrow> event_system option" where
  "handle_signal server_set sg s =
     (if \<not> server_set then None
      else case sg of SIGINT \<Rightarrow> Some (push_event terminate_event s) | SIGTERM \<Rightarrow> Some (push_event terminate_event s) | Other_Signal \<Rightarrow> None)"

text \<open>Handlers are installed for two signals.\<close>

definition installed :: "signal \<Rightarrow> bool" where
  "installed sg \<longleftrightarrow> sg = SIGINT \<or> sg = SIGTERM"

lemma signal_is_step: "installed sg \<Longrightarrow> \<exists>s'. handle_signal True sg s = Some s' \<and> server_step s s'"
  by (auto simp: installed_def handle_signal_def intro: server_step.signalled)

end
