(* ===== verification/Hash_Mix.thy ===== *)
theory Hash_Mix
  imports Main "HOL-Library.Word"
begin

unbundle bit_operations_syntax

text \<open>
  \<^verbatim>\<open>vanity/utils/hash.h\<close>: the hash of a pair, by which the listeners of the server are found. Which bucket a key falls into
  shows in nothing but the speed; what the mixing has to do for that is to lose nothing: it is a bijection of
  the 64 bit numbers, and for a given first component pairs collide only where the hashes of their second components do.
\<close>

definition hash_mix_64 :: "64 word \<Rightarrow> 64 word" where
  "hash_mix_64 x =
     (let m = 0xe9846af9b1a615d;
          x = x XOR drop_bit 32 x;
          x = x * m;
          x = x XOR drop_bit 32 x;
          x = x * m;
          x = x XOR drop_bit 28 x
      in x)"

definition hash_mix_32 :: "32 word \<Rightarrow> 32 word" where
  "hash_mix_32 x =
     (let m1 = 0x21f0aaad;
          m2 = 0x735a2d97;
          x = x XOR drop_bit 16 x;
          x = x * m1;
          x = x XOR drop_bit 15 x;
          x = x * m2;
          x = x XOR drop_bit 15 x
      in x)"

text \<open>On a machine whose \<^verbatim>\<open>size_t\<close> has 64 bits; \<open>h\<close> is \<^verbatim>\<open>std::hash\<close> of the component.\<close>

definition hash_combine :: "('a \<Rightarrow> 64 word) \<Rightarrow> 64 word \<Rightarrow> 'a \<Rightarrow> 64 word" where
  "hash_combine h seed v = hash_mix_64 (seed + 0x9e3779b9 + h v)"

definition hash_value :: "('a \<Rightarrow> 64 word) \<Rightarrow> ('b \<Rightarrow> 64 word) \<Rightarrow> 'a \<times> 'b \<Rightarrow> 64 word" where
  "hash_value h h' v =
     (let seed = 0;
          seed = hash_combine h seed (fst v);
          seed = hash_combine h' seed (snd v)
      in seed)"

section \<open>Nothing is lost\<close>

text \<open>From \<open>x XOR drop_bit n x\<close> the bits of \<open>x\<close> can be read from the highest down.\<close>

lemma xor_shift_inj:
  assumes "0 < n" and "x XOR drop_bit n x = y XOR drop_bit n y"
  shows "x = (y :: 'a :: len word)"
proof (rule bit_word_eqI)
  have step: "bit x k = bit y k" if "bit x (k + n) = bit y (k + n)" for k
  proof -
    have "bit (x XOR drop_bit n x) k = bit (y XOR drop_bit n y) k" by (simp only: assms(2))
    with that show ?thesis by (auto simp: bit_simps add.commute)
  qed
  fix k
  show "bit x k = bit y k"
  proof (induction "LENGTH('a) - k" arbitrary: k rule: less_induct)
    case less
    show ?case
    proof (cases "k < LENGTH('a)")
      case True
      then have "LENGTH('a) - (k + n) < LENGTH('a) - k" using assms(1) by simp
      then have "bit x (k + n) = bit y (k + n)" by (rule less)
      then show ?thesis by (rule step)
    next
      case False
      then show ?thesis by (simp add: impossible_bit)
    qed
  qed
qed

lemma mult_odd_inj:
  assumes "m * i = 1" and "x * m = y * m"
  shows "x = (y :: 'a :: len word)"
proof -
  have "x * (m * i) = y * (m * i)" using assms(2) by (simp flip: mult.assoc)
  then show ?thesis by (simp add: assms(1))
qed

lemma inj_xor_shift: "0 < n \<Longrightarrow> inj (\<lambda>x :: 'a :: len word. x XOR drop_bit n x)"
  using xor_shift_inj by (auto intro: injI)

lemma inj_mult_odd: "m * i = 1 \<Longrightarrow> inj (\<lambda>x. x * m)" for m i :: "'a :: len word"
  by (rule injI) (rule mult_odd_inj)

lemma hash_mix_64_inj: "inj hash_mix_64"
proof -
  have mult: "inj (\<lambda>x :: 64 word. x * 0xe9846af9b1a615d)" by (rule inj_mult_odd [of _ "0x153ed04bd89cfaf5"]) simp
  have shift: "inj (\<lambda>x :: 64 word. x XOR drop_bit 32 x)" "inj (\<lambda>x :: 64 word. x XOR drop_bit 28 x)" by (rule inj_xor_shift; simp)+
  show ?thesis
    using inj_compose [OF shift(2) inj_compose [OF mult inj_compose [OF shift(1) inj_compose [OF mult shift(1)]]]]
    by (simp only: hash_mix_64_def [abs_def] o_def Let_def)
qed

lemma hash_mix_32_inj: "inj hash_mix_32"
proof -
  have mult: "inj (\<lambda>x :: 32 word. x * 0x21f0aaad)" "inj (\<lambda>x :: 32 word. x * 0x735a2d97)"
    by (rule inj_mult_odd [of _ "0x333c4925"], simp) (rule inj_mult_odd [of _ "0x97132227"], simp)
  have shift: "inj (\<lambda>x :: 32 word. x XOR drop_bit 16 x)" "inj (\<lambda>x :: 32 word. x XOR drop_bit 15 x)" by (rule inj_xor_shift; simp)+
  show ?thesis
    using inj_compose [OF shift(2) inj_compose [OF mult(2) inj_compose [OF shift(2) inj_compose [OF mult(1) shift(1)]]]]
    by (simp only: hash_mix_32_def [abs_def] o_def Let_def)
qed

lemma hash_value_collision: "hash_value h h' (a, b) = hash_value h h' (a, c) \<longleftrightarrow> h' b = h' c"
  by (simp add: hash_value_def hash_combine_def inj_eq [OF hash_mix_64_inj])

end
