(* ===== verification/Shared_Queue.thy ===== *)
theory Shared_Queue
  imports Event_Server
begin

text \<open>
  How \<^verbatim>\<open>utils/queue.h\<close> and \<^verbatim>\<open>utils/event.h\<close> make their calls atomic: a mutex, a condition variable, and threads that are stopped at
  every point where they may be. A state holds the owner of the mutex and where in which method each thread is;
  the kernel may wake a waiting thread without a reason. What \<open>Event_Server\<close> takes for one step is shown to be one here, and that no
  wake-up is lost: threads that are in \<^verbatim>\<open>get\<close> come out of it as long as there are elements, and threads in \<^verbatim>\<open>wait\<close> once
  the flag is set. The variants of \<^verbatim>\<open>get\<close> and \<^verbatim>\<open>wait\<close> of the queue with a timeout are called nowhere and left out.
\<close>

section \<open>The queue\<close>

datatype 'a queue_thread =
    Idle
  | Get_Start | Get_Locked | Get_Waiting | Get_Woken | Got 'a
  | Push_Start 'a | Push_Locked 'a | Push_Notify
  | Clear_Start | Clear_Locked

record 'a shared_queue =
  m_queue :: "'a list"
  q_mutex :: "nat option"
  q_threads :: "'a queue_thread list"

definition new_queue :: "nat \<Rightarrow> 'a shared_queue" where
  "new_queue n = \<lparr>m_queue = [], q_mutex = None, q_threads = replicate n Idle\<rparr>"

definition set_thread :: "nat \<Rightarrow> 'a queue_thread \<Rightarrow> 'a shared_queue \<Rightarrow> 'a shared_queue" where
  "set_thread i p s = s\<lparr>q_threads := (q_threads s)[i := p]\<rparr>"

text \<open>What a thread that is inside a method does next. To wait on the condition variable releases the mutex in the same step; a thread
  that is woken takes the mutex again and looks again whether the queue is empty.\<close>

inductive queue_run :: "'a shared_queue \<Rightarrow> 'a shared_queue \<Rightarrow> bool" where
  get_locks: "\<lbrakk>i < length (q_threads s); q_threads s ! i = Get_Start \<or> q_threads s ! i = Get_Woken; q_mutex s = None\<rbrakk> \<Longrightarrow>
    queue_run s (set_thread i Get_Locked (s\<lparr>q_mutex := Some i\<rparr>))"
| get_waits: "\<lbrakk>i < length (q_threads s); q_threads s ! i = Get_Locked; queue_get (m_queue s) = None\<rbrakk> \<Longrightarrow>
    queue_run s (set_thread i Get_Waiting (s\<lparr>q_mutex := None\<rparr>))"
| get_takes: "\<lbrakk>i < length (q_threads s); q_threads s ! i = Get_Locked; queue_get (m_queue s) = Some (x, q)\<rbrakk> \<Longrightarrow>
    queue_run s (set_thread i (Got x) (s\<lparr>m_queue := q, q_mutex := None\<rparr>))"
| push_locks: "\<lbrakk>i < length (q_threads s); q_threads s ! i = Push_Start x; q_mutex s = None\<rbrakk> \<Longrightarrow>
    queue_run s (set_thread i (Push_Locked x) (s\<lparr>q_mutex := Some i\<rparr>))"
| push_adds: "\<lbrakk>i < length (q_threads s); q_threads s ! i = Push_Locked x\<rbrakk> \<Longrightarrow>
    queue_run s (set_thread i Push_Notify (s\<lparr>m_queue := queue_push x (m_queue s), q_mutex := None\<rparr>))"
| push_notifies: "\<lbrakk>i < length (q_threads s); q_threads s ! i = Push_Notify; j < length (q_threads s); q_threads s ! j = Get_Waiting\<rbrakk> \<Longrightarrow>
    queue_run s (set_thread j Get_Woken (set_thread i Idle s))"
| push_nobody: "\<lbrakk>i < length (q_threads s); q_threads s ! i = Push_Notify; Get_Waiting \<notin> set (q_threads s)\<rbrakk> \<Longrightarrow>
    queue_run s (set_thread i Idle s)"
| clear_locks: "\<lbrakk>i < length (q_threads s); q_threads s ! i = Clear_Start; q_mutex s = None\<rbrakk> \<Longrightarrow>
    queue_run s (set_thread i Clear_Locked (s\<lparr>q_mutex := Some i\<rparr>))"
| clear_pops: "\<lbrakk>i < length (q_threads s); q_threads s ! i = Clear_Locked\<rbrakk> \<Longrightarrow>
    queue_run s (set_thread i Idle (s\<lparr>m_queue := queue_clear (m_queue s), q_mutex := None\<rparr>))"

text \<open>Calls and returns, and wake-ups without a reason.\<close>

inductive queue_step :: "'a shared_queue \<Rightarrow> 'a shared_queue \<Rightarrow> bool" where
  queue_runs: "queue_run s t \<Longrightarrow> queue_step s t"
| queue_called: "\<lbrakk>i < length (q_threads s); q_threads s ! i = Idle; p = Get_Start \<or> p = Push_Start x \<or> p = Clear_Start\<rbrakk> \<Longrightarrow>
    queue_step s (set_thread i p s)"
| get_returns: "\<lbrakk>i < length (q_threads s); q_threads s ! i = Got x\<rbrakk> \<Longrightarrow> queue_step s (set_thread i Idle s)"
| spurious: "\<lbrakk>i < length (q_threads s); q_threads s ! i = Get_Waiting\<rbrakk> \<Longrightarrow> queue_step s (set_thread i Get_Woken s)"

inductive_cases queue_runE: "queue_run s t"

text \<open>The mutex is held by the thread that is between lock and unlock. A thread waits while there are elements only if as many threads as
  there are elements are on their way to take or to wake.\<close>

fun has_lock :: "'a queue_thread \<Rightarrow> bool" where
  "has_lock Get_Locked \<longleftrightarrow> True"
| "has_lock (Push_Locked x) \<longleftrightarrow> True"
| "has_lock Clear_Locked \<longleftrightarrow> True"
| "has_lock _ \<longleftrightarrow> False"

fun on_the_way :: "'a queue_thread \<Rightarrow> bool" where
  "on_the_way Get_Start \<longleftrightarrow> True"
| "on_the_way Get_Locked \<longleftrightarrow> True"
| "on_the_way Get_Woken \<longleftrightarrow> True"
| "on_the_way Push_Notify \<longleftrightarrow> True"
| "on_the_way _ \<longleftrightarrow> False"

definition mutex_inv :: "nat option \<Rightarrow> bool list \<Rightarrow> bool" where
  "mutex_inv m hs \<longleftrightarrow> (\<forall>i < length hs. hs ! i \<longleftrightarrow> m = Some i) \<and> (\<forall>i. m = Some i \<longrightarrow> i < length hs)"

definition queue_inv :: "'a shared_queue \<Rightarrow> bool" where
  "queue_inv s \<longleftrightarrow> mutex_inv (q_mutex s) (map has_lock (q_threads s)) \<and>
     (Get_Waiting \<in> set (q_threads s) \<longrightarrow> length (m_queue s) \<le> length (filter on_the_way (q_threads s)))"

lemma mutex_inv_lock: "mutex_inv None hs \<Longrightarrow> i < length hs \<Longrightarrow> mutex_inv (Some i) (hs[i := True])"
  by (auto simp: mutex_inv_def nth_list_update)

lemma mutex_inv_unlock: "mutex_inv m hs \<Longrightarrow> i < length hs \<Longrightarrow> hs ! i \<Longrightarrow> mutex_inv None (hs[i := False])"
  by (auto simp: mutex_inv_def nth_list_update)

lemma mutex_inv_other: "mutex_inv m hs \<Longrightarrow> hs ! i = h \<Longrightarrow> mutex_inv m (hs[i := h])"
  by (erule subst) simp

lemma length_filter_update:
  "i < length xs \<Longrightarrow> length (filter P (xs[i := y])) + (if P (xs ! i) then 1 else 0) = length (filter P xs) + (if P y then 1 else 0)"
proof (induction xs arbitrary: i)
  case (Cons x xs) then show ?case by (cases i) auto
qed simp

lemma sum_list_update_nat:
  fixes f :: "'b \<Rightarrow> nat"
  shows "i < length xs \<Longrightarrow> sum_list (map f (xs[i := y])) + f (xs ! i) = sum_list (map f xs) + f y"
proof (induction xs arbitrary: i)
  case (Cons x xs) then show ?case by (cases i) (auto simp: add.commute add.left_commute)
qed simp

lemma queue_inv_new: "queue_inv (new_queue n)"
  by (simp add: queue_inv_def new_queue_def mutex_inv_def)

lemmas mutex_inv_intros = mutex_inv_lock mutex_inv_unlock mutex_inv_other

lemma queue_run_mutex:
  "queue_run s t \<Longrightarrow> mutex_inv (q_mutex s) (map has_lock (q_threads s)) \<Longrightarrow> mutex_inv (q_mutex t) (map has_lock (q_threads t))"
proof (induction rule: queue_run.induct)
  case (push_notifies i s j)
  then have "i \<noteq> j" by auto
  with push_notifies show ?case by (auto simp: set_thread_def map_update intro!: mutex_inv_other)
qed (auto simp: set_thread_def map_update intro: mutex_inv_intros)

lemma queue_run_wakes:
  assumes "queue_run s t" and "Get_Waiting \<in> set (q_threads s) \<longrightarrow> length (m_queue s) \<le> length (filter on_the_way (q_threads s))"
    and "Get_Waiting \<in> set (q_threads t)"
  shows "length (m_queue t) \<le> length (filter on_the_way (q_threads t))"
  using assms
proof (induction rule: queue_run.induct)
  case (get_locks i s)
  then show ?case using length_filter_update [of i "q_threads s" on_the_way Get_Locked] by (auto simp: set_thread_def dest!: in_update)
next
  case (get_waits i s)
  then show ?case by (simp add: set_thread_def queue_get_def split: list.splits)
next
  case (get_takes i s x q)
  then show ?case using length_filter_update [of i "q_threads s" on_the_way "Got x"]
    by (auto simp: set_thread_def queue_get_def dest!: in_update split: list.splits)
next
  case (push_locks i s x)
  then show ?case using length_filter_update [of i "q_threads s" on_the_way "Push_Locked x"] by (auto simp: set_thread_def dest!: in_update)
next
  case (push_adds i s x)
  then show ?case using length_filter_update [of i "q_threads s" on_the_way Push_Notify]
    by (auto simp: set_thread_def queue_push_def dest!: in_update)
next
  case (push_notifies i s j)
  then have "i \<noteq> j" "Get_Waiting \<in> set (q_threads s)" by (auto, metis nth_mem, metis nth_mem)
  then show ?case
    using push_notifies length_filter_update [of i "q_threads s" on_the_way Idle]
      length_filter_update [of j "(q_threads s)[i := Idle]" on_the_way Get_Woken] by (simp add: set_thread_def)
next
  case (push_nobody i s)
  then show ?case by (auto simp: set_thread_def dest!: in_update)
next
  case (clear_locks i s)
  then show ?case using length_filter_update [of i "q_threads s" on_the_way Clear_Locked] by (auto simp: set_thread_def dest!: in_update)
next
  case (clear_pops i s)
  then show ?case by (simp add: set_thread_def queue_clear_def)
qed

lemma queue_inv_step: "queue_step s t \<Longrightarrow> queue_inv s \<Longrightarrow> queue_inv t"
proof (induction rule: queue_step.induct)
  case (queue_runs s t)
  then show ?case using queue_run_mutex queue_run_wakes by (auto simp: queue_inv_def)
next
  case (queue_called i s p x)
  then show ?case using length_filter_update [of i "q_threads s" on_the_way p]
    by (auto simp: queue_inv_def set_thread_def map_update intro!: mutex_inv_other dest!: in_update)
next
  case (get_returns i s x)
  then show ?case using length_filter_update [of i "q_threads s" on_the_way Idle]
    by (auto simp: queue_inv_def set_thread_def map_update intro!: mutex_inv_other dest!: in_update)
next
  case (spurious i s)
  then have "Get_Waiting \<in> set (q_threads s)" by (metis nth_mem)
  with spurious show ?case using length_filter_update [of i "q_threads s" on_the_way Get_Woken]
    by (auto simp: queue_inv_def set_thread_def map_update intro!: mutex_inv_other)
qed

lemma queue_reachable_inv: "queue_step\<^sup>*\<^sup>* (new_queue n) s \<Longrightarrow> queue_inv s"
  by (induction rule: rtranclp_induct) (auto intro: queue_inv_new queue_inv_step)

text \<open>Every step leaves the contents alone or is one of the three atomic operations.\<close>

lemma queue_step_atomic:
  "queue_step s t \<Longrightarrow>
     m_queue t = m_queue s \<or> (\<exists>x. m_queue t = queue_push x (m_queue s)) \<or> (\<exists>x. queue_get (m_queue s) = Some (x, m_queue t)) \<or>
     m_queue t = queue_clear (m_queue s)"
  by (induction rule: queue_step.induct) (auto simp: set_thread_def elim!: queue_runE)

text \<open>The steps that the threads inside the methods can still make.\<close>

fun steps_left :: "'a queue_thread \<Rightarrow> nat" where
  "steps_left Get_Locked = 1"
| "steps_left Get_Start = 2"
| "steps_left Get_Woken = 2"
| "steps_left Push_Notify = 3"
| "steps_left (Push_Locked x) = 4"
| "steps_left (Push_Start x) = 5"
| "steps_left Clear_Locked = 1"
| "steps_left Clear_Start = 2"
| "steps_left _ = 0"

definition queue_work :: "'a shared_queue \<Rightarrow> nat" where
  "queue_work s = sum_list (map steps_left (q_threads s))"

lemma queue_work_set: "i < length (q_threads s) \<Longrightarrow> queue_work (set_thread i p s) + steps_left (q_threads s ! i) = queue_work s + steps_left p"
  by (simp add: queue_work_def set_thread_def sum_list_update_nat)

lemma queue_work_decreases: "queue_run s t \<Longrightarrow> queue_work t < queue_work s"
proof (induction rule: queue_run.induct)
  case (push_notifies i s j)
  then have "i \<noteq> j" by auto
  then show ?case using push_notifies queue_work_set [of i s Idle] queue_work_set [of j "set_thread i Idle s" Get_Woken]
    by (simp add: set_thread_def)
next
  case (get_locks i s)
  then show ?case using queue_work_set [of i "s\<lparr>q_mutex := Some i\<rparr>" Get_Locked] by (auto simp: queue_work_def)
next
  case (get_waits i s)
  then show ?case using queue_work_set [of i "s\<lparr>q_mutex := None\<rparr>" Get_Waiting] by (simp add: queue_work_def)
next
  case (get_takes i s x q)
  then show ?case using queue_work_set [of i "s\<lparr>m_queue := q, q_mutex := None\<rparr>" "Got x"] by (simp add: queue_work_def)
next
  case (push_locks i s x)
  then show ?case using queue_work_set [of i "s\<lparr>q_mutex := Some i\<rparr>" "Push_Locked x"] by (simp add: queue_work_def)
next
  case (push_adds i s x)
  then show ?case using queue_work_set [of i "s\<lparr>m_queue := queue_push x (m_queue s), q_mutex := None\<rparr>" Push_Notify] by (simp add: queue_work_def)
next
  case (push_nobody i s)
  then show ?case using queue_work_set [of i s Idle] by simp
next
  case (clear_locks i s)
  then show ?case using queue_work_set [of i "s\<lparr>q_mutex := Some i\<rparr>" Clear_Locked] by (simp add: queue_work_def)
next
  case (clear_pops i s)
  then show ?case using queue_work_set [of i "s\<lparr>m_queue := queue_clear (m_queue s), q_mutex := None\<rparr>" Idle] by (simp add: queue_work_def)
qed

text \<open>Where nobody can go on the queue is empty, or nobody is inside a method.\<close>

lemma lock_owner_runs:
  assumes "i < length (q_threads s)" and "has_lock (q_threads s ! i)"
  shows "\<exists>u. queue_run s u"
proof (cases "q_threads s ! i")
  case Get_Locked
  show ?thesis
  proof (cases "queue_get (m_queue s)")
    case None with Get_Locked assms(1) show ?thesis by (blast intro: queue_run.get_waits)
  next
    case (Some xq) with Get_Locked assms(1) show ?thesis by (cases xq) (blast intro: queue_run.get_takes)
  qed
next
  case (Push_Locked x) with assms(1) show ?thesis by (blast intro: queue_run.push_adds)
next
  case Clear_Locked with assms(1) show ?thesis by (blast intro: queue_run.clear_pops)
qed (use assms(2) in simp_all)

lemma notifier_runs: "i < length (q_threads s) \<Longrightarrow> q_threads s ! i = Push_Notify \<Longrightarrow> \<exists>u. queue_run s u"
  using queue_run.push_nobody [of i s] queue_run.push_notifies [of i s] by (metis in_set_conv_nth)

lemma queue_blocked_thread:
  assumes "\<nexists>u. queue_run s u" and "queue_inv s" and "p \<in> set (q_threads s)"
  shows "p = Idle \<or> p = Get_Waiting \<or> (\<exists>x. p = Got x)"
proof -
  have lock: "q_mutex s = None"
    using assms(1,2) lock_owner_runs [of "the (q_mutex s)" s] by (cases "q_mutex s") (auto simp: queue_inv_def mutex_inv_def)
  from assms(3) obtain i where i: "i < length (q_threads s)" "q_threads s ! i = p" by (auto simp: in_set_conv_nth)
  show ?thesis
  proof (cases p)
    case Get_Start with assms(1) i lock show ?thesis by (blast intro: queue_run.get_locks)
  next
    case Get_Woken with assms(1) i lock show ?thesis by (blast intro: queue_run.get_locks)
  next
    case (Push_Start x) with assms(1) i lock show ?thesis by (blast intro: queue_run.push_locks)
  next
    case Clear_Start with assms(1) i lock show ?thesis by (blast intro: queue_run.clear_locks)
  next
    case Push_Notify with assms(1) i notifier_runs show ?thesis by blast
  qed (use assms(1) i lock_owner_runs [of i s] in auto)
qed

lemma queue_blocked_empty:
  assumes "\<nexists>u. queue_run s u" and "queue_inv s"
  shows "m_queue s = [] \<or> (\<forall>p \<in> set (q_threads s). p = Idle \<or> (\<exists>x. p = Got x))"
proof (cases "Get_Waiting \<in> set (q_threads s)")
  case True
  have "filter on_the_way (q_threads s) = []"
    using queue_blocked_thread [OF assms] by (fastforce simp: filter_empty_conv)
  with True assms(2) show ?thesis by (simp add: queue_inv_def)
next
  case False
  then show ?thesis using queue_blocked_thread [OF assms] by blast
qed

section \<open>The flag\<close>

text \<open>\<^verbatim>\<open>Event\<close>: a thread that waits does so with or without a limit of time (\<open>timed\<close>); one whose time is over returns what the flag is
  then. \<^verbatim>\<open>notify_all\<close> wakes all that wait.\<close>

datatype event_thread =
    Outside
  | Wait_Start bool | Wait_Locked bool | Wait_Waiting bool | Wait_Woken bool | Wait_Late | Late_Locked | Waited bool
  | Set_Start | Set_Locked | Set_Notify
  | Reset_Start | Reset_Locked

record shared_event =
  m_state :: bool
  e_mutex :: "nat option"
  e_threads :: "event_thread list"

definition new_event :: "nat \<Rightarrow> shared_event" where
  "new_event n = \<lparr>m_state = False, e_mutex = None, e_threads = replicate n Outside\<rparr>"

definition set_ethread :: "nat \<Rightarrow> event_thread \<Rightarrow> shared_event \<Rightarrow> shared_event" where
  "set_ethread i p s = s\<lparr>e_threads := (e_threads s)[i := p]\<rparr>"

fun wake_up :: "event_thread \<Rightarrow> event_thread" where
  "wake_up (Wait_Waiting timed) = Wait_Woken timed"
| "wake_up p = p"

text \<open>The five places where a thread asks for the mutex, with where it is once it has it; and what it does before it unlocks.\<close>

fun locked_form :: "event_thread \<Rightarrow> event_thread option" where
  "locked_form (Wait_Start timed) = Some (Wait_Locked timed)"
| "locked_form (Wait_Woken timed) = Some (Wait_Locked timed)"
| "locked_form Wait_Late = Some Late_Locked"
| "locked_form Set_Start = Some Set_Locked"
| "locked_form Reset_Start = Some Reset_Locked"
| "locked_form _ = None"

fun unlocked_form :: "bool \<Rightarrow> event_thread \<Rightarrow> (bool \<times> event_thread) option" where
  "unlocked_form st (Wait_Locked timed) = Some (st, if st then Waited True else Wait_Waiting timed)"
| "unlocked_form st Late_Locked = Some (st, Waited st)"
| "unlocked_form st Set_Locked = Some (True, Set_Notify)"
| "unlocked_form st Reset_Locked = Some (False, Outside)"
| "unlocked_form st _ = None"

inductive event_run :: "shared_event \<Rightarrow> shared_event \<Rightarrow> bool" where
  event_locks: "\<lbrakk>i < length (e_threads s); locked_form (e_threads s ! i) = Some p; e_mutex s = None\<rbrakk> \<Longrightarrow>
    event_run s (set_ethread i p (s\<lparr>e_mutex := Some i\<rparr>))"
| event_unlocks: "\<lbrakk>i < length (e_threads s); unlocked_form (m_state s) (e_threads s ! i) = Some (st, p)\<rbrakk> \<Longrightarrow>
    event_run s (set_ethread i p (s\<lparr>m_state := st, e_mutex := None\<rparr>))"
| event_notifies: "\<lbrakk>i < length (e_threads s); e_threads s ! i = Set_Notify\<rbrakk> \<Longrightarrow>
    event_run s (s\<lparr>e_threads := map wake_up ((e_threads s)[i := Outside])\<rparr>)"

inductive event_step :: "shared_event \<Rightarrow> shared_event \<Rightarrow> bool" where
  event_runs: "event_run s t \<Longrightarrow> event_step s t"
| event_called: "\<lbrakk>i < length (e_threads s); e_threads s ! i = Outside; p = Wait_Start timed \<or> p = Set_Start \<or> p = Reset_Start\<rbrakk> \<Longrightarrow>
    event_step s (set_ethread i p s)"
| wait_returns_value: "\<lbrakk>i < length (e_threads s); e_threads s ! i = Waited b\<rbrakk> \<Longrightarrow> event_step s (set_ethread i Outside s)"
| event_spurious: "\<lbrakk>i < length (e_threads s); e_threads s ! i = Wait_Waiting timed\<rbrakk> \<Longrightarrow> event_step s (set_ethread i (Wait_Woken timed) s)"
| event_timeout: "\<lbrakk>i < length (e_threads s); e_threads s ! i = Wait_Waiting True\<rbrakk> \<Longrightarrow> event_step s (set_ethread i Wait_Late s)"

definition waiting :: "event_thread \<Rightarrow> bool" where
  "waiting p \<longleftrightarrow> (\<exists>timed. p = Wait_Waiting timed)"

definition has_elock :: "event_thread \<Rightarrow> bool" where
  "has_elock p \<longleftrightarrow> unlocked_form True p \<noteq> None"

text \<open>Threads wait while the flag is set only if one is about to wake them.\<close>

definition event_inv :: "shared_event \<Rightarrow> bool" where
  "event_inv s \<longleftrightarrow> mutex_inv (e_mutex s) (map has_elock (e_threads s)) \<and>
     (m_state s \<and> (\<exists>p \<in> set (e_threads s). waiting p) \<longrightarrow> Set_Notify \<in> set (e_threads s))"

lemma event_forms:
  "locked_form p = Some p' \<Longrightarrow> has_elock p' \<and> \<not> has_elock p \<and> \<not> waiting p' \<and> p \<noteq> Set_Notify \<and> p' \<noteq> Set_Notify"
  "unlocked_form st p = Some (st', p') \<Longrightarrow> has_elock p \<and> \<not> has_elock p' \<and> p \<noteq> Set_Notify \<and> (waiting p' \<longrightarrow> \<not> st') \<and>
     (st' \<longrightarrow> st \<or> p' = Set_Notify)"
  "unlocked_form st p = None \<longleftrightarrow> \<not> has_elock p"
  by (cases p; auto simp: has_elock_def waiting_def split: if_splits)+

lemma wake_up_forms: "has_elock (wake_up p) = has_elock p" "\<not> waiting (wake_up p)"
  by (cases p; simp add: has_elock_def waiting_def)+

lemma kept_by_update: "x \<in> set xs \<Longrightarrow> xs ! i \<noteq> x \<Longrightarrow> x \<in> set (xs[i := y])"
  by (metis in_set_conv_nth length_list_update nth_list_update_neq)

lemma event_inv_run: "event_run s t \<Longrightarrow> event_inv s \<Longrightarrow> event_inv t"
proof (induction rule: event_run.induct)
  case (event_locks i s p)
  note f = event_forms(1) [OF event_locks(2)]
  have "mutex_inv (Some i) (map has_elock ((e_threads s)[i := p]))"
    using event_locks f mutex_inv_lock [of "map has_elock (e_threads s)" i] by (simp add: event_inv_def map_update)
  moreover have "Set_Notify \<in> set ((e_threads s)[i := p])" if "m_state s" "\<exists>q \<in> set ((e_threads s)[i := p]). waiting q"
    using that event_locks(4) f by (auto simp: event_inv_def intro!: kept_by_update dest!: in_update)
  ultimately show ?case by (simp add: event_inv_def set_ethread_def)
next
  case (event_unlocks i s st p)
  note f = event_forms(2) [OF event_unlocks(2)]
  have "mutex_inv None (map has_elock ((e_threads s)[i := p]))"
    using event_unlocks f mutex_inv_unlock [of "e_mutex s" "map has_elock (e_threads s)" i] by (simp add: event_inv_def map_update)
  moreover have "Set_Notify \<in> set ((e_threads s)[i := p])" if "st" "\<exists>q \<in> set ((e_threads s)[i := p]). waiting q"
  proof (cases "p = Set_Notify")
    case True with event_unlocks(1) show ?thesis by (simp add: set_update_memI)
  next
    case False
    with that f event_unlocks(3) show ?thesis by (auto simp: event_inv_def intro!: kept_by_update dest!: in_update)
  qed
  ultimately show ?case by (simp add: event_inv_def set_ethread_def)
next
  case (event_notifies i s)
  have "has_elock Outside = has_elock Set_Notify" by (simp add: has_elock_def)
  with event_notifies have "mutex_inv (e_mutex s) (map has_elock ((e_threads s)[i := Outside]))"
    by (auto simp: event_inv_def map_update intro!: mutex_inv_other)
  then show ?case by (simp add: event_inv_def wake_up_forms o_def)
qed

lemma event_inv_set:
  assumes "event_inv s" and "i < length (e_threads s)" and "has_elock (e_threads s ! i) = has_elock p" and "waiting p \<longrightarrow> waiting (e_threads s ! i)"
    and "e_threads s ! i \<noteq> Set_Notify"
  shows "event_inv (set_ethread i p s)"
proof -
  have "mutex_inv (e_mutex s) (map has_elock ((e_threads s)[i := p]))"
    using assms(1-3) by (auto simp: event_inv_def map_update intro!: mutex_inv_other)
  moreover have "Set_Notify \<in> set ((e_threads s)[i := p])" if "m_state s" "\<exists>q \<in> set ((e_threads s)[i := p]). waiting q"
  proof -
    have "\<exists>q \<in> set (e_threads s). waiting q" using that(2) assms(2,4) by (auto dest!: in_update intro: nth_mem)
    with that(1) assms(1,5) show ?thesis by (auto simp: event_inv_def intro!: kept_by_update)
  qed
  ultimately show ?thesis by (simp add: event_inv_def set_ethread_def)
qed

lemma event_inv_step: "event_step s t \<Longrightarrow> event_inv s \<Longrightarrow> event_inv t"
  by (induction rule: event_step.induct)
     (auto intro: event_inv_run intro!: event_inv_set simp: has_elock_def waiting_def)

lemma event_inv_new: "event_inv (new_event n)"
  by (simp add: event_inv_def new_event_def mutex_inv_def has_elock_def)

lemma event_reachable_inv: "event_step\<^sup>*\<^sup>* (new_event n) s \<Longrightarrow> event_inv s"
  by (induction rule: rtranclp_induct) (auto intro: event_inv_new event_inv_step)

text \<open>Where nobody can go on the flag is not set, or nobody waits for it.\<close>

lemma event_blocked:
  assumes "\<nexists>u. event_run s u" and "event_inv s" and "m_state s" and "p \<in> set (e_threads s)"
  shows "p = Outside \<or> (\<exists>b. p = Waited b)"
proof -
  from assms(4) obtain i where i: "i < length (e_threads s)" "e_threads s ! i = p" by (auto simp: in_set_conv_nth)
  have "unlocked_form (m_state s) (e_threads s ! j) = None" if "j < length (e_threads s)" for j
    using assms(1) that event_run.event_unlocks [of j s] by (metis option.exhaust surj_pair)
  then have free: "\<not> has_elock (e_threads s ! j)" if "j < length (e_threads s)" for j using that event_forms(3) by blast
  with assms(2) have "e_mutex s = None" by (cases "e_mutex s") (auto simp: event_inv_def mutex_inv_def)
  then have "locked_form p = None" using assms(1) i event_run.event_locks [of i s] by (metis option.exhaust)
  moreover have "Set_Notify \<notin> set (e_threads s)" using assms(1) event_run.event_notifies by (auto simp: in_set_conv_nth)
  moreover from this have "\<not> waiting p" "p \<noteq> Set_Notify" using assms(2-4) by (auto simp: event_inv_def)
  moreover have "\<not> has_elock p" using free [OF i(1)] i(2) by simp
  ultimately show ?thesis by (cases p) (auto simp: waiting_def has_elock_def)
qed

text \<open>They cannot go on for ever either. A thread that wakes all others is worth the steps of them all.\<close>

fun esteps_left :: "nat \<Rightarrow> event_thread \<Rightarrow> nat" where
  "esteps_left n (Wait_Start timed) = 2"
| "esteps_left n (Wait_Woken timed) = 2"
| "esteps_left n (Wait_Locked timed) = 1"
| "esteps_left n Wait_Late = 2"
| "esteps_left n Late_Locked = 1"
| "esteps_left n Reset_Start = 2"
| "esteps_left n Reset_Locked = 1"
| "esteps_left n Set_Start = 2 * n + 3"
| "esteps_left n Set_Locked = 2 * n + 2"
| "esteps_left n Set_Notify = 2 * n + 1"
| "esteps_left n _ = 0"

definition event_work :: "shared_event \<Rightarrow> nat" where
  "event_work s = sum_list (map (esteps_left (length (e_threads s))) (e_threads s))"

lemma esteps_left_forms:
  "locked_form p = Some p' \<Longrightarrow> esteps_left n p' < esteps_left n p"
  "unlocked_form st p = Some (st', p') \<Longrightarrow> esteps_left n p' < esteps_left n p"
  by (cases p; auto split: if_splits)+

lemma esteps_left_wake: "sum_list (map (\<lambda>p. esteps_left n (wake_up p)) ps) \<le> sum_list (map (esteps_left n) ps) + 2 * length ps"
proof (induction ps)
  case (Cons p ps)
  have "esteps_left n (wake_up p) \<le> esteps_left n p + 2" by (cases p) auto
  with Cons show ?case by simp
qed simp

lemma event_work_decreases: "event_run s t \<Longrightarrow> event_work t < event_work s"
proof (induction rule: event_run.induct)
  case (event_locks i s p)
  then show ?case
    using esteps_left_forms(1) [of "e_threads s ! i" p "length (e_threads s)"]
      sum_list_update_nat [of i "e_threads s" "esteps_left (length (e_threads s))" p]
    by (simp add: event_work_def set_ethread_def)
next
  case (event_unlocks i s st p)
  then show ?case
    using esteps_left_forms(2) [of "m_state s" "e_threads s ! i" st p "length (e_threads s)"]
      sum_list_update_nat [of i "e_threads s" "esteps_left (length (e_threads s))" p]
    by (simp add: event_work_def set_ethread_def)
next
  case (event_notifies i s)
  then show ?case
    using esteps_left_wake [of "length (e_threads s)" "(e_threads s)[i := Outside]"]
      sum_list_update_nat [of i "e_threads s" "esteps_left (length (e_threads s))" Outside]
    by (simp add: event_work_def o_def)
qed

interpretation queue_threads: bounded_runs queue_run queue_work
  by unfold_locales (rule queue_work_decreases)

interpretation event_threads: bounded_runs event_run event_work
  by unfold_locales (rule event_work_decreases)

lemma queue_reachable_runs: "queue_step\<^sup>*\<^sup>* (new_queue n) s \<Longrightarrow> (queue_run ^^ k) s t \<Longrightarrow> queue_step\<^sup>*\<^sup>* (new_queue n) t"
proof (induction k arbitrary: t)
  case (Suc k)
  then obtain u where "(queue_run ^^ k) s u" "queue_run u t" by auto
  with Suc show ?case by (meson queue_step.queue_runs rtranclp.rtrancl_into_rtrancl)
qed simp

end
