(* ===== verification/Spec2Isabelle.thy ===== *)
theory Spec2Isabelle
  imports Observation Persist_Journal Framing Samples Repeat_Events Peer_Protocol Epoll_Server Logger Hash_Mix Shared_Queue
begin

text \<open>
  Vanity is an in-memory database server (C++20, sources under \<^verbatim>\<open>src/vanity/\<close>). Clients connect over TCP and send
  requests on strings, numbers, lists, sets and hashes that are kept in sixteen databases; keys may expire; the databases
  are written to disk from time to time, and every change in between goes to a write ahead log. Clients authenticate with
  passwords, publish to and subscribe to channels, group requests in pipes and transactions, and servers can join
  to a cluster whose members watch each other and vote on evictions.

  \<^bold>\<open>How the development is laid out.\<close> One theory for each part of the program, each with the same order inside: the data
  and operations from the code, the invariant, the contract, the lemmas. This theory holds the properties, numbered C1 to
  C40, each followed by an application to a concrete input where it has premises.

  \<^item> Shared: \<open>Prelude\<close> has the type of results (a C++ exception, a crash of the process, or a value; undefined behaviour is one of
    the errors), the unordered containers with the laws their clients use (locales \<open>unordered_map\<close>, \<open>unordered_set\<close>), and list
    lemmas. \<open>Decimal\<close> has the conversions between integers and text.
  \<^item> Databases (\<^verbatim>\<open>db/db/\<close>): \<open>Database_Types\<close>, \<open>Expiry_Database\<close>, \<open>General_Database\<close>, \<open>Primitive_Database\<close>, \<open>List_Database\<close>,
    \<open>Set_Database\<close>, \<open>Hash_Database\<close>. A database is a record with the fields of the class; an operation takes the time and
    the database and gives its result and the new database. \<open>view\<close> is the abstract state, the keys that are not
    expired with their values. The locales \<open>db_operation\<close> and \<open>partial_db_operation\<close> in \<open>Operation_Contract\<close> are the
    refinement contract: result and new view are a function of the old view. Nearly every operation is an interpretation.
    \<open>Observation\<close> lifts this to the calls of a client. C7 to C17.
  \<^item> Persistence (\<^verbatim>\<open>db/wal/\<close>, \<^verbatim>\<open>utils/serializer.h\<close>): \<open>Serializer\<close> (locale \<open>codec\<close>, what is written is read back, for any rest of
    the stream), \<open>Database_File\<close>, \<open>Db_Operations\<close>, \<open>Locked_Database\<close> (a call of a client with its log entries), \<open>Wal_Recovery\<close>
    (redo of the log), \<open>Journal\<close> (the state machine of journal makers as a step relation), \<open>Persist_Journal\<close> (the file
    system steps of a persist operation and the start after a crash), \<open>Persistent_Server\<close>. C1 to C6.
  \<^item> Requests (\<^verbatim>\<open>request/\<close>, \<^verbatim>\<open>response/\<close>, \<^verbatim>\<open>client/operations.h\<close>, \<^verbatim>\<open>pipe_server.cpp\<close>): \<open>Operations\<close> (words and permissions),
    \<open>Extractable\<close> (the parser; locales \<open>wire_format\<close> and \<open>word_list\<close>: what is printed is read back, whatever follows), \<open>Request\<close>
    (one constructor for each virtual method of \<^verbatim>\<open>RequestHandler\<close>), \<open>Response\<close>, \<open>Request_Server\<close> (dispatch and nested
    pipes), \<open>Request_Effects\<close> (locales \<open>permitted_handler\<close> and \<open>answering_handler\<close>: what any message can do through any
    table of handlers). C18, C25, C26.
  \<^item> Servers (one class each in the code): \<open>Session\<close>, \<open>Handlers\<close> (locale \<open>keeper\<close>: the methods of a server keep an invariant),
    \<open>Database_Servers\<close>, \<open>Transaction_Server\<close>, \<open>Auth_Server\<close>, \<open>Bind_Server\<close>, \<open>Pubsub_Server\<close>. \<open>Server\<close> puts them together as
    \<^verbatim>\<open>server.h\<close> does by inheritance: a record of all their states, one table of all handlers, and
    \<open>handle_message\<close>. \<open>Server_Security\<close> and \<open>Server_Requests\<close> interpret the contracts above on that table. C19, C20, C23,
    C24, C27, C32.
  \<^item> Passwords (\<^verbatim>\<open>auth/bcrypt/\<close>): \<open>Blowfish\<close> (the cipher at 32 bits, the base 64, the hash), \<open>Blowfish_Evaluation\<close> (the state of the
    cipher as arrays of digits, locale \<open>indexed_array\<close>, on which the self test of the library is evaluated), \<open>Bcrypt\<close> (the self
    test, the choice of a salt, the functions that \<open>Auth_Server\<close> calls). C21, C22.
  \<^item> Cluster (\<^verbatim>\<open>cluster/\<close>, \<^verbatim>\<open>request/peer_request*.cpp\<close>): \<open>Peer_Messages\<close>, \<open>Cluster_State\<close>, \<open>Peer_Eviction\<close>, \<open>Cluster_Server\<close>,
    \<open>Cluster_Requests\<close>; \<open>Cluster_Invariant\<close> (the pointers that handlers follow are alive) and \<open>Peer_Protocol\<close> (what a
    message that one server composes does in the other). C39, C40.
  \<^item> Connections and threads (\<^verbatim>\<open>socket/\<close>, \<^verbatim>\<open>utils/queue.h\<close>, \<^verbatim>\<open>utils/event.h\<close>, \<^verbatim>\<open>event_server.cpp\<close>, \<^verbatim>\<open>poll_server.cpp\<close>,
    \<^verbatim>\<open>repeat_event_server.cpp\<close>): \<open>Framing\<close> (messages over sockets that split them at will), \<open>Epoll_Server\<close> (descriptors and their owners, and the
    pointers that the kernel holds, as a step relation with its invariant), \<open>Event_Server\<close> (threads as a step relation over the
    queue, locales \<open>fifo\<close> and \<open>bounded_runs\<close>), \<open>Shared_Queue\<close> (the queue and the flag themselves, with mutex and condition
    variable), \<open>Repeat_Events\<close> (locale \<open>priority_queue\<close>). C28 to C31, C34 to C38.
  \<^item> Life of the process (\<^verbatim>\<open>arguments.h\<close>, \<^verbatim>\<open>config.cpp\<close>, \<^verbatim>\<open>file_lock.h\<close>, \<^verbatim>\<open>server.cpp\<close>, \<^verbatim>\<open>client_server.cpp\<close>): \<open>Configuration\<close>, \<open>File_Lock\<close>,
    \<open>Server_Start\<close>. C33. \<open>Logger\<close> has the log and the signal handler, \<open>Hash_Mix\<close> the hash of a pair. \<open>Samples\<close> has a
    concrete server for the applications.

  \<^bold>\<open>How code becomes definitions.\<close> A method that changes its object takes the state and returns it; what was changed before
  an exception stays changed. An \<^verbatim>\<open>int64_t\<close> is an integer with its range as a predicate, and a sum that leaves the range is
  an error where the code has undefined behaviour; a \<^verbatim>\<open>size_t\<close> is a natural number with its sums taken modulo
  \<open>2 ^ 64\<close> where the code can reach that (the positions of the parser); a \<^verbatim>\<open>double\<close> is its bit pattern. A read
  through a dangling pointer or iterator, an arithmetic overflow and a read of an uninitialised variable are the error
  \<open>undefined_behaviour\<close>, so that a theorem that an operation returns says that none of them happens. A method that
  runs under a mutex is one step, and a run of the server is a sequence of such steps.

  \<^bold>\<open>Parameters.\<close> The clock, random draws, addition and printing of doubles, \<^verbatim>\<open>strtod\<close>, whether memory can be reserved,
  whether a process is alive, what the system calls on sockets and on the random device answer, and the iteration order of unordered
  containers where it shows. Each is an argument of the definitions, or a field of a record of them; what is relied
  on is a premise (\<open>sound_platform\<close>, \<open>float_format\<close>, \<open>sound_connections\<close>) which \<open>Samples\<close> shows to be satisfiable. \<open>Auth_Server\<close> is
  written over any library for hashing passwords; \<open>crypt_library\<close> in \<open>Bcrypt\<close> is the one that is compiled in, and shown to meet
  its contract.

  \<^bold>\<open>Bounds and termination.\<close> All definitions are total. The recovery loop takes as many turns as the log has bytes at most, since a
  turn reads at least one. Pipes can be nested without end (C26), so the number of nested calls for which the stack has room
  is an argument, and a deeper one is a crash; C20 and C23 to C25 hold for every value of it. A reader of a socket is called as often as
  there are parts of the input. The event loops are step relations, for which C35 gives a bound on the length of
  every run once a terminating event is in. The loop that repeats events never ends by itself and is run on a list of its
  turns. Message ids of the cluster count up to the largest \<^verbatim>\<open>int64_t\<close>; the properties that need it say that
  it has not been reached. The self test of bcrypt (a hash at cost 0, some 1,700 runs of the cipher) is evaluated by the
  simplifier on numbers written in base 16, which takes about a minute and a half.

  \<^bold>\<open>What the properties show of the code.\<close> Most of it does what it should. The exceptions are properties too: the journal that is left
  behind (C3), redo in the presence of expired keys (C6), expired keys that come back (C9), undefined behaviour on backward
  ranges and on last elements (C14, C16, C17), passwords that are cut off (C22), the pipe that calls itself (C26), transactions that are
  not undone (C27), the listener that is called after it was unbound (C30), the message that ends the server (C31), the
  shutdown that hangs (C37) and the client that leaves while it joins (C40).

  \<^bold>\<open>Not modelled.\<close> The text of exceptions, and \<^verbatim>\<open>utils/global_log.h\<close>, which nothing calls. The functions that turn the address of a
  socket into text. The outer parts of \<^verbatim>\<open>auth/bcrypt/wrapper.c\<close> that are not compiled here: its tests and the variants for the
  GNU C library; and \<^verbatim>\<open>x86.S\<close>, the rounds of the cipher in assembler for an i386. The variants of \<^verbatim>\<open>Queue::get\<close> and
  \<^verbatim>\<open>Queue::wait\<close> with a timeout, which nothing calls. Failures of \<^verbatim>\<open>epoll_wait\<close> itself, which are logged and end the
  batch. That a write to a live connection fails is modelled in the writer (\<open>Framing\<close>) and in the delivery of published messages
  (C32); elsewhere the text of a response or of a message to a peer is taken to be accepted. Memory for messages and for the
  values of the databases is taken to be there, but where the parser asks for it by a number in the text.
\<close>

section \<open>Persistence and recovery\<close>

lemmas run_simps = locked_call_def wal_log_def wal_db_op_def wal_def wal_expiry_def log_expiries_def
  on_db_def on_db_result_def str_set_def int_set_def put_data_def clear_expiry_def set_expiry_def
  General_Database.get_def expiry_aware_get_def erase_if_expired_def is_expired_def expire_def
  do_expire_def pre_expire_def incr_int_def new_database_def calm_event_def contains_def int64_ok_def

text \<open>A run for the witnesses: a key is set, given an expiry time, read after it has passed, and a
  counter is incremented.\<close>

definition sample_run :: "event list" where
  "sample_run = [Call 0 0 0 (call_str_set ''k'' ''v''), Call 5 0 0 (call_set_expiry ''k'' 10),
     Call 20 0 0 (call_get ''k''), Call 21 0 0 (call_incr_int ''n'' 3)]"

definition sample_server :: locked_server where
  "sample_server = \<lparr>m_databases = [new_database 0], m_wal_file = Some []\<rparr>"

lemma sample_dbs: "settled [new_database 0]" "wf_dbs [new_database 0]" "\<forall>db \<in> set [new_database 0]. fits db"
  by (simp_all add: settled_def wf_dbs_def fits_def) (simp_all add: new_database_def)

lemma sample_calm: "calm (\<lambda>a b. a) (\<lambda>i n. 0) sample_run sample_server"
  by (simp add: sample_run_def sample_server_def run_simps)

lemma sample_returns: "\<exists>st. run_events (\<lambda>a b. a) (\<lambda>i n. 0) sample_run sample_server = Inr st"
  by (simp add: sample_run_def sample_server_def run_simps)

text \<open>C1. Crash recovery. Persist the databases; let the server run any sequence of calls and purges in
  which no logged call is random or finds a key that it touches expired; kill it. A new server that
  loads the database file and redoes the write ahead log gets databases that no client can tell from
  the ones that were lost, and the redo neither fails nor gets stuck.\<close>

theorem crash_recovery:
  assumes "\<forall>i n. 0 < n \<longrightarrow> dis i n < n"
    and "settled dbs" and "wf_dbs dbs" and "\<forall>db \<in> set dbs. fits db"
    and "calm fadd dis evs \<lparr>m_databases = dbs, m_wal_file = Some []\<rparr>"
    and "run_events fadd dis evs \<lparr>m_databases = dbs, m_wal_file = Some []\<rparr> = Inr st"
  shows "\<exists>loaded st'.
           load_each (map new_database [0 ..< length dbs]) (Some (do_persist dbs)) = Inr (loaded, Some []) \<and>
           recover fadd dis' now (m_wal_file st) loaded = Inr st' \<and>
           views now (m_databases st') = views now (m_databases st) \<and> wf_dbs (m_databases st')"
proof -
  have "load_each (map new_database [0 ..< length dbs]) (Some (do_persist dbs)) = Inr (dbs, Some [])"
    using load_each_do_persist [of "map new_database [0 ..< length dbs]" dbs "[]"]
      settled_load [OF assms(2)] assms(3,4) by (simp add: wf_dbs_def)
  moreover obtain st' where "recover fadd dis' now (m_wal_file st) dbs = Inr st'"
    "length (m_databases st') = length (m_databases st)" "wf_dbs (m_databases st')"
    "\<forall>d < length (m_databases st). view now (m_databases st' ! d) = view now (m_databases st ! d)"
    using recover_run [OF assms(1,2,3,5,6), of dis' now] by blast
  moreover from this have "views now (m_databases st') = views now (m_databases st)"
    by (simp add: views_def list_eq_iff_nth_eq)
  ultimately show ?thesis by blast
qed

theorem crash_recovery_witness:
  "\<exists>st loaded st'. run_events (\<lambda>a b. a) (\<lambda>i n. 0) sample_run sample_server = Inr st \<and>
     load_each [new_database 0] (Some (do_persist [new_database 0])) = Inr (loaded, Some []) \<and>
     recover (\<lambda>a b. a) (\<lambda>i n. n - 1) 30 (m_wal_file st) loaded = Inr st' \<and>
     views 30 (m_databases st') = views 30 (m_databases st)"
proof -
  obtain st where st: "run_events (\<lambda>a b. a) (\<lambda>i n. 0) sample_run sample_server = Inr st"
    using sample_returns by blast
  with crash_recovery [of "\<lambda>i n. 0" "[new_database 0]" "\<lambda>a b. a" sample_run st "\<lambda>i n. n - 1" 30]
    sample_dbs sample_calm
  show ?thesis by (auto simp: sample_server_def)
qed

text \<open>C2. A crash at any point of a persist operation is harmless: whichever of its file system steps were
  done, the next start repairs the files without an error, and leaves either the database file and
  the log of before, or the new database file with no log. Both hold the same databases. The premise
  is that no earlier crash has left a journal or an old database file behind.\<close>

theorem persist_crash_safe:
  assumes "distinct_files F" and "fs (journal_file F) = None" and "fs (old_file F) = None"
  shows "recovers_to F (run_steps (take k (persist_with_wal F partial snapshot fs)) fs)
           {db_and_wal F fs, (Some snapshot, None)}"
proof (cases "fs (db_file F)")
  case None
  let ?steps = "persist_with_wal F partial snapshot fs"
  have "length ?steps = 7"
    using None by (simp add: persist_with_wal_def journal_db_file_no_exist_def file_exists_def)
  then have "take k ?steps = take (min k 7) ?steps" by (simp add: min_def)
  with crash_prefix_no_exist [OF assms(1,2) None, of "min k 7"] show ?thesis by simp
next
  case (Some db)
  let ?steps = "persist_with_wal F partial snapshot fs"
  have "length ?steps = 12"
    using Some by (simp add: persist_with_wal_def journal_db_file_exist_def file_exists_def)
  then have "take k ?steps = take (min k 12) ?steps" by (simp add: min_def)
  with crash_prefix_exist [OF assms Some, of "min k 12"] show ?thesis by simp
qed

definition sample_files :: files where
  "sample_files = \<lparr>db_file = ''/v/db'', wal_path = ''/v/wal'', journal_file = ''/v/j''\<rparr>"

lemma sample_files_distinct: "distinct_files sample_files"
  by (simp add: distinct_files_def sample_files_def make_temp_db_file_def make_old_db_file_def
      with_name_prefix_def parent_prefix_def filename_def)

theorem persist_crash_safe_witness:
  "recovers_to sample_files
     (run_steps (take 8 (persist_with_wal sample_files ''ne'' ''new'' [''/v/db'' \<mapsto> ''d'', ''/v/wal'' \<mapsto> ''w'']))
        [''/v/db'' \<mapsto> ''d'', ''/v/wal'' \<mapsto> ''w''])
     {(Some ''d'', Some ''w''), (Some ''new'', None)}"
  using persist_crash_safe [OF sample_files_distinct, of "[''/v/db'' \<mapsto> ''d'', ''/v/wal'' \<mapsto> ''w'']" 8 "''ne''" "''new''"]
  by (simp add: sample_files_def db_and_wal_def make_old_db_file_def with_name_prefix_def
      parent_prefix_def filename_def)

text \<open>C3. The premise of the previous property is needed, because recovery leaves the journal in place: a
  server that crashed after the record MOVED_NEW_DB_FILE, started and logged new operations deletes
  that new log at its next start, whatever it holds.\<close>

theorem stale_journal_drops_log:
  assumes "distinct_files F" and "fs (journal_file F) = None" and "fs (db_file F) = Some db"
  shows "\<exists>fs1 fs2. run_steps (take 9 (persist_with_wal F partial snapshot fs)) fs = Inr fs1 \<and>
           pre_database_load F fs1 = Inr fs2 \<and>
           (\<forall>log. \<exists>fs3. pre_database_load F (fs2(wal_path F \<mapsto> log)) = Inr fs3 \<and> fs3 (wal_path F) = None)"
  using assms(2,3) distinct_filesD [OF assms(1)]
  by (simp add: persist_with_wal_def journal_db_file_exist_def step_simps pre_database_load_def
      recovered_journals)

theorem stale_journal_drops_log_witness:
  "\<exists>fs1 fs2. run_steps (take 9 (persist_with_wal sample_files [] ''new'' [''/v/db'' \<mapsto> ''d''])) [''/v/db'' \<mapsto> ''d''] = Inr fs1 \<and>
     pre_database_load sample_files fs1 = Inr fs2 \<and>
     (\<exists>fs3. pre_database_load sample_files (fs2(''/v/wal'' \<mapsto> ''log'')) = Inr fs3 \<and> fs3 ''/v/wal'' = None)"
  using stale_journal_drops_log [OF sample_files_distinct, of "[''/v/db'' \<mapsto> ''d'']" "''d''" "[]" "''new''"]
  by (auto simp: sample_files_def)

text \<open>C4. Every journal that the state machine of journal makers can write is read back, at whatever record
  it stops, as the state it was left in, with the path of the old database file.\<close>

theorem journal_read_back:
  assumes "journal_maker st file p"
  shows "recovered_journal (Some file) = Inr (st, p)"
  by (rule recovered_journal_maker [OF assms])

theorem journal_read_back_witness:
  "recovered_journal (Some (journal MOVED_EXISTING_DB_FILE (moving_journal ''/v/old.db''))) =
     Inr (MOVED_EXISTING_DB_FILE, Some ''/v/old.db'')"
  by (rule journal_read_back) (rule journal_maker.intros | simp)+

text \<open>C5. The database file: what is persisted is loaded again, and the stream stands at the next
  database.\<close>

theorem database_file_round_trip:
  assumes "wf_db db" and "fits db"
  shows "from_file (Some (persist db @ rest)) = Inr (stored db, Some rest)"
  by (rule from_file_persist [OF assms])

theorem database_file_round_trip_witness:
  "from_file (Some (persist ((new_database 2)\<lparr>database.m_data := [(''a'', VList [''x'', ''y'']), (''b'', VHash [(''f'', ''g'')])]\<rparr>) @ ''rest'')) =
     Inr ((new_database 2)\<lparr>database.m_data := [(''a'', VList [''x'', ''y'']), (''b'', VHash [(''f'', ''g'')])]\<rparr>, Some ''rest'')"
  by (subst database_file_round_trip)
     (simp_all add: wf_db_def fits_def stored_def new_database_def valid_strings_def valid_hash_def)

text \<open>C6. The side condition of crash recovery is needed. Take a run as in C1, and let a client then increment a key whose old value
  has expired: it is told that the counter holds the increment, and every client sees that. Kill the server; the new one, started from
  the same database file and log, has lost the key, because the increment stands in the log before the expiry that it has caused. (The sum
  with the old value is computed by the redo, and is to be in range.)\<close>

theorem redo_loses_expired_counter:
  assumes "\<forall>i n. 0 < n \<longrightarrow> dis i n < n"
    and "settled dbs" and "wf_dbs dbs" and "\<forall>db \<in> set dbs. fits db"
    and "calm fadd dis evs \<lparr>m_databases = dbs, m_wal_file = Some []\<rparr>"
    and "run_events fadd dis evs \<lparr>m_databases = dbs, m_wal_file = Some []\<rparr> = Inr st"
    and "d < length dbs" and "is_expired now (m_databases st ! d) k"
    and "valid_call (call_incr_int k n)" and "trn < 2 ^ 64"
    and "\<forall>i. map_of (database.m_data (m_databases st ! d)) k = Some (VInt i) \<longrightarrow> int64_ok (i + n)"
  shows "\<exists>loaded st1 st2. locked_call fadd dis now trn d (call_incr_int k n) st = Inr (RInt (Some n), st1) \<and>
     load_each (map new_database [0 ..< length dbs]) (Some (do_persist dbs)) = Inr (loaded, Some []) \<and>
     recover fadd dis' now' (m_wal_file st1) loaded = Inr st2 \<and>
     view now' (m_databases st1 ! d) k = Some (VInt n, None) \<and> view now' (m_databases st2 ! d) k = None"
proof -
  have kn: "small k" "int64_ok n" using assms(9) by simp_all
  have st: "settled (m_databases st)" "d < length (m_databases st)"
    using logs_events [of "\<lparr>m_databases = dbs, m_wal_file = Some []\<rparr>" fadd dis evs st dis 0] assms(2,5-7) by (auto simp: logs_def)
  obtain st1 where st1: "locked_call fadd dis now trn d (call_incr_int k n) st = Inr (RInt (Some n), st1)"
    "m_databases st1 ! d = (put_data k (VInt n) (expire k (m_databases st ! d)))\<lparr>pre_expire_calls := []\<rparr>"
    using locked_incr_expired [OF st assms(8)] st(2) by auto
  have "view now' (m_databases st1 ! d) k = Some (VInt n, None)"
    by (simp add: st1(2) view_def is_expired_def expire_def do_expire_def pre_expire_def clear_expiry_def update_conv' delete_conv')
  moreover have "load_each (map new_database [0 ..< length dbs]) (Some (do_persist dbs)) = Inr (dbs, Some [])"
    using load_each_do_persist [of "map new_database [0 ..< length dbs]" dbs "[]"]
      settled_load [OF assms(2)] assms(3,4) by (simp add: wf_dbs_def)
  ultimately show ?thesis
    using st1(1) recover_loses_expired_counter [OF assms(1-3,5-8) kn assms(10,11) st1(1), of dis' now'] by blast
qed

theorem redo_loses_expired_counter_witness:
  "\<exists>st st1 st2. run_events (\<lambda>a b. a) (\<lambda>i n. 0) [Call 0 0 0 (call_int_set ''n'' 5), Call 1 0 0 (call_set_expiry ''n'' 10)] sample_server = Inr st \<and>
     locked_call (\<lambda>a b. a) (\<lambda>i n. 0) 20 0 0 (call_incr_int ''n'' 1) st = Inr (RInt (Some 1), st1) \<and>
     recover (\<lambda>a b. a) (\<lambda>i n. 0) 30 (m_wal_file st1) [new_database 0] = Inr st2 \<and>
     view 30 (m_databases st1 ! 0) ''n'' = Some (VInt 1, None) \<and> view 30 (m_databases st2 ! 0) ''n'' = None"
proof -
  let ?evs = "[Call 0 0 0 (call_int_set ''n'' 5), Call 1 0 0 (call_set_expiry ''n'' 10)]"
  have calm: "calm (\<lambda>a b. a) (\<lambda>i n. 0) ?evs sample_server" by (simp add: sample_server_def run_simps)
  have "\<exists>st. run_events (\<lambda>a b. a) (\<lambda>i n. 0) ?evs sample_server = Inr st \<and> is_expired 20 (m_databases st ! 0) ''n'' \<and>
      map_of (database.m_data (m_databases st ! 0)) ''n'' = Some (VInt 5)"
    by (simp add: sample_server_def run_simps)
  then obtain st where st: "run_events (\<lambda>a b. a) (\<lambda>i n. 0) ?evs sample_server = Inr st" "is_expired 20 (m_databases st ! 0) ''n''"
    "map_of (database.m_data (m_databases st ! 0)) ''n'' = Some (VInt 5)" by blast
  have "load_each [new_database 0] (Some (do_persist [new_database 0])) = Inr ([new_database 0], Some [])"
    using load_each_do_persist [of "[new_database 0]" "[new_database 0]" "[]"] settled_load [OF sample_dbs(1)] sample_dbs(2,3)
    by (simp add: wf_dbs_def)
  with redo_loses_expired_counter [of "\<lambda>i n. 0" "[new_database 0]" "\<lambda>a b. a" ?evs st 0 20 "''n''" 1 0 "\<lambda>i n. 0" 30]
    sample_dbs calm st show ?thesis by (auto simp: sample_server_def int64_ok_def)
qed

section \<open>Databases\<close>

text \<open>A database for the witnesses: a list, a set, a hash, a counter, and a string whose expiry time
  10 has passed at time 20.\<close>

definition sample_db :: database where
  "sample_db = (new_database 0)\<lparr>
     database.m_data := [(''l'', VList [''a'', ''b'', ''a'']), (''s'', VSet [''x'', ''y'', ''z'']), (''t'', VSet [''y'', ''w'']),
       (''h'', VHash [(''f'', ''1''), (''g'', ''2'')]), (''n'', VInt 5), (''old'', VStr ''gone'')],
     m_expiry_times := [(''old'', 10), (''n'', 50)]\<rparr>"

lemma sample_db_wf: "wf_db sample_db"
  by (simp add: sample_db_def wf_db_def new_database_def int64_ok_def)

lemma sample_db_view:
  "view 20 sample_db ''l'' = Some (VList [''a'', ''b'', ''a''], None)"
  "view 20 sample_db ''s'' = Some (VSet [''x'', ''y'', ''z''], None)"
  "view 20 sample_db ''t'' = Some (VSet [''y'', ''w''], None)"
  "view 20 sample_db ''h'' = Some (VHash [(''f'', ''1''), (''g'', ''2'')], None)"
  "view 20 sample_db ''n'' = Some (VInt 5, Some 50)"
  "view 20 sample_db ''old'' = None"
  "view 20 sample_db ''m'' = None"
  by (simp_all add: sample_db_def new_database_def view_def is_expired_def)

text \<open>C7. Every call of every client keeps the invariant of all databases: unique keys, expiry times only
  for stored keys, no empty list, sets and hashes without duplicates, integers in range.\<close>

theorem call_keeps_invariant:
  assumes "\<forall>i n. 0 < n \<longrightarrow> dis i n < n" and "valid_call call" and "wf_dbs dbs" and "d < length dbs"
    and "run_call fadd dis now d call dbs = Inr (r, dbs')"
  shows "wf_dbs dbs'"
  by (rule wf_run_call [OF assms])

theorem call_keeps_invariant_witness:
  "wf_dbs [clear_expiry ''n'' (put_data ''n'' (VStr ''v'') sample_db)]"
proof -
  have "run_call (\<lambda>a b. a) (\<lambda>i n. 0) 20 0 (call_str_set ''n'' ''v'') [sample_db] =
      Inr (RUnit, [clear_expiry ''n'' (put_data ''n'' (VStr ''v'') sample_db)])"
    by (simp add: on_db_def str_set_def)
  with call_keeps_invariant [of "\<lambda>i n. 0" "call_str_set ''n'' ''v''" "[sample_db]" 0 "\<lambda>a b. a" 20]
  show ?thesis by (simp add: wf_dbs_def sample_db_wf)
qed

text \<open>C8. Lazy expiry cannot be observed: on two servers whose databases show the same keys, values and
  expiry times, a call gives the same reply and the databases show the same afterwards, however much
  of the expired data each of them still stores. The calls excepted are named by
  \<open>observed\<close>.\<close>

theorem lazy_expiry_unobservable:
  assumes "\<forall>i n. 0 < n \<longrightarrow> dis i n < n" and "valid_call call" and "observed (call_op call)"
    and "wf_dbs dbs1" and "wf_dbs dbs2" and "views now dbs1 = views now dbs2"
    and "d < length dbs1" and "d < length dbs2"
  shows "observation now (run_call fadd dis now d call dbs1) = observation now (run_call fadd dis now d call dbs2)"
  by (rule run_call_observation [OF assms])

theorem lazy_expiry_unobservable_witness:
  "observation 20 (run_call (\<lambda>a b. a) (\<lambda>i n. 0) 20 0 (call_incr_int ''old'' 1) [sample_db]) =
   observation 20 (run_call (\<lambda>a b. a) (\<lambda>i n. 0) 20 0 (call_incr_int ''old'' 1) [deep_purge 20 sample_db])"
  by (rule lazy_expiry_unobservable)
     (simp_all add: observed_def sees_expired_def wf_dbs_def sample_db_wf wf_deep_purge views_def
       view_deep_purge int64_ok_def)

text \<open>C9. The exception is real: deleting an expired key reports success as long as the key has not been
  erased, and setting an expiry time brings it back to life.\<close>

theorem expired_key_revived:
  assumes "wf_db db" and "is_expired now db k" and "contains (database.m_data db) k" and "now \<le> t"
  shows "fst (General_Database.del k db) \<and> \<not> fst (General_Database.del k (deep_purge now db)) \<and>
         view now db k = None \<and> view now (set_expiry k t db) k \<noteq> None"
proof -
  have "\<not> contains (database.m_data (deep_purge now db)) k"
    using deep_purge_data [OF assms(1), of now k] assms(2) by (simp add: contains_def view_def)
  moreover have "\<not> is_expired now (set_expiry k t db) k"
    using assms(3,4) by (simp add: set_expiry_def is_expired_def update_conv)
  ultimately show ?thesis
    using assms(2,3) by (simp add: General_Database.del_def view_def contains_def set_expiry_def)
qed

theorem expired_key_revived_witness:
  "fst (General_Database.del ''old'' sample_db) \<and> view 20 sample_db ''old'' = None \<and>
   view 20 (set_expiry ''old'' 60 sample_db) ''old'' \<noteq> None"
  using expired_key_revived [OF sample_db_wf, of 20 "''old''" 60]
  by (simp add: sample_db_def new_database_def is_expired_def contains_def)

text \<open>C10. A call that is not written to the log changes nothing that anyone can observe, so nothing is
  lost by not logging it.\<close>

theorem unlogged_call_unobservable:
  assumes "\<not> should_wal (call_op call)" and "wf_dbs dbs" and "d < length dbs"
    and "run_call fadd dis now d call dbs = Inr (r, dbs')"
  shows "views now dbs' = views now dbs"
  by (rule unlogged_views [OF assms])

theorem unlogged_call_unobservable_witness:
  "views 20 [touch 20 ''old'' sample_db] = views 20 [sample_db]"
proof -
  have "run_call (\<lambda>a b. a) (\<lambda>i n. 0) 20 0 (call_has ''old'') [sample_db] =
      Inr (RBool (contains (database.m_data (touch 20 ''old'' sample_db)) ''old''), [touch 20 ''old'' sample_db])"
    by (simp add: on_db_def has_def Let_def)
  with unlogged_call_unobservable [of "call_has ''old''" "[sample_db]" 0 "\<lambda>a b. a" "\<lambda>i n. 0" 20]
  show ?thesis by (simp add: wf_dbs_def sample_db_wf)
qed

text \<open>C11. Moving a key moves its value and its expiry time, provided that the source has an expiry time or
  none is stored for the destination.\<close>

theorem move_to_moves:
  assumes "wf_db db" and "map_of (m_expiry_times db) from \<noteq> None \<or> map_of (m_expiry_times db) to = None"
  shows "(fst (move_to now from to db), view now (snd (move_to now from to db))) =
           move_to_spec from to (view now db)"
  by (rule move_to_view [OF assms])

theorem move_to_moves_witness:
  "fst (move_to 20 ''n'' ''m'' sample_db) \<and> view 20 (snd (move_to 20 ''n'' ''m'' sample_db)) ''m'' = Some (VInt 5, Some 50)"
  using move_to_moves [OF sample_db_wf, of "''n''" "''m''" 20] sample_db_view
  by (simp add: move_to_spec_def sample_db_def)

text \<open>Without that proviso the value is lost: moved onto a key whose expiry time has passed, it is
  expired from the start, and the source is gone too.\<close>

theorem move_to_expired_key_loses_value:
  "fst (move_to 20 ''l'' ''old'' sample_db) \<and>
   view 20 (snd (move_to 20 ''l'' ''old'' sample_db)) ''old'' = None \<and>
   view 20 (snd (move_to 20 ''l'' ''old'' sample_db)) ''l'' = None"
  by (simp add: move_to_def Let_def sample_db_def new_database_def erase_if_expired_def is_expired_def
      General_Database.del_def expiry_aware_del_def clear_expiry_def put_data_def view_def)



section \<open>Lists, sets and hashes\<close>

text \<open>C13. Removing elements from a list does what the contract says, from the left, from the right or
  everywhere, deletes the key when the list runs empty, and counts the removed elements; it is
  undefined exactly when a removal from the right erases the first element and has to go on.\<close>

theorem list_remove_meets_contract:
  assumes "wf_db db"
  shows "case list_remove_spec e n key (view now db) of
           None \<Rightarrow> list_remove now key e n db = undefined_behaviour
         | Some (r, vw) \<Rightarrow> \<exists>db'. list_remove now key e n db = Inr (r, db') \<and> view now db' = vw \<and> wf_db db'"
  using list_remove.defined [OF TrueI assms, of e n key now] list_remove.undefined [OF TrueI assms, of e n key now]
  by (auto split: option.splits)

theorem list_remove_meets_contract_witness:
  "(\<exists>db'. list_remove 20 ''l'' ''a'' 1 sample_db = Inr (Inr 1, db') \<and> view 20 db' ''l'' = Some (VList [''b'', ''a''], None)) \<and>
   list_remove 20 ''l'' ''a'' (- 3) sample_db = undefined_behaviour"
  using list_remove_meets_contract [OF sample_db_wf, where e = "''a''" and n = 1 and key = "''l''" and now = 20]
    list_remove_meets_contract [OF sample_db_wf, where e = "''a''" and n = "- 3" and key = "''l''" and now = 20]
  by (auto simp: list_remove_spec_def on_list_def sample_db_view removed_def)

text \<open>C14. A range that runs backwards (its start lies behind its end) is caught only when both indices
  are positive or both negative: otherwise reading it is undefined, where the documentation promises
  an empty list.\<close>

theorem backward_range_undefined:
  assumes "wf_db db" and "view now db key = Some (VList l, t)"
    and "\<not> is_invalid_range i j" and "range_from l i > range_to l j"
  shows "list_range now key i j db = undefined_behaviour"
  using assms list_range.undefined [OF TrueI assms(1), of i j key now]
  by (simp add: list_range_spec_def on_list_def)

theorem backward_range_undefined_witness: "list_range 20 ''l'' (- 1) 0 sample_db = undefined_behaviour"
  using backward_range_undefined [OF sample_db_wf sample_db_view(1), of "- 1" 0]
  by (simp add: is_invalid_range_def range_from_def range_to_def in_range_def pos_def)

text \<open>C15. Drawing from a set: the drawn elements were in the set, are as many as asked for (or all), and
  exactly they are gone afterwards; the key of an exhausted set is deleted.\<close>

theorem set_remove_partitions:
  assumes "\<forall>i n. 0 < n \<longrightarrow> dis i n < n" and "wf_db db" and "view now db key = Some (VSet s, t)"
  shows "\<exists>removed rest. fst (set_remove dis now key n db) = Some removed \<and>
           distinct (rest @ removed) \<and> set rest \<union> set removed = set s \<and> length removed = min n (length s) \<and>
           view now (snd (set_remove dis now key n db)) =
             (view now db)(key := if rest = [] then None else Some (VSet rest, t))"
proof -
  obtain rest removed where r: "remove_draws dis 0 (min n (length s)) s [] = (rest, removed)" by fastforce
  have "distinct (rest @ removed) \<and> set rest \<union> set removed = set s \<and> length removed = min n (length s)"
    using remove_draws_partition [OF _ _ _ r] assms(1) wf_view_set [OF assms(2,3)] by simp
  moreover obtain db' where "set_remove dis now key n db = (Some removed, db')"
    "view now db' = (view now db)(key := if rest = [] then None else Some (VSet rest, t))"
    using set_remove.defined [OF assms(1,2), of n key now] assms(3) r
    by (auto simp: set_remove_spec_def on_set_def split: if_splits)
  ultimately show ?thesis by fastforce
qed

theorem set_remove_partitions_witness:
  "\<exists>removed rest. fst (set_remove (\<lambda>i n. n - 1) 20 ''s'' 2 sample_db) = Some removed \<and>
     set rest \<union> set removed = {''x'', ''y'', ''z''} \<and> length removed = 2"
  using set_remove_partitions [OF _ sample_db_wf sample_db_view(2), of "\<lambda>i n. n - 1" 2] by fastforce

text \<open>C16. Discarding the last element of a set, or removing the last field of a hash, reads the size of
  the container after the key has been erased: undefined behaviour on every such call.\<close>

theorem last_element_use_after_free:
  assumes "wf_db db" and "distinct vs" and "view now db k = Some (VSet s, t)" and "set s \<subseteq> set vs"
    and "view now db k' = Some (VHash h, t')" and "fst ` set h \<subseteq> set fs"
  shows "set_discard now k vs db = undefined_behaviour \<and> hash_remove now k' fs db = undefined_behaviour"
  using assms set_discard.undefined [OF assms(2,1), of k now] hash_remove.undefined [OF TrueI assms(1), of fs k' now]
  by (simp add: set_discard_spec_def on_set_def hash_remove_spec_def)

theorem last_element_use_after_free_witness:
  "set_discard 20 ''t'' [''y'', ''w''] sample_db = undefined_behaviour \<and> hash_remove 20 ''h'' [''f'', ''g''] sample_db = undefined_behaviour"
  using last_element_use_after_free [OF sample_db_wf _ sample_db_view(3) _ sample_db_view(4), of "[''y'', ''w'']" "[''f'', ''g'']"]
  by simp

text \<open>C17. Updating a hash overwrites the fields it has and adds none; with a field it lacks the loop
  advances an iterator whose node is gone, and a missing key is left holding an empty string.\<close>

theorem hash_update_meets_contract:
  assumes "distinct (map fst h)" and "wf_db db"
  shows "case hash_update_spec h key (view now db) of
           None \<Rightarrow> hash_update now key h db = undefined_behaviour
         | Some (r, vw) \<Rightarrow> \<exists>db'. hash_update now key h db = Inr (r, db') \<and> view now db' = vw \<and> wf_db db'"
  using hash_update.defined [OF assms, of key now] hash_update.undefined [OF assms, of key now]
  by (auto split: option.splits)

theorem hash_update_meets_contract_witness:
  "hash_update 20 ''h'' [(''new'', ''1'')] sample_db = undefined_behaviour \<and>
   (\<exists>db'. hash_update 20 ''m'' [(''f'', ''1'')] sample_db = Inr (Inl NotHash, db') \<and> view 20 db' ''m'' = Some (VStr [], None))"
  using hash_update_meets_contract [where h = "[(''new'', ''1'')]" and db = sample_db and key = "''h''" and now = 20]
    hash_update_meets_contract [where h = "[(''f'', ''1'')]" and db = sample_db and key = "''m''" and now = 20]
  by (auto simp: hash_update_spec_def sample_db_view sample_db_wf)

section \<open>Requests of clients\<close>

text \<open>C18. A request that a client prints is read back: whatever the request, with its arguments printed as the
  protocol asks and white space behind them, the parser returns the same request and stops at the end.\<close>

theorem request_read_back:
  assumes "valid_request pf r" and "float_format pf ftoa" and "spaces ws" and "fits_size (show_request ftoa r @ ws)"
  shows "bind_e get_operation (\<lambda>op. read_request pf op True) \<lparr>m_msg = show_request ftoa r @ ws, m_pos = 0\<rparr> =
    (Inr r, if ends_here True r then at (show_request ftoa r @ ws) [] else at (show_request ftoa r) ws)"
  using show_request_read [OF assms(1,2) spaces_separated [OF assms(3)], of True "[]" "[]"] assms(3,4) by (simp add: at_def)

theorem request_read_back_witness:
  "\<exists>x. bind_e get_operation (\<lambda>op. read_request sample_platform op True)
     \<lparr>m_msg = show_request sample_ftoa (Primitive_Request (request_str_set ''k'' ''v'')) @ '' '', m_pos = 0\<rparr> =
     (Inr (Primitive_Request (request_str_set ''k'' ''v'')), x)"
proof -
  from request_read_back [OF _ sample_float_format _ short_fits(2) [OF sample_set_short]] show ?thesis by (auto simp: is_space_def)
qed

text \<open>C19. What a client stores it gets back: a \<open>STR_SET\<close> message is answered with \<open>OK\<close>, and the next \<open>GET\<close> message for the
  key, from the text to the response, is answered with the value.\<close>

theorem stored_value_returned:
  assumes "logged_in s b u" and "float_format pf ftoa"
    and "fits_size (show_request ftoa (Primitive_Request (request_str_set k v)))"
    and "fits_size (show_request ftoa (General_Request (request_get k)))"
  shows "\<exists>b' b''. handle_message pf env stack n (show_request ftoa (Primitive_Request (request_str_set k v))) (s, b) =
      (Inr (), [ok], s, b') \<and>
    handle_message pf env' stack n (show_request ftoa (General_Request (request_get k))) (s, b') =
      (Inr (), [ok_value (serialize_data (mc_to_string (env_machine env'))) (VStr v)], s, b'')"
proof -
  obtain b' where b': "handle_message pf env stack n (show_request ftoa (Primitive_Request (request_str_set k v)) @ []) (s, b) =
      (Inr (), [ok], s, b')" "logged_in s b' u"
    "\<forall>t. view t (srv_databases b' ! used_database u) = (view t (srv_databases b ! used_database u))(k \<mapsto> (VStr v, None))"
    using set_message [OF assms(1,2), of "[]" k v env stack n] assms(3) by auto
  with get_message [OF b'(2) assms(2), of "[]" k env' stack n] assms(4) show ?thesis by auto
qed

theorem stored_value_returned_witness:
  "\<exists>b' b''. handle_message sample_platform sample_env 10 1 (show_request sample_ftoa (Primitive_Request (request_str_set ''k'' ''v'')))
      (sample_user, fresh_server) = (Inr (), [ok], sample_user, b') \<and>
    handle_message sample_platform sample_env 10 1 (show_request sample_ftoa (General_Request (request_get ''k''))) (sample_user, b') =
      (Inr (), [ok_value (serialize_data sample_ftoa) (VStr ''v'')], sample_user, b'')"
  using stored_value_returned [OF fresh_logged_in sample_float_format sample_fits(1,2), of sample_env 10 1 sample_env]
  by (simp add: sample_env_def sample_machine_def)

text \<open>C20. A client that has not authenticated can do nothing to the server, unless it knows a password or the key of the cluster: after any
  message of it, the whole state of the server is as before, except that its own connection is marked to be closed; or
  that the message is a request to authenticate with a name and a password whose hash is the stored one, and then only its own
  session changes, to the level of that user; or that the message is an application with the very key of the cluster that this
  server is in, received on the port of the cluster, and then only its own connection changes, to that of a peer.\<close>

theorem unauthenticated_client_powerless:
  assumes "handle_message pf env stack n msg (s, b) = (r, out, s', b')" and "auth s = UNKNOWN"
    and "server_inv s b" and "sessions (srv_cluster b) n = Some s" and "sound_connections (env_cluster env)"
  shows "s' = s \<and> b' = b \<or>
    s' = s \<and> b' = b\<lparr>srv_cluster := snd (close_client n (srv_cluster b))\<rparr> \<or>
    b' = b \<and> (\<exists>u p i. message_request pf msg = Inr (Auth_Request (request_auth u p)) \<and>
      map_of (m_logins (srv_auth b)) u = Some i \<and> check_hash (env_bcrypt env) p (login_hash i) = Inr True \<and>
      auth s' = login_auth i \<and> session_username s' = Inr u) \<or>
    (\<exists>i key ad pid. message_request pf msg = Inr (Cluster_Request (request_peer_auth i key ad pid)) \<and>
      m_cluster_key (srv_cluster b) = Some key \<and> ce_local_port (env_cluster env) n = m_cluster_port (srv_bind b) \<and>
      s' = \<lparr>session_data = Peer_Data (new_peer_data (ce_now (env_cluster env)) ad (Some pid)), auth = PEER\<rparr> \<and>
      b' = b\<lparr>srv_cluster := (srv_cluster b)\<lparr>m_peers := uset_insert n (m_peers (srv_cluster b)),
        sessions := (sessions (srv_cluster b))(n \<mapsto> s')\<rparr>\<rparr>)"
  using assms
proof (cases rule: unknown_client_effects)
  case (peer i key ad pid)
  then show ?thesis by blast
qed blast+

theorem unauthenticated_client_powerless_witness:
  "\<exists>s' b'. snd (snd (handle_message sample_platform sample_env 10 1 ''RESET'' (new_session, store_session 1 new_session fresh_server))) = (s', b') \<and>
    srv_databases b' = create_databases"
proof -
  let ?b = "store_session 1 new_session fresh_server"
  obtain r out s' b' where run: "handle_message sample_platform sample_env 10 1 ''RESET'' (new_session, ?b) = (r, out, s', b')"
    by (metis prod_cases4)
  have "server_inv new_session ?b" using fresh_unknown by (simp add: server_inv_def store_session_def)
  from unauthenticated_client_powerless [OF run _ this] have "srv_databases b' = srv_databases ?b"
    by (auto simp: new_session_def store_session_def sample_env_def sample_connections fresh_server_def new_cluster_def)
  with run show ?thesis by (simp add: store_session_def fresh_server_def)
qed

text \<open>C21. A new user can log in, with the real hash: if the random device works, adding a user whose name is free (name and password
  of at least four characters) succeeds, whatever the password is; the login that is stored has a hash of sixty characters with the work
  factor of the hasher; and a client that then authenticates with the name and the password becomes that user.\<close>

theorem new_user_logs_in:
  assumes "working_urandom ur" and "4 \<le> length u" and "4 \<le> length p" and "map_of (m_logins st) u = None"
  shows "\<exists>st' h s2. serve_auth (crypt_library ur) (request_add_user u p) (s, st) = (Inr ok, s, st') \<and>
    map_of (m_logins st') u = Some \<lparr>login_hash = h, login_auth = USER\<rparr> \<and> length h = 60 \<and> take 7 h = ''$2a$04$'' \<and>
    serve_auth (crypt_library ur') (request_auth u p) (s1, st') = (Inr ok, s2, st') \<and> auth s2 = USER \<and> session_username s2 = Inr u"
proof -
  obtain h where h: "make_hash (crypt_library ur) p = Inr h" "check_hash (crypt_library ur') p h = Inr True" "length h = 60" "take 7 h = ''$2a$04$''"
    using hash_verifies [OF assms(1)] by blast
  let ?st = "st\<lparr>m_logins := AList.update u \<lparr>login_hash = h, login_auth = USER\<rparr> (m_logins st)\<rparr>"
  obtain st' where st': "persist_logins (s, ?st) = (Inr (), s, st')" "m_logins st' = m_logins ?st"
    using persist_logins_total by blast
  have "serve_auth (crypt_library ur) (request_add_user u p) (s, st) = (Inr ok, s, st')"
    using assms(2-4) h(1) st'(1)
    by (simp add: request_add_user_op_def op_simps set_login_def M_MIN_USERNAME_LENGTH_def M_MIN_PASSWORD_LENGTH_def contains_def bind_o_def return_o_def)
  moreover have "map_of (m_logins st') u = Some \<lparr>login_hash = h, login_auth = USER\<rparr>" by (simp add: st'(2) update_conv)
  moreover from this have "\<exists>s2. serve_auth (crypt_library ur') (request_auth u p) (s1, st') = (Inr ok, s2, st') \<and> auth s2 = USER \<and> session_username s2 = Inr u"
    using assms(3) h(2) by (auto simp: request_auth_op_def op_simps session_set_auth_def update_user_data_def session_user_data_def
        session_username_def M_MIN_PASSWORD_LENGTH_def)
  ultimately show ?thesis using h(3,4) by blast
qed

theorem new_user_logs_in_witness:
  "\<exists>st' h s2. serve_auth (crypt_library sample_urandom) (request_add_user ''anna'' ''secret'') (sample_user, \<lparr>m_logins = [], m_users_db = None, m_auth_fs = (\<lambda>_. None)\<rparr>) =
      (Inr ok, sample_user, st') \<and>
    map_of (m_logins st') ''anna'' = Some \<lparr>login_hash = h, login_auth = USER\<rparr> \<and> length h = 60 \<and>
    serve_auth (crypt_library sample_urandom) (request_auth ''anna'' ''secret'') (\<lparr>session_data = User_Data new_user_data, auth = UNKNOWN\<rparr>, st') = (Inr ok, s2, st') \<and> auth s2 = USER"
  using new_user_logs_in [OF sample_urandom_works, of "''anna''" "''secret''" "\<lparr>m_logins = [], m_users_db = None, m_auth_fs = (\<lambda>_. None)\<rparr>"
      sample_user sample_urandom "\<lparr>session_data = User_Data new_user_data, auth = UNKNOWN\<rparr>"] by fastforce

text \<open>C22. Of a long password only the first seventy-two bytes count: two passwords that agree there (and have no zero byte before) are accepted
  for the same hashes, whatever comes after.\<close>

theorem long_passwords_interchangeable:
  assumes "72 \<le> length (c_str p)" and "take 72 (c_str p) = take 72 (c_str q)"
  shows "check_hash (crypt_library ur) p h = check_hash (crypt_library ur) q h"
  by (rule check_hash_72 [OF assms])

theorem long_passwords_interchangeable_witness:
  "\<exists>h. make_hash (crypt_library sample_urandom) (replicate 80 CHR ''x'') = Inr h \<and>
     check_hash (crypt_library sample_urandom) (replicate 72 CHR ''x'' @ ''yz'') h = Inr True"
proof -
  obtain h where h: "make_hash (crypt_library sample_urandom) (replicate 80 CHR ''x'') = Inr h"
    "check_hash (crypt_library sample_urandom) (replicate 80 CHR ''x'') h = Inr True"
    using hash_verifies [OF sample_urandom_works] by blast
  have "c_str (replicate 80 CHR ''x'') = replicate 80 CHR ''x''" "c_str (replicate 72 CHR ''x'' @ ''yz'') = replicate 72 CHR ''x'' @ ''yz''"
    by (rule c_str_no_zero, auto)+
  then show ?thesis
    using h long_passwords_interchangeable [of "replicate 80 CHR ''x''" "replicate 72 CHR ''x'' @ ''yz''" sample_urandom h] by auto
qed

text \<open>C23. The state of the server stays well formed: whatever message a client sends, with whatever result, afterwards there are
  as many databases as before, the session is a well formed one and selects one of them, the logins have
  distinct names and levels a login may have, and the listener of the cluster is still there.\<close>

theorem any_message_keeps_server_invariant:
  assumes "handle_message pf env stack n msg (s, b) = (r, out, s', b')" and "server_inv s b"
  shows "server_inv s' b'"
  using invariant.handle_user_related [OF assms(1) [unfolded handle_message_def]] assms(2) by simp

theorem any_message_keeps_server_invariant_witness:
  "\<exists>s' b'. snd (snd (handle_message sample_platform sample_env 10 1 ''SWITCH_DB 99'' (sample_user, fresh_server))) = (s', b') \<and>
    server_inv s' b'"
proof -
  obtain r out s' b' where run: "handle_message sample_platform sample_env 10 1 ''SWITCH_DB 99'' (sample_user, fresh_server) = (r, out, s', b')"
    by (metis prod_cases4)
  with any_message_keeps_server_invariant [OF run] fresh_logged_in show ?thesis by (simp add: logged_in_def)
qed

text \<open>C24. No client waits for nothing: handling a message either sends the client at least one response, or the message
  asks to leave, to terminate the server, or to join a cluster (which is answered when the other server has
  replied), or the process is gone. Exceptions of the handlers are answered too.\<close>

theorem every_message_answered:
  assumes "handle_message pf env stack n msg st = (Inr (), out, st')"
  shows "out \<noteq> [] \<or> (\<exists>op. fst (peek_operation \<lparr>m_msg = msg, m_pos = 0\<rparr>) = Inr op \<and> (op = EXIT \<or> op = TERMINATE \<or> op = CLUSTER_JOIN))"
  using answers.handle_user_answers [OF assms [unfolded handle_message_def]] .

theorem every_message_answered_witness:
  "\<exists>out st'. handle_message sample_platform sample_env 10 1 (show_request sample_ftoa (Primitive_Request (request_str_set ''k'' ''v'')))
     (sample_user, fresh_server) = (Inr (), out, st') \<and>
   (out \<noteq> [] \<or> (\<exists>op. fst (peek_operation \<lparr>m_msg = show_request sample_ftoa (Primitive_Request (request_str_set ''k'' ''v'')), m_pos = 0\<rparr>) =
      Inr op \<and> (op = EXIT \<or> op = TERMINATE \<or> op = CLUSTER_JOIN)))"
proof -
  obtain b where run: "handle_message sample_platform sample_env 10 1 (show_request sample_ftoa (Primitive_Request (request_str_set ''k'' ''v'')))
      (sample_user, fresh_server) = (Inr (), [ok], sample_user, b)"
    using sample_set_run by blast
  from every_message_answered [OF run] run show ?thesis by blast
qed

text \<open>C25. The parser stays inside the message: on a platform whose number parser does, and with handlers that are defined, no
  message whatever makes the server read outside its text, in a pipe or not.\<close>

theorem message_parsed_in_bounds:
  assumes "sound_platform pf" and "\<forall>d r st. fst (h d r st) \<noteq> undefined_behaviour" and "fits_size msg"
  shows "fst (handle_user pf h auth_of stack msg st) \<noteq> undefined_behaviour"
  by (rule handle_user_defined [OF assms])

theorem message_parsed_in_bounds_witness:
  "fst (handle_user sample_platform (\<lambda>d r st. (Inr (), [ok], st)) (\<lambda>st. ADMIN) 10 ''SET (99999999999999999999)x'' (0::nat)) \<noteq> undefined_behaviour"
  using message_parsed_in_bounds [OF sample_platform_sound, of "\<lambda>d r (st::nat). (Inr (), [ok], st)" "''SET (99999999999999999999)x''"]
  by (simp add: fits_size_def SIZE_MAX_1_def)

text \<open>C26. A message that any user can send never comes to an end: the position of the parser wraps around to the beginning
  of the pipe it is in, which is then entered again, once per turn deeper on the stack. However large the stack is, it overflows.\<close>

theorem self_calling_pipe_overflows_stack:
  assumes "logged_in s b u"
  shows "fst (handle_message pf env stack n loop_message (s, b)) = Inl StackOverflow"
  by (rule loop_message_crashes [OF assms])

theorem self_calling_pipe_overflows_stack_witness:
  "fst (handle_message sample_platform sample_env 1000 1 loop_message (sample_user, fresh_server)) = Inl StackOverflow"
  by (rule self_calling_pipe_overflows_stack [OF fresh_logged_in])

text \<open>C27. Transactions undo nothing: a value that is set in a transaction is in the database at once, and is still there after the
  transaction has been discarded, although the discard is answered with \<open>OK\<close>.\<close>

theorem discard_does_not_undo:
  assumes "logged_in s b u" and "float_format pf ftoa" and "trn_id u = NO_TRN_ID" and "srv_counter b \<noteq> NO_TRN_ID"
    and "fits_size (show_request ftoa (Transact_Request request_transact_begin))"
    and "fits_size (show_request ftoa (Primitive_Request (request_str_set k v)))"
    and "fits_size (show_request ftoa (Transact_Request request_transact_discard))"
  shows "\<exists>s1 b1 b2 s3 b3.
    handle_message pf env stack n (show_request ftoa (Transact_Request request_transact_begin)) (s, b) = (Inr (), [ok], s1, b1) \<and>
    handle_message pf env stack n (show_request ftoa (Primitive_Request (request_str_set k v))) (s1, b1) = (Inr (), [ok], s1, b2) \<and>
    handle_message pf env stack n (show_request ftoa (Transact_Request request_transact_discard)) (s1, b2) = (Inr (), [ok], s3, b3) \<and>
    view t (srv_databases b3 ! used_database u) k = Some (VStr v, None)"
proof -
  let ?i = "srv_counter b" and ?u = "u\<lparr>trn_id := srv_counter b\<rparr>"
  let ?s = "with_trn ?i s u"
  obtain b1 where b1: "handle_message pf env stack n (show_request ftoa (Transact_Request request_transact_begin) @ []) (s, b) = (Inr (), [ok], ?s, b1)"
    "logged_in ?s b1 ?u"
    using begin_message [OF assms(1,2) _ assms(3), of "[]" env stack n] assms(5) by auto
  obtain b2 where b2: "handle_message pf env stack n (show_request ftoa (Primitive_Request (request_str_set k v)) @ []) (?s, b1) = (Inr (), [ok], ?s, b2)"
    "logged_in ?s b2 ?u" "view t (srv_databases b2 ! used_database u) k = Some (VStr v, None)"
    using set_message [OF b1(2) assms(2), of "[]" k v env stack n] assms(6) by auto
  obtain b3 s3 where "handle_message pf env stack n (show_request ftoa (Transact_Request request_transact_discard) @ []) (?s, b2) = (Inr (), [ok], s3, b3)"
    "\<forall>t i. view t (srv_databases b3 ! i) = view t (srv_databases b2 ! i)"
    using discard_message [OF b2(2) assms(2), of "[]" env stack n] assms(4,7) by auto
  with b1(1) b2(1,3) show ?thesis by auto
qed

theorem discard_does_not_undo_witness:
  "\<exists>s1 b1 b2 s3 b3.
    handle_message sample_platform sample_env 10 1 (show_request sample_ftoa (Transact_Request request_transact_begin)) (sample_user, fresh_server) =
      (Inr (), [ok], s1, b1) \<and>
    handle_message sample_platform sample_env 10 1 (show_request sample_ftoa (Primitive_Request (request_str_set ''k'' ''v''))) (s1, b1) = (Inr (), [ok], s1, b2) \<and>
    handle_message sample_platform sample_env 10 1 (show_request sample_ftoa (Transact_Request request_transact_discard)) (s1, b2) = (Inr (), [ok], s3, b3) \<and>
    view 30 (srv_databases b3 ! 0) ''k'' = Some (VStr ''v'', None)"
  using discard_does_not_undo [OF fresh_logged_in sample_float_format _ _ sample_fits(3,1,4), of sample_env 10 1 30]
  by (simp add: fresh_server_def new_user_data_def NO_TRN_ID_def new_counter_def FIRST_CLIENT_TRN_ID_def)

section \<open>Connections\<close>

text \<open>C28. Framing loses and mixes up nothing: if the reads of a connection find the bytes of the messages that were sent, in
  pieces of any size (but the length of a message in one piece), the reader hands exactly these messages, in order, to
  the server, after at most as many calls as there are bytes, and is ready for the next one.\<close>

theorem reader_delivers_messages:
  assumes "stream s = concat (map frame ms)" and "spos s = 0" and "\<forall>m \<in> set ms. m \<noteq> [] \<and> length m < 2 ^ 32"
    and "\<forall>p < length (stream s). 0 < avail s p"
    and "\<forall>i < length ms. 4 \<le> avail s (length (concat (map frame (take i ms))))"
  shows "\<exists>n s'. n \<le> length (stream s) \<and> run_reader n new_reader s = (ms, new_reader, s') \<and> spos s' = length (stream s)"
  using run_reader_between [of ms new_reader s] assms by (auto simp: between_def)

theorem reader_delivers_messages_witness:
  "\<exists>n s'. run_reader n new_reader
     \<lparr>stream = concat (map frame [''PING'', ''GET (1)k'']), spos = 0, avail = (\<lambda>p. if p = 4 then 1 else 7), closed = False\<rparr> =
     ([''PING'', ''GET (1)k''], new_reader, s')"
proof -
  let ?s = "\<lparr>stream = concat (map frame [''PING'', ''GET (1)k'']), spos = 0, avail = (\<lambda>p. if p = 4 then 1 else 7), closed = False\<rparr>"
  have "\<exists>n s'. n \<le> length (stream ?s) \<and> run_reader n new_reader ?s = ([''PING'', ''GET (1)k''], new_reader, s') \<and> spos s' = length (stream ?s)"
    by (rule reader_delivers_messages) (auto simp: less_Suc_eq length_frame)
  then show ?thesis by blast
qed

text \<open>C29. The pointers that the kernel holds are good: however connections are accepted, opened and removed, writers wait and
  finish, and listeners are bound and unbound, a pointer that a call of \<^verbatim>\<open>epoll_wait\<close> returns, for reading or
  for writing, is to an object that is alive, whose descriptor is open and belongs to no other object.\<close>

theorem epoll_pointers_alive:
  assumes "fd_step\<^sup>*\<^sup>* no_sockets s" and "epoll = m_read_epoll s \<or> epoll = m_write_epoll s"
    and "wait_returns epoll ptrs" and "ptr \<in> set ptrs"
  shows "\<exists>ob. map_of (objects s) ptr = Some ob \<and> socket_fd ob \<in> set (open_fds s) \<and>
           (\<forall>p ob'. map_of (objects s) p = Some ob' \<and> socket_fd ob' = socket_fd ob \<longrightarrow> p = ptr)"
  by (rule watched_alive [OF fd_reachable_inv [OF assms(1)] assms(2-4)])

text \<open>A listener with descriptor 3 and a connection with descriptor 4.\<close>

definition listening :: net where
  "listening = snd (bind_listener ''localhost'' 9955 3 (Inr ()) no_sockets)"

definition one_client :: net where
  "one_client = snd (listener_ready 3 4 listening)"

lemmas net_simps = bind_listener_def listener_ready_def server_accept_def add_tcp_client_def new_object_def epoll_add_def sys_open_def
  find_listener_def no_sockets_def Let_def contains_def

lemma listening_is: "listening = \<lparr>open_fds = [3], m_read_epoll = [(3, 0)], m_write_epoll = [], objects = [(0, Listener ''localhost'' 9955 3)], next_object = 1\<rparr>"
  by (simp add: listening_def net_simps)

lemma one_client_is:
  "one_client = \<lparr>open_fds = [4, 3], m_read_epoll = [(3, 0), (4, 1)], m_write_epoll = [],
     objects = [(1, Client_Handler 4), (0, Listener ''localhost'' 9955 3)], next_object = 2\<rparr>"
  by (simp add: one_client_def listening_is net_simps)

lemma one_client_reached: "fd_step\<^sup>*\<^sup>* no_sockets one_client"
proof -
  have "fd_step no_sockets listening"
    unfolding listening_def by (rule fd_step.bind_step) (simp add: fresh_fd_def no_sockets_def)
  moreover have "fd_step listening one_client"
    unfolding one_client_def
    by (rule fd_step.accept_step [of _ 0 "''localhost''" 9955]) (simp_all add: listening_is fresh_fd_def)
  ultimately show ?thesis by (meson rtranclp.simps)
qed

lemma one_client_batch: "wait_returns (m_read_epoll one_client) [1, 0]"
proof -
  have "map_of (m_read_epoll one_client) 4 = Some 1" "map_of (m_read_epoll one_client) 3 = Some 0" by (simp_all add: one_client_is)
  then show ?thesis by (auto simp: wait_returns_def intro: ranI)
qed

theorem epoll_pointers_alive_witness:
  "wait_returns (m_read_epoll one_client) [1, 0] \<and> (\<exists>ob. map_of (objects one_client) 1 = Some ob \<and> socket_fd ob \<in> set (open_fds one_client))"
proof -
  from epoll_pointers_alive [OF one_client_reached _ one_client_batch, of 1] one_client_batch show ?thesis by auto
qed

text \<open>C30. They need not stay good until they are used, since the events of one call are handled in turn: when a client unbinds a
  listener, and a connection to that listener is waiting in the same batch, the server calls the listener
  that it has destroyed.\<close>

theorem unbound_listener_dangles:
  assumes "map_of (objects s) c = Some (Client_Handler fd)" and "find_listener host (nat port) (objects s) = Some (l, fd')"
    and "0 < port" and "port \<le> 65535" and "(host, nat port) \<in> set (m_listeners st)" and "length (m_listeners st) \<noteq> 1"
    and "(host, nat port) \<noteq> (m_host st, m_cluster_port st)"
    and "ready c = client_unbinds host port ss"
  shows "fst (ready_all ready [c, l] (s, st)) = undefined_behaviour"
proof -
  obtain st' where "ready c (s, st) = (Inr (), unbind_listener host (nat port) s, st')"
    using client_unbinds_run [OF assms(3-7), of ss s] by (auto simp: assms(8))
  with assms(1) unbind_destroys [OF assms(2)] show ?thesis by (simp add: contains_def)
qed

theorem unbound_listener_dangles_witness:
  "wait_returns (m_read_epoll one_client) [1, 0] \<and>
   fst (ready_all (\<lambda>ptr. client_unbinds ''localhost'' 9955 sample_user) [1, 0]
     (one_client, sample_bind)) = undefined_behaviour"
proof -
  have "map_of (objects one_client) 1 = Some (Client_Handler 4)" "find_listener ''localhost'' (nat 9955) (objects one_client) = Some (0, 3)"
    by (simp_all add: one_client_is find_listener_def)
  with one_client_batch show ?thesis by (intro conjI unbound_listener_dangles) (simp_all add: sample_bind_def)
qed

text \<open>C31. A message that stalls after its length ends the process: when the four bytes of the length have arrived and nothing of the
  body, \<^verbatim>\<open>EAGAIN\<close> is thrown where the body is read, and nobody between there and the thread of the event
  loop catches it. Any client can do this, in every state of the server, without a password.\<close>

theorem stalled_message_ends_server:
  assumes "0 < length m" and "length m < 2 ^ 32" and "drop (spos s) (stream s) = take 4 (frame m)"
    and "avail s (spos s) \<ge> 4" and "\<not> closed s" and "m_message_left r = 0"
    and "n \<notin> set (closed_clients (srv_cluster b))"
  shows "after_event (fst (tcp_client_ready pf env stack n r s b)) = Terminated"
  using stalled_read [OF assms(1-6)] assms(7) by (auto simp: tcp_client_ready_def split: prod.splits sum.splits)

theorem stalled_message_ends_server_witness:
  "after_event (fst (tcp_client_ready sample_platform sample_env 10 1 new_reader
     \<lparr>stream = take 4 (frame ''PING''), spos = 0, avail = (\<lambda>p. 4), closed = False\<rparr> fresh_server)) = Terminated"
  by (rule stalled_message_ends_server [of "''PING''"]) (simp_all add: new_reader_def fresh_server_def new_cluster_def)

text \<open>C32. Whatever connections come and go, authenticate, become peers, subscribe and unsubscribe: when the queue of published messages is
  worked off and no write to a live connection throws, this does not fail, and a connection receives exactly the messages on the
  channels it is subscribed to, each once and in the order they were published. (Requests in pipes are excluded: a subscription made there is left dangling.)\<close>

theorem published_messages_delivered:
  assumes "unpiped N" and "net_sessions N n = Some s" and "\<forall>m. net_sessions N m \<noteq> None \<longrightarrow> sends m = Inr ()"
  shows "\<exists>out P. event_publish (\<lambda>n. net_sessions N n \<noteq> None) sends (net_pubsub N) = Inr (out, P) \<and> m_publish_queue P = [] \<and>
    received n out = due (session_channel_set s) (m_publish_queue (net_pubsub N))"
  by (rule event_publish_delivers [OF assms])

theorem published_messages_delivered_witness:
  "\<exists>out P. event_publish (\<lambda>n. net_sessions sample_net n \<noteq> None) (\<lambda>n. Inr ()) (net_pubsub sample_net) = Inr (out, P) \<and>
     received 1 out = [async serialize_publish \<lparr>pd_channel = ''ch'', pd_message = ''hi''\<rparr>]"
proof -
  have "net_sessions sample_net 1 = Some (subscriber [''ch''])" by (simp add: sample_net_def)
  moreover have "due (session_channel_set (subscriber [''ch''])) (m_publish_queue (net_pubsub sample_net)) =
      [async serialize_publish \<lparr>pd_channel = ''ch'', pd_message = ''hi''\<rparr>]"
    by (simp add: sample_net_def due_def session_channel_set_def session_channels_def session_user_data_def subscriber_def)
  ultimately show ?thesis using published_messages_delivered [OF sample_net_unpiped, of 1 "subscriber [''ch'']" "\<lambda>n. Inr ()"] by auto
qed

section \<open>The life of the server\<close>

text \<open>C33. A stop and a start with the same configuration lose nothing: the stop persists the databases, and the server that is made
  from the files it leaves, after its recovery from the log, shows every client at any later time the databases that
  were persisted.\<close>

theorem stop_and_start_keeps_databases:
  assumes "distinct_files (ps_files w d j)" and "cfg_wal_file cfg = Some w" and "cfg_db_file cfg = Some d" and "cfg_journal_file cfg = Some j"
    and "ps_wal_file (srv_persist b) = Some w" and "ps_db_file (srv_persist b) = Some d" and "ps_journal_file (srv_persist b) = Some j"
    and "settled (srv_databases b)" and "wf_dbs (srv_databases b)" and "length (srv_databases b) = M_NUM_DATABASES"
    and "\<forall>db \<in> set (m_databases (purge_all (mc_now (env_machine env)) (ps_locked (srv_persist b)))). fits db"
    and "new_auth_server (env_bcrypt env') password (cfg_auth_file cfg) auth_fs = Inr au"
  shows "\<exists>b' b''. server_stop env b = Inr b' \<and> new_server env' password cfg auth_fs (ps_fs (srv_persist b')) = Inr b'' \<and>
    srv_auth b'' = au \<and>
    views (mc_now (env_machine env')) (srv_databases b'') =
      views (mc_now (env_machine env')) (m_databases (purge_all (mc_now (env_machine env)) (ps_locked (srv_persist b))))"
  using stop_and_start [OF assms] by blast

theorem stop_and_start_keeps_databases_witness:
  "\<exists>b' b''. server_stop sample_env stored_server = Inr b' \<and>
     new_server sample_env None sample_config (\<lambda>_. None) (ps_fs (srv_persist b')) = Inr b'' \<and>
     views 30 (srv_databases b'') = views 30 create_databases"
proof -
  have "distinct_files (ps_files ''/v/wal'' ''/v/db'' ''/v/j'')"
    using sample_files_distinct by (simp add: sample_files_def ps_files_def)
  moreover have "purge_all 30 \<lparr>m_databases = create_databases, m_wal_file = Some []\<rparr> = \<lparr>m_databases = create_databases, m_wal_file = Some []\<rparr>"
    by (rule purge_nothing) (use create_databases_clean(4) in auto)
  moreover have "\<exists>au. new_auth_server sample_bcrypt None None (\<lambda>_. None) = Inr au"
    by (simp add: new_auth_server_def default_auth_info_def make_hash_def sample_bcrypt_def)
  ultimately show ?thesis
    using stop_and_start_keeps_databases [of "''/v/wal''" "''/v/db''" "''/v/j''" sample_config stored_server sample_env sample_env None "\<lambda>_. None"]
      create_databases_clean
    by (auto simp: sample_config_def stored_server_def sample_env_def sample_machine_def)
qed

text \<open>C34. No wake-up is lost in the queue of events, whatever number of threads call its methods, however they are interleaved at every
  point between lock, unlock, wait and notify, and although the kernel may wake threads without a reason: from every state
  that can be reached, the threads that are inside go on for a bounded number of steps only, and where none of them can go on any
  more, the queue is empty or no thread is left in \<^verbatim>\<open>get\<close>.\<close>

theorem no_lost_wakeup:
  assumes "queue_step\<^sup>*\<^sup>* (new_queue n) s" and "(queue_run ^^ k) s t"
  shows "k \<le> queue_work s \<and>
    ((\<nexists>u. queue_run t u) \<longrightarrow> m_queue t = [] \<or> (\<forall>p \<in> set (q_threads t). p = Idle \<or> (\<exists>x. p = Got x)))"
  using queue_threads.bounded [OF assms(2)] queue_blocked_empty [OF _ queue_reachable_inv [OF queue_reachable_runs [OF assms]]] by auto

theorem no_lost_wakeup_witness:
  "queue_step\<^sup>*\<^sup>* (new_queue 2) (set_thread 0 Get_Start (new_queue 2) :: nat shared_queue) \<and>
   (\<exists>t. (queue_run ^^ 2) (set_thread 0 Get_Start (new_queue 2) :: nat shared_queue) t \<and>
      ((\<nexists>u. queue_run t u) \<longrightarrow> m_queue t = [] \<or> (\<forall>p \<in> set (q_threads t). p = Idle \<or> (\<exists>x. p = Got x))))"
proof -
  let ?s = "set_thread 0 Get_Start (new_queue 2) :: nat shared_queue"
  let ?u = "set_thread 0 Get_Locked (?s\<lparr>q_mutex := Some 0\<rparr>)"
  have called: "queue_step\<^sup>*\<^sup>* (new_queue 2) ?s"
    by (rule r_into_rtranclp) (rule queue_step.queue_called, simp_all add: new_queue_def)
  have "queue_run ?s ?u"
    by (rule queue_run.get_locks) (simp_all add: new_queue_def set_thread_def)
  moreover have "queue_run ?u (set_thread 0 Get_Waiting (?u\<lparr>q_mutex := None\<rparr>))"
    by (rule queue_run.get_waits) (simp_all add: new_queue_def set_thread_def queue_get_def)
  ultimately have "(queue_run ^^ 2) ?s (set_thread 0 Get_Waiting (?u\<lparr>q_mutex := None\<rparr>))"
    by (auto simp: numeral_2_eq_2)
  with no_lost_wakeup [OF called this] called show ?thesis by blast
qed

text \<open>C35. Once a terminating event is in, the four event loops end: no run of them, in whatever order the threads take turns, has more
  turns than the events in the queue and the threads account for, and when no thread can take a turn all of them
  have returned. (The turns of the loops are counted; what handlers and other threads push in between are steps of the whole server, C36.)\<close>

theorem event_loops_end:
  assumes "terminating s" and "(loop_step ^^ n) s s'"
  shows "n \<le> loop_work s \<and> ((\<exists>t. loop_step s' t) \<or> list_all ((=) Returned) (workers s'))"
  using loops_end [OF assms] by simp

theorem event_loops_end_witness:
  "\<exists>s'. (loop_step ^^ 1) (push_event terminate_event started) s' \<and> ((\<exists>t. loop_step s' t) \<or> list_all ((=) Returned) (workers s'))"
proof -
  let ?s = "push_event terminate_event started"
  have "loop_step ?s (set_worker 0 (take_up terminate_event) (?s\<lparr>m_event_queue := [], taken := taken ?s @ [terminate_event]\<rparr>))"
    by (rule take_event) (simp_all add: push_event_def started_def queue_push_def queue_get_def M_THREADS_def)
  then have "(loop_step ^^ 1) ?s (set_worker 0 (take_up terminate_event) (?s\<lparr>m_event_queue := [], taken := taken ?s @ [terminate_event]\<rparr>))"
    by auto
  with event_loops_end [OF _ this] show ?thesis
    by (auto simp: terminating_def push_event_def queue_push_def)
qed

text \<open>C36. The server stops only when its work is done: when the main thread goes on to persist and to free the connections, all loops have
  returned, so that nothing else touches them, and every event that was pushed before the first terminating one has been taken from the queue, in order,
  and has been handled.\<close>

theorem events_handled_before_stop:
  assumes "reachable s" and "main_thread s \<noteq> In_Loops"
  shows "list_all ((=) Returned) (workers s) \<and>
    takeWhile ((\<noteq>) terminate_event) (pushed s) = takeWhile ((\<noteq>) terminate_event) (taken s) \<and>
    mset (filter ((\<noteq>) terminate_event) (taken s)) = mset (handled s)"
  using stop_after_events [OF assms] by simp

theorem events_handled_before_stop_witness:
  "\<exists>s. reachable s \<and> main_thread s = Queue_Cleared \<and> mset (filter ((\<noteq>) terminate_event) (taken s)) = mset (handled s)"
proof -
  obtain s where s: "reachable s" "list_all ((=) Returned) (workers s)" "main_thread s = In_Loops" using loops_returned_reachable by blast
  let ?s = "s\<lparr>main_thread := Queue_Cleared, m_event_queue := queue_clear (m_event_queue s)\<rparr>"
  have "reachable ?s" by (rule reachable_step [OF s(1) loops_joined [OF s(3,2)]])
  with events_handled_before_stop [OF this] show ?thesis by (intro exI [of _ ?s]) simp
qed

text \<open>C37. The shutdown can hang: after the loops have returned, one ready descriptor (a client that connects is enough) makes the polling thread push
  an event and wait for a thread to handle it. There is none left, the main thread waits for the polling thread, and no continuation of
  the run stops the server.\<close>

theorem shutdown_can_hang:
  "\<exists>s. reachable s \<and> \<not> (\<exists>s'. server_step\<^sup>*\<^sup>* s s' \<and> main_thread s' = Stopped)"
proof -
  obtain s where "reachable s" "hung s" using hung_reachable by blast
  moreover from this(2) have "hung s'" if "server_step\<^sup>*\<^sup>* s s'" for s' using hung_forever that by blast
  ultimately show ?thesis by (auto simp: hung_def)
qed

text \<open>C38. Events are repeated on schedule: however late the turns of the loop are, the pushes of an event are due at the multiples of its interval
  since the start, none is left out, they are made in the order in which they are due, and no event starves: while one has been pushed for \<open>i * n\<close>
  microseconds, any other has been for all but its last interval.\<close>

theorem repeated_events_on_schedule:
  assumes "repeat_loop t0 ts (register_events f now) = (log, q)" and "\<forall>t \<in> set ts. \<forall>n. \<not> snd t n"
    and "(a, i) \<in> set (registered_events f)" and "(b, j) \<in> set (registered_events f)"
  shows "length log = length ts \<and> sorted (map re_next log) \<and>
    map re_next (pushes a log) = map (\<lambda>k. t0 + 1000 * i * int k) [1..<Suc (length (pushes a log))] \<and>
    i * int (length (pushes a log)) \<le> j * (int (length (pushes b log)) + 1)"
proof -
  note sched = server_schedule [OF assms(1,2)]
  have "0 \<le> j" using assms(4) by (auto simp: registered_events_def split: if_splits)
  from on_schedule_fair [OF sched(1) assms(3,4) this] sched assms(3) show ?thesis
    by (auto simp: on_schedule_def due_at_def microseconds_def simp del: upt_Suc)
qed

theorem repeated_events_on_schedule_witness:
  "map re_next (pushes expire_event (fst (repeat_loop 7 [(0, \<lambda>n. False), (0, \<lambda>n. False), (99, \<lambda>n. False)] (register_events True 0)))) =
     map (\<lambda>k. 7 + 10000000000 * int k)
       [1..<Suc (length (pushes expire_event (fst (repeat_loop 7 [(0, \<lambda>n. False), (0, \<lambda>n. False), (99, \<lambda>n. False)] (register_events True 0)))))]"
proof -
  let ?ts = "[(0, \<lambda>n. False), (0, \<lambda>n. False), (99, \<lambda>n. False)]"
  obtain log q where run: "repeat_loop 7 ?ts (register_events True 0) = (log, q)" by fastforce
  from repeated_events_on_schedule [OF run, of expire_event 10000000 expire_event 10000000] run show ?thesis
    by (simp add: registered_events_def del: upt_Suc)
qed

section \<open>The cluster\<close>

text \<open>C39. No message of a peer brings the server down or spoils the state of the cluster: whatever the text, the handler returns (every
  exception ends inside it), and afterwards peers are connections with the session of a peer, whoever waits for a pending application is
  alive, the votes refer to issues that exist, and key and id of the cluster are there together. The one exception is a server that has
  used up all ids of messages. (Writes to connections that are there are taken to succeed.)\<close>

theorem peer_message_cannot_crash:
  assumes "sound_env ce" and "fits_size msg" and "cluster_ok c" and "is_peer c n" and "handle_peer ce n msg c = (r, c')"
    and "m_next_id c' < INT64_MAX"
  shows "r = Inr () \<and> cluster_ok c'"
proof -
  have "cluster_ok c' \<and> outcome False nothing r c'"
    using handle_peer_sound [OF assms(1,2), of n] assms(3-5) by (auto simp: sound_def)
  with assms(6) show ?thesis by (cases r) (auto simp: outcome_def split: if_splits)
qed

definition peer_connection :: cluster_server where
  "peer_connection = new_cluster\<lparr>m_peers := [1], m_cluster_key := Some ''a long cluster key'', m_cluster_id := Some ''the first server'',
     sessions := [1 \<mapsto> \<lparr>session_data = Peer_Data (new_peer_data 0 ''there:1'' (Some ''the other server'')), auth = PEER\<rparr>]\<rparr>"

lemma peer_connection_ok: "cluster_ok peer_connection" "is_peer peer_connection 1"
  by (simp_all add: cluster_ok_def peer_connection_def new_cluster_def is_peer_def wf_session_def)

theorem peer_message_cannot_crash_witness:
  "fst (handle_peer sample_cluster_env 1 (''REPLY'' @ int_to_string 5 @ '' OK'') peer_connection) = Inr ()"
proof -
  let ?msg = "''REPLY'' @ int_to_string 5 @ '' OK''"
  obtain r c' where run: "handle_peer sample_cluster_env 1 ?msg peer_connection = (r, c')" by fastforce
  have fits: "fits_size ?msg" by (simp add: fits_size_def SIZE_MAX_1_def int_to_string_def to_string.simps)
  have "handle_peer_inner sample_cluster_env 1 ?msg peer_connection = report_peer sample_cluster_env 1 BAD_REPLY peer_connection"
    using unexpected_reply [of 5 "''OK''" peer_connection sample_cluster_env 1] fits
    by (simp add: kind_words int64_ok_def peer_connection_def new_cluster_def)
  with run have "m_next_id c' = 0"
    by (auto simp: handle_peer_def report_peer_def assign_c_def session_c_def update_peer_data_def session_peer_data_def bind_c_def comp_simps
        peer_connection_def new_peer_data_def M_MAX_SCORE_def new_cluster_def)
  then have "m_next_id c' < INT64_MAX" by (simp add: INT64_MAX_def)
  with peer_message_cannot_crash [OF sample_cluster_sound fits peer_connection_ok run] run show ?thesis by simp
qed

text \<open>C40. A client that asks to join a cluster and leaves before the other server has answered leaves a pointer behind: its connection is removed, the
  application is not, and the reply (here a refusal) is sent to a connection that has been freed.\<close>

theorem departed_joiner_crashes:
  assumes "int64_ok i" and "fits_size (reply_head i status_DENIED)"
    and "map_of (m_expected_ops c) i = Some op_PEER_AUTH" and "map_of (m_pending_peer_auths c) i = Some p"
    and "pa_client p = Some (Tcp_Client j)" and "sessions c j \<noteq> None" and "sessions c n \<noteq> None" and "j \<noteq> n"
  shows "\<exists>c'. remove_client j c = (Inr (), c') \<and> fst (handle_peer ce n (reply_head i status_DENIED) c') = undefined_behaviour"
  by (rule departed_joiner [OF assms])

definition joining_server :: cluster_server where
  "joining_server = peer_connection\<lparr>m_next_id := 1, m_expected_ops := [(0, op_PEER_AUTH)],
     m_pending_peer_auths := [(0, \<lparr>pa_key = ''a long cluster key'', pa_own_id = ''the first server'', pa_client = Some (Tcp_Client 2)\<rparr>)],
     sessions := (sessions peer_connection)(2 \<mapsto> new_session)\<rparr>"

theorem departed_joiner_crashes_witness:
  "\<exists>c'. remove_client 2 joining_server = (Inr (), c') \<and>
     fst (handle_peer sample_cluster_env 1 (reply_head 0 status_DENIED) c') = undefined_behaviour"
  by (rule departed_joiner_crashes [where p = "\<lparr>pa_key = ''a long cluster key'', pa_own_id = ''the first server'', pa_client = Some (Tcp_Client 2)\<rparr>"])
     (simp_all add: joining_server_def peer_connection_def int64_ok_def reply_head_fits)

end
